(* ===== verification/Prelude.thy ===== *)
theory Prelude
  imports Main "HOL-Library.Word" "HOL-Library.Char_ord"
begin

text \<open>
  What every component of the operator shares: Go errors and fallible results,
  decimal printing, the string routines of the Go standard library the code
  calls, association lists standing for Go maps, and the generic lemmas on
  lists that the component theories rest on.

  A Go \<open>error\<close> is a value with a message; the operator asks of an error only
  whether it is a Kubernetes \<open>NotFound\<close> (\<open>apiErrors.IsNotFound\<close>) and what its
  text is.  \<open>fmt.Errorf\<close> with \<open>%s\<close> builds a fresh error, with \<open>%w\<close> it keeps the
  wrapped one visible to \<open>IsNotFound\<close>.

  A stateful Go call is a function \<open>'w \<Rightarrow> 'a \<times> 'w\<close> on a world of type \<open>'w\<close>.
\<close>

named_theorems go_simps "unfolding rules of the shared Go-level definitions"

subsection \<open>Errors\<close>

record go_error =
  err_msg :: string
  err_not_found :: bool

type_synonym 'a fallible = "go_error + 'a"
type_synonym ('w, 'a) effect = "'w \<Rightarrow> 'a \<times> 'w"

definition errorf :: "string \<Rightarrow> go_error" where
  "errorf msg = \<lparr>err_msg = msg, err_not_found = False\<rparr>"

definition errorf_w :: "string \<Rightarrow> go_error \<Rightarrow> go_error" where
  "errorf_w msg e = \<lparr>err_msg = msg @ err_msg e, err_not_found = err_not_found e\<rparr>"

lemma errorf_sel [simp]:
  "err_msg (errorf m) = m" "err_not_found (errorf m) = False"
  by (simp_all add: errorf_def)

lemma errorf_w_sel [simp]:
  "err_msg (errorf_w m e) = m @ err_msg e"
  "err_not_found (errorf_w m e) = err_not_found e"
  by (simp_all add: errorf_w_def)

lemma errorf_eq_iff [simp]: "errorf a = errorf b \<longleftrightarrow> a = b"
  by (simp add: errorf_def)

lemma map_sum_id_eq [simp]:
  "map_sum id f x = Inl e \<longleftrightarrow> x = Inl e"
  "map_sum id f x = Inr y \<longleftrightarrow> (\<exists>z. x = Inr z \<and> y = f z)"
  by (cases x; auto)+

text \<open>\<open>x, err := m; if err != nil { return err }; f(x)\<close>, the same with the error wrapped by
  \<open>%s\<close>, and the same for a call that returns only an error.\<close>

definition eff_return :: "'a \<Rightarrow> ('w, 'a fallible) effect" where
  "eff_return x w = (Inr x, w)"

definition eff_fail :: "go_error \<Rightarrow> ('w, 'a fallible) effect" where
  "eff_fail e w = (Inl e, w)"

definition eff_bind :: "('w, 'a fallible) effect \<Rightarrow> ('a \<Rightarrow> ('w, 'b fallible) effect) \<Rightarrow> ('w, 'b fallible) effect" where
  "eff_bind m f w = (case m w of (Inl e, w1) \<Rightarrow> (Inl e, w1) | (Inr x, w1) \<Rightarrow> f x w1)"

definition eff_wrap :: "string \<Rightarrow> ('w, 'a fallible) effect \<Rightarrow> ('w, 'a fallible) effect" where
  "eff_wrap msg m w = (case m w of (Inl e, w1) \<Rightarrow> (Inl (errorf (msg @ err_msg e)), w1) | (Inr x, w1) \<Rightarrow> (Inr x, w1))"

definition eff_check :: "('w, go_error option) effect \<Rightarrow> ('w, unit fallible) effect" where
  "eff_check m w = (case m w of (Some e, w1) \<Rightarrow> (Inl e, w1) | (None, w1) \<Rightarrow> (Inr (), w1))"

definition eff_lift :: "'a fallible \<Rightarrow> ('w, 'a fallible) effect" where
  "eff_lift r w = (r, w)"

fun eff_map :: "('a \<Rightarrow> ('w, 'b fallible) effect) \<Rightarrow> 'a list \<Rightarrow> ('w, 'b list fallible) effect" where
  "eff_map f [] = eff_return []"
| "eff_map f (x # xs) = eff_bind (f x) (\<lambda>y. eff_bind (eff_map f xs) (\<lambda>ys. eff_return (y # ys)))"

definition wrap_err :: "string \<Rightarrow> 'a fallible \<Rightarrow> 'a fallible" where
  "wrap_err msg r = (case r of Inl e \<Rightarrow> Inl (errorf (msg @ err_msg e)) | Inr x \<Rightarrow> Inr x)"

lemma eff_bind_simps [simp]:
  "m w = (Inl e, w1) \<Longrightarrow> eff_bind m f w = (Inl e, w1)"
  "m w = (Inr x, w1) \<Longrightarrow> eff_bind m f w = f x w1"
  by (simp_all add: eff_bind_def)

lemma eff_wrap_simps [simp]:
  "m w = (Inl e, w1) \<Longrightarrow> eff_wrap msg m w = (Inl (errorf (msg @ err_msg e)), w1)"
  "m w = (Inr x, w1) \<Longrightarrow> eff_wrap msg m w = (Inr x, w1)"
  by (simp_all add: eff_wrap_def)

lemma eff_basic_simps [simp]:
  "eff_return x w = (Inr x, w)" "eff_fail e w = (Inl e, w)" "eff_lift r w = (r, w)"
  by (simp_all add: eff_return_def eff_fail_def eff_lift_def)

lemma eff_bind_Inr_iff:
  "eff_bind m f w = (Inr y, w2) \<longleftrightarrow> (\<exists>x w1. m w = (Inr x, w1) \<and> f x w1 = (Inr y, w2))"
  by (auto simp: eff_bind_def split: prod.splits sum.splits)

lemma eff_wrap_Inr_iff [simp]: "eff_wrap msg m w = (Inr y, w1) \<longleftrightarrow> m w = (Inr y, w1)"
  by (auto simp: eff_wrap_def split: prod.splits sum.splits)

lemma eff_check_iff [simp]:
  "eff_check m w = (Inr u, w1) \<longleftrightarrow> m w = (None, w1)"
  "eff_check m w = (Inl e, w1) \<longleftrightarrow> m w = (Some e, w1)"
  by (auto simp: eff_check_def split: prod.splits option.splits)

lemma wrap_err_Inr [simp]: "wrap_err msg r = Inr x \<longleftrightarrow> r = Inr x" "wrap_err msg (Inr x) = Inr x"
  by (auto simp: wrap_err_def split: sum.splits)

text \<open>An effect preserves an observation of the state when running it, with whatever outcome,
  leaves the observation as it was.\<close>

named_theorems preserves_intros \<open>rules for effects that preserve an observation\<close>

definition preserves :: "('w \<Rightarrow> 'b) \<Rightarrow> ('w, 'a) effect \<Rightarrow> bool" where
  "preserves obs m = (\<forall>w. obs (snd (m w)) = obs w)"

lemma preservesI:
  assumes "\<And>w x w'. m w = (x, w') \<Longrightarrow> obs w' = obs w"
  shows "preserves obs m"
  unfolding preserves_def using assms[OF surjective_pairing] by simp

lemma preservesD: "preserves obs m \<Longrightarrow> m w = (x, w') \<Longrightarrow> obs w' = obs w"
  by (metis preserves_def snd_conv)

lemma preserves_basic [preserves_intros]:
  "preserves obs (eff_return x)" "preserves obs (eff_fail e)" "preserves obs (eff_lift r)"
  by (simp_all add: preserves_def)

lemma preserves_bind [preserves_intros]:
  assumes "preserves obs m" and "\<And>x. preserves obs (f x)"
  shows "preserves obs (eff_bind m f)"
proof (rule preservesI)
  fix w y w'
  assume run: "eff_bind m f w = (y, w')"
  obtain x w1 where m: "m w = (x, w1)" by fastforce
  show "obs w' = obs w"
    using run m preservesD[OF assms(1) m] preservesD[OF assms(2)] by (cases x) (auto simp: eff_bind_def)
qed

lemma preserves_wrap [preserves_intros]: "preserves obs m \<Longrightarrow> preserves obs (eff_wrap msg m)"
  by (auto simp: preserves_def eff_wrap_def split: prod.split sum.split) (metis snd_conv)+

lemma preserves_check [preserves_intros]: "preserves obs m \<Longrightarrow> preserves obs (eff_check m)"
  by (auto simp: preserves_def eff_check_def split: prod.split option.split) (metis snd_conv)+

lemma preserves_map [preserves_intros]: "(\<And>x. preserves obs (f x)) \<Longrightarrow> preserves obs (eff_map f xs)"
  by (induction xs) (auto intro!: preserves_intros)

text \<open>\<open>types.NamespacedName\<close>: the key of a Kubernetes object.\<close>

record nsname =
  ns_Namespace :: string
  ns_Name :: string

subsection \<open>Decimal printing (\<open>%d\<close>, \<open>strconv.Itoa\<close>)\<close>

definition digit :: "nat \<Rightarrow> char" where
  "digit d = char_of (48 + d mod 10)"

fun digits :: "nat \<Rightarrow> string" where
  "digits n = (if 9 < n then digits (n div 10) else []) @ [digit n]"

declare digits.simps [simp del]

definition itoa :: "int \<Rightarrow> string" where
  "itoa i = (if i < 0 then CHR ''-'' # digits (nat (- i)) else digits (nat i))"

lemma digits_ne_Nil [simp]: "digits n \<noteq> []"
  by (simp add: digits.simps[of n])

definition digits_val :: "string \<Rightarrow> nat" where
  "digits_val s = foldl (\<lambda>a c. 10 * a + (of_char c - 48)) 0 s"

lemma of_char_digit [simp]: "(of_char (digit d) :: nat) = 48 + d mod 10"
  by (simp add: digit_def of_char_of)

lemma digits_step: "9 < n \<Longrightarrow> digits n = digits (n div 10) @ [digit n]"
  and digits_small: "n \<le> 9 \<Longrightarrow> digits n = [digit n]"
  by (simp_all add: digits.simps[of n])

lemma digits_val_digits [simp]: "digits_val (digits n) = n"
proof (induction n rule: less_induct)
  case (less n)
  then have "digits_val (digits (n div 10)) = n div 10" if "9 < n"
    using that by (metis div_less_dividend less_trans one_less_numeral_iff semiring_norm(76) zero_less_numeral)
  then show ?case
    using digits_step[of n] digits_small[of n] by (cases "9 < n") (auto simp: digits_val_def)
qed

lemma digits_inj [simp]: "digits m = digits n \<longleftrightarrow> m = n"
  by (metis digits_val_digits)

lemma set_digits: "set (digits n) \<subseteq> range digit"
proof (induction n rule: less_induct)
  case (less n)
  then have "set (digits (n div 10)) \<subseteq> range digit" if "9 < n"
    using that by (metis div_less_dividend less_trans one_less_numeral_iff semiring_norm(76) zero_less_numeral)
  then show ?case
    using digits_step[of n] digits_small[of n] by (cases "9 < n") auto
qed

lemma minus_no_digit: "digit d \<noteq> CHR ''-''"
proof
  assume "digit d = CHR ''-''"
  then have "(of_char CHR ''-'' :: nat) = 48 + d mod 10" by (metis of_char_digit)
  then show False by simp
qed

lemma digits_no_minus: "CHR ''-'' \<notin> set (digits n)"
  using set_digits[of n] minus_no_digit by (metis image_iff subsetD)

lemma itoa_inj [simp]: "itoa i = itoa j \<longleftrightarrow> i = j"
proof
  assume eq: "itoa i = itoa j"
  have sign: "i < 0 \<longleftrightarrow> j < 0"
    using eq digits_no_minus[of "nat i"] digits_no_minus[of "nat j"]
    by (auto simp: itoa_def split: if_splits)
       (metis list.set_intros(1))+
  then show "i = j" using eq by (auto simp: itoa_def split: if_splits)
qed simp

subsection \<open>Strings\<close>

definition in_range :: "char \<Rightarrow> char \<Rightarrow> char \<Rightarrow> bool" where
  "in_range lo hi c = (lo \<le> c \<and> c \<le> hi)"

fun has_prefix :: "string \<Rightarrow> string \<Rightarrow> bool" where
  "has_prefix s [] = True"
| "has_prefix [] (_ # _) = False"
| "has_prefix (c # s) (d # p) = (c = d \<and> has_prefix s p)"

fun str_contains :: "string \<Rightarrow> string \<Rightarrow> bool" where
  "str_contains [] sub = (sub = [])"
| "str_contains (c # s) sub = (has_prefix (c # s) sub \<or> str_contains s sub)"

definition has_suffix :: "string \<Rightarrow> string \<Rightarrow> bool" where
  "has_suffix s suf = has_prefix (rev s) (rev suf)"

fun str_join :: "string \<Rightarrow> string list \<Rightarrow> string" where
  "str_join sep [] = []"
| "str_join sep [x] = x"
| "str_join sep (x # y # ys) = x @ sep @ str_join sep (y # ys)"

lemma has_prefix_iff: "has_prefix s p \<longleftrightarrow> (\<exists>t. s = p @ t)"
  by (induction s p rule: has_prefix.induct) auto

lemma str_contains_iff: "str_contains s sub \<longleftrightarrow> (\<exists>a b. s = a @ sub @ b)"
proof (induction s)
  case (Cons c s)
  show ?case
  proof
    assume "str_contains (c # s) sub"
    then consider t where "c # s = [] @ sub @ t" | a b where "c # s = (c # a) @ sub @ b"
      using Cons by (auto simp: has_prefix_iff)
    then show "\<exists>a b. c # s = a @ sub @ b" by cases blast+
  next
    assume "\<exists>a b. c # s = a @ sub @ b"
    then obtain a b where ab: "c # s = a @ sub @ b" by blast
    then show "str_contains (c # s) sub"
    proof (cases a)
      case Nil
      with ab have "has_prefix (c # s) sub" by (auto simp: has_prefix_iff)
      then show ?thesis by simp
    next
      case (Cons a0 as)
      with ab \<open>str_contains s sub = _\<close> show ?thesis by auto
    qed
  qed
qed auto

lemma str_contains_appendI [simp]: "str_contains (a @ sub @ b) sub"
  using str_contains_iff by blast

lemma has_suffix_iff: "has_suffix s suf \<longleftrightarrow> (\<exists>t. s = t @ suf)"
  unfolding has_suffix_def has_prefix_iff by (metis rev_append rev_rev_ident)

subsection \<open>Go maps as association lists\<close>

text \<open>A Go map the code iterates over is a list of pairs with distinct keys; the
  order of the list is the order of one iteration.\<close>

fun map_put :: "'k \<Rightarrow> 'v \<Rightarrow> ('k \<times> 'v) list \<Rightarrow> ('k \<times> 'v) list" where
  "map_put k v [] = [(k, v)]"
| "map_put k v ((k', v') # m) = (if k = k' then (k, v) # m else (k', v') # map_put k v m)"

lemma map_of_map_put [simp]: "map_of (map_put k v m) = (map_of m)(k \<mapsto> v)"
  by (induction m) auto

lemma keys_map_put [simp]: "fst ` set (map_put k v m) = insert k (fst ` set m)"
  by (induction k v m rule: map_put.induct) (simp_all add: insert_commute)

lemma distinct_map_put [simp]:
  "distinct (map fst m) \<Longrightarrow> distinct (map fst (map_put k v m))"
proof (induction m)
  case (Cons p m)
  obtain a b where p: "p = (a, b)" by fastforce
  show ?case
  proof (cases "k = a")
    case False
    have "a \<notin> fst ` set (map_put k v m)"
      using Cons.prems False unfolding keys_map_put p by simp
    then show ?thesis using Cons False p by simp
  qed (use Cons p in simp)
qed simp

definition map_del :: "'k \<Rightarrow> ('k \<times> 'v) list \<Rightarrow> ('k \<times> 'v) list" where
  "map_del k m = filter (\<lambda>(k', _). k' \<noteq> k) m"

lemma map_of_map_del [simp]: "map_of (map_del k m) = (map_of m)(k := None)"
  by (induction m) (auto simp: map_del_def fun_eq_iff)

definition map_get :: "'k \<Rightarrow> 'v \<Rightarrow> ('k \<times> 'v) list \<Rightarrow> 'v" where
  "map_get k d m = (case map_of m k of None \<Rightarrow> d | Some v \<Rightarrow> v)"

end
