(* ===== verification/Flow.thy ===== *)
theory Flow
  imports Prelude
begin

text \<open>
  Control flow of a reconciliation: the results handed back to controller-runtime
  (\<open>pkg/util/result\<close>), the sequential runner that decides whether the
  StatefulSet or the automation config goes first (\<open>pkg/util/functions\<close>), and
  the choice of one result out of the results of several status options
  (\<open>pkg/util/status\<close>).
\<close>

subsection \<open>Reconciliation results\<close>

text \<open>\<open>RequeueAfter\<close> is a \<open>time.Duration\<close>, in nanoseconds.\<close>

record reconcile_result =
  Requeue :: bool
  RequeueAfter :: int

definition zero_result :: reconcile_result where
  "zero_result = \<lparr>Requeue = False, RequeueAfter = 0\<rparr>"

abbreviation second :: int where "second \<equiv> 1000000000"

definition retry :: "int \<Rightarrow> bool \<Rightarrow> reconcile_result \<times> go_error option \<times> bool" where
  "retry after isComplete = (\<lparr>Requeue = True, RequeueAfter = second * after\<rparr>, None, isComplete)"

definition StateComplete :: "reconcile_result \<times> go_error option \<times> bool" where
  "StateComplete = retry 0 True"

definition RetryState :: "int \<Rightarrow> reconcile_result \<times> go_error option \<times> bool" where
  "RetryState after = retry after False"

definition FailedState :: "reconcile_result \<times> go_error option \<times> bool" where
  "FailedState = RetryState 1"

definition result_OK :: "reconcile_result \<times> go_error option" where
  "result_OK = (zero_result, None)"

definition result_Retry :: "int \<Rightarrow> reconcile_result \<times> go_error option" where
  "result_Retry after = (\<lparr>Requeue = True, RequeueAfter = second * after\<rparr>, None)"

definition result_Failed :: "reconcile_result \<times> go_error option" where
  "result_Failed = result_Retry 0"

lemmas result_defs = zero_result_def retry_def StateComplete_def RetryState_def
  FailedState_def result_OK_def result_Retry_def result_Failed_def

subsection \<open>Running functions in order or in reverse\<close>

type_synonym 'w step_fn = "('w, bool \<times> go_error option) effect"

fun runInOrder :: "'w step_fn list \<Rightarrow> 'w step_fn" where
  "runInOrder [] w = ((True, None), w)"
| "runInOrder (fn # fns) w = (case fn w of
      ((successful, Some err), w') \<Rightarrow> ((successful, Some err), w')
    | ((successful, None), w') \<Rightarrow>
        if \<not> successful then ((False, None), w') else runInOrder fns w')"

text \<open>The reversed loop counts an index down from \<open>len(funcs) - 1\<close>; the first
  argument is that index plus one.\<close>

fun runReversed_from :: "nat \<Rightarrow> 'w step_fn list \<Rightarrow> 'w step_fn" where
  "runReversed_from 0 fns w = ((True, None), w)"
| "runReversed_from (Suc i) fns w = (case (fns ! i) w of
      ((successful, Some err), w') \<Rightarrow> ((successful, Some err), w')
    | ((successful, None), w') \<Rightarrow>
        if \<not> successful then ((False, None), w') else runReversed_from i fns w')"

definition runReversed :: "'w step_fn list \<Rightarrow> 'w step_fn" where
  "runReversed fns = runReversed_from (length fns) fns"

definition RunSequentially :: "bool \<Rightarrow> 'w step_fn list \<Rightarrow> 'w step_fn" where
  "RunSequentially inOrder fns = (if inOrder then runInOrder fns else runReversed fns)"

subsection \<open>One result for several status options\<close>

fun first_error :: "(reconcile_result \<times> go_error option) list
    \<Rightarrow> (reconcile_result \<times> go_error option) option" where
  "first_error [] = None"
| "first_error ((res, err) # rs) =
     (if err \<noteq> None then Some (res, err) else first_error rs)"

fun first_requeue :: "(reconcile_result \<times> go_error option) list
    \<Rightarrow> (reconcile_result \<times> go_error option) option" where
  "first_requeue [] = None"
| "first_requeue ((res, err) # rs) =
     (if Requeue res \<or> RequeueAfter res > 0 then Some (res, None) else first_requeue rs)"

definition determineReconciliationResult ::
    "(reconcile_result \<times> go_error option) list \<Rightarrow> reconcile_result \<times> go_error option" where
  "determineReconciliationResult rs = (case first_error rs of
      Some r \<Rightarrow> r
    | None \<Rightarrow> (case first_requeue rs of Some r \<Rightarrow> r | None \<Rightarrow> (zero_result, None)))"

subsection \<open>Laws of the runner\<close>

lemma runReversed_from_eq:
  "i \<le> length fns \<Longrightarrow> runReversed_from i fns w = runInOrder (rev (take i fns)) w"
proof (induction i arbitrary: w)
  case (Suc i)
  then have "rev (take (Suc i) fns) = fns ! i # rev (take i fns)"
    by (simp add: take_Suc_conv_app_nth)
  with Suc show ?case by (auto split: prod.splits option.splits)
qed simp

lemma runReversed_eq: "runReversed fns = runInOrder (rev fns)"
  by (rule ext) (simp add: runReversed_def runReversed_from_eq)

lemma RunSequentially_eq: "RunSequentially b fns = runInOrder (if b then fns else rev fns)"
  by (simp add: RunSequentially_def runReversed_eq)

text \<open>The world after the first \<open>k\<close> functions.\<close>

definition world_after :: "'w step_fn list \<Rightarrow> nat \<Rightarrow> 'w \<Rightarrow> 'w" where
  "world_after fns k w = fold (\<lambda>f w. snd (f w)) (take k fns) w"

lemma world_after_simps [simp]:
  "world_after fns 0 w = w"
  "world_after (f # fns) (Suc k) w = world_after fns k (snd (f w))"
  by (simp_all add: world_after_def)

lemma runInOrder_spec:
  "\<exists>k\<le>length fns.
     list_all (\<lambda>i. fst ((fns ! i) (world_after fns i w)) = (True, None)) [0..<k] \<and>
     (if k = length fns then runInOrder fns w = ((True, None), world_after fns k w)
      else fst ((fns ! k) (world_after fns k w)) \<noteq> (True, None) \<and>
           runInOrder fns w = (fns ! k) (world_after fns k w))"
proof (induction fns arbitrary: w)
  case (Cons f fns)
  obtain ok err w' where f: "f w = ((ok, err), w')" by (metis prod.exhaust)
  show ?case
  proof (cases "(ok, err) = (True, None)")
    case True
    then obtain k where k: "k \<le> length fns"
      "list_all (\<lambda>i. fst ((fns ! i) (world_after fns i w')) = (True, None)) [0..<k]"
      "if k = length fns then runInOrder fns w' = ((True, None), world_after fns k w')
       else fst ((fns ! k) (world_after fns k w')) \<noteq> (True, None) \<and>
            runInOrder fns w' = (fns ! k) (world_after fns k w')"
      using Cons by blast
    have "list_all (\<lambda>i. fst (((f # fns) ! i) (world_after (f # fns) i w)) = (True, None)) (0 # map Suc [0..<k])"
      using k(2) f True by (simp add: list.pred_map comp_def)
    then have "list_all (\<lambda>i. fst (((f # fns) ! i) (world_after (f # fns) i w)) = (True, None)) [0..<Suc k]"
      by (simp only: map_Suc_upt upt_conv_Cons[OF zero_less_Suc])
    then show ?thesis
      using k f True by (intro exI[of _ "Suc k"]) auto
  next
    case False
    then show ?thesis
      using f by (intro exI[of _ 0]) (auto split: option.splits)
  qed
qed simp

lemma first_error_None: "first_error rs = None \<longleftrightarrow> list_all (\<lambda>r. snd r = None) rs"
  by (induction rs) (auto split: if_splits)

lemma first_requeue_None:
  "first_requeue rs = None \<longleftrightarrow> list_all (\<lambda>r. \<not> Requeue (fst r) \<and> RequeueAfter (fst r) \<le> 0) rs"
  by (induction rs) (auto split: if_splits)

text \<open>\<open>RunSequentially\<close> calls the given functions in the given order, or in the
  reverse order when the flag is false, each on the state the previous one
  left, up to the first function \<open>k\<close> that does not return \<open>(true, nil)\<close>; it returns
  exactly what that function returned, with its state, and calls none after it.
  If all succeed it returns \<open>(true, nil)\<close> and the state after the last.\<close>

theorem RunSequentially_order_and_early_exit:
  "let order = (if b then fns else rev fns) in
   \<exists>k\<le>length order.
     list_all (\<lambda>i. fst ((order ! i) (world_after order i w)) = (True, None)) [0..<k] \<and>
     (if k = length order
      then RunSequentially b fns w = ((True, None), world_after order k w)
      else fst ((order ! k) (world_after order k w)) \<noteq> (True, None) \<and>
           RunSequentially b fns w = (order ! k) (world_after order k w))"
  unfolding Let_def RunSequentially_eq using runInOrder_spec .

end
