(* ===== verification/State_Machine.thy ===== *)
theory State_Machine
  imports Flow
begin

text \<open>
  The state machine library, \<open>pkg/util/state/statemachine.go\<close>.  A machine holds
  named states and guarded transitions; each call of \<open>Reconcile\<close> loads the name
  of the current state from a \<open>SaveLoader\<close>, runs that state, and, when the state
  reports completion, saves the name of the state the first enabled
  transition leads to.  All closures act on one world \<open>'w\<close>.
\<close>

record 'w state =
  st_Name :: string
  st_Reconcile :: "('w, reconcile_result \<times> go_error option \<times> bool) effect"
  st_OnEnter :: "('w, go_error option) effect option"

record 'w transition =
  tr_from :: "'w state"
  tr_to :: "'w state"
  tr_predicate :: "('w, bool) effect"

record 'w save_loader =
  SaveNextState :: "nsname \<Rightarrow> string \<Rightarrow> ('w, go_error option) effect"
  LoadNextState :: "nsname \<Rightarrow> ('w, string fallible) effect"

record 'w machine =
  allTransitions :: "string \<rightharpoonup> 'w transition list"
  currentState :: "'w state option"
  saveLoader :: "'w save_loader"
  states :: "string \<rightharpoonup> 'w state"
  m_nsName :: nsname

definition FromBool :: "bool \<Rightarrow> ('w, bool) effect" where
  "FromBool b = (\<lambda>w. (b, w))"

definition directTransition :: "('w, bool) effect" where
  "directTransition = FromBool True"

definition NewStateMachine :: "'w save_loader \<Rightarrow> nsname \<Rightarrow> 'w machine" where
  "NewStateMachine saver nsName =
    \<lparr>allTransitions = Map.empty, currentState = None, saveLoader = saver,
     states = Map.empty, m_nsName = nsName\<rparr>"

definition AddTransition :: "'w state \<Rightarrow> 'w state \<Rightarrow> ('w, bool) effect \<Rightarrow> 'w machine \<Rightarrow> 'w machine" where
  "AddTransition from to predicate m =
    (let old = (case allTransitions m (st_Name from) of None \<Rightarrow> [] | Some ts \<Rightarrow> ts);
         t = \<lparr>tr_from = from, tr_to = to, tr_predicate = predicate\<rparr>
     in m\<lparr>allTransitions := (allTransitions m)(st_Name from \<mapsto> old @ [t]),
          states := (states m)(st_Name from \<mapsto> from, st_Name to \<mapsto> to)\<rparr>)"

definition AddDirectTransition :: "'w state \<Rightarrow> 'w state \<Rightarrow> 'w machine \<Rightarrow> 'w machine" where
  "AddDirectTransition from to = AddTransition from to directTransition"

fun first_transition :: "'w transition list \<Rightarrow> ('w, 'w transition option) effect" where
  "first_transition [] w = (None, w)"
| "first_transition (t # ts) w = (case tr_predicate t w of
      (True, w') \<Rightarrow> (Some t, w')
    | (False, w') \<Rightarrow> first_transition ts w')"

definition getTransitionForState :: "'w machine \<Rightarrow> 'w state \<Rightarrow> ('w, 'w transition option) effect" where
  "getTransitionForState m s =
    first_transition (case allTransitions m (st_Name s) of None \<Rightarrow> [] | Some ts \<Rightarrow> ts)"

text \<open>The machine is returned updated: \<open>currentState\<close> is the only field that changes.\<close>

definition determineState :: "'w machine \<Rightarrow> ('w, go_error option \<times> 'w machine) effect" where
  "determineState m w = (case LoadNextState (saveLoader m) (m_nsName m) w of
      (Inl err, w') \<Rightarrow> ((Some (errorf (''could not load starting state: '' @ err_msg err)), m), w')
    | (Inr name, w') \<Rightarrow> (case states m name of
          None \<Rightarrow> ((Some (errorf (''could not determine state '' @ name @
                     '' as it was not added to the State Machine'')), m), w')
        | Some s \<Rightarrow> ((None, m\<lparr>currentState := Some s\<rparr>), w')))"

definition run_OnEnter :: "'w state \<Rightarrow> ('w, go_error option) effect" where
  "run_OnEnter s w = (case st_OnEnter s of None \<Rightarrow> (None, w) | Some f \<Rightarrow> f w)"

definition complete_state :: "'w machine \<Rightarrow> 'w state \<Rightarrow> reconcile_result
    \<Rightarrow> ('w, reconcile_result \<times> go_error option) effect" where
  "complete_state m s res w = (case getTransitionForState m s w of (t, w1) \<Rightarrow>
     (let nextState = (case t of None \<Rightarrow> '''' | Some t \<Rightarrow> st_Name (tr_to t))
      in case SaveNextState (saveLoader m) (m_nsName m) nextState w1 of
           (Some err, w2) \<Rightarrow> ((zero_result, Some err), w2)
         | (None, w2) \<Rightarrow> ((res, None), w2)))"

definition Reconcile_machine ::
    "'w machine \<Rightarrow> ('w, (reconcile_result \<times> go_error option) \<times> 'w machine) effect" where
  "Reconcile_machine m w = (case determineState m w of
      ((Some err, m'), w1) \<Rightarrow> (((zero_result, Some err), m'), w1)
    | ((None, m'), w1) \<Rightarrow> (case currentState m' of
          None \<Rightarrow> (((zero_result, None), m'), w1)
        | Some s \<Rightarrow> (case run_OnEnter s w1 of
              (Some err, w2) \<Rightarrow> (((zero_result, Some err), m'), w2)
            | (None, w2) \<Rightarrow> (case st_Reconcile s w2 of
                  ((res, Some err, _), w3) \<Rightarrow> (((res, Some err), m'), w3)
                | ((res, None, True), w3) \<Rightarrow>
                    (case complete_state m' s res w3 of (r, w4) \<Rightarrow> ((r, m'), w4))
                | ((res, None, False), w3) \<Rightarrow> (((res, None), m'), w3)))))"

text \<open>The in-memory \<open>SaveLoader\<close> of the repository's own tests.\<close>

record in_memory =
  stateHistory :: "string list"
  nextState :: string
  startingState :: string

definition mem_SaveNextState :: "nsname \<Rightarrow> string \<Rightarrow> (in_memory, go_error option) effect" where
  "mem_SaveNextState _ stateName s = (if stateName = '''' then (None, s)
     else (None, s\<lparr>stateHistory := stateHistory s @ [stateName], nextState := stateName\<rparr>))"

definition mem_LoadNextState :: "nsname \<Rightarrow> (in_memory, string fallible) effect" where
  "mem_LoadNextState _ s = (Inr (nextState s), s)"

definition inMemorySaveLoader :: "in_memory save_loader" where
  "inMemorySaveLoader = \<lparr>SaveNextState = mem_SaveNextState, LoadNextState = mem_LoadNextState\<rparr>"

definition newInMemorySaveLoader :: "string \<Rightarrow> in_memory" where
  "newInMemorySaveLoader start =
    snd (mem_SaveNextState \<lparr>ns_Namespace = '''', ns_Name = ''''\<rparr> start
      \<lparr>stateHistory = [], nextState = '''', startingState = start\<rparr>)"

subsection \<open>The machine only ever changes its current state\<close>

lemma determineState_Some:
  "LoadNextState (saveLoader m) (m_nsName m) w = (Inr name, w1) \<Longrightarrow> states m name = Some s \<Longrightarrow>
   determineState m w = ((None, m\<lparr>currentState := Some s\<rparr>), w1)"
  by (simp add: determineState_def)

lemma complete_state_currentState [simp]:
  "complete_state (m\<lparr>currentState := c\<rparr>) = complete_state m"
  by (intro ext) (simp add: complete_state_def getTransitionForState_def)

lemma Reconcile_machine_unfold:
  assumes "LoadNextState (saveLoader m) (m_nsName m) w = (Inr name, w1)"
    and "states m name = Some s"
    and "run_OnEnter s w1 = (None, w2)"
  shows "Reconcile_machine m w = (case st_Reconcile s w2 of
           ((res, Some err, _), w3) \<Rightarrow> (((res, Some err), m\<lparr>currentState := Some s\<rparr>), w3)
         | ((res, None, True), w3) \<Rightarrow>
             (case complete_state m s res w3 of (r, w4) \<Rightarrow> ((r, m\<lparr>currentState := Some s\<rparr>), w4))
         | ((res, None, False), w3) \<Rightarrow> (((res, None), m\<lparr>currentState := Some s\<rparr>), w3))"
  using assms
  by (simp add: Reconcile_machine_def determineState_Some split: prod.splits option.splits bool.splits)

lemma Reconcile_machine_frame:
  "snd (fst (Reconcile_machine m w)) =
     m\<lparr>currentState := currentState (snd (fst (Reconcile_machine m w)))\<rparr>"
proof -
  have "snd (fst (Reconcile_machine m w)) = snd (fst (determineState m w))"
    by (simp add: Reconcile_machine_def split: prod.splits option.splits bool.splits)
  then show ?thesis
    by (simp add: determineState_def split: prod.splits sum.splits option.splits)
qed

text \<open>A chain of direct transitions, as callers of \<open>AddDirectTransition\<close> build it.\<close>

fun add_chain :: "'w state list \<Rightarrow> 'w machine \<Rightarrow> 'w machine" where
  "add_chain (s # t # ss) m = add_chain (t # ss) (AddDirectTransition s t m)"
| "add_chain _ m = m"

lemma add_chain_frame [simp]:
  "saveLoader (add_chain ss m) = saveLoader m" "m_nsName (add_chain ss m) = m_nsName m"
  by (induction ss m rule: add_chain.induct)
     (simp_all add: AddDirectTransition_def AddTransition_def Let_def)

lemma add_chain_other:
  "n \<notin> st_Name ` set ss \<Longrightarrow> states (add_chain ss m) n = states m n"
  "n \<notin> st_Name ` set ss \<Longrightarrow> allTransitions (add_chain ss m) n = allTransitions m n"
  by (induction ss m rule: add_chain.induct)
     (auto simp: AddDirectTransition_def AddTransition_def Let_def)

lemma add_chain_states:
  assumes "distinct (map st_Name ss)" "2 \<le> length ss \<or> (\<forall>s\<in>set ss. states m (st_Name s) = Some s)"
    "i < length ss"
  shows "states (add_chain ss m) (st_Name (ss ! i)) = Some (ss ! i)"
  using assms
proof (induction ss m arbitrary: i rule: add_chain.induct)
  case (1 s t ss m)
  let ?m = "AddDirectTransition s t m"
  have st: "states ?m (st_Name t) = Some t" "states ?m (st_Name s) = Some s"
    using 1(2) by (auto simp: AddDirectTransition_def AddTransition_def Let_def)
  have pre: "2 \<le> length (t # ss) \<or> (\<forall>x\<in>set (t # ss). states ?m (st_Name x) = Some x)"
    using st by (cases ss) auto
  show ?case
  proof (cases i)
    case 0
    have "st_Name s \<notin> st_Name ` set (t # ss)" using 1(2) by auto
    then show ?thesis using 0 st by (simp add: add_chain_other)
  next
    case (Suc j)
    then show ?thesis using 1(1)[of j] 1(2) 1(4) pre by simp
  qed
qed auto

lemma add_chain_transitions:
  assumes "distinct (map st_Name ss)" "\<forall>s\<in>set ss. allTransitions m (st_Name s) = None"
    "Suc i < length ss"
  shows "allTransitions (add_chain ss m) (st_Name (ss ! i)) =
    Some [\<lparr>tr_from = ss ! i, tr_to = ss ! Suc i, tr_predicate = directTransition\<rparr>]"
  using assms
proof (induction ss m arbitrary: i rule: add_chain.induct)
  case (1 s t ss m)
  let ?m = "AddDirectTransition s t m"
  have tr: "allTransitions ?m = (allTransitions m)(st_Name s \<mapsto>
      [\<lparr>tr_from = s, tr_to = t, tr_predicate = directTransition\<rparr>])"
    using 1(3) by (simp add: AddDirectTransition_def AddTransition_def Let_def)
  show ?case
  proof (cases i)
    case 0
    have "st_Name s \<notin> st_Name ` set (t # ss)" using 1(2) by auto
    then show ?thesis using 0 tr by (simp add: add_chain_other)
  next
    case (Suc j)
    have "\<forall>x\<in>set (t # ss). allTransitions ?m (st_Name x) = None"
      using 1(2,3) tr by (auto simp: image_iff)
    then show ?thesis using 1(1)[of j] 1(2) 1(4) Suc by simp
  qed
qed auto

subsection \<open>What a machine needs of its \<open>SaveLoader\<close>\<close>

definition completes :: "'w state \<Rightarrow> bool" where
  "completes s = (\<forall>w. fst (run_OnEnter s w) = None \<and>
     fst (snd (fst (st_Reconcile s w))) = None \<and> snd (snd (fst (st_Reconcile s w))))"

definition reconcile_world :: "'w machine \<Rightarrow> 'w \<Rightarrow> 'w" where
  "reconcile_world m w = snd (Reconcile_machine m w)"

locale saving_loader =
  fixes sl :: "'w save_loader"
  assumes load_pure: "snd (LoadNextState sl n w) = w"
    and save_ok: "fst (SaveNextState sl n name w) = None"
    and load_save: "name \<noteq> '''' \<Longrightarrow>
      fst (LoadNextState sl n (snd (SaveNextState sl n name w))) = Inr name"
begin

definition at_state :: "nsname \<Rightarrow> string \<Rightarrow> 'w \<Rightarrow> bool" where
  "at_state n name w = (fst (LoadNextState sl n w) = Inr name)"

lemma at_state_load: "at_state n name w \<Longrightarrow> LoadNextState sl n w = (Inr name, w)"
  using load_pure[of n w] by (metis at_state_def prod.collapse)

lemma complete_advances:
  assumes m: "saveLoader m = sl" "at_state (m_nsName m) (st_Name s) w" "states m (st_Name s) = Some s"
    and s: "completes s"
    and tr: "allTransitions m (st_Name s) = Some (t # ts)" "tr_predicate t = directTransition"
    and to: "st_Name (tr_to t) \<noteq> ''''"
  shows "at_state (m_nsName m) (st_Name (tr_to t)) (reconcile_world m w)"
proof -
  obtain w2 where on: "run_OnEnter s w = (None, w2)"
    using s by (metis completes_def prod.collapse)
  obtain res w3 where rec: "st_Reconcile s w2 = ((res, None, True), w3)"
    using s by (metis (full_types) completes_def prod.collapse)
  obtain w4 where sv: "SaveNextState sl (m_nsName m) (st_Name (tr_to t)) w3 = (None, w4)"
    using save_ok by (metis prod.collapse)
  have "complete_state m s res w3 = ((res, None), w4)"
    using m tr sv
    by (simp add: complete_state_def getTransitionForState_def directTransition_def FromBool_def)
  then have "reconcile_world m w = w4"
    using Reconcile_machine_unfold[of m w "st_Name s" w s w2] m on rec at_state_load[OF m(2)]
    by (simp add: reconcile_world_def)
  then show ?thesis
    using load_save[OF to, of "m_nsName m" w3] sv by (simp add: at_state_def)
qed

lemma chain_progress:
  assumes ss: "distinct (map st_Name ss)" "list_all completes ss"
      "list_all (\<lambda>s. st_Name s \<noteq> '''') ss" "2 \<le> length ss"
    and w: "at_state n (st_Name (ss ! 0)) w" and k: "k < length ss"
  shows "at_state n (st_Name (ss ! k))
           ((reconcile_world (add_chain ss (NewStateMachine sl n)) ^^ k) w)"
  using k
proof (induction k)
  case (Suc k)
  let ?m = "add_chain ss (NewStateMachine sl n)"
  let ?w = "(reconcile_world ?m ^^ k) w"
  have m: "saveLoader ?m = sl" "m_nsName ?m = n" by (simp_all add: NewStateMachine_def)
  have st: "states ?m (st_Name (ss ! k)) = Some (ss ! k)"
    using add_chain_states ss(1,4) Suc.prems by (metis Suc_lessD)
  have tr: "allTransitions ?m (st_Name (ss ! k)) =
      Some [\<lparr>tr_from = ss ! k, tr_to = ss ! Suc k, tr_predicate = directTransition\<rparr>]"
    using add_chain_transitions[OF ss(1) _ Suc.prems] by (simp add: NewStateMachine_def)
  have "completes (ss ! k)" "st_Name (ss ! Suc k) \<noteq> ''''"
    using ss Suc.prems by (simp_all add: list_all_length)
  then show ?case
    using complete_advances[of ?m "ss ! k" ?w, OF m(1) _ st _ tr] Suc m by simp
qed (use w in simp)

end

interpretation mem: saving_loader inMemorySaveLoader
  by unfold_locales
     (simp_all add: inMemorySaveLoader_def mem_SaveNextState_def mem_LoadNextState_def)

subsection \<open>Properties\<close>

definition completing :: "'w machine \<Rightarrow> 'w \<Rightarrow> bool" where
  "completing m w = (case determineState m w of
      ((None, m'), w1) \<Rightarrow> (case currentState m' of
          Some s \<Rightarrow> (case run_OnEnter s w1 of
              (None, w2) \<Rightarrow> (case st_Reconcile s w2 of ((_, None, True), _) \<Rightarrow> True | _ \<Rightarrow> False)
            | _ \<Rightarrow> False)
        | None \<Rightarrow> False)
    | _ \<Rightarrow> False)"

lemma determineState_saver:
  "determineState (m\<lparr>saveLoader := (saveLoader m)\<lparr>SaveNextState := f\<rparr>\<rparr>) w =
   (case determineState m w of ((e, m'), w') \<Rightarrow>
      ((e, m'\<lparr>saveLoader := (saveLoader m)\<lparr>SaveNextState := f\<rparr>\<rparr>), w'))"
  by (auto simp: determineState_def split: prod.splits sum.splits option.splits)

definition idle_state :: "string \<Rightarrow> 'w state" where
  "idle_state n = \<lparr>st_Name = n, st_Reconcile = (\<lambda>w. (StateComplete, w)), st_OnEnter = None\<rparr>"

text \<open>C37: a machine whose states all complete walks through a chain of direct
  transitions one state per reconciliation: after \<open>k\<close> reconciliations the
  state that will run next is the \<open>k\<close>-th state of the chain.\<close>

theorem machine_walks_chain:
  assumes "distinct (map st_Name ss)" and "list_all completes ss"
    and "list_all (\<lambda>s. st_Name s \<noteq> '''') ss" and "2 \<le> length ss"
    and "nextState w = st_Name (ss ! 0)" and "k < length ss"
  shows "nextState ((reconcile_world (add_chain ss (NewStateMachine inMemorySaveLoader n)) ^^ k) w)
         = st_Name (ss ! k)"
proof -
  have at: "mem.at_state n name v \<longleftrightarrow> nextState v = name" for name v
    unfolding mem.at_state_def by (simp add: inMemorySaveLoader_def mem_LoadNextState_def)
  show ?thesis
    using mem.chain_progress[OF assms(1-4) _ assms(6), of n w] assms(5) by (simp add: at)
qed

theorem machine_walks_chain_witness:
  "nextState ((reconcile_world (add_chain (map idle_state [''State0'', ''State1'', ''State2''])
       (NewStateMachine inMemorySaveLoader \<lparr>ns_Namespace = ''ns'', ns_Name = ''mdb''\<rparr>)) ^^ 2)
     (newInMemorySaveLoader ''State0'')) = ''State2''"
  using machine_walks_chain[of "map idle_state [''State0'', ''State1'', ''State2'']"
      "newInMemorySaveLoader ''State0''" 2 "\<lparr>ns_Namespace = ''ns'', ns_Name = ''mdb''\<rparr>"]
  by (simp add: idle_state_def completes_def run_OnEnter_def result_defs
      newInMemorySaveLoader_def mem_SaveNextState_def)

text \<open>Unless the current state reports completion without an error, the
  saved state name is not touched, so the same state runs again: replacing
  the \<open>SaveNextState\<close> operation by any other changes neither the result nor
  the world a reconciliation leaves.\<close>

theorem machine_repeats_incomplete_state:
  assumes "\<not> completing m w"
  shows "fst (fst (Reconcile_machine (m\<lparr>saveLoader := (saveLoader m)\<lparr>SaveNextState := f\<rparr>\<rparr>) w))
           = fst (fst (Reconcile_machine m w)) \<and>
         snd (Reconcile_machine (m\<lparr>saveLoader := (saveLoader m)\<lparr>SaveNextState := f\<rparr>\<rparr>) w)
           = snd (Reconcile_machine m w)"
proof -
  obtain e m' w1 where d: "determineState m w = ((e, m'), w1)" by (metis prod.exhaust)
  show ?thesis
  proof (cases "e = None \<and> currentState m' \<noteq> None")
    case True
    then obtain s where s: "e = None" "currentState m' = Some s" by blast
    obtain r w2 where on: "run_OnEnter s w1 = (r, w2)" by fastforce
    obtain res err c w3 where rec: "st_Reconcile s w2 = ((res, err, c), w3)"
      by (metis prod.exhaust)
    have "r \<noteq> None \<or> err \<noteq> None \<or> \<not> c"
      using assms d s on rec by (auto simp: completing_def)
    then show ?thesis
      using d s on rec
      by (cases r; cases err; cases c) (simp_all add: Reconcile_machine_def determineState_saver)
  qed (use d in \<open>auto simp: Reconcile_machine_def determineState_saver split: option.splits\<close>)
qed

end
