(* ===== verification/Go_Values.thy ===== *)
theory Go_Values
  imports Prelude Complex_Main "HOL-Library.List_Lexorder" "HOL-Library.Char_ord"
begin

text \<open>
  Untyped Go values (\<open>interface{}\<close>), the dotted-path access of the third-party
  package \<open>objx\<close>, and the trees that \<open>encoding/json\<close> writes.

  A \<open>float64\<close> is a rational here: the operator only stores, compares and
  prints such numbers, it does no floating-point arithmetic.  Go strings are
  byte strings, so their order is the bytewise lexicographic one.
\<close>

datatype go_value =
    VNil
  | VBool bool
  | VInt int
  | VFloat rat
  | VStr string
  | VList "go_value list"
  | VMap "(string \<times> go_value) list"

type_synonym go_map = "(string \<times> go_value) list"

text \<open>The conversion \<open>int(f)\<close> of a float truncates towards zero.\<close>

definition trunc_float :: "rat \<Rightarrow> int" where
  "trunc_float r = (if r \<ge> 0 then \<lfloor>r\<rfloor> else \<lceil>r\<rceil>)"

lemma trunc_float_of_int [simp]: "trunc_float (of_int i) = i"
  by (simp add: trunc_float_def)

subsection \<open>The package \<open>objx\<close>\<close>

text \<open>
  \<open>objx\<close> is not part of the repository: the definitions that use it take it as
  an argument.  \<open>objx_Get m sel\<close> is the data found at the dotted selector, if
  any; \<open>objx_Set m sel v\<close> the map after \<open>Set\<close>, which creates the maps on the way.
\<close>

record objx =
  objx_Get :: "go_map \<Rightarrow> string \<Rightarrow> go_value option"
  objx_Set :: "go_map \<Rightarrow> string \<Rightarrow> go_value \<Rightarrow> go_map"

fun split_dots :: "string \<Rightarrow> string list" where
  "split_dots [] = [[]]"
| "split_dots (c # s) = (if c = CHR ''.'' then [] # split_dots s
     else (case split_dots s of [] \<Rightarrow> [[c]] | p # ps \<Rightarrow> (c # p) # ps))"

fun list_prefix :: "'a list \<Rightarrow> 'a list \<Rightarrow> bool" where
  "list_prefix [] _ = True"
| "list_prefix (_ # _) [] = False"
| "list_prefix (x # xs) (y # ys) = (x = y \<and> list_prefix xs ys)"

text \<open>Selectors neither of which leads through the other.\<close>

definition independent :: "string \<Rightarrow> string \<Rightarrow> bool" where
  "independent p q = (\<not> list_prefix (split_dots p) (split_dots q) \<and>
                      \<not> list_prefix (split_dots q) (split_dots p))"

locale objx_laws =
  fixes ox :: objx
  assumes get_set_same: "objx_Get ox (objx_Set ox m p v) p = Some v"
    and get_set_other: "independent p q \<Longrightarrow> objx_Get ox (objx_Set ox m p v) q = objx_Get ox m q"
begin

lemma get_set_if:
  "p = q \<or> independent p q \<Longrightarrow>
   objx_Get ox (objx_Set ox m p v) q = (if p = q then Some v else objx_Get ox m q)"
  using get_set_same get_set_other by auto

end

text \<open>The documented behaviour on nested maps, as a concrete instance.\<close>

fun path_get :: "go_map \<Rightarrow> string list \<Rightarrow> go_value option" where
  "path_get m [] = None"
| "path_get m [k] = map_of m k"
| "path_get m (k # k' # ks) = (case map_of m k of Some (VMap m') \<Rightarrow> path_get m' (k' # ks) | _ \<Rightarrow> None)"

fun path_set :: "go_map \<Rightarrow> string list \<Rightarrow> go_value \<Rightarrow> go_map" where
  "path_set m [] v = m"
| "path_set m [k] v = map_put k v m"
| "path_set m (k # k' # ks) v =
     map_put k (VMap (path_set (case map_of m k of Some (VMap m') \<Rightarrow> m' | _ \<Rightarrow> []) (k' # ks) v)) m"

definition nested_objx :: objx where
  "nested_objx = \<lparr>objx_Get = (\<lambda>m p. path_get m (split_dots p)),
                  objx_Set = (\<lambda>m p v. path_set m (split_dots p) v)\<rparr>"

lemma split_dots_ne_Nil [simp]: "split_dots s \<noteq> []"
  by (induction s) (auto split: list.splits)

lemma path_get_set_same: "ks \<noteq> [] \<Longrightarrow> path_get (path_set m ks v) ks = Some v"
  by (induction m ks v rule: path_set.induct) auto

lemma path_get_Nil [simp]: "path_get [] ks = None"
  by (cases "([] :: go_map, ks)" rule: path_get.cases) auto

lemma path_get_set_other:
  "\<not> list_prefix ks ls \<Longrightarrow> \<not> list_prefix ls ks \<Longrightarrow> path_get (path_set m ks v) ls = path_get m ls"
proof (induction m ks v arbitrary: ls rule: path_set.induct)
  case (2 m k v)
  then obtain l ls' where "ls = l # ls'" "l \<noteq> k" by (cases ls) auto
  then show ?case by (cases ls') auto
next
  case (3 m k k' ks v)
  then obtain l ls' where ls: "ls = l # ls'" by (cases ls) auto
  show ?case
  proof (cases "l = k")
    case False
    then show ?thesis using ls by (cases ls') auto
  next
    case True
    with 3 ls obtain l' ls'' where ls': "ls' = l' # ls''" by (cases ls') auto
    have "path_get (path_set (case map_of m k of Some (VMap m') \<Rightarrow> m' | _ \<Rightarrow> []) (k' # ks) v) (l' # ls'')
        = path_get (case map_of m k of Some (VMap m') \<Rightarrow> m' | _ \<Rightarrow> []) (l' # ls'')"
      using 3 ls ls' True by simp
    then show ?thesis
      using ls ls' True by (auto split: option.splits go_value.splits)
  qed
qed simp

interpretation nested: objx_laws nested_objx
  by unfold_locales
     (simp_all add: nested_objx_def path_get_set_same path_get_set_other independent_def)

subsection \<open>JSON trees\<close>

text \<open>
  \<open>json.Marshal\<close> writes a value as text; the texts of two values are equal
  exactly when the trees below are, so comparing marshalled bytes is
  comparing trees.  Objects list their members in the order in which they are
  written: struct fields in declaration order, maps sorted by key.
\<close>

datatype json =
    JNull
  | JBool bool
  | JNum rat
  | JStr string
  | JArr "json list"
  | JObj "(string \<times> json) list"

fun json_of_value :: "go_value \<Rightarrow> json" where
  "json_of_value VNil = JNull"
| "json_of_value (VBool b) = JBool b"
| "json_of_value (VInt i) = JNum (of_int i)"
| "json_of_value (VFloat r) = JNum r"
| "json_of_value (VStr s) = JStr s"
| "json_of_value (VList vs) = JArr (map json_of_value vs)"
| "json_of_value (VMap m) = JObj (sort_key fst (map (\<lambda>(k, v). (k, json_of_value v)) m))"

definition jint :: "int \<Rightarrow> json" where "jint i = JNum (of_int i)"

definition jmap :: "go_map \<Rightarrow> json" where "jmap m = json_of_value (VMap m)"

definition jstrs :: "string list \<Rightarrow> json" where "jstrs ss = JArr (map JStr ss)"

definition jstrmap :: "(string \<times> string) list \<Rightarrow> json" where
  "jstrmap m = JObj (sort_key fst (map (\<lambda>(k, v). (k, JStr v)) m))"

text \<open>A struct field with \<open>omitempty\<close> is left out when it has its zero value.\<close>

definition omitempty :: "bool \<Rightarrow> string \<Rightarrow> json \<Rightarrow> (string \<times> json) list" where
  "omitempty is_empty k j = (if is_empty then [] else [(k, j)])"

definition omitnil :: "string \<Rightarrow> ('a \<Rightarrow> json) \<Rightarrow> 'a option \<Rightarrow> (string \<times> json) list" where
  "omitnil k enc p = (case p of None \<Rightarrow> [] | Some a \<Rightarrow> [(k, enc a)])"

subsection \<open>Printing values (\<open>%v\<close>)\<close>

text \<open>\<open>%v\<close> on the values of a decoded JSON object.  Floats with an integral value
  below \<open>1e21\<close> print as integers; \<open>fmt_g\<close> prints the others.\<close>

definition fmt_float :: "(rat \<Rightarrow> string) \<Rightarrow> rat \<Rightarrow> string" where
  "fmt_float fmt_g r = (if of_int \<lfloor>r\<rfloor> = r \<and> \<bar>r\<bar> < 10 ^ 21 then itoa \<lfloor>r\<rfloor> else fmt_g r)"

fun fmt_v :: "(rat \<Rightarrow> string) \<Rightarrow> go_value \<Rightarrow> string" where
  "fmt_v g VNil = ''<nil>''"
| "fmt_v g (VBool b) = (if b then ''true'' else ''false'')"
| "fmt_v g (VInt i) = itoa i"
| "fmt_v g (VFloat r) = fmt_float g r"
| "fmt_v g (VStr s) = s"
| "fmt_v g (VList vs) = ''['' @ str_join '' '' (map (fmt_v g) vs) @ '']''"
| "fmt_v g (VMap m) = ''map['' @ str_join '' ''
     (map (\<lambda>(k, s). k @ '':'' @ s) (sort_key fst (map (\<lambda>(k, v). (k, fmt_v g v)) m))) @ '']''"

end
