(* ===== verification/K8s_Types.thy ===== *)
theory K8s_Types
  imports Go_Values
begin

text \<open>
  The Kubernetes API objects the operator builds and merges, with the fields
  its code reads or writes.  A pointer or a slice that the code compares with
  \<open>nil\<close> is an option; string maps are association lists, with \<open>nil\<close> and empty
  not distinguished.  Parts that are only ever copied as a whole (probe
  handlers, affinity terms, tolerations, \<dots>) are carried as an untyped value.
  Quantities are kept as their text.
\<close>

type_synonym str_map = "(string \<times> string) list"

record owner_ref =
  or_APIVersion :: string
  or_Kind :: string
  or_Name :: string
  or_UID :: string

subsection \<open>Containers\<close>

record env_var =
  env_Name :: string
  env_Value :: string
  env_ValueFrom :: "go_value option"

record container_port =
  cp_Name :: string
  cp_HostPort :: int
  cp_ContainerPort :: int
  cp_Protocol :: string
  cp_HostIP :: string

record volume_mount =
  vm_Name :: string
  vm_ReadOnly :: bool
  vm_MountPath :: string
  vm_SubPath :: string
  vm_MountPropagation :: "string option"
  vm_SubPathExpr :: string

record volume_device =
  vd_Name :: string
  vd_DevicePath :: string

record resource_requirements =
  rr_Limits :: "str_map option"
  rr_Requests :: "str_map option"

record probe =
  pr_Exec :: "string list option"
  pr_HTTPGet :: "go_value option"
  pr_TCPSocket :: "go_value option"
  pr_InitialDelaySeconds :: int
  pr_TimeoutSeconds :: int
  pr_PeriodSeconds :: int
  pr_SuccessThreshold :: int
  pr_FailureThreshold :: int

record lifecycle =
  lc_PostStart :: "go_value option"
  lc_PreStop :: "go_value option"

record security_context =
  sc_Capabilities :: "go_value option"
  sc_Privileged :: "bool option"
  sc_SELinuxOptions :: "go_value option"
  sc_WindowsOptions :: "go_value option"
  sc_RunAsUser :: "int option"
  sc_RunAsGroup :: "int option"
  sc_RunAsNonRoot :: "bool option"
  sc_ReadOnlyRootFilesystem :: "bool option"
  sc_AllowPrivilegeEscalation :: "bool option"
  sc_ProcMount :: "string option"

record container =
  c_Name :: string
  c_Image :: string
  c_Command :: "string list"
  c_Args :: "string list"
  c_WorkingDir :: string
  c_Ports :: "container_port list"
  c_Env :: "env_var list"
  c_Resources :: resource_requirements
  c_VolumeMounts :: "volume_mount list"
  c_VolumeDevices :: "volume_device list"
  c_LivenessProbe :: "probe option"
  c_ReadinessProbe :: "probe option"
  c_StartupProbe :: "probe option"
  c_Lifecycle :: "lifecycle option"
  c_TerminationMessagePath :: string
  c_TerminationMessagePolicy :: string
  c_ImagePullPolicy :: string
  c_SecurityContext :: "security_context option"
  c_Stdin :: bool
  c_StdinOnce :: bool
  c_TTY :: bool

record ephemeral_container =
  ec_Common :: container
  ec_TargetContainerName :: string

subsection \<open>Volumes\<close>

record key_to_path =
  kp_Key :: string
  kp_Path :: string
  kp_Mode :: "int option"

record empty_dir =
  ed_Medium :: string
  ed_SizeLimit :: "string option"

record secret_source =
  ss_SecretName :: string
  ss_Items :: "key_to_path list"
  ss_DefaultMode :: "int option"
  ss_Optional :: "bool option"

record config_map_source =
  cs_Name :: string
  cs_Items :: "key_to_path list"
  cs_DefaultMode :: "int option"
  cs_Optional :: "bool option"

record volume_source =
  vs_EmptyDir :: "empty_dir option"
  vs_Secret :: "secret_source option"
  vs_ConfigMap :: "config_map_source option"
  vs_Other :: "go_value option"

record volume =
  vol_Name :: string
  vol_Source :: volume_source

record pvc =
  pvc_Name :: string
  pvc_Namespace :: string
  pvc_Labels :: str_map
  pvc_Annotations :: str_map
  pvc_AccessModes :: "string list"
  pvc_Selector :: "go_value option"
  pvc_Limits :: "str_map option"
  pvc_Requests :: "str_map option"
  pvc_VolumeMode :: "string option"
  pvc_StorageClassName :: "string option"
  pvc_DataSource :: "go_value option"

subsection \<open>Pods\<close>

record label_selector_requirement =
  lsr_Key :: string
  lsr_Operator :: string
  lsr_Values :: "string list option"

record label_selector =
  ls_MatchLabels :: str_map
  ls_MatchExpressions :: "label_selector_requirement list"

record affinity =
  aff_NodeAffinity :: "go_value option"
  aff_PodAffinity :: "go_value option"
  aff_PodAntiAffinity :: "go_value option"

record topology_spread_constraint =
  tsc_MaxSkew :: int
  tsc_TopologyKey :: string
  tsc_WhenUnsatisfiable :: string
  tsc_LabelSelector :: "go_value option"

record host_alias =
  ha_IP :: string
  ha_Hostnames :: "string list"

record pod_dns_config =
  dns_Nameservers :: "string list option"
  dns_Searches :: "string list option"
  dns_Options :: "go_value option"

record pod_security_context =
  psc_RunAsUser :: "int option"
  psc_RunAsNonRoot :: "bool option"
  psc_FSGroup :: "int option"
  psc_Other :: "go_value option"

text \<open>The scheduling part of a pod spec is a record of its own to keep the records small.\<close>

record pod_scheduling =
  ps_NodeSelector :: str_map
  ps_NodeName :: string
  ps_Affinity :: "affinity option"
  ps_SchedulerName :: string
  ps_Tolerations :: "go_value option"
  ps_PriorityClassName :: string
  ps_Priority :: "int option"
  ps_ReadinessGates :: "go_value option"
  ps_RuntimeClassName :: "string option"
  ps_PreemptionPolicy :: "string option"
  ps_Overhead :: "go_value option"
  ps_TopologySpreadConstraints :: "topology_spread_constraint list option"

record pod_network =
  pn_DNSPolicy :: string
  pn_HostNetwork :: bool
  pn_HostPID :: bool
  pn_ShareProcessNamespace :: "bool option"
  pn_Hostname :: string
  pn_Subdomain :: string
  pn_HostAliases :: "host_alias list"
  pn_DNSConfig :: "pod_dns_config option"
  pn_EnableServiceLinks :: "bool option"

record pod_spec =
  ps_Volumes :: "volume list"
  ps_InitContainers :: "container list"
  ps_Containers :: "container list"
  ps_EphemeralContainers :: "ephemeral_container list option"
  ps_RestartPolicy :: string
  ps_TerminationGracePeriodSeconds :: "int option"
  ps_ActiveDeadlineSeconds :: "int option"
  ps_ServiceAccountName :: string
  ps_DeprecatedServiceAccount :: string
  ps_AutomountServiceAccountToken :: "bool option"
  ps_SecurityContext :: "pod_security_context option"
  ps_ImagePullSecrets :: "string list option"
  ps_Scheduling :: pod_scheduling
  ps_Network :: pod_network

record pod_template =
  pt_Labels :: str_map
  pt_Annotations :: str_map
  pt_Spec :: pod_spec

subsection \<open>StatefulSets and services\<close>

record statefulset_spec =
  stss_Replicas :: "32 word option"
  stss_Selector :: "label_selector option"
  stss_Template :: pod_template
  stss_VolumeClaimTemplates :: "pvc list"
  stss_ServiceName :: string
  stss_PodManagementPolicy :: string
  stss_UpdateStrategyType :: string
  stss_RollingUpdate :: "go_value option"
  stss_RevisionHistoryLimit :: "32 word option"

record statefulset =
  sts_Name :: string
  sts_Namespace :: string
  sts_Labels :: str_map
  sts_Annotations :: str_map
  sts_OwnerReferences :: "owner_ref list"
  sts_Generation :: int
  sts_Spec :: statefulset_spec
  sts_ObservedGeneration :: int
  sts_ReadyReplicas :: "32 word"
  sts_UpdatedReplicas :: "32 word"

subsection \<open>Zero values\<close>

definition zero_probe :: probe where
  "zero_probe = \<lparr>pr_Exec = None, pr_HTTPGet = None, pr_TCPSocket = None, pr_InitialDelaySeconds = 0,
     pr_TimeoutSeconds = 0, pr_PeriodSeconds = 0, pr_SuccessThreshold = 0, pr_FailureThreshold = 0\<rparr>"

definition zero_lifecycle :: lifecycle where
  "zero_lifecycle = \<lparr>lc_PostStart = None, lc_PreStop = None\<rparr>"

definition zero_security_context :: security_context where
  "zero_security_context = \<lparr>sc_Capabilities = None, sc_Privileged = None, sc_SELinuxOptions = None,
     sc_WindowsOptions = None, sc_RunAsUser = None, sc_RunAsGroup = None, sc_RunAsNonRoot = None,
     sc_ReadOnlyRootFilesystem = None, sc_AllowPrivilegeEscalation = None, sc_ProcMount = None\<rparr>"

definition zero_container :: container where
  "zero_container = \<lparr>c_Name = '''', c_Image = '''', c_Command = [], c_Args = [], c_WorkingDir = '''',
     c_Ports = [], c_Env = [], c_Resources = \<lparr>rr_Limits = None, rr_Requests = None\<rparr>,
     c_VolumeMounts = [], c_VolumeDevices = [], c_LivenessProbe = None, c_ReadinessProbe = None,
     c_StartupProbe = None, c_Lifecycle = None, c_TerminationMessagePath = '''',
     c_TerminationMessagePolicy = '''', c_ImagePullPolicy = '''', c_SecurityContext = None,
     c_Stdin = False, c_StdinOnce = False, c_TTY = False\<rparr>"

definition zero_volume_source :: volume_source where
  "zero_volume_source = \<lparr>vs_EmptyDir = None, vs_Secret = None, vs_ConfigMap = None, vs_Other = None\<rparr>"

definition zero_pvc :: pvc where
  "zero_pvc = \<lparr>pvc_Name = '''', pvc_Namespace = '''', pvc_Labels = [], pvc_Annotations = [],
     pvc_AccessModes = [], pvc_Selector = None, pvc_Limits = None, pvc_Requests = None,
     pvc_VolumeMode = None, pvc_StorageClassName = None, pvc_DataSource = None\<rparr>"

definition zero_pod_scheduling :: pod_scheduling where
  "zero_pod_scheduling = \<lparr>ps_NodeSelector = [], ps_NodeName = '''', ps_Affinity = None,
     ps_SchedulerName = '''', ps_Tolerations = None, ps_PriorityClassName = '''', ps_Priority = None,
     ps_ReadinessGates = None, ps_RuntimeClassName = None, ps_PreemptionPolicy = None,
     ps_Overhead = None, ps_TopologySpreadConstraints = None\<rparr>"

definition zero_pod_network :: pod_network where
  "zero_pod_network = \<lparr>pn_DNSPolicy = '''', pn_HostNetwork = False, pn_HostPID = False,
     pn_ShareProcessNamespace = None, pn_Hostname = '''', pn_Subdomain = '''', pn_HostAliases = [],
     pn_DNSConfig = None, pn_EnableServiceLinks = None\<rparr>"

definition zero_pod_spec :: pod_spec where
  "zero_pod_spec = \<lparr>ps_Volumes = [], ps_InitContainers = [], ps_Containers = [],
     ps_EphemeralContainers = None, ps_RestartPolicy = '''', ps_TerminationGracePeriodSeconds = None,
     ps_ActiveDeadlineSeconds = None, ps_ServiceAccountName = '''', ps_DeprecatedServiceAccount = '''',
     ps_AutomountServiceAccountToken = None, ps_SecurityContext = None, ps_ImagePullSecrets = None,
     ps_Scheduling = zero_pod_scheduling, ps_Network = zero_pod_network\<rparr>"

definition zero_pod_template :: pod_template where
  "zero_pod_template = \<lparr>pt_Labels = [], pt_Annotations = [], pt_Spec = zero_pod_spec\<rparr>"

definition zero_statefulset_spec :: statefulset_spec where
  "zero_statefulset_spec = \<lparr>stss_Replicas = None, stss_Selector = None,
     stss_Template = zero_pod_template, stss_VolumeClaimTemplates = [], stss_ServiceName = '''',
     stss_PodManagementPolicy = '''', stss_UpdateStrategyType = '''', stss_RollingUpdate = None,
     stss_RevisionHistoryLimit = None\<rparr>"

definition zero_statefulset :: statefulset where
  "zero_statefulset = \<lparr>sts_Name = '''', sts_Namespace = '''', sts_Labels = [], sts_Annotations = [],
     sts_OwnerReferences = [], sts_Generation = 0, sts_Spec = zero_statefulset_spec,
     sts_ObservedGeneration = 0, sts_ReadyReplicas = 0, sts_UpdatedReplicas = 0\<rparr>"

end
