(* ===== verification/Automation_Config.thy ===== *)
theory Automation_Config
  imports Go_Values
begin

text \<open>
  The automation config, \<open>pkg/automationconfig/automation_config.go\<close>: the
  document the operator writes and the MongoDB agents act on, its processes
  and their \<open>args2_6\<close> settings, and the comparison of two configs through
  their JSON form.  Slices are lists; only \<open>BuildConfig.Modules\<close>, where the code
  itself distinguishes \<open>nil\<close> from empty, is optional.
\<close>

definition DefaultMongoDBDataDir :: string where "DefaultMongoDBDataDir = ''/data''"
definition DefaultDBPort :: int where "DefaultDBPort = 27017"
definition Mongod :: string where "Mongod = ''mongod''"

subsection \<open>Data\<close>

record member_options =
  mo_Votes :: "int option"
  mo_Priority :: "string option"
  mo_Tags :: "(string \<times> string) list"

record log_rotate =
  TimeThresholdHrs :: int
  NumUncompressed :: int
  NumTotal :: int
  IncludeAuditLogsWithMongoDBLogs :: bool

record crd_log_rotate =
  crd_LogRotate :: log_rotate
  crd_SizeThresholdMB :: string
  crd_PercentOfDiskspace :: string

record ac_log_rotate =
  aclr_LogRotate :: log_rotate
  aclr_SizeThresholdMB :: rat
  aclr_PercentOfDiskspace :: rat

definition zero_LogRotate :: log_rotate where
  "zero_LogRotate = \<lparr>TimeThresholdHrs = 0, NumUncompressed = 0, NumTotal = 0,
     IncludeAuditLogsWithMongoDBLogs = False\<rparr>"

definition zero_AcLogRotate :: ac_log_rotate where
  "zero_AcLogRotate = \<lparr>aclr_LogRotate = zero_LogRotate, aclr_SizeThresholdMB = 0,
     aclr_PercentOfDiskspace = 0\<rparr>"

record process =
  p_Name :: string
  p_Disabled :: bool
  p_HostName :: string
  p_Args26 :: "go_map option"
  p_FeatureCompatibilityVersion :: string
  p_ProcessType :: string
  p_Version :: string
  p_AuthSchemaVersion :: int
  p_LogRotate :: "ac_log_rotate option"
  p_AuditLogRotate :: "ac_log_rotate option"

record system_log =
  sl_Destination :: string
  sl_Path :: string
  sl_LogAppend :: bool

type_synonym horizons = "(string \<times> string) list"

record replica_set_member =
  rsm_Id :: int
  rsm_Host :: string
  rsm_ArbiterOnly :: bool
  rsm_Horizons :: horizons
  rsm_Votes :: "int option"
  rsm_Priority :: "rat option"
  rsm_Tags :: "(string \<times> string) list"

record replica_set =
  rs_Id :: string
  rs_Members :: "replica_set_member list"
  rs_ProtocolVersion :: string
  rs_NumberArbiters :: int
  rs_Force :: "int option"
  rs_Settings :: go_map

record scram_creds =
  IterationCount :: int
  Salt :: string
  ServerKey :: string
  StoredKey :: string

record ac_role =
  acr_Role :: string
  acr_Database :: string

record ac_user =
  acu_Mechanisms :: "string list"
  acu_Roles :: "ac_role list"
  acu_Username :: string
  acu_Database :: string
  acu_AuthenticationRestrictions :: "string list"
  acu_ScramSha256Creds :: "scram_creds option"
  acu_ScramSha1Creds :: "scram_creds option"

record deleted_user =
  du_User :: string
  du_Dbs :: "string list"

record ac_auth =
  au_Users :: "ac_user list"
  au_Disabled :: bool
  au_AuthoritativeSet :: bool
  au_AutoAuthMechanisms :: "string list"
  au_AutoAuthMechanism :: string
  au_DeploymentAuthMechanisms :: "string list"
  au_AutoUser :: string
  au_Key :: string
  au_KeyFile :: string
  au_KeyFileWindows :: string
  au_AutoPwd :: string
  au_UsersDeleted :: "deleted_user list"

record ac_prometheus =
  prom_Enabled :: bool
  prom_Username :: string
  prom_Password :: string
  prom_PasswordHash :: string
  prom_PasswordSalt :: string
  prom_Scheme :: string
  prom_TLSPemPath :: string
  prom_TLSPemPassword :: string
  prom_Mode :: string
  prom_ListenAddress :: string
  prom_MetricsPath :: string

record ac_tls =
  tls_CAFilePath :: string
  tls_AutoPEMKeyFilePath :: string
  tls_ClientCertificateMode :: string

record build_config =
  bc_Platform :: string
  bc_Url :: string
  bc_GitVersion :: string
  bc_Architecture :: string
  bc_Flavor :: string
  bc_MinOsVersion :: string
  bc_MaxOsVersion :: string
  bc_Modules :: "string list option"

record version_config =
  vc_Name :: string
  vc_Builds :: "build_config list"

record monitoring_version =
  mv_Hostname :: string
  mv_Name :: string
  mv_BaseUrl :: string
  mv_AdditionalParams :: "(string \<times> string) list"

record ac_resource =
  res_DB :: "string option"
  res_Collection :: "string option"
  res_AnyResource :: bool
  res_Cluster :: bool

record ac_privilege =
  priv_Resource :: ac_resource
  priv_Actions :: "string list"

record ac_auth_restriction =
  ar_ClientSource :: "string list"
  ar_ServerAddress :: "string list"

record ac_custom_role =
  cr_Role :: string
  cr_DB :: string
  cr_Privileges :: "ac_privilege list"
  cr_Roles :: "ac_role list"
  cr_AuthenticationRestrictions :: "ac_auth_restriction list"

record automation_config =
  ac_Version :: int
  ac_Processes :: "process list"
  ac_ReplicaSets :: "replica_set list"
  ac_Auth :: ac_auth
  ac_Prometheus :: "ac_prometheus option"
  ac_TLSConfig :: "ac_tls option"
  ac_SSLConfig :: "ac_tls option"
  ac_Versions :: "version_config list"
  ac_BackupVersions :: "string list"
  ac_MonitoringVersions :: "monitoring_version list"
  ac_Options :: string
  ac_Roles :: "ac_custom_role list"

text \<open>\<open>Auth{}\<close> and \<open>AutomationConfig{}\<close>, the zero values.\<close>

definition zero_Auth :: ac_auth where
  "zero_Auth = \<lparr>au_Users = [], au_Disabled = False, au_AuthoritativeSet = False,
     au_AutoAuthMechanisms = [], au_AutoAuthMechanism = '''', au_DeploymentAuthMechanisms = [],
     au_AutoUser = '''', au_Key = '''', au_KeyFile = '''', au_KeyFileWindows = '''',
     au_AutoPwd = '''', au_UsersDeleted = []\<rparr>"

definition zero_AutomationConfig :: automation_config where
  "zero_AutomationConfig = \<lparr>ac_Version = 0, ac_Processes = [], ac_ReplicaSets = [],
     ac_Auth = zero_Auth, ac_Prometheus = None, ac_TLSConfig = None, ac_SSLConfig = None,
     ac_Versions = [], ac_BackupVersions = [], ac_MonitoringVersions = [], ac_Options = '''',
     ac_Roles = []\<rparr>"

definition zero_Process :: process where
  "zero_Process = \<lparr>p_Name = '''', p_Disabled = False, p_HostName = '''', p_Args26 = None,
     p_FeatureCompatibilityVersion = '''', p_ProcessType = '''', p_Version = '''',
     p_AuthSchemaVersion = 0, p_LogRotate = None, p_AuditLogRotate = None\<rparr>"

subsection \<open>Member options\<close>

text \<open>\<open>cast.ToFloat32\<close> and \<open>cast.ToFloat64\<close> come from a third-party package: the
  argument \<open>toFloat\<close>.\<close>

definition GetVotes :: "member_options \<Rightarrow> int" where
  "GetVotes mo = (case mo_Votes mo of Some v \<Rightarrow> v | None \<Rightarrow> 1)"

definition GetPriority :: "(string \<Rightarrow> rat) \<Rightarrow> member_options \<Rightarrow> rat" where
  "GetPriority toFloat mo = (case mo_Priority mo of Some p \<Rightarrow> toFloat p | None \<Rightarrow> 1)"

definition GetTags :: "member_options \<Rightarrow> (string \<times> string) list" where
  "GetTags mo = mo_Tags mo"

subsection \<open>Processes\<close>

fun find_process :: "string \<Rightarrow> process list \<Rightarrow> process option" where
  "find_process name [] = None"
| "find_process name (p # ps) = (if p_Name p = name then Some p else find_process name ps)"

definition GetProcessByName :: "automation_config \<Rightarrow> string \<Rightarrow> process option" where
  "GetProcessByName ac name = find_process name (ac_Processes ac)"

definition ensureArgs26 :: "process \<Rightarrow> process" where
  "ensureArgs26 p = (case p_Args26 p of None \<Rightarrow> p\<lparr>p_Args26 := Some []\<rparr> | Some _ \<Rightarrow> p)"

definition SetArgs26Field :: "objx \<Rightarrow> string \<Rightarrow> go_value \<Rightarrow> process \<Rightarrow> process" where
  "SetArgs26Field ox fieldName value p =
    (let p' = ensureArgs26 p
     in p'\<lparr>p_Args26 := map_option (\<lambda>m. objx_Set ox m fieldName value) (p_Args26 p')\<rparr>)"

definition SetPort :: "objx \<Rightarrow> int \<Rightarrow> process \<Rightarrow> process" where
  "SetPort ox port = SetArgs26Field ox ''net.port'' (VInt port)"

definition GetPort :: "objx \<Rightarrow> process \<Rightarrow> int" where
  "GetPort ox p = (case p_Args26 p of
      None \<Rightarrow> 0
    | Some m \<Rightarrow> (case objx_Get ox m ''net.port'' of
          Some (VFloat r) \<Rightarrow> trunc_float r
        | Some (VInt i) \<Rightarrow> i
        | _ \<Rightarrow> 0))"

definition SetStoragePath :: "objx \<Rightarrow> string \<Rightarrow> process \<Rightarrow> process" where
  "SetStoragePath ox path = SetArgs26Field ox ''storage.dbPath'' (VStr path)"

definition SetReplicaSetName :: "objx \<Rightarrow> string \<Rightarrow> process \<Rightarrow> process" where
  "SetReplicaSetName ox name = SetArgs26Field ox ''replication.replSetName'' (VStr name)"

definition SetSystemLog :: "objx \<Rightarrow> system_log \<Rightarrow> process \<Rightarrow> process" where
  "SetSystemLog ox systemLog p =
    SetArgs26Field ox ''systemLog.logAppend'' (VBool (sl_LogAppend systemLog))
      (SetArgs26Field ox ''systemLog.destination'' (VStr (sl_Destination systemLog))
        (SetArgs26Field ox ''systemLog.path'' (VStr (sl_Path systemLog)) p))"

definition ConvertCrdLogRotateToAC :: "(string \<Rightarrow> rat) \<Rightarrow> crd_log_rotate option \<Rightarrow> ac_log_rotate option" where
  "ConvertCrdLogRotateToAC toFloat lr = (case lr of
      None \<Rightarrow> Some zero_AcLogRotate
    | Some l \<Rightarrow> Some \<lparr>aclr_LogRotate =
          \<lparr>TimeThresholdHrs = TimeThresholdHrs (crd_LogRotate l),
           NumUncompressed = NumUncompressed (crd_LogRotate l),
           NumTotal = NumTotal (crd_LogRotate l),
           IncludeAuditLogsWithMongoDBLogs = IncludeAuditLogsWithMongoDBLogs (crd_LogRotate l)\<rparr>,
        aclr_SizeThresholdMB = toFloat (crd_SizeThresholdMB l),
        aclr_PercentOfDiskspace = toFloat (crd_PercentOfDiskspace l)\<rparr>)"

definition SetLogRotate :: "(string \<Rightarrow> rat) \<Rightarrow> crd_log_rotate option \<Rightarrow> process \<Rightarrow> process" where
  "SetLogRotate toFloat lr p = p\<lparr>p_LogRotate := ConvertCrdLogRotateToAC toFloat lr\<rparr>"

definition SetAuditLogRotate :: "(string \<Rightarrow> rat) \<Rightarrow> crd_log_rotate option \<Rightarrow> process \<Rightarrow> process" where
  "SetAuditLogRotate toFloat lr p = p\<lparr>p_AuditLogRotate := ConvertCrdLogRotateToAC toFloat lr\<rparr>"

definition SetWiredTigerCache :: "objx \<Rightarrow> rat option \<Rightarrow> process \<Rightarrow> process" where
  "SetWiredTigerCache ox cacheSizeGb p = (case cacheSizeGb of
      None \<Rightarrow> p
    | Some r \<Rightarrow> SetArgs26Field ox ''storage.wiredTiger.engineConfig.cacheSizeGB'' (VFloat r) p)"

definition ConfigureAgentConfiguration ::
    "objx \<Rightarrow> (string \<Rightarrow> rat) \<Rightarrow> system_log option \<Rightarrow> crd_log_rotate option \<Rightarrow> crd_log_rotate option
      \<Rightarrow> process \<Rightarrow> process" where
  "ConfigureAgentConfiguration ox toFloat systemLog logRotate auditLR p =
    (let p1 = (case systemLog of Some s \<Rightarrow> SetSystemLog ox s p | None \<Rightarrow> p)
     in case logRotate of
          Some _ \<Rightarrow> SetAuditLogRotate toFloat auditLR (SetLogRotate toFloat logRotate p1)
        | None \<Rightarrow> p1)"

subsection \<open>Replica set members, auth and Prometheus\<close>

definition newReplicaSetMember :: "string \<Rightarrow> int \<Rightarrow> horizons \<Rightarrow> bool \<Rightarrow> bool \<Rightarrow> replica_set_member" where
  "newReplicaSetMember name i horizons isArbiter isVotingMember =
    \<lparr>rsm_Id = i, rsm_Host = name, rsm_ArbiterOnly = isArbiter, rsm_Horizons = horizons,
     rsm_Votes = Some (if isVotingMember then 1 else 0),
     rsm_Priority = Some (if isVotingMember then 1 else 0), rsm_Tags = []\<rparr>"

definition disabledAuth :: ac_auth where
  "disabledAuth = zero_Auth\<lparr>au_Users := [], au_AutoAuthMechanisms := [],
     au_DeploymentAuthMechanisms := [], au_AutoAuthMechanism := ''MONGODB-CR'', au_Disabled := True\<rparr>"

definition NewDefaultPrometheus :: "string \<Rightarrow> ac_prometheus" where
  "NewDefaultPrometheus username = \<lparr>prom_Enabled = True, prom_Username = username,
     prom_Password = '''', prom_PasswordHash = '''', prom_PasswordSalt = '''', prom_Scheme = ''http'',
     prom_TLSPemPath = '''', prom_TLSPemPassword = '''', prom_Mode = ''opsManager'',
     prom_ListenAddress = ''0.0.0.0:9216'', prom_MetricsPath = ''/metrics''\<rparr>"

subsection \<open>JSON form and comparison\<close>

definition json_LogRotate :: "log_rotate \<Rightarrow> (string \<times> json) list" where
  "json_LogRotate l =
    [(''timeThresholdHrs'', jint (TimeThresholdHrs l))] @
    omitempty (NumUncompressed l = 0) ''numUncompressed'' (jint (NumUncompressed l)) @
    omitempty (NumTotal l = 0) ''numTotal'' (jint (NumTotal l)) @
    omitempty (\<not> IncludeAuditLogsWithMongoDBLogs l) ''includeAuditLogsWithMongoDBLogs''
      (JBool (IncludeAuditLogsWithMongoDBLogs l))"

definition json_AcLogRotate :: "ac_log_rotate \<Rightarrow> json" where
  "json_AcLogRotate l = JObj (json_LogRotate (aclr_LogRotate l) @
    [(''sizeThresholdMB'', JNum (aclr_SizeThresholdMB l))] @
    omitempty (aclr_PercentOfDiskspace l = 0) ''percentOfDiskspace'' (JNum (aclr_PercentOfDiskspace l)))"

definition json_Process :: "process \<Rightarrow> json" where
  "json_Process p = JObj (
    [(''name'', JStr (p_Name p)), (''disabled'', JBool (p_Disabled p)),
     (''hostname'', JStr (p_HostName p)),
     (''args2_6'', case p_Args26 p of None \<Rightarrow> JNull | Some m \<Rightarrow> jmap m),
     (''featureCompatibilityVersion'', JStr (p_FeatureCompatibilityVersion p)),
     (''processType'', JStr (p_ProcessType p)), (''version'', JStr (p_Version p)),
     (''authSchemaVersion'', jint (p_AuthSchemaVersion p))] @
    omitnil ''logRotate'' json_AcLogRotate (p_LogRotate p) @
    omitnil ''auditLogRotate'' json_AcLogRotate (p_AuditLogRotate p))"

definition json_ReplicaSetMember :: "replica_set_member \<Rightarrow> json" where
  "json_ReplicaSetMember m = JObj (
    [(''_id'', jint (rsm_Id m)), (''host'', JStr (rsm_Host m)),
     (''arbiterOnly'', JBool (rsm_ArbiterOnly m))] @
    omitempty (rsm_Horizons m = []) ''horizons'' (jstrmap (rsm_Horizons m)) @
    omitnil ''votes'' jint (rsm_Votes m) @
    omitnil ''priority'' JNum (rsm_Priority m) @
    omitempty (rsm_Tags m = []) ''tags'' (jstrmap (rsm_Tags m)))"

definition json_ReplicaSet :: "replica_set \<Rightarrow> json" where
  "json_ReplicaSet r = JObj (
    [(''_id'', JStr (rs_Id r)), (''members'', JArr (map json_ReplicaSetMember (rs_Members r))),
     (''protocolVersion'', JStr (rs_ProtocolVersion r)),
     (''numberArbiters'', jint (rs_NumberArbiters r))] @
    omitnil ''force'' (\<lambda>v. JObj [(''currentVersion'', jint v)]) (rs_Force r) @
    omitempty (rs_Settings r = []) ''settings'' (jmap (rs_Settings r)))"

definition json_ScramCreds :: "scram_creds \<Rightarrow> json" where
  "json_ScramCreds c = JObj [(''iterationCount'', jint (IterationCount c)), (''salt'', JStr (Salt c)),
     (''serverKey'', JStr (ServerKey c)), (''storedKey'', JStr (StoredKey c))]"

definition json_Role :: "ac_role \<Rightarrow> json" where
  "json_Role r = JObj [(''role'', JStr (acr_Role r)), (''db'', JStr (acr_Database r))]"

definition json_MongoDBUser :: "ac_user \<Rightarrow> json" where
  "json_MongoDBUser u = JObj (
    [(''mechanisms'', jstrs (acu_Mechanisms u)), (''roles'', JArr (map json_Role (acu_Roles u))),
     (''user'', JStr (acu_Username u)), (''db'', JStr (acu_Database u)),
     (''authenticationRestrictions'', jstrs (acu_AuthenticationRestrictions u))] @
    omitnil ''scramSha256Creds'' json_ScramCreds (acu_ScramSha256Creds u) @
    omitnil ''scramSha1Creds'' json_ScramCreds (acu_ScramSha1Creds u))"

definition json_DeletedUser :: "deleted_user \<Rightarrow> json" where
  "json_DeletedUser d = JObj (
    omitempty (du_User d = '''') ''user'' (JStr (du_User d)) @
    omitempty (du_Dbs d = []) ''dbs'' (jstrs (du_Dbs d)))"

definition json_Auth :: "ac_auth \<Rightarrow> json" where
  "json_Auth a = JObj (
    omitempty (au_Users a = []) ''usersWanted'' (JArr (map json_MongoDBUser (au_Users a))) @
    [(''disabled'', JBool (au_Disabled a)), (''authoritativeSet'', JBool (au_AuthoritativeSet a))] @
    omitempty (au_AutoAuthMechanisms a = []) ''autoAuthMechanisms'' (jstrs (au_AutoAuthMechanisms a)) @
    [(''autoAuthMechanism'', JStr (au_AutoAuthMechanism a))] @
    omitempty (au_DeploymentAuthMechanisms a = []) ''deploymentAuthMechanisms''
      (jstrs (au_DeploymentAuthMechanisms a)) @
    omitempty (au_AutoUser a = '''') ''autoUser'' (JStr (au_AutoUser a)) @
    omitempty (au_Key a = '''') ''key'' (JStr (au_Key a)) @
    omitempty (au_KeyFile a = '''') ''keyfile'' (JStr (au_KeyFile a)) @
    omitempty (au_KeyFileWindows a = '''') ''keyfileWindows'' (JStr (au_KeyFileWindows a)) @
    omitempty (au_AutoPwd a = '''') ''autoPwd'' (JStr (au_AutoPwd a)) @
    omitempty (au_UsersDeleted a = []) ''usersDeleted'' (JArr (map json_DeletedUser (au_UsersDeleted a))))"

definition json_Prometheus :: "ac_prometheus \<Rightarrow> json" where
  "json_Prometheus p = JObj (
    [(''enabled'', JBool (prom_Enabled p)), (''username'', JStr (prom_Username p))] @
    omitempty (prom_Password p = '''') ''password'' (JStr (prom_Password p)) @
    omitempty (prom_PasswordHash p = '''') ''passwordHash'' (JStr (prom_PasswordHash p)) @
    omitempty (prom_PasswordSalt p = '''') ''passwordSalt'' (JStr (prom_PasswordSalt p)) @
    [(''scheme'', JStr (prom_Scheme p)), (''tlsPemPath'', JStr (prom_TLSPemPath p)),
     (''tlsPemPassword'', JStr (prom_TLSPemPassword p)), (''mode'', JStr (prom_Mode p)),
     (''listenAddress'', JStr (prom_ListenAddress p)), (''metricsPath'', JStr (prom_MetricsPath p))])"

definition json_TLS :: "ac_tls \<Rightarrow> json" where
  "json_TLS t = JObj (
    [(''CAFilePath'', JStr (tls_CAFilePath t))] @
    omitempty (tls_AutoPEMKeyFilePath t = '''') ''autoPEMKeyFilePath'' (JStr (tls_AutoPEMKeyFilePath t)) @
    [(''clientCertificateMode'', JStr (tls_ClientCertificateMode t))])"

definition json_BuildConfig :: "build_config \<Rightarrow> json" where
  "json_BuildConfig b = JObj
    [(''platform'', JStr (bc_Platform b)), (''url'', JStr (bc_Url b)),
     (''gitVersion'', JStr (bc_GitVersion b)), (''architecture'', JStr (bc_Architecture b)),
     (''flavor'', JStr (bc_Flavor b)), (''minOsVersion'', JStr (bc_MinOsVersion b)),
     (''maxOsVersion'', JStr (bc_MaxOsVersion b)),
     (''modules'', case bc_Modules b of None \<Rightarrow> JNull | Some ms \<Rightarrow> jstrs ms)]"

definition json_MongoDbVersionConfig :: "version_config \<Rightarrow> json" where
  "json_MongoDbVersionConfig v = JObj
    [(''name'', JStr (vc_Name v)), (''builds'', JArr (map json_BuildConfig (vc_Builds v)))]"

definition json_MonitoringVersion :: "monitoring_version \<Rightarrow> json" where
  "json_MonitoringVersion m = JObj (
    [(''hostname'', JStr (mv_Hostname m)), (''name'', JStr (mv_Name m)),
     (''baseUrl'', JStr (mv_BaseUrl m))] @
    omitempty (mv_AdditionalParams m = []) ''additionalParams'' (jstrmap (mv_AdditionalParams m)))"

definition json_Resource :: "ac_resource \<Rightarrow> json" where
  "json_Resource r = JObj (
    omitnil ''db'' JStr (res_DB r) @ omitnil ''collection'' JStr (res_Collection r) @
    omitempty (\<not> res_AnyResource r) ''anyResource'' (JBool (res_AnyResource r)) @
    omitempty (\<not> res_Cluster r) ''cluster'' (JBool (res_Cluster r)))"

definition json_Privilege :: "ac_privilege \<Rightarrow> json" where
  "json_Privilege p = JObj [(''resource'', json_Resource (priv_Resource p)),
     (''actions'', jstrs (priv_Actions p))]"

definition json_CustomRole :: "ac_custom_role \<Rightarrow> json" where
  "json_CustomRole c = JObj (
    [(''role'', JStr (cr_Role c)), (''db'', JStr (cr_DB c)),
     (''privileges'', JArr (map json_Privilege (cr_Privileges c))),
     (''roles'', JArr (map json_Role (cr_Roles c)))] @
    omitempty (cr_AuthenticationRestrictions c = []) ''authenticationRestrictions''
      (JArr (map (\<lambda>r. JObj [(''clientSource'', jstrs (ar_ClientSource r)),
                             (''serverAddress'', jstrs (ar_ServerAddress r))])
               (cr_AuthenticationRestrictions c))))"

definition marshal_AutomationConfig :: "automation_config \<Rightarrow> json" where
  "marshal_AutomationConfig ac = JObj (
    [(''version'', jint (ac_Version ac)),
     (''processes'', JArr (map json_Process (ac_Processes ac))),
     (''replicaSets'', JArr (map json_ReplicaSet (ac_ReplicaSets ac))),
     (''auth'', json_Auth (ac_Auth ac))] @
    omitnil ''prometheus'' json_Prometheus (ac_Prometheus ac) @
    omitnil ''tls'' json_TLS (ac_TLSConfig ac) @
    omitnil ''ssl'' json_TLS (ac_SSLConfig ac) @
    [(''mongoDbVersions'', JArr (map json_MongoDbVersionConfig (ac_Versions ac))),
     (''backupVersions'', JArr (map (\<lambda>u. JObj [(''baseUrl'', JStr u)]) (ac_BackupVersions ac))),
     (''monitoringVersions'', JArr (map json_MonitoringVersion (ac_MonitoringVersions ac))),
     (''options'', JObj [(''downloadBase'', JStr (ac_Options ac))])] @
    omitempty (ac_Roles ac = []) ''roles'' (JArr (map json_CustomRole (ac_Roles ac))))"

text \<open>Marshalling these values cannot fail, so the error results of \<open>AreEqual\<close>
  have no counterpart here.\<close>

definition AreEqual :: "automation_config \<Rightarrow> automation_config \<Rightarrow> bool" where
  "AreEqual ac0 ac1 =
    (marshal_AutomationConfig (ac0\<lparr>ac_Version := ac_Version ac1\<rparr>) = marshal_AutomationConfig ac1)"

subsection \<open>Laws\<close>

lemma marshal_version: "marshal_AutomationConfig a = marshal_AutomationConfig b \<Longrightarrow> ac_Version a = ac_Version b"
  by (simp add: marshal_AutomationConfig_def jint_def)

lemma marshal_with_version:
  "marshal_AutomationConfig (a\<lparr>ac_Version := v\<rparr>) = marshal_AutomationConfig (b\<lparr>ac_Version := v\<rparr>) \<longleftrightarrow>
   marshal_AutomationConfig (a\<lparr>ac_Version := w\<rparr>) = marshal_AutomationConfig (b\<lparr>ac_Version := w\<rparr>)"
  by (simp add: marshal_AutomationConfig_def)

lemma AreEqual_alt:
  "AreEqual a b \<longleftrightarrow>
   marshal_AutomationConfig (a\<lparr>ac_Version := v\<rparr>) = marshal_AutomationConfig (b\<lparr>ac_Version := v\<rparr>)"
  unfolding AreEqual_def using marshal_with_version[where a = a and b = b and v = "ac_Version b" and w = v]
  by simp

lemma AreEqual_refl [simp]: "AreEqual a (a\<lparr>ac_Version := v\<rparr>)"
  by (simp add: AreEqual_def)

lemma AreEqual_version [simp]:
  "AreEqual (a\<lparr>ac_Version := v\<rparr>) b = AreEqual a b" "AreEqual a (b\<lparr>ac_Version := v\<rparr>) = AreEqual a b"
  by (simp_all add: AreEqual_alt[where v = 0])

lemma AreEqual_sym: "AreEqual a b \<longleftrightarrow> AreEqual b a"
  by (simp add: AreEqual_alt[where v = 0] eq_commute)

lemma AreEqual_trans: "AreEqual a b \<Longrightarrow> AreEqual b c \<Longrightarrow> AreEqual a c"
  by (simp add: AreEqual_alt[where v = 0])

lemma json_Process_inj_name: "json_Process p = json_Process q \<Longrightarrow> p_Name p = p_Name q"
  by (simp add: json_Process_def)

text \<open>The setters touch only \<open>args2_6\<close>.\<close>

lemma SetArgs26Field_sel [simp]:
  "p_Name (SetArgs26Field ox f v p) = p_Name p" "p_HostName (SetArgs26Field ox f v p) = p_HostName p"
  "p_Disabled (SetArgs26Field ox f v p) = p_Disabled p"
  "p_FeatureCompatibilityVersion (SetArgs26Field ox f v p) = p_FeatureCompatibilityVersion p"
  "p_Version (SetArgs26Field ox f v p) = p_Version p"
  "p_LogRotate (SetArgs26Field ox f v p) = p_LogRotate p"
  "p_AuditLogRotate (SetArgs26Field ox f v p) = p_AuditLogRotate p"
  by (simp_all add: SetArgs26Field_def ensureArgs26_def Let_def split: option.splits)

lemma SetArgs26Field_Args26:
  "p_Args26 (SetArgs26Field ox f v p) =
     Some (objx_Set ox (case p_Args26 p of None \<Rightarrow> [] | Some m \<Rightarrow> m) f v)"
  by (simp add: SetArgs26Field_def ensureArgs26_def Let_def split: option.splits)

lemmas setter_defs = SetPort_def SetStoragePath_def SetReplicaSetName_def SetSystemLog_def

lemma find_process_eq_find: "find_process n ps = find (\<lambda>p. p_Name p = n) ps"
  by (induction ps) auto

context objx_laws
begin

lemma GetPort_SetPort [simp]: "GetPort ox (SetPort ox n p) = n"
  by (simp add: GetPort_def SetPort_def SetArgs26Field_Args26 get_set_same)

lemma GetPort_other: "independent f ''net.port'' \<Longrightarrow> p_Args26 p \<noteq> None \<Longrightarrow>
   GetPort ox (SetArgs26Field ox f v p) = GetPort ox p"
  by (auto simp: GetPort_def SetArgs26Field_Args26 get_set_other)

end

end
