(* ===== verification/Scale.thy ===== *)
theory Scale
  imports Prelude
begin

text \<open>
  The replica set scaler, \<open>pkg/util/scale/scale.go\<close>: how many replicas one
  reconciliation configures.  A value of the Go interface \<open>ReplicaSetScaler\<close> is
  the record of what its three methods return.
\<close>

record replica_set_scaler =
  DesiredReplicas :: int
  CurrentReplicas :: int
  ForcedIndividualScaling :: bool

definition IsScalingDown :: "replica_set_scaler \<Rightarrow> bool" where
  "IsScalingDown s = (DesiredReplicas s < CurrentReplicas s)"

definition ReplicasThisReconciliation :: "replica_set_scaler \<Rightarrow> int" where
  "ReplicasThisReconciliation s =
    (if CurrentReplicas s = DesiredReplicas s then DesiredReplicas s
     else if \<not> ForcedIndividualScaling s \<and> CurrentReplicas s = 0 then DesiredReplicas s
     else if IsScalingDown s then CurrentReplicas s - 1
     else CurrentReplicas s + 1)"

definition IsStillScaling :: "replica_set_scaler \<Rightarrow> bool" where
  "IsStillScaling s = (ReplicasThisReconciliation s \<noteq> DesiredReplicas s)"

definition IsScalingUp :: "replica_set_scaler \<Rightarrow> bool" where
  "IsScalingUp s = (DesiredReplicas s > CurrentReplicas s \<and> CurrentReplicas s \<noteq> 0)"

definition HasZeroReplicas :: "replica_set_scaler \<Rightarrow> bool" where
  "HasZeroReplicas s = (CurrentReplicas s = 0)"

fun AnyAreStillScaling :: "replica_set_scaler list \<Rightarrow> bool" where
  "AnyAreStillScaling [] = False"
| "AnyAreStillScaling (s # ss) = (if IsStillScaling s then True else AnyAreStillScaling ss)"

lemma AnyAreStillScaling_iff: "AnyAreStillScaling ss \<longleftrightarrow> (\<exists>s\<in>set ss. IsStillScaling s)"
  by (induction ss) auto

subsection \<open>One step\<close>

abbreviation distance :: "replica_set_scaler \<Rightarrow> nat" where
  "distance s \<equiv> nat \<bar>DesiredReplicas s - CurrentReplicas s\<bar>"

lemma ReplicasThisReconciliation_step:
  "\<bar>ReplicasThisReconciliation s - CurrentReplicas s\<bar> \<le> 1 \<or>
   (\<not> ForcedIndividualScaling s \<and> CurrentReplicas s = 0 \<and>
    ReplicasThisReconciliation s = DesiredReplicas s)"
  by (auto simp: ReplicasThisReconciliation_def)

lemma ReplicasThisReconciliation_between:
  "min (CurrentReplicas s) (DesiredReplicas s) \<le> ReplicasThisReconciliation s"
  "ReplicasThisReconciliation s \<le> max (CurrentReplicas s) (DesiredReplicas s)"
  by (auto simp: ReplicasThisReconciliation_def IsScalingDown_def)

lemma ReplicasThisReconciliation_decreases:
  "CurrentReplicas s \<noteq> DesiredReplicas s \<Longrightarrow>
   nat \<bar>DesiredReplicas s - ReplicasThisReconciliation s\<bar> < distance s"
  by (auto simp: ReplicasThisReconciliation_def IsScalingDown_def)

text \<open>
  The contract between a scaler and the reconciliations that drive it: one
  round of a resource leaves the desired count alone and makes the count
  computed for this reconciliation the current one.  \<open>active\<close> singles out the
  states in which the round does drive this scaler; rounds preserve it.
\<close>

locale scaled_resource =
  fixes scaler :: "'s \<Rightarrow> replica_set_scaler"
    and round :: "'s \<Rightarrow> 's"
    and active :: "'s \<Rightarrow> bool"
  assumes active_round: "active s \<Longrightarrow> active (round s)"
    and desired_round: "active s \<Longrightarrow> DesiredReplicas (scaler (round s)) = DesiredReplicas (scaler s)"
    and current_round:
      "active s \<Longrightarrow> CurrentReplicas (scaler (round s)) = ReplicasThisReconciliation (scaler s)"
begin

lemma active_funpow: "active s \<Longrightarrow> active ((round ^^ n) s)"
  by (induction n) (simp_all add: active_round)

lemma desired_funpow:
  "active s \<Longrightarrow> DesiredReplicas (scaler ((round ^^ n) s)) = DesiredReplicas (scaler s)"
  by (induction n) (simp_all add: desired_round active_funpow)

lemma funpow_distance:
  assumes "active s"
  shows "distance (scaler ((round ^^ n) s)) \<le> distance (scaler s) - n"
proof (induction n)
  case (Suc n)
  let ?t = "(round ^^ n) s"
  have d: "DesiredReplicas (scaler (round ?t)) = DesiredReplicas (scaler ?t)"
    "CurrentReplicas (scaler (round ?t)) = ReplicasThisReconciliation (scaler ?t)"
    using active_funpow[OF assms] by (simp_all add: desired_round current_round)
  show ?case
  proof (cases "CurrentReplicas (scaler ?t) = DesiredReplicas (scaler ?t)")
    case True
    then show ?thesis using d by (simp add: ReplicasThisReconciliation_def)
  next
    case False
    then have "distance (scaler (round ?t)) < distance (scaler ?t)"
      using ReplicasThisReconciliation_decreases[OF False] d by simp
    then show ?thesis using Suc unfolding funpow.simps comp_apply by linarith
  qed
qed simp

lemma reaches_desired:
  assumes "active s" "distance (scaler s) \<le> n"
  shows "CurrentReplicas (scaler ((round ^^ n) s)) = DesiredReplicas (scaler s)"
  using funpow_distance[OF assms(1), of n] desired_funpow[OF assms(1), of n] assms(2) by simp

lemma stops_scaling:
  assumes "active s" "distance (scaler s) \<le> n"
  shows "\<not> IsStillScaling (scaler ((round ^^ n) s))"
  using reaches_desired[OF assms] desired_funpow[OF assms(1), of n]
  by (simp add: IsStillScaling_def ReplicasThisReconciliation_def)

end

end
