(* ===== verification/Mdb_Types.thy ===== *)
theory Mdb_Types
  imports K8s_Types Automation_Config Scale
begin

text \<open>
  The custom resource, \<open>api/v1/mongodbcommunity_types.go\<close>: the types of the
  spec and the status, and the methods the controller derives everything else
  from (names of owned objects, users, auth options, scaling, connection
  strings), with \<open>pkg/authentication/authtypes\<close> and \<open>pkg/util/constants\<close>.

  \<open>ox\<close> is the package \<open>objx\<close>, \<open>dns\<close> tells whether the third-party
  \<open>validation.IsDNS1123Subdomain\<close> returns no errors, \<open>order\<close> is the iteration
  order of a Go map, \<open>fmt_g\<close> prints a non-integral float.
\<close>

subsection \<open>Constants\<close>

definition ExternalDB :: string where "ExternalDB = ''$external''"
definition Sha256 :: string where "Sha256 = ''SCRAM-SHA-256''"
definition Sha1 :: string where "Sha1 = ''MONGODB-CR''"
definition X509 :: string where "X509 = ''MONGODB-X509''"
definition AgentName :: string where "AgentName = ''mms-automation''"
definition AgentPasswordKey :: string where "AgentPasswordKey = ''password''"
definition AgentKeyfileKey :: string where "AgentKeyfileKey = ''keyfile''"
definition AutomationAgentKeyFilePathInContainer :: string where
  "AutomationAgentKeyFilePathInContainer = ''/var/lib/mongodb-mms-automation/authentication/keyfile''"
definition AutomationAgentWindowsKeyFilePath :: string where
  "AutomationAgentWindowsKeyFilePath = ''%SystemDrive%'' @ [CHR 0x5C] @ ''MMSAutomation'' @ [CHR 0x5C] @ ''versions'' @ [CHR 0x5C] @ ''keyfile''"
definition defaultDBForUser :: string where "defaultDBForUser = ''admin''"
definition defaultPasswordKey :: string where "defaultPasswordKey = ''password''"
definition defaultMode :: string where "defaultMode = ''SCRAM-SHA-256''"
definition defaultClusterDomain :: string where "defaultClusterDomain = ''cluster.local''"
definition defaultPrometheusPort :: int where "defaultPrometheusPort = 9216"
definition protectedConnectionStringOptions :: "string list" where
  "protectedConnectionStringOptions = [''replicaSet'', ''ssl'', ''tls'']"
definition LastAppliedMongoDBVersion :: string where
  "LastAppliedMongoDBVersion = ''mongodb.com/v1.lastAppliedMongoDBVersion''"

subsection \<open>Spec and status\<close>

record secret_key_reference =
  skr_Name :: string
  skr_Key :: string

record crd_role =
  role_DB :: string
  role_Name :: string

record mongodb_user =
  u_Name :: string
  u_DB :: string
  u_PasswordSecretRef :: secret_key_reference
  u_Roles :: "crd_role list"
  u_ScramCredentialsSecretName :: string
  u_ConnectionStringSecretName :: string
  u_ConnectionStringSecretNamespace :: string
  u_AdditionalConnectionStringConfig :: go_map

record crd_tls =
  tls_Enabled :: bool
  tls_Optional :: bool
  tls_CertificateKeySecret :: string
  tls_CaCertificateSecret :: "string option"
  tls_CaConfigMap :: "string option"

record authentication =
  auth_Modes :: "string list"
  auth_AgentMode :: string
  auth_AgentCertificateSecret :: "string option"
  auth_IgnoreUnknownUsers :: "bool option"

record crd_resource =
  cres_DB :: "string option"
  cres_Collection :: "string option"
  cres_Cluster :: bool
  cres_AnyResource :: bool

record crd_privilege =
  cpriv_Resource :: crd_resource
  cpriv_Actions :: "string list"

record crd_auth_restriction =
  car_ClientSource :: "string list"
  car_ServerAddress :: "string list"

record crd_custom_role =
  ccr_Role :: string
  ccr_DB :: string
  ccr_Privileges :: "crd_privilege list"
  ccr_Roles :: "crd_role list"
  ccr_AuthenticationRestrictions :: "crd_auth_restriction list"

record security =
  sec_Authentication :: authentication
  sec_TLS :: crd_tls
  sec_Roles :: "crd_custom_role list option"

record crd_prometheus =
  cprom_Port :: int
  cprom_Username :: string
  cprom_PasswordSecretRef :: secret_key_reference
  cprom_MetricsPath :: string
  cprom_TLSSecretRef :: secret_key_reference

record override_process =
  op_Name :: string
  op_Disabled :: bool
  op_LogRotate :: "crd_log_rotate option"

record automation_config_override =
  aco_Processes :: "override_process list"
  aco_ReplicaSet_Id :: "string option"
  aco_ReplicaSet_Settings :: go_map

record agent_configuration =
  ag_LogLevel :: string
  ag_LogFile :: string
  ag_MaxLogFileDurationHours :: int
  ag_LogRotate :: "crd_log_rotate option"
  ag_AuditLogRotate :: "crd_log_rotate option"
  ag_SystemLog :: "system_log option"

record statefulset_configuration =
  sc_Spec :: statefulset_spec
  sc_Labels :: str_map
  sc_Annotations :: str_map

record mdb_spec =
  Members :: int
  Type :: string
  Version :: string
  Arbiters :: int
  FeatureCompatibilityVersion :: string
  ReplicaSetHorizons :: "horizons list"
  Security :: security
  Users :: "mongodb_user list"
  StatefulSetConfiguration :: statefulset_configuration
  AgentConfiguration :: agent_configuration
  AdditionalMongodConfig :: go_map
  AutomationConfigOverride :: "automation_config_override option"
  Prometheus :: "crd_prometheus option"
  AdditionalConnectionStringConfig :: go_map
  MemberConfig :: "member_options list"

datatype phase = Running | Failed | Pending | NoPhase

record mdb_status =
  MongoURI :: string
  Phase :: phase
  StatusVersion :: string
  CurrentStatefulSetReplicas :: int
  CurrentMongoDBMembers :: int
  CurrentStatefulSetArbitersReplicas :: int
  CurrentMongoDBArbiters :: int
  Message :: string

record mdb =
  mdb_Name :: string
  mdb_Namespace :: string
  mdb_Kind :: string
  mdb_UID :: string
  mdb_Annotations :: str_map
  Spec :: mdb_spec
  Status :: mdb_status

subsection \<open>Users\<close>

record auth_role =
  authrole_Name :: string
  authrole_Database :: string

record auth_user =
  Username :: string
  Database :: string
  UserRoles :: "auth_role list"
  PasswordSecretKey :: string
  PasswordSecretName :: string
  ScramCredentialsSecretName :: string
  ConnectionStringSecretName :: string
  ConnectionStringSecretNamespace :: string
  ConnectionStringOptions :: go_map

record auth_options =
  AuthoritativeSet :: bool
  KeyFile :: string
  AuthMechanisms :: "string list"
  opt_AgentName :: string
  AutoAuthMechanism :: string

definition IsSha256Present :: "auth_options \<Rightarrow> bool" where
  "IsSha256Present o' = (Sha256 \<in> set (AuthMechanisms o'))"

definition lower_char :: "char \<Rightarrow> char" where
  "lower_char c = (if in_range CHR ''A'' CHR ''Z'' c then char_of (of_char c + 32 :: nat) else c)"

text \<open>The replacement of every maximal run of characters matching \<open>P\<close> by one dash.\<close>

function replace_runs :: "(char \<Rightarrow> bool) \<Rightarrow> string \<Rightarrow> string" where
  "replace_runs P [] = []"
| "replace_runs P (c # s) = (if P c then CHR ''-'' # replace_runs P (dropWhile P s)
     else c # replace_runs P s)"
  by pat_completeness auto
termination
  by (relation "measure (\<lambda>(_, s). length s)") (auto simp: length_dropWhile_le less_Suc_eq_le)

definition name_char :: "char \<Rightarrow> bool" where
  "name_char c = (in_range CHR ''a'' CHR ''z'' c \<or> in_range CHR ''0'' CHR ''9'' c \<or> c = CHR ''-'')"

definition trim_dashes :: "string \<Rightarrow> string" where
  "trim_dashes s = rev (dropWhile (\<lambda>c. c = CHR ''-'') (rev (dropWhile (\<lambda>c. c = CHR ''-'') s)))"

text \<open>\<open>strings.ToLower\<close> is modelled on ASCII letters.\<close>

definition normalizeName :: "(string \<Rightarrow> bool) \<Rightarrow> string \<Rightarrow> string" where
  "normalizeName dns name = (if dns name then name
     else (let lowered = map lower_char name;
               replaced = replace_runs (\<lambda>c. \<not> name_char c) lowered;
               deduped = replace_runs (\<lambda>c. c = CHR ''-'') replaced;
               trimmed = trim_dashes deduped
           in if length trimmed > 253 then take 253 trimmed else trimmed))"

definition GetPasswordSecretKey :: "mongodb_user \<Rightarrow> string" where
  "GetPasswordSecretKey u = (if skr_Key (u_PasswordSecretRef u) = '''' then defaultPasswordKey
     else skr_Key (u_PasswordSecretRef u))"

definition GetScramCredentialsSecretName :: "mongodb_user \<Rightarrow> string" where
  "GetScramCredentialsSecretName u = u_ScramCredentialsSecretName u @ ''-'' @ ''scram-credentials''"

definition GetConnectionStringSecretName :: "(string \<Rightarrow> bool) \<Rightarrow> mongodb_user \<Rightarrow> string \<Rightarrow> string" where
  "GetConnectionStringSecretName dns u resourceName =
    (if u_ConnectionStringSecretName u \<noteq> '''' then u_ConnectionStringSecretName u
     else normalizeName dns (resourceName @ ''-'' @ u_DB u @ ''-'' @ u_Name u))"

definition GetConnectionStringSecretNamespace :: "mongodb_user \<Rightarrow> string \<Rightarrow> string" where
  "GetConnectionStringSecretNamespace u resourceNamespace =
    (if u_ConnectionStringSecretNamespace u \<noteq> '''' then u_ConnectionStringSecretNamespace u
     else resourceNamespace)"

definition GetAuthUser :: "(string \<Rightarrow> bool) \<Rightarrow> mdb \<Rightarrow> mongodb_user \<Rightarrow> auth_user" where
  "GetAuthUser dns m u0 =
    (let u = (if u_DB u0 = '''' then u0\<lparr>u_DB := defaultDBForUser\<rparr> else u0);
         base = \<lparr>Username = u_Name u, Database = u_DB u,
            UserRoles = map (\<lambda>r. \<lparr>authrole_Name = role_Name r, authrole_Database = role_DB r\<rparr>) (u_Roles u),
            PasswordSecretKey = '''', PasswordSecretName = '''', ScramCredentialsSecretName = '''',
            ConnectionStringSecretName = GetConnectionStringSecretName dns u (mdb_Name m),
            ConnectionStringSecretNamespace = GetConnectionStringSecretNamespace u (mdb_Namespace m),
            ConnectionStringOptions = u_AdditionalConnectionStringConfig u\<rparr>
     in if u_DB u \<noteq> ExternalDB
        then base\<lparr>ScramCredentialsSecretName := GetScramCredentialsSecretName u,
                  PasswordSecretKey := GetPasswordSecretKey u,
                  PasswordSecretName := skr_Name (u_PasswordSecretRef u)\<rparr>
        else base)"

definition GetAuthUsers :: "(string \<Rightarrow> bool) \<Rightarrow> mdb \<Rightarrow> auth_user list" where
  "GetAuthUsers dns m = map (GetAuthUser dns m) (Users (Spec m))"

subsection \<open>Authentication modes\<close>

definition IsAuthPresent :: "string list \<Rightarrow> string \<Rightarrow> bool" where
  "IsAuthPresent authModes auth = list_ex (\<lambda>m. m = auth) authModes"

definition ConvertAuthModeToAuthMechanism :: "string \<Rightarrow> string" where
  "ConvertAuthModeToAuthMechanism authMode =
    (if authMode = ''SCRAM'' \<or> authMode = ''SCRAM-SHA-256'' then Sha256
     else if authMode = ''SCRAM-SHA-1'' then Sha1
     else if authMode = ''X509'' then X509
     else '''')"

abbreviation spec_auth :: "mdb_spec \<Rightarrow> authentication" where
  "spec_auth s \<equiv> sec_Authentication (Security s)"

definition GetAgentAuthMode :: "mdb_spec \<Rightarrow> string" where
  "GetAgentAuthMode s =
    (let modes = auth_Modes (spec_auth s)
     in if auth_AgentMode (spec_auth s) \<noteq> '''' then auth_AgentMode (spec_auth s)
        else if length modes = 0 then ''SCRAM-SHA-256''
        else if length modes = 1 then modes ! 0
        else if length modes = 2 \<and>
             (IsAuthPresent modes ''SCRAM'' \<or> IsAuthPresent modes ''SCRAM-SHA-256'') \<and>
             IsAuthPresent modes ''SCRAM-SHA-1'' then ''SCRAM-SHA-256''
        else '''')"

definition IsAgentX509 :: "mdb_spec \<Rightarrow> bool" where
  "IsAgentX509 s = (GetAgentAuthMode s = ''X509'')"

definition GetAuthOptions :: "mdb \<Rightarrow> auth_options" where
  "GetAuthOptions m =
    (let ignoreUnknownUsers = (case auth_IgnoreUnknownUsers (spec_auth (Spec m)) of Some b \<Rightarrow> b | None \<Rightarrow> True);
         authModes = auth_Modes (spec_auth (Spec m));
         defaultAuthMechanism = ConvertAuthModeToAuthMechanism defaultMode;
         auto = ConvertAuthModeToAuthMechanism (GetAgentAuthMode (Spec m));
         autoAuthMechanism = (if auto = '''' then defaultAuthMechanism else auto);
         authMechanisms = (if length authModes = 0 then [defaultAuthMechanism]
           else map ConvertAuthModeToAuthMechanism authModes)
     in \<lparr>AuthoritativeSet = \<not> ignoreUnknownUsers,
         KeyFile = AutomationAgentKeyFilePathInContainer,
         AuthMechanisms = authMechanisms,
         opt_AgentName = AgentName,
         AutoAuthMechanism = autoAuthMechanism\<rparr>)"

subsection \<open>Names of owned objects\<close>

abbreviation nn :: "string \<Rightarrow> string \<Rightarrow> nsname" where
  "nn namespace name \<equiv> \<lparr>ns_Namespace = namespace, ns_Name = name\<rparr>"

definition NamespacedName :: "mdb \<Rightarrow> nsname" where
  "NamespacedName m = nn (mdb_Namespace m) (mdb_Name m)"

definition GetAgentPasswordSecretNamespacedName :: "mdb \<Rightarrow> nsname" where
  "GetAgentPasswordSecretNamespacedName m = nn (mdb_Namespace m) (mdb_Name m @ ''-agent-password'')"

definition GetAgentKeyfileSecretNamespacedName :: "mdb \<Rightarrow> nsname" where
  "GetAgentKeyfileSecretNamespacedName m = nn (mdb_Namespace m) (mdb_Name m @ ''-keyfile'')"

text \<open>\<open>metav1.NewControllerRef\<close> of the resource.\<close>

definition GetOwnerReferences :: "mdb \<Rightarrow> owner_ref list" where
  "GetOwnerReferences m = [\<lparr>or_APIVersion = ''mongodbcommunity.mongodb.com/v1'', or_Kind = mdb_Kind m,
     or_Name = mdb_Name m, or_UID = mdb_UID m\<rparr>]"

definition GetAgentCertificateRef :: "mdb_spec \<Rightarrow> string" where
  "GetAgentCertificateRef s = (case auth_AgentCertificateSecret (spec_auth s) of
      Some n \<Rightarrow> if n \<noteq> '''' then n else ''agent-certs''
    | None \<Rightarrow> ''agent-certs'')"

definition AgentCertificateSecretNamespacedName :: "mdb \<Rightarrow> nsname" where
  "AgentCertificateSecretNamespacedName m = nn (mdb_Namespace m) (GetAgentCertificateRef (Spec m))"

definition AgentCertificatePemSecretNamespacedName :: "mdb \<Rightarrow> nsname" where
  "AgentCertificatePemSecretNamespacedName m =
    nn (mdb_Namespace m) (GetAgentCertificateRef (Spec m) @ ''-pem'')"

definition ServiceName :: "mdb \<Rightarrow> string" where
  "ServiceName m =
    (let serviceName = stss_ServiceName (sc_Spec (StatefulSetConfiguration (Spec m)))
     in if serviceName \<noteq> '''' then serviceName else mdb_Name m @ ''-svc'')"

definition ArbiterNamespacedName :: "mdb \<Rightarrow> nsname" where
  "ArbiterNamespacedName m = nn (mdb_Namespace m) (mdb_Name m @ ''-arb'')"

definition AutomationConfigSecretName :: "mdb \<Rightarrow> string" where
  "AutomationConfigSecretName m = mdb_Name m @ ''-config''"

abbreviation spec_tls :: "mdb \<Rightarrow> crd_tls" where
  "spec_tls m \<equiv> sec_TLS (Security (Spec m))"

text \<open>The next two dereference an optional reference; they are only called where it is set.\<close>

definition TLSCaCertificateSecretNamespacedName :: "mdb \<Rightarrow> string \<Rightarrow> nsname" where
  "TLSCaCertificateSecretNamespacedName m caSecret = nn (mdb_Namespace m) caSecret"

definition TLSConfigMapNamespacedName :: "mdb \<Rightarrow> string \<Rightarrow> nsname" where
  "TLSConfigMapNamespacedName m caConfigMap = nn (mdb_Namespace m) caConfigMap"

definition TLSSecretNamespacedName :: "mdb \<Rightarrow> nsname" where
  "TLSSecretNamespacedName m = nn (mdb_Namespace m) (tls_CertificateKeySecret (spec_tls m))"

definition PrometheusTLSSecretNamespacedName :: "mdb \<Rightarrow> crd_prometheus \<Rightarrow> nsname" where
  "PrometheusTLSSecretNamespacedName m p = nn (mdb_Namespace m) (skr_Name (cprom_TLSSecretRef p))"

definition TLSOperatorCASecretNamespacedName :: "mdb \<Rightarrow> nsname" where
  "TLSOperatorCASecretNamespacedName m = nn (mdb_Namespace m) (mdb_Name m @ ''-ca-certificate'')"

definition TLSOperatorSecretNamespacedName :: "mdb \<Rightarrow> nsname" where
  "TLSOperatorSecretNamespacedName m = nn (mdb_Namespace m) (mdb_Name m @ ''-server-certificate-key'')"

definition PrometheusTLSOperatorSecretNamespacedName :: "mdb \<Rightarrow> nsname" where
  "PrometheusTLSOperatorSecretNamespacedName m =
    nn (mdb_Namespace m) (mdb_Name m @ ''-prometheus-certificate-key'')"

definition Prometheus_GetPasswordKey :: "crd_prometheus \<Rightarrow> string" where
  "Prometheus_GetPasswordKey p = (if skr_Key (cprom_PasswordSecretRef p) \<noteq> ''''
     then skr_Key (cprom_PasswordSecretRef p) else ''password'')"

definition Prometheus_GetPort :: "crd_prometheus \<Rightarrow> int" where
  "Prometheus_GetPort p = (if cprom_Port p \<noteq> 0 then cprom_Port p else defaultPrometheusPort)"

definition ConvertToAutomationConfigCustomRole :: "crd_custom_role \<Rightarrow> ac_custom_role" where
  "ConvertToAutomationConfigCustomRole c =
    \<lparr>cr_Role = ccr_Role c, cr_DB = ccr_DB c,
     cr_Privileges = map (\<lambda>p. \<lparr>priv_Resource =
         \<lparr>res_DB = cres_DB (cpriv_Resource p), res_Collection = cres_Collection (cpriv_Resource p),
          res_AnyResource = cres_AnyResource (cpriv_Resource p),
          res_Cluster = cres_Cluster (cpriv_Resource p)\<rparr>,
       priv_Actions = cpriv_Actions p\<rparr>) (ccr_Privileges c),
     cr_Roles = map (\<lambda>r. \<lparr>acr_Role = role_Name r, acr_Database = role_DB r\<rparr>) (ccr_Roles c),
     cr_AuthenticationRestrictions = map (\<lambda>r. \<lparr>ar_ClientSource = car_ClientSource r,
       ar_ServerAddress = car_ServerAddress r\<rparr>) (ccr_AuthenticationRestrictions c)\<rparr>"

definition ConvertCustomRolesToAutomationConfigCustomRole :: "crd_custom_role list \<Rightarrow> ac_custom_role list" where
  "ConvertCustomRolesToAutomationConfigCustomRole roles = map ConvertToAutomationConfigCustomRole roles"

subsection \<open>Scaling\<close>

definition automationConfigReplicasScaler :: "int \<Rightarrow> int \<Rightarrow> bool \<Rightarrow> replica_set_scaler" where
  "automationConfigReplicasScaler current desired force =
    \<lparr>DesiredReplicas = desired, CurrentReplicas = current, ForcedIndividualScaling = force\<rparr>"

text \<open>The resource itself as a scaler.\<close>

definition mdb_scaler :: "mdb \<Rightarrow> replica_set_scaler" where
  "mdb_scaler m = \<lparr>DesiredReplicas = Members (Spec m),
     CurrentReplicas = CurrentStatefulSetReplicas (Status m), ForcedIndividualScaling = False\<rparr>"

definition DesiredArbiters :: "mdb \<Rightarrow> int" where "DesiredArbiters m = Arbiters (Spec m)"

definition CurrentArbiters :: "mdb \<Rightarrow> int" where
  "CurrentArbiters m = CurrentStatefulSetArbitersReplicas (Status m)"

definition mdb_IsStillScaling :: "mdb \<Rightarrow> bool" where
  "mdb_IsStillScaling m = (IsStillScaling (mdb_scaler m) \<or>
     IsStillScaling (automationConfigReplicasScaler (CurrentArbiters m) (DesiredArbiters m) True))"

definition AutomationConfigMembersThisReconciliation :: "mdb \<Rightarrow> int" where
  "AutomationConfigMembersThisReconciliation m = ReplicasThisReconciliation
     (automationConfigReplicasScaler (CurrentMongoDBMembers (Status m)) (Members (Spec m)) False)"

definition AutomationConfigArbitersThisReconciliation :: "mdb \<Rightarrow> int" where
  "AutomationConfigArbitersThisReconciliation m =
    (if IsStillScaling (mdb_scaler m) then CurrentMongoDBArbiters (Status m)
     else ReplicasThisReconciliation
       (automationConfigReplicasScaler (CurrentMongoDBArbiters (Status m)) (Arbiters (Spec m)) True))"

definition StatefulSetReplicasThisReconciliation :: "mdb \<Rightarrow> int" where
  "StatefulSetReplicasThisReconciliation m = ReplicasThisReconciliation
     (automationConfigReplicasScaler (CurrentReplicas (mdb_scaler m)) (DesiredReplicas (mdb_scaler m)) False)"

definition StatefulSetArbitersThisReconciliation :: "mdb \<Rightarrow> int" where
  "StatefulSetArbitersThisReconciliation m = ReplicasThisReconciliation
     (automationConfigReplicasScaler (CurrentArbiters m) (DesiredArbiters m) True)"

subsection \<open>Versions\<close>

definition GetAnnotations :: "mdb \<Rightarrow> str_map" where
  "GetAnnotations m = mdb_Annotations m"

definition GetMongoDBVersionForAnnotation :: "mdb \<Rightarrow> string" where
  "GetMongoDBVersionForAnnotation m = Version (Spec m)"

definition getLastVersion :: "mdb \<Rightarrow> string" where
  "getLastVersion m = map_get LastAppliedMongoDBVersion '''' (mdb_Annotations m)"

definition IsChangingVersion :: "mdb \<Rightarrow> bool" where
  "IsChangingVersion m = (getLastVersion m \<noteq> '''' \<and> getLastVersion m \<noteq> Version (Spec m))"

definition GetUpdateStrategyType :: "mdb \<Rightarrow> string" where
  "GetUpdateStrategyType m = (if \<not> IsChangingVersion m then ''RollingUpdate'' else ''OnDelete'')"

subsection \<open>mongod configuration\<close>

definition GetMongodConfiguration :: "(go_map \<Rightarrow> go_map) \<Rightarrow> objx \<Rightarrow> mdb \<Rightarrow> go_map" where
  "GetMongodConfiguration order ox m =
    fold (\<lambda>(k, v) cfg. objx_Set ox cfg k v) (order (AdditionalMongodConfig (Spec m))) []"

definition GetDBDataDir :: "objx \<Rightarrow> go_map \<Rightarrow> string" where
  "GetDBDataDir ox cfg = (case objx_Get ox cfg ''storage.dbPath'' of
      Some (VStr s) \<Rightarrow> s | _ \<Rightarrow> DefaultMongoDBDataDir)"

definition GetDBPort :: "objx \<Rightarrow> go_map \<Rightarrow> int" where
  "GetDBPort ox cfg = (case objx_Get ox cfg ''net.port'' of
      Some (VInt i) \<Rightarrow> i
    | Some (VFloat r) \<Rightarrow> trunc_float r
    | _ \<Rightarrow> DefaultDBPort)"

definition SetDBPort :: "objx \<Rightarrow> int \<Rightarrow> go_map \<Rightarrow> go_map" where
  "SetDBPort ox port cfg = objx_Set ox cfg ''net.port'' (VFloat (of_int port))"

subsection \<open>Connection strings\<close>

definition hex_digit :: "nat \<Rightarrow> char" where
  "hex_digit n = (if n < 10 then char_of (48 + n) else char_of (55 + n))"

text \<open>\<open>url.QueryEscape\<close>.\<close>

definition query_escape_char :: "char \<Rightarrow> string" where
  "query_escape_char c =
    (if in_range CHR ''a'' CHR ''z'' c \<or> in_range CHR ''A'' CHR ''Z'' c \<or> in_range CHR ''0'' CHR ''9'' c
        \<or> c \<in> set ''-_.~'' then [c]
     else if c = CHR '' '' then ''+''
     else [CHR ''%'', hex_digit (of_char c div 16), hex_digit (of_char c mod 16)])"

definition QueryEscape :: "string \<Rightarrow> string" where
  "QueryEscape s = concat (map query_escape_char s)"

definition GetLoginString :: "auth_user \<Rightarrow> string \<Rightarrow> string" where
  "GetLoginString u password = (if Database u \<noteq> ExternalDB
     then QueryEscape (Username u) @ '':'' @ QueryEscape password @ ''@'' else '''')"

abbreviation unprotected :: "string \<Rightarrow> bool" where
  "unprotected key \<equiv> key \<notin> set protectedConnectionStringOptions"

definition options_string :: "(rat \<Rightarrow> string) \<Rightarrow> (string \<times> go_value) list \<Rightarrow> string" where
  "options_string fmt_g opts = (if opts = [] then ''''
     else ''&'' @ str_join ''&'' (map (\<lambda>(key, value). key @ ''='' @ fmt_v fmt_g value) opts))"

definition GetOptionsString :: "(go_map \<Rightarrow> go_map) \<Rightarrow> (rat \<Rightarrow> string) \<Rightarrow> mdb \<Rightarrow> string" where
  "GetOptionsString order fmt_g m = options_string fmt_g
     (filter (\<lambda>(key, _). unprotected key) (order (AdditionalConnectionStringConfig (Spec m))))"

definition user_options :: "(go_map \<Rightarrow> go_map) \<Rightarrow> mdb \<Rightarrow> auth_user \<Rightarrow> (string \<times> go_value) list" where
  "user_options order m user =
    filter (\<lambda>(key, _). unprotected key) (order (ConnectionStringOptions user)) @
    filter (\<lambda>(key, _). map_of (ConnectionStringOptions user) key = None \<and> unprotected key)
      (order (AdditionalConnectionStringConfig (Spec m)))"

definition GetUserOptionsString :: "(go_map \<Rightarrow> go_map) \<Rightarrow> (rat \<Rightarrow> string) \<Rightarrow> mdb \<Rightarrow> auth_user \<Rightarrow> string" where
  "GetUserOptionsString order fmt_g m user = options_string fmt_g (user_options order m user)"

definition Hosts :: "(go_map \<Rightarrow> go_map) \<Rightarrow> objx \<Rightarrow> mdb \<Rightarrow> string \<Rightarrow> string list" where
  "Hosts order ox m clusterDomain0 =
    (let clusterDomain = (if clusterDomain0 = '''' then defaultClusterDomain else clusterDomain0)
     in map (\<lambda>i. mdb_Name m @ ''-'' @ itoa (int i) @ ''.'' @ ServiceName m @ ''.'' @ mdb_Namespace m
            @ ''.svc.'' @ clusterDomain @ '':'' @ itoa (GetDBPort ox (GetMongodConfiguration order ox m)))
          [0..<nat (Members (Spec m))])"

definition mdb_MongoURI :: "(go_map \<Rightarrow> go_map) \<Rightarrow> (rat \<Rightarrow> string) \<Rightarrow> objx \<Rightarrow> mdb \<Rightarrow> string \<Rightarrow> string" where
  "mdb_MongoURI order fmt_g ox m clusterDomain =
    ''mongodb://'' @ str_join '','' (Hosts order ox m clusterDomain) @ ''/?replicaSet='' @ mdb_Name m
      @ GetOptionsString order fmt_g m"

definition MongoSRVURI :: "(go_map \<Rightarrow> go_map) \<Rightarrow> (rat \<Rightarrow> string) \<Rightarrow> mdb \<Rightarrow> string \<Rightarrow> string" where
  "MongoSRVURI order fmt_g m clusterDomain0 =
    (let clusterDomain = (if clusterDomain0 = '''' then defaultClusterDomain else clusterDomain0)
     in ''mongodb+srv://'' @ ServiceName m @ ''.'' @ mdb_Namespace m @ ''.svc.'' @ clusterDomain
        @ ''/?replicaSet='' @ mdb_Name m @ GetOptionsString order fmt_g m)"

definition fmt_bool :: "bool \<Rightarrow> string" where
  "fmt_bool b = (if b then ''true'' else ''false'')"

definition MongoAuthUserURI ::
    "(go_map \<Rightarrow> go_map) \<Rightarrow> (rat \<Rightarrow> string) \<Rightarrow> objx \<Rightarrow> mdb \<Rightarrow> auth_user \<Rightarrow> string \<Rightarrow> string \<Rightarrow> string" where
  "MongoAuthUserURI order fmt_g ox m user password clusterDomain =
    ''mongodb://'' @ GetLoginString user password @ str_join '','' (Hosts order ox m clusterDomain)
      @ ''/'' @ Database user @ ''?replicaSet='' @ mdb_Name m
      @ ''&ssl='' @ fmt_bool (tls_Enabled (spec_tls m)) @ GetUserOptionsString order fmt_g m user"

definition MongoAuthUserSRVURI ::
    "(go_map \<Rightarrow> go_map) \<Rightarrow> (rat \<Rightarrow> string) \<Rightarrow> mdb \<Rightarrow> auth_user \<Rightarrow> string \<Rightarrow> string \<Rightarrow> string" where
  "MongoAuthUserSRVURI order fmt_g m user password clusterDomain0 =
    (let clusterDomain = (if clusterDomain0 = '''' then defaultClusterDomain else clusterDomain0)
     in ''mongodb+srv://'' @ GetLoginString user password @ ServiceName m @ ''.'' @ mdb_Namespace m
        @ ''.svc.'' @ clusterDomain @ ''/'' @ Database user @ ''?replicaSet='' @ mdb_Name m
        @ ''&ssl='' @ fmt_bool (tls_Enabled (spec_tls m)) @ GetUserOptionsString order fmt_g m user)"

subsection \<open>A concrete resource\<close>

definition zero_spec :: mdb_spec where
  "zero_spec = \<lparr>Members = 0, Type = ''ReplicaSet'', Version = '''', Arbiters = 0,
     FeatureCompatibilityVersion = '''', ReplicaSetHorizons = [],
     Security = \<lparr>sec_Authentication = \<lparr>auth_Modes = [], auth_AgentMode = '''',
         auth_AgentCertificateSecret = None, auth_IgnoreUnknownUsers = None\<rparr>,
       sec_TLS = \<lparr>tls_Enabled = False, tls_Optional = False, tls_CertificateKeySecret = '''',
         tls_CaCertificateSecret = None, tls_CaConfigMap = None\<rparr>, sec_Roles = None\<rparr>,
     Users = [],
     StatefulSetConfiguration = \<lparr>sc_Spec = zero_statefulset_spec, sc_Labels = [], sc_Annotations = []\<rparr>,
     AgentConfiguration = \<lparr>ag_LogLevel = '''', ag_LogFile = '''', ag_MaxLogFileDurationHours = 0,
       ag_LogRotate = None, ag_AuditLogRotate = None, ag_SystemLog = None\<rparr>,
     AdditionalMongodConfig = [], AutomationConfigOverride = None, Prometheus = None,
     AdditionalConnectionStringConfig = [], MemberConfig = []\<rparr>"

definition zero_status :: mdb_status where
  "zero_status = \<lparr>MongoURI = '''', Phase = NoPhase, StatusVersion = '''',
     CurrentStatefulSetReplicas = 0, CurrentMongoDBMembers = 0,
     CurrentStatefulSetArbitersReplicas = 0, CurrentMongoDBArbiters = 0, Message = ''''\<rparr>"

definition demo_mdb :: "int \<Rightarrow> int \<Rightarrow> mdb" where
  "demo_mdb members arbiters = \<lparr>mdb_Name = ''mdb'', mdb_Namespace = ''ns'',
     mdb_Kind = ''MongoDBCommunity'', mdb_UID = ''uid'', mdb_Annotations = [],
     Spec = zero_spec\<lparr>Members := members, Arbiters := arbiters, Version := ''6.0.5''\<rparr>,
     Status = zero_status\<rparr>"

definition demo_user :: "string \<Rightarrow> string \<Rightarrow> mongodb_user" where
  "demo_user name db = \<lparr>u_Name = name, u_DB = db,
     u_PasswordSecretRef = \<lparr>skr_Name = (if db = ExternalDB then '''' else name @ ''-password''), skr_Key = ''''\<rparr>,
     u_Roles = [\<lparr>role_DB = ''admin'', role_Name = ''clusterAdmin''\<rparr>],
     u_ScramCredentialsSecretName = (if db = ExternalDB then '''' else name @ ''-scram''),
     u_ConnectionStringSecretName = '''', u_ConnectionStringSecretNamespace = '''',
     u_AdditionalConnectionStringConfig = []\<rparr>"

subsection \<open>Normalised names\<close>

abbreviation dash :: "char \<Rightarrow> bool" where "dash c \<equiv> c = CHR ''-''"

lemma set_replace_runs: "set (replace_runs P s) \<subseteq> insert (CHR ''-'') {c \<in> set s. \<not> P c}"
proof (induction P s rule: replace_runs.induct)
  case (2 P c s)
  then show ?case using set_dropWhileD[of _ P s] by (auto split: if_splits)
qed simp

lemma dropWhile_dash_Cons: "dropWhile dash s = c # t \<Longrightarrow> c \<noteq> CHR ''-''"
  by (induction s) (simp_all split: if_splits)

lemma hd_replace_dashes: "\<not> has_prefix (replace_runs dash (dropWhile dash s)) ''-''"
proof (cases "dropWhile dash s")
  case Nil
  show ?thesis unfolding Nil by simp
next
  case (Cons c t)
  show ?thesis unfolding Cons using dropWhile_dash_Cons[OF Cons] by simp
qed

lemma no_double_dash: "\<not> str_contains (replace_runs dash s) ''--''"
proof (induction dash s rule: replace_runs.induct)
  case (2 c s)
  show ?case
  proof (cases "dash c")
    case True
    then show ?thesis using 2(1)[OF True] hd_replace_dashes[of s]
      by (cases "replace_runs dash (dropWhile dash s)") auto
  next
    case False
    then show ?thesis using 2(2)[OF False] by auto
  qed
qed simp

lemma str_contains_infix: "\<not> str_contains (a @ s @ b) sub \<Longrightarrow> \<not> str_contains s sub"
  unfolding str_contains_iff by (metis append.assoc)

lemma trim_dashes_split:
  "dropWhile dash s = trim_dashes s @ rev (takeWhile dash (rev (dropWhile dash s)))"
proof -
  let ?t = "dropWhile dash s"
  have "rev (takeWhile dash (rev ?t) @ dropWhile dash (rev ?t)) = ?t"
    by (simp only: takeWhile_dropWhile_id rev_rev_ident)
  then show ?thesis unfolding trim_dashes_def rev_append by (rule sym)
qed

lemma trim_dashes_infix:
  "s = takeWhile dash s @ trim_dashes s @ rev (takeWhile dash (rev (dropWhile dash s)))"
  by (subst takeWhile_dropWhile_id[of dash s, symmetric], subst trim_dashes_split) (rule refl)

lemma trim_dashes_ends:
  assumes "trim_dashes s \<noteq> []"
  shows "hd (trim_dashes s) \<noteq> CHR ''-''" "last (trim_dashes s) \<noteq> CHR ''-''"
proof -
  obtain c t where ct: "dropWhile dash (rev (dropWhile dash s)) = c # t"
    using assms unfolding trim_dashes_def by (metis list.exhaust rev_is_Nil_conv)
  show "last (trim_dashes s) \<noteq> CHR ''-''"
    unfolding trim_dashes_def ct using dropWhile_dash_Cons[OF ct] by simp
  obtain d u where d: "trim_dashes s = d # u" using assms by (cases "trim_dashes s") auto
  have "dropWhile dash s = d # (u @ rev (takeWhile dash (rev (dropWhile dash s))))"
    using trim_dashes_split[of s] unfolding d append_Cons .
  from dropWhile_dash_Cons[OF this] show "hd (trim_dashes s) \<noteq> CHR ''-''" unfolding d by simp
qed

text \<open>A generated connection-string secret name that had to be normalised
  consists of lower-case letters, digits and single dashes, is at most 253
  characters long and does not start with a dash; it can end in one only
  when it was cut at 253 characters.\<close>

theorem normalizeName_shape:
  assumes "\<not> dns name"
  shows "list_all name_char (normalizeName dns name) \<and> length (normalizeName dns name) \<le> 253 \<and>
     \<not> str_contains (normalizeName dns name) ''--'' \<and>
     (normalizeName dns name = [] \<or> hd (normalizeName dns name) \<noteq> CHR ''-'' \<and>
       (last (normalizeName dns name) \<noteq> CHR ''-'' \<or> length (normalizeName dns name) = 253))"
proof -
  define d where "d = replace_runs dash (replace_runs (\<lambda>c. \<not> name_char c) (map lower_char name))"
  have r: "normalizeName dns name = take 253 (trim_dashes d)"
    using assms by (simp add: normalizeName_def d_def Let_def)
  obtain a b where ab: "d = a @ trim_dashes d @ b" using trim_dashes_infix[of d] by blast
  have "set (replace_runs (\<lambda>c. \<not> name_char c) (map lower_char name)) \<subseteq> {c. name_char c}"
    using set_replace_runs[of "\<lambda>c. \<not> name_char c" "map lower_char name"] by (auto simp: name_char_def)
  then have "set d \<subseteq> {c. name_char c}"
    using set_replace_runs[of dash] unfolding d_def by (fastforce simp: name_char_def)
  moreover have "set (trim_dashes d) \<subseteq> set d" by (subst (2) ab) auto
  ultimately have chars: "list_all name_char (take 253 (trim_dashes d))"
    using set_take_subset[of 253 "trim_dashes d"] by (auto simp: list_all_iff)
  have "\<not> str_contains (trim_dashes d) ''--''"
    using no_double_dash str_contains_infix ab unfolding d_def by metis
  then have dd: "\<not> str_contains (take 253 (trim_dashes d)) ''--''"
    using str_contains_infix[of "[]" "take 253 (trim_dashes d)" "drop 253 (trim_dashes d)"] by simp
  have "trim_dashes d = [] \<or> hd (take 253 (trim_dashes d)) \<noteq> CHR ''-'' \<and>
       (last (take 253 (trim_dashes d)) \<noteq> CHR ''-'' \<or> length (take 253 (trim_dashes d)) = 253)"
    using trim_dashes_ends[of d] by (cases "length (trim_dashes d) \<le> 253") (auto simp: hd_take)
  then show ?thesis unfolding r using chars dd by auto
qed

text \<open>A name cut at the maximal length can end in a dash, which RFC 1123 does not allow.\<close>

theorem normalizeName_may_end_in_dash:
  "last (normalizeName (\<lambda>_. False) (replicate 252 CHR ''a'' @ ''-B'')) = CHR ''-''"
  by code_simp

subsection \<open>Connection string options\<close>

text \<open>The options appended to a user's connection strings name every key once,
  never one of \<open>replicaSet\<close>, \<open>ssl\<close>, \<open>tls\<close>, and take the value the user configured
  where there is one and the value of the resource otherwise, whatever the
  order in which Go iterates over the two maps.\<close>

theorem user_options_override:
  assumes "\<And>m. distinct (map fst m) \<Longrightarrow> set (order m) = set m \<and> distinct (map fst (order m))"
    and "distinct (map fst (ConnectionStringOptions user))"
    and "distinct (map fst (AdditionalConnectionStringConfig (Spec m)))"
  shows "distinct (map fst (user_options order m user)) \<and>
    map_of (user_options order m user) =
      (\<lambda>k. if k \<in> set protectedConnectionStringOptions then None
           else case map_of (ConnectionStringOptions user) k of
                  Some v \<Rightarrow> Some v
                | None \<Rightarrow> map_of (AdditionalConnectionStringConfig (Spec m)) k)"
proof -
  let ?u = "ConnectionStringOptions user" and ?g = "AdditionalConnectionStringConfig (Spec m)"
  note u = assms(1)[OF assms(2)] and g = assms(1)[OF assms(3)]
  have fin: "set (user_options order m user) =
      {(k, v). (k, v) \<in> set ?u \<and> unprotected k} \<union>
      {(k, v). (k, v) \<in> set ?g \<and> map_of ?u k = None \<and> unprotected k}"
    using u g by (auto simp: user_options_def)
  have dist: "distinct (map fst (user_options order m user))"
  proof -
    have "k \<notin> fst ` set (order ?u)" if "map_of ?u k = None" for k
      using that u by (simp add: map_of_eq_None_iff)
    then show ?thesis
      using u g unfolding user_options_def
      by (auto simp: distinct_map_filter image_iff) (metis fst_conv)
  qed
  have "map_of (user_options order m user) k = Some v \<longleftrightarrow>
      (if k \<in> set protectedConnectionStringOptions then None
       else case map_of ?u k of Some v \<Rightarrow> Some v | None \<Rightarrow> map_of ?g k) = Some v" for k v
    unfolding map_of_eq_Some_iff[OF dist] fin Un_iff mem_Collect_eq prod.case
      map_of_eq_Some_iff[OF assms(2), symmetric] map_of_eq_Some_iff[OF assms(3), symmetric]
    by (auto split: option.splits)
  then have "map_of (user_options order m user) k =
      (if k \<in> set protectedConnectionStringOptions then None
       else case map_of ?u k of Some v \<Rightarrow> Some v | None \<Rightarrow> map_of ?g k)" for k
    by (metis not_None_eq)
  with dist show ?thesis by blast
qed

definition demo_auth_user :: auth_user where
  "demo_auth_user = (GetAuthUser (\<lambda>_. True) (demo_mdb 3 0) (demo_user ''app'' ''admin''))
     \<lparr>ConnectionStringOptions := [(''readPreference'', VStr ''primary''), (''tls'', VBool False)]\<rparr>"

definition demo_mdb_options :: mdb where
  "demo_mdb_options = (demo_mdb 3 0)\<lparr>Spec := (Spec (demo_mdb 3 0))\<lparr>AdditionalConnectionStringConfig :=
     [(''readPreference'', VStr ''secondary''), (''w'', VInt 2)]\<rparr>\<rparr>"

end
