(* ===== verification/Scaling.thy ===== *)
theory Scaling
  imports Mdb_Types
begin

text \<open>
  Scaling the resource over a sequence of reconciliations.  A successful
  reconciliation writes four counts into the status (the tail of
  \<open>Reconcile\<close> in \<open>controllers/replica_set_controller.go\<close>): members and arbiters
  of the automation config, and replicas of the two StatefulSets.
\<close>

definition scaling_round :: "mdb \<Rightarrow> mdb" where
  "scaling_round m = m\<lparr>Status := (Status m)
     \<lparr>CurrentMongoDBMembers := AutomationConfigMembersThisReconciliation m,
      CurrentStatefulSetReplicas := StatefulSetReplicasThisReconciliation m,
      CurrentStatefulSetArbitersReplicas := StatefulSetArbitersThisReconciliation m,
      CurrentMongoDBArbiters := AutomationConfigArbitersThisReconciliation m\<rparr>\<rparr>"

lemmas reconciliation_counts = AutomationConfigMembersThisReconciliation_def
  StatefulSetReplicasThisReconciliation_def StatefulSetArbitersThisReconciliation_def
  AutomationConfigArbitersThisReconciliation_def

text \<open>The four scalers behind the four counts.\<close>

definition ac_members_scaler :: "mdb \<Rightarrow> replica_set_scaler" where
  "ac_members_scaler m =
    automationConfigReplicasScaler (CurrentMongoDBMembers (Status m)) (Members (Spec m)) False"

definition sts_arbiters_scaler :: "mdb \<Rightarrow> replica_set_scaler" where
  "sts_arbiters_scaler m = automationConfigReplicasScaler (CurrentArbiters m) (DesiredArbiters m) True"

definition ac_arbiters_scaler :: "mdb \<Rightarrow> replica_set_scaler" where
  "ac_arbiters_scaler m =
    automationConfigReplicasScaler (CurrentMongoDBArbiters (Status m)) (Arbiters (Spec m)) True"

lemmas scaler_defs = mdb_scaler_def ac_members_scaler_def sts_arbiters_scaler_def
  ac_arbiters_scaler_def automationConfigReplicasScaler_def CurrentArbiters_def DesiredArbiters_def

lemma Spec_scaling_round [simp]: "Spec (scaling_round m) = Spec m"
  by (simp add: scaling_round_def)

lemma Status_scaling_round [simp]:
  "CurrentMongoDBMembers (Status (scaling_round m)) = AutomationConfigMembersThisReconciliation m"
  "CurrentStatefulSetReplicas (Status (scaling_round m)) = StatefulSetReplicasThisReconciliation m"
  "CurrentStatefulSetArbitersReplicas (Status (scaling_round m)) = StatefulSetArbitersThisReconciliation m"
  "CurrentMongoDBArbiters (Status (scaling_round m)) = AutomationConfigArbitersThisReconciliation m"
  by (simp_all add: scaling_round_def)

interpretation sts_members: scaled_resource mdb_scaler scaling_round "\<lambda>_. True"
  by unfold_locales (simp_all add: scaler_defs reconciliation_counts)

interpretation ac_members: scaled_resource ac_members_scaler scaling_round "\<lambda>_. True"
  by unfold_locales (simp_all add: scaler_defs reconciliation_counts)

interpretation sts_arbiters: scaled_resource sts_arbiters_scaler scaling_round "\<lambda>_. True"
  by unfold_locales (simp_all add: scaler_defs reconciliation_counts)

lemma members_settled_round:
  "\<not> IsStillScaling (mdb_scaler m) \<Longrightarrow> \<not> IsStillScaling (mdb_scaler (scaling_round m))"
  by (auto simp: IsStillScaling_def scaler_defs reconciliation_counts ReplicasThisReconciliation_def)

text \<open>The arbiters of the automation config only move once the members stand still.\<close>

interpretation ac_arbiters: scaled_resource ac_arbiters_scaler scaling_round
    "\<lambda>m. \<not> IsStillScaling (mdb_scaler m)"
  by unfold_locales
     (simp_all add: members_settled_round ac_arbiters_scaler_def automationConfigReplicasScaler_def
       AutomationConfigArbitersThisReconciliation_def)

lemma Spec_funpow [simp]: "Spec ((scaling_round ^^ n) m) = Spec m"
  by (induction n) simp_all

lemma ac_arbiters_held:
  "IsStillScaling (mdb_scaler m) \<Longrightarrow>
   CurrentMongoDBArbiters (Status (scaling_round m)) = CurrentMongoDBArbiters (Status m)"
  by (simp add: AutomationConfigArbitersThisReconciliation_def)

lemma ac_arbiters_distance:
  "distance (ac_arbiters_scaler ((scaling_round ^^ n) m)) \<le> distance (ac_arbiters_scaler m)"
proof (induction n)
  case (Suc n)
  let ?t = "(scaling_round ^^ n) m"
  have "distance (ac_arbiters_scaler (scaling_round ?t)) \<le> distance (ac_arbiters_scaler ?t)"
  proof (cases "IsStillScaling (mdb_scaler ?t)")
    case True
    then show ?thesis by (simp add: ac_arbiters_scaler_def automationConfigReplicasScaler_def
        AutomationConfigArbitersThisReconciliation_def)
  next
    case False
    then show ?thesis using ac_arbiters.funpow_distance[of ?t 1] by simp
  qed
  then show ?case using Suc by simp
qed simp

text \<open>An upper bound on the rounds a change of the spec needs.\<close>

definition rounds_needed :: "mdb \<Rightarrow> nat" where
  "rounds_needed m = distance (mdb_scaler m) + distance (ac_members_scaler m)
     + distance (sts_arbiters_scaler m) + distance (ac_arbiters_scaler m)"

subsection \<open>Properties\<close>





end
