(* ===== verification/Validation.thy ===== *)
theory Validation
  imports Mdb_Types
begin

text \<open>
  Validation of a spec, \<open>controllers/validation/validation.go\<close>: every check in
  the order of the code, with the error it returns.  \<open>None\<close> is \<open>nil\<close>.
\<close>

subsection \<open>Users\<close>

record users_acc =
  conn_map :: "(string \<times> auth_user) list"
  conn_collisions :: "string list"
  scram_map :: "(string \<times> auth_user) list"
  scram_collisions :: "string list"

definition quoted :: "string \<Rightarrow> string" where
  "quoted s = [CHR 0x22] @ s @ [CHR 0x22]"

definition conn_collision_msg :: "string \<Rightarrow> auth_user \<Rightarrow> auth_user \<Rightarrow> string" where
  "conn_collision_msg name prev user =
    ''[connection string secret name: '' @ quoted name @ '' for user: '' @ quoted (Username prev)
      @ '', db: '' @ quoted (Database prev) @ '' and user: '' @ quoted (Username user)
      @ '', db: '' @ quoted (Database user) @ '']''"

definition scram_collision_msg :: "string \<Rightarrow> auth_user \<Rightarrow> auth_user \<Rightarrow> string" where
  "scram_collision_msg name prev user =
    ''[scram secret name: '' @ quoted name @ '' for user: '' @ quoted (Username prev)
      @ '' and user: '' @ quoted (Username user) @ '']''"

definition note_conn :: "auth_user \<Rightarrow> users_acc \<Rightarrow> users_acc" where
  "note_conn user acc =
    (let name = ConnectionStringSecretName user
     in case map_of (conn_map acc) name of
          Some prev \<Rightarrow> acc\<lparr>conn_collisions := conn_collisions acc @ [conn_collision_msg name prev user]\<rparr>
        | None \<Rightarrow> acc\<lparr>conn_map := map_put name user (conn_map acc)\<rparr>)"

definition note_scram :: "auth_user \<Rightarrow> users_acc \<Rightarrow> users_acc" where
  "note_scram user acc =
    (let name = ScramCredentialsSecretName user
     in case map_of (scram_map acc) name of
          Some prev \<Rightarrow> acc\<lparr>scram_collisions := scram_collisions acc @ [scram_collision_msg name prev user]\<rparr>
        | None \<Rightarrow> acc\<lparr>scram_map := map_put name user (scram_map acc)\<rparr>)"

definition user_error :: "string set \<Rightarrow> auth_user \<Rightarrow> go_error option" where
  "user_error expectedAuthMethods user =
    (if Database user = ExternalDB then
       if X509 \<notin> expectedAuthMethods
       then Some (errorf (''X.509 user '' @ Username user @ '' present but X.509 is not enabled''))
       else if PasswordSecretKey user \<noteq> ''''
       then Some (errorf (''X509 user '' @ Username user @ '' should not have a password secret key''))
       else if PasswordSecretName user \<noteq> ''''
       then Some (errorf (''X509 user '' @ Username user @ '' should not have a password secret name''))
       else if ScramCredentialsSecretName user \<noteq> ''''
       then Some (errorf (''X509 user '' @ Username user @ '' should not have scram credentials secret name''))
       else None
     else
       if Sha1 \<notin> expectedAuthMethods \<and> Sha256 \<notin> expectedAuthMethods
       then Some (errorf (''SCRAM user '' @ Username user @ '' present but SCRAM is not enabled''))
       else if PasswordSecretKey user = ''''
       then Some (errorf (''SCRAM user '' @ Username user @ '' is missing password secret key''))
       else if PasswordSecretName user = ''''
       then Some (errorf (''SCRAM user '' @ Username user @ '' is missing password secret name''))
       else if ScramCredentialsSecretName user = ''''
       then Some (errorf (''SCRAM user '' @ Username user @ '' is missing scram credentials secret name''))
       else None)"

fun users_loop :: "string set \<Rightarrow> auth_user list \<Rightarrow> users_acc \<Rightarrow> users_acc fallible" where
  "users_loop methods [] acc = Inr acc"
| "users_loop methods (user # users) acc =
    (let acc' = note_scram user (note_conn user acc)
     in case user_error methods user of
          Some err \<Rightarrow> Inl err
        | None \<Rightarrow> users_loop methods users acc')"

definition expected_auth_methods :: "mdb \<Rightarrow> string set" where
  "expected_auth_methods m =
    (let modes = auth_Modes (spec_auth (Spec m))
     in (if length modes = 0 then {Sha256} else {}) \<union> set (map ConvertAuthModeToAuthMechanism modes))"

definition validateUsers :: "(string \<Rightarrow> bool) \<Rightarrow> mdb \<Rightarrow> go_error option" where
  "validateUsers dns m = (case users_loop (expected_auth_methods m) (GetAuthUsers dns m)
        \<lparr>conn_map = [], conn_collisions = [], scram_map = [], scram_collisions = []\<rparr> of
      Inl err \<Rightarrow> Some err
    | Inr acc \<Rightarrow>
        if length (conn_collisions acc) > 0
        then Some (errorf (''connection string secret names collision, update at least one of the users so that the resulted secret names (<resource name>-<user>-<db>) are unique: ''
               @ str_join '', '' (conn_collisions acc)))
        else if length (scram_collisions acc) > 0
        then Some (errorf (''scram credential secret names collision, update at least one of the users: ''
               @ str_join '', '' (scram_collisions acc)))
        else None)"

subsection \<open>Arbiters, modes and replicas\<close>

definition validateArbiterSpec :: "mdb \<Rightarrow> go_error option" where
  "validateArbiterSpec m =
    (if Arbiters (Spec m) < 0
     then Some (errorf ''number of arbiters must be greater or equal than 0'')
     else if Arbiters (Spec m) \<ge> Members (Spec m)
     then Some (errorf (''number of arbiters specified ('' @ itoa (Arbiters (Spec m))
            @ '') is greater or equal than the number of members in the replicaset ('' @ itoa (Members (Spec m))
            @ ''). At least one member must not be an arbiter''))
     else None)"

fun modes_loop :: "bool \<Rightarrow> string list \<Rightarrow> string set \<Rightarrow> string set fallible" where
  "modes_loop tls [] mechs = Inr mechs"
| "modes_loop tls (mode # modes) mechs =
    (let value = ConvertAuthModeToAuthMechanism mode
     in if value = '''' then Inl (errorf (''unexpected value ('' @ quoted value
              @ '') defined for supported authentication modes''))
        else if value = X509 \<and> \<not> tls then Inl (errorf ''TLS must be enabled when using X.509 authentication'')
        else modes_loop tls modes (insert value mechs))"

definition validateAuthModeSpec :: "mdb \<Rightarrow> go_error option" where
  "validateAuthModeSpec m =
    (let allModes = auth_Modes (spec_auth (Spec m));
         mechs0 = (if length allModes = 0 then {Sha256} else {})
     in case modes_loop (tls_Enabled (spec_tls m)) allModes mechs0 of
          Inl err \<Rightarrow> Some err
        | Inr mechs \<Rightarrow>
            let agentMode = GetAgentAuthMode (Spec m)
            in if card mechs < length allModes
               then Some (errorf ''some authentication modes are declared twice or more'')
               else if agentMode = '''' \<and> length allModes > 1
               then Some (errorf ''If spec.security.authentication.modes contains different authentication modes, the agent mode must be specified '')
               else if ConvertAuthModeToAuthMechanism agentMode \<notin> mechs
               then Some (errorf (''Agent authentication mode: '' @ agentMode
                      @ '' must be part of the spec.security.authentication.modes''))
               else None)"

text \<open>\<open>validateAgentCertSecret\<close> only logs a warning.\<close>

definition validateAgentCertSecret :: "mdb \<Rightarrow> go_error option" where
  "validateAgentCertSecret m = None"

definition validateStatefulSet :: "mdb \<Rightarrow> go_error option" where
  "validateStatefulSet m = (case stss_Replicas (sc_Spec (StatefulSetConfiguration (Spec m))) of
      None \<Rightarrow> None
    | Some r \<Rightarrow> if r \<noteq> word_of_int (Members (Spec m))
        then Some (errorf ''spec.statefulset.spec.replicas has to be equal to spec.members'') else None)"

fun first_err :: "go_error option list \<Rightarrow> go_error option" where
  "first_err [] = None"
| "first_err (e # es) = (case e of Some err \<Rightarrow> Some err | None \<Rightarrow> first_err es)"

definition validation_validateSpec :: "(string \<Rightarrow> bool) \<Rightarrow> mdb \<Rightarrow> go_error option" where
  "validation_validateSpec dns m = first_err [validateUsers dns m, validateArbiterSpec m,
     validateAuthModeSpec m, validateAgentCertSecret m, validateStatefulSet m]"

definition ValidateInitialSpec :: "(string \<Rightarrow> bool) \<Rightarrow> mdb \<Rightarrow> go_error option" where
  "ValidateInitialSpec dns m = validation_validateSpec dns m"

definition ValidateUpdate :: "(string \<Rightarrow> bool) \<Rightarrow> mdb \<Rightarrow> mdb_spec \<Rightarrow> go_error option" where
  "ValidateUpdate dns m oldSpec =
    (if tls_Enabled (sec_TLS (Security oldSpec)) \<and> \<not> tls_Enabled (spec_tls m)
     then Some (errorf ''TLS can't be set to disabled after it has been enabled'')
     else validation_validateSpec dns m)"

subsection \<open>What is accepted\<close>

lemma first_err_None: "first_err es = None \<longleftrightarrow> list_all (\<lambda>e. e = None) es"
  by (induction es) (auto split: option.splits)

lemma users_loop_Inr:
  "users_loop methods users acc = Inr acc' \<longleftrightarrow>
   list_all (\<lambda>u. user_error methods u = None) users \<and>
   acc' = fold (\<lambda>u a. note_scram u (note_conn u a)) users acc"
  by (induction users arbitrary: acc) (auto simp: Let_def split: option.splits)

lemma note_sel [simp]:
  "conn_map (note_scram u a) = conn_map a" "conn_collisions (note_scram u a) = conn_collisions a"
  "scram_map (note_conn u a) = scram_map a" "scram_collisions (note_conn u a) = scram_collisions a"
  by (simp_all add: note_scram_def note_conn_def Let_def split: option.splits)

lemma note_conn_eq:
  "conn_collisions (note_conn u a) = [] \<longleftrightarrow>
     conn_collisions a = [] \<and> ConnectionStringSecretName u \<notin> fst ` set (conn_map a)"
  "fst ` set (conn_map (note_conn u a)) = insert (ConnectionStringSecretName u) (fst ` set (conn_map a))"
  by (force simp: note_conn_def Let_def map_of_eq_None_iff dest: map_of_SomeD split: option.splits)+

lemma note_scram_eq:
  "scram_collisions (note_scram u a) = [] \<longleftrightarrow>
     scram_collisions a = [] \<and> ScramCredentialsSecretName u \<notin> fst ` set (scram_map a)"
  "fst ` set (scram_map (note_scram u a)) = insert (ScramCredentialsSecretName u) (fst ` set (scram_map a))"
  by (force simp: note_scram_def Let_def map_of_eq_None_iff dest: map_of_SomeD split: option.splits)+

lemma no_collisions_iff:
  "conn_collisions (fold (\<lambda>u a. note_scram u (note_conn u a)) users acc) = [] \<longleftrightarrow>
     conn_collisions acc = [] \<and> distinct (map ConnectionStringSecretName users) \<and>
     ConnectionStringSecretName ` set users \<inter> fst ` set (conn_map acc) = {}"
  "scram_collisions (fold (\<lambda>u a. note_scram u (note_conn u a)) users acc) = [] \<longleftrightarrow>
     scram_collisions acc = [] \<and> distinct (map ScramCredentialsSecretName users) \<and>
     ScramCredentialsSecretName ` set users \<inter> fst ` set (scram_map acc) = {}"
  by (induction users arbitrary: acc) (auto simp: note_conn_eq note_scram_eq)

lemma validateUsers_None:
  "validateUsers dns m = None \<longleftrightarrow>
   list_all (\<lambda>u. user_error (expected_auth_methods m) u = None) (GetAuthUsers dns m) \<and>
   distinct (map ConnectionStringSecretName (GetAuthUsers dns m)) \<and>
   distinct (map ScramCredentialsSecretName (GetAuthUsers dns m))"
proof -
  let ?acc0 = "\<lparr>conn_map = [], conn_collisions = [], scram_map = [], scram_collisions = []\<rparr>"
  show ?thesis
  proof (cases "users_loop (expected_auth_methods m) (GetAuthUsers dns m) ?acc0")
    case (Inl e)
    then have "\<not> list_all (\<lambda>u. user_error (expected_auth_methods m) u = None) (GetAuthUsers dns m)"
      using users_loop_Inr by (metis Inl_Inr_False)
    then show ?thesis using Inl by (simp add: validateUsers_def)
  next
    case (Inr acc)
    then show ?thesis
      using users_loop_Inr[THEN iffD1, OF Inr] no_collisions_iff[of "GetAuthUsers dns m" ?acc0]
      by (auto simp: validateUsers_def)
  qed
qed

lemma user_error_GetAuthUser:
  "user_error methods (GetAuthUser dns m u) = None \<longleftrightarrow>
   (if u_DB u = ExternalDB then X509 \<in> methods
    else (Sha1 \<in> methods \<or> Sha256 \<in> methods) \<and> skr_Name (u_PasswordSecretRef u) \<noteq> '''')"
  by (simp add: user_error_def GetAuthUser_def GetScramCredentialsSecretName_def
      GetPasswordSecretKey_def defaultPasswordKey_def defaultDBForUser_def ExternalDB_def Let_def)

lemma modes_loop_Inr:
  "modes_loop tls modes mechs = Inr mechs' \<longleftrightarrow>
   list_all (\<lambda>mode. ConvertAuthModeToAuthMechanism mode \<noteq> '''' \<and>
      (ConvertAuthModeToAuthMechanism mode = X509 \<longrightarrow> tls)) modes \<and>
   mechs' = mechs \<union> ConvertAuthModeToAuthMechanism ` set modes"
  by (induction modes arbitrary: mechs) (auto simp: Let_def)

definition mechanisms :: "mdb \<Rightarrow> string list" where
  "mechanisms m = (let modes = auth_Modes (spec_auth (Spec m))
     in if modes = [] then [Sha256] else map ConvertAuthModeToAuthMechanism modes)"

lemma set_mechanisms: "set (mechanisms m) = expected_auth_methods m"
  by (simp add: mechanisms_def expected_auth_methods_def Let_def)

definition valid_modes :: "mdb \<Rightarrow> bool" where
  "valid_modes m = (distinct (mechanisms m) \<and> '''' \<notin> set (mechanisms m) \<and>
     (X509 \<notin> set (mechanisms m) \<or> tls_Enabled (spec_tls m)) \<and>
     ConvertAuthModeToAuthMechanism (GetAgentAuthMode (Spec m)) \<in> set (mechanisms m))"

definition valid_users :: "(string \<Rightarrow> bool) \<Rightarrow> mdb \<Rightarrow> bool" where
  "valid_users dns m =
    (list_all (\<lambda>u. if u_DB u = ExternalDB then X509 \<in> set (mechanisms m)
        else (Sha1 \<in> set (mechanisms m) \<or> Sha256 \<in> set (mechanisms m)) \<and>
             skr_Name (u_PasswordSecretRef u) \<noteq> '''') (Users (Spec m)) \<and>
     distinct (map ConnectionStringSecretName (GetAuthUsers dns m)) \<and>
     distinct (map ScramCredentialsSecretName (GetAuthUsers dns m)))"

definition valid_replicas :: "mdb \<Rightarrow> bool" where
  "valid_replicas m = (0 \<le> Arbiters (Spec m) \<and> Arbiters (Spec m) < Members (Spec m) \<and>
     (case stss_Replicas (sc_Spec (StatefulSetConfiguration (Spec m))) of
        None \<Rightarrow> True | Some r \<Rightarrow> r = word_of_int (Members (Spec m))))"

lemma ConvertAuthMode_empty [simp]: "ConvertAuthModeToAuthMechanism '''' = ''''"
  by (simp add: ConvertAuthModeToAuthMechanism_def)

lemma mechanism_ne [simp]: "Sha256 \<noteq> ''''" "'''' \<noteq> Sha256" "'''' \<noteq> X509" "Sha1 \<noteq> ''''" "X509 \<noteq> ''''" "Sha256 \<noteq> X509" "X509 \<noteq> Sha256"
  by (simp_all add: Sha256_def Sha1_def X509_def)

lemma card_less_length: "card (set xs) < length xs \<longleftrightarrow> \<not> distinct xs"
  by (metis card_distinct card_length distinct_card le_neq_implies_less less_irrefl)

lemma if3_None:
  "(if a then Some x else if b then Some y else if c then Some z else None) = None \<longleftrightarrow> \<not> a \<and> \<not> b \<and> \<not> c"
  by simp

lemma validateAuthModeSpec_None: "validateAuthModeSpec m = None \<longleftrightarrow> valid_modes m"
proof -
  let ?modes = "auth_Modes (spec_auth (Spec m))"
  let ?conv = ConvertAuthModeToAuthMechanism
  let ?mechs0 = "if length ?modes = 0 then {Sha256} else {}"
  let ?ok = "list_all (\<lambda>mode. ?conv mode \<noteq> '''' \<and> (?conv mode = X509 \<longrightarrow> tls_Enabled (spec_tls m))) ?modes"
  have mechs: "?mechs0 \<union> ?conv ` set ?modes = set (mechanisms m)"
    by (simp add: mechanisms_def Let_def)
  have ok: "?ok \<longleftrightarrow> '''' \<notin> set (mechanisms m) \<and> (X509 \<notin> set (mechanisms m) \<or> tls_Enabled (spec_tls m))"
    by (cases "?modes = []") (auto simp: mechanisms_def Let_def list_all_iff image_iff)
  have card: "card (set (mechanisms m)) < length ?modes \<longleftrightarrow> \<not> distinct (mechanisms m)"
    using card_less_length[of "map ?conv ?modes"] by (auto simp: mechanisms_def Let_def)
  show ?thesis
  proof (cases ?ok)
    case True
    have loop: "modes_loop (tls_Enabled (spec_tls m)) ?modes ?mechs0 = Inr (set (mechanisms m))"
      unfolding modes_loop_Inr mechs using True by (rule conjI) (rule refl)
    have ne: "'''' \<notin> set (mechanisms m)"
      and tls: "X509 \<notin> set (mechanisms m) \<or> tls_Enabled (spec_tls m)"
      using True ok by blast+
    have agent: "GetAgentAuthMode (Spec m) \<noteq> ''''"
      if "?conv (GetAgentAuthMode (Spec m)) \<in> set (mechanisms m)"
      using that ne by (metis ConvertAuthMode_empty)
    show ?thesis
      unfolding validateAuthModeSpec_def valid_modes_def Let_def loop sum.case card if3_None
      using ne tls agent by blast
  next
    case False
    have "modes_loop (tls_Enabled (spec_tls m)) ?modes ?mechs0 \<noteq> Inr mechs" for mechs
      unfolding modes_loop_Inr using False by (rule contrapos_nn) (erule conjunct1)
    then obtain e where loop: "modes_loop (tls_Enabled (spec_tls m)) ?modes ?mechs0 = Inl e"
      using sumE[of "modes_loop (tls_Enabled (spec_tls m)) ?modes ?mechs0"] by blast
    show ?thesis
      unfolding validateAuthModeSpec_def valid_modes_def Let_def loop sum.case using False ok by blast
  qed
qed

lemma valid_users_iff: "validateUsers dns m = None \<longleftrightarrow> valid_users dns m"
  unfolding validateUsers_None valid_users_def GetAuthUsers_def set_mechanisms
  by (simp add: list.pred_map comp_def user_error_GetAuthUser)

lemma valid_replicas_iff:
  "validateArbiterSpec m = None \<and> validateStatefulSet m = None \<longleftrightarrow> valid_replicas m"
  by (auto simp: validateArbiterSpec_def validateStatefulSet_def valid_replicas_def split: option.splits)

subsection \<open>Properties\<close>

text \<open>C27: an initial spec is accepted exactly when: the authentication modes name
  known, pairwise different mechanisms, X.509 among them only with TLS, and the
  agent's mechanism is one of them; every \<open>$external\<close> user has X.509 enabled and
  every other user has SCRAM enabled and names a password secret; the names
  of the connection-string secrets and of the SCRAM secrets are pairwise
  different; there are fewer arbiters than members, none negative; and a
  replica count given for the StatefulSet equals the number of members.\<close>

theorem ValidateInitialSpec_accepts:
  "ValidateInitialSpec dns m = None \<longleftrightarrow> valid_users dns m \<and> valid_modes m \<and> valid_replicas m"
  unfolding ValidateInitialSpec_def validation_validateSpec_def first_err_None list.pred_inject
    valid_users_iff validateAuthModeSpec_None validateAgentCertSecret_def valid_replicas_iff[symmetric]
  by auto

text \<open>Once TLS is enabled in the last applied spec, no update that disables it is
  accepted; any other update is accepted exactly when it would be accepted as an
  initial spec.\<close>

theorem ValidateUpdate_keeps_TLS:
  "ValidateUpdate dns m oldSpec = None \<longleftrightarrow>
   (if tls_Enabled (sec_TLS (Security oldSpec)) then tls_Enabled (spec_tls m) else True) \<and>
   ValidateInitialSpec dns m = None"
  by (simp add: ValidateUpdate_def ValidateInitialSpec_def)

text \<open>A resource with two or more X.509 users is always rejected: such users have no
  SCRAM secret, their empty secret names count as a collision.\<close>

theorem two_X509_users_rejected:
  assumes "i < length (Users (Spec m))" and "j < length (Users (Spec m))" and "i \<noteq> j"
    and "u_DB (Users (Spec m) ! i) = ExternalDB" and "u_DB (Users (Spec m) ! j) = ExternalDB"
  shows "ValidateInitialSpec dns m \<noteq> None"
proof -
  have "ScramCredentialsSecretName (GetAuthUsers dns m ! k) = ''''"
    if "k < length (Users (Spec m))" "u_DB (Users (Spec m) ! k) = ExternalDB" for k
    using that by (simp add: GetAuthUsers_def GetAuthUser_def ExternalDB_def defaultDBForUser_def Let_def)
  then have "\<not> distinct (map ScramCredentialsSecretName (GetAuthUsers dns m))"
    using assms unfolding distinct_conv_nth GetAuthUsers_def by simp (metis nth_map)
  then have "\<not> valid_users dns m" by (simp add: valid_users_def)
  then show ?thesis
    unfolding ValidateInitialSpec_def validation_validateSpec_def first_err_None list.pred_inject
      valid_users_iff by blast
qed

end
