(* ===== verification/AC_Builder.thy ===== *)
theory AC_Builder
  imports Automation_Config
begin

text \<open>
  The builder of the automation config,
  \<open>pkg/automationconfig/automation_config_builder.go\<close>, with
  \<open>pkg/util/versions/versions.go\<close>.  A builder is a record; each setter returns
  the updated record; \<open>Build\<close> returns an error or the config.  Process
  modifications and config modifications are the Go closures the callers
  register, run in registration order.

  A negative member or arbiter count makes Go panic (\<open>makeslice: len out of
  range\<close> or an index out of range); the model returns an error value there.
\<close>

definition maxVotingMembers :: int where "maxVotingMembers = 7"
definition arbitersStartingIndex :: int where "arbitersStartingIndex = 100"
definition ReplicaSetTopology :: string where "ReplicaSetTopology = ''ReplicaSet''"
definition ClientCertificateModeOptional :: string where
  "ClientCertificateModeOptional = ''OPTIONAL''"

subsection \<open>Versions\<close>

text \<open>The package \<open>blang/semver\<close> is not part of the repository.\<close>

record 'v semver =
  semver_Make :: "string \<Rightarrow> 'v fallible"
  semver_GT :: "'v \<Rightarrow> 'v \<Rightarrow> bool"
  semver_GTE :: "'v \<Rightarrow> 'v \<Rightarrow> bool"
  semver_Major :: "'v \<Rightarrow> int"
  semver_Minor :: "'v \<Rightarrow> int"

text \<open>\<open>semver.MustParse("3.4.0")\<close> panics if the constant does not parse; that branch
  is written as the empty string.\<close>

definition CalculateFeatureCompatibilityVersion :: "'v semver \<Rightarrow> string \<Rightarrow> string" where
  "CalculateFeatureCompatibilityVersion sv versionStr = (case semver_Make sv versionStr of
      Inl _ \<Rightarrow> ''''
    | Inr v1 \<Rightarrow> (case semver_Make sv ''3.4.0'' of
          Inl _ \<Rightarrow> ''''
        | Inr base \<Rightarrow> if semver_GTE sv v1 base
            then itoa (semver_Major sv v1) @ ''.'' @ itoa (semver_Minor sv v1) else ''''))"

subsection \<open>The builder and its setters\<close>

record builder =
  b_replicaSetHorizons :: "horizons list"
  b_members :: int
  b_arbiters :: int
  b_domain :: string
  b_arbiterDomain :: string
  b_name :: string
  b_fcv :: string
  b_topology :: string
  b_isEnterprise :: bool
  b_mongodbVersion :: string
  b_previousAC :: automation_config
  b_versions :: "version_config list"
  b_backupVersions :: "string list"
  b_monitoringVersions :: "monitoring_version list"
  b_options :: string
  b_processModifications :: "(int \<Rightarrow> process \<Rightarrow> process) list"
  b_modifications :: "(automation_config \<Rightarrow> automation_config) list"
  b_auth :: "ac_auth option"
  b_cafilePath :: string
  b_sslConfig :: "ac_tls option"
  b_tlsConfig :: "ac_tls option"
  b_dataDir :: string
  b_port :: int
  b_memberOptions :: "member_options list"
  b_forceReconfigureToVersion :: "int option"
  b_replicaSetId :: "string option"
  b_settings :: go_map

definition NewBuilder :: builder where
  "NewBuilder = \<lparr>b_replicaSetHorizons = [], b_members = 0, b_arbiters = 0, b_domain = '''',
     b_arbiterDomain = '''', b_name = '''', b_fcv = '''', b_topology = '''', b_isEnterprise = False,
     b_mongodbVersion = '''', b_previousAC = zero_AutomationConfig, b_versions = [],
     b_backupVersions = [], b_monitoringVersions = [], b_options = '''',
     b_processModifications = [], b_modifications = [], b_auth = None, b_cafilePath = '''',
     b_sslConfig = None, b_tlsConfig = None, b_dataDir = '''', b_port = 0, b_memberOptions = [],
     b_forceReconfigureToVersion = None, b_replicaSetId = None, b_settings = []\<rparr>"

definition SetMemberOptions :: "member_options list \<Rightarrow> builder \<Rightarrow> builder" where
  "SetMemberOptions memberOptions b = b\<lparr>b_memberOptions := memberOptions\<rparr>"

definition SetOptions :: "string \<Rightarrow> builder \<Rightarrow> builder" where
  "SetOptions options b = b\<lparr>b_options := options\<rparr>"

definition IsEnterprise :: "bool \<Rightarrow> builder \<Rightarrow> builder" where
  "IsEnterprise isEnterprise b = b\<lparr>b_isEnterprise := isEnterprise\<rparr>"

definition SetTopology :: "string \<Rightarrow> builder \<Rightarrow> builder" where
  "SetTopology topology b = b\<lparr>b_topology := topology\<rparr>"

definition SetReplicaSetHorizons :: "horizons list \<Rightarrow> builder \<Rightarrow> builder" where
  "SetReplicaSetHorizons horizons b = b\<lparr>b_replicaSetHorizons := horizons\<rparr>"

definition SetTLSConfig :: "ac_tls \<Rightarrow> builder \<Rightarrow> builder" where
  "SetTLSConfig tlsConfig b = b\<lparr>b_tlsConfig := Some tlsConfig\<rparr>"

definition SetSSLConfig :: "ac_tls \<Rightarrow> builder \<Rightarrow> builder" where
  "SetSSLConfig sslConfig b = b\<lparr>b_sslConfig := Some sslConfig\<rparr>"

definition SetMembers :: "int \<Rightarrow> builder \<Rightarrow> builder" where
  "SetMembers members b = b\<lparr>b_members := members\<rparr>"

definition SetArbiters :: "int \<Rightarrow> builder \<Rightarrow> builder" where
  "SetArbiters arbiters b = b\<lparr>b_arbiters := arbiters\<rparr>"

definition SetDomain :: "string \<Rightarrow> builder \<Rightarrow> builder" where
  "SetDomain domain b = b\<lparr>b_domain := domain\<rparr>"

definition SetArbiterDomain :: "string \<Rightarrow> builder \<Rightarrow> builder" where
  "SetArbiterDomain domain b = b\<lparr>b_arbiterDomain := domain\<rparr>"

definition SetName :: "string \<Rightarrow> builder \<Rightarrow> builder" where
  "SetName name b = b\<lparr>b_name := name\<rparr>"

definition SetDataDir :: "string \<Rightarrow> builder \<Rightarrow> builder" where
  "SetDataDir dataDir b = b\<lparr>b_dataDir := dataDir\<rparr>"

definition Builder_SetPort :: "int \<Rightarrow> builder \<Rightarrow> builder" where
  "Builder_SetPort port b = b\<lparr>b_port := port\<rparr>"

definition SetFCV :: "string \<Rightarrow> builder \<Rightarrow> builder" where
  "SetFCV fcv b = b\<lparr>b_fcv := fcv\<rparr>"

definition SetCAFilePath :: "string \<Rightarrow> builder \<Rightarrow> builder" where
  "SetCAFilePath caFilePath b = b\<lparr>b_cafilePath := caFilePath\<rparr>"

definition AddVersion :: "version_config \<Rightarrow> builder \<Rightarrow> builder" where
  "AddVersion version b =
    (let version' = version\<lparr>vc_Builds := map (\<lambda>bc. case bc_Modules bc of
           None \<Rightarrow> bc\<lparr>bc_Modules := Some []\<rparr> | Some _ \<Rightarrow> bc) (vc_Builds version)\<rparr>
     in b\<lparr>b_versions := b_versions b @ [version']\<rparr>)"

definition AddVersions :: "version_config list \<Rightarrow> builder \<Rightarrow> builder" where
  "AddVersions versions b = fold AddVersion versions b"

definition SetMongoDBVersion :: "string \<Rightarrow> builder \<Rightarrow> builder" where
  "SetMongoDBVersion version b = b\<lparr>b_mongodbVersion := version\<rparr>"

definition SetBackupVersions :: "string list \<Rightarrow> builder \<Rightarrow> builder" where
  "SetBackupVersions versions b = b\<lparr>b_backupVersions := versions\<rparr>"

definition SetMonitoringVersions :: "monitoring_version list \<Rightarrow> builder \<Rightarrow> builder" where
  "SetMonitoringVersions versions b = b\<lparr>b_monitoringVersions := versions\<rparr>"

definition SetPreviousAutomationConfig :: "automation_config \<Rightarrow> builder \<Rightarrow> builder" where
  "SetPreviousAutomationConfig previousAC b = b\<lparr>b_previousAC := previousAC\<rparr>"

definition SetAuth :: "ac_auth \<Rightarrow> builder \<Rightarrow> builder" where
  "SetAuth auth b = b\<lparr>b_auth := Some auth\<rparr>"

definition SetReplicaSetId :: "string option \<Rightarrow> builder \<Rightarrow> builder" where
  "SetReplicaSetId i b = b\<lparr>b_replicaSetId := i\<rparr>"

definition SetSettings :: "go_map \<Rightarrow> builder \<Rightarrow> builder" where
  "SetSettings settings b = b\<lparr>b_settings := settings\<rparr>"

definition SetForceReconfigureToVersion :: "int \<Rightarrow> builder \<Rightarrow> builder" where
  "SetForceReconfigureToVersion version b = b\<lparr>b_forceReconfigureToVersion := Some version\<rparr>"

definition AddProcessModification :: "(int \<Rightarrow> process \<Rightarrow> process) \<Rightarrow> builder \<Rightarrow> builder" where
  "AddProcessModification f b = b\<lparr>b_processModifications := b_processModifications b @ [f]\<rparr>"

definition AddModifications :: "(automation_config \<Rightarrow> automation_config) list \<Rightarrow> builder \<Rightarrow> builder" where
  "AddModifications mods b = b\<lparr>b_modifications := b_modifications b @ mods\<rparr>"

definition NOOP :: "automation_config \<Rightarrow> automation_config" where "NOOP config = config"

subsection \<open>Build\<close>

definition setFeatureCompatibilityVersionIfUpgradeIsHappening :: "'v semver \<Rightarrow> builder \<Rightarrow> builder fallible" where
  "setFeatureCompatibilityVersionIfUpgradeIsHappening sv b =
    (case ac_Processes (b_previousAC b) of
       [] \<Rightarrow> Inr b
     | p # _ \<Rightarrow>
         if b_fcv b \<noteq> '''' then Inr b
         else (let previousFCV = p_FeatureCompatibilityVersion p
               in case semver_Make sv (previousFCV @ ''.0'') of
                    Inl _ \<Rightarrow> Inl (errorf (''can't compute semver version from previous FeatureCompatibilityVersion '' @ previousFCV))
                  | Inr prev \<Rightarrow> (case semver_Make sv (b_mongodbVersion b) of
                        Inl _ \<Rightarrow> Inl (errorf (''current MongoDB version is not a valid semver version: '' @ b_mongodbVersion b))
                      | Inr cur \<Rightarrow> if semver_GT sv cur prev then Inr (b\<lparr>b_fcv := previousFCV\<rparr>) else Inr b)))"

definition toProcessName :: "string \<Rightarrow> int \<Rightarrow> bool \<Rightarrow> string" where
  "toProcessName name index isArbiter =
    (if isArbiter then name @ ''-arb-'' @ itoa index else name @ ''-'' @ itoa index)"

definition build_hostnames :: "builder \<Rightarrow> string list" where
  "build_hostnames b =
    map (\<lambda>i. b_name b @ ''-'' @ itoa (int i) @ ''.'' @ b_domain b) [0..<nat (b_members b)] @
    map (\<lambda>i. b_name b @ ''-arb-'' @ itoa (int i) @ ''.'' @ b_arbiterDomain b) [0..<nat (b_arbiters b)]"

definition versionsContain :: "version_config list \<Rightarrow> version_config \<Rightarrow> bool" where
  "versionsContain versions version = list_ex (\<lambda>v. v = version) versions"

definition dummy_build :: "string \<Rightarrow> string \<Rightarrow> string list \<Rightarrow> build_config" where
  "dummy_build architecture flavor modules = \<lparr>bc_Platform = ''linux'', bc_Url = '''', bc_GitVersion = '''',
     bc_Architecture = architecture, bc_Flavor = flavor, bc_MinOsVersion = '''', bc_MaxOsVersion = '''',
     bc_Modules = Some modules\<rparr>"

definition buildDummyMongoDbVersionConfig :: "string \<Rightarrow> version_config" where
  "buildDummyMongoDbVersionConfig version =
    (let modules = (if has_suffix version ''-ent'' then [''enterprise''] else [])
     in \<lparr>vc_Name = version, vc_Builds =
          [dummy_build ''amd64'' ''rhel'' modules, dummy_build ''amd64'' ''ubuntu'' modules,
           dummy_build ''aarch64'' ''ubuntu'' modules, dummy_build ''aarch64'' ''rhel'' modules]\<rparr>)"

text \<open>One turn of the loop over the hostnames, for the process and for the member.\<close>

definition process_index :: "builder \<Rightarrow> nat \<Rightarrow> int" where
  "process_index b i = (if int i \<ge> b_members b then int i - b_members b else int i)"

definition build_process :: "objx \<Rightarrow> builder \<Rightarrow> string \<Rightarrow> string \<Rightarrow> string \<Rightarrow> nat \<Rightarrow> string \<Rightarrow> process" where
  "build_process ox b fcv mongoDBVersion dataDir i h =
    (let isArbiter = (int i \<ge> b_members b);
         p0 = zero_Process\<lparr>p_Name := toProcessName (b_name b) (process_index b i) isArbiter,
                p_HostName := h, p_FeatureCompatibilityVersion := fcv, p_ProcessType := Mongod,
                p_Version := mongoDBVersion, p_AuthSchemaVersion := 5\<rparr>;
         p1 = (if b_port b \<noteq> 0 then SetPort ox (b_port b) p0 else p0);
         p2 = SetReplicaSetName ox (b_name b) (SetStoragePath ox dataDir p1);
         p3 = fold (\<lambda>f. f (int i)) (b_processModifications b) p2
     in if GetPort ox p3 = 0 then SetPort ox DefaultDBPort p3 else p3)"

definition build_member :: "(string \<Rightarrow> rat) \<Rightarrow> builder \<Rightarrow> nat \<Rightarrow> string \<Rightarrow> replica_set_member" where
  "build_member toFloat b i processName =
    (let isArbiter = (int i \<ge> b_members b);
         replicaSetIndex = (if isArbiter then arbitersStartingIndex + process_index b i else int i);
         horizon = (if i < length (b_replicaSetHorizons b) then b_replicaSetHorizons b ! i else []);
         isVotingMember = (isArbiter \<or> int i < maxVotingMembers - b_arbiters b);
         m = newReplicaSetMember processName replicaSetIndex horizon isArbiter isVotingMember
     in if length (b_memberOptions b) > i
        then m\<lparr>rsm_Votes := mo_Votes (b_memberOptions b ! i),
               rsm_Priority := Some (GetPriority toFloat (b_memberOptions b ! i)),
               rsm_Tags := mo_Tags (b_memberOptions b ! i)\<rparr>
        else m)"

definition enterprise_version :: "builder \<Rightarrow> string" where
  "enterprise_version b = (if b_isEnterprise b \<and> \<not> has_suffix (b_mongodbVersion b) ''-ent''
     then b_mongodbVersion b @ ''-ent'' else b_mongodbVersion b)"

definition build_fcv :: "'v semver \<Rightarrow> builder \<Rightarrow> string" where
  "build_fcv sv b = (if b_fcv b \<noteq> '''' then b_fcv b
     else CalculateFeatureCompatibilityVersion sv (b_mongodbVersion b))"

definition build_processes :: "objx \<Rightarrow> 'v semver \<Rightarrow> builder \<Rightarrow> process list" where
  "build_processes ox sv b =
    (let dataDir = (if b_dataDir b \<noteq> '''' then b_dataDir b else DefaultMongoDBDataDir)
     in map (\<lambda>(i, h). build_process ox b (build_fcv sv b) (enterprise_version b) dataDir i h)
          (enumerate 0 (build_hostnames b)))"

text \<open>The config before the registered modifications run.\<close>

definition build_currentAc :: "objx \<Rightarrow> (string \<Rightarrow> rat) \<Rightarrow> 'v semver \<Rightarrow> builder \<Rightarrow> automation_config" where
  "build_currentAc ox toFloat sv b =
    (let processes = build_processes ox sv b;
         members = map (\<lambda>(i, p). build_member toFloat b i (p_Name p)) (enumerate 0 processes);
         dummyConfig = buildDummyMongoDbVersionConfig (enterprise_version b);
         versions = (if versionsContain (b_versions b) dummyConfig then b_versions b
                     else b_versions b @ [dummyConfig])
     in \<lparr>ac_Version = ac_Version (b_previousAC b),
         ac_Processes = processes,
         ac_ReplicaSets =
           [\<lparr>rs_Id = (case b_replicaSetId b of Some i \<Rightarrow> i | None \<Rightarrow> b_name b),
             rs_Members = members, rs_ProtocolVersion = ''1'', rs_NumberArbiters = b_arbiters b,
             rs_Force = b_forceReconfigureToVersion b, rs_Settings = b_settings b\<rparr>],
         ac_Auth = (case b_auth b of Some a \<Rightarrow> a | None \<Rightarrow> disabledAuth),
         ac_Prometheus = None,
         ac_TLSConfig = (case b_tlsConfig b of Some t \<Rightarrow> Some t
           | None \<Rightarrow> Some \<lparr>tls_CAFilePath = b_cafilePath b, tls_AutoPEMKeyFilePath = '''',
                           tls_ClientCertificateMode = ClientCertificateModeOptional\<rparr>),
         ac_SSLConfig = b_sslConfig b,
         ac_Versions = versions, ac_BackupVersions = b_backupVersions b,
         ac_MonitoringVersions = b_monitoringVersions b, ac_Options = b_options b, ac_Roles = []\<rparr>)"

definition invalid_fcv :: "'v semver \<Rightarrow> builder \<Rightarrow> go_error option" where
  "invalid_fcv sv b = (if b_fcv b = '''' then None
     else case semver_Make sv (b_fcv b @ ''.0'') of Inl err \<Rightarrow> Some err | Inr _ \<Rightarrow> None)"

definition Build :: "objx \<Rightarrow> (string \<Rightarrow> rat) \<Rightarrow> 'v semver \<Rightarrow> builder \<Rightarrow> automation_config fallible" where
  "Build ox toFloat sv b0 = (case setFeatureCompatibilityVersionIfUpgradeIsHappening sv b0 of
      Inl err \<Rightarrow> Inl (errorf (''can't build the automation config: '' @ err_msg err))
    | Inr b1 \<Rightarrow>
        if b_members b1 < 0 \<or> b_arbiters b1 < 0 then Inl (errorf ''panic: slice bounds'')
        else (case invalid_fcv sv b1 of
            Some err \<Rightarrow> Inl (errorf (''invalid feature compatibility version: '' @ err_msg err))
          | None \<Rightarrow> (case setFeatureCompatibilityVersionIfUpgradeIsHappening sv b1 of
                Inl err \<Rightarrow> Inl (errorf (''can't build the automation config: '' @ err_msg err))
              | Inr b \<Rightarrow>
                  let currentAc = fold (\<lambda>m. m) (b_modifications b) (build_currentAc ox toFloat sv b)
                  in Inr (if AreEqual (b_previousAC b) currentAc then currentAc
                          else currentAc\<lparr>ac_Version := ac_Version currentAc + 1\<rparr>))))"

subsection \<open>Shape of the built config\<close>

lemma map_enumerate: "map f (enumerate 0 xs) = map (\<lambda>i. f (i, xs ! i)) [0..<length xs]"
  by (rule nth_equalityI) (simp_all add: nth_enumerate_eq)

lemma set_fcv_Inr:
  "setFeatureCompatibilityVersionIfUpgradeIsHappening sv b = Inr b' \<Longrightarrow>
   b' = b \<or> (\<exists>p ps. ac_Processes (b_previousAC b) = p # ps \<and> b_fcv b = '''' \<and>
              b' = b\<lparr>b_fcv := p_FeatureCompatibilityVersion p\<rparr>)"
  by (auto simp: setFeatureCompatibilityVersionIfUpgradeIsHappening_def Let_def
      split: list.splits if_splits sum.splits)

lemma set_fcv_frame:
  assumes "setFeatureCompatibilityVersionIfUpgradeIsHappening sv b = Inr b'"
  shows "b' = b\<lparr>b_fcv := b_fcv b'\<rparr>"
  using set_fcv_Inr[OF assms] by auto

lemma set_fcv_idem:
  "setFeatureCompatibilityVersionIfUpgradeIsHappening sv b = Inr b' \<Longrightarrow>
   setFeatureCompatibilityVersionIfUpgradeIsHappening sv b' = Inr b'"
  by (auto simp: setFeatureCompatibilityVersionIfUpgradeIsHappening_def Let_def
      split: list.splits if_splits sum.splits)

definition bump_version :: "automation_config \<Rightarrow> automation_config \<Rightarrow> automation_config" where
  "bump_version prev cur =
    (if AreEqual prev cur then cur else cur\<lparr>ac_Version := ac_Version cur + 1\<rparr>)"

lemma bump_version_sel [simp]:
  "ac_Processes (bump_version prev cur) = ac_Processes cur"
  "ac_ReplicaSets (bump_version prev cur) = ac_ReplicaSets cur"
  "ac_Auth (bump_version prev cur) = ac_Auth cur"
  by (simp_all add: bump_version_def)

lemma Build_Inr_iff:
  "Build ox tf sv b0 = Inr ac \<longleftrightarrow>
   (\<exists>b. setFeatureCompatibilityVersionIfUpgradeIsHappening sv b0 = Inr b \<and>
        0 \<le> b_members b0 \<and> 0 \<le> b_arbiters b0 \<and> invalid_fcv sv b = None \<and>
        ac = bump_version (b_previousAC b0)
               (fold (\<lambda>m. m) (b_modifications b0) (build_currentAc ox tf sv b)))"
proof -
  have "Build ox tf sv b0 = Inr ac \<longleftrightarrow>
      0 \<le> b_members b0 \<and> 0 \<le> b_arbiters b0 \<and> invalid_fcv sv b = None \<and>
        ac = bump_version (b_previousAC b0)
               (fold (\<lambda>m. m) (b_modifications b0) (build_currentAc ox tf sv b))"
    if b: "setFeatureCompatibilityVersionIfUpgradeIsHappening sv b0 = Inr b" for b
  proof -
    have fr: "b_members b = b_members b0" "b_arbiters b = b_arbiters b0"
        "b_previousAC b = b_previousAC b0" "b_modifications b = b_modifications b0"
      by (subst set_fcv_frame[OF b], simp)+
    show ?thesis
      using b set_fcv_idem[OF b] fr
      by (auto simp: Build_def bump_version_def Let_def split: option.splits)
  qed
  then show ?thesis
    by (cases "setFeatureCompatibilityVersionIfUpgradeIsHappening sv b0") (auto simp: Build_def)
qed

definition keeps :: "(automation_config \<Rightarrow> 'b) \<Rightarrow> (automation_config \<Rightarrow> automation_config) list \<Rightarrow> bool" where
  "keeps f mods = (\<forall>m\<in>set mods. \<forall>ac. f (m ac) = f ac)"

lemma keeps_simps [simp]:
  "keeps f []" "keeps f (m # ms) \<longleftrightarrow> (\<forall>ac. f (m ac) = f ac) \<and> keeps f ms"
  by (auto simp: keeps_def)

lemma fold_keeps: "keeps f mods \<Longrightarrow> f (fold (\<lambda>m. m) mods ac) = f ac"
  by (induction mods arbitrary: ac) auto

text \<open>The number of processes, as a natural number.\<close>

abbreviation n_members :: "builder \<Rightarrow> nat" where "n_members b \<equiv> nat (b_members b)"
abbreviation n_arbiters :: "builder \<Rightarrow> nat" where "n_arbiters b \<equiv> nat (b_arbiters b)"

definition process_mods_keep_name :: "builder \<Rightarrow> bool" where
  "process_mods_keep_name b = (\<forall>f\<in>set (b_processModifications b). \<forall>i p. p_Name (f i p) = p_Name p)"

lemma fold_process_mods_name:
  "(\<forall>f\<in>set fs. \<forall>i p. p_Name (f i p) = p_Name p) \<Longrightarrow> p_Name (fold (\<lambda>f. f (i :: int)) fs p) = p_Name p"
  by (induction fs arbitrary: p) auto

lemma build_process_name:
  "process_mods_keep_name b \<Longrightarrow>
   p_Name (build_process ox b fcv v d i h) =
     toProcessName (b_name b) (process_index b i) (int i \<ge> b_members b)"
  by (simp add: build_process_def Let_def setter_defs fold_process_mods_name
      process_mods_keep_name_def)

lemma length_build_hostnames [simp]: "length (build_hostnames b) = n_members b + n_arbiters b"
  by (simp add: build_hostnames_def)

lemma length_build_processes [simp]: "length (build_processes ox sv b) = n_members b + n_arbiters b"
  by (simp add: build_processes_def Let_def)

definition process_names :: "builder \<Rightarrow> string list" where
  "process_names b =
    map (\<lambda>i. b_name b @ ''-'' @ itoa (int i)) [0..<n_members b] @
    map (\<lambda>i. b_name b @ ''-arb-'' @ itoa (int i)) [0..<n_arbiters b]"

lemma length_process_names [simp]: "length (process_names b) = n_members b + n_arbiters b"
  by (simp add: process_names_def)

lemma map_name_build_processes:
  assumes "process_mods_keep_name b" "0 \<le> b_members b"
  shows "map p_Name (build_processes ox sv b) = process_names b"
proof (rule nth_equalityI)
  fix i assume i: "i < length (map p_Name (build_processes ox sv b))"
  then have "map p_Name (build_processes ox sv b) ! i =
      toProcessName (b_name b) (process_index b i) (int i \<ge> b_members b)"
    using assms(1)
    by (simp add: build_processes_def Let_def nth_enumerate_eq build_process_name)
  also have "\<dots> = process_names b ! i"
    using i assms(2)
    by (auto simp: toProcessName_def process_index_def process_names_def nth_append of_nat_diff)
  finally show "map p_Name (build_processes ox sv b) ! i = process_names b ! i" .
qed simp

lemma itoa_nat_no_minus: "CHR ''-'' \<notin> set (itoa (int n))"
  by (simp add: itoa_def digits_no_minus)

lemma distinct_process_names: "distinct (process_names b)"
proof -
  have "itoa (int i) \<noteq> ''arb-'' @ itoa (int j)" for i j
    using itoa_nat_no_minus[of i] by (metis in_set_conv_decomp append_Cons list.set_intros)
  then show ?thesis
    by (auto simp: process_names_def distinct_map inj_on_def)
qed

lemma rs_Members_build_currentAc:
  "map rs_Members (ac_ReplicaSets (build_currentAc ox tf sv b)) =
   [map (\<lambda>i. build_member tf b i (p_Name (build_processes ox sv b ! i)))
      [0..<n_members b + n_arbiters b]]"
  by (simp add: build_currentAc_def Let_def map_enumerate)

lemma build_currentAc_sel [simp]:
  "ac_Processes (build_currentAc ox tf sv b) = build_processes ox sv b"
  "ac_Version (build_currentAc ox tf sv b) = ac_Version (b_previousAC b)"
  by (simp_all add: build_currentAc_def Let_def)

lemma set_fcv_fields:
  assumes "setFeatureCompatibilityVersionIfUpgradeIsHappening sv b0 = Inr b"
  shows "b_name b = b_name b0" "b_members b = b_members b0" "b_arbiters b = b_arbiters b0"
    "b_memberOptions b = b_memberOptions b0" "b_processModifications b = b_processModifications b0"
    "b_previousAC b = b_previousAC b0" "b_mongodbVersion b = b_mongodbVersion b0"
    "b_modifications b = b_modifications b0" "b_replicaSetHorizons b = b_replicaSetHorizons b0"
  by (subst set_fcv_frame[OF assms], simp)+

subsection \<open>Rebuilding\<close>

definition version_blind :: "(automation_config \<Rightarrow> automation_config) list \<Rightarrow> bool" where
  "version_blind mods =
    (\<forall>m\<in>set mods. \<forall>ac v. m (ac\<lparr>ac_Version := v\<rparr>) = (m ac)\<lparr>ac_Version := v\<rparr>)"

lemma fold_version_blind:
  "version_blind mods \<Longrightarrow>
   fold (\<lambda>m. m) mods (ac\<lparr>ac_Version := v\<rparr>) = (fold (\<lambda>m. m) mods ac)\<lparr>ac_Version := v\<rparr>"
  by (induction mods arbitrary: ac) (auto simp: version_blind_def)

lemma build_process_frame [simp]:
  "build_process ox (b\<lparr>b_fcv := f\<rparr>) = build_process ox b"
  "build_process ox (b\<lparr>b_previousAC := P\<rparr>) = build_process ox b"
  by (intro ext, simp add: build_process_def process_index_def Let_def)+

lemma build_member_frame [simp]:
  "build_member tf (b\<lparr>b_fcv := f\<rparr>) = build_member tf b"
  "build_member tf (b\<lparr>b_previousAC := P\<rparr>) = build_member tf b"
  by (intro ext, simp add: build_member_def process_index_def Let_def)+

lemma build_fcv_frame [simp]: "build_fcv sv (b\<lparr>b_previousAC := P\<rparr>) = build_fcv sv b"
  by (simp add: build_fcv_def)

lemma build_currentAc_frame:
  assumes "build_fcv sv (b\<lparr>b_fcv := f\<rparr>) = build_fcv sv b"
  shows "build_currentAc ox tf sv (b\<lparr>b_fcv := f, b_previousAC := P\<rparr>) =
         (build_currentAc ox tf sv b)\<lparr>ac_Version := ac_Version P\<rparr>"
proof -
  have "build_processes ox sv (b\<lparr>b_fcv := f, b_previousAC := P\<rparr>) = build_processes ox sv b"
    using assms unfolding build_processes_def Let_def
    by (simp add: build_hostnames_def enterprise_version_def)
  moreover have "enterprise_version (b\<lparr>b_fcv := f, b_previousAC := P\<rparr>) = enterprise_version b"
    by (simp add: enterprise_version_def)
  ultimately show ?thesis by (simp add: build_currentAc_def Let_def cong: option.case_cong)
qed

definition process_mods_keep_fcv :: "builder \<Rightarrow> bool" where
  "process_mods_keep_fcv b = (\<forall>f\<in>set (b_processModifications b). \<forall>i p.
     p_FeatureCompatibilityVersion (f i p) = p_FeatureCompatibilityVersion p)"

lemma fold_process_mods_fcv:
  "(\<forall>f\<in>set fs. \<forall>i p. p_FeatureCompatibilityVersion (f i p) = p_FeatureCompatibilityVersion p) \<Longrightarrow>
   p_FeatureCompatibilityVersion (fold (\<lambda>f. f (i :: int)) fs p) = p_FeatureCompatibilityVersion p"
  by (induction fs arbitrary: p) auto

lemma build_process_fcv:
  "process_mods_keep_fcv b \<Longrightarrow> p_FeatureCompatibilityVersion (build_process ox b fcv v d i h) = fcv"
  by (simp add: build_process_def Let_def setter_defs fold_process_mods_fcv process_mods_keep_fcv_def)

lemma fcv_build_processes:
  "process_mods_keep_fcv b \<Longrightarrow>
   map p_FeatureCompatibilityVersion (build_processes ox sv b) =
     replicate (n_members b + n_arbiters b) (build_fcv sv b)"
  by (rule nth_equalityI)
     (simp_all add: build_processes_def Let_def nth_enumerate_eq build_process_fcv)

text \<open>The feature compatibility version a rebuild settles on.\<close>

lemma set_fcv_again:
  assumes b1: "setFeatureCompatibilityVersionIfUpgradeIsHappening sv b = Inr b1"
    and fcvs: "map p_FeatureCompatibilityVersion (ac_Processes ac) = replicate n (build_fcv sv b1)"
    and ok: "n = 0 \<or> b_fcv b \<noteq> '''' \<or>
      (\<exists>pv cv. semver_Make sv (build_fcv sv b1 @ ''.0'') = Inr pv \<and>
                semver_Make sv (b_mongodbVersion b) = Inr cv)"
    and inv: "invalid_fcv sv b1 = None" and some: "n > 0"
  shows "\<exists>f. setFeatureCompatibilityVersionIfUpgradeIsHappening sv (b\<lparr>b_previousAC := ac\<rparr>)
               = Inr (b\<lparr>b_previousAC := ac, b_fcv := f\<rparr>) \<and>
             build_fcv sv (b1\<lparr>b_fcv := f\<rparr>) = build_fcv sv b1 \<and>
             invalid_fcv sv (b1\<lparr>b_fcv := f\<rparr>) = None"
proof -
  let ?F = "build_fcv sv b1"
  obtain p ps where ps: "ac_Processes ac = p # ps" "p_FeatureCompatibilityVersion p = ?F"
    using fcvs some by (cases n; cases "ac_Processes ac") auto
  show ?thesis
  proof (cases "b_fcv b = ''''")
    case False
    then have "b1 = b" using set_fcv_Inr[OF b1] by auto
    then show ?thesis
      using False ps inv
      by (intro exI[of _ "b_fcv b"])
         (simp add: setFeatureCompatibilityVersionIfUpgradeIsHappening_def)
  next
    case True
    then obtain pv cv where v: "semver_Make sv (?F @ ''.0'') = Inr pv"
        "semver_Make sv (b_mongodbVersion b) = Inr cv"
      using ok some by auto
    show ?thesis
    proof (cases "semver_GT sv cv pv")
      case gt: True
      show ?thesis
        using True ps v gt inv
        by (intro exI[of _ ?F])
           (simp add: setFeatureCompatibilityVersionIfUpgradeIsHappening_def invalid_fcv_def build_fcv_def)
    next
      case gt: False
      have "b_fcv b1 = ''''"
      proof (rule ccontr)
        assume ne: "b_fcv b1 \<noteq> ''''"
        then have "?F = b_fcv b1" by (simp add: build_fcv_def)
        then show False
          using b1 True ne gt v
          by (auto simp: setFeatureCompatibilityVersionIfUpgradeIsHappening_def Let_def
              split: list.splits sum.splits if_splits)
      qed
      then have "b1 = b" using set_fcv_Inr[OF b1] True by auto
      then show ?thesis
        using True ps v gt inv
        by (intro exI[of _ "''''"])
           (simp add: setFeatureCompatibilityVersionIfUpgradeIsHappening_def invalid_fcv_def build_fcv_def)
    qed
  qed
qed

lemma Build_again:
  assumes b: "Build ox tf sv b = Inr ac"
    and blind: "version_blind (b_modifications b)"
    and fcv: "process_mods_keep_fcv b"
      "keeps (\<lambda>ac. map p_FeatureCompatibilityVersion (ac_Processes ac)) (b_modifications b)"
    and some: "0 < b_members b + b_arbiters b"
    and ok: "b_fcv b \<noteq> '''' \<or>
      (\<exists>pv cv. (\<forall>p\<in>set (ac_Processes ac). semver_Make sv (p_FeatureCompatibilityVersion p @ ''.0'') = Inr pv) \<and>
                semver_Make sv (b_mongodbVersion b) = Inr cv)"
  shows "Build ox tf sv (SetPreviousAutomationConfig ac b) = Inr ac"
proof -
  obtain b1 where b1: "setFeatureCompatibilityVersionIfUpgradeIsHappening sv b = Inr b1"
    and ge: "0 \<le> b_members b" "0 \<le> b_arbiters b" and inv: "invalid_fcv sv b1 = None"
    and ac: "ac = bump_version (b_previousAC b)
               (fold (\<lambda>m. m) (b_modifications b) (build_currentAc ox tf sv b1))"
    using b unfolding Build_Inr_iff by blast
  let ?cur = "fold (\<lambda>m. m) (b_modifications b) (build_currentAc ox tf sv b1)"
  let ?n = "n_members b + n_arbiters b"
  have n: "?n > 0" using some ge by auto
  have keep1: "process_mods_keep_fcv b1"
    using fcv(1) set_fcv_fields(5)[OF b1] by (simp add: process_mods_keep_fcv_def)
  have fcvs: "map p_FeatureCompatibilityVersion (ac_Processes ac) = replicate ?n (build_fcv sv b1)"
    using fold_keeps[OF fcv(2), of "build_currentAc ox tf sv b1"] fcv_build_processes[OF keep1]
      set_fcv_fields[OF b1] ac by simp
  have "\<forall>p\<in>set (ac_Processes ac). p_FeatureCompatibilityVersion p = build_fcv sv b1"
    using arg_cong[OF fcvs, of set] n by (auto simp: image_iff)
  moreover have "ac_Processes ac \<noteq> []" using fcvs n by auto
  ultimately have ok': "?n = 0 \<or> b_fcv b \<noteq> '''' \<or> (\<exists>pv cv. semver_Make sv (build_fcv sv b1 @ ''.0'') = Inr pv \<and>
      semver_Make sv (b_mongodbVersion b) = Inr cv)"
    using ok by (metis last_in_set)
  obtain f where f: "setFeatureCompatibilityVersionIfUpgradeIsHappening sv (b\<lparr>b_previousAC := ac\<rparr>)
        = Inr (b\<lparr>b_previousAC := ac, b_fcv := f\<rparr>)"
      "build_fcv sv (b1\<lparr>b_fcv := f\<rparr>) = build_fcv sv b1" "invalid_fcv sv (b1\<lparr>b_fcv := f\<rparr>) = None"
    using set_fcv_again[OF b1 fcvs ok' inv n] by blast
  have same: "b\<lparr>b_previousAC := ac, b_fcv := f\<rparr> = b1\<lparr>b_fcv := f, b_previousAC := ac\<rparr>"
    by (subst set_fcv_frame[OF b1]) simp
  have cur: "fold (\<lambda>m. m) (b_modifications b)
      (build_currentAc ox tf sv (b\<lparr>b_previousAC := ac, b_fcv := f\<rparr>)) = ?cur\<lparr>ac_Version := ac_Version ac\<rparr>"
    unfolding same build_currentAc_frame[OF f(2)] fold_version_blind[OF blind] ..
  have ac': "ac = ?cur\<lparr>ac_Version := ac_Version ac\<rparr>"
    using ac by (simp add: bump_version_def)
  have inv': "invalid_fcv sv (b\<lparr>b_previousAC := ac, b_fcv := f\<rparr>) = None"
    using f(3) by (simp add: invalid_fcv_def split: if_splits)
  have "AreEqual ac (?cur\<lparr>ac_Version := ac_Version ac\<rparr>)"
    using AreEqual_refl[of ac "ac_Version ac"] ac' by simp
  then show ?thesis
    unfolding SetPreviousAutomationConfig_def Build_Inr_iff
    using f(1) ge inv' cur ac' by (simp add: bump_version_def)
qed

lemma version_blind_keeps: "version_blind mods \<Longrightarrow> keeps ac_Version mods"
  unfolding version_blind_def keeps_def
  by (metis automation_config.select_convs(1) automation_config.surjective
      automation_config.update_convs(1))

lemma Build_version:
  assumes "Build ox tf sv b = Inr ac" and "version_blind (b_modifications b)"
  shows "ac_Version ac = ac_Version (b_previousAC b) + (if AreEqual (b_previousAC b) ac then 0 else 1)"
proof -
  obtain b1 where b1: "setFeatureCompatibilityVersionIfUpgradeIsHappening sv b = Inr b1"
    and ac: "ac = bump_version (b_previousAC b)
               (fold (\<lambda>m. m) (b_modifications b) (build_currentAc ox tf sv b1))"
    using assms(1) unfolding Build_Inr_iff by blast
  have "ac_Version (fold (\<lambda>m. m) (b_modifications b) (build_currentAc ox tf sv b1)) =
      ac_Version (b_previousAC b)"
    using fold_keeps[OF version_blind_keeps[OF assms(2)]] set_fcv_fields(6)[OF b1] by simp
  then show ?thesis using ac by (simp add: bump_version_def)
qed

subsection \<open>Members\<close>

lemma length_filter_less_upt: "length (filter (\<lambda>i. i < k) [0..<n]) = min n k"
  by (induction n) (auto simp: min_def)

lemma votes_build_member:
  "b_memberOptions b = [] \<Longrightarrow>
   rsm_Votes (build_member tf b i p) =
     Some (if int i \<ge> b_members b \<or> int i < maxVotingMembers - b_arbiters b then 1 else 0)"
  by (simp add: build_member_def newReplicaSetMember_def Let_def)

lemma ids_build_member:
  "rsm_Id (build_member tf b i p) =
     (if int i \<ge> b_members b then 100 + (int i - b_members b) else int i)"
  by (simp add: build_member_def newReplicaSetMember_def Let_def arbitersStartingIndex_def process_index_def)

lemma arbiter_build_member: "rsm_ArbiterOnly (build_member tf b i p) = (int i \<ge> b_members b)"
  by (simp add: build_member_def newReplicaSetMember_def Let_def)

lemma host_build_member: "rsm_Host (build_member tf b i p) = p"
  by (simp add: build_member_def newReplicaSetMember_def Let_def)

lemma voting_count:
  assumes "0 \<le> b_members b" "0 \<le> b_arbiters b" "b_arbiters b \<le> 7"
  shows "length (filter (\<lambda>i. int i \<ge> b_members b \<or> int i < maxVotingMembers - b_arbiters b)
           [0..<n_members b + n_arbiters b]) = nat (min 7 (b_members b + b_arbiters b))"
proof -
  let ?n = "n_members b" and ?a = "n_arbiters b"
  let ?P = "\<lambda>i. int i \<ge> b_members b \<or> int i < maxVotingMembers - b_arbiters b"
  have "filter ?P [0..<?n] = filter (\<lambda>i. i < 7 - ?a) [0..<?n]"
    by (rule filter_cong) (use assms in \<open>auto simp: maxVotingMembers_def\<close>)
  moreover have "filter ?P [?n..<?n + ?a] = [?n..<?n + ?a]"
    by (rule filter_True) (use assms in auto)
  moreover have "[0..<?n + ?a] = [0..<?n] @ [?n..<?n + ?a]"
    by (rule upt_add_eq_append) simp
  ultimately have "length (filter ?P [0..<?n + ?a]) = min ?n (7 - ?a) + ?a"
    by (simp add: length_filter_less_upt)
  then show ?thesis using assms by (simp add: min_def nat_diff_distrib) linarith
qed

lemma built_members:
  assumes "Build ox tf sv b = Inr ac"
    and "keeps (\<lambda>ac. map rs_Members (ac_ReplicaSets ac)) (b_modifications b)"
  obtains b1 where "setFeatureCompatibilityVersionIfUpgradeIsHappening sv b = Inr b1"
    and "0 \<le> b_members b1" "0 \<le> b_arbiters b1"
    and "map rs_Members (ac_ReplicaSets ac) =
         [map (\<lambda>i. build_member tf b1 i (p_Name (build_processes ox sv b1 ! i)))
            [0..<n_members b1 + n_arbiters b1]]"
proof -
  obtain b1 where b1: "setFeatureCompatibilityVersionIfUpgradeIsHappening sv b = Inr b1"
    and ge: "0 \<le> b_members b" "0 \<le> b_arbiters b"
    and ac: "ac = bump_version (b_previousAC b)
               (fold (\<lambda>m. m) (b_modifications b) (build_currentAc ox tf sv b1))"
    using assms(1) unfolding Build_Inr_iff by blast
  show ?thesis
    by (rule that[OF b1])
       (use ge set_fcv_fields[OF b1] fold_keeps[OF assms(2), of "build_currentAc ox tf sv b1"] ac
          rs_Members_build_currentAc[of ox tf sv b1] in simp_all)
qed

subsection \<open>A concrete deployment\<close>

text \<open>A version parser for plain \<open>x.y.z\<close> strings and a builder as the operator
  fills it, for evaluating the properties below on an input.\<close>

definition plain_number :: "string \<Rightarrow> bool" where
  "plain_number s = (s \<noteq> [] \<and> list_all (in_range CHR ''0'' CHR ''9'') s)"

definition plain_semver :: "(nat \<times> nat \<times> nat) semver" where
  "plain_semver = \<lparr>semver_Make = (\<lambda>s. case split_dots s of
        [x, y, z] \<Rightarrow> if plain_number x \<and> plain_number y \<and> plain_number z
                      then Inr (digits_val x, digits_val y, digits_val z) else Inl (errorf ''invalid'')
      | _ \<Rightarrow> Inl (errorf ''invalid'')),
     semver_GT = (\<lambda>(a, b, c) (x, y, z). a > x \<or> a = x \<and> (b > y \<or> b = y \<and> c > z)),
     semver_GTE = (\<lambda>(a, b, c) (x, y, z). a > x \<or> a = x \<and> (b > y \<or> b = y \<and> c \<ge> z)),
     semver_Major = (\<lambda>(a, b, c). int a), semver_Minor = (\<lambda>(a, b, c). int b)\<rparr>"

definition demo_builder :: "int \<Rightarrow> int \<Rightarrow> string \<Rightarrow> builder" where
  "demo_builder members arbiters version =
    SetMongoDBVersion version (SetMembers members (SetArbiters arbiters
      (SetName ''mdb'' (SetDomain ''mdb-svc.ns'' (SetArbiterDomain ''mdb-svc.ns'' NewBuilder)))))"

lemma demo_builder_sel [simp]:
  "b_members (demo_builder m a v) = m" "b_arbiters (demo_builder m a v) = a"
  "b_name (demo_builder m a v) = ''mdb''" "b_fcv (demo_builder m a v) = ''''"
  "b_memberOptions (demo_builder m a v) = []" "b_modifications (demo_builder m a v) = []"
  "b_processModifications (demo_builder m a v) = []" "b_mongodbVersion (demo_builder m a v) = v"
  "b_previousAC (demo_builder m a v) = zero_AutomationConfig"
  by (simp_all add: demo_builder_def NewBuilder_def SetMongoDBVersion_def SetMembers_def
      SetArbiters_def SetName_def SetDomain_def SetArbiterDomain_def)

abbreviation demo_ac :: "int \<Rightarrow> int \<Rightarrow> automation_config" where
  "demo_ac m a \<equiv> projr (Build nested_objx (\<lambda>_. 0) plain_semver (demo_builder m a ''4.4.0''))"

lemma demo_Build:
  "0 \<le> m \<Longrightarrow> 0 \<le> a \<Longrightarrow>
   Build nested_objx (\<lambda>_. 0) plain_semver (demo_builder m a ''4.4.0'') = Inr (demo_ac m a)"
  by (simp add: Build_def setFeatureCompatibilityVersionIfUpgradeIsHappening_def
      zero_AutomationConfig_def invalid_fcv_def Let_def)

subsection \<open>Properties\<close>



text \<open>Process names are \<open>name-0 \<dots> name-(members-1)\<close> followed by \<open>name-arb-0 \<dots>\<close>,
  all of them distinct, so the agents and the per-process overrides never
  address two processes at once.\<close>

lemma Build_process_names:
  assumes "Build ox tf sv b = Inr ac" and "process_mods_keep_name b"
    and "keeps (\<lambda>ac. map p_Name (ac_Processes ac)) (b_modifications b)"
  shows "map p_Name (ac_Processes ac) = process_names b \<and> distinct (map p_Name (ac_Processes ac))"
proof -
  obtain b1 where b1: "setFeatureCompatibilityVersionIfUpgradeIsHappening sv b = Inr b1"
    and ge: "0 \<le> b_members b"
    and ac: "ac = bump_version (b_previousAC b)
               (fold (\<lambda>m. m) (b_modifications b) (build_currentAc ox tf sv b1))"
    using assms(1) unfolding Build_Inr_iff by blast
  have "process_mods_keep_name b1" "process_names b1 = process_names b"
    using assms(2) set_fcv_fields[OF b1] by (simp_all add: process_mods_keep_name_def process_names_def)
  then show ?thesis
    using ac ge set_fcv_fields[OF b1] fold_keeps[OF assms(3), of "build_currentAc ox tf sv b1"]
      map_name_build_processes[of b1 ox sv] distinct_process_names[of b] by simp
qed

text \<open>Member ids are \<open>0 \<dots> members-1\<close> for data-bearing members and \<open>100, 101, \<dots>\<close>
  for arbiters whatever the number of members, so an arbiter keeps its id when
  members are scaled; up to 100 members all ids are distinct.\<close>

lemma Build_member_ids:
  assumes "Build ox tf sv b = Inr ac" and "b_members b \<le> 100"
    and "keeps (\<lambda>ac. map rs_Members (ac_ReplicaSets ac)) (b_modifications b)"
  shows "\<exists>ms. map rs_Members (ac_ReplicaSets ac) = [ms] \<and>
     map rsm_Id ms = map int [0..<n_members b] @ map (\<lambda>j. 100 + int j) [0..<n_arbiters b] \<and>
     distinct (map rsm_Id ms) \<and>
     (\<exists>b1. setFeatureCompatibilityVersionIfUpgradeIsHappening sv b = Inr b1 \<and>
        map rsm_Host ms = map p_Name (build_processes ox sv b1))"
proof -
  obtain b1 where b1: "setFeatureCompatibilityVersionIfUpgradeIsHappening sv b = Inr b1"
    and ge: "0 \<le> b_members b1" "0 \<le> b_arbiters b1"
    and ms: "map rs_Members (ac_ReplicaSets ac) =
         [map (\<lambda>i. build_member tf b1 i (p_Name (build_processes ox sv b1 ! i)))
            [0..<n_members b1 + n_arbiters b1]]"
    using built_members[OF assms(1,3)] by blast
  let ?ids = "map int [0..<n_members b] @ map (\<lambda>j. 100 + int j) [0..<n_arbiters b]"
  have "map rsm_Id (map (\<lambda>i. build_member tf b1 i (p_Name (build_processes ox sv b1 ! i)))
            [0..<n_members b1 + n_arbiters b1]) = ?ids"
    using ge set_fcv_fields[OF b1]
    by (intro nth_equalityI) (auto simp: ids_build_member nth_append)
  moreover have "distinct ?ids"
    using assms(2) by (auto simp: distinct_map inj_on_def)
  moreover have "map rsm_Host (map (\<lambda>i. build_member tf b1 i (p_Name (build_processes ox sv b1 ! i)))
            [0..<n_members b1 + n_arbiters b1]) = map p_Name (build_processes ox sv b1)"
    by (intro nth_equalityI) (simp_all add: host_build_member length_build_processes)
  ultimately show ?thesis using ms b1 by auto
qed

text \<open>What the agents rely on: one replica set, whose members are the processes, each once and with an
  id of its own, the arbiters after the data-bearing members.\<close>

definition well_formed_config :: "automation_config \<Rightarrow> bool" where
  "well_formed_config ac = (case map rs_Members (ac_ReplicaSets ac) of
      [ms] \<Rightarrow> map rsm_Host ms = map p_Name (ac_Processes ac) \<and> distinct (map p_Name (ac_Processes ac)) \<and>
        distinct (map rsm_Id ms)
    | _ \<Rightarrow> False)"

text \<open>C26: every config that is built is well formed.  Its processes are named \<open>name-0 \<dots> name-(members-1)\<close>
  followed by \<open>name-arb-0 \<dots>\<close>, and the ids are \<open>0 \<dots> members-1\<close> for data-bearing members and \<open>100, 101, \<dots>\<close>
  for arbiters whatever the number of members, so an arbiter keeps its id when members are scaled.\<close>

theorem Build_well_formed:
  assumes "Build ox tf sv b = Inr ac" and "b_members b \<le> 100" and "process_mods_keep_name b"
    and "keeps (\<lambda>ac. map p_Name (ac_Processes ac)) (b_modifications b)"
    and "keeps (\<lambda>ac. map rs_Members (ac_ReplicaSets ac)) (b_modifications b)"
  shows "well_formed_config ac \<and> map p_Name (ac_Processes ac) = process_names b \<and>
    (\<exists>ms. map rs_Members (ac_ReplicaSets ac) = [ms] \<and>
       map rsm_Id ms = map int [0..<n_members b] @ map (\<lambda>j. 100 + int j) [0..<n_arbiters b])"
proof -
  have names: "map p_Name (ac_Processes ac) = process_names b" "distinct (map p_Name (ac_Processes ac))"
    using Build_process_names[OF assms(1,3,4)] by blast+
  obtain ms :: "replica_set_member list" and b1 :: builder where ms: "map rs_Members (ac_ReplicaSets ac) = [ms]"
      "map rsm_Id ms = map int [0..<n_members b] @ map (\<lambda>j. 100 + int j) [0..<n_arbiters b]" "distinct (map rsm_Id ms)"
      "setFeatureCompatibilityVersionIfUpgradeIsHappening sv b = Inr b1" "map rsm_Host ms = map p_Name (build_processes ox sv b1)"
    using Build_member_ids[OF assms(1,2,5)] by (elim exE conjE) (rule that)
  have "0 \<le> b_members b" using assms(1) unfolding Build_Inr_iff by blast
  then have "map p_Name (build_processes ox sv b1) = process_names b"
    using assms(3) set_fcv_fields[OF ms(4)] map_name_build_processes[of b1 ox sv]
    by (simp add: process_mods_keep_name_def process_names_def)
  with names ms show ?thesis by (simp add: well_formed_config_def)
qed

theorem Build_well_formed_witness:
  "well_formed_config (demo_ac 2 2) \<and> map p_Name (ac_Processes (demo_ac 2 2)) = [''mdb-0'', ''mdb-1'', ''mdb-arb-0'', ''mdb-arb-1''] \<and>
   (\<exists>ms. map rs_Members (ac_ReplicaSets (demo_ac 2 2)) = [ms] \<and> map rsm_Id ms = [0, 1, 100, 101])"
proof -
  have "process_names (demo_builder 2 2 ''4.4.0'') = [''mdb-0'', ''mdb-1'', ''mdb-arb-0'', ''mdb-arb-1'']" by code_simp
  then show ?thesis
    using Build_well_formed[OF demo_Build[of 2 2]] by (auto simp: process_mods_keep_name_def upt_rec numeral_eq_Suc)
qed

text \<open>C24: building again from the config just built, with the same inputs,
  returns that very config with the version unchanged: the version grows only
  when the content changes, so an unchanged resource never makes the agents
  chase a new goal version.\<close>

theorem Build_stable:
  assumes "Build ox tf sv b = Inr ac"
    and "version_blind (b_modifications b)"
    and "process_mods_keep_fcv b"
    and "keeps (\<lambda>ac. map p_FeatureCompatibilityVersion (ac_Processes ac)) (b_modifications b)"
    and "0 < b_members b + b_arbiters b"
    and "b_fcv b \<noteq> '''' \<or>
      (\<exists>pv cv. (\<forall>p\<in>set (ac_Processes ac). semver_Make sv (p_FeatureCompatibilityVersion p @ ''.0'') = Inr pv) \<and>
                semver_Make sv (b_mongodbVersion b) = Inr cv)"
  shows "Build ox tf sv (SetPreviousAutomationConfig ac b) = Inr ac \<and>
         ac_Version ac = ac_Version (b_previousAC b) + (if AreEqual (b_previousAC b) ac then 0 else 1)"
  using Build_again[OF assms] Build_version[OF assms(1,2)] by blast

theorem Build_stable_witness:
  "Build nested_objx (\<lambda>_. 0) plain_semver
     (SetPreviousAutomationConfig (projr (Build nested_objx (\<lambda>_. 0) plain_semver
        (SetFCV ''4.2'' (demo_builder 3 0 ''4.4.0'')))) (SetFCV ''4.2'' (demo_builder 3 0 ''4.4.0''))) =
   Build nested_objx (\<lambda>_. 0) plain_semver (SetFCV ''4.2'' (demo_builder 3 0 ''4.4.0''))"
proof -
  let ?b = "SetFCV ''4.2'' (demo_builder 3 0 ''4.4.0'')"
  have "Build nested_objx (\<lambda>_. 0) plain_semver ?b = Inr (projr (Build nested_objx (\<lambda>_. 0) plain_semver ?b))"
    by (simp add: Build_def setFeatureCompatibilityVersionIfUpgradeIsHappening_def SetFCV_def
        zero_AutomationConfig_def invalid_fcv_def plain_semver_def plain_number_def in_range_def Let_def
        less_eq_char_def)
  from Build_stable[OF this] this show ?thesis
    by (simp add: SetFCV_def version_blind_def process_mods_keep_fcv_def)
qed

text \<open>C25: during an upgrade the feature compatibility version is not raised:
  with no explicit FCV, a new MongoDB version above the previous FCV \<open>x.y\<close> (as
  \<open>x.y.0\<close>) leaves every process on the previous FCV.\<close>

theorem Build_keeps_fcv_on_upgrade:
  assumes "Build ox tf sv b = Inr ac" and "b_fcv b = ''''"
    and "ac_Processes (b_previousAC b) = p # ps" and "p_FeatureCompatibilityVersion p \<noteq> ''''"
    and "semver_Make sv (p_FeatureCompatibilityVersion p @ ''.0'') = Inr prev"
    and "semver_Make sv (b_mongodbVersion b) = Inr cur" and "semver_GT sv cur prev"
    and "process_mods_keep_fcv b"
    and "keeps (\<lambda>ac. map p_FeatureCompatibilityVersion (ac_Processes ac)) (b_modifications b)"
  shows "map p_FeatureCompatibilityVersion (ac_Processes ac) =
         replicate (n_members b + n_arbiters b) (p_FeatureCompatibilityVersion p)"
proof -
  let ?b1 = "b\<lparr>b_fcv := p_FeatureCompatibilityVersion p\<rparr>"
  have b1: "setFeatureCompatibilityVersionIfUpgradeIsHappening sv b = Inr ?b1"
    using assms by (simp add: setFeatureCompatibilityVersionIfUpgradeIsHappening_def)
  then have ac: "ac = bump_version (b_previousAC b)
      (fold (\<lambda>m. m) (b_modifications b) (build_currentAc ox tf sv ?b1))"
    using assms(1) unfolding Build_Inr_iff by simp
  have "process_mods_keep_fcv ?b1" using assms(8) by (simp add: process_mods_keep_fcv_def)
  then show ?thesis
    using ac fold_keeps[OF assms(9), of "build_currentAc ox tf sv ?b1"] assms(4)
      fcv_build_processes[of ?b1 ox sv] by (simp add: build_fcv_def)
qed

definition demo_upgrade :: builder where
  "demo_upgrade = SetPreviousAutomationConfig (demo_ac 3 0) (demo_builder 3 0 ''5.0.2'')"

theorem Build_keeps_fcv_on_upgrade_witness:
  "map p_FeatureCompatibilityVersion (ac_Processes
     (projr (Build nested_objx (\<lambda>_. 0) plain_semver demo_upgrade))) = replicate 3 ''4.4''"
proof -
  have "map p_FeatureCompatibilityVersion (ac_Processes (demo_ac 3 0)) = replicate 3 ''4.4''"
    by code_simp
  then obtain p ps where p: "ac_Processes (demo_ac 3 0) = p # ps" "p_FeatureCompatibilityVersion p = ''4.4''"
    by (cases "ac_Processes (demo_ac 3 0)") (auto simp: numeral_eq_Suc)
  have "Build nested_objx (\<lambda>_. 0) plain_semver demo_upgrade =
      Inr (projr (Build nested_objx (\<lambda>_. 0) plain_semver demo_upgrade))"
    by code_simp
  moreover have "semver_Make plain_semver ''4.4.0'' = Inr (4, 4, 0)"
      "semver_Make plain_semver ''5.0.2'' = Inr (5, 0, 2)" "semver_GT plain_semver (5, 0, 2) (4, 4, 0)"
    by code_simp+
  ultimately show ?thesis
    using Build_keeps_fcv_on_upgrade[of nested_objx "\<lambda>_. 0" plain_semver demo_upgrade _ p ps "(4, 4, 0)" "(5, 0, 2)"] p
    by (simp add: demo_upgrade_def SetPreviousAutomationConfig_def process_mods_keep_fcv_def numeral_eq_Suc)
qed

end
