(* ===== verification/Agent.thy ===== *)
theory Agent
  imports AC_Builder
begin

text \<open>
  What the operator knows about the agents, \<open>pkg/agent\<close>: reading from pod
  annotations which automation config version each agent has reached
  (\<open>agent_readiness.go\<close>), and moving the port of a running replica set one
  process at a time (\<open>replica_set_port_manager.go\<close>).

  \<open>getPod\<close> is the pod getter (a snapshot of the API server), \<open>toInt\<close> the
  third-party \<open>cast.ToInt\<close> on strings.
\<close>

subsection \<open>Pod states\<close>

record pod =
  pod_Name :: string
  pod_Namespace :: string
  pod_Annotations :: "(string \<times> string) list"

record pod_state =
  PodName :: nsname
  Found :: bool
  ReachedGoal :: bool
  IsArbiter :: bool

definition podAnnotationAgentVersion :: string where
  "podAnnotationAgentVersion = ''agent.mongodb.com/version''"

definition ReachedGoalState :: "(string \<Rightarrow> int) \<Rightarrow> pod \<Rightarrow> int \<Rightarrow> bool" where
  "ReachedGoalState toInt p targetConfigVersion =
    (case map_of (pod_Annotations p) podAnnotationAgentVersion of
       None \<Rightarrow> False
     | Some v \<Rightarrow> toInt v = targetConfigVersion)"

definition statefulSetPodNames :: "string \<Rightarrow> int \<Rightarrow> string list" where
  "statefulSetPodNames name n = map (\<lambda>i. name @ ''-'' @ itoa (int i)) [0..<nat n]"

definition arbitersStatefulSetPodNames :: "string \<Rightarrow> int \<Rightarrow> string list" where
  "arbitersStatefulSetPodNames name n = map (\<lambda>i. name @ ''-arb-'' @ itoa (int i)) [0..<nat n]"

fun pod_states_loop :: "(nsname \<Rightarrow> pod fallible) \<Rightarrow> (string \<Rightarrow> int) \<Rightarrow> int \<Rightarrow> string \<Rightarrow> nat
    \<Rightarrow> nat \<Rightarrow> string list \<Rightarrow> pod_state list fallible" where
  "pod_states_loop getPod toInt target ns nMembers i [] = Inr []"
| "pod_states_loop getPod toInt target ns nMembers i (podName # names) =
    (let nn = \<lparr>ns_Namespace = ns, ns_Name = podName\<rparr>;
         podState = \<lparr>PodName = nn, Found = True, ReachedGoal = False, IsArbiter = (i \<ge> nMembers)\<rparr>;
         rest = pod_states_loop getPod toInt target ns nMembers (Suc i) names
     in case getPod nn of
          Inl err \<Rightarrow> if err_not_found err
             then map_sum id (\<lambda>ss. podState\<lparr>Found := False, ReachedGoal := False\<rparr> # ss) rest
             else Inl err
        | Inr p \<Rightarrow> map_sum id
             (\<lambda>ss. podState\<lparr>ReachedGoal := ReachedGoalState toInt p target\<rparr> # ss) rest)"

definition GetAllDesiredMembersAndArbitersPodState ::
    "(nsname \<Rightarrow> pod fallible) \<Rightarrow> (string \<Rightarrow> int) \<Rightarrow> nsname \<Rightarrow> int \<Rightarrow> int \<Rightarrow> int \<Rightarrow> pod_state list fallible" where
  "GetAllDesiredMembersAndArbitersPodState getPod toInt nn members arbiters target =
    (let membersPodNames = statefulSetPodNames (ns_Name nn) members;
         arbitersPodNames = arbitersStatefulSetPodNames (ns_Name nn) arbiters
     in pod_states_loop getPod toInt target (ns_Namespace nn) (length membersPodNames) 0
          (membersPodNames @ arbitersPodNames))"

text \<open>The loop of \<open>AllReachedGoalState\<close>: \<open>None\<close> is its early \<open>return false\<close>, otherwise
  the names of the pods not found.\<close>

fun pods_not_found :: "pod_state list \<Rightarrow> string list option" where
  "pods_not_found [] = Some []"
| "pods_not_found (s # ss) =
    (if \<not> Found s then map_option (\<lambda>ns. ns_Name (PodName s) # ns) (pods_not_found ss)
     else if \<not> ReachedGoal s then None
     else pods_not_found ss)"

definition AllReachedGoalState ::
    "(nsname \<Rightarrow> pod fallible) \<Rightarrow> (string \<Rightarrow> int) \<Rightarrow> nsname \<Rightarrow> int \<Rightarrow> int \<Rightarrow> bool fallible" where
  "AllReachedGoalState getPod toInt sts desiredMemberCount target =
    (case GetAllDesiredMembersAndArbitersPodState getPod toInt sts desiredMemberCount 0 target of
       Inl err \<Rightarrow> Inl err
     | Inr podStates \<Rightarrow> (case pods_not_found podStates of
           None \<Rightarrow> Inr False
         | Some podsNotFound \<Rightarrow>
             if int (length podsNotFound) = desiredMemberCount then Inr True
             else if length podsNotFound > 0 then Inr False
             else Inr True))"

subsection \<open>The port manager\<close>

record port_manager =
  expectedPort :: int
  currentPodStates :: "pod_state list"
  currentACProcesses :: "process list"

record service_port =
  sp_Port :: "32 word"
  sp_Name :: string

definition NewReplicaSetPortManager :: "int \<Rightarrow> pod_state list \<Rightarrow> process list \<Rightarrow> port_manager" where
  "NewReplicaSetPortManager port podStates procs =
    \<lparr>expectedPort = port, currentPodStates = podStates, currentACProcesses = procs\<rparr>"

definition getProcessByName :: "port_manager \<Rightarrow> string \<Rightarrow> process option" where
  "getProcessByName r name = find_process name (currentACProcesses r)"

abbreviation state_name :: "pod_state \<Rightarrow> string" where
  "state_name s \<equiv> ns_Name (PodName s)"

definition current_port :: "objx \<Rightarrow> port_manager \<Rightarrow> string \<Rightarrow> int" where
  "current_port ox r name = (case getProcessByName r name of
      None \<Rightarrow> expectedPort r
    | Some p \<Rightarrow> if GetPort ox p = 0 then expectedPort r else GetPort ox p)"

text \<open>\<open>order m\<close> is the order in which Go happens to iterate over the map \<open>m\<close>.\<close>

fun change_first_port :: "int \<Rightarrow> pod_state list \<Rightarrow> (string \<times> int) list \<Rightarrow> (string \<times> int) list" where
  "change_first_port port [] m = m"
| "change_first_port port (s # ss) m =
    (if map_get (state_name s) 0 m \<noteq> port then map_put (state_name s) port m
     else change_first_port port ss m)"

definition calculateExpectedPorts ::
    "((string \<times> int) list \<Rightarrow> (string \<times> int) list) \<Rightarrow> objx \<Rightarrow> port_manager
      \<Rightarrow> (string \<times> int) list \<times> bool \<times> int" where
  "calculateExpectedPorts order ox r =
    (let processPortMap = fold (\<lambda>s. map_put (state_name s) (current_port ox r (state_name s)))
           (currentPodStates r) []
     in case find (\<lambda>(_, port). port \<noteq> expectedPort r) (order processPortMap) of
          None \<Rightarrow> (processPortMap, False, expectedPort r)
        | Some (_, oldPort) \<Rightarrow>
            if list_ex (\<lambda>s. \<not> ReachedGoal s) (currentPodStates r)
            then (processPortMap, True, oldPort)
            else (change_first_port (expectedPort r) (currentPodStates r) processPortMap, True, oldPort))"

text \<open>The modification works on a copy of each process, so the port only takes
  effect through the shared \<open>Args26\<close> map: a process whose map is \<open>nil\<close> is left as it is.\<close>

definition GetPortsModification ::
    "((string \<times> int) list \<Rightarrow> (string \<times> int) list) \<Rightarrow> objx \<Rightarrow> port_manager
      \<Rightarrow> automation_config \<Rightarrow> automation_config" where
  "GetPortsModification order ox r config =
    (let portMap = fst (calculateExpectedPorts order ox r)
     in config\<lparr>ac_Processes := map (\<lambda>p.
          case p_Args26 p of None \<Rightarrow> p | Some _ \<Rightarrow> SetPort ox (map_get (p_Name p) 0 portMap) p)
            (ac_Processes config)\<rparr>)"

definition GetServicePorts ::
    "((string \<times> int) list \<Rightarrow> (string \<times> int) list) \<Rightarrow> objx \<Rightarrow> port_manager \<Rightarrow> service_port list" where
  "GetServicePorts order ox r =
    (case calculateExpectedPorts order ox r of (_, portChangeRequired, oldPort) \<Rightarrow>
       if \<not> portChangeRequired \<or> oldPort = expectedPort r
       then [\<lparr>sp_Port = word_of_int (expectedPort r), sp_Name = ''mongodb''\<rparr>]
       else [\<lparr>sp_Port = word_of_int (expectedPort r), sp_Name = ''mongodb-new''\<rparr>,
             \<lparr>sp_Port = word_of_int oldPort, sp_Name = ''mongodb''\<rparr>])"

subsection \<open>Agent flags\<close>

definition StartupParametersToAgentFlag :: "(string \<times> string) list \<Rightarrow> string \<times> string" where
  "StartupParametersToAgentFlag params =
    (''AGENT_FLAGS'', fold (\<lambda>(k, v) acc. acc @ '' -'' @ k @ '' '' @ v) params '''')"

subsection \<open>Goal state\<close>

lemma pod_states_loop_length:
  "pod_states_loop getPod toInt t ns k i names = Inr ss \<Longrightarrow> length ss = length names"
  by (induction names arbitrary: i ss)
     (auto simp: Let_def map_sum_def split: sum.splits if_splits)

definition pod_missing :: "(nsname \<Rightarrow> pod fallible) \<Rightarrow> nsname \<Rightarrow> bool" where
  "pod_missing getPod n = (case getPod n of Inl e \<Rightarrow> err_not_found e | Inr _ \<Rightarrow> False)"

definition pod_at_goal :: "(nsname \<Rightarrow> pod fallible) \<Rightarrow> (string \<Rightarrow> int) \<Rightarrow> int \<Rightarrow> nsname \<Rightarrow> bool" where
  "pod_at_goal getPod toInt t n = (case getPod n of Inl _ \<Rightarrow> False | Inr p \<Rightarrow> ReachedGoalState toInt p t)"

definition pod_unreadable :: "(nsname \<Rightarrow> pod fallible) \<Rightarrow> nsname \<Rightarrow> bool" where
  "pod_unreadable getPod n = (case getPod n of Inl e \<Rightarrow> \<not> err_not_found e | Inr _ \<Rightarrow> False)"

lemma pod_states_loop_error:
  "(\<exists>e. pod_states_loop getPod toInt t ns k i names = Inl e) \<longleftrightarrow>
   list_ex (pod_unreadable getPod) (map (\<lambda>n. \<lparr>ns_Namespace = ns, ns_Name = n\<rparr>) names)"
  by (induction names arbitrary: i) (auto simp: Let_def pod_unreadable_def split: sum.splits)

lemma pod_states_loop_Inr:
  "pod_states_loop getPod toInt t ns k i names = Inr ss \<Longrightarrow>
   map PodName ss = map (\<lambda>n. \<lparr>ns_Namespace = ns, ns_Name = n\<rparr>) names \<and>
   map Found ss = map (\<lambda>n. \<not> pod_missing getPod \<lparr>ns_Namespace = ns, ns_Name = n\<rparr>) names \<and>
   map ReachedGoal ss = map (\<lambda>n. pod_at_goal getPod toInt t \<lparr>ns_Namespace = ns, ns_Name = n\<rparr>) names"
  by (induction names arbitrary: i ss)
     (auto simp: Let_def pod_missing_def pod_at_goal_def map_sum_def split: sum.splits if_splits)

lemma pods_not_found_cases:
  "pods_not_found ss = (if list_all (\<lambda>s. Found s \<longrightarrow> ReachedGoal s) ss
     then Some (map state_name (filter (\<lambda>s. \<not> Found s) ss)) else None)"
  by (induction ss) auto

lemma pod_states_loop_Inl:
  "pod_states_loop getPod toInt t ns k i names = Inl e \<Longrightarrow> \<not> err_not_found e"
  by (induction names arbitrary: i) (auto simp: Let_def map_sum_def split: sum.splits if_splits)

lemma AllReachedGoalState_Inr:
  assumes n: "0 \<le> n"
    and ss: "GetAllDesiredMembersAndArbitersPodState getPod toInt sts n 0 t = Inr ss"
  shows "AllReachedGoalState getPod toInt sts n t =
     Inr (list_all (\<lambda>s. \<not> Found s) ss \<or> list_all (\<lambda>s. Found s \<and> ReachedGoal s) ss)"
proof -
  have len: "int (length ss) = n"
    using pod_states_loop_length n ss
    by (fastforce simp: GetAllDesiredMembersAndArbitersPodState_def statefulSetPodNames_def
        arbitersStatefulSetPodNames_def Let_def)
  let ?miss = "filter (\<lambda>s. \<not> Found s) ss"
  have all: "length ?miss = length ss \<longleftrightarrow> list_all (\<lambda>s. \<not> Found s) ss"
    by (metis filter_True filter_id_conv length_filter_less less_irrefl list_all_iff)
  have none: "length ?miss = 0 \<longleftrightarrow> list_all Found ss"
    by (auto simp: filter_empty_conv list_all_iff)
  show ?thesis
  proof (cases "list_all (\<lambda>s. Found s \<longrightarrow> ReachedGoal s) ss")
    case True
    have "int (length ?miss) = n \<longleftrightarrow> list_all (\<lambda>s. \<not> Found s) ss"
      using all len by linarith
    moreover have "list_all (\<lambda>s. Found s \<and> ReachedGoal s) ss \<longleftrightarrow> \<not> 0 < length ?miss"
      using True none by (auto simp: list_all_iff)
    ultimately show ?thesis
      using ss True by (simp add: AllReachedGoalState_def pods_not_found_cases)
  next
    case False
    then have "\<not> list_all (\<lambda>s. \<not> Found s) ss" "\<not> list_all (\<lambda>s. Found s \<and> ReachedGoal s) ss"
      by (auto simp: list_all_iff)
    then show ?thesis using ss False by (simp add: AllReachedGoalState_def pods_not_found_cases)
  qed
qed

definition member_pods :: "nsname \<Rightarrow> int \<Rightarrow> nsname list" where
  "member_pods sts n = map (\<lambda>i. sts\<lparr>ns_Name := ns_Name sts @ ''-'' @ itoa (int i)\<rparr>) [0..<nat n]"

definition demo_getPod :: "nsname \<Rightarrow> pod fallible" where
  "demo_getPod n = (if ns_Name n = ''mdb-0''
     then Inr \<lparr>pod_Name = ''mdb-0'', pod_Namespace = ''ns'', pod_Annotations = [(podAnnotationAgentVersion, ''5'')]\<rparr>
     else Inl \<lparr>err_msg = ''not found'', err_not_found = True\<rparr>)"

lemma AllReachedGoalState_cases:
  assumes "0 \<le> n"
  shows "if list_ex (pod_unreadable getPod) (member_pods sts n)
         then \<exists>e. AllReachedGoalState getPod toInt sts n t = Inl e \<and> \<not> err_not_found e
         else AllReachedGoalState getPod toInt sts n t =
                Inr (list_all (pod_missing getPod) (member_pods sts n) \<or>
                     list_all (pod_at_goal getPod toInt t) (member_pods sts n))"
proof -
  let ?names = "statefulSetPodNames (ns_Name sts) n"
  let ?loop = "pod_states_loop getPod toInt t (ns_Namespace sts) (length ?names) 0 ?names"
  have get: "GetAllDesiredMembersAndArbitersPodState getPod toInt sts n 0 t = ?loop"
    by (simp add: GetAllDesiredMembersAndArbitersPodState_def arbitersStatefulSetPodNames_def Let_def)
  have pods: "map (\<lambda>m. \<lparr>ns_Namespace = ns_Namespace sts, ns_Name = m\<rparr>) ?names = member_pods sts n"
    by (simp add: member_pods_def statefulSetPodNames_def)
  show ?thesis
  proof (cases ?loop)
    case (Inl e)
    have "\<not> err_not_found e" using Inl by (rule pod_states_loop_Inl)
    moreover have "list_ex (pod_unreadable getPod) (member_pods sts n)"
      using pod_states_loop_error Inl unfolding pods[symmetric] by fast
    ultimately show ?thesis using Inl get by (simp add: AllReachedGoalState_def)
  next
    case (Inr ss)
    have "\<not> list_ex (pod_unreadable getPod) (member_pods sts n)"
      using pod_states_loop_error[of getPod toInt t "ns_Namespace sts" "length ?names" 0 ?names] Inr
      unfolding pods[symmetric] by simp
    moreover have "list_all (\<lambda>s. \<not> Found s) ss \<longleftrightarrow> list_all (pod_missing getPod) (member_pods sts n)"
      using pod_states_loop_Inr[OF Inr] unfolding pods[symmetric]
      by (simp add: list_all_length list_eq_iff_nth_eq)
    moreover have "list_all (\<lambda>s. Found s \<and> ReachedGoal s) ss \<longleftrightarrow>
        list_all (pod_at_goal getPod toInt t) (member_pods sts n)"
      using pod_states_loop_Inr[OF Inr] unfolding pods[symmetric]
      by (auto simp: list_all_length list_eq_iff_nth_eq pod_at_goal_def pod_missing_def
          split: sum.splits)
    ultimately show ?thesis
      using AllReachedGoalState_Inr[OF assms, of getPod toInt sts t ss] get Inr by simp
  qed
qed

subsection \<open>Ports\<close>

definition port_map0 :: "objx \<Rightarrow> port_manager \<Rightarrow> (string \<times> int) list" where
  "port_map0 ox r = fold (\<lambda>s. map_put (state_name s) (current_port ox r (state_name s)))
     (currentPodStates r) []"

abbreviation pod_names :: "port_manager \<Rightarrow> string set" where
  "pod_names r \<equiv> state_name ` set (currentPodStates r)"

lemma map_of_fold_map_put:
  "map_of (fold (\<lambda>x. map_put (k x) (f (k x))) xs m) =
   (\<lambda>n. if n \<in> k ` set xs then Some (f n) else map_of m n)"
  by (induction xs arbitrary: m) (auto simp: fun_eq_iff)

lemma distinct_fold_map_put:
  "distinct (map fst m) \<Longrightarrow> distinct (map fst (fold (\<lambda>x. map_put (k x) (f x)) xs m))"
  by (induction xs arbitrary: m) auto

lemma map_of_port_map0:
  "map_of (port_map0 ox r) = (\<lambda>n. if n \<in> pod_names r then Some (current_port ox r n) else None)"
  unfolding port_map0_def
  by (subst map_of_fold_map_put[where k = state_name and f = "current_port ox r"]) (simp add: fun_eq_iff)

lemma calculateExpectedPorts_eq:
  "calculateExpectedPorts order ox r =
    (case find (\<lambda>(_, port). port \<noteq> expectedPort r) (order (port_map0 ox r)) of
       None \<Rightarrow> (port_map0 ox r, False, expectedPort r)
     | Some (_, oldPort) \<Rightarrow>
         if list_ex (\<lambda>s. \<not> ReachedGoal s) (currentPodStates r)
         then (port_map0 ox r, True, oldPort)
         else (change_first_port (expectedPort r) (currentPodStates r) (port_map0 ox r), True, oldPort))"
  unfolding calculateExpectedPorts_def port_map0_def Let_def by (rule refl)

lemma set_port_map0: "set (port_map0 ox r) = (\<lambda>n. (n, current_port ox r n)) ` pod_names r"
proof -
  have "distinct (map fst (port_map0 ox r))"
    unfolding port_map0_def by (rule distinct_fold_map_put) simp
  then have "(n, v) \<in> set (port_map0 ox r) \<longleftrightarrow> map_of (port_map0 ox r) n = Some v" for n v
    by simp
  then show ?thesis by (auto simp: map_of_port_map0 split: if_splits)
qed

text \<open>The one pod whose port may change in this reconciliation.\<close>

definition next_pod :: "objx \<Rightarrow> port_manager \<Rightarrow> string option" where
  "next_pod ox r = (if list_ex (\<lambda>s. \<not> ReachedGoal s) (currentPodStates r) then None
     else map_option state_name
       (find (\<lambda>s. current_port ox r (state_name s) \<noteq> expectedPort r) (currentPodStates r)))"

lemma change_first_port_eq:
  "(\<And>s. s \<in> set ss \<Longrightarrow> map_of m (state_name s) = Some (f (state_name s))) \<Longrightarrow>
   change_first_port port ss m =
     (case find (\<lambda>s. f (state_name s) \<noteq> port) ss of None \<Rightarrow> m | Some s \<Rightarrow> map_put (state_name s) port m)"
  by (induction ss) (auto simp: map_get_def)

lemma port_map_result:
  assumes "\<And>m. set (order m) = set m"
  shows "map_of (fst (calculateExpectedPorts order ox r)) =
    (case next_pod ox r of None \<Rightarrow> map_of (port_map0 ox r)
     | Some c \<Rightarrow> (map_of (port_map0 ox r))(c \<mapsto> expectedPort r))"
proof -
  let ?find = "find (\<lambda>(_, port). port \<noteq> expectedPort r) (order (port_map0 ox r))"
  have chg: "change_first_port (expectedPort r) (currentPodStates r) (port_map0 ox r) =
      (case find (\<lambda>s. current_port ox r (state_name s) \<noteq> expectedPort r) (currentPodStates r) of
         None \<Rightarrow> port_map0 ox r | Some s \<Rightarrow> map_put (state_name s) (expectedPort r) (port_map0 ox r))"
    by (rule change_first_port_eq) (auto simp: map_of_port_map0)
  show ?thesis
  proof (cases ?find)
    case None
    then have "find (\<lambda>s. current_port ox r (state_name s) \<noteq> expectedPort r) (currentPodStates r) = None"
      using assms by (auto simp: find_None_iff set_port_map0)
    then show ?thesis
      using None by (simp add: calculateExpectedPorts_eq next_pod_def)
  next
    case (Some x)
    then show ?thesis
      by (cases x) (auto simp: calculateExpectedPorts_eq next_pod_def chg
          split: option.splits)
  qed
qed

lemma next_pod_Some:
  "next_pod ox r = Some c \<Longrightarrow>
   c \<in> pod_names r \<and> current_port ox r c \<noteq> expectedPort r \<and> list_all ReachedGoal (currentPodStates r)"
  by (auto simp: next_pod_def find_Some_iff list_all_iff list_ex_iff split: if_splits)

lemma next_pod_None:
  "next_pod ox r = None \<Longrightarrow> list_all ReachedGoal (currentPodStates r) \<Longrightarrow> n \<in> pod_names r \<Longrightarrow>
   current_port ox r n = expectedPort r"
  by (auto simp: next_pod_def find_None_iff list_all_iff list_ex_iff split: if_splits)

lemma map_get_port_map:
  assumes "\<And>m. set (order m) = set m" "n \<in> pod_names r"
  shows "map_get n 0 (fst (calculateExpectedPorts order ox r)) =
    (if next_pod ox r = Some n then expectedPort r else current_port ox r n)"
  using assms(2) by (auto simp: map_get_def port_map_result[OF assms(1)] map_of_port_map0
      split: option.splits)

lemma port_change_required:
  assumes "\<And>m. set (order m) = set m"
  shows "case snd (calculateExpectedPorts order ox r) of (required, old) \<Rightarrow>
     (required \<longleftrightarrow> (\<exists>n\<in>pod_names r. current_port ox r n \<noteq> expectedPort r)) \<and>
     (if required then old \<noteq> expectedPort r \<and> (\<exists>n\<in>pod_names r. current_port ox r n = old)
      else old = expectedPort r)"
proof (cases "find (\<lambda>(_, port). port \<noteq> expectedPort r) (order (port_map0 ox r))")
  case None
  then have "\<forall>n\<in>pod_names r. current_port ox r n = expectedPort r"
    using assms by (auto simp: find_None_iff set_port_map0)
  then show ?thesis using None by (simp add: calculateExpectedPorts_eq)
next
  case (Some x)
  then have "x \<in> set (order (port_map0 ox r))" "snd x \<noteq> expectedPort r"
    using nth_mem by (fastforce simp: find_Some_iff)+
  then obtain n where "n \<in> pod_names r" "x = (n, current_port ox r n)"
    using assms set_port_map0 by auto
  then show ?thesis
    using Some \<open>snd x \<noteq> expectedPort r\<close>
    by (auto simp: calculateExpectedPorts_eq)
qed

subsection \<open>Successive port changes\<close>

text \<open>One reconciliation as the port manager sees it: the ports it computes go
  into the automation config, from which the next manager is created.\<close>

definition port_step :: "((string \<times> int) list \<Rightarrow> (string \<times> int) list) \<Rightarrow> objx \<Rightarrow> port_manager \<Rightarrow> port_manager" where
  "port_step order ox r = NewReplicaSetPortManager (expectedPort r) (currentPodStates r)
     (ac_Processes (GetPortsModification order ox r
        (zero_AutomationConfig\<lparr>ac_Processes := currentACProcesses r\<rparr>)))"

lemma port_step_sel [simp]:
  "expectedPort (port_step order ox r) = expectedPort r"
  "currentPodStates (port_step order ox r) = currentPodStates r"
  by (simp_all add: port_step_def NewReplicaSetPortManager_def)

definition has_args :: "process list \<Rightarrow> bool" where
  "has_args ps = list_all (\<lambda>p. p_Args26 p \<noteq> None) ps"

lemma processes_port_step:
  "has_args (currentACProcesses r) \<Longrightarrow>
   currentACProcesses (port_step order ox r) =
     map (\<lambda>p. SetPort ox (map_get (p_Name p) 0 (fst (calculateExpectedPorts order ox r))) p)
       (currentACProcesses r)"
  by (auto simp: port_step_def NewReplicaSetPortManager_def GetPortsModification_def Let_def
      has_args_def list_all_iff split: option.splits)

lemma has_args_port_step [simp]:
  "has_args (currentACProcesses r) \<Longrightarrow> has_args (currentACProcesses (port_step order ox r))"
  by (simp add: processes_port_step) (simp add: has_args_def list_all_iff SetPort_def SetArgs26Field_Args26)

lemma find_process_map:
  "(\<And>p. p_Name (f p) = p_Name p) \<Longrightarrow> find_process n (map f ps) = map_option f (find_process n ps)"
  by (induction ps) auto

lemma find_process_name: "find_process n ps = Some p \<Longrightarrow> p_Name p = n"
  by (induction ps) (auto split: if_splits)

lemma SetPort_Name [simp]: "p_Name (SetPort ox v p) = p_Name p"
  by (simp add: SetPort_def)

context objx_laws
begin

lemma current_port_step:
  assumes "\<And>m. set (order m) = set m" "has_args (currentACProcesses r)" "expectedPort r \<noteq> 0"
    "n \<in> pod_names r"
  shows "current_port ox (port_step order ox r) n =
    (if next_pod ox r = Some n then expectedPort r else current_port ox r n)"
proof -
  have ne: "current_port ox r n \<noteq> 0"
    using assms(3) by (simp add: current_port_def split: option.splits)
  let ?v = "map_get n 0 (fst (calculateExpectedPorts order ox r))"
  have v: "?v = (if next_pod ox r = Some n then expectedPort r else current_port ox r n)"
    using map_get_port_map[OF assms(1,4)] .
  have after: "find_process n (currentACProcesses (port_step order ox r)) =
      map_option (\<lambda>p. SetPort ox (map_get (p_Name p) 0 (fst (calculateExpectedPorts order ox r))) p)
        (find_process n (currentACProcesses r))"
    by (simp add: processes_port_step[OF assms(2)] find_process_map)
  show ?thesis
  proof (cases "find_process n (currentACProcesses r)")
    case None
    then have "current_port ox r n = expectedPort r"
      by (simp add: current_port_def getProcessByName_def)
    then show ?thesis using None after by (simp add: current_port_def getProcessByName_def)
  next
    case (Some p)
    then have "current_port ox (port_step order ox r) n = (if ?v = 0 then expectedPort r else ?v)"
      using find_process_name[OF Some] after by (simp add: current_port_def getProcessByName_def)
    then show ?thesis using v ne assms(3) by simp
  qed
qed

definition pending :: "port_manager \<Rightarrow> string set" where
  "pending r = {n \<in> pod_names r. current_port ox r n \<noteq> expectedPort r}"

lemma finite_pending [simp]: "finite (pending r)"
  by (simp add: pending_def)

lemma pending_step:
  assumes "\<And>m. set (order m) = set m" "has_args (currentACProcesses r)" "expectedPort r \<noteq> 0"
    "list_all ReachedGoal (currentPodStates r)"
  shows "card (pending (port_step order ox r)) = card (pending r) - 1"
proof (cases "next_pod ox r")
  case None
  then have "pending r = {}"
    using next_pod_None assms(4) by (auto simp: pending_def)
  moreover from this None have "pending (port_step order ox r) = {}"
    using current_port_step[OF assms(1-3)] by (auto simp: pending_def)
  ultimately show ?thesis by simp
next
  case (Some c)
  then have "c \<in> pending r" "pending (port_step order ox r) = pending r - {c}"
    using next_pod_Some[OF Some] current_port_step[OF assms(1-3)]
    by (auto simp: pending_def split: if_splits)
  then show ?thesis by simp
qed

lemma pending_funpow:
  assumes "\<And>m. set (order m) = set m" "has_args (currentACProcesses r)" "expectedPort r \<noteq> 0"
    "list_all ReachedGoal (currentPodStates r)"
  shows "card (pending ((port_step order ox ^^ k) r)) = card (pending r) - k \<and>
     expectedPort ((port_step order ox ^^ k) r) = expectedPort r \<and>
     currentPodStates ((port_step order ox ^^ k) r) = currentPodStates r \<and>
     has_args (currentACProcesses ((port_step order ox ^^ k) r))"
  by (induction k) (use assms pending_step[of order] in auto)

lemma ports_converge:
  assumes "\<And>m. set (order m) = set m" "has_args (currentACProcesses r)" "expectedPort r \<noteq> 0"
    "list_all ReachedGoal (currentPodStates r)" "length (currentPodStates r) \<le> k" "n \<in> pod_names r"
  shows "current_port ox ((port_step order ox ^^ k) r) n = expectedPort r"
proof -
  have "card (pending r) \<le> card (pod_names r)"
    by (rule card_mono) (auto simp: pending_def)
  also have "\<dots> \<le> k" using assms(5) card_image_le[of "set (currentPodStates r)" state_name]
    card_length[of "currentPodStates r"] by simp
  finally have "card (pending ((port_step order ox ^^ k) r)) = 0"
    using pending_funpow[OF assms(1-4), of k] by simp
  then have "pending ((port_step order ox ^^ k) r) = {}" by simp
  then show ?thesis
    using assms(6) pending_funpow[OF assms(1-4), of k] by (auto simp: pending_def)
qed

end

lemma port_step_one_change:
  assumes "objx_laws ox" "\<And>m. set (order m) = set m" "has_args (currentACProcesses r)"
    "expectedPort r \<noteq> 0" "n \<in> pod_names r"
  shows "current_port ox (port_step order ox r) n =
    (if next_pod ox r = Some n then expectedPort r else current_port ox r n)"
  using objx_laws.current_port_step[OF assms] .

subsection \<open>Properties of port changes\<close>

definition demo_process :: "string \<Rightarrow> int \<Rightarrow> process" where
  "demo_process name port = SetPort nested_objx port (zero_Process\<lparr>p_Name := name\<rparr>)"

definition demo_pod_state :: "string \<Rightarrow> bool \<Rightarrow> pod_state" where
  "demo_pod_state name goal = \<lparr>PodName = \<lparr>ns_Namespace = ''ns'', ns_Name = name\<rparr>, Found = True,
     ReachedGoal = goal, IsArbiter = False\<rparr>"

definition demo_manager :: "bool \<Rightarrow> port_manager" where
  "demo_manager goal = NewReplicaSetPortManager 30000
     [demo_pod_state ''mdb-0'' goal, demo_pod_state ''mdb-1'' goal]
     [demo_process ''mdb-0'' 27017, demo_process ''mdb-1'' 27017]"

text \<open>C12: in one reconciliation at most one pod changes its port, it changes to the
  expected port, and only when every pod has reached its goal state; all
  other pods keep the port they have.\<close>

theorem at_most_one_port_changes:
  assumes "objx_laws ox" and "\<And>m. set (order m) = set m"
    and "has_args (currentACProcesses r)" and "expectedPort r \<noteq> 0"
  shows "let changed = {n \<in> pod_names r.
              current_port ox (port_step order ox r) n \<noteq> current_port ox r n} in
     card changed \<le> 1 \<and>
     (if list_all ReachedGoal (currentPodStates r)
      then \<forall>n\<in>changed. current_port ox (port_step order ox r) n = expectedPort r
      else changed = {})"
proof -
  let ?changed = "{n \<in> pod_names r. current_port ox (port_step order ox r) n \<noteq> current_port ox r n}"
  have sub: "?changed \<subseteq> set_option (next_pod ox r)"
    using port_step_one_change[OF assms] by (auto split: if_splits)
  moreover have "finite (set_option (next_pod ox r))" "card (set_option (next_pod ox r)) \<le> 1"
    by (cases "next_pod ox r"; simp)+
  ultimately have card: "card ?changed \<le> 1"
    by (meson card_mono le_trans)
  have port: "\<forall>n\<in>?changed. current_port ox (port_step order ox r) n = expectedPort r"
    using port_step_one_change[OF assms] by (auto split: if_splits)
  have none: "?changed = {}" if "\<not> list_all ReachedGoal (currentPodStates r)"
    using sub that next_pod_Some by (cases "next_pod ox r") auto
  show ?thesis
    unfolding Let_def by (intro conjI card if_bool_eq_conj[THEN iffD2] impI port none)
qed

theorem at_most_one_port_changes_witness:
  "current_port nested_objx (port_step id nested_objx (demo_manager True)) ''mdb-0'' = 30000 \<and>
   current_port nested_objx (port_step id nested_objx (demo_manager True)) ''mdb-1'' = 27017 \<and>
   card {n \<in> pod_names (demo_manager True). current_port nested_objx (port_step id nested_objx (demo_manager True)) n
       \<noteq> current_port nested_objx (demo_manager True) n} \<le> 1"
proof -
  have "current_port nested_objx (port_step id nested_objx (demo_manager True)) ''mdb-0'' = 30000"
    "current_port nested_objx (port_step id nested_objx (demo_manager True)) ''mdb-1'' = 27017"
    "has_args (currentACProcesses (demo_manager True))" "expectedPort (demo_manager True) \<noteq> 0"
    by code_simp+
  then show ?thesis
    using at_most_one_port_changes[OF nested.objx_laws_axioms, of id "demo_manager True"]
    by (simp add: Let_def)
qed



text \<open>C34: while ports are being changed from one old port to the expected one, the
  service exposes both the port each pod has now and the port it will have
  after this reconciliation.\<close>

theorem service_exposes_all_ports:
  assumes "objx_laws ox" and "\<And>m. set (order m) = set m"
    and "has_args (currentACProcesses r)" and "expectedPort r \<noteq> 0"
    and "\<forall>n\<in>pod_names r. current_port ox r n \<in> {old, expectedPort r}" and "n \<in> pod_names r"
  shows "word_of_int (current_port ox r n) \<in> sp_Port ` set (GetServicePorts order ox r) \<and>
     word_of_int (current_port ox (port_step order ox r) n) \<in> sp_Port ` set (GetServicePorts order ox r)"
proof -
  obtain m req o' where c: "calculateExpectedPorts order ox r = (m, req, o')" by (metis prod.exhaust)
  have req: "req \<longleftrightarrow> (\<exists>n\<in>pod_names r. current_port ox r n \<noteq> expectedPort r)"
    "if req then o' \<noteq> expectedPort r \<and> (\<exists>n\<in>pod_names r. current_port ox r n = o') else o' = expectedPort r"
    using port_change_required[OF assms(2), where ox = ox and r = r] unfolding c snd_conv prod.case by blast+
  have "current_port ox r n = expectedPort r \<or> (req \<and> o' \<noteq> expectedPort r \<and> current_port ox r n = o')"
    using req assms(5,6) by (metis insert_iff singletonD)
  then have "word_of_int (current_port ox r n) \<in> sp_Port ` set (GetServicePorts order ox r)"
    using c by (auto simp: GetServicePorts_def)
  moreover have "word_of_int (expectedPort r) \<in> sp_Port ` set (GetServicePorts order ox r)"
    using c by (auto simp: GetServicePorts_def)
  ultimately show ?thesis
    using port_step_one_change[OF assms(1-4,6)] by (auto split: if_splits)
qed

theorem service_exposes_all_ports_witness:
  "27017 \<in> sp_Port ` set (GetServicePorts id nested_objx (demo_manager True)) \<and>
   30000 \<in> sp_Port ` set (GetServicePorts id nested_objx (demo_manager True))"
proof -
  have f: "has_args (currentACProcesses (demo_manager True))" "expectedPort (demo_manager True) = 30000"
    "\<forall>n\<in>pod_names (demo_manager True). current_port nested_objx (demo_manager True) n \<in> {27017, expectedPort (demo_manager True)}"
    "''mdb-0'' \<in> pod_names (demo_manager True)"
    "current_port nested_objx (demo_manager True) ''mdb-0'' = 27017"
    "current_port nested_objx (port_step id nested_objx (demo_manager True)) ''mdb-0'' = 30000"
    by code_simp+
  show ?thesis
    using service_exposes_all_ports[OF nested.objx_laws_axioms _ f(1) _ f(3,4), of id] f by simp
qed

text \<open>The port map has an entry only for the pods the StatefulSets are expected
  to have; a process of the automation config outside of them is given
  port 0 (a Go map yields zero for a missing key), and its map must not be
  \<open>nil\<close> for the assignment to be visible.\<close>

theorem process_without_pod_gets_port_zero:
  assumes "objx_laws ox" and "\<And>m. set (order m) = set m"
    and "p \<in> set (ac_Processes config)" and "p_Args26 p \<noteq> None" and "p_Name p \<notin> pod_names r"
  shows "SetPort ox 0 p \<in> set (ac_Processes (GetPortsModification order ox r config)) \<and>
         GetPort ox (SetPort ox 0 p) = 0"
proof -
  have "map_of (fst (calculateExpectedPorts order ox r)) (p_Name p) = None"
    using assms(5) next_pod_Some[of ox r]
    by (auto simp: port_map_result[OF assms(2)] map_of_port_map0 split: option.splits)
  then have "map_get (p_Name p) 0 (fst (calculateExpectedPorts order ox r)) = 0"
    by (simp add: map_get_def)
  then have "(case p_Args26 p of None \<Rightarrow> p
      | Some _ \<Rightarrow> SetPort ox (map_get (p_Name p) 0 (fst (calculateExpectedPorts order ox r))) p) = SetPort ox 0 p"
    using assms(4) by (auto split: option.splits)
  then have "SetPort ox 0 p \<in> set (ac_Processes (GetPortsModification order ox r config))"
    unfolding GetPortsModification_def Let_def using assms(3) by (simp add: image_iff) (metis (lifting))
  then show ?thesis using objx_laws.GetPort_SetPort[OF assms(1)] by blast
qed

end
