(* ===== verification/Kube_Client.thy ===== *)
theory Kube_Client
  imports Agent Mdb_Types
begin

text \<open>
  The Kubernetes client, \<open>pkg/kube/client\<close>.  The client of the controller
  runtime is third-party: it is a record of operations per kind of object,
  each a function on the state \<open>'w\<close> of the cluster, and what the operator relies
  on is the locale \<open>object_store\<close>.  \<open>mocked_client.go\<close> implements that client on a map
  per kind; its model interprets the locale.

  Objects are values here: the mock hands out a Go map by reference, the real
  client a fresh copy, and the model follows the real client.
\<close>

subsection \<open>Objects\<close>

text \<open>\<open>Data\<close> is \<open>None\<close> when the Go map is \<open>nil\<close>: writing to it panics.\<close>

record secret =
  s_Name :: string
  s_Namespace :: string
  s_OwnerReferences :: "owner_ref list"
  s_Labels :: str_map
  s_Data :: "str_map option"
  s_Type :: string

record config_map =
  cm_Name :: string
  cm_Namespace :: string
  cm_OwnerReferences :: "owner_ref list"
  cm_Labels :: str_map
  cm_Data :: "str_map option"

record service_spec =
  svc_PublishNotReadyAddresses :: bool
  svc_ExternalTrafficPolicy :: string
  svc_LoadBalancerIP :: string
  svc_Type :: string
  svc_ClusterIP :: string
  svc_Ports :: "service_port list"
  svc_Selector :: str_map
  svc_LoadBalancerSourceRanges :: "string list"
  svc_ExternalName :: string
  svc_HealthCheckNodePort :: int
  svc_SessionAffinityConfig :: "go_value option"
  svc_LoadBalancerClass :: "string option"
  svc_InternalTrafficPolicy :: "string option"
  svc_ExternalIPs :: "string list"
  svc_SessionAffinity :: string
  svc_ClusterIPs :: "string list"

record service =
  svc_Name :: string
  svc_Namespace :: string
  svc_Labels :: str_map
  svc_OwnerReferences :: "owner_ref list"
  svc_Annotations :: str_map
  svc_Spec :: service_spec

abbreviation secret_key :: "secret \<Rightarrow> nsname" where "secret_key s \<equiv> nn (s_Namespace s) (s_Name s)"
abbreviation config_map_key :: "config_map \<Rightarrow> nsname" where "config_map_key c \<equiv> nn (cm_Namespace c) (cm_Name c)"
abbreviation service_key :: "service \<Rightarrow> nsname" where "service_key s \<equiv> nn (svc_Namespace s) (svc_Name s)"
abbreviation sts_key :: "statefulset \<Rightarrow> nsname" where "sts_key s \<equiv> nn (sts_Namespace s) (sts_Name s)"
abbreviation mdb_key :: "mdb \<Rightarrow> nsname" where "mdb_key m \<equiv> nn (mdb_Namespace m) (mdb_Name m)"

subsection \<open>The client interface\<close>

text \<open>\<open>Get\<close>, \<open>Create\<close>, \<open>Update\<close> and \<open>Delete\<close> at one kind of object.  \<open>Update\<close> also
  returns the object, which the client overwrites with the server's answer.\<close>

record ('w, 'o) object_api =
  api_Get :: "nsname \<Rightarrow> ('w, 'o fallible) effect"
  api_Create :: "'o \<Rightarrow> ('w, go_error option) effect"
  api_Update :: "'o \<Rightarrow> ('w, 'o \<times> go_error option) effect"
  api_Delete :: "nsname \<Rightarrow> ('w, go_error option) effect"

record 'w kube_client =
  secrets_api :: "('w, secret) object_api"
  configMaps_api :: "('w, config_map) object_api"
  services_api :: "('w, service) object_api"
  statefulSets_api :: "('w, statefulset) object_api"
  pods_api :: "('w, pod) object_api"
  mongodbs_api :: "('w, mdb) object_api"
  status_Update :: "mdb \<Rightarrow> ('w, go_error option) effect"

definition GetSecret :: "'w kube_client \<Rightarrow> nsname \<Rightarrow> ('w, secret fallible) effect" where
  "GetSecret c = api_Get (secrets_api c)"

definition UpdateSecret :: "'w kube_client \<Rightarrow> secret \<Rightarrow> ('w, go_error option) effect" where
  "UpdateSecret c s w = (case api_Update (secrets_api c) s w of ((_, err), w') \<Rightarrow> (err, w'))"

definition CreateSecret :: "'w kube_client \<Rightarrow> secret \<Rightarrow> ('w, go_error option) effect" where
  "CreateSecret c = api_Create (secrets_api c)"

definition DeleteSecret :: "'w kube_client \<Rightarrow> nsname \<Rightarrow> ('w, go_error option) effect" where
  "DeleteSecret c = api_Delete (secrets_api c)"

definition GetConfigMap :: "'w kube_client \<Rightarrow> nsname \<Rightarrow> ('w, config_map fallible) effect" where
  "GetConfigMap c = api_Get (configMaps_api c)"

definition UpdateConfigMap :: "'w kube_client \<Rightarrow> config_map \<Rightarrow> ('w, go_error option) effect" where
  "UpdateConfigMap c cm w = (case api_Update (configMaps_api c) cm w of ((_, err), w') \<Rightarrow> (err, w'))"

definition CreateConfigMap :: "'w kube_client \<Rightarrow> config_map \<Rightarrow> ('w, go_error option) effect" where
  "CreateConfigMap c = api_Create (configMaps_api c)"

definition DeleteConfigMap :: "'w kube_client \<Rightarrow> nsname \<Rightarrow> ('w, go_error option) effect" where
  "DeleteConfigMap c = api_Delete (configMaps_api c)"

definition GetService :: "'w kube_client \<Rightarrow> nsname \<Rightarrow> ('w, service fallible) effect" where
  "GetService c = api_Get (services_api c)"

definition UpdateService :: "'w kube_client \<Rightarrow> service \<Rightarrow> ('w, go_error option) effect" where
  "UpdateService c s w = (case api_Update (services_api c) s w of ((_, err), w') \<Rightarrow> (err, w'))"

definition CreateService :: "'w kube_client \<Rightarrow> service \<Rightarrow> ('w, go_error option) effect" where
  "CreateService c = api_Create (services_api c)"

definition DeleteService :: "'w kube_client \<Rightarrow> nsname \<Rightarrow> ('w, go_error option) effect" where
  "DeleteService c = api_Delete (services_api c)"

definition GetStatefulSet :: "'w kube_client \<Rightarrow> nsname \<Rightarrow> ('w, statefulset fallible) effect" where
  "GetStatefulSet c = api_Get (statefulSets_api c)"

definition UpdateStatefulSet :: "'w kube_client \<Rightarrow> statefulset \<Rightarrow> ('w, statefulset \<times> go_error option) effect" where
  "UpdateStatefulSet c = api_Update (statefulSets_api c)"

definition CreateStatefulSet :: "'w kube_client \<Rightarrow> statefulset \<Rightarrow> ('w, go_error option) effect" where
  "CreateStatefulSet c = api_Create (statefulSets_api c)"

definition DeleteStatefulSet :: "'w kube_client \<Rightarrow> nsname \<Rightarrow> ('w, go_error option) effect" where
  "DeleteStatefulSet c = api_Delete (statefulSets_api c)"

definition GetPod :: "'w kube_client \<Rightarrow> nsname \<Rightarrow> ('w, pod fallible) effect" where
  "GetPod c = api_Get (pods_api c)"

definition client_GetAndUpdate ::
    "('w, 'o) object_api \<Rightarrow> nsname \<Rightarrow> ('o \<Rightarrow> 'o) \<Rightarrow> ('w, go_error option) effect" where
  "client_GetAndUpdate api nsName updateFunc w = (case api_Get api nsName w of
      (Inl err, w1) \<Rightarrow> (Some err, w1)
    | (Inr obj, w1) \<Rightarrow> (case api_Update api (updateFunc obj) w1 of ((_, err), w2) \<Rightarrow> (err, w2)))"

lemmas client_defs = GetSecret_def UpdateSecret_def CreateSecret_def DeleteSecret_def
  GetConfigMap_def UpdateConfigMap_def CreateConfigMap_def DeleteConfigMap_def
  GetService_def UpdateService_def CreateService_def DeleteService_def
  GetStatefulSet_def UpdateStatefulSet_def CreateStatefulSet_def DeleteStatefulSet_def GetPod_def

subsection \<open>What the operator relies on\<close>

text \<open>\<open>content w\<close> is what the cluster holds, \<open>created o\<close> what it stores for a new object
  \<open>o\<close> (the server may complete it), \<open>missing\<close> recognises the errors the operator
  takes to mean that the object does not exist.\<close>

locale object_store =
  fixes api :: "('w, 'o) object_api"
    and key :: "'o \<Rightarrow> nsname"
    and content :: "'w \<Rightarrow> nsname \<Rightarrow> 'o option"
    and created :: "'o \<Rightarrow> 'o fallible"
    and missing :: "go_error \<Rightarrow> bool"
  assumes get_ok: "api_Get api k w = (Inr v, w') \<Longrightarrow> content w k = Some v \<and> content w' = content w"
    and get_err: "api_Get api k w = (Inl e, w') \<Longrightarrow>
        content w' = content w \<and> (missing e \<longrightarrow> content w k = None)"
    and create_ok: "api_Create api v w = (None, w') \<Longrightarrow> content w (key v) = None \<and>
        (\<exists>v'. created v = Inr v' \<and> content w' = (content w)(key v \<mapsto> v'))"
    and create_err: "api_Create api v w = (Some e, w') \<Longrightarrow> content w' = content w"
    and update_ok: "api_Update api v w = ((v', None), w') \<Longrightarrow> content w (key v) \<noteq> None \<and>
        content w' = (content w)(key v \<mapsto> v)"
    and update_err: "api_Update api v w = ((v', Some e), w') \<Longrightarrow>
        content w' = content w \<and> (missing e \<longrightarrow> content w (key v) = None)"
    and delete_ok: "api_Delete api k w = (None, w') \<Longrightarrow> content w' = (content w)(k := None)"
    and delete_err: "api_Delete api k w = (Some e, w') \<Longrightarrow> content w' = content w"
begin

text \<open>Update first, create when the object is reported missing: a success leaves the
  object in the cluster and touches nothing else, a failure changes nothing.\<close>

lemma update_else_create:
  assumes "(case api_Update api v w of
      ((_, None), w1) \<Rightarrow> (None, w1)
    | ((_, Some e), w1) \<Rightarrow> if missing e then api_Create api v w1 else (Some e, w1)) = (r, w')"
    and "created v = Inr v"
  shows "content w' = (if r = None then (content w)(key v \<mapsto> v) else content w)"
proof -
  obtain v1 e w1 where u: "api_Update api v w = ((v1, e), w1)" by (metis prod.exhaust)
  show ?thesis
  proof (cases e)
    case None
    then show ?thesis using assms(1) update_ok[of v w v1 w1] u by simp
  next
    case (Some err)
    then have same: "content w1 = content w" using update_err u by blast
    show ?thesis
    proof (cases "missing err")
      case True
      then have "api_Create api v w1 = (r, w')" using assms(1) u Some by simp
      then show ?thesis using create_ok create_err same assms(2) by (cases r) fastforce+
    qed (use assms(1) u Some same in auto)
  qed
qed

lemma get_agrees: "content (snd (api_Get api k w)) = content w"
  using get_ok get_err by (cases "api_Get api k w"; cases "fst (api_Get api k w)") auto

end

subsection \<open>The mocked client\<close>

definition notFoundError :: go_error where
  "notFoundError = \<lparr>err_msg = '''', err_not_found = True\<rparr>"

definition alreadyExistsError :: go_error where
  "alreadyExistsError = \<lparr>err_msg = '''', err_not_found = False\<rparr>"

record mock_world =
  mw_secrets :: "nsname \<Rightarrow> secret option"
  mw_configMaps :: "nsname \<Rightarrow> config_map option"
  mw_services :: "nsname \<Rightarrow> service option"
  mw_statefulSets :: "nsname \<Rightarrow> statefulset option"
  mw_pods :: "nsname \<Rightarrow> pod option"
  mw_mongodbs :: "nsname \<Rightarrow> mdb option"

definition NewMockedClient :: mock_world where
  "NewMockedClient = \<lparr>mw_secrets = (\<lambda>_. None), mw_configMaps = (\<lambda>_. None), mw_services = (\<lambda>_. None),
     mw_statefulSets = (\<lambda>_. None), mw_pods = (\<lambda>_. None), mw_mongodbs = (\<lambda>_. None)\<rparr>"

text \<open>\<open>sel\<close> and \<open>upd\<close> are \<open>ensureMapFor\<close> at one type of object.\<close>

definition mock_Get :: "('w \<Rightarrow> nsname \<Rightarrow> 'o option) \<Rightarrow> nsname \<Rightarrow> ('w, 'o fallible) effect" where
  "mock_Get sel k w = ((case sel w k of Some v \<Rightarrow> Inr v | None \<Rightarrow> Inl notFoundError), w)"

definition mock_Create :: "('w \<Rightarrow> nsname \<Rightarrow> 'o option) \<Rightarrow> ((nsname \<Rightarrow> 'o option) \<Rightarrow> 'w \<Rightarrow> 'w)
    \<Rightarrow> ('o \<Rightarrow> nsname) \<Rightarrow> ('o \<Rightarrow> 'o fallible) \<Rightarrow> 'o \<Rightarrow> ('w, go_error option) effect" where
  "mock_Create sel upd key ready obj w =
    (case sel w (key obj) of
       Some _ \<Rightarrow> (Some alreadyExistsError, w)
     | None \<Rightarrow> (case ready obj of
           Inl panic \<Rightarrow> (Some panic, w)
         | Inr obj' \<Rightarrow> (None, upd ((sel w)(key obj \<mapsto> obj')) w)))"

definition mock_Update :: "('w \<Rightarrow> nsname \<Rightarrow> 'o option) \<Rightarrow> ((nsname \<Rightarrow> 'o option) \<Rightarrow> 'w \<Rightarrow> 'w)
    \<Rightarrow> ('o \<Rightarrow> nsname) \<Rightarrow> 'o \<Rightarrow> ('w, 'o \<times> go_error option) effect" where
  "mock_Update sel upd key obj w =
    (case sel w (key obj) of
       None \<Rightarrow> ((obj, Some \<lparr>err_msg = '' '' @ [CHR 0x22] @ ns_Name (key obj) @ [CHR 0x22] @ '' not found'',
                            err_not_found = True\<rparr>), w)
     | Some _ \<Rightarrow> ((obj, None), upd ((sel w)(key obj \<mapsto> obj)) w))"

definition mock_Delete :: "('w \<Rightarrow> nsname \<Rightarrow> 'o option) \<Rightarrow> ((nsname \<Rightarrow> 'o option) \<Rightarrow> 'w \<Rightarrow> 'w)
    \<Rightarrow> nsname \<Rightarrow> ('w, go_error option) effect" where
  "mock_Delete sel upd k w = (None, upd ((sel w)(k := None)) w)"

definition mock_api :: "('w \<Rightarrow> nsname \<Rightarrow> 'o option) \<Rightarrow> ((nsname \<Rightarrow> 'o option) \<Rightarrow> 'w \<Rightarrow> 'w)
    \<Rightarrow> ('o \<Rightarrow> nsname) \<Rightarrow> ('o \<Rightarrow> 'o fallible) \<Rightarrow> ('w, 'o) object_api" where
  "mock_api sel upd key ready = \<lparr>api_Get = mock_Get sel, api_Create = mock_Create sel upd key ready,
     api_Update = mock_Update sel upd key, api_Delete = mock_Delete sel upd\<rparr>"

definition makeStatefulSetReady :: "statefulset \<Rightarrow> statefulset fallible" where
  "makeStatefulSetReady sts = (case stss_Replicas (sts_Spec sts) of
      None \<Rightarrow> Inl (errorf ''panic: nil pointer dereference'')
    | Some n \<Rightarrow> Inr (sts\<lparr>sts_UpdatedReplicas := n, sts_ReadyReplicas := n\<rparr>))"

definition mockedClient :: "mock_world kube_client" where
  "mockedClient = \<lparr>
     secrets_api = mock_api mw_secrets (\<lambda>m. mw_secrets_update (\<lambda>_. m)) secret_key Inr,
     configMaps_api = mock_api mw_configMaps (\<lambda>m. mw_configMaps_update (\<lambda>_. m)) config_map_key Inr,
     services_api = mock_api mw_services (\<lambda>m. mw_services_update (\<lambda>_. m)) service_key Inr,
     statefulSets_api = mock_api mw_statefulSets (\<lambda>m. mw_statefulSets_update (\<lambda>_. m)) sts_key makeStatefulSetReady,
     pods_api = mock_api mw_pods (\<lambda>m. mw_pods_update (\<lambda>_. m)) (\<lambda>p. nn (pod_Namespace p) (pod_Name p)) Inr,
     mongodbs_api = mock_api mw_mongodbs (\<lambda>m. mw_mongodbs_update (\<lambda>_. m)) mdb_key Inr,
     status_Update = (\<lambda>m w. case mock_Update mw_mongodbs (\<lambda>m. mw_mongodbs_update (\<lambda>_. m)) mdb_key m w of
                        ((_, err), w') \<Rightarrow> (err, w'))\<rparr>"

text \<open>The manager the tests hand to the reconciler; all it does is to keep a client.  The object to start with is
  given by its creation, whose error is ignored.\<close>

record 'w mocked_manager =
  mm_Client :: "'w kube_client"

definition NewManagerWithClient :: "'w kube_client \<Rightarrow> 'w mocked_manager" where
  "NewManagerWithClient c = \<lparr>mm_Client = c\<rparr>"

definition NewManager :: "(mock_world, go_error option) effect option \<Rightarrow> mock_world mocked_manager \<times> mock_world" where
  "NewManager create = (NewManagerWithClient mockedClient,
     case create of None \<Rightarrow> NewMockedClient | Some f \<Rightarrow> snd (f NewMockedClient))"

definition MockedManager_GetClient :: "'w mocked_manager \<Rightarrow> 'w kube_client" where
  "MockedManager_GetClient m = mm_Client m"

lemmas mock_defs = mock_api_def mock_Get_def mock_Create_def mock_Update_def mock_Delete_def

text \<open>A read or an update fails in the mock only when the object is absent, so the laws
  hold whichever errors count as \<open>missing\<close>.\<close>

lemma mock_store:
  assumes "\<And>m w. sel (upd m w) = m"
  shows "object_store (mock_api sel upd key ready) key sel ready missing"
  by unfold_locales
     (auto simp: mock_defs assms alreadyExistsError_def fun_upd_def split: option.splits sum.splits)

interpretation mock_config_maps: object_store "configMaps_api mockedClient" config_map_key mw_configMaps Inr err_not_found
  unfolding mockedClient_def kube_client.simps by (rule mock_store) simp

interpretation mock_services: object_store "services_api mockedClient" service_key mw_services Inr err_not_found
  unfolding mockedClient_def kube_client.simps by (rule mock_store) simp

interpretation mock_statefulsets: object_store "statefulSets_api mockedClient" sts_key mw_statefulSets
    makeStatefulSetReady err_not_found
  unfolding mockedClient_def kube_client.simps by (rule mock_store) simp

interpretation mock_mongodbs: object_store "mongodbs_api mockedClient" mdb_key mw_mongodbs Inr err_not_found
  unfolding mockedClient_def kube_client.simps by (rule mock_store) simp

end
