(* ===== verification/AC_Json.thy ===== *)
theory AC_Json
  imports Mdb_Types
begin

text \<open>
  Reading the automation config back, \<open>FromBytes\<close> in \<open>pkg/automationconfig/automation_config.go\<close>: what
  \<open>json.Unmarshal\<close> does with the structs of that file, given the tree of the document (the text of a tree is
  the business of \<open>ac_codec\<close> in \<open>Kube_Objects\<close>).  A decoder gets the value to decode into: \<open>null\<close> leaves
  a string, number or struct alone and empties a pointer, slice or map; a member that is missing leaves its field alone,
  one that no field is named after is skipped, and names are compared without regard to case when none is equal.
  A value of the wrong kind is an error (\<open>None\<close>).

  Reading back what was written gives the written config, up to the numbers in untyped maps, which come back as
  floats, and the order of maps: \<open>read_back\<close>.
\<close>

subsection \<open>Decoders\<close>

type_synonym 'a decoder = "json \<Rightarrow> 'a \<Rightarrow> 'a option"

fun dec_string :: "string decoder" where
  "dec_string JNull cur = Some cur"
| "dec_string (JStr s) cur = Some s"
| "dec_string _ cur = None"

fun dec_bool :: "bool decoder" where
  "dec_bool JNull cur = Some cur"
| "dec_bool (JBool b) cur = Some b"
| "dec_bool _ cur = None"

fun dec_int :: "int decoder" where
  "dec_int JNull cur = Some cur"
| "dec_int (JNum r) cur = (if of_int \<lfloor>r\<rfloor> = r then Some \<lfloor>r\<rfloor> else None)"
| "dec_int _ cur = None"

fun dec_float :: "rat decoder" where
  "dec_float JNull cur = Some cur"
| "dec_float (JNum r) cur = Some r"
| "dec_float _ cur = None"

fun dec_pointer :: "'a \<Rightarrow> 'a decoder \<Rightarrow> 'a option decoder" where
  "dec_pointer z dec JNull cur = Some None"
| "dec_pointer z dec j cur = map_option Some (dec j (case cur of None \<Rightarrow> z | Some a \<Rightarrow> a))"

text \<open>An element of a slice is decoded into the element that is there already.\<close>

fun dec_elements :: "'a \<Rightarrow> 'a decoder \<Rightarrow> json list \<Rightarrow> 'a list \<Rightarrow> 'a list option" where
  "dec_elements z dec [] cur = Some []"
| "dec_elements z dec (j # js) cur = (case dec j (case cur of [] \<Rightarrow> z | c # _ \<Rightarrow> c) of
      None \<Rightarrow> None
    | Some a \<Rightarrow> map_option ((#) a) (dec_elements z dec js (tl cur)))"

fun dec_slice :: "'a \<Rightarrow> 'a decoder \<Rightarrow> 'a list decoder" where
  "dec_slice z dec JNull cur = Some []"
| "dec_slice z dec (JArr js) cur = dec_elements z dec js cur"
| "dec_slice z dec _ cur = None"

text \<open>A slice that is compared with \<open>nil\<close>.\<close>

fun dec_slice_nil :: "'a \<Rightarrow> 'a decoder \<Rightarrow> 'a list option decoder" where
  "dec_slice_nil z dec JNull cur = Some None"
| "dec_slice_nil z dec j cur = map_option Some (dec_slice z dec j (case cur of None \<Rightarrow> [] | Some xs \<Rightarrow> xs))"

text \<open>The entries of a map are added to those that are there.\<close>

fun dec_entries :: "'a \<Rightarrow> 'a decoder \<Rightarrow> (string \<times> json) list \<Rightarrow> (string \<times> 'a) list option" where
  "dec_entries z dec [] = Some []"
| "dec_entries z dec ((k, j) # kvs) = (case dec j z of
      None \<Rightarrow> None
    | Some a \<Rightarrow> map_option ((#) (k, a)) (dec_entries z dec kvs))"

fun dec_string_map :: "(string \<times> string) list decoder" where
  "dec_string_map JNull cur = Some []"
| "dec_string_map (JObj kvs) cur = map_option (\<lambda>m. m @ cur) (dec_entries '''' dec_string kvs)"
| "dec_string_map _ cur = None"

text \<open>Into an \<open>interface{}\<close> every number is read as a \<open>float64\<close>.\<close>

fun value_of_json :: "json \<Rightarrow> go_value" where
  "value_of_json JNull = VNil"
| "value_of_json (JBool b) = VBool b"
| "value_of_json (JNum r) = VFloat r"
| "value_of_json (JStr s) = VStr s"
| "value_of_json (JArr js) = VList (map value_of_json js)"
| "value_of_json (JObj kvs) = VMap (map (\<lambda>(k, j). (k, value_of_json j)) kvs)"

fun dec_map :: "go_map decoder" where
  "dec_map JNull cur = Some []"
| "dec_map (JObj kvs) cur = Some (map (\<lambda>(k, j). (k, value_of_json j)) kvs @ cur)"
| "dec_map _ cur = None"

fun dec_map_nil :: "go_map option decoder" where
  "dec_map_nil JNull cur = Some None"
| "dec_map_nil j cur = map_option Some (dec_map j (case cur of None \<Rightarrow> [] | Some m \<Rightarrow> m))"

subsection \<open>Structs\<close>

type_synonym 'r fields = "(string \<times> 'r decoder) list"

definition json_field :: "string \<Rightarrow> ('r \<Rightarrow> 'a) \<Rightarrow> (('a \<Rightarrow> 'a) \<Rightarrow> 'r \<Rightarrow> 'r) \<Rightarrow> 'a decoder \<Rightarrow> string \<times> 'r decoder" where
  "json_field name sel upd dec = (name, \<lambda>j r. map_option (\<lambda>a. upd (\<lambda>_. a) r) (dec j (sel r)))"

fun same_fold :: "string \<Rightarrow> 'r fields \<Rightarrow> 'r decoder option" where
  "same_fold k [] = None"
| "same_fold k ((n, dec) # fs) = (if map lower_char n = map lower_char k then Some dec else same_fold k fs)"

definition field_named :: "'r fields \<Rightarrow> string \<Rightarrow> 'r decoder option" where
  "field_named fs k = (case map_of fs k of Some dec \<Rightarrow> Some dec | None \<Rightarrow> same_fold k fs)"

fun dec_members :: "'r fields \<Rightarrow> (string \<times> json) list \<Rightarrow> 'r \<Rightarrow> 'r option" where
  "dec_members fs [] r = Some r"
| "dec_members fs ((k, j) # kvs) r = (case field_named fs k of
      None \<Rightarrow> dec_members fs kvs r
    | Some dec \<Rightarrow> (case dec j r of None \<Rightarrow> None | Some r' \<Rightarrow> dec_members fs kvs r'))"

fun dec_struct :: "'r fields \<Rightarrow> 'r decoder" where
  "dec_struct fs JNull r = Some r"
| "dec_struct fs (JObj kvs) r = dec_members fs kvs r"
| "dec_struct fs _ r = None"

definition log_rotate_fields :: "ac_log_rotate fields" where
  "log_rotate_fields =
    [json_field ''timeThresholdHrs'' (TimeThresholdHrs \<circ> aclr_LogRotate) (\<lambda>f. aclr_LogRotate_update (TimeThresholdHrs_update f)) dec_int,
     json_field ''numUncompressed'' (NumUncompressed \<circ> aclr_LogRotate) (\<lambda>f. aclr_LogRotate_update (NumUncompressed_update f)) dec_int,
     json_field ''numTotal'' (NumTotal \<circ> aclr_LogRotate) (\<lambda>f. aclr_LogRotate_update (NumTotal_update f)) dec_int,
     json_field ''includeAuditLogsWithMongoDBLogs'' (IncludeAuditLogsWithMongoDBLogs \<circ> aclr_LogRotate)
       (\<lambda>f. aclr_LogRotate_update (IncludeAuditLogsWithMongoDBLogs_update f)) dec_bool,
     json_field ''sizeThresholdMB'' aclr_SizeThresholdMB aclr_SizeThresholdMB_update dec_float,
     json_field ''percentOfDiskspace'' aclr_PercentOfDiskspace aclr_PercentOfDiskspace_update dec_float]"

definition process_fields :: "process fields" where
  "process_fields =
    [json_field ''name'' p_Name p_Name_update dec_string, json_field ''disabled'' p_Disabled p_Disabled_update dec_bool,
     json_field ''hostname'' p_HostName p_HostName_update dec_string, json_field ''args2_6'' p_Args26 p_Args26_update dec_map_nil,
     json_field ''featureCompatibilityVersion'' p_FeatureCompatibilityVersion p_FeatureCompatibilityVersion_update dec_string,
     json_field ''processType'' p_ProcessType p_ProcessType_update dec_string, json_field ''version'' p_Version p_Version_update dec_string,
     json_field ''authSchemaVersion'' p_AuthSchemaVersion p_AuthSchemaVersion_update dec_int,
     json_field ''logRotate'' p_LogRotate p_LogRotate_update (dec_pointer zero_AcLogRotate (dec_struct log_rotate_fields)),
     json_field ''auditLogRotate'' p_AuditLogRotate p_AuditLogRotate_update (dec_pointer zero_AcLogRotate (dec_struct log_rotate_fields))]"

definition zero_ReplicaSetMember :: replica_set_member where
  "zero_ReplicaSetMember = \<lparr>rsm_Id = 0, rsm_Host = '''', rsm_ArbiterOnly = False, rsm_Horizons = [], rsm_Votes = None,
     rsm_Priority = None, rsm_Tags = []\<rparr>"

definition member_fields :: "replica_set_member fields" where
  "member_fields =
    [json_field ''_id'' rsm_Id rsm_Id_update dec_int, json_field ''host'' rsm_Host rsm_Host_update dec_string,
     json_field ''arbiterOnly'' rsm_ArbiterOnly rsm_ArbiterOnly_update dec_bool,
     json_field ''horizons'' rsm_Horizons rsm_Horizons_update dec_string_map,
     json_field ''votes'' rsm_Votes rsm_Votes_update (dec_pointer 0 dec_int),
     json_field ''priority'' rsm_Priority rsm_Priority_update (dec_pointer 0 dec_float),
     json_field ''tags'' rsm_Tags rsm_Tags_update dec_string_map]"

definition zero_ReplicaSet :: replica_set where
  "zero_ReplicaSet = \<lparr>rs_Id = '''', rs_Members = [], rs_ProtocolVersion = '''', rs_NumberArbiters = 0, rs_Force = None, rs_Settings = []\<rparr>"

definition force_fields :: "int fields" where
  "force_fields = [json_field ''currentVersion'' id id dec_int]"

definition replica_set_fields :: "replica_set fields" where
  "replica_set_fields =
    [json_field ''_id'' rs_Id rs_Id_update dec_string,
     json_field ''members'' rs_Members rs_Members_update (dec_slice zero_ReplicaSetMember (dec_struct member_fields)),
     json_field ''protocolVersion'' rs_ProtocolVersion rs_ProtocolVersion_update dec_string,
     json_field ''numberArbiters'' rs_NumberArbiters rs_NumberArbiters_update dec_int,
     json_field ''force'' rs_Force rs_Force_update (dec_pointer 0 (dec_struct force_fields)),
     json_field ''settings'' rs_Settings rs_Settings_update dec_map]"

definition zero_ScramCreds :: scram_creds where
  "zero_ScramCreds = \<lparr>IterationCount = 0, Salt = '''', ServerKey = '''', StoredKey = ''''\<rparr>"

definition scram_creds_fields :: "scram_creds fields" where
  "scram_creds_fields =
    [json_field ''iterationCount'' IterationCount IterationCount_update dec_int, json_field ''salt'' Salt Salt_update dec_string,
     json_field ''serverKey'' ServerKey ServerKey_update dec_string, json_field ''storedKey'' StoredKey StoredKey_update dec_string]"

definition zero_Role :: ac_role where "zero_Role = \<lparr>acr_Role = '''', acr_Database = ''''\<rparr>"

definition role_fields :: "ac_role fields" where
  "role_fields = [json_field ''role'' acr_Role acr_Role_update dec_string, json_field ''db'' acr_Database acr_Database_update dec_string]"

definition zero_MongoDBUser :: ac_user where
  "zero_MongoDBUser = \<lparr>acu_Mechanisms = [], acu_Roles = [], acu_Username = '''', acu_Database = '''',
     acu_AuthenticationRestrictions = [], acu_ScramSha256Creds = None, acu_ScramSha1Creds = None\<rparr>"

definition user_fields :: "ac_user fields" where
  "user_fields =
    [json_field ''mechanisms'' acu_Mechanisms acu_Mechanisms_update (dec_slice '''' dec_string),
     json_field ''roles'' acu_Roles acu_Roles_update (dec_slice zero_Role (dec_struct role_fields)),
     json_field ''user'' acu_Username acu_Username_update dec_string, json_field ''db'' acu_Database acu_Database_update dec_string,
     json_field ''authenticationRestrictions'' acu_AuthenticationRestrictions acu_AuthenticationRestrictions_update (dec_slice '''' dec_string),
     json_field ''scramSha256Creds'' acu_ScramSha256Creds acu_ScramSha256Creds_update (dec_pointer zero_ScramCreds (dec_struct scram_creds_fields)),
     json_field ''scramSha1Creds'' acu_ScramSha1Creds acu_ScramSha1Creds_update (dec_pointer zero_ScramCreds (dec_struct scram_creds_fields))]"

definition zero_DeletedUser :: deleted_user where "zero_DeletedUser = \<lparr>du_User = '''', du_Dbs = []\<rparr>"

definition deleted_user_fields :: "deleted_user fields" where
  "deleted_user_fields = [json_field ''user'' du_User du_User_update dec_string, json_field ''dbs'' du_Dbs du_Dbs_update (dec_slice '''' dec_string)]"

definition auth_fields :: "ac_auth fields" where
  "auth_fields =
    [json_field ''usersWanted'' au_Users au_Users_update (dec_slice zero_MongoDBUser (dec_struct user_fields)),
     json_field ''disabled'' au_Disabled au_Disabled_update dec_bool,
     json_field ''authoritativeSet'' au_AuthoritativeSet au_AuthoritativeSet_update dec_bool,
     json_field ''autoAuthMechanisms'' au_AutoAuthMechanisms au_AutoAuthMechanisms_update (dec_slice '''' dec_string),
     json_field ''autoAuthMechanism'' au_AutoAuthMechanism au_AutoAuthMechanism_update dec_string,
     json_field ''deploymentAuthMechanisms'' au_DeploymentAuthMechanisms au_DeploymentAuthMechanisms_update (dec_slice '''' dec_string),
     json_field ''autoUser'' au_AutoUser au_AutoUser_update dec_string, json_field ''key'' au_Key au_Key_update dec_string,
     json_field ''keyfile'' au_KeyFile au_KeyFile_update dec_string,
     json_field ''keyfileWindows'' au_KeyFileWindows au_KeyFileWindows_update dec_string,
     json_field ''autoPwd'' au_AutoPwd au_AutoPwd_update dec_string,
     json_field ''usersDeleted'' au_UsersDeleted au_UsersDeleted_update (dec_slice zero_DeletedUser (dec_struct deleted_user_fields))]"

definition zero_Prometheus :: ac_prometheus where
  "zero_Prometheus = \<lparr>prom_Enabled = False, prom_Username = '''', prom_Password = '''', prom_PasswordHash = '''',
     prom_PasswordSalt = '''', prom_Scheme = '''', prom_TLSPemPath = '''', prom_TLSPemPassword = '''', prom_Mode = '''',
     prom_ListenAddress = '''', prom_MetricsPath = ''''\<rparr>"

definition prometheus_fields :: "ac_prometheus fields" where
  "prometheus_fields =
    [json_field ''enabled'' prom_Enabled prom_Enabled_update dec_bool, json_field ''username'' prom_Username prom_Username_update dec_string,
     json_field ''password'' prom_Password prom_Password_update dec_string,
     json_field ''passwordHash'' prom_PasswordHash prom_PasswordHash_update dec_string,
     json_field ''passwordSalt'' prom_PasswordSalt prom_PasswordSalt_update dec_string,
     json_field ''scheme'' prom_Scheme prom_Scheme_update dec_string, json_field ''tlsPemPath'' prom_TLSPemPath prom_TLSPemPath_update dec_string,
     json_field ''tlsPemPassword'' prom_TLSPemPassword prom_TLSPemPassword_update dec_string, json_field ''mode'' prom_Mode prom_Mode_update dec_string,
     json_field ''listenAddress'' prom_ListenAddress prom_ListenAddress_update dec_string,
     json_field ''metricsPath'' prom_MetricsPath prom_MetricsPath_update dec_string]"

definition zero_TLS :: ac_tls where
  "zero_TLS = \<lparr>tls_CAFilePath = '''', tls_AutoPEMKeyFilePath = '''', tls_ClientCertificateMode = ''''\<rparr>"

definition tls_fields :: "ac_tls fields" where
  "tls_fields =
    [json_field ''CAFilePath'' tls_CAFilePath tls_CAFilePath_update dec_string,
     json_field ''autoPEMKeyFilePath'' tls_AutoPEMKeyFilePath tls_AutoPEMKeyFilePath_update dec_string,
     json_field ''clientCertificateMode'' tls_ClientCertificateMode tls_ClientCertificateMode_update dec_string]"

definition zero_BuildConfig :: build_config where
  "zero_BuildConfig = \<lparr>bc_Platform = '''', bc_Url = '''', bc_GitVersion = '''', bc_Architecture = '''', bc_Flavor = '''',
     bc_MinOsVersion = '''', bc_MaxOsVersion = '''', bc_Modules = None\<rparr>"

definition build_config_fields :: "build_config fields" where
  "build_config_fields =
    [json_field ''platform'' bc_Platform bc_Platform_update dec_string, json_field ''url'' bc_Url bc_Url_update dec_string,
     json_field ''gitVersion'' bc_GitVersion bc_GitVersion_update dec_string,
     json_field ''architecture'' bc_Architecture bc_Architecture_update dec_string, json_field ''flavor'' bc_Flavor bc_Flavor_update dec_string,
     json_field ''minOsVersion'' bc_MinOsVersion bc_MinOsVersion_update dec_string,
     json_field ''maxOsVersion'' bc_MaxOsVersion bc_MaxOsVersion_update dec_string,
     json_field ''modules'' bc_Modules bc_Modules_update (dec_slice_nil '''' dec_string)]"

definition zero_MongoDbVersionConfig :: version_config where "zero_MongoDbVersionConfig = \<lparr>vc_Name = '''', vc_Builds = []\<rparr>"

definition version_config_fields :: "version_config fields" where
  "version_config_fields = [json_field ''name'' vc_Name vc_Name_update dec_string,
     json_field ''builds'' vc_Builds vc_Builds_update (dec_slice zero_BuildConfig (dec_struct build_config_fields))]"

definition zero_MonitoringVersion :: monitoring_version where
  "zero_MonitoringVersion = \<lparr>mv_Hostname = '''', mv_Name = '''', mv_BaseUrl = '''', mv_AdditionalParams = []\<rparr>"

definition monitoring_version_fields :: "monitoring_version fields" where
  "monitoring_version_fields =
    [json_field ''hostname'' mv_Hostname mv_Hostname_update dec_string, json_field ''name'' mv_Name mv_Name_update dec_string,
     json_field ''baseUrl'' mv_BaseUrl mv_BaseUrl_update dec_string,
     json_field ''additionalParams'' mv_AdditionalParams mv_AdditionalParams_update dec_string_map]"

definition backup_version_fields :: "string fields" where
  "backup_version_fields = [json_field ''baseUrl'' id id dec_string]"

definition options_fields :: "string fields" where
  "options_fields = [json_field ''downloadBase'' id id dec_string]"

definition zero_Resource :: ac_resource where
  "zero_Resource = \<lparr>res_DB = None, res_Collection = None, res_AnyResource = False, res_Cluster = False\<rparr>"

definition resource_fields :: "ac_resource fields" where
  "resource_fields =
    [json_field ''db'' res_DB res_DB_update (dec_pointer '''' dec_string),
     json_field ''collection'' res_Collection res_Collection_update (dec_pointer '''' dec_string),
     json_field ''anyResource'' res_AnyResource res_AnyResource_update dec_bool, json_field ''cluster'' res_Cluster res_Cluster_update dec_bool]"

definition zero_Privilege :: ac_privilege where "zero_Privilege = \<lparr>priv_Resource = zero_Resource, priv_Actions = []\<rparr>"

definition privilege_fields :: "ac_privilege fields" where
  "privilege_fields = [json_field ''resource'' priv_Resource priv_Resource_update (dec_struct resource_fields),
     json_field ''actions'' priv_Actions priv_Actions_update (dec_slice '''' dec_string)]"

definition zero_AuthenticationRestriction :: ac_auth_restriction where
  "zero_AuthenticationRestriction = \<lparr>ar_ClientSource = [], ar_ServerAddress = []\<rparr>"

definition restriction_fields :: "ac_auth_restriction fields" where
  "restriction_fields = [json_field ''clientSource'' ar_ClientSource ar_ClientSource_update (dec_slice '''' dec_string),
     json_field ''serverAddress'' ar_ServerAddress ar_ServerAddress_update (dec_slice '''' dec_string)]"

definition zero_CustomRole :: ac_custom_role where
  "zero_CustomRole = \<lparr>cr_Role = '''', cr_DB = '''', cr_Privileges = [], cr_Roles = [], cr_AuthenticationRestrictions = []\<rparr>"

definition custom_role_fields :: "ac_custom_role fields" where
  "custom_role_fields =
    [json_field ''role'' cr_Role cr_Role_update dec_string, json_field ''db'' cr_DB cr_DB_update dec_string,
     json_field ''privileges'' cr_Privileges cr_Privileges_update (dec_slice zero_Privilege (dec_struct privilege_fields)),
     json_field ''roles'' cr_Roles cr_Roles_update (dec_slice zero_Role (dec_struct role_fields)),
     json_field ''authenticationRestrictions'' cr_AuthenticationRestrictions cr_AuthenticationRestrictions_update
       (dec_slice zero_AuthenticationRestriction (dec_struct restriction_fields))]"

definition config_fields :: "automation_config fields" where
  "config_fields =
    [json_field ''version'' ac_Version ac_Version_update dec_int,
     json_field ''processes'' ac_Processes ac_Processes_update (dec_slice zero_Process (dec_struct process_fields)),
     json_field ''replicaSets'' ac_ReplicaSets ac_ReplicaSets_update (dec_slice zero_ReplicaSet (dec_struct replica_set_fields)),
     json_field ''auth'' ac_Auth ac_Auth_update (dec_struct auth_fields),
     json_field ''prometheus'' ac_Prometheus ac_Prometheus_update (dec_pointer zero_Prometheus (dec_struct prometheus_fields)),
     json_field ''tls'' ac_TLSConfig ac_TLSConfig_update (dec_pointer zero_TLS (dec_struct tls_fields)),
     json_field ''ssl'' ac_SSLConfig ac_SSLConfig_update (dec_pointer zero_TLS (dec_struct tls_fields)),
     json_field ''mongoDbVersions'' ac_Versions ac_Versions_update (dec_slice zero_MongoDbVersionConfig (dec_struct version_config_fields)),
     json_field ''backupVersions'' ac_BackupVersions ac_BackupVersions_update (dec_slice '''' (dec_struct backup_version_fields)),
     json_field ''monitoringVersions'' ac_MonitoringVersions ac_MonitoringVersions_update
       (dec_slice zero_MonitoringVersion (dec_struct monitoring_version_fields)),
     json_field ''options'' ac_Options ac_Options_update (dec_struct options_fields),
     json_field ''roles'' ac_Roles ac_Roles_update (dec_slice zero_CustomRole (dec_struct custom_role_fields))]"

definition unmarshal_AutomationConfig :: "json \<Rightarrow> automation_config option" where
  "unmarshal_AutomationConfig j = dec_struct config_fields j zero_AutomationConfig"

subsection \<open>What is read back\<close>

fun value_read_back :: "go_value \<Rightarrow> go_value" where
  "value_read_back (VInt i) = VFloat (of_int i)"
| "value_read_back (VList vs) = VList (map value_read_back vs)"
| "value_read_back (VMap m) = VMap (sort_key fst (map (\<lambda>(k, v). (k, value_read_back v)) m))"
| "value_read_back v = v"

definition map_read_back :: "go_map \<Rightarrow> go_map" where
  "map_read_back m = sort_key fst (map (\<lambda>(k, v). (k, value_read_back v)) m)"

definition Process_read_back :: "process \<Rightarrow> process" where
  "Process_read_back p = p\<lparr>p_Args26 := map_option map_read_back (p_Args26 p)\<rparr>"

definition ReplicaSetMember_read_back :: "replica_set_member \<Rightarrow> replica_set_member" where
  "ReplicaSetMember_read_back m = m\<lparr>rsm_Horizons := sort_key fst (rsm_Horizons m), rsm_Tags := sort_key fst (rsm_Tags m)\<rparr>"

definition ReplicaSet_read_back :: "replica_set \<Rightarrow> replica_set" where
  "ReplicaSet_read_back r = r\<lparr>rs_Members := map ReplicaSetMember_read_back (rs_Members r), rs_Settings := map_read_back (rs_Settings r)\<rparr>"

definition MonitoringVersion_read_back :: "monitoring_version \<Rightarrow> monitoring_version" where
  "MonitoringVersion_read_back v = v\<lparr>mv_AdditionalParams := sort_key fst (mv_AdditionalParams v)\<rparr>"

definition read_back :: "automation_config \<Rightarrow> automation_config" where
  "read_back ac = ac\<lparr>ac_Processes := map Process_read_back (ac_Processes ac),
     ac_ReplicaSets := map ReplicaSet_read_back (ac_ReplicaSets ac),
     ac_MonitoringVersions := map MonitoringVersion_read_back (ac_MonitoringVersions ac)\<rparr>"

lemma map_insort_values:
  "map (\<lambda>(k, v). (k, f v)) (insort_key fst x m) = insort_key fst (case x of (k, v) \<Rightarrow> (k, f v)) (map (\<lambda>(k, v). (k, f v)) m)"
  by (induction m) (auto split: prod.splits)

lemma map_sort_values:
  "map (\<lambda>(k, v). (k, f v)) (sort_key fst m) = sort_key fst (map (\<lambda>(k, v). (k, f v)) m)" for m :: "(string \<times> 'a) list"
  by (induction m) (simp_all add: map_insort_values)

lemma sort_sorted [simp]: "sort_key f (sort_key f xs) = sort_key f xs"
  by (rule sort_key_id_if_sorted) (rule sorted_sort_key)

lemma sort_values_sorted [simp]:
  "sort_key fst (map (\<lambda>(k, v). (k, f v)) (sort_key fst m)) = sort_key fst (map (\<lambda>(k, v). (k, f v)) m)" for m :: "(string \<times> 'a) list"
  by (simp add: map_sort_values)

lemma values_twice: "map (\<lambda>(k, v). (k, f v)) (map (\<lambda>(k, v). (k, g v)) m) = map (\<lambda>(k, v). (k, f (g v))) m"
  by auto

lemma value_of_json_of_value: "value_of_json (json_of_value v) = value_read_back v"
proof (induction v)
  case (VMap m)
  then have eq: "map (\<lambda>(k, v). (k, value_of_json (json_of_value v))) m = map (\<lambda>(k, v). (k, value_read_back v)) m"
    by (auto simp: snds.simps)
  show ?case by (simp add: map_sort_values values_twice eq del: map_map)
qed simp_all

lemma json_of_read_back: "json_of_value (value_read_back v) = json_of_value v"
proof (induction v)
  case (VMap m)
  then have eq: "map (\<lambda>(k, v). (k, json_of_value (value_read_back v))) m = map (\<lambda>(k, v). (k, json_of_value v)) m"
    by (auto simp: snds.simps)
  show ?case by (simp add: values_twice eq del: map_map)
qed simp_all

lemma dec_map_written: "jmap m = JObj kvs \<Longrightarrow> map (\<lambda>(k, j). (k, value_of_json j)) kvs = map_read_back m"
  using value_of_json_of_value[of "VMap m"] by (simp add: jmap_def map_read_back_def)

lemma jmap_cases: obtains kvs where "jmap m = JObj kvs" "map (\<lambda>(k, j). (k, value_of_json j)) kvs = map_read_back m"
  using dec_map_written[of m] by (simp add: jmap_def)

lemma dec_map_jmap [simp]: "dec_map (jmap m) [] = Some (map_read_back m)" "dec_map_nil (jmap m) None = Some (Some (map_read_back m))"
  by (rule jmap_cases[of m]; simp)+

lemma jmap_read_back [simp]: "jmap (map_read_back m) = jmap m"
  using json_of_read_back[of "VMap m"] by (simp add: jmap_def map_read_back_def)

lemma sort_key_Nil [simp]: "sort_key f xs = [] \<longleftrightarrow> xs = []"
  by (metis length_0_conv length_sort)

lemma map_read_back_Nil [simp]: "map_read_back m = [] \<longleftrightarrow> m = []" "map_read_back [] = []"
  by (simp_all add: map_read_back_def)

lemma dec_entries_strings: "dec_entries '''' dec_string (map (\<lambda>(k, v). (k, JStr v)) m) = Some m"
  by (induction m) auto

lemma dec_string_map_jstrmap [simp]: "dec_string_map (jstrmap m) [] = Some (sort_key fst m)"
  by (simp add: jstrmap_def map_sort_values[symmetric] dec_entries_strings)

lemma jstrmap_sorted [simp]: "jstrmap (sort_key fst m) = jstrmap m"
  by (simp add: jstrmap_def)

lemma dec_int_jint [simp]: "dec_int (jint i) cur = Some i"
  by (simp add: jint_def)

lemma dec_pointer_jint [simp]: "dec_pointer 0 dec_int (jint i) None = Some (Some i)"
  by (simp add: jint_def)

lemma dec_pointer_written:
  "dec (enc x) z = Some x \<Longrightarrow> enc x \<noteq> JNull \<Longrightarrow> dec_pointer z dec (enc x) None = Some (Some x)"
  by (cases "enc x") auto

lemma dec_elements_written:
  "(\<And>x. x \<in> set xs \<Longrightarrow> dec (enc x) z = Some (f x)) \<Longrightarrow> dec_elements z dec (map enc xs) [] = Some (map f xs)"
  by (induction xs) auto

lemma dec_slice_jstrs [simp]: "dec_slice '''' dec_string (jstrs ss) [] = Some ss"
  using dec_elements_written[of ss dec_string JStr "''''" "\<lambda>s. s"] by (simp add: jstrs_def)

lemma dec_members_append: "dec_members fs (xs @ ys) r = Option.bind (dec_members fs xs r) (dec_members fs ys)"
  by (induction fs xs r rule: dec_members.induct) (auto split: option.splits)

lemma dec_members_omitempty:
  "dec_members fs (omitempty e k j) r = (if e then Some r else dec_members fs [(k, j)] r)"
  by (simp add: omitempty_def)

lemma dec_members_omitnil:
  "dec_members fs (omitnil k enc p) r = (case p of None \<Rightarrow> Some r | Some a \<Rightarrow> dec_members fs [(k, enc a)] r)"
  by (simp add: omitnil_def split: option.splits)

lemmas struct_written = field_named_def json_field_def comp_def dec_members_append dec_members_omitempty dec_members_omitnil

lemma AcLogRotate_read: "dec_struct log_rotate_fields (json_AcLogRotate l) zero_AcLogRotate = Some l"
proof -
  obtain hours n total audit size percent where l: "l = \<lparr>aclr_LogRotate = \<lparr>TimeThresholdHrs = hours, NumUncompressed = n,
      NumTotal = total, IncludeAuditLogsWithMongoDBLogs = audit\<rparr>, aclr_SizeThresholdMB = size, aclr_PercentOfDiskspace = percent\<rparr>"
    by (metis ac_log_rotate.surjective log_rotate.surjective old.unit.exhaust)
  show ?thesis
    by (simp add: l json_AcLogRotate_def json_LogRotate_def zero_AcLogRotate_def zero_LogRotate_def log_rotate_fields_def struct_written)
qed

lemma AcLogRotate_pointer:
  "dec_pointer zero_AcLogRotate (dec_struct log_rotate_fields) (json_AcLogRotate l) None = Some (Some l)"
  by (rule dec_pointer_written) (simp_all add: AcLogRotate_read, simp add: json_AcLogRotate_def)

lemma Process_read: "dec_struct process_fields (json_Process p) zero_Process = Some (Process_read_back p)"
  by (cases p) (simp add: json_Process_def zero_Process_def process_fields_def struct_written Process_read_back_def AcLogRotate_pointer
      del: dec_pointer.simps split: option.splits)

lemma ReplicaSetMember_read: "dec_struct member_fields (json_ReplicaSetMember m) zero_ReplicaSetMember = Some (ReplicaSetMember_read_back m)"
  by (cases m) (simp add: json_ReplicaSetMember_def zero_ReplicaSetMember_def member_fields_def struct_written ReplicaSetMember_read_back_def
      split: option.splits)

lemma dec_slice_written:
  "(\<And>x. dec (enc x) z = Some (f x)) \<Longrightarrow> dec_slice z dec (JArr (map enc xs)) [] = Some (map f xs)"
  by (simp add: dec_elements_written)

lemma slice_written: "(\<And>x. dec (enc x) z = Some x) \<Longrightarrow> dec_slice z dec (JArr (map enc xs)) [] = Some xs"
  using dec_slice_written[of dec enc z "\<lambda>x. x" xs] by simp

lemma force_read: "dec_pointer 0 (dec_struct force_fields) (JObj [(''currentVersion'', jint v)]) None = Some (Some v)"
  by (simp add: force_fields_def struct_written)

lemma ReplicaSet_read: "dec_struct replica_set_fields (json_ReplicaSet r) zero_ReplicaSet = Some (ReplicaSet_read_back r)"
  by (cases r) (simp add: json_ReplicaSet_def zero_ReplicaSet_def replica_set_fields_def struct_written ReplicaSet_read_back_def
      force_read dec_slice_written[of "dec_struct member_fields" json_ReplicaSetMember, OF ReplicaSetMember_read] del: dec_slice.simps dec_pointer.simps split: option.splits)

lemma ScramCreds_read: "dec_struct scram_creds_fields (json_ScramCreds c) zero_ScramCreds = Some c"
  by (cases c) (simp add: json_ScramCreds_def zero_ScramCreds_def scram_creds_fields_def struct_written)

lemma Role_read: "dec_struct role_fields (json_Role r) zero_Role = Some r"
  by (cases r) (simp add: json_Role_def zero_Role_def role_fields_def struct_written)

lemma ScramCreds_pointer: "dec_pointer zero_ScramCreds (dec_struct scram_creds_fields) (json_ScramCreds c) None = Some (Some c)"
  by (rule dec_pointer_written) (simp_all add: ScramCreds_read, simp add: json_ScramCreds_def)

lemma MongoDBUser_read: "dec_struct user_fields (json_MongoDBUser u) zero_MongoDBUser = Some u"
  by (cases u) (simp add: json_MongoDBUser_def zero_MongoDBUser_def user_fields_def struct_written ScramCreds_pointer
      slice_written[of "dec_struct role_fields" json_Role, OF Role_read] del: dec_slice.simps dec_pointer.simps split: option.splits)

lemma DeletedUser_read: "dec_struct deleted_user_fields (json_DeletedUser d) zero_DeletedUser = Some d"
  by (cases d) (simp add: json_DeletedUser_def zero_DeletedUser_def deleted_user_fields_def struct_written del: dec_slice.simps)

lemma Prometheus_read: "dec_struct prometheus_fields (json_Prometheus p) zero_Prometheus = Some p"
  by (cases p) (simp add: json_Prometheus_def zero_Prometheus_def prometheus_fields_def struct_written)

lemma TLS_read: "dec_struct tls_fields (json_TLS t) zero_TLS = Some t"
  by (cases t) (simp add: json_TLS_def zero_TLS_def tls_fields_def struct_written)

lemma BuildConfig_read: "dec_struct build_config_fields (json_BuildConfig b) zero_BuildConfig = Some b"
proof -
  have "dec_slice_nil '''' dec_string (jstrs ss) None = Some (Some ss)" for ss
    using dec_slice_jstrs[of ss] by (simp add: jstrs_def)
  then show ?thesis by (cases b) (simp add: json_BuildConfig_def zero_BuildConfig_def build_config_fields_def struct_written split: option.splits)
qed

lemma MongoDbVersionConfig_read: "dec_struct version_config_fields (json_MongoDbVersionConfig v) zero_MongoDbVersionConfig = Some v"
  by (cases v) (simp add: json_MongoDbVersionConfig_def zero_MongoDbVersionConfig_def version_config_fields_def struct_written
      slice_written[of "dec_struct build_config_fields" json_BuildConfig, OF BuildConfig_read] del: dec_slice.simps)

lemma MonitoringVersion_read:
  "dec_struct monitoring_version_fields (json_MonitoringVersion v) zero_MonitoringVersion = Some (MonitoringVersion_read_back v)"
  by (cases v) (simp add: json_MonitoringVersion_def zero_MonitoringVersion_def monitoring_version_fields_def struct_written
      MonitoringVersion_read_back_def)

lemma Resource_read: "dec_struct resource_fields (json_Resource r) zero_Resource = Some r"
  by (cases r) (simp add: json_Resource_def zero_Resource_def resource_fields_def struct_written split: option.splits)

lemma Privilege_read: "dec_struct privilege_fields (json_Privilege p) zero_Privilege = Some p"
  by (cases p) (simp add: json_Privilege_def zero_Privilege_def privilege_fields_def struct_written Resource_read del: dec_slice.simps)

lemma restriction_read:
  "dec_struct restriction_fields (JObj [(''clientSource'', jstrs (ar_ClientSource r)), (''serverAddress'', jstrs (ar_ServerAddress r))])
     zero_AuthenticationRestriction = Some r"
  by (cases r) (simp add: zero_AuthenticationRestriction_def restriction_fields_def struct_written del: dec_slice.simps)

lemma CustomRole_read: "dec_struct custom_role_fields (json_CustomRole c) zero_CustomRole = Some c"
  by (cases c) (simp add: json_CustomRole_def zero_CustomRole_def custom_role_fields_def struct_written slice_written[of "dec_struct role_fields" json_Role, OF Role_read]
      slice_written[of "dec_struct privilege_fields" json_Privilege, OF Privilege_read] slice_written[of "dec_struct restriction_fields" "\<lambda>r. JObj [(''clientSource'', jstrs (ar_ClientSource r)),
        (''serverAddress'', jstrs (ar_ServerAddress r))]", OF restriction_read] del: dec_slice.simps)

text \<open>The members of \<open>Auth\<close> one by one: read into a value that has nothing in the field yet, an omitted member is as good
  as a written one.\<close>

lemma auth_members:
  "au_Users r = [] \<Longrightarrow> dec_members auth_fields (omitempty (us = []) ''usersWanted'' (JArr (map json_MongoDBUser us))) r = Some (r\<lparr>au_Users := us\<rparr>)"
  "au_AutoAuthMechanisms r = [] \<Longrightarrow> dec_members auth_fields (omitempty (ss = []) ''autoAuthMechanisms'' (jstrs ss)) r =
     Some (r\<lparr>au_AutoAuthMechanisms := ss\<rparr>)"
  "au_DeploymentAuthMechanisms r = [] \<Longrightarrow> dec_members auth_fields (omitempty (ss = []) ''deploymentAuthMechanisms'' (jstrs ss)) r =
     Some (r\<lparr>au_DeploymentAuthMechanisms := ss\<rparr>)"
  "au_AutoUser r = '''' \<Longrightarrow> dec_members auth_fields (omitempty (s = '''') ''autoUser'' (JStr s)) r = Some (r\<lparr>au_AutoUser := s\<rparr>)"
  "au_Key r = '''' \<Longrightarrow> dec_members auth_fields (omitempty (s = '''') ''key'' (JStr s)) r = Some (r\<lparr>au_Key := s\<rparr>)"
  "au_KeyFile r = '''' \<Longrightarrow> dec_members auth_fields (omitempty (s = '''') ''keyfile'' (JStr s)) r = Some (r\<lparr>au_KeyFile := s\<rparr>)"
  "au_KeyFileWindows r = '''' \<Longrightarrow> dec_members auth_fields (omitempty (s = '''') ''keyfileWindows'' (JStr s)) r = Some (r\<lparr>au_KeyFileWindows := s\<rparr>)"
  "au_AutoPwd r = '''' \<Longrightarrow> dec_members auth_fields (omitempty (s = '''') ''autoPwd'' (JStr s)) r = Some (r\<lparr>au_AutoPwd := s\<rparr>)"
  "au_UsersDeleted r = [] \<Longrightarrow> dec_members auth_fields (omitempty (ds = []) ''usersDeleted'' (JArr (map json_DeletedUser ds))) r =
     Some (r\<lparr>au_UsersDeleted := ds\<rparr>)"
  by (cases r; simp add: auth_fields_def field_named_def json_field_def dec_members_omitempty del: dec_slice.simps;
      simp add: slice_written[of "dec_struct user_fields" json_MongoDBUser, OF MongoDBUser_read]
        slice_written[of "dec_struct deleted_user_fields" json_DeletedUser, OF DeletedUser_read] del: dec_slice.simps)+

lemma auth_flags:
  "dec_members auth_fields [(''disabled'', JBool d), (''authoritativeSet'', JBool b)] r = Some (r\<lparr>au_Disabled := d, au_AuthoritativeSet := b\<rparr>)"
  "dec_members auth_fields [(''autoAuthMechanism'', JStr s)] r = Some (r\<lparr>au_AutoAuthMechanism := s\<rparr>)"
  by (simp_all add: auth_fields_def field_named_def json_field_def)

lemma Auth_read: "dec_struct auth_fields (json_Auth a) zero_Auth = Some a"
  by (cases a) (simp add: json_Auth_def dec_members_append auth_members auth_flags zero_Auth_def del: append_Cons append_Nil dec_members.simps)

lemma string_structs_read:
  "dec_struct backup_version_fields (JObj [(''baseUrl'', JStr u)]) '''' = Some u"
  "dec_struct options_fields (JObj [(''downloadBase'', JStr u)]) '''' = Some u"
  by (simp_all add: backup_version_fields_def options_fields_def struct_written)

lemma pointers_read:
  "dec_pointer zero_Prometheus (dec_struct prometheus_fields) (json_Prometheus p) None = Some (Some p)"
  "dec_pointer zero_TLS (dec_struct tls_fields) (json_TLS t) None = Some (Some t)"
  by (rule dec_pointer_written; (simp add: Prometheus_read TLS_read)?; simp add: json_Prometheus_def json_TLS_def)+

lemma slices_read:
  "dec_slice zero_Process (dec_struct process_fields) (JArr (map json_Process ps)) [] = Some (map Process_read_back ps)"
  "dec_slice zero_ReplicaSet (dec_struct replica_set_fields) (JArr (map json_ReplicaSet rs)) [] = Some (map ReplicaSet_read_back rs)"
  "dec_slice zero_MongoDbVersionConfig (dec_struct version_config_fields) (JArr (map json_MongoDbVersionConfig vs)) [] = Some vs"
  "dec_slice '''' (dec_struct backup_version_fields) (JArr (map (\<lambda>u. JObj [(''baseUrl'', JStr u)]) us)) [] = Some us"
  "dec_slice zero_MonitoringVersion (dec_struct monitoring_version_fields) (JArr (map json_MonitoringVersion ms)) [] =
     Some (map MonitoringVersion_read_back ms)"
  "dec_slice zero_CustomRole (dec_struct custom_role_fields) (JArr (map json_CustomRole cs)) [] = Some cs"
  by (rule dec_slice_written slice_written; simp add: Process_read ReplicaSet_read MongoDbVersionConfig_read string_structs_read
      MonitoringVersion_read CustomRole_read del: dec_struct.simps)+

lemma unmarshal_marshal: "unmarshal_AutomationConfig (marshal_AutomationConfig ac) = Some (read_back ac)"
  unfolding unmarshal_AutomationConfig_def marshal_AutomationConfig_def dec_struct.simps(2)
  by (cases ac) (simp add: config_fields_def struct_written read_back_def slices_read pointers_read string_structs_read Auth_read
      zero_AutomationConfig_def del: dec_slice.simps dec_pointer.simps dec_struct.simps split: option.splits)

subsection \<open>What reading back keeps\<close>

lemma json_read_back [simp]:
  "json_Process (Process_read_back p) = json_Process p"
  "json_ReplicaSetMember (ReplicaSetMember_read_back m) = json_ReplicaSetMember m"
  "json_MonitoringVersion (MonitoringVersion_read_back v) = json_MonitoringVersion v"
  by (simp_all add: json_Process_def Process_read_back_def json_ReplicaSetMember_def ReplicaSetMember_read_back_def
      json_MonitoringVersion_def MonitoringVersion_read_back_def split: option.splits)

lemma json_ReplicaSet_read_back [simp]: "json_ReplicaSet (ReplicaSet_read_back r) = json_ReplicaSet r"
  by (simp add: json_ReplicaSet_def ReplicaSet_read_back_def comp_def)

lemma marshal_read_back [simp]: "marshal_AutomationConfig (read_back ac) = marshal_AutomationConfig ac"
  by (simp add: marshal_AutomationConfig_def read_back_def comp_def)

lemma Process_read_back_sel [simp]:
  "p_Name (Process_read_back p) = p_Name p"
  "p_FeatureCompatibilityVersion (Process_read_back p) = p_FeatureCompatibilityVersion p"
  by (simp_all add: Process_read_back_def)

lemma read_back_processes [simp]: "ac_Processes (read_back ac) = map Process_read_back (ac_Processes ac)"
  by (simp add: read_back_def)

text \<open>A selector of \<open>objx\<close> finds in a map that was read back what it found in the map that was written.  Ports are
  written as integers and come back as floats, which \<open>GetPort\<close> knows.\<close>

locale objx_reading = objx_laws +
  assumes get_read_back: "objx_Get ox (map_read_back m) p = map_option value_read_back (objx_Get ox m p)"
begin

lemma GetPort_read_back: "GetPort ox (Process_read_back p) = GetPort ox p"
  by (auto simp: GetPort_def Process_read_back_def get_read_back split: option.splits go_value.splits)

end

lemma map_of_sort_key: "map_of (sort_key fst m) k = map_of m k" for m :: "(string \<times> 'a) list"
proof -
  have find: "map_of xs k = (case filter (\<lambda>p. fst p = k) xs of [] \<Rightarrow> None | p # _ \<Rightarrow> Some (snd p))" for xs :: "(string \<times> 'a) list"
    by (induction xs) auto
  show ?thesis unfolding find by (simp add: sort_key_stable)
qed

lemma map_of_read_back: "map_of (map_read_back m) k = map_option value_read_back (map_of m k)"
  unfolding map_read_back_def map_of_sort_key by (induction m) auto

lemma path_get_read_back: "path_get (map_read_back m) ks = map_option value_read_back (path_get m ks)"
proof (induction m ks rule: path_get.induct)
  case (3 m k k' ks)
  then show ?case by (cases "map_of m k") (auto simp: map_of_read_back map_read_back_def[symmetric] split: go_value.splits)
qed (simp_all add: map_of_read_back)

interpretation nested_reading: objx_reading nested_objx
  by unfold_locales (simp add: nested_objx_def path_get_read_back)

end
