(* ===== verification/Kube_Objects.thy ===== *)
theory Kube_Objects
  imports Kube_Client AC_Json
begin

text \<open>
  Helpers on secrets, config maps and services (\<open>pkg/kube/secret\<close>,
  \<open>pkg/kube/configmap\<close>, \<open>pkg/kube/service\<close>), and the secret that holds the
  automation config (\<open>pkg/automationconfig/automation_config_secret.go\<close>).
  \<open>contains.go\<close> and \<open>apierrors.go\<close> of \<open>pkg/util\<close> are here too.
\<close>

subsection \<open>Small predicates\<close>

definition contains_String :: "string list \<Rightarrow> string \<Rightarrow> bool" where
  "contains_String xs s = list_ex (\<lambda>elem. elem = s) xs"

definition contains_Sha256 :: "string list \<Rightarrow> bool" where
  "contains_Sha256 xs = contains_String xs Sha256"

definition contains_Sha1 :: "string list \<Rightarrow> bool" where
  "contains_Sha1 xs = contains_String xs Sha1"

definition contains_X509 :: "string list \<Rightarrow> bool" where
  "contains_X509 xs = contains_String xs X509"

definition contains_NamespacedName :: "nsname list \<Rightarrow> nsname \<Rightarrow> bool" where
  "contains_NamespacedName nsNames nsName = list_ex (\<lambda>elem. elem = nsName) nsNames"

definition contains_AccessMode :: "string list \<Rightarrow> string \<Rightarrow> bool" where
  "contains_AccessMode accessModes mode = list_ex (\<lambda>elem. elem = mode) accessModes"

definition contains_OwnerReferences :: "owner_ref list \<Rightarrow> owner_ref \<Rightarrow> bool" where
  "contains_OwnerReferences ownerRefs ownerRef = list_ex (\<lambda>elem. elem = ownerRef) ownerRefs"

lemma contains_iff [simp]:
  "contains_String xs s \<longleftrightarrow> s \<in> set xs"
  "contains_NamespacedName ns n \<longleftrightarrow> n \<in> set ns"
  "contains_AccessMode xs s \<longleftrightarrow> s \<in> set xs"
  "contains_OwnerReferences os or' \<longleftrightarrow> or' \<in> set os"
  by (auto simp: contains_String_def contains_NamespacedName_def contains_AccessMode_def
        contains_OwnerReferences_def list_ex_iff)

definition objectModifiedText :: string where
  "objectModifiedText = ''the object has been modified; please apply your changes to the latest version and try again''"

definition IsTransientMessage :: "string \<Rightarrow> bool" where
  "IsTransientMessage msg = str_contains (map lower_char msg) objectModifiedText"

definition IsTransientError :: "go_error \<Rightarrow> bool" where
  "IsTransientError err = IsTransientMessage (err_msg err)"

definition SecretNotExist :: "go_error \<Rightarrow> bool" where
  "SecretNotExist err = (err_not_found err \<or> str_contains (err_msg err) ''secret not found'')"

interpretation mock_secrets: object_store "secrets_api mockedClient" secret_key mw_secrets Inr SecretNotExist
  unfolding mockedClient_def kube_client.simps by (rule mock_store) simp

subsection \<open>Secret builder\<close>

record secret_builder =
  sb_data :: str_map
  sb_dataType :: string
  sb_labels :: str_map
  sb_name :: string
  sb_namespace :: string
  sb_ownerReferences :: "owner_ref list"

definition secret_Builder :: secret_builder where
  "secret_Builder = \<lparr>sb_data = [], sb_dataType = '''', sb_labels = [], sb_name = '''',
     sb_namespace = '''', sb_ownerReferences = []\<rparr>"

definition secret_SetName :: "string \<Rightarrow> secret_builder \<Rightarrow> secret_builder" where
  "secret_SetName name b = b\<lparr>sb_name := name\<rparr>"

definition secret_SetNamespace :: "string \<Rightarrow> secret_builder \<Rightarrow> secret_builder" where
  "secret_SetNamespace namespace b = b\<lparr>sb_namespace := namespace\<rparr>"

definition secret_SetField :: "string \<Rightarrow> string \<Rightarrow> secret_builder \<Rightarrow> secret_builder" where
  "secret_SetField key value b = b\<lparr>sb_data := map_put key value (sb_data b)\<rparr>"

definition secret_SetOwnerReferences :: "owner_ref list \<Rightarrow> secret_builder \<Rightarrow> secret_builder" where
  "secret_SetOwnerReferences refs b = b\<lparr>sb_ownerReferences := refs\<rparr>"

definition secret_SetLabels :: "str_map \<Rightarrow> secret_builder \<Rightarrow> secret_builder" where
  "secret_SetLabels labels b = b\<lparr>sb_labels := labels\<rparr>"

definition secret_SetByteData :: "str_map option \<Rightarrow> secret_builder \<Rightarrow> secret_builder" where
  "secret_SetByteData data b = b\<lparr>sb_data := (case data of None \<Rightarrow> [] | Some m \<Rightarrow> m)\<rparr>"

definition secret_SetStringMapToData :: "str_map \<Rightarrow> secret_builder \<Rightarrow> secret_builder" where
  "secret_SetStringMapToData data b = b\<lparr>sb_data := data\<rparr>"

definition secret_SetDataType :: "string \<Rightarrow> secret_builder \<Rightarrow> secret_builder" where
  "secret_SetDataType dataType b = b\<lparr>sb_dataType := dataType\<rparr>"

definition secret_Build :: "secret_builder \<Rightarrow> secret" where
  "secret_Build b = \<lparr>s_Name = sb_name b, s_Namespace = sb_namespace b,
     s_OwnerReferences = sb_ownerReferences b, s_Labels = sb_labels b,
     s_Data = Some (sb_data b), s_Type = sb_dataType b\<rparr>"

lemmas secret_builder_defs [go_simps] = secret_Builder_def secret_SetName_def secret_SetNamespace_def
  secret_SetField_def secret_SetOwnerReferences_def secret_SetLabels_def secret_SetByteData_def
  secret_SetStringMapToData_def secret_SetDataType_def secret_Build_def

subsection \<open>Secrets\<close>

text \<open>A lookup in a \<open>nil\<close> map finds nothing; \<open>reflect.DeepEqual\<close> on maps tells \<open>nil\<close> from
  empty and ignores the order.\<close>

definition data_lookup :: "str_map option \<Rightarrow> string \<Rightarrow> string option" where
  "data_lookup d key = (case d of None \<Rightarrow> None | Some m \<Rightarrow> map_of m key)"

definition map_equal :: "('k \<times> 'v) list \<Rightarrow> ('k \<times> 'v) list \<Rightarrow> bool" where
  "map_equal m n = (list_all (\<lambda>(k, _). map_of m k = map_of n k) m \<and> list_all (\<lambda>(k, _). map_of m k = map_of n k) n)"

definition data_equal :: "str_map option \<Rightarrow> str_map option \<Rightarrow> bool" where
  "data_equal d e = (case (d, e) of (None, None) \<Rightarrow> True | (Some m, Some n) \<Rightarrow> map_equal m n | _ \<Rightarrow> False)"

lemma map_equal_iff: "map_equal m n \<longleftrightarrow> map_of m = map_of n"
proof
  assume eq: "map_equal m n"
  show "map_of m = map_of n"
  proof
    fix k
    show "map_of m k = map_of n k"
    proof (cases "k \<in> fst ` set m \<or> k \<in> fst ` set n")
      case True
      then show ?thesis using eq by (fastforce simp: map_equal_def list_all_iff)
    next
      case False
      then show ?thesis by (metis map_of_eq_None_iff)
    qed
  qed
qed (simp add: map_equal_def list_all_iff case_prod_beta)

lemma data_equal_iff: "data_equal d e \<longleftrightarrow> map_option map_of d = map_option map_of e"
  by (auto simp: data_equal_def map_equal_iff split: option.splits)

definition dataToStringData :: "str_map option \<Rightarrow> str_map" where
  "dataToStringData data = (case data of None \<Rightarrow> [] | Some m \<Rightarrow> m)"

definition ReadByteData :: "'w kube_client \<Rightarrow> nsname \<Rightarrow> ('w, str_map option fallible) effect" where
  "ReadByteData c objectKey w = (case GetSecret c objectKey w of
      (Inl err, w1) \<Rightarrow> (Inl err, w1)
    | (Inr s, w1) \<Rightarrow> (Inr (s_Data s), w1))"

definition ReadStringData :: "'w kube_client \<Rightarrow> nsname \<Rightarrow> ('w, str_map fallible) effect" where
  "ReadStringData c key w = (case GetSecret c key w of
      (Inl err, w1) \<Rightarrow> (Inl err, w1)
    | (Inr s, w1) \<Rightarrow> (Inr (dataToStringData (s_Data s)), w1))"

definition secret_ReadKey :: "'w kube_client \<Rightarrow> string \<Rightarrow> nsname \<Rightarrow> ('w, string fallible) effect" where
  "secret_ReadKey c key objectKey w = (case ReadStringData c objectKey w of
      (Inl err, w1) \<Rightarrow> (Inl err, w1)
    | (Inr data, w1) \<Rightarrow> (case map_of data key of
          Some val \<Rightarrow> (Inr val, w1)
        | None \<Rightarrow> (Inl (errorf (''key '' @ [CHR 0x22] @ key @ [CHR 0x22] @ '' not present in the Secret ''
                      @ ns_Namespace objectKey @ ''/'' @ ns_Name objectKey)), w1)))"

definition nil_map_panic :: go_error where
  "nil_map_panic = errorf ''panic: assignment to entry in nil map''"

definition secret_UpdateField :: "'w kube_client \<Rightarrow> nsname \<Rightarrow> string \<Rightarrow> string \<Rightarrow> ('w, go_error option) effect" where
  "secret_UpdateField c objectKey key value w = (case GetSecret c objectKey w of
      (Inl err, w1) \<Rightarrow> (Some err, w1)
    | (Inr s, w1) \<Rightarrow> (case s_Data s of
          None \<Rightarrow> (Some nil_map_panic, w1)
        | Some m \<Rightarrow> UpdateSecret c (s\<lparr>s_Data := Some (map_put key value m)\<rparr>) w1))"

definition secret_CreateOrUpdate :: "'w kube_client \<Rightarrow> secret \<Rightarrow> ('w, go_error option) effect" where
  "secret_CreateOrUpdate c s w = (case UpdateSecret c s w of
      (None, w1) \<Rightarrow> (None, w1)
    | (Some err, w1) \<Rightarrow> if SecretNotExist err then CreateSecret c s w1 else (Some err, w1))"

definition HasAllKeys :: "secret \<Rightarrow> string list \<Rightarrow> bool" where
  "HasAllKeys s keys = list_all (\<lambda>key. data_lookup (s_Data s) key \<noteq> None) keys"

definition EnsureSecretWithKey ::
    "'w kube_client \<Rightarrow> nsname \<Rightarrow> owner_ref list \<Rightarrow> string \<Rightarrow> string \<Rightarrow> ('w, string fallible) effect" where
  "EnsureSecretWithKey c nsName ownerReferences key value w = (case GetSecret c nsName w of
      (Inr existingSecret, w1) \<Rightarrow>
        (Inr (case data_lookup (s_Data existingSecret) key of None \<Rightarrow> '''' | Some v \<Rightarrow> v), w1)
    | (Inl err0, w1) \<Rightarrow>
        if SecretNotExist err0
        then (let s = secret_Build (secret_SetOwnerReferences ownerReferences (secret_SetField key value
                        (secret_SetName (ns_Name nsName) (secret_SetNamespace (ns_Namespace nsName) secret_Builder))))
              in case CreateSecret c s w1 of
                   (Some err1, w2) \<Rightarrow> (Inl err1, w2)
                 | (None, w2) \<Rightarrow> (Inr value, w2))
        else (Inl err0, w1))"

definition CopySecret :: "'w kube_client \<Rightarrow> 'w kube_client \<Rightarrow> nsname \<Rightarrow> nsname \<Rightarrow> ('w, go_error option) effect" where
  "CopySecret fromClient toClient sourceSecretNsName destNsName w =
    (case GetSecret fromClient sourceSecretNsName w of
       (Inl err, w1) \<Rightarrow> (Some err, w1)
     | (Inr s, w1) \<Rightarrow> secret_CreateOrUpdate toClient
          (secret_Build (secret_SetDataType (s_Type s) (secret_SetByteData (s_Data s)
             (secret_SetNamespace (ns_Namespace destNsName) (secret_SetName (ns_Name destNsName) secret_Builder))))) w1)"

definition secret_Exists :: "'w kube_client \<Rightarrow> nsname \<Rightarrow> ('w, bool fallible) effect" where
  "secret_Exists c nsName w = (case GetSecret c nsName w of
      (Inr _, w1) \<Rightarrow> (Inr True, w1)
    | (Inl err, w1) \<Rightarrow> if err_not_found err then (Inr False, w1) else (Inl err, w1))"

definition HasOwnerReferences :: "secret \<Rightarrow> owner_ref list \<Rightarrow> bool" where
  "HasOwnerReferences s ownerRefs = list_all (contains_OwnerReferences (s_OwnerReferences s)) ownerRefs"

definition CreateOrUpdateIfNeeded :: "'w kube_client \<Rightarrow> secret \<Rightarrow> ('w, go_error option) effect" where
  "CreateOrUpdateIfNeeded c s w = (case GetSecret c (secret_key s) w of
      (Inl err, w1) \<Rightarrow> if err_not_found err then CreateSecret c s w1 else (Some err, w1)
    | (Inr oldSecret, w1) \<Rightarrow> if data_equal (s_Data s) (s_Data oldSecret) then (None, w1) else UpdateSecret c s w1)"

subsection \<open>Config maps\<close>

record config_map_builder =
  cmb_data :: str_map
  cmb_name :: string
  cmb_namespace :: string
  cmb_ownerReferences :: "owner_ref list"
  cmb_labels :: str_map

definition configmap_Builder :: config_map_builder where
  "configmap_Builder = \<lparr>cmb_data = [], cmb_name = '''', cmb_namespace = '''', cmb_ownerReferences = [], cmb_labels = []\<rparr>"

definition configmap_SetName :: "string \<Rightarrow> config_map_builder \<Rightarrow> config_map_builder" where
  "configmap_SetName name b = b\<lparr>cmb_name := name\<rparr>"

definition configmap_SetNamespace :: "string \<Rightarrow> config_map_builder \<Rightarrow> config_map_builder" where
  "configmap_SetNamespace namespace b = b\<lparr>cmb_namespace := namespace\<rparr>"

definition configmap_SetDataField :: "string \<Rightarrow> string \<Rightarrow> config_map_builder \<Rightarrow> config_map_builder" where
  "configmap_SetDataField key value b = b\<lparr>cmb_data := map_put key value (cmb_data b)\<rparr>"

definition configmap_SetOwnerReferences :: "owner_ref list \<Rightarrow> config_map_builder \<Rightarrow> config_map_builder" where
  "configmap_SetOwnerReferences refs b = b\<lparr>cmb_ownerReferences := refs\<rparr>"

definition configmap_SetLabels :: "str_map \<Rightarrow> config_map_builder \<Rightarrow> config_map_builder" where
  "configmap_SetLabels labels b = b\<lparr>cmb_labels := labels\<rparr>"

definition configmap_SetData :: "str_map \<Rightarrow> config_map_builder \<Rightarrow> config_map_builder" where
  "configmap_SetData data b = fold (\<lambda>(k, v). configmap_SetDataField k v) data b"

definition configmap_Build :: "config_map_builder \<Rightarrow> config_map" where
  "configmap_Build b = \<lparr>cm_Name = cmb_name b, cm_Namespace = cmb_namespace b,
     cm_OwnerReferences = cmb_ownerReferences b, cm_Labels = cmb_labels b, cm_Data = Some (cmb_data b)\<rparr>"

definition ReadData :: "'w kube_client \<Rightarrow> nsname \<Rightarrow> ('w, str_map option fallible) effect" where
  "ReadData c key w = (case GetConfigMap c key w of
      (Inl err, w1) \<Rightarrow> (Inl err, w1)
    | (Inr cm, w1) \<Rightarrow> (Inr (cm_Data cm), w1))"

definition configmap_ReadKey :: "'w kube_client \<Rightarrow> string \<Rightarrow> nsname \<Rightarrow> ('w, string fallible) effect" where
  "configmap_ReadKey c key objectKey w = (case ReadData c objectKey w of
      (Inl err, w1) \<Rightarrow> (Inl err, w1)
    | (Inr data, w1) \<Rightarrow> (case data_lookup data key of
          Some val \<Rightarrow> (Inr val, w1)
        | None \<Rightarrow> (Inl (errorf (''key '' @ [CHR 0x22] @ key @ [CHR 0x22] @ '' not present in ConfigMap ''
                      @ ns_Namespace objectKey @ ''/'' @ ns_Name objectKey)), w1)))"

definition configmap_UpdateField :: "'w kube_client \<Rightarrow> nsname \<Rightarrow> string \<Rightarrow> string \<Rightarrow> ('w, go_error option) effect" where
  "configmap_UpdateField c objectKey key value w = (case GetConfigMap c objectKey w of
      (Inl err, w1) \<Rightarrow> (Some err, w1)
    | (Inr cm, w1) \<Rightarrow> (case cm_Data cm of
          None \<Rightarrow> (Some nil_map_panic, w1)
        | Some m \<Rightarrow> UpdateConfigMap c (cm\<lparr>cm_Data := Some (map_put key value m)\<rparr>) w1))"

definition configmap_CreateOrUpdate :: "'w kube_client \<Rightarrow> config_map \<Rightarrow> ('w, go_error option) effect" where
  "configmap_CreateOrUpdate c cm w = (case UpdateConfigMap c cm w of
      (None, w1) \<Rightarrow> (None, w1)
    | (Some err, w1) \<Rightarrow> if err_not_found err then CreateConfigMap c cm w1 else (Some err, w1))"

definition configmap_Exists :: "'w kube_client \<Rightarrow> nsname \<Rightarrow> ('w, bool fallible) effect" where
  "configmap_Exists c nsName w = (case GetConfigMap c nsName w of
      (Inr _, w1) \<Rightarrow> (Inr True, w1)
    | (Inl err, w1) \<Rightarrow> if err_not_found err then (Inr False, w1) else (Inl err, w1))"

text \<open>\<open>strings.Split\<close> at a separator of one character.\<close>

fun split_char :: "char \<Rightarrow> string \<Rightarrow> string list" where
  "split_char c [] = [[]]"
| "split_char c (d # s) = (if d = c then [] # split_char c s
     else case split_char c s of [] \<Rightarrow> [[d]] | p # ps \<Rightarrow> (d # p) # ps)"

definition trim_right :: "char \<Rightarrow> string \<Rightarrow> string" where
  "trim_right c s = rev (dropWhile (\<lambda>d. d = c) (rev s))"

definition newline :: char where "newline = CHR 0x0A"

fun properties_loop :: "string list \<Rightarrow> str_map \<Rightarrow> str_map fallible" where
  "properties_loop [] m = Inr m"
| "properties_loop (keyValPair # rest) m = (case split_char CHR ''='' keyValPair of
      [k, v] \<Rightarrow> properties_loop rest (map_put k v m)
    | _ \<Rightarrow> Inl (errorf (keyValPair @ '' is not a valid key-value pair'')))"

definition filelikePropertiesToMap :: "string \<Rightarrow> str_map fallible" where
  "filelikePropertiesToMap s = properties_loop (split_char newline (trim_right newline s)) []"

definition nsname_String :: "nsname \<Rightarrow> string" where
  "nsname_String n = ns_Namespace n @ ''/'' @ ns_Name n"

definition ReadFileLikeField :: "'w kube_client \<Rightarrow> nsname \<Rightarrow> string \<Rightarrow> string \<Rightarrow> ('w, string fallible) effect" where
  "ReadFileLikeField c objectKey externalKey internalKey w = (case ReadData c objectKey w of
      (Inl err, w1) \<Rightarrow> (Inl err, w1)
    | (Inr cmData, w1) \<Rightarrow> (case data_lookup cmData externalKey of
          None \<Rightarrow> (Inl (errorf (''key '' @ externalKey @ '' is not present in ConfigMap '' @ nsname_String objectKey)), w1)
        | Some mappingString \<Rightarrow> (case filelikePropertiesToMap mappingString of
              Inl err \<Rightarrow> (Inl err, w1)
            | Inr mapping \<Rightarrow> (case map_of mapping internalKey of
                  None \<Rightarrow> (Inl (errorf (''key '' @ internalKey @ '' is not present in the '' @ externalKey
                             @ '' field of ConfigMap '' @ nsname_String objectKey)), w1)
                | Some value \<Rightarrow> (Inr value, w1)))))"

subsection \<open>Services\<close>

record service_builder =
  svb_name :: string
  svb_namespace :: string
  svb_clusterIp :: string
  svb_serviceType :: string
  svb_servicePort :: "service_port list"
  svb_labels :: str_map
  svb_loadBalancerIP :: string
  svb_publishNotReady :: bool
  svb_ownerReferences :: "owner_ref list"
  svb_selector :: str_map
  svb_annotations :: str_map
  svb_externalTrafficPolicy :: string

definition service_Builder :: service_builder where
  "service_Builder = \<lparr>svb_name = '''', svb_namespace = '''', svb_clusterIp = '''', svb_serviceType = '''',
     svb_servicePort = [], svb_labels = [], svb_loadBalancerIP = '''', svb_publishNotReady = False,
     svb_ownerReferences = [], svb_selector = [], svb_annotations = [], svb_externalTrafficPolicy = ''''\<rparr>"

definition service_SetName :: "string \<Rightarrow> service_builder \<Rightarrow> service_builder" where
  "service_SetName name b = b\<lparr>svb_name := name\<rparr>"

definition service_SetNamespace :: "string \<Rightarrow> service_builder \<Rightarrow> service_builder" where
  "service_SetNamespace namespace b = b\<lparr>svb_namespace := namespace\<rparr>"

definition service_SetSelector :: "str_map \<Rightarrow> service_builder \<Rightarrow> service_builder" where
  "service_SetSelector selector b = b\<lparr>svb_selector := selector\<rparr>"

definition service_SetLabels :: "str_map \<Rightarrow> service_builder \<Rightarrow> service_builder" where
  "service_SetLabels labels b = b\<lparr>svb_labels := labels\<rparr>"

definition service_SetAnnotations :: "str_map \<Rightarrow> service_builder \<Rightarrow> service_builder" where
  "service_SetAnnotations annotations b = b\<lparr>svb_annotations := annotations\<rparr>"

definition service_SetServiceType :: "string \<Rightarrow> service_builder \<Rightarrow> service_builder" where
  "service_SetServiceType serviceType b = b\<lparr>svb_serviceType := serviceType\<rparr>"

definition service_SetClusterIP :: "string \<Rightarrow> service_builder \<Rightarrow> service_builder" where
  "service_SetClusterIP clusterIP b = b\<lparr>svb_clusterIp := clusterIP\<rparr>"

definition service_SetLoadBalancerIP :: "string \<Rightarrow> service_builder \<Rightarrow> service_builder" where
  "service_SetLoadBalancerIP ip b = b\<lparr>svb_loadBalancerIP := ip\<rparr>"

definition service_SetExternalTrafficPolicy :: "string \<Rightarrow> service_builder \<Rightarrow> service_builder" where
  "service_SetExternalTrafficPolicy policy b = b\<lparr>svb_externalTrafficPolicy := policy\<rparr>"

definition service_SetPublishNotReadyAddresses :: "bool \<Rightarrow> service_builder \<Rightarrow> service_builder" where
  "service_SetPublishNotReadyAddresses publishNotReady b = b\<lparr>svb_publishNotReady := publishNotReady\<rparr>"

definition service_SetOwnerReferences :: "owner_ref list \<Rightarrow> service_builder \<Rightarrow> service_builder" where
  "service_SetOwnerReferences refs b = b\<lparr>svb_ownerReferences := refs\<rparr>"

definition service_AddPort :: "service_port option \<Rightarrow> service_builder \<Rightarrow> service_builder" where
  "service_AddPort port b = (case port of None \<Rightarrow> b
     | Some p \<Rightarrow> b\<lparr>svb_servicePort := svb_servicePort b @ [p]\<rparr>)"

definition service_Build :: "service_builder \<Rightarrow> service" where
  "service_Build b = \<lparr>svc_Name = svb_name b, svc_Namespace = svb_namespace b, svc_Labels = svb_labels b,
     svc_OwnerReferences = svb_ownerReferences b, svc_Annotations = svb_annotations b,
     svc_Spec = \<lparr>svc_PublishNotReadyAddresses = svb_publishNotReady b,
       svc_ExternalTrafficPolicy = svb_externalTrafficPolicy b, svc_LoadBalancerIP = svb_loadBalancerIP b,
       svc_Type = svb_serviceType b, svc_ClusterIP = svb_clusterIp b, svc_Ports = svb_servicePort b,
       svc_Selector = svb_selector b, svc_LoadBalancerSourceRanges = [], svc_ExternalName = '''',
       svc_HealthCheckNodePort = 0, svc_SessionAffinityConfig = None,
       svc_LoadBalancerClass = None, svc_InternalTrafficPolicy = None, svc_ExternalIPs = [],
       svc_SessionAffinity = '''', svc_ClusterIPs = []\<rparr>\<rparr>"

lemmas service_builder_defs [go_simps] = service_Builder_def service_SetName_def service_SetNamespace_def
  service_SetSelector_def service_SetLabels_def service_SetAnnotations_def service_SetServiceType_def
  service_SetClusterIP_def service_SetLoadBalancerIP_def service_SetExternalTrafficPolicy_def
  service_SetPublishNotReadyAddresses_def service_SetOwnerReferences_def service_AddPort_def service_Build_def

subsection \<open>The automation config secret\<close>

text \<open>\<open>json_text\<close> is the text of a JSON tree and \<open>json_tree\<close> parses a text.\<close>

record ac_codec =
  json_text :: "json \<Rightarrow> string"
  json_tree :: "string \<Rightarrow> json fallible"

definition FromBytes :: "ac_codec \<Rightarrow> string \<Rightarrow> automation_config fallible" where
  "FromBytes cd acBytes = (case json_tree cd acBytes of
      Inl err \<Rightarrow> Inl err
    | Inr j \<Rightarrow> (case unmarshal_AutomationConfig j of
          None \<Rightarrow> Inl (errorf ''json: cannot unmarshal into AutomationConfig'')
        | Some ac \<Rightarrow> Inr ac))"

definition ConfigKey :: string where "ConfigKey = ''cluster-config.json''"

definition ac_bytes :: "ac_codec \<Rightarrow> automation_config \<Rightarrow> string" where
  "ac_bytes cd ac = json_text cd (marshal_AutomationConfig ac)"

definition ReadFromSecret :: "ac_codec \<Rightarrow> 'w kube_client \<Rightarrow> nsname \<Rightarrow> ('w, automation_config fallible) effect" where
  "ReadFromSecret cd c secretNsName w = (case GetSecret c secretNsName w of
      (Inl err, w1) \<Rightarrow> if SecretNotExist err then (Inr zero_AutomationConfig, w1) else (Inl err, w1)
    | (Inr acSecret, w1) \<Rightarrow>
        (FromBytes cd (case data_lookup (s_Data acSecret) ConfigKey of None \<Rightarrow> '''' | Some bytes \<Rightarrow> bytes), w1))"

definition createNewAutomationConfigSecret ::
    "ac_codec \<Rightarrow> 'w kube_client \<Rightarrow> nsname \<Rightarrow> owner_ref list \<Rightarrow> automation_config
      \<Rightarrow> ('w, automation_config fallible) effect" where
  "createNewAutomationConfigSecret cd c secretNsName owner desired w =
    (let newSecret = secret_Build (secret_SetOwnerReferences owner (secret_SetField ConfigKey (ac_bytes cd desired)
           (secret_SetNamespace (ns_Namespace secretNsName) (secret_SetName (ns_Name secretNsName) secret_Builder))))
     in case CreateSecret c newSecret w of
          (Some err, w1) \<Rightarrow> (Inl err, w1)
        | (None, w1) \<Rightarrow> (Inr desired, w1))"

definition update_ac_secret ::
    "ac_codec \<Rightarrow> 'w kube_client \<Rightarrow> nsname \<Rightarrow> secret \<Rightarrow> automation_config \<Rightarrow> ('w, automation_config fallible) effect" where
  "update_ac_secret cd c secretNsName existingSecret desired w =
    (case s_Data existingSecret of
       None \<Rightarrow> (Inl nil_map_panic, w)
     | Some m \<Rightarrow> (case UpdateSecret c (existingSecret\<lparr>s_Data := Some (map_put ConfigKey (ac_bytes cd desired) m),
                       s_Name := ns_Name secretNsName, s_Namespace := ns_Namespace secretNsName\<rparr>) w of
           (Some err, w1) \<Rightarrow> (Inl err, w1)
         | (None, w1) \<Rightarrow> (Inr desired, w1)))"

definition EnsureSecret ::
    "ac_codec \<Rightarrow> 'w kube_client \<Rightarrow> nsname \<Rightarrow> owner_ref list \<Rightarrow> automation_config
      \<Rightarrow> ('w, automation_config fallible) effect" where
  "EnsureSecret cd c secretNsName owner desired w = (case GetSecret c secretNsName w of
      (Inl err, w1) \<Rightarrow>
        if SecretNotExist err then createNewAutomationConfigSecret cd c secretNsName owner desired w1
        else (Inl err, w1)
    | (Inr existingSecret, w1) \<Rightarrow> (case data_lookup (s_Data existingSecret) ConfigKey of
          None \<Rightarrow> update_ac_secret cd c secretNsName existingSecret desired w1
        | Some existingAcBytes \<Rightarrow> (case FromBytes cd existingAcBytes of
              Inl err \<Rightarrow> (Inl err, w1)
            | Inr existing \<Rightarrow>
                if AreEqual desired existing then (Inr existing, w1)
                else update_ac_secret cd c secretNsName existingSecret desired w1)))"

subsection \<open>Clients of the secret store\<close>

locale secret_store = object_store "secrets_api c" secret_key content Inr SecretNotExist
  for c :: "'w kube_client" and content :: "'w \<Rightarrow> nsname \<Rightarrow> secret option"
begin

lemma GetSecret_Inr: "GetSecret c k w = (Inr s, w') \<Longrightarrow> content w k = Some s \<and> content w' = content w"
  unfolding GetSecret_def by (rule get_ok)

lemma GetSecret_Inl: "GetSecret c k w = (Inl e, w') \<Longrightarrow>
    content w' = content w \<and> (SecretNotExist e \<longrightarrow> content w k = None)"
  unfolding GetSecret_def by (rule get_err)

lemma GetSecret_present:
  assumes "content w k = Some s"
  obtains w' where "GetSecret c k w = (Inr s, w')" "content w' = content w"
    | e w' where "GetSecret c k w = (Inl e, w')" "\<not> SecretNotExist e" "content w' = content w"
proof (cases "GetSecret c k w")
  case (Pair r w')
  show thesis
  proof (cases r)
    case (Inl e)
    then show thesis using that(2) assms GetSecret_Inl[of k w e w'] Pair by auto
  next
    case (Inr s')
    then show thesis using that(1) assms GetSecret_Inr[of k w s' w'] Pair by auto
  qed
qed

lemma CreateSecret_cases: "CreateSecret c s w = (r, w') \<Longrightarrow>
    content w' = (if r = None then (content w)(secret_key s \<mapsto> s) else content w)"
  unfolding CreateSecret_def using create_ok[of s w w'] create_err[of s w _ w'] by (cases r) auto

lemma UpdateSecret_cases: "UpdateSecret c s w = (r, w') \<Longrightarrow>
    content w' = (if r = None then (content w)(secret_key s \<mapsto> s) else content w)"
  unfolding UpdateSecret_def using update_ok update_err by (cases r) (fastforce split: prod.splits)+

lemma CreateOrUpdate_cases:
  assumes "secret_CreateOrUpdate c s w = (r, w')"
  shows "content w' = (if r = None then (content w)(secret_key s \<mapsto> s) else content w)"
proof -
  have "(case api_Update (secrets_api c) s w of
      ((_, None), w1) \<Rightarrow> (None, w1)
    | ((_, Some e), w1) \<Rightarrow> if SecretNotExist e then api_Create (secrets_api c) s w1 else (Some e, w1)) = (r, w')"
    using assms unfolding secret_CreateOrUpdate_def UpdateSecret_def CreateSecret_def
    by (auto split: prod.splits option.splits)
  then show ?thesis by (rule update_else_create) simp
qed

lemma CreateOrUpdateIfNeeded_cases:
  assumes "CreateOrUpdateIfNeeded c s w = (r, w')"
  shows "content w' = content w \<or> r = None \<and> content w' = (content w)(secret_key s \<mapsto> s)"
    and "r = None \<Longrightarrow> \<exists>s'. content w' (secret_key s) = Some s' \<and> data_equal (s_Data s) (s_Data s')"
proof -
  have refl: "data_equal d d" for d by (simp add: data_equal_iff)
  obtain g w1 where g: "GetSecret c (secret_key s) w = (g, w1)" by (metis prod.exhaust)
  have "(content w' = content w \<or> r = None \<and> content w' = (content w)(secret_key s \<mapsto> s)) \<and>
    (r = None \<longrightarrow> (\<exists>s'. content w' (secret_key s) = Some s' \<and> data_equal (s_Data s) (s_Data s')))"
  proof (cases g)
    case (Inl e)
    then have "content w1 = content w" using GetSecret_Inl g by blast
    then show ?thesis
      using assms g Inl CreateSecret_cases[of s w1 r w'] refl
      by (auto simp: CreateOrUpdateIfNeeded_def split: if_splits)
  next
    case (Inr s0)
    then have "content w1 = content w" "content w (secret_key s) = Some s0" using GetSecret_Inr g by blast+
    then show ?thesis
      using assms g Inr UpdateSecret_cases[of s w1 r w'] refl
      by (auto simp: CreateOrUpdateIfNeeded_def split: if_splits)
  qed
  then show "content w' = content w \<or> r = None \<and> content w' = (content w)(secret_key s \<mapsto> s)"
    and "r = None \<Longrightarrow> \<exists>s'. content w' (secret_key s) = Some s' \<and> data_equal (s_Data s) (s_Data s')"
    by blast+
qed

lemma EnsureSecretWithKey_cases:
  assumes "EnsureSecretWithKey c n refs key v w = (Inr x, w')"
  obtains s where "content w' n = Some s"
    and "x = (case data_lookup (s_Data s) key of None \<Rightarrow> '''' | Some y \<Rightarrow> y)"
    and "case content w n of Some s0 \<Rightarrow> s0 = s \<and> content w' = content w | None \<Rightarrow> x = v"
proof -
  obtain g w1 where g: "GetSecret c n w = (g, w1)" by (metis prod.exhaust)
  show thesis
  proof (cases g)
    case (Inl e)
    have e: "SecretNotExist e" using assms g Inl by (auto simp: EnsureSecretWithKey_def split: if_splits)
    then have none: "content w n = None" using GetSecret_Inl g Inl by blast
    let ?s = "secret_Build (secret_SetOwnerReferences refs (secret_SetField key v
                (secret_SetName (ns_Name n) (secret_SetNamespace (ns_Namespace n) secret_Builder))))"
    obtain r w2 where cr: "CreateSecret c ?s w1 = (r, w2)" by (metis prod.exhaust)
    then have r: "r = None" "x = v" "w2 = w'"
      using assms g Inl e by (auto simp: EnsureSecretWithKey_def Let_def split: option.splits)
    have "content w' n = Some ?s"
      using CreateSecret_cases[OF cr] r by (simp add: secret_builder_defs)
    moreover have "data_lookup (s_Data ?s) key = Some v" by (simp add: secret_builder_defs data_lookup_def)
    ultimately show thesis using that[of ?s] none r by simp
  next
    case (Inr s)
    then show thesis using that[of s] assms g GetSecret_Inr[of n w s w1] by (simp add: EnsureSecretWithKey_def)
  qed
qed

lemma update_ac_secret_cases:
  assumes "update_ac_secret cd c n s0 ac w = (Inr ac', w')"
  shows "ac' = ac \<and> (\<exists>s. content w' n = Some s \<and> data_lookup (s_Data s) ConfigKey = Some (ac_bytes cd ac))"
proof -
  obtain m where m: "s_Data s0 = Some m" using assms by (auto simp: update_ac_secret_def split: option.splits)
  let ?s = "s0\<lparr>s_Data := Some (map_put ConfigKey (ac_bytes cd ac) m), s_Name := ns_Name n, s_Namespace := ns_Namespace n\<rparr>"
  obtain r w1 where u: "UpdateSecret c ?s w = (r, w1)" by (metis prod.exhaust)
  then have r: "r = None" "ac' = ac" "w1 = w'" using assms m by (auto simp: update_ac_secret_def split: option.splits)
  have "content w' n = Some ?s" using UpdateSecret_cases[OF u] r by simp
  moreover have "data_lookup (s_Data ?s) ConfigKey = Some (ac_bytes cd ac)" by (simp add: data_lookup_def)
  ultimately show ?thesis using r by blast
qed

lemma createNew_cases:
  assumes "createNewAutomationConfigSecret cd c n refs ac w = (Inr ac', w')"
  shows "ac' = ac \<and> (\<exists>s. content w' n = Some s \<and> data_lookup (s_Data s) ConfigKey = Some (ac_bytes cd ac))"
proof -
  let ?s = "secret_Build (secret_SetOwnerReferences refs (secret_SetField ConfigKey (ac_bytes cd ac)
           (secret_SetNamespace (ns_Namespace n) (secret_SetName (ns_Name n) secret_Builder))))"
  obtain r w1 where u: "CreateSecret c ?s w = (r, w1)" by (metis prod.exhaust)
  then have r: "r = None" "ac' = ac" "w1 = w'"
    using assms by (auto simp: createNewAutomationConfigSecret_def Let_def split: option.splits)
  have "content w' n = Some ?s" using CreateSecret_cases[OF u] r by (simp add: secret_builder_defs)
  moreover have "data_lookup (s_Data ?s) ConfigKey = Some (ac_bytes cd ac)"
    by (simp add: data_lookup_def secret_builder_defs)
  ultimately show ?thesis using r by blast
qed

lemma EnsureSecret_cases:
  assumes "EnsureSecret cd c n refs ac w = (Inr ac', w')"
  shows "(\<exists>s bytes. content w n = Some s \<and> data_lookup (s_Data s) ConfigKey = Some bytes \<and>
            FromBytes cd bytes = Inr ac' \<and> AreEqual ac ac' \<and> content w' = content w) \<or>
         ac' = ac \<and> (\<exists>s. content w' n = Some s \<and> data_lookup (s_Data s) ConfigKey = Some (ac_bytes cd ac))"
proof -
  obtain g w1 where g: "GetSecret c n w = (g, w1)" by (metis prod.exhaust)
  show ?thesis
  proof (cases g)
    case (Inl e)
    then have "createNewAutomationConfigSecret cd c n refs ac w1 = (Inr ac', w')"
      using assms g by (auto simp: EnsureSecret_def split: if_splits)
    then show ?thesis using createNew_cases by blast
  next
    case (Inr s)
    then have s: "content w n = Some s" "content w1 = content w" using GetSecret_Inr g by blast+
    show ?thesis
      using assms g Inr s update_ac_secret_cases[of cd n s ac w1 ac' w']
      by (auto simp: EnsureSecret_def split: option.splits sum.splits if_splits)
  qed
qed

lemma ReadFromSecret_stored:
  assumes "content w n = Some s" and "data_lookup (s_Data s) ConfigKey = Some bytes"
  shows "fst (ReadFromSecret cd c n w) = (case fst (GetSecret c n w) of Inl e \<Rightarrow> Inl e | Inr _ \<Rightarrow> FromBytes cd bytes)"
  using assms(1) by (rule GetSecret_present) (simp_all add: ReadFromSecret_def assms(2))

end

interpretation mock: secret_store mockedClient mw_secrets
  by (rule secret_store.intro) (rule mock_secrets.object_store_axioms)

context secret_store
begin

lemma CreateOrUpdateIfNeeded_no_write:
  assumes "CreateOrUpdateIfNeeded c s w = (r, w')" and "content w (secret_key s) = Some s0"
    and "data_equal (s_Data s) (s_Data s0)"
  shows "content w' = content w"
proof -
  obtain g w1 where g: "GetSecret c (secret_key s) w = (g, w1)" by (metis prod.exhaust)
  show ?thesis
  proof (cases g)
    case (Inl e)
    moreover have "\<not> err_not_found e" using g Inl assms(2) GetSecret_Inl by (fastforce simp: SecretNotExist_def)
    ultimately show ?thesis
      using assms(1) g GetSecret_Inl[of "secret_key s" w e w1] by (auto simp: CreateOrUpdateIfNeeded_def)
  next
    case (Inr s1)
    then show ?thesis
      using assms g GetSecret_Inr[of "secret_key s" w s1 w1] by (auto simp: CreateOrUpdateIfNeeded_def)
  qed
qed

lemma EnsureSecret_read:
  assumes "EnsureSecret cd c n refs ac w = (Inr ac1, w1)"
    and "FromBytes cd (ac_bytes cd ac) = Inr d"
    and "marshal_AutomationConfig d = marshal_AutomationConfig ac"
  obtains s bytes e where "content w1 n = Some s" and "data_lookup (s_Data s) ConfigKey = Some bytes"
    and "FromBytes cd bytes = Inr e" and "marshal_AutomationConfig e = marshal_AutomationConfig ac1"
    and "AreEqual ac ac1"
  using EnsureSecret_cases[OF assms(1)] AreEqual_refl[of ac "ac_Version ac"] assms(2,3) that by fastforce

lemma EnsureSecret_keeps:
  assumes "content w n = Some s" and "data_lookup (s_Data s) ConfigKey = Some bytes"
    and "FromBytes cd bytes = Inr e" and "AreEqual ac e"
    and "EnsureSecret cd c n refs ac w = (r, w')"
  shows "content w' = content w \<and> r = (case fst (GetSecret c n w) of Inl err \<Rightarrow> Inl err | Inr _ \<Rightarrow> Inr e)"
  using assms(1) by (rule GetSecret_present) (use assms(2-5) in \<open>auto simp: EnsureSecret_def\<close>)

lemma EnsureSecretWithKey_keeps:
  assumes "content w n = Some s" and "EnsureSecretWithKey c n refs key v w = (r, w')"
  shows "content w' = content w \<and> r = (case fst (GetSecret c n w) of Inl err \<Rightarrow> Inl err
    | Inr _ \<Rightarrow> Inr (case data_lookup (s_Data s) key of None \<Rightarrow> '''' | Some x \<Rightarrow> x))"
  using assms(1) by (rule GetSecret_present) (use assms(2) in \<open>auto simp: EnsureSecretWithKey_def\<close>)

end

context secret_store
begin

lemma GetSecret_content: "content (snd (GetSecret c k w)) = content w"
  unfolding GetSecret_def by (rule get_agrees)

lemma ReadKey_content: "content (snd (secret_ReadKey c key k w)) = content w"
  using GetSecret_content[of k w]
  by (auto simp: secret_ReadKey_def ReadStringData_def split: prod.splits sum.splits option.splits)

lemma ReadKey_Inr:
  assumes "secret_ReadKey c key k w = (Inr v, w')"
  shows "content w' = content w \<and> (\<exists>s. content w k = Some s \<and> data_lookup (s_Data s) key = Some v)"
proof -
  obtain g w1 where g: "GetSecret c k w = (g, w1)" by (metis prod.exhaust)
  then obtain s where s: "g = Inr s"
    using assms by (cases g) (auto simp: secret_ReadKey_def ReadStringData_def)
  then have "data_lookup (s_Data s) key = Some v" "w' = w1"
    using assms g by (auto simp: secret_ReadKey_def ReadStringData_def dataToStringData_def data_lookup_def
        split: option.splits)
  then show ?thesis using GetSecret_Inr[of k w s w1] g s by simp
qed

lemma ReadKey_missing:
  assumes "secret_ReadKey c key k w = (Inl e, w')" and "err_not_found e"
  shows "content w k = None"
proof -
  obtain g w1 where g: "GetSecret c k w = (g, w1)" by (metis prod.exhaust)
  then have "g = Inl e"
    using assms by (cases g) (auto simp: secret_ReadKey_def ReadStringData_def split: option.splits)
  then show ?thesis using GetSecret_Inl[of k w e w1] g assms(2) by (simp add: SecretNotExist_def)
qed

end

text \<open>A cluster in which calls fail only for the documented reasons: reading or updating a
  secret that does not exist, creating one that does.\<close>

locale reliable_secrets = secret_store c content
  for c :: "'w kube_client" and content :: "'w \<Rightarrow> nsname \<Rightarrow> secret option" +
  assumes get_present: "content w k = Some s \<Longrightarrow> fst (GetSecret c k w) = Inr s"
    and get_absent: "content w k = None \<Longrightarrow> \<exists>e. fst (GetSecret c k w) = Inl e \<and> err_not_found e"
    and update_present: "content w (secret_key s) \<noteq> None \<Longrightarrow> fst (UpdateSecret c s w) = None"
    and update_absent: "content w (secret_key s) = None \<Longrightarrow>
        \<exists>e. fst (UpdateSecret c s w) = Some e \<and> err_not_found e"
    and create_absent: "content w (secret_key s) = None \<Longrightarrow> fst (CreateSecret c s w) = None"
begin

lemma GetSecret_run:
  "content w k = Some s \<Longrightarrow> \<exists>w'. GetSecret c k w = (Inr s, w') \<and> content w' = content w"
  by (metis GetSecret_content get_present prod.collapse)

lemma GetSecret_run_absent:
  "content w k = None \<Longrightarrow> \<exists>e w'. GetSecret c k w = (Inl e, w') \<and> err_not_found e \<and> content w' = content w"
  by (metis GetSecret_content get_absent prod.collapse)

lemma ReadKey_run:
  assumes "content w k = Some s" and "data_lookup (s_Data s) key = Some v"
  shows "\<exists>w'. secret_ReadKey c key k w = (Inr v, w') \<and> content w' = content w"
  using GetSecret_run[OF assms(1)] assms(2)
  by (auto simp: secret_ReadKey_def ReadStringData_def dataToStringData_def data_lookup_def split: option.splits)

lemma ReadKey_run_absent:
  assumes "content w k = None"
  shows "\<exists>e w'. secret_ReadKey c key k w = (Inl e, w') \<and> err_not_found e \<and> content w' = content w"
  using GetSecret_run_absent[OF assms] by (auto simp: secret_ReadKey_def ReadStringData_def)

lemma CreateOrUpdate_run:
  "\<exists>w'. secret_CreateOrUpdate c s w = (None, w') \<and> content w' = (content w)(secret_key s \<mapsto> s)"
proof -
  obtain r w1 where u: "UpdateSecret c s w = (r, w1)" by (metis prod.exhaust)
  have "fst (secret_CreateOrUpdate c s w) = None"
  proof (cases "content w (secret_key s)")
    case None
    obtain e where "r = Some e" "err_not_found e" using update_absent[OF None] u by auto
    moreover have "content w1 (secret_key s) = None"
      using UpdateSecret_cases[OF u] None \<open>r = Some e\<close> by simp
    ultimately show ?thesis
      using create_absent u by (simp add: secret_CreateOrUpdate_def SecretNotExist_def)
  next
    case (Some s0)
    then show ?thesis using update_present[of w s] u by (simp add: secret_CreateOrUpdate_def)
  qed
  then show ?thesis using CreateOrUpdate_cases by (metis prod.collapse)
qed

end

interpretation mock_reliable: reliable_secrets mockedClient mw_secrets
  by unfold_locales
     (auto simp: client_defs mockedClient_def mock_defs notFoundError_def split: option.splits)

subsection \<open>What the helpers promise\<close>

text \<open>A cluster with one secret, and a codec for the witnesses.\<close>

definition demo_secret :: "string \<Rightarrow> secret" where
  "demo_secret v = secret_Build (secret_SetField ''password'' v (secret_SetName ''user''
     (secret_SetNamespace ''ns'' secret_Builder)))"

definition demo_cluster :: "secret list \<Rightarrow> mock_world" where
  "demo_cluster ss = NewMockedClient\<lparr>mw_secrets := map_of (map (\<lambda>s. (secret_key s, s)) ss)\<rparr>"

text \<open>\<open>CreateOrUpdateIfNeeded\<close> leaves a secret with the wanted data in the cluster, writes
  nothing when the data are already there, never touches another secret, and changes
  nothing when it fails.\<close>

theorem CreateOrUpdateIfNeeded_correct:
  assumes "secret_store c content" and "CreateOrUpdateIfNeeded c s w = (r, w')"
  shows "content w' = (content w)(secret_key s := content w' (secret_key s)) \<and>
    (case r of
       Some _ \<Rightarrow> content w' = content w
     | None \<Rightarrow> (\<exists>s'. content w' (secret_key s) = Some s' \<and> data_equal (s_Data s) (s_Data s'))) \<and>
    (case content w (secret_key s) of
       None \<Rightarrow> True
     | Some s0 \<Rightarrow> if data_equal (s_Data s) (s_Data s0) then content w' = content w else True)"
proof -
  note cases = secret_store.CreateOrUpdateIfNeeded_cases[OF assms]
  note no_write = secret_store.CreateOrUpdateIfNeeded_no_write[OF assms]
  have "content w' = (content w)(secret_key s := content w' (secret_key s))"
    using cases(1) by (auto simp: fun_eq_iff)
  moreover have "r = Some e \<Longrightarrow> content w' = content w" for e using cases(1) by auto
  ultimately show ?thesis using cases(2) no_write by (auto split: option.splits)
qed

text \<open>A generated password or key is stable: once \<open>EnsureSecretWithKey\<close> returned a value, a
  later call with a freshly generated value writes nothing and returns the same one; it
  fails only when the secret cannot be read.\<close>

theorem EnsureSecretWithKey_stable:
  assumes "secret_store c content"
    and "EnsureSecretWithKey c n refs key v w = (Inr x, w1)"
    and "EnsureSecretWithKey c n refs key v' w1 = (r, w2)"
  shows "content w2 = content w1 \<and> r = (case fst (GetSecret c n w1) of Inl e \<Rightarrow> Inl e | Inr _ \<Rightarrow> Inr x)"
proof -
  obtain s where s: "content w1 n = Some s" "x = (case data_lookup (s_Data s) key of None \<Rightarrow> '''' | Some y \<Rightarrow> y)"
    by (rule secret_store.EnsureSecretWithKey_cases[OF assms(1,2)])
  show ?thesis using secret_store.EnsureSecretWithKey_keeps[OF assms(1) s(1) assms(3)] unfolding s(2) .
qed

lemma FromBytes_written:
  assumes "json_tree cd (ac_bytes cd ac) = Inr (marshal_AutomationConfig ac)"
  shows "FromBytes cd (ac_bytes cd ac) = Inr (read_back ac)"
  using assms by (simp add: FromBytes_def unmarshal_marshal)

text \<open>The config \<open>EnsureSecret\<close> returns is the one the agents and the next reconciliation
  read from the secret (up to its JSON text, which is what the agents see), and it is
  the desired one up to the version; the read fails only when the secret cannot be fetched.\<close>

lemma EnsureSecret_then_read:
  assumes "secret_store c content"
    and "json_tree cd (ac_bytes cd ac) = Inr (marshal_AutomationConfig ac)"
    and "EnsureSecret cd c n refs ac w = (Inr ac1, w1)"
  shows "AreEqual ac ac1 \<and>
    (case fst (GetSecret c n w1) of
       Inl e \<Rightarrow> fst (ReadFromSecret cd c n w1) = Inl e
     | Inr _ \<Rightarrow> (\<exists>ac2. fst (ReadFromSecret cd c n w1) = Inr ac2 \<and>
                    marshal_AutomationConfig ac2 = marshal_AutomationConfig ac1))"
proof -
  obtain s bytes e where "content w1 n = Some s" "data_lookup (s_Data s) ConfigKey = Some bytes"
    "FromBytes cd bytes = Inr e" "marshal_AutomationConfig e = marshal_AutomationConfig ac1" "AreEqual ac ac1"
    using secret_store.EnsureSecret_read[OF assms(1,3) FromBytes_written[OF assms(2)] marshal_read_back] by metis
  then show ?thesis using secret_store.ReadFromSecret_stored[OF assms(1), of w1 n s bytes] by (auto split: sum.splits)
qed

text \<open>Publishing the same content again, whatever version it carries, writes nothing and
  returns the published config (or the error of reading the secret): the agents are not
  sent after a new version.\<close>

lemma EnsureSecret_idempotent:
  assumes "secret_store c content"
    and "FromBytes cd (ac_bytes cd ac) = Inr d"
    and "marshal_AutomationConfig d = marshal_AutomationConfig ac"
    and "EnsureSecret cd c n refs ac w = (Inr ac1, w1)"
    and "EnsureSecret cd c n refs (ac\<lparr>ac_Version := v\<rparr>) w1 = (r, w2)"
  shows "content w2 = content w1 \<and>
    (case fst (GetSecret c n w1) of
       Inl e \<Rightarrow> r = Inl e
     | Inr _ \<Rightarrow> (\<exists>ac2. r = Inr ac2 \<and> marshal_AutomationConfig ac2 = marshal_AutomationConfig ac1))"
proof -
  obtain s bytes e where *: "content w1 n = Some s" "data_lookup (s_Data s) ConfigKey = Some bytes"
    "FromBytes cd bytes = Inr e" "marshal_AutomationConfig e = marshal_AutomationConfig ac1" "AreEqual ac ac1"
    using secret_store.EnsureSecret_read[OF assms(1,4,2,3)] by metis
  then have "AreEqual ac1 e"
    using AreEqual_refl[of ac1 "ac_Version ac1"] marshal_version[of e ac1] by (simp add: AreEqual_def)
  then have "AreEqual (ac\<lparr>ac_Version := v\<rparr>) e" using *(5) AreEqual_trans by simp
  from secret_store.EnsureSecret_keeps[OF assms(1) *(1-3) this assms(5)] *(4)
  show ?thesis by (auto split: sum.splits)
qed

subsection \<open>File-like properties\<close>

lemma split_char_clean: "c \<notin> set s \<Longrightarrow> split_char c s = [s]"
  by (induction s) auto

lemma split_char_append: "c \<notin> set s \<Longrightarrow> split_char c (s @ c # t) = s # split_char c t"
  by (induction s) (auto split: list.splits)

lemma split_char_join:
  "ss \<noteq> [] \<Longrightarrow> list_all (\<lambda>s. c \<notin> set s) ss \<Longrightarrow> split_char c (str_join [c] ss) = ss"
proof (induction "[c]" ss rule: str_join.induct)
  case (3 x y ys)
  then show ?case using split_char_append[of c x "str_join [c] (y # ys)"] by simp
qed (simp_all add: split_char_clean)

lemma trim_right_replicate: "last s \<noteq> c \<Longrightarrow> s \<noteq> [] \<Longrightarrow> trim_right c (s @ replicate n c) = s"
proof -
  have "dropWhile (\<lambda>d. d = c) (replicate n c @ t) = dropWhile (\<lambda>d. d = c) t" for t by (induction n) auto
  then show "last s \<noteq> c \<Longrightarrow> s \<noteq> [] \<Longrightarrow> ?thesis"
    by (cases s rule: rev_cases) (auto simp: trim_right_def)
qed

lemma last_str_join: "ss \<noteq> [] \<Longrightarrow> list_all (\<lambda>s. s \<noteq> []) ss \<Longrightarrow> last (str_join sep ss) = last (last ss) \<and> str_join sep ss \<noteq> []"
  by (induction sep ss rule: str_join.induct) auto

definition property_line :: "string \<times> string \<Rightarrow> string" where
  "property_line kv = fst kv @ ''='' @ snd kv"

definition clean_property :: "string \<times> string \<Rightarrow> bool" where
  "clean_property kv = (set (fst kv) \<inter> {CHR ''='', newline} = {} \<and> set (snd kv) \<inter> {CHR ''='', newline} = {})"

lemma properties_loop_clean:
  "list_all clean_property kvs \<Longrightarrow>
   properties_loop (map property_line kvs) m = Inr (fold (\<lambda>(k, v). map_put k v) kvs m)"
  by (induction kvs arbitrary: m)
     (auto simp: property_line_def clean_property_def split_char_append split_char_clean)

lemma map_put_new: "k \<notin> fst ` set m \<Longrightarrow> map_put k v m = m @ [(k, v)]"
  by (induction m) auto

lemma fold_map_put_distinct:
  "distinct (map fst (m @ kvs)) \<Longrightarrow> fold (\<lambda>(k, v). map_put k v) kvs m = m @ kvs"
  by (induction kvs arbitrary: m) (auto simp: map_put_new)

text \<open>\<open>filelikePropertiesToMap\<close> reads back what was written as \<open>key=value\<close> lines, with or
  without newlines at the end, as long as keys and values contain neither \<open>=\<close> nor a newline.\<close>

theorem filelikeProperties_roundtrip:
  assumes "kvs \<noteq> []" and "distinct (map fst kvs)" and "list_all clean_property kvs"
  shows "filelikePropertiesToMap (str_join [newline] (map property_line kvs) @ replicate n newline) = Inr kvs"
proof -
  let ?s = "str_join [newline] (map property_line kvs)"
  have clean: "list_all (\<lambda>s. newline \<notin> set s) (map property_line kvs)"
    using assms(3) by (auto simp: list_all_iff property_line_def clean_property_def newline_def)
  have ne: "list_all (\<lambda>s. s \<noteq> []) (map property_line kvs)" by (simp add: list_all_iff property_line_def)
  have "last ?s = last (property_line (last kvs))" "?s \<noteq> []"
    using last_str_join[OF _ ne, of "[newline]"] assms(1) by (simp_all add: last_map)
  moreover have "last (property_line (last kvs)) \<noteq> newline"
  proof
    assume eq: "last (property_line (last kvs)) = newline"
    have "last kvs \<in> set kvs" using assms(1) by simp
    then have "newline \<notin> set (property_line (last kvs))" using clean unfolding list_all_iff by simp
    moreover have "property_line (last kvs) \<noteq> []" by (simp add: property_line_def)
    ultimately show False using eq last_in_set by metis
  qed
  ultimately have "trim_right newline (?s @ replicate n newline) = ?s"
    by (simp add: trim_right_replicate)
  moreover have "split_char newline ?s = map property_line kvs"
    using clean assms(1) by (intro split_char_join) simp_all
  ultimately show ?thesis
    using assms fold_map_put_distinct[of "[]" kvs]
    by (simp add: filelikePropertiesToMap_def properties_loop_clean)
qed

end
