(* ===== verification/Merge.thy ===== *)
theory Merge
  imports Kube_Objects "HOL-Library.Multiset"
begin

text \<open>
  Merging the objects the operator builds with what the user overrides,
  \<open>pkg/util/merge\<close> and \<open>pkg/util/envvar\<close>.

  Most merges go through Go maps keyed by name and sort the result; Go iterates
  over a map in an unspecified order, which is the parameter \<open>order\<close>: it
  permutes the keys of the map.  The locale \<open>keyed_merge\<close> shows once for all such
  merges that the order does not matter, and what the result contains.
\<close>

subsection \<open>Iterating over maps\<close>

type_synonym iteration = "string list \<Rightarrow> string list"

definition iterate :: "iteration \<Rightarrow> (string \<times> 'v) list \<Rightarrow> (string \<times> 'v) list" where
  "iterate order m = List.map_filter (\<lambda>k. map_option (Pair k) (map_of m k)) (order (map fst m))"

definition is_iteration :: "iteration \<Rightarrow> bool" where
  "is_iteration order = (\<forall>ks. mset (order ks) = mset ks)"

definition by_key :: "('a \<Rightarrow> string) \<Rightarrow> 'a list \<Rightarrow> (string \<times> 'a) list" where
  "by_key key xs = fold (\<lambda>x. map_put (key x) x) xs []"

definition merge_maps :: "('a \<Rightarrow> 'a \<Rightarrow> 'a) \<Rightarrow> (string \<times> 'a) list \<Rightarrow> (string \<times> 'a) list \<Rightarrow> (string \<times> 'a) list" where
  "merge_maps f original override =
     fold (\<lambda>(k, v). map_put k (case map_of original k of Some orig \<Rightarrow> f orig v | None \<Rightarrow> v)) override original"

definition merge_by_key :: "iteration \<Rightarrow> ('a \<Rightarrow> string) \<Rightarrow> ('a \<Rightarrow> 'a \<Rightarrow> 'a) \<Rightarrow> 'a list \<Rightarrow> 'a list \<Rightarrow> 'a list" where
  "merge_by_key order key f original override =
     sort_key key (map snd (iterate order
       (merge_maps f (by_key key original) (iterate order (by_key key override)))))"

subsection \<open>Fields\<close>

definition override_str :: "string \<Rightarrow> string \<Rightarrow> string" where
  "override_str d v = (if v \<noteq> '''' then v else d)"

definition override_opt :: "'a option \<Rightarrow> 'a option \<Rightarrow> 'a option" where
  "override_opt d v = (if v \<noteq> None then v else d)"

definition override_bool :: "bool \<Rightarrow> bool \<Rightarrow> bool" where
  "override_bool d v = (if v then v else d)"

definition override_int :: "int \<Rightarrow> int \<Rightarrow> int" where
  "override_int d v = (if v \<noteq> 0 then v else d)"

definition override_list :: "'a list \<Rightarrow> 'a list \<Rightarrow> 'a list" where
  "override_list d v = (if v \<noteq> [] then v else d)"

lemma override_empty [simp]:
  "override_str d '''' = d" "override_opt e None = e" "override_bool b False = b"
  "override_int i 0 = i" "override_list l [] = l"
  by (simp_all add: override_str_def override_opt_def override_bool_def override_int_def override_list_def)

text \<open>Pointers to structs: \<open>nil\<close> on either side gives the other.\<close>

definition merge_ptr :: "('a \<Rightarrow> 'a \<Rightarrow> 'a) \<Rightarrow> 'a option \<Rightarrow> 'a option \<Rightarrow> 'a option" where
  "merge_ptr f original override = (case override of None \<Rightarrow> original
     | Some v \<Rightarrow> (case original of None \<Rightarrow> Some v | Some d \<Rightarrow> Some (f d v)))"

lemma merge_ptr_None [simp]: "merge_ptr f d None = d" by (simp add: merge_ptr_def)

subsection \<open>Maps and slices\<close>

definition StringSlices :: "string list \<Rightarrow> string list \<Rightarrow> string list" where
  "StringSlices xs ys =
     fold (\<lambda>s merged. if contains_String merged s then merged else merged @ [s]) ys xs"

definition StringToStringMap :: "str_map \<Rightarrow> str_map \<Rightarrow> str_map" where
  "StringToStringMap m1 m2 = fold (\<lambda>(k, v). map_put k v) m2 m1"

definition StringToBoolMap :: "(string \<times> bool) list \<Rightarrow> (string \<times> bool) list \<Rightarrow> (string \<times> bool) list" where
  "StringToBoolMap m1 m2 = fold (\<lambda>(k, v). map_put k v) m2 m1"

subsection \<open>Parts of a container\<close>

definition Probe :: "probe option \<Rightarrow> probe option \<Rightarrow> probe option" where
  "Probe = merge_ptr (\<lambda>original override. original\<lparr>
     pr_Exec := override_opt (pr_Exec original) (pr_Exec override),
     pr_HTTPGet := override_opt (pr_HTTPGet original) (pr_HTTPGet override),
     pr_TCPSocket := override_opt (pr_TCPSocket original) (pr_TCPSocket override),
     pr_InitialDelaySeconds := override_int (pr_InitialDelaySeconds original) (pr_InitialDelaySeconds override),
     pr_TimeoutSeconds := override_int (pr_TimeoutSeconds original) (pr_TimeoutSeconds override),
     pr_PeriodSeconds := override_int (pr_PeriodSeconds original) (pr_PeriodSeconds override),
     pr_SuccessThreshold := override_int (pr_SuccessThreshold original) (pr_SuccessThreshold override),
     pr_FailureThreshold := override_int (pr_FailureThreshold original) (pr_FailureThreshold override)\<rparr>)"

definition LifeCycle :: "lifecycle option \<Rightarrow> lifecycle option \<Rightarrow> lifecycle option" where
  "LifeCycle = merge_ptr (\<lambda>original override. original\<lparr>
     lc_PostStart := override_opt (lc_PostStart original) (lc_PostStart override),
     lc_PreStop := override_opt (lc_PreStop original) (lc_PreStop override)\<rparr>)"

definition SecurityContext :: "security_context option \<Rightarrow> security_context option \<Rightarrow> security_context option" where
  "SecurityContext = merge_ptr (\<lambda>original override. original\<lparr>
     sc_Capabilities := override_opt (sc_Capabilities original) (sc_Capabilities override),
     sc_Privileged := override_opt (sc_Privileged original) (sc_Privileged override),
     sc_SELinuxOptions := override_opt (sc_SELinuxOptions original) (sc_SELinuxOptions override),
     sc_WindowsOptions := override_opt (sc_WindowsOptions original) (sc_WindowsOptions override),
     sc_RunAsUser := override_opt (sc_RunAsUser original) (sc_RunAsUser override),
     sc_RunAsGroup := override_opt (sc_RunAsGroup original) (sc_RunAsGroup override),
     sc_RunAsNonRoot := override_opt (sc_RunAsNonRoot original) (sc_RunAsNonRoot override),
     sc_ReadOnlyRootFilesystem := override_opt (sc_ReadOnlyRootFilesystem original) (sc_ReadOnlyRootFilesystem override),
     sc_AllowPrivilegeEscalation := override_opt (sc_AllowPrivilegeEscalation original) (sc_AllowPrivilegeEscalation override),
     sc_ProcMount := override_opt (sc_ProcMount original) (sc_ProcMount override)\<rparr>)"

definition mergeVolumeDevice :: "volume_device \<Rightarrow> volume_device \<Rightarrow> volume_device" where
  "mergeVolumeDevice original override = original\<lparr>
     vd_Name := override_str (vd_Name original) (vd_Name override),
     vd_DevicePath := override_str (vd_DevicePath original) (vd_DevicePath override)\<rparr>"

definition VolumeDevices :: "iteration \<Rightarrow> volume_device list \<Rightarrow> volume_device list \<Rightarrow> volume_device list" where
  "VolumeDevices order = merge_by_key order vd_Name mergeVolumeDevice"

definition mergeSingleEnv :: "env_var \<Rightarrow> env_var \<Rightarrow> env_var" where
  "mergeSingleEnv original override =
    (let merged = (if env_Value override \<noteq> ''''
                   then original\<lparr>env_Value := env_Value override, env_ValueFrom := None\<rparr> else original)
     in if env_ValueFrom override \<noteq> None
        then merged\<lparr>env_ValueFrom := env_ValueFrom override, env_Value := ''''\<rparr> else merged)"

definition Envs :: "iteration \<Rightarrow> env_var list \<Rightarrow> env_var list \<Rightarrow> env_var list" where
  "Envs order = merge_by_key order env_Name mergeSingleEnv"

definition ResourceRequirements :: "resource_requirements \<Rightarrow> resource_requirements \<Rightarrow> resource_requirements" where
  "ResourceRequirements original override = original\<lparr>
     rr_Limits := override_opt (rr_Limits original) (rr_Limits override),
     rr_Requests := override_opt (rr_Requests original) (rr_Requests override)\<rparr>"

definition ContainerPorts :: "container_port \<Rightarrow> container_port \<Rightarrow> container_port" where
  "ContainerPorts defaultPort overridePort = defaultPort\<lparr>
     cp_Name := override_str (cp_Name defaultPort) (cp_Name overridePort),
     cp_ContainerPort := override_int (cp_ContainerPort defaultPort) (cp_ContainerPort overridePort),
     cp_HostPort := override_int (cp_HostPort defaultPort) (cp_HostPort overridePort),
     cp_Protocol := override_str (cp_Protocol defaultPort) (cp_Protocol overridePort),
     cp_HostIP := override_str (cp_HostIP defaultPort) (cp_HostIP overridePort)\<rparr>"

definition ContainerPortSlicesByName :: "iteration \<Rightarrow> container_port list \<Rightarrow> container_port list \<Rightarrow> container_port list" where
  "ContainerPortSlicesByName order defaultPorts overridePorts =
    (let defaultPortMap = by_key cp_Name defaultPorts;
         overridePortsMap = by_key cp_Name overridePorts
     in sort_key cp_Name
          (map (\<lambda>(portName, defaultPort). case map_of overridePortsMap portName of
                  Some overridePort \<Rightarrow> ContainerPorts defaultPort overridePort | None \<Rightarrow> defaultPort)
             (iterate order defaultPortMap) @
           map snd (filter (\<lambda>(portName, _). map_of defaultPortMap portName = None)
             (iterate order overridePortsMap))))"

definition volumeMountToString :: "volume_mount \<Rightarrow> string" where
  "volumeMountToString v = str_join ''_'' [vm_Name v, vm_MountPath v, vm_SubPath v]"

definition VolumeMount :: "volume_mount \<Rightarrow> volume_mount \<Rightarrow> volume_mount" where
  "VolumeMount original override = original\<lparr>
     vm_Name := override_str (vm_Name original) (vm_Name override),
     vm_ReadOnly := override_bool (vm_ReadOnly original) (vm_ReadOnly override),
     vm_MountPath := override_str (vm_MountPath original) (vm_MountPath override),
     vm_SubPath := override_str (vm_SubPath original) (vm_SubPath override),
     vm_MountPropagation := override_opt (vm_MountPropagation original) (vm_MountPropagation override),
     vm_SubPathExpr := override_str (vm_SubPathExpr original) (vm_SubPathExpr override)\<rparr>"

definition VolumeMounts :: "iteration \<Rightarrow> volume_mount list \<Rightarrow> volume_mount list \<Rightarrow> volume_mount list" where
  "VolumeMounts order = merge_by_key order volumeMountToString VolumeMount"

definition MergeWithOverride :: "iteration \<Rightarrow> env_var list \<Rightarrow> env_var list \<Rightarrow> env_var list" where
  "MergeWithOverride order existing desired =
     sort_key env_Name (map snd (iterate order (fold (\<lambda>env. map_put (env_Name env) env) desired (by_key env_Name existing))))"

subsection \<open>Containers\<close>

definition Container :: "iteration \<Rightarrow> container \<Rightarrow> container \<Rightarrow> container" where
  "Container order d v = d\<lparr>
     c_Name := override_str (c_Name d) (c_Name v),
     c_Image := override_str (c_Image d) (c_Image v),
     c_Command := override_list (c_Command d) (c_Command v),
     c_Args := override_list (c_Args d) (c_Args v),
     c_WorkingDir := override_str (c_WorkingDir d) (c_WorkingDir v),
     c_Ports := ContainerPortSlicesByName order (c_Ports d) (c_Ports v),
     c_Env := Envs order (c_Env d) (c_Env v),
     c_Resources := ResourceRequirements (c_Resources d) (c_Resources v),
     c_VolumeMounts := VolumeMounts order (c_VolumeMounts d) (c_VolumeMounts v),
     c_VolumeDevices := VolumeDevices order (c_VolumeDevices d) (c_VolumeDevices v),
     c_LivenessProbe := Probe (c_LivenessProbe d) (c_LivenessProbe v),
     c_ReadinessProbe := Probe (c_ReadinessProbe d) (c_ReadinessProbe v),
     c_StartupProbe := Probe (c_StartupProbe d) (c_StartupProbe v),
     c_Lifecycle := LifeCycle (c_Lifecycle d) (c_Lifecycle v),
     c_TerminationMessagePath := override_str (c_TerminationMessagePath d) (c_TerminationMessagePath v),
     c_TerminationMessagePolicy := override_str (c_TerminationMessagePolicy d) (c_TerminationMessagePolicy v),
     c_ImagePullPolicy := override_str (c_ImagePullPolicy d) (c_ImagePullPolicy v),
     c_SecurityContext := SecurityContext (c_SecurityContext d) (c_SecurityContext v),
     c_Stdin := override_bool (c_Stdin d) (c_Stdin v),
     c_StdinOnce := override_bool (c_StdinOnce d) (c_StdinOnce v),
     c_TTY := override_bool (c_TTY d) (c_TTY v)\<rparr>"

definition Containers :: "iteration \<Rightarrow> container list \<Rightarrow> container list \<Rightarrow> container list" where
  "Containers order = merge_by_key order c_Name (Container order)"

text \<open>An ephemeral container has the fields of a container and a target; its command and
  arguments are united instead of replaced.\<close>

definition EphemeralContainer :: "iteration \<Rightarrow> ephemeral_container \<Rightarrow> ephemeral_container \<Rightarrow> ephemeral_container" where
  "EphemeralContainer order d v = d\<lparr>
     ec_Common := (Container order (ec_Common d) (ec_Common v))\<lparr>
        c_Command := StringSlices (c_Command (ec_Common d)) (c_Command (ec_Common v)),
        c_Args := StringSlices (c_Args (ec_Common d)) (c_Args (ec_Common v))\<rparr>,
     ec_TargetContainerName := override_str (ec_TargetContainerName d) (ec_TargetContainerName v)\<rparr>"

definition EphemeralContainers :: "iteration \<Rightarrow> ephemeral_container list \<Rightarrow> ephemeral_container list \<Rightarrow> ephemeral_container list" where
  "EphemeralContainers order = merge_by_key order (\<lambda>e. c_Name (ec_Common e)) (EphemeralContainer order)"

subsection \<open>Volumes\<close>

definition mergeKeyToPath :: "key_to_path \<Rightarrow> key_to_path \<Rightarrow> key_to_path" where
  "mergeKeyToPath defaultKey overrideKey =
    (if kp_Key defaultKey \<noteq> kp_Key overrideKey then defaultKey
     else defaultKey\<lparr>kp_Path := override_str (kp_Path defaultKey) (kp_Path overrideKey),
                     kp_Mode := override_opt (kp_Mode defaultKey) (kp_Mode overrideKey)\<rparr>)"

definition mergeKeyToPathItems :: "iteration \<Rightarrow> key_to_path list \<Rightarrow> key_to_path list \<Rightarrow> key_to_path list" where
  "mergeKeyToPathItems order defaultItems overrideItems =
    (let defaultItemsMap = by_key kp_Key defaultItems;
         overrideItemsMap = by_key kp_Key overrideItems
     in map (\<lambda>(_, defaultItem). case map_of overrideItemsMap (kp_Key defaultItem) of
               Some overrideItem \<Rightarrow> mergeKeyToPath defaultItem overrideItem | None \<Rightarrow> defaultItem)
          (iterate order defaultItemsMap) @
        map snd (filter (\<lambda>(_, overrideItem). map_of defaultItemsMap (kp_Key overrideItem) = None)
          (iterate order overrideItemsMap)))"

definition Volume :: "iteration \<Rightarrow> volume \<Rightarrow> volume \<Rightarrow> volume" where
  "Volume order defaultVolume overrideVolume =
    (let ds = vol_Source defaultVolume; os = vol_Source overrideVolume
     in case (vs_EmptyDir os, vs_EmptyDir ds) of
          (Some oe, Some de) \<Rightarrow> defaultVolume\<lparr>vol_Source := ds\<lparr>vs_EmptyDir := Some (de\<lparr>
             ed_Medium := override_str (ed_Medium de) (ed_Medium oe),
             ed_SizeLimit := override_opt (ed_SizeLimit de) (ed_SizeLimit oe)\<rparr>)\<rparr>\<rparr>
        | _ \<Rightarrow> (case (vs_Secret os, vs_Secret ds) of
            (Some osec, Some dsec) \<Rightarrow> defaultVolume\<lparr>vol_Source := ds\<lparr>vs_Secret := Some (dsec\<lparr>
               ss_SecretName := override_str (ss_SecretName dsec) (ss_SecretName osec),
               ss_Items := mergeKeyToPathItems order (ss_Items dsec) (ss_Items osec),
               ss_DefaultMode := override_opt (ss_DefaultMode dsec) (ss_DefaultMode osec)\<rparr>)\<rparr>\<rparr>
          | _ \<Rightarrow> (case (vs_ConfigMap os, vs_ConfigMap ds) of
              (Some oc, Some dc) \<Rightarrow> defaultVolume\<lparr>vol_Source := ds\<lparr>vs_ConfigMap := Some (dc\<lparr>
                 cs_Name := override_str (cs_Name dc) (cs_Name oc),
                 cs_Items := mergeKeyToPathItems order (cs_Items dc) (cs_Items oc),
                 cs_DefaultMode := override_opt (cs_DefaultMode dc) (cs_DefaultMode oc),
                 cs_Optional := override_opt (cs_Optional dc) (cs_Optional oc)\<rparr>)\<rparr>\<rparr>
            | _ \<Rightarrow> defaultVolume\<lparr>vol_Source := os\<rparr>)))"

definition Volumes :: "iteration \<Rightarrow> volume list \<Rightarrow> volume list \<Rightarrow> volume list" where
  "Volumes order defaultVolumes overrideVolumes =
    (let defaultVolumesMap = by_key vol_Name defaultVolumes;
         overrideVolumesMap = by_key vol_Name overrideVolumes
     in sort_key vol_Name
          (map (\<lambda>d. case map_of overrideVolumesMap (vol_Name d) of Some v \<Rightarrow> Volume order d v | None \<Rightarrow> d) defaultVolumes @
           filter (\<lambda>v. map_of defaultVolumesMap (vol_Name v) = None) overrideVolumes))"

subsection \<open>Pod templates\<close>

definition Affinity :: "affinity option \<Rightarrow> affinity option \<Rightarrow> affinity option" where
  "Affinity = merge_ptr (\<lambda>d v. d\<lparr>
     aff_NodeAffinity := override_opt (aff_NodeAffinity d) (aff_NodeAffinity v),
     aff_PodAffinity := override_opt (aff_PodAffinity d) (aff_PodAffinity v),
     aff_PodAntiAffinity := override_opt (aff_PodAntiAffinity d) (aff_PodAntiAffinity v)\<rparr>)"

definition TopologySpreadConstraint ::
    "topology_spread_constraint \<Rightarrow> topology_spread_constraint \<Rightarrow> topology_spread_constraint" where
  "TopologySpreadConstraint original override = original\<lparr>
     tsc_LabelSelector := override_opt (tsc_LabelSelector original) (tsc_LabelSelector override),
     tsc_MaxSkew := override_int (tsc_MaxSkew original) (tsc_MaxSkew override),
     tsc_WhenUnsatisfiable := override_str (tsc_WhenUnsatisfiable original) (tsc_WhenUnsatisfiable override)\<rparr>"

text \<open>The one list built from a map that is not sorted afterwards, beside the items of a volume.\<close>

definition TopologySpreadConstraints ::
    "iteration \<Rightarrow> topology_spread_constraint list \<Rightarrow> topology_spread_constraint list \<Rightarrow> topology_spread_constraint list" where
  "TopologySpreadConstraints order original override =
     map snd (iterate order (merge_maps TopologySpreadConstraint
       (by_key tsc_TopologyKey original) (iterate order (by_key tsc_TopologyKey override))))"

definition add_host_alias :: "host_alias \<Rightarrow> (string \<times> host_alias) list \<Rightarrow> (string \<times> host_alias) list" where
  "add_host_alias override m = map_put (ha_IP override) (case map_of m (ha_IP override) of
      Some existing \<Rightarrow> \<lparr>ha_IP = ha_IP override,
        ha_Hostnames = fold (\<lambda>hn merged. if contains_String merged hn then merged else merged @ [hn])
          (ha_Hostnames override) (ha_Hostnames existing)\<rparr>
    | None \<Rightarrow> override) m"

definition HostAliases :: "iteration \<Rightarrow> host_alias list \<Rightarrow> host_alias list \<Rightarrow> host_alias list" where
  "HostAliases order originalAliases overrideAliases =
     sort_key ha_IP (map snd (iterate order (fold add_host_alias overrideAliases (by_key ha_IP originalAliases))))"

definition opt_list :: "'a list option \<Rightarrow> 'a list" where
  "opt_list x = (case x of None \<Rightarrow> [] | Some l \<Rightarrow> l)"

definition PodDNSConfig :: "pod_dns_config option \<Rightarrow> pod_dns_config option \<Rightarrow> pod_dns_config option" where
  "PodDNSConfig = merge_ptr (\<lambda>d v. d\<lparr>
     dns_Options := override_opt (dns_Options d) (dns_Options v),
     dns_Nameservers := (case dns_Nameservers v of None \<Rightarrow> dns_Nameservers d
        | Some ns \<Rightarrow> Some (StringSlices (opt_list (dns_Nameservers d)) ns)),
     dns_Searches := (case dns_Searches v of None \<Rightarrow> dns_Searches d
        | Some ss \<Rightarrow> Some (StringSlices (opt_list (dns_Searches d)) ss))\<rparr>)"

definition merge_pod_scheduling :: "iteration \<Rightarrow> pod_scheduling \<Rightarrow> pod_scheduling \<Rightarrow> pod_scheduling" where
  "merge_pod_scheduling order d v = d\<lparr>
     ps_NodeSelector := StringToStringMap (ps_NodeSelector d) (ps_NodeSelector v),
     ps_NodeName := override_str (ps_NodeName d) (ps_NodeName v),
     ps_Affinity := Affinity (ps_Affinity d) (ps_Affinity v),
     ps_SchedulerName := override_str (ps_SchedulerName d) (ps_SchedulerName v),
     ps_Tolerations := override_opt (ps_Tolerations d) (ps_Tolerations v),
     ps_PriorityClassName := override_str (ps_PriorityClassName d) (ps_PriorityClassName v),
     ps_Priority := override_opt (ps_Priority d) (ps_Priority v),
     ps_ReadinessGates := override_opt (ps_ReadinessGates d) (ps_ReadinessGates v),
     ps_RuntimeClassName := override_opt (ps_RuntimeClassName d) (ps_RuntimeClassName v),
     ps_PreemptionPolicy := override_opt (ps_PreemptionPolicy d) (ps_PreemptionPolicy v),
     ps_Overhead := override_opt (ps_Overhead d) (ps_Overhead v),
     ps_TopologySpreadConstraints := (case ps_TopologySpreadConstraints v of
        None \<Rightarrow> ps_TopologySpreadConstraints d
      | Some cs \<Rightarrow> Some (TopologySpreadConstraints order (opt_list (ps_TopologySpreadConstraints d)) cs))\<rparr>"

definition merge_pod_network :: "iteration \<Rightarrow> pod_network \<Rightarrow> pod_network \<Rightarrow> pod_network" where
  "merge_pod_network order d v = d\<lparr>
     pn_DNSPolicy := override_str (pn_DNSPolicy d) (pn_DNSPolicy v),
     pn_HostNetwork := override_bool (pn_HostNetwork d) (pn_HostNetwork v),
     pn_HostPID := override_bool (pn_HostPID d) (pn_HostPID v),
     pn_ShareProcessNamespace := override_opt (pn_ShareProcessNamespace d) (pn_ShareProcessNamespace v),
     pn_Hostname := override_str (pn_Hostname d) (pn_Hostname v),
     pn_Subdomain := override_str (pn_Subdomain d) (pn_Subdomain v),
     pn_HostAliases := HostAliases order (pn_HostAliases d) (pn_HostAliases v),
     pn_DNSConfig := PodDNSConfig (pn_DNSConfig d) (pn_DNSConfig v),
     pn_EnableServiceLinks := override_opt (pn_EnableServiceLinks d) (pn_EnableServiceLinks v)\<rparr>"

definition merge_pod_spec :: "iteration \<Rightarrow> pod_spec \<Rightarrow> pod_spec \<Rightarrow> pod_spec" where
  "merge_pod_spec order d v = d\<lparr>
     ps_Volumes := Volumes order (ps_Volumes d) (ps_Volumes v),
     ps_Containers := Containers order (ps_Containers d) (ps_Containers v),
     ps_InitContainers := Containers order (ps_InitContainers d) (ps_InitContainers v),
     ps_EphemeralContainers := (case ps_EphemeralContainers v of None \<Rightarrow> ps_EphemeralContainers d
        | Some cs \<Rightarrow> Some (EphemeralContainers order (opt_list (ps_EphemeralContainers d)) cs)),
     ps_RestartPolicy := override_str (ps_RestartPolicy d) (ps_RestartPolicy v),
     ps_TerminationGracePeriodSeconds := override_opt (ps_TerminationGracePeriodSeconds d) (ps_TerminationGracePeriodSeconds v),
     ps_ActiveDeadlineSeconds := override_opt (ps_ActiveDeadlineSeconds d) (ps_ActiveDeadlineSeconds v),
     ps_ServiceAccountName := override_str (ps_ServiceAccountName d) (ps_ServiceAccountName v),
     ps_DeprecatedServiceAccount := override_str (ps_DeprecatedServiceAccount d) (ps_DeprecatedServiceAccount v),
     ps_AutomountServiceAccountToken := override_opt (ps_AutomountServiceAccountToken d) (ps_AutomountServiceAccountToken v),
     ps_SecurityContext := override_opt (ps_SecurityContext d) (ps_SecurityContext v),
     ps_ImagePullSecrets := override_opt (ps_ImagePullSecrets d) (ps_ImagePullSecrets v),
     ps_Scheduling := merge_pod_scheduling order (ps_Scheduling d) (ps_Scheduling v),
     ps_Network := merge_pod_network order (ps_Network d) (ps_Network v)\<rparr>"

definition PodTemplateSpecs :: "iteration \<Rightarrow> pod_template \<Rightarrow> pod_template \<Rightarrow> pod_template" where
  "PodTemplateSpecs order original override = original\<lparr>
     pt_Annotations := StringToStringMap (pt_Annotations original) (pt_Annotations override),
     pt_Labels := StringToStringMap (pt_Labels original) (pt_Labels override),
     pt_Spec := merge_pod_spec order (pt_Spec original) (pt_Spec override)\<rparr>"

subsection \<open>StatefulSets\<close>

definition LabelSelectorRequirementByKey ::
    "label_selector_requirement list \<Rightarrow> string \<Rightarrow> label_selector_requirement option" where
  "LabelSelectorRequirementByKey lsrs key = find (\<lambda>lsr. lsr_Key lsr = key) lsrs"

definition merge_lsr :: "label_selector_requirement list \<Rightarrow> label_selector_requirement \<Rightarrow> label_selector_requirement" where
  "merge_lsr override originalLsr =
    (let merged = (case LabelSelectorRequirementByKey override (lsr_Key originalLsr) of
           None \<Rightarrow> originalLsr
         | Some overrideLsr \<Rightarrow> originalLsr\<lparr>
             lsr_Operator := override_str (lsr_Operator originalLsr) (lsr_Operator overrideLsr),
             lsr_Values := (case lsr_Values overrideLsr of None \<Rightarrow> lsr_Values originalLsr
                | Some vs \<Rightarrow> Some (StringSlices (opt_list (lsr_Values originalLsr)) vs))\<rparr>)
     in merged\<lparr>lsr_Values := map_option sort (lsr_Values merged)\<rparr>)"

definition LabelSelectorRequirements ::
    "label_selector_requirement list \<Rightarrow> label_selector_requirement list \<Rightarrow> label_selector_requirement list" where
  "LabelSelectorRequirements original override = sort_key lsr_Key
     (map (merge_lsr override) original @
      map (\<lambda>lsr. lsr\<lparr>lsr_Values := map_option sort (lsr_Values lsr)\<rparr>)
        (filter (\<lambda>lsr. LabelSelectorRequirementByKey original (lsr_Key lsr) = None) override))"

definition LabelSelectors :: "label_selector option \<Rightarrow> label_selector option \<Rightarrow> label_selector option" where
  "LabelSelectors = merge_ptr (\<lambda>d v. \<lparr>
     ls_MatchLabels = StringToStringMap (ls_MatchLabels d) (ls_MatchLabels v),
     ls_MatchExpressions = LabelSelectorRequirements (ls_MatchExpressions d) (ls_MatchExpressions v)\<rparr>)"

definition PersistentVolumeClaim :: "pvc \<Rightarrow> pvc \<Rightarrow> pvc" where
  "PersistentVolumeClaim d v = d\<lparr>
     pvc_Namespace := override_str (pvc_Namespace d) (pvc_Namespace v),
     pvc_Labels := StringToStringMap (pvc_Labels d) (pvc_Labels v),
     pvc_Annotations := StringToStringMap (pvc_Annotations d) (pvc_Annotations v),
     pvc_VolumeMode := override_opt (pvc_VolumeMode d) (pvc_VolumeMode v),
     pvc_StorageClassName := override_opt (pvc_StorageClassName d) (pvc_StorageClassName v),
     pvc_AccessModes := fold (\<lambda>mode modes. if contains_AccessMode modes mode then modes else modes @ [mode])
        (pvc_AccessModes v) (pvc_AccessModes d),
     pvc_Selector := override_opt (pvc_Selector d) (pvc_Selector v),
     pvc_Limits := override_opt (pvc_Limits d) (pvc_Limits v),
     pvc_Requests := override_opt (pvc_Requests d) (pvc_Requests v),
     pvc_DataSource := override_opt (pvc_DataSource d) (pvc_DataSource v)\<rparr>"

definition VolumeClaimTemplates :: "iteration \<Rightarrow> pvc list \<Rightarrow> pvc list \<Rightarrow> pvc list" where
  "VolumeClaimTemplates order = merge_by_key order pvc_Name PersistentVolumeClaim"

definition StatefulSetSpecs :: "iteration \<Rightarrow> statefulset_spec \<Rightarrow> statefulset_spec \<Rightarrow> statefulset_spec" where
  "StatefulSetSpecs order d v = d\<lparr>
     stss_Replicas := override_opt (stss_Replicas d) (stss_Replicas v),
     stss_Selector := LabelSelectors (stss_Selector d) (stss_Selector v),
     stss_PodManagementPolicy := override_str (stss_PodManagementPolicy d) (stss_PodManagementPolicy v),
     stss_RevisionHistoryLimit := override_opt (stss_RevisionHistoryLimit d) (stss_RevisionHistoryLimit v),
     stss_UpdateStrategyType := override_str (stss_UpdateStrategyType d) (stss_UpdateStrategyType v),
     stss_RollingUpdate := override_opt (stss_RollingUpdate d) (stss_RollingUpdate v),
     stss_ServiceName := override_str (stss_ServiceName d) (stss_ServiceName v),
     stss_Template := PodTemplateSpecs order (stss_Template d) (stss_Template v),
     stss_VolumeClaimTemplates := VolumeClaimTemplates order (stss_VolumeClaimTemplates d) (stss_VolumeClaimTemplates v)\<rparr>"

definition StatefulSets :: "iteration \<Rightarrow> statefulset \<Rightarrow> statefulset \<Rightarrow> statefulset" where
  "StatefulSets order d v = d\<lparr>
     sts_Labels := StringToStringMap (sts_Labels d) (sts_Labels v),
     sts_Namespace := override_str (sts_Namespace d) (sts_Namespace v),
     sts_Name := override_str (sts_Name d) (sts_Name v),
     sts_Spec := StatefulSetSpecs order (sts_Spec d) (sts_Spec v)\<rparr>"

subsection \<open>Services and automation configs\<close>

definition ServiceSpec :: "service_spec \<Rightarrow> service_spec \<Rightarrow> service_spec" where
  "ServiceSpec d v = d\<lparr>
     svc_Selector := StringToStringMap (svc_Selector d) (svc_Selector v),
     svc_Ports := override_list (svc_Ports d) (svc_Ports v),
     svc_Type := override_str (svc_Type d) (svc_Type v),
     svc_LoadBalancerIP := override_str (svc_LoadBalancerIP d) (svc_LoadBalancerIP v),
     svc_LoadBalancerClass := override_opt (svc_LoadBalancerClass d) (svc_LoadBalancerClass v),
     svc_ExternalName := override_str (svc_ExternalName d) (svc_ExternalName v),
     svc_ExternalTrafficPolicy := override_str (svc_ExternalTrafficPolicy d) (svc_ExternalTrafficPolicy v),
     svc_InternalTrafficPolicy := override_opt (svc_InternalTrafficPolicy d) (svc_InternalTrafficPolicy v),
     svc_PublishNotReadyAddresses := override_bool (svc_PublishNotReadyAddresses d) (svc_PublishNotReadyAddresses v),
     svc_HealthCheckNodePort := override_int (svc_HealthCheckNodePort d) (svc_HealthCheckNodePort v),
     svc_LoadBalancerSourceRanges := override_list (svc_LoadBalancerSourceRanges d) (svc_LoadBalancerSourceRanges v),
     svc_ExternalIPs := override_list (svc_ExternalIPs d) (svc_ExternalIPs v),
     svc_SessionAffinityConfig := override_opt (svc_SessionAffinityConfig d) (svc_SessionAffinityConfig v),
     svc_SessionAffinity := override_str (svc_SessionAffinity d) (svc_SessionAffinity v),
     svc_ClusterIP := override_str (svc_ClusterIP d) (svc_ClusterIP v),
     svc_ClusterIPs := override_list (svc_ClusterIPs d) (svc_ClusterIPs v)\<rparr>"

fun getProcessIndexByName :: "string \<Rightarrow> process list \<Rightarrow> nat \<Rightarrow> int" where
  "getProcessIndexByName name [] i = -1"
| "getProcessIndexByName name (p # ps) i = (if p_Name p = name then int i else getProcessIndexByName name ps (Suc i))"

definition mergeProcess :: "process \<Rightarrow> process \<Rightarrow> process" where
  "mergeProcess original override =
     original\<lparr>p_Disabled := p_Disabled override, p_LogRotate := p_LogRotate override\<rparr>"

definition mergeProcesses :: "process list \<Rightarrow> process list \<Rightarrow> process list" where
  "mergeProcesses original override = fold (\<lambda>overrideProcess merged.
     let i = getProcessIndexByName (p_Name overrideProcess) original 0
     in if i = -1 then merged else merged[nat i := mergeProcess (original ! nat i) overrideProcess]) override original"

definition AutomationConfigs :: "automation_config \<Rightarrow> automation_config \<Rightarrow> automation_config" where
  "AutomationConfigs original override =
     original\<lparr>ac_Processes := mergeProcesses (ac_Processes original) (ac_Processes override)\<rparr>"

subsection \<open>Lemmas on iteration and keyed lists\<close>

definition last_with :: "('a \<Rightarrow> string) \<Rightarrow> string \<Rightarrow> 'a list \<Rightarrow> 'a option" where
  "last_with key k xs = find (\<lambda>x. key x = k) (rev xs)"

lemma map_of_by_key_acc:
  "map_of (fold (\<lambda>x. map_put (key x) x) xs m) k =
     (case last_with key k xs of Some x \<Rightarrow> Some x | None \<Rightarrow> map_of m k)"
proof (induction xs arbitrary: m)
  case (Cons x xs)
  have "find P (ys @ [x]) = (case find P ys of Some y \<Rightarrow> Some y | None \<Rightarrow> if P x then Some x else None)"
    for P and ys :: "'a list" by (induction ys) auto
  then show ?case using Cons by (auto simp: last_with_def split: option.splits)
qed (simp add: last_with_def)

lemma map_of_by_key [simp]: "map_of (by_key key xs) k = last_with key k xs"
  by (simp add: by_key_def map_of_by_key_acc split: option.splits)

lemma distinct_fold_put:
  "distinct (map fst m) \<Longrightarrow> distinct (map fst (fold (\<lambda>x. map_put (g x) (h x)) xs m))"
  by (induction xs arbitrary: m) auto

lemma distinct_by_key [simp]: "distinct (map fst (by_key key xs))"
  by (simp add: by_key_def distinct_fold_put)

lemma last_with_Some: "last_with key k xs = Some x \<Longrightarrow> key x = k \<and> x \<in> set xs"
proof -
  have "find P ys = Some x \<Longrightarrow> P x \<and> x \<in> set ys" for P ys by (induction ys) (auto split: if_splits)
  then show "last_with key k xs = Some x \<Longrightarrow> ?thesis" by (fastforce simp: last_with_def)
qed

lemma last_with_None: "last_with key k xs = None \<longleftrightarrow> k \<notin> key ` set xs"
  by (auto simp: last_with_def find_None_iff)

lemma last_with_distinct: "distinct (map key xs) \<Longrightarrow> x \<in> set xs \<Longrightarrow> last_with key (key x) xs = Some x"
proof -
  assume a: "distinct (map key xs)" "x \<in> set xs"
  then obtain y where y: "last_with key (key x) xs = Some y"
    using last_with_None[of key "key x" xs] by (cases "last_with key (key x) xs") auto
  then have "y = x" using a last_with_Some[OF y] by (auto simp: distinct_map dest: inj_onD)
  then show ?thesis using y by simp
qed

lemma iterate_mset:
  assumes "is_iteration order" and "distinct (map fst m)"
  shows "mset (iterate order m) = mset m"
proof -
  have keys: "set (order (map fst m)) = fst ` set m"
    using assms(1) by (metis is_iteration_def list.set_map mset_eq_setD)
  have "List.map_filter g ks = map (the \<circ> g) ks" if "\<forall>k\<in>set ks. g k \<noteq> None" for g :: "string \<Rightarrow> 'b option" and ks
    using that by (induction ks) (auto simp: List.map_filter_simps)
  note map_filter = this
  have "iterate order m = map (the \<circ> (\<lambda>k. map_option (Pair k) (map_of m k))) (order (map fst m))"
    unfolding iterate_def by (rule map_filter) (use keys map_of_eq_None_iff[of m] in simp)
  also have "\<dots> = map (\<lambda>k. (k, the (map_of m k))) (order (map fst m))"
  proof (rule map_cong[OF refl])
    fix k assume "k \<in> set (order (map fst m))"
    then have "map_of m k \<noteq> None" using keys map_of_eq_None_iff[of m k] by simp
    then show "(the \<circ> (\<lambda>k. map_option (Pair k) (map_of m k))) k = (k, the (map_of m k))" by auto
  qed
  finally have "iterate order m = map (\<lambda>k. (k, the (map_of m k))) (order (map fst m))" .
  then have "mset (iterate order m) = image_mset (\<lambda>k. (k, the (map_of m k))) (mset (map fst m))"
    using assms(1) by (simp add: is_iteration_def)
  also have "\<dots> = mset (map (\<lambda>p. (fst p, the (map_of m (fst p)))) m)"
    by (simp add: multiset.map_comp comp_def flip: mset_map)
  also have "map (\<lambda>p. (fst p, the (map_of m (fst p)))) m = map id m"
    using assms(2) by (intro map_cong) (auto simp: map_of_eq_Some_iff)
  finally show ?thesis by simp
qed

lemma iterate_Nil: "is_iteration order \<Longrightarrow> iterate order [] = []"
  using iterate_mset[of order "[]"] by simp

lemma iterate_props:
  assumes "is_iteration order" and "distinct (map fst m)"
  shows "set (iterate order m) = set m" and "distinct (map fst (iterate order m))"
    and "map_of (iterate order m) = map_of m"
proof -
  note ms = iterate_mset[OF assms]
  show s: "set (iterate order m) = set m" using ms by (rule mset_eq_setD)
  have "mset (map fst (iterate order m)) = mset (map fst m)" using ms by simp
  then show d: "distinct (map fst (iterate order m))" using assms(2) mset_eq_imp_distinct_iff by blast
  show "map_of (iterate order m) = map_of m" using s d assms(2) map_of_inject_set by blast
qed

lemma map_of_merge_maps_acc:
  "distinct (map fst over) \<Longrightarrow>
   map_of (fold (\<lambda>(k, v). map_put k (g k v)) over acc) k =
     (case map_of over k of Some v \<Rightarrow> Some (g k v) | None \<Rightarrow> map_of acc k)"
proof (induction over arbitrary: acc)
  case (Cons p over)
  obtain a b where p: "p = (a, b)" by fastforce
  then have "map_of over a = None" using Cons.prems by (simp add: map_of_eq_None_iff)
  then show ?case using Cons p by (cases "k = a") (auto split: option.splits)
qed simp

lemma map_of_merge_maps:
  "distinct (map fst over) \<Longrightarrow>
   map_of (merge_maps f orig over) k =
     (case map_of over k of
        None \<Rightarrow> map_of orig k
      | Some v \<Rightarrow> Some (case map_of orig k of Some d \<Rightarrow> f d v | None \<Rightarrow> v))"
  using map_of_merge_maps_acc[of over "\<lambda>k v. case map_of orig k of Some d \<Rightarrow> f d v | None \<Rightarrow> v" orig k]
  by (simp add: merge_maps_def split: option.splits)

lemma distinct_merge_maps: "distinct (map fst orig) \<Longrightarrow> distinct (map fst (merge_maps f orig over))"
  unfolding merge_maps_def case_prod_beta by (rule distinct_fold_put)

lemma sort_key_unique:
  assumes "distinct (map key xs)" and "distinct (map key ys)" and "set xs = set ys"
  shows "sort_key key xs = sort_key key ys"
proof -
  have "mset xs = mset ys" using assms by (simp add: distinct_map set_eq_iff_mset_eq_distinct)
  moreover have "inj_on key (set xs)" using assms(1) by (simp add: distinct_map)
  ultimately show ?thesis by (intro sort_key_inj_key_eq) simp_all
qed

lemma keyed_values:
  assumes "distinct (map fst m)" and "\<And>k x. (k, x) \<in> set m \<Longrightarrow> key x = k"
  shows "map key (map snd m) = map fst m" and "set (map snd m) = {x. map_of m (key x) = Some x}"
proof -
  show "map key (map snd m) = map fst m" using assms(2) by auto
  show "set (map snd m) = {x. map_of m (key x) = Some x}"
    using assms by (force simp: map_of_eq_Some_iff[OF assms(1)])
qed

subsection \<open>Merging by key\<close>

text \<open>What a merge by key should contain under a key: the last entry of either list with
  that key, merged when both lists have one.\<close>

definition merged_at :: "('a \<Rightarrow> string) \<Rightarrow> ('a \<Rightarrow> 'a \<Rightarrow> 'a) \<Rightarrow> 'a list \<Rightarrow> 'a list \<Rightarrow> string \<Rightarrow> 'a option" where
  "merged_at key f original override k =
    (case (last_with key k original, last_with key k override) of
       (d, None) \<Rightarrow> d
     | (None, Some v) \<Rightarrow> Some v
     | (Some d, Some v) \<Rightarrow> Some (f d v))"

locale keyed_merge =
  fixes ok :: "'a \<Rightarrow> bool" and key :: "'a \<Rightarrow> string" and f :: "'a \<Rightarrow> 'a \<Rightarrow> 'a"
  assumes key_merge: "ok d \<Longrightarrow> ok v \<Longrightarrow> key d = key v \<Longrightarrow> key (f d v) = key v"
begin

lemma merged_at_key:
  assumes "list_all ok xs" and "list_all ok ys" and "merged_at key f xs ys k = Some x"
  shows "key x = k"
  using last_with_Some[of key k xs] last_with_Some[of key k ys] key_merge assms
  by (auto simp: merged_at_def list_all_iff split: option.splits)

lemma merged_map:
  fixes xs ys :: "'a list"
  assumes "is_iteration order"
  defines "m \<equiv> merge_maps f (by_key key xs) (iterate order (by_key key ys))"
  shows "distinct (map fst m)" and "map_of m = merged_at key f xs ys"
proof -
  note it = iterate_props[OF assms(1) distinct_by_key, of key ys]
  show "distinct (map fst m)" unfolding m_def by (rule distinct_merge_maps) simp
  show "map_of m = merged_at key f xs ys"
    unfolding m_def fun_eq_iff map_of_merge_maps[OF it(2)] it(3)
    by (auto simp: merged_at_def split: option.splits)
qed

lemma merge_values:
  fixes xs ys :: "'a list"
  assumes "is_iteration order" and "list_all ok xs" and "list_all ok ys"
  defines "l \<equiv> map snd (iterate order (merge_maps f (by_key key xs) (iterate order (by_key key ys))))"
  shows "distinct (map key l)" and "set l = {x. merged_at key f xs ys (key x) = Some x}"
proof -
  let ?m = "merge_maps f (by_key key xs) (iterate order (by_key key ys))"
  note m = merged_map[OF assms(1), of xs ys]
  note it = iterate_props[OF assms(1) m(1)]
  have keys: "key x = k" if "(k, x) \<in> set (iterate order ?m)" for k x
    using that it m merged_at_key[OF assms(2,3)] by (metis map_of_eq_Some_iff)
  have "map key l = map fst (iterate order ?m)" unfolding l_def using keys by (rule keyed_values(1)[OF it(2)])
  then show "distinct (map key l)" using it(2) by simp
  have "set l = {x. map_of (iterate order ?m) (key x) = Some x}"
    unfolding l_def using keys by (rule keyed_values(2)[OF it(2)])
  then show "set l = {x. merged_at key f xs ys (key x) = Some x}" unfolding it(3) m(2) .
qed

lemma merge_by_key_spec:
  assumes "is_iteration order" and "list_all ok xs" and "list_all ok ys"
  shows "sorted (map key (merge_by_key order key f xs ys))"
    and "distinct (map key (merge_by_key order key f xs ys))"
    and "set (merge_by_key order key f xs ys) = {x. merged_at key f xs ys (key x) = Some x}"
proof -
  have "distinct (map key (sort_key key l)) = distinct (map key l)" for l by (simp add: distinct_map)
  then show "distinct (map key (merge_by_key order key f xs ys))"
    unfolding merge_by_key_def using merge_values(1)[OF assms] by simp
  show "set (merge_by_key order key f xs ys) = {x. merged_at key f xs ys (key x) = Some x}"
    unfolding merge_by_key_def set_sort using merge_values(2)[OF assms] .
qed (simp add: merge_by_key_def)

lemma merge_by_key_unique:
  assumes "is_iteration order" and "list_all ok xs" and "list_all ok ys"
    and "distinct (map key l)" and "set l = {x. merged_at key f xs ys (key x) = Some x}"
  shows "merge_by_key order key f xs ys = sort_key key l"
  unfolding merge_by_key_def using merge_values[OF assms(1-3)] assms(4,5) by (intro sort_key_unique) simp_all

lemma merge_by_key_find:
  assumes "is_iteration order" and "list_all ok xs" and "list_all ok ys"
  shows "find (\<lambda>x. key x = k) (merge_by_key order key f xs ys) = merged_at key f xs ys k"
proof -
  let ?r = "merge_by_key order key f xs ys"
  note spec = merge_by_key_spec[OF assms]
  show ?thesis
  proof (cases "merged_at key f xs ys k")
    case None
    then show ?thesis using spec(3) by (auto simp: find_None_iff)
  next
    case (Some x)
    then have x: "x \<in> set ?r" "key x = k" using merged_at_key[OF assms(2,3)] spec(3) by auto
    then obtain y where y: "find (\<lambda>x. key x = k) ?r = Some y"
      by (cases "find (\<lambda>x. key x = k) ?r") (auto simp: find_None_iff)
    then have "y \<in> set ?r" "key y = k" by (auto simp: find_Some_iff)
    then show ?thesis using y x Some spec(2) by (auto simp: distinct_map dest: inj_onD)
  qed
qed

lemma merge_by_key_names:
  assumes o: "is_iteration order" "list_all ok xs" "list_all ok ys"
  shows "key ` set (merge_by_key order key f xs ys) = key ` set xs \<union> key ` set ys"
proof -
  have "k \<in> key ` set (merge_by_key order key f xs ys) \<longleftrightarrow> merged_at key f xs ys k \<noteq> None" for k
  proof
    assume "merged_at key f xs ys k \<noteq> None"
    then obtain x where x: "merged_at key f xs ys k = Some x" by blast
    then have "x \<in> set (merge_by_key order key f xs ys)" using merged_at_key[OF o(2,3) x] merge_by_key_spec(3)[OF o] by simp
    then show "k \<in> key ` set (merge_by_key order key f xs ys)" using merged_at_key[OF o(2,3) x] by blast
  qed (auto simp: merge_by_key_spec(3)[OF o])
  then show ?thesis
    by (auto simp: merged_at_def last_with_None set_eq_iff split: option.splits)
       (metis last_with_None not_None_eq)+
qed

lemma merge_by_key_empty:
  assumes "is_iteration order" and "list_all ok xs" and "distinct (map key xs)"
  shows "merge_by_key order key f xs [] = sort_key key xs"
proof (rule merge_by_key_unique[OF assms(1,2) _ assms(3)])
  show "list_all ok []" by simp
  have "merged_at key f xs [] k = last_with key k xs" for k
    by (auto simp: merged_at_def last_with_def split: option.splits)
  then show "set xs = {x. merged_at key f xs [] (key x) = Some x}"
    using last_with_distinct[OF assms(3)] last_with_Some[of key _ xs] by auto
qed

end

lemma merge_by_key_cong:
  assumes "keyed_merge ok key f" and "keyed_merge ok key g" and "is_iteration order" and "is_iteration order'"
    and "list_all ok xs" and "list_all ok ys"
    and "\<And>d v. d \<in> set xs \<Longrightarrow> v \<in> set ys \<Longrightarrow> f d v = g d v"
  shows "merge_by_key order key f xs ys = merge_by_key order' key g xs ys"
proof -
  have "merged_at key f xs ys = merged_at key g xs ys"
    using last_with_Some[of key _ xs] last_with_Some[of key _ ys] assms(7)
    by (fastforce simp: merged_at_def split: option.splits)
  then have "set (merge_by_key order' key g xs ys) = {x. merged_at key f xs ys (key x) = Some x}"
    using keyed_merge.merge_by_key_spec(3)[OF assms(2,4,5,6)] by simp
  from keyed_merge.merge_by_key_unique[OF assms(1,3,5,6) keyed_merge.merge_by_key_spec(2)[OF assms(2,4,5,6)] this]
  show ?thesis
    using keyed_merge.merge_by_key_spec(1)[OF assms(2,4,5,6)] by (simp add: sort_key_id_if_sorted)
qed

subsection \<open>The merges of the operator\<close>

abbreviation anything :: "'a \<Rightarrow> bool" where "anything \<equiv> \<lambda>_. True"

lemma all_anything [simp]: "list_all anything xs" by (simp add: list_all_iff)

lemma override_str_same [simp]: "override_str s s = s" by (simp add: override_str_def)

text \<open>The key of a volume mount joins three strings with underscores; it determines them
  when neither the name nor the sub path contains an underscore.\<close>

definition plain_mount :: "volume_mount \<Rightarrow> bool" where
  "plain_mount m = (CHR ''_'' \<notin> set (vm_Name m) \<and> CHR ''_'' \<notin> set (vm_SubPath m))"

lemma split_first: "c \<notin> set a \<Longrightarrow> c \<notin> set b \<Longrightarrow> a @ c # x = b @ c # y \<longleftrightarrow> a = b \<and> x = y"
proof (induction a arbitrary: b)
  case Nil
  then show ?case by (cases b) auto
next
  case (Cons d a)
  then show ?case by (cases b) auto
qed

lemma split_last: "c \<notin> set a \<Longrightarrow> c \<notin> set b \<Longrightarrow> x @ c # a = y @ c # b \<longleftrightarrow> x = y \<and> a = b"
  using split_first[of c "rev a" "rev b" "rev x" "rev y"] rev_is_rev_conv[of "x @ c # a" "y @ c # b"] by auto

lemma mount_key_determines:
  "plain_mount m \<Longrightarrow> plain_mount n \<Longrightarrow> volumeMountToString m = volumeMountToString n \<Longrightarrow>
   vm_Name m = vm_Name n \<and> vm_MountPath m = vm_MountPath n \<and> vm_SubPath m = vm_SubPath n"
  by (simp add: volumeMountToString_def plain_mount_def split_first split_last)

interpretation envs: keyed_merge anything env_Name mergeSingleEnv
  by unfold_locales (simp add: mergeSingleEnv_def Let_def)

interpretation overriding: keyed_merge anything key "\<lambda>_ v. v" for key
  by unfold_locales simp

interpretation devices: keyed_merge anything vd_Name mergeVolumeDevice
  by unfold_locales (simp add: mergeVolumeDevice_def)

interpretation ports: keyed_merge anything cp_Name ContainerPorts
  by unfold_locales (simp add: ContainerPorts_def)

interpretation mounts: keyed_merge plain_mount volumeMountToString VolumeMount
proof
  fix d v assume "plain_mount d" "plain_mount v" "volumeMountToString d = volumeMountToString v"
  with mount_key_determines[of d v] show "volumeMountToString (VolumeMount d v) = volumeMountToString v"
    by (simp add: VolumeMount_def volumeMountToString_def)
qed

interpretation claims: keyed_merge anything pvc_Name PersistentVolumeClaim
  by unfold_locales (simp add: PersistentVolumeClaim_def)

interpretation containers: keyed_merge anything c_Name "Container order" for order
  by unfold_locales (simp add: Container_def)

interpretation ephemeral: keyed_merge anything "\<lambda>e. c_Name (ec_Common e)" "EphemeralContainer order" for order
  by unfold_locales (simp add: EphemeralContainer_def Container_def)

text \<open>The two merges that are written differently in the source.\<close>

lemma ContainerPortSlicesByName_eq:
  assumes "is_iteration order"
  shows "ContainerPortSlicesByName order ds vs = merge_by_key order cp_Name ContainerPorts ds vs"
proof -
  let ?D = "by_key cp_Name ds" and ?V = "by_key cp_Name vs"
  define l where "l = map (\<lambda>(n, d). case map_of ?V n of Some v \<Rightarrow> ContainerPorts d v | None \<Rightarrow> d) (iterate order ?D) @
     map snd (filter (\<lambda>(n, _). map_of ?D n = None) (iterate order ?V))"
  note D = iterate_props[OF assms distinct_by_key, of cp_Name ds]
  note V = iterate_props[OF assms distinct_by_key, of cp_Name vs]
  have mD: "(n, d) \<in> set (iterate order ?D) \<longleftrightarrow> last_with cp_Name n ds = Some d" for n d
    using D(1) by (simp flip: map_of_by_key)
  have mV: "(n, v) \<in> set (iterate order ?V) \<longleftrightarrow> last_with cp_Name n vs = Some v" for n v
    using V(1) by (simp flip: map_of_by_key)
  note named = last_with_Some[of cp_Name _ ds] last_with_Some[of cp_Name _ vs]
  have "cp_Name (case map_of ?V n of Some v \<Rightarrow> ContainerPorts d v | None \<Rightarrow> d) = n"
    if "(n, d) \<in> set (iterate order ?D)" for n d
    using that named[of n] by (auto simp: mD ContainerPorts_def split: option.splits)
  moreover have "cp_Name v = n" if "(n, v) \<in> set (iterate order ?V)" for n v
    using that named[of n] by (auto simp: mV)
  ultimately have "map cp_Name l = map fst (iterate order ?D) @ map fst (filter (\<lambda>(n, _). map_of ?D n = None) (iterate order ?V))"
    unfolding l_def by fastforce
  moreover have "distinct (map fst (filter P (iterate order ?V)))" for P using V(2) distinct_map_filter by blast
  moreover have "map_of ?D n \<noteq> None" if "n \<in> fst ` set (iterate order ?D)" for n using that by (auto simp: mD)
  ultimately have dist: "distinct (map cp_Name l)" using D(2) by fastforce
  have mem: "x \<in> set l \<longleftrightarrow> (\<exists>n. merged_at cp_Name ContainerPorts ds vs n = Some x)" for x
  proof
    assume "x \<in> set l"
    then consider n d where "last_with cp_Name n ds = Some d"
        "x = (case last_with cp_Name n vs of Some v \<Rightarrow> ContainerPorts d v | None \<Rightarrow> d)"
      | n where "last_with cp_Name n vs = Some x" "last_with cp_Name n ds = None"
      unfolding l_def by (auto simp: mD mV)
    then show "\<exists>n. merged_at cp_Name ContainerPorts ds vs n = Some x"
    proof cases
      case (1 n d)
      then show ?thesis by (intro exI[of _ n]) (auto simp: merged_at_def split: option.splits)
    next
      case (2 n)
      then show ?thesis by (intro exI[of _ n]) (simp add: merged_at_def)
    qed
  next
    assume "\<exists>n. merged_at cp_Name ContainerPorts ds vs n = Some x"
    then obtain n where n: "merged_at cp_Name ContainerPorts ds vs n = Some x" by blast
    show "x \<in> set l"
    proof (cases "last_with cp_Name n ds")
      case None
      then have "(n, x) \<in> set (filter (\<lambda>(n, _). map_of ?D n = None) (iterate order ?V))"
        using n by (auto simp: mV merged_at_def split: option.splits)
      then show ?thesis unfolding l_def by force
    next
      case (Some d)
      then have "(n, d) \<in> set (iterate order ?D)"
        "x = (case map_of ?V n of Some v \<Rightarrow> ContainerPorts d v | None \<Rightarrow> d)"
        using n by (auto simp: mD merged_at_def split: option.splits)
      then show ?thesis unfolding l_def by force
    qed
  qed
  have "set l = {x. merged_at cp_Name ContainerPorts ds vs (cp_Name x) = Some x}"
    using ports.merged_at_key[of ds vs] by (auto simp: mem)
  from ports.merge_by_key_unique[OF assms _ _ dist this] show ?thesis
    by (simp add: ContainerPortSlicesByName_def l_def)
qed

lemma override_by_key:
  assumes "is_iteration order"
  shows "sort_key key (map snd (iterate order (fold (\<lambda>x. map_put (key x) x) desired (by_key key existing)))) =
    merge_by_key order key (\<lambda>_ v. v) existing desired"
proof -
  let ?m = "fold (\<lambda>x. map_put (key x) x) desired (by_key key existing)"
  have d: "distinct (map fst ?m)" by (rule distinct_fold_put) simp
  have at: "map_of ?m k = merged_at key (\<lambda>_ v. v) existing desired k" for k
    by (auto simp: map_of_by_key_acc merged_at_def split: option.splits)
  note it = iterate_props[OF assms d]
  have keys: "key x = k" if "(k, x) \<in> set (iterate order ?m)" for k x
  proof -
    have "map_of ?m k = Some x" using that it(1) map_of_is_SomeI[OF d] by blast
    then show ?thesis unfolding at by (rule overriding.merged_at_key[OF all_anything all_anything])
  qed
  have "map key (map snd (iterate order ?m)) = map fst (iterate order ?m)"
    using keys by (rule keyed_values(1)[OF it(2)])
  then have "distinct (map key (map snd (iterate order ?m)))" using it(2) by (simp only:)
  moreover have "set (map snd (iterate order ?m)) = {x. merged_at key (\<lambda>_ v. v) existing desired (key x) = Some x}"
    using keyed_values(2)[where key = key, OF it(2) keys] it(3) at by simp
  ultimately show ?thesis
    by (rule overriding.merge_by_key_unique[OF assms all_anything all_anything, symmetric])
qed

lemma MergeWithOverride_eq:
  "is_iteration order \<Longrightarrow>
    MergeWithOverride order existing desired = merge_by_key order env_Name (\<lambda>_ v. v) existing desired"
  unfolding MergeWithOverride_def by (rule override_by_key)

text \<open>Overriding twice is overriding once.\<close>

lemma override_by_key_twice:
  fixes key :: "'a \<Rightarrow> string" and desired :: "'a list"
  assumes "is_iteration order"
  defines "m \<equiv> (\<lambda>xs. merge_by_key order key (\<lambda>_ v. v) xs desired)"
  shows "m (m xs) = m xs"
proof -
  note spec = overriding.merge_by_key_spec[OF assms(1) all_anything all_anything, of key xs desired]
  have "last_with key k (m xs) = merged_at key (\<lambda>_ v. v) xs desired k" for k
  proof (cases "merged_at key (\<lambda>_ v. v) xs desired k")
    case None
    then have "k \<notin> key ` set (m xs)" using spec(3) by (auto simp: m_def)
    then show ?thesis unfolding None last_with_None .
  next
    case (Some x)
    then have k: "key x = k" by (rule overriding.merged_at_key[OF all_anything all_anything])
    then have "x \<in> set (m xs)" using Some spec(3) by (simp add: m_def)
    then show ?thesis using last_with_distinct[OF spec(2), of x] k Some by (simp add: m_def)
  qed
  then have "merged_at key (\<lambda>_ v. v) (m xs) desired k = merged_at key (\<lambda>_ v. v) xs desired k" for k
    by (auto simp: merged_at_def[of key _ "m xs"]) (auto simp: merged_at_def split: option.splits)
  then have "set (m xs) = {x. merged_at key (\<lambda>_ v. v) (m xs) desired (key x) = Some x}"
    using spec(3) by (simp add: m_def)
  from overriding.merge_by_key_unique[OF assms(1) all_anything all_anything _ this]
  have "m (m xs) = sort_key key (m xs)" using spec(2) by (simp add: m_def)
  then show ?thesis using spec(1) by (simp add: m_def sort_key_id_if_sorted)
qed

subsection \<open>Determinism\<close>

definition plain_container :: "container \<Rightarrow> bool" where
  "plain_container c = list_all plain_mount (c_VolumeMounts c)"

lemma Container_order:
  assumes "is_iteration o1" and "is_iteration o2" and "plain_container d" and "plain_container v"
  shows "Container o1 d v = Container o2 d v"
proof -
  note cong = merge_by_key_cong[OF _ _ assms(1,2)]
  have "Envs o1 = Envs o2" unfolding Envs_def fun_eq_iff
    using cong[OF envs.keyed_merge_axioms envs.keyed_merge_axioms] by simp
  moreover have "VolumeDevices o1 = VolumeDevices o2" unfolding VolumeDevices_def fun_eq_iff
    using cong[OF devices.keyed_merge_axioms devices.keyed_merge_axioms] by simp
  moreover have "ContainerPortSlicesByName o1 = ContainerPortSlicesByName o2"
    unfolding fun_eq_iff ContainerPortSlicesByName_eq[OF assms(1)] ContainerPortSlicesByName_eq[OF assms(2)]
    using cong[OF ports.keyed_merge_axioms ports.keyed_merge_axioms] by simp
  moreover have "VolumeMounts o1 (c_VolumeMounts d) (c_VolumeMounts v) = VolumeMounts o2 (c_VolumeMounts d) (c_VolumeMounts v)"
    unfolding VolumeMounts_def using assms(3,4)
    by (intro cong[OF mounts.keyed_merge_axioms mounts.keyed_merge_axioms]) (simp_all add: plain_container_def)
  ultimately show ?thesis by (simp add: Container_def)
qed

lemma Containers_order:
  assumes "is_iteration o1" and "is_iteration o2" and "list_all plain_container ds" and "list_all plain_container vs"
  shows "Containers o1 ds vs = Containers o2 ds vs"
  unfolding Containers_def
  using assms by (intro merge_by_key_cong[OF containers.keyed_merge_axioms containers.keyed_merge_axioms])
    (auto simp: list_all_iff intro: Container_order)

subsection \<open>Merging with an empty override\<close>

definition sorted_by :: "('a \<Rightarrow> string) \<Rightarrow> 'a list \<Rightarrow> bool" where
  "sorted_by key xs = (sorted (map key xs) \<and> distinct (map key xs))"

text \<open>A spec in the form every merge produces: named lists sorted and without repetitions.\<close>

definition normal_pod_spec :: "pod_spec \<Rightarrow> bool" where
  "normal_pod_spec s = (sorted_by c_Name (ps_Containers s) \<and> sorted_by c_Name (ps_InitContainers s) \<and>
     sorted (map vol_Name (ps_Volumes s)) \<and> sorted_by ha_IP (pn_HostAliases (ps_Network s)))"

definition normal_spec :: "statefulset_spec \<Rightarrow> bool" where
  "normal_spec s = (normal_pod_spec (pt_Spec (stss_Template s)) \<and> sorted_by pvc_Name (stss_VolumeClaimTemplates s))"

lemma merge_by_key_normal:
  "keyed_merge ok key f \<Longrightarrow> is_iteration order \<Longrightarrow> list_all ok xs \<Longrightarrow> sorted_by key xs \<Longrightarrow>
   merge_by_key order key f xs [] = xs"
  by (simp add: keyed_merge.merge_by_key_empty sorted_by_def sort_key_id_if_sorted)

lemma fold_put_empty [simp]: "StringToStringMap m [] = m"
  by (simp add: StringToStringMap_def)

lemma HostAliases_empty:
  assumes "is_iteration order" and "sorted_by ha_IP xs"
  shows "HostAliases order xs [] = xs"
proof -
  have "keyed_merge anything ha_IP (\<lambda>_ v. v)" by unfold_locales simp
  then show ?thesis
    using merge_by_key_normal[of anything ha_IP "\<lambda>_ v. v", OF _ assms(1) all_anything assms(2)]
    by (simp add: HostAliases_def merge_by_key_def merge_maps_def by_key_def iterate_Nil[OF assms(1)])
qed

lemma merge_pod_spec_empty:
  assumes "is_iteration order" and "normal_pod_spec s"
  shows "merge_pod_spec order s zero_pod_spec = s"
proof -
  have nest: "r\<lparr>pt_Spec := pt_Spec r\<rparr> = r" for r :: pod_template by simp
  have "Containers order (ps_Containers s) [] = ps_Containers s" "Containers order (ps_InitContainers s) [] = ps_InitContainers s"
    unfolding Containers_def using assms
    by (simp_all add: merge_by_key_normal[OF containers.keyed_merge_axioms] normal_pod_spec_def)
  moreover have "Volumes order (ps_Volumes s) [] = ps_Volumes s"
    using assms(2) by (simp add: Volumes_def normal_pod_spec_def sort_key_id_if_sorted last_with_def)
  moreover have "merge_pod_network order (ps_Network s) zero_pod_network = ps_Network s"
    using assms HostAliases_empty
    by (simp add: merge_pod_network_def zero_pod_network_def PodDNSConfig_def normal_pod_spec_def)
  moreover have "merge_pod_scheduling order (ps_Scheduling s) zero_pod_scheduling = ps_Scheduling s"
    by (simp add: merge_pod_scheduling_def zero_pod_scheduling_def Affinity_def)
  ultimately show ?thesis by (simp add: merge_pod_spec_def zero_pod_spec_def)
qed

subsection \<open>Automation config overrides\<close>

lemma getProcessIndexByName_range:
  "getProcessIndexByName n ps i = -1 \<or>
   int i \<le> getProcessIndexByName n ps i \<and> nat (getProcessIndexByName n ps i) - i < length ps \<and>
   p_Name (ps ! (nat (getProcessIndexByName n ps i) - i)) = n"
proof (induction ps arbitrary: i)
  case (Cons p ps)
  then show ?case using Cons[of "Suc i"] by (auto simp: nth_Cons' Suc_diff_le split: if_splits)
qed simp

lemma getProcessIndexByName_None: "getProcessIndexByName n ps i = -1 \<longleftrightarrow> n \<notin> p_Name ` set ps"
  by (induction ps arbitrary: i) auto

lemma same_name_same_index:
  "distinct (map p_Name ps) \<Longrightarrow> i < length ps \<Longrightarrow> j < length ps \<Longrightarrow>
   p_Name (ps ! i) = p_Name (ps ! j) \<longleftrightarrow> i = j"
  using nth_eq_iff_index_eq[of "map p_Name ps" i j] by simp

lemma getProcessIndexByName_distinct:
  assumes "distinct (map p_Name ps)" and "j < length ps"
  shows "getProcessIndexByName (p_Name (ps ! j)) ps 0 = int j"
proof -
  let ?i = "getProcessIndexByName (p_Name (ps ! j)) ps 0"
  have "?i \<noteq> -1" using assms(2) by (simp add: getProcessIndexByName_None)
  then have "0 \<le> ?i" "nat ?i < length ps" "p_Name (ps ! nat ?i) = p_Name (ps ! j)"
    using getProcessIndexByName_range[of "p_Name (ps ! j)" ps 0] by auto
  then show ?thesis using same_name_same_index[OF assms(1) _ assms(2)] by auto
qed

lemma last_with_snoc: "last_with key k (xs @ [x]) = (if key x = k then Some x else last_with key k xs)"
  by (simp add: last_with_def)

subsection \<open>What the merges promise\<close>

text \<open>C35: the merged containers are sorted by name, no name occurs twice, and under each name
  is the last default container, the last override container, or both merged field by
  field: no container of the operator is lost, and no override either.\<close>

theorem Containers_merge_by_name:
  assumes "is_iteration order"
  shows "sorted (map c_Name (Containers order ds vs)) \<and> distinct (map c_Name (Containers order ds vs)) \<and>
    c_Name ` set (Containers order ds vs) = c_Name ` set ds \<union> c_Name ` set vs \<and>
    (\<forall>k. find (\<lambda>c. c_Name c = k) (Containers order ds vs) = merged_at c_Name (Container order) ds vs k)"
  using containers.merge_by_key_spec(1,2)[OF assms all_anything all_anything]
    containers.merge_by_key_names[OF assms all_anything all_anything]
    containers.merge_by_key_find[OF assms all_anything all_anything]
  by (simp add: Containers_def)

lemma is_iteration_id: "is_iteration (\<lambda>ks. ks)" and is_iteration_rev: "is_iteration rev"
  by (simp_all add: is_iteration_def)

definition demo_container :: "string \<Rightarrow> string \<Rightarrow> container" where
  "demo_container name img = zero_container\<lparr>c_Name := name, c_Image := img\<rparr>"

theorem Containers_merge_by_name_witness:
  "c_Name ` set (Containers rev [demo_container ''mongod'' ''a'', demo_container ''agent'' ''b''] [demo_container ''sidecar'' ''c''])
     = {''mongod'', ''agent'', ''sidecar''}"
  using Containers_merge_by_name[OF is_iteration_rev,
      of "[demo_container ''mongod'' ''a'', demo_container ''agent'' ''b'']" "[demo_container ''sidecar'' ''c'']"]
  by (auto simp: demo_container_def)

text \<open>The merge of containers does not depend on the order in which Go iterates over its
  maps, so an unchanged resource yields an unchanged pod template and no restart
  (volume mounts are keyed by name, path and sub path joined with underscores, which
  the names and sub paths must not contain).\<close>

theorem Containers_deterministic:
  assumes "is_iteration o1" and "is_iteration o2" and "list_all plain_container ds" and "list_all plain_container vs"
  shows "Containers o1 ds vs = Containers o2 ds vs"
  using assms by (rule Containers_order)

text \<open>A StatefulSet spec whose lists are in merged form is not changed by an empty override.\<close>

theorem StatefulSetSpecs_empty_override:
  assumes "is_iteration order" and "normal_spec s"
  shows "StatefulSetSpecs order s zero_statefulset_spec = s"
proof -
  have "VolumeClaimTemplates order (stss_VolumeClaimTemplates s) [] = stss_VolumeClaimTemplates s"
    unfolding VolumeClaimTemplates_def using assms
    by (simp add: merge_by_key_normal[OF claims.keyed_merge_axioms] normal_spec_def)
  moreover have "PodTemplateSpecs order (stss_Template s) zero_pod_template = stss_Template s"
    using assms by (simp add: PodTemplateSpecs_def zero_pod_template_def merge_pod_spec_empty normal_spec_def)
  ultimately show ?thesis
    by (simp add: StatefulSetSpecs_def zero_statefulset_spec_def LabelSelectors_def)
qed

definition demo_sts_spec :: statefulset_spec where
  "demo_sts_spec = zero_statefulset_spec\<lparr>stss_ServiceName := ''mdb-svc'',
     stss_Template := zero_pod_template\<lparr>pt_Spec := zero_pod_spec\<lparr>
       ps_Containers := [demo_container ''agent'' ''b'', demo_container ''mongod'' ''a'']\<rparr>\<rparr>\<rparr>"

text \<open>Overriding processes only sets \<open>disabled\<close> and \<open>logRotate\<close> of the process with the same
  name; overrides without a process are ignored, and the last override of a name wins.\<close>

theorem mergeProcesses_by_name:
  assumes "distinct (map p_Name ps)"
  shows "mergeProcesses ps qs = map (\<lambda>p. case last_with p_Name (p_Name p) qs of
      None \<Rightarrow> p
    | Some q \<Rightarrow> p\<lparr>p_Disabled := p_Disabled q, p_LogRotate := p_LogRotate q\<rparr>) ps"
proof (induction qs rule: rev_induct)
  case Nil
  then show ?case by (simp add: mergeProcesses_def last_with_def)
next
  case (snoc q qs)
  let ?g = "\<lambda>qs p. case last_with p_Name (p_Name p) qs of None \<Rightarrow> p
    | Some q \<Rightarrow> p\<lparr>p_Disabled := p_Disabled q, p_LogRotate := p_LogRotate q\<rparr>"
  let ?i = "getProcessIndexByName (p_Name q) ps 0"
  have step: "mergeProcesses ps (qs @ [q]) = (if ?i = -1 then mergeProcesses ps qs
      else (mergeProcesses ps qs)[nat ?i := mergeProcess (ps ! nat ?i) q])"
    by (simp add: mergeProcesses_def Let_def)
  show ?case
  proof (cases "?i = -1")
    case True
    then have "p_Name q \<noteq> p_Name p" if "p \<in> set ps" for p using that by (auto simp: getProcessIndexByName_None)
    then show ?thesis using step True snoc by (simp add: last_with_snoc)
  next
    case False
    then obtain j where j: "j < length ps" "p_Name (ps ! j) = p_Name q"
      by (auto simp: getProcessIndexByName_None in_set_conv_nth)
    then have "?i = int j" using getProcessIndexByName_distinct[OF assms j(1)] by simp
    moreover have "p_Name q = p_Name (ps ! k) \<longleftrightarrow> k = j" if "k < length ps" for k
      using same_name_same_index[OF assms that j(1)] j(2) by auto
    ultimately have at: "mergeProcesses ps (qs @ [q]) ! k = map (?g (qs @ [q])) ps ! k" if "k < length ps" for k
      using step False snoc j that
      by (cases "k = j") (simp_all add: last_with_snoc nth_list_update mergeProcess_def)
    have "length (mergeProcesses ps (qs @ [q])) = length ps" using step False snoc by simp
    then show ?thesis using at by (intro nth_equalityI) simp_all
  qed
qed

text \<open>Topology spread constraints are the exception: their order in the merged spec is the
  order in which Go happens to iterate over a map.\<close>

theorem TopologySpreadConstraints_order_dependent:
  "let cs = map (\<lambda>k. \<lparr>tsc_MaxSkew = 1, tsc_TopologyKey = k, tsc_WhenUnsatisfiable = '''', tsc_LabelSelector = None\<rparr>)
         [''host'', ''zone'']
   in is_iteration (\<lambda>ks. ks) \<and> is_iteration rev \<and>
      TopologySpreadConstraints (\<lambda>ks. ks) cs [] \<noteq> TopologySpreadConstraints rev cs []"
  by (simp add: is_iteration_id is_iteration_rev TopologySpreadConstraints_def iterate_def merge_maps_def
      by_key_def List.map_filter_simps)

end
