(* ===== verification/Status.thy ===== *)
theory Status
  imports Flow Kube_Objects Scaling
begin

text \<open>
  Writing the status of the resource (\<open>controllers/mongodb_status_options.go\<close>,
  \<open>pkg/util/status\<close>), the watcher that maps a changed secret or config map to the
  resources to reconcile (\<open>controllers/watch\<close>), and the predicate on updates
  (\<open>controllers/predicates\<close>).
\<close>

subsection \<open>Options\<close>

text \<open>The constructor of the severity \<open>NONE\<close> is renamed; logging has no effect in the model.\<close>

datatype severity = Info | Debug | Warn | Error | NoSeverity

datatype status_option =
    mongoUriOption string
  | versionOption string
  | phaseOption phase int
  | messageOption severity string
  | mongoDBReplicasOption int
  | statefulSetReplicasOption int
  | mongoDBArbitersOption int
  | statefulSetArbitersOption int

abbreviation on_status :: "(mdb_status \<Rightarrow> mdb_status) \<Rightarrow> mdb \<Rightarrow> mdb" where
  "on_status f m \<equiv> m\<lparr>Status := f (Status m)\<rparr>"

fun ApplyOption :: "status_option \<Rightarrow> mdb \<Rightarrow> mdb" where
  "ApplyOption (mongoUriOption uri) m = on_status (\<lambda>s. s\<lparr>MongoURI := uri\<rparr>) m"
| "ApplyOption (versionOption v) m = on_status (\<lambda>s. s\<lparr>StatusVersion := v\<rparr>) m"
| "ApplyOption (phaseOption p _) m = on_status (\<lambda>s. s\<lparr>Phase := p\<rparr>) m"
| "ApplyOption (messageOption _ msg) m = on_status (\<lambda>s. s\<lparr>Message := msg\<rparr>) m"
| "ApplyOption (mongoDBReplicasOption n) m = on_status (\<lambda>s. s\<lparr>CurrentMongoDBMembers := n\<rparr>) m"
| "ApplyOption (statefulSetReplicasOption n) m = on_status (\<lambda>s. s\<lparr>CurrentStatefulSetReplicas := n\<rparr>) m"
| "ApplyOption (mongoDBArbitersOption n) m = on_status (\<lambda>s. s\<lparr>CurrentMongoDBArbiters := n\<rparr>) m"
| "ApplyOption (statefulSetArbitersOption n) m = on_status (\<lambda>s. s\<lparr>CurrentStatefulSetArbitersReplicas := n\<rparr>) m"

fun GetResult :: "status_option \<Rightarrow> reconcile_result \<times> go_error option" where
  "GetResult (phaseOption p retryAfter) =
    (if p = Running then result_OK
     else if p = Pending then result_Retry retryAfter
     else if p = Failed then result_Failed
     else result_OK)"
| "GetResult _ = result_OK"

type_synonym optionBuilder = "status_option list"

definition statusOptions :: optionBuilder where "statusOptions = []"

definition withMongoURI :: "string \<Rightarrow> optionBuilder \<Rightarrow> optionBuilder" where
  "withMongoURI uri o' = o' @ [mongoUriOption uri]"

definition withVersion :: "string \<Rightarrow> optionBuilder \<Rightarrow> optionBuilder" where
  "withVersion version o' = o' @ [versionOption version]"

definition withPhase :: "phase \<Rightarrow> int \<Rightarrow> optionBuilder \<Rightarrow> optionBuilder" where
  "withPhase p retryAfter o' = o' @ [phaseOption p retryAfter]"

definition withMongoDBMembers :: "int \<Rightarrow> optionBuilder \<Rightarrow> optionBuilder" where
  "withMongoDBMembers members o' = o' @ [mongoDBReplicasOption members]"

definition withStatefulSetReplicas :: "int \<Rightarrow> optionBuilder \<Rightarrow> optionBuilder" where
  "withStatefulSetReplicas members o' = o' @ [statefulSetReplicasOption members]"

definition withMongoDBArbiters :: "int \<Rightarrow> optionBuilder \<Rightarrow> optionBuilder" where
  "withMongoDBArbiters arbiters o' = o' @ [mongoDBArbitersOption arbiters]"

definition withStatefulSetArbiters :: "int \<Rightarrow> optionBuilder \<Rightarrow> optionBuilder" where
  "withStatefulSetArbiters arbiters o' = o' @ [statefulSetArbitersOption arbiters]"

definition withMessage :: "severity \<Rightarrow> string \<Rightarrow> optionBuilder \<Rightarrow> optionBuilder" where
  "withMessage severityLevel msg o' =
    (if IsTransientMessage msg then o' @ [messageOption Debug '''']
     else o' @ [messageOption severityLevel msg])"

definition withFailedPhase :: "optionBuilder \<Rightarrow> optionBuilder" where
  "withFailedPhase = withPhase Failed 0"

definition withPendingPhase :: "int \<Rightarrow> optionBuilder \<Rightarrow> optionBuilder" where
  "withPendingPhase retryAfter = withPhase Pending retryAfter"

definition withRunningPhase :: "optionBuilder \<Rightarrow> optionBuilder" where
  "withRunningPhase = withPhase Running (-1)"

lemmas option_defs = statusOptions_def withMongoURI_def withVersion_def withPhase_def withMongoDBMembers_def
  withStatefulSetReplicas_def withMongoDBArbiters_def withStatefulSetArbiters_def withMessage_def
  withFailedPhase_def withPendingPhase_def withRunningPhase_def

text \<open>\<open>status.Update\<close>; the updated resource is returned as well, since the caller goes on with it.\<close>

definition status_Update_options ::
    "'w kube_client \<Rightarrow> mdb \<Rightarrow> optionBuilder \<Rightarrow> ('w, (reconcile_result \<times> go_error option) \<times> mdb) effect" where
  "status_Update_options c m options w =
    (let m' = fold ApplyOption options m
     in case status_Update c m' w of
          (Some err, w1) \<Rightarrow> (((zero_result, Some err), m'), w1)
        | (None, w1) \<Rightarrow> ((determineReconciliationResult (map GetResult options), m'), w1))"

subsection \<open>Watching secrets and config maps\<close>

type_synonym watcher = "(nsname \<times> nsname list) list"

definition watch_New :: watcher where "watch_New = []"

definition Watch :: "nsname \<Rightarrow> nsname \<Rightarrow> watcher \<Rightarrow> watcher" where
  "Watch watchedName dependentName watched =
    (let existing = map_get watchedName [] watched
     in if contains_NamespacedName existing dependentName then watched
        else map_put watchedName (existing @ [dependentName]) watched)"

definition handleEvent :: "watcher \<Rightarrow> nsname \<Rightarrow> nsname list \<Rightarrow> nsname list" where
  "handleEvent watched changedObjectName queue = queue @ map_get changedObjectName [] watched"

subsection \<open>Spec changes\<close>

definition OnlyOnSpecChange :: "mdb \<Rightarrow> mdb \<Rightarrow> bool" where
  "OnlyOnSpecChange oldResource newResource = (Spec oldResource \<noteq> Spec newResource)"

subsection \<open>Results of the phases\<close>

lemma GetResult_no_error [simp]: "snd (GetResult opt) = None"
  by (cases opt) (auto simp: result_defs)

lemma GetResult_pair: obtains res where "GetResult opt = (res, None)"
  using GetResult_no_error by (metis prod.collapse)

lemma first_error_options [simp]: "first_error (map GetResult options) = None"
proof (induction options)
  case (Cons opt options)
  then show ?case by (cases opt rule: GetResult_pair) simp
qed simp

fun is_phase :: "status_option \<Rightarrow> bool" where
  "is_phase (phaseOption _ _) = True"
| "is_phase _ = False"

lemma GetResult_not_phase: "\<not> is_phase opt \<Longrightarrow> GetResult opt = result_OK"
  by (cases opt) simp_all

lemma first_requeue_skip:
  "list_all (\<lambda>opt. \<not> is_phase opt) pre \<Longrightarrow>
   first_requeue (map GetResult (pre @ options)) = first_requeue (map GetResult options)"
  by (induction pre) (simp_all add: GetResult_not_phase result_defs)

subsection \<open>Dependents of a watched object\<close>

lemma map_get_map_put: "map_get k d (map_put k' v m) = (if k = k' then v else map_get k d m)"
  by (simp add: map_get_def)

lemma map_get_Watch:
  "map_get k [] (Watch a d watched) =
     (if k = a \<and> d \<notin> set (map_get a [] watched) then map_get a [] watched @ [d] else map_get k [] watched)"
  by (auto simp: Watch_def map_get_map_put Let_def)

definition register :: "(nsname \<times> nsname) list \<Rightarrow> watcher \<Rightarrow> watcher" where
  "register ws watched = fold (\<lambda>(a, d). Watch a d) ws watched"

lemma set_register:
  "set (map_get k [] (register ws watched)) = set (map_get k [] watched) \<union> {d. (k, d) \<in> set ws}"
proof (induction ws arbitrary: watched)
  case (Cons p ws)
  obtain a d where "p = (a, d)" by fastforce
  then show ?case using Cons[of "Watch a d watched"] by (auto simp: register_def map_get_Watch)
qed (simp add: register_def)

lemma distinct_register:
  "distinct (map_get k [] watched) \<Longrightarrow> distinct (map_get k [] (register ws watched))"
proof (induction ws arbitrary: watched)
  case (Cons p ws)
  obtain a d where p: "p = (a, d)" by fastforce
  have "distinct (map_get k [] (Watch a d watched))" using Cons.prems by (auto simp: map_get_Watch)
  from Cons.IH[OF this] show ?case by (simp add: p register_def)
qed (simp add: register_def)

text \<open>A change of a watched secret or config map enqueues exactly the resources that
  registered it, each once, however often they registered.\<close>

theorem watched_events_enqueue_dependents:
  "set (handleEvent (register ws watch_New) k []) = {d. (k, d) \<in> set ws} \<and>
   distinct (handleEvent (register ws watch_New) k [])"
  using set_register[of k ws watch_New] distinct_register[of k watch_New ws]
  by (simp add: handleEvent_def watch_New_def map_get_def)

text \<open>The phase alone decides about requeueing: a failed resource is requeued at once, a
  pending one after its delay, a running one not at all, whatever other options are set; if
  the status cannot be written, that error is returned.\<close>

theorem status_result_by_phase:
  assumes "list_all (\<lambda>opt. \<not> is_phase opt) (pre @ post)"
  shows "fst (fst (status_Update_options c m (pre @ [phaseOption p t] @ post) w)) =
    (case fst (status_Update c (fold ApplyOption (pre @ [phaseOption p t] @ post) m) w) of
       Some err \<Rightarrow> (zero_result, Some err)
     | None \<Rightarrow> (case p of Running \<Rightarrow> result_OK | Pending \<Rightarrow> result_Retry t
                 | Failed \<Rightarrow> result_Failed | NoPhase \<Rightarrow> result_OK))"
proof -
  have "first_requeue (map GetResult (pre @ [phaseOption p t] @ post)) =
      first_requeue (map GetResult ([phaseOption p t] @ post))"
    using assms by (intro first_requeue_skip) simp
  moreover have "first_requeue (map GetResult post) = None"
    using first_requeue_skip[of post "[]"] assms by simp
  ultimately have "determineReconciliationResult (map GetResult (pre @ [phaseOption p t] @ post)) =
      (case p of Running \<Rightarrow> result_OK | Pending \<Rightarrow> result_Retry t | Failed \<Rightarrow> result_Failed | NoPhase \<Rightarrow> result_OK)"
    unfolding determineReconciliationResult_def first_error_options by (cases p) (simp_all add: result_defs)
  then show ?thesis
    by (simp add: status_Update_options_def Let_def split: prod.split option.split)
qed

end
