(* ===== verification/Sts_Modifications.thy ===== *)
theory Sts_Modifications
  imports Merge
begin

text \<open>
  Modifications of containers, pod templates, persistent volume claims, probes and
  StatefulSets, and the operations on StatefulSets: \<open>pkg/kube/container\<close>,
  \<open>pkg/kube/podtemplatespec\<close>, \<open>pkg/kube/probes\<close>, \<open>pkg/kube/lifecycle\<close>,
  \<open>pkg/kube/persistentvolumeclaim\<close>, \<open>pkg/kube/resourcerequirements\<close>,
  \<open>pkg/kube/statefulset\<close> and the rest of \<open>pkg/util/envvar\<close>.

  A Go modification is a function that changes an object through a pointer; here it returns
  the changed object.  Functions of the same name in several packages carry the package as
  a prefix.  \<open>getenv\<close> is the environment of the process, \<open>quantity\<close> the third-party
  \<open>resource.ParseQuantity\<close> with quantities as their text, \<open>order\<close> the iteration order of Go
  maps.
\<close>

type_synonym getenv = "string \<Rightarrow> string option"
type_synonym quantity = "string \<Rightarrow> string fallible"

definition Apply :: "('a \<Rightarrow> 'a) list \<Rightarrow> 'a \<Rightarrow> 'a" where
  "Apply mods = fold (\<lambda>f. f) mods"

lemma Apply_simps [simp]: "Apply [] x = x" "Apply (f # fs) x = Apply fs (f x)"
  by (simp_all add: Apply_def)

text \<open>The conversion \<open>int32(i)\<close>.\<close>

definition int32 :: "int \<Rightarrow> int" where
  "int32 i = sint (word_of_int i :: 32 word)"

subsection \<open>Environment\<close>

definition GetEnvOrDefault :: "getenv \<Rightarrow> string \<Rightarrow> string \<Rightarrow> string" where
  "GetEnvOrDefault getenv envVar defaultValue = (case getenv envVar of Some val \<Rightarrow> val | None \<Rightarrow> defaultValue)"

text \<open>\<open>strings.TrimSpace\<close> on ASCII text.\<close>

definition is_space :: "char \<Rightarrow> bool" where
  "is_space c = (c = CHR '' '' \<or> in_range CHR 0x09 CHR 0x0D c)"

definition TrimSpace :: "string \<Rightarrow> string" where
  "TrimSpace s = rev (dropWhile is_space (rev (dropWhile is_space s)))"

definition ReadBool :: "getenv \<Rightarrow> string \<Rightarrow> bool" where
  "ReadBool getenv envVarName = (TrimSpace (map lower_char (GetEnvOrDefault getenv envVarName ''false'')) = ''true'')"

definition os_Getenv :: "getenv \<Rightarrow> string \<Rightarrow> string" where
  "os_Getenv getenv name = GetEnvOrDefault getenv name ''''"

subsection \<open>Probes and lifecycle\<close>

definition WithExecCommand :: "string list \<Rightarrow> probe \<Rightarrow> probe" where
  "WithExecCommand cmd p = p\<lparr>pr_Exec := Some cmd\<rparr>"

definition WithFailureThreshold :: "int \<Rightarrow> probe \<Rightarrow> probe" where
  "WithFailureThreshold n p = p\<lparr>pr_FailureThreshold := int32 n\<rparr>"

definition WithInitialDelaySeconds :: "int \<Rightarrow> probe \<Rightarrow> probe" where
  "WithInitialDelaySeconds n p = p\<lparr>pr_InitialDelaySeconds := int32 n\<rparr>"

definition WithSuccessThreshold :: "int \<Rightarrow> probe \<Rightarrow> probe" where
  "WithSuccessThreshold n p = p\<lparr>pr_SuccessThreshold := int32 n\<rparr>"

definition WithPeriodSeconds :: "int \<Rightarrow> probe \<Rightarrow> probe" where
  "WithPeriodSeconds n p = p\<lparr>pr_PeriodSeconds := int32 n\<rparr>"

definition WithTimeoutSeconds :: "int \<Rightarrow> probe \<Rightarrow> probe" where
  "WithTimeoutSeconds n p = p\<lparr>pr_TimeoutSeconds := int32 n\<rparr>"

definition probes_New :: "(probe \<Rightarrow> probe) list \<Rightarrow> probe" where
  "probes_New funcs = Apply funcs zero_probe"

text \<open>The handlers of a lifecycle are untyped values with a member per kind of handler.\<close>

definition members_of :: "go_value option \<Rightarrow> go_map" where
  "members_of v = (case v of Some (VMap m) \<Rightarrow> m | _ \<Rightarrow> [])"

definition WithPrestopCommand :: "string list \<Rightarrow> lifecycle \<Rightarrow> lifecycle" where
  "WithPrestopCommand preStopCmd lc =
    (let preStop = members_of (lc_PreStop lc); exec = members_of (map_of preStop ''exec'')
     in lc\<lparr>lc_PreStop := Some (VMap (map_put ''exec''
          (VMap (map_put ''command'' (VList (map VStr preStopCmd)) exec)) preStop))\<rparr>)"

subsection \<open>Resources\<close>

definition buildResourceList :: "quantity \<Rightarrow> string \<Rightarrow> string \<Rightarrow> str_map fallible" where
  "buildResourceList quantity cpu memory =
    (case quantity cpu of
       Inl err \<Rightarrow> Inl err
     | Inr cpuQuantity \<Rightarrow>
         (case quantity memory of
            Inl err \<Rightarrow> Inl err
          | Inr memoryQuantity \<Rightarrow> Inr [(''cpu'', cpuQuantity), (''memory'', memoryQuantity)]))"

definition newRequirements ::
    "quantity \<Rightarrow> string \<Rightarrow> string \<Rightarrow> string \<Rightarrow> string \<Rightarrow> resource_requirements fallible" where
  "newRequirements quantity limitsCpu limitsMemory requestsCpu requestsMemory =
    (case buildResourceList quantity limitsCpu limitsMemory of
       Inl err \<Rightarrow> Inl err
     | Inr limits \<Rightarrow>
         (case buildResourceList quantity requestsCpu requestsMemory of
            Inl err \<Rightarrow> Inl err
          | Inr requests \<Rightarrow> Inr \<lparr>rr_Limits = Some limits, rr_Requests = Some requests\<rparr>))"

definition newDefaultRequirements :: "quantity \<Rightarrow> resource_requirements fallible" where
  "newDefaultRequirements quantity = newRequirements quantity ''1.0'' ''500M'' ''0.5'' ''400M''"

definition resource_Defaults :: "quantity \<Rightarrow> resource_requirements" where
  "resource_Defaults quantity = (case newDefaultRequirements quantity of
     Inr req \<Rightarrow> req | Inl _ \<Rightarrow> \<lparr>rr_Limits = None, rr_Requests = None\<rparr>)"

text \<open>The error of the parser is dropped, which leaves the zero quantity.\<close>

definition BuildStorageRequirements :: "quantity \<Rightarrow> string \<Rightarrow> str_map" where
  "BuildStorageRequirements quantity amount =
    [(''storage'', case quantity amount of Inr g \<Rightarrow> g | Inl _ \<Rightarrow> ''0'')]"

definition BuildDefaultStorageRequirements :: "quantity \<Rightarrow> str_map" where
  "BuildDefaultStorageRequirements quantity =
    [(''storage'', case quantity ''10G'' of Inr g \<Rightarrow> g | Inl _ \<Rightarrow> ''0'')]"

subsection \<open>Persistent volume claims\<close>

definition pvc_WithName :: "string \<Rightarrow> pvc \<Rightarrow> pvc" where
  "pvc_WithName name claim = claim\<lparr>pvc_Name := name\<rparr>"

definition WithAccessModes :: "string \<Rightarrow> pvc \<Rightarrow> pvc" where
  "WithAccessModes accessMode claim = claim\<lparr>pvc_AccessModes := [accessMode]\<rparr>"

definition WithResourceRequests :: "str_map \<Rightarrow> pvc \<Rightarrow> pvc" where
  "WithResourceRequests requests claim = claim\<lparr>pvc_Requests := Some requests\<rparr>"

definition WithStorageClassName :: "string \<Rightarrow> pvc \<Rightarrow> pvc" where
  "WithStorageClassName storageClassName claim = claim\<lparr>pvc_StorageClassName := Some storageClassName\<rparr>"

definition pvc_WithLabels :: "str_map \<Rightarrow> pvc \<Rightarrow> pvc" where
  "pvc_WithLabels labels claim = claim\<lparr>pvc_Labels := labels\<rparr>"

definition WithLabelSelector :: "go_value option \<Rightarrow> pvc \<Rightarrow> pvc" where
  "WithLabelSelector selector claim = claim\<lparr>pvc_Selector := selector\<rparr>"

subsection \<open>Containers\<close>

definition container_WithName :: "string \<Rightarrow> container \<Rightarrow> container" where
  "container_WithName name c = c\<lparr>c_Name := name\<rparr>"

definition WithImage :: "string \<Rightarrow> container \<Rightarrow> container" where
  "WithImage img c = c\<lparr>c_Image := img\<rparr>"

definition WithImagePullPolicy :: "string \<Rightarrow> container \<Rightarrow> container" where
  "WithImagePullPolicy pullPolicy c = c\<lparr>c_ImagePullPolicy := pullPolicy\<rparr>"

definition WithWorkDir :: "string \<Rightarrow> container \<Rightarrow> container" where
  "WithWorkDir workDir c = c\<lparr>c_WorkingDir := workDir\<rparr>"

definition or_zero :: "'a \<Rightarrow> 'a option \<Rightarrow> 'a" where
  "or_zero z p = (case p of Some x \<Rightarrow> x | None \<Rightarrow> z)"

definition WithReadinessProbe :: "(probe \<Rightarrow> probe) \<Rightarrow> container \<Rightarrow> container" where
  "WithReadinessProbe probeFunc c = c\<lparr>c_ReadinessProbe := Some (probeFunc (or_zero zero_probe (c_ReadinessProbe c)))\<rparr>"

definition WithLivenessProbe :: "(probe \<Rightarrow> probe) \<Rightarrow> container \<Rightarrow> container" where
  "WithLivenessProbe probeFunc c = c\<lparr>c_LivenessProbe := Some (probeFunc (or_zero zero_probe (c_LivenessProbe c)))\<rparr>"

definition WithStartupProbe :: "(probe \<Rightarrow> probe) \<Rightarrow> container \<Rightarrow> container" where
  "WithStartupProbe probeFunc c = c\<lparr>c_StartupProbe := Some (probeFunc (or_zero zero_probe (c_StartupProbe c)))\<rparr>"

definition WithLifecycle :: "(lifecycle \<Rightarrow> lifecycle) \<Rightarrow> container \<Rightarrow> container" where
  "WithLifecycle lifeCycleMod c = c\<lparr>c_Lifecycle := Some (lifeCycleMod (or_zero zero_lifecycle (c_Lifecycle c)))\<rparr>"

definition WithResourceRequirements :: "resource_requirements \<Rightarrow> container \<Rightarrow> container" where
  "WithResourceRequirements resources c = c\<lparr>c_Resources := resources\<rparr>"

definition WithCommand :: "string list \<Rightarrow> container \<Rightarrow> container" where
  "WithCommand cmd c = c\<lparr>c_Command := cmd\<rparr>"

definition WithArgs :: "string list \<Rightarrow> container \<Rightarrow> container" where
  "WithArgs args c = c\<lparr>c_Args := args\<rparr>"

definition WithEnvs :: "iteration \<Rightarrow> env_var list \<Rightarrow> container \<Rightarrow> container" where
  "WithEnvs order envs c = c\<lparr>c_Env := MergeWithOverride order (c_Env c) envs\<rparr>"

definition container_volumeMountToString :: "volume_mount \<Rightarrow> string" where
  "container_volumeMountToString v = str_join ''-'' [vm_Name v, vm_MountPath v, vm_SubPath v]"

definition container_WithVolumeMounts :: "iteration \<Rightarrow> volume_mount list \<Rightarrow> container \<Rightarrow> container" where
  "container_WithVolumeMounts order volumeMounts c =
    (let merged = fold (\<lambda>des. map_put (container_volumeMountToString des) des) volumeMounts
           (by_key container_volumeMountToString (c_VolumeMounts c))
     in c\<lparr>c_VolumeMounts := sort_key container_volumeMountToString (map snd (iterate order merged))\<rparr>)"

text \<open>The loop keeps the index of the last match.\<close>

definition remove_last :: "('a \<Rightarrow> bool) \<Rightarrow> 'a list \<Rightarrow> 'a list" where
  "remove_last P xs = (case dropWhile (\<lambda>x. \<not> P x) (rev xs) of
     [] \<Rightarrow> xs
   | _ # before \<Rightarrow> rev before @ rev (takeWhile (\<lambda>x. \<not> P x) (rev xs)))"

definition container_RemoveVolumeMount :: "string \<Rightarrow> container \<Rightarrow> container" where
  "container_RemoveVolumeMount volumeMount c =
    c\<lparr>c_VolumeMounts := remove_last (\<lambda>m. vm_Name m = volumeMount) (c_VolumeMounts c)\<rparr>"

definition WithVolumeDevices :: "volume_device list \<Rightarrow> container \<Rightarrow> container" where
  "WithVolumeDevices devices c = c\<lparr>c_VolumeDevices := devices\<rparr>"

definition WithPorts :: "container_port list \<Rightarrow> container \<Rightarrow> container" where
  "WithPorts ports c = c\<lparr>c_Ports := ports\<rparr>"

definition container_WithSecurityContext :: "security_context \<Rightarrow> container \<Rightarrow> container" where
  "container_WithSecurityContext context' c = c\<lparr>c_SecurityContext := Some context'\<rparr>"

definition DefaultSecurityContext :: security_context where
  "DefaultSecurityContext = zero_security_context\<lparr>sc_ReadOnlyRootFilesystem := Some True,
     sc_AllowPrivilegeEscalation := Some False\<rparr>"

fun GetByName :: "string \<Rightarrow> container list \<Rightarrow> container option" where
  "GetByName name [] = None"
| "GetByName name (c # cs) = (if c_Name c = name then Some c else GetByName name cs)"

definition container_New :: "(container \<Rightarrow> container) list \<Rightarrow> container" where
  "container_New mods = Apply mods zero_container"

subsection \<open>Pod templates\<close>

abbreviation on_pod_spec :: "(pod_spec \<Rightarrow> pod_spec) \<Rightarrow> pod_template \<Rightarrow> pod_template" where
  "on_pod_spec f t \<equiv> t\<lparr>pt_Spec := f (pt_Spec t)\<rparr>"

text \<open>\<open>findIndexByName\<close> and the update of the element at that index, or of a new last one.\<close>

fun findIndexByName :: "string \<Rightarrow> container list \<Rightarrow> int" where
  "findIndexByName name [] = -1"
| "findIndexByName name (c # cs) =
    (if c_Name c = name then 0 else (let i = findIndexByName name cs in if i = -1 then -1 else i + 1))"

definition update_container :: "string \<Rightarrow> (container \<Rightarrow> container) \<Rightarrow> container list \<Rightarrow> container list" where
  "update_container name f cs =
    (let idx = findIndexByName name cs
     in if idx = -1 then cs @ [f (zero_container\<lparr>c_Name := name\<rparr>)]
        else cs[nat idx := f (cs ! nat idx)])"

definition WithContainer :: "string \<Rightarrow> (container \<Rightarrow> container) \<Rightarrow> pod_template \<Rightarrow> pod_template" where
  "WithContainer name containerfunc =
    on_pod_spec (\<lambda>s. s\<lparr>ps_Containers := update_container name containerfunc (ps_Containers s)\<rparr>)"

definition WithInitContainer :: "string \<Rightarrow> (container \<Rightarrow> container) \<Rightarrow> pod_template \<Rightarrow> pod_template" where
  "WithInitContainer name containerfunc =
    on_pod_spec (\<lambda>s. s\<lparr>ps_InitContainers := update_container name containerfunc (ps_InitContainers s)\<rparr>)"

text \<open>By index: out of range a container is appended; an index beyond the new end panics.\<close>

definition update_by_index :: "int \<Rightarrow> (container \<Rightarrow> container) list \<Rightarrow> container list \<Rightarrow> container list fallible" where
  "update_by_index index funcs cs0 =
    (let cs = (if index \<ge> int (length cs0) then cs0 @ [zero_container] else cs0)
     in if index < 0 \<or> index \<ge> int (length cs) then Inl (errorf ''panic: index out of range'')
        else Inr (cs[nat index := Apply funcs (cs ! nat index)]))"

definition WithContainerByIndex :: "int \<Rightarrow> (container \<Rightarrow> container) list \<Rightarrow> pod_template \<Rightarrow> pod_template fallible" where
  "WithContainerByIndex index funcs t =
    map_sum id (\<lambda>cs. on_pod_spec (\<lambda>s. s\<lparr>ps_Containers := cs\<rparr>) t)
      (update_by_index index funcs (ps_Containers (pt_Spec t)))"

definition WithInitContainerByIndex :: "int \<Rightarrow> (container \<Rightarrow> container) list \<Rightarrow> pod_template \<Rightarrow> pod_template fallible" where
  "WithInitContainerByIndex index funcs t =
    map_sum id (\<lambda>cs. on_pod_spec (\<lambda>s. s\<lparr>ps_InitContainers := cs\<rparr>) t)
      (update_by_index index funcs (ps_InitContainers (pt_Spec t)))"

definition WithPodLabels :: "str_map \<Rightarrow> pod_template \<Rightarrow> pod_template" where
  "WithPodLabels labels t = t\<lparr>pt_Labels := labels\<rparr>"

definition WithServiceAccount :: "string \<Rightarrow> pod_template \<Rightarrow> pod_template" where
  "WithServiceAccount serviceAccountName = on_pod_spec (\<lambda>s. s\<lparr>ps_ServiceAccountName := serviceAccountName\<rparr>)"

fun add_volume :: "iteration \<Rightarrow> volume \<Rightarrow> volume list \<Rightarrow> volume list" where
  "add_volume order volume [] = [volume]"
| "add_volume order volume (v # vs) =
    (if vol_Name v = vol_Name volume then Volume order v volume # vs else v # add_volume order volume vs)"

definition WithVolume :: "iteration \<Rightarrow> volume \<Rightarrow> pod_template \<Rightarrow> pod_template" where
  "WithVolume order volume = on_pod_spec (\<lambda>s. s\<lparr>ps_Volumes := add_volume order volume (ps_Volumes s)\<rparr>)"

definition WithVolumes :: "iteration \<Rightarrow> volume list \<Rightarrow> pod_template \<Rightarrow> pod_template" where
  "WithVolumes order volumes t = fold (WithVolume order) volumes t"

definition RemoveVolume :: "string \<Rightarrow> pod_template \<Rightarrow> pod_template" where
  "RemoveVolume volume = on_pod_spec (\<lambda>s. s\<lparr>ps_Volumes := remove_last (\<lambda>v. vol_Name v = volume) (ps_Volumes s)\<rparr>)"

text \<open>The conversion \<open>int64(seconds)\<close> of an \<open>int\<close> keeps the value.\<close>

definition WithTerminationGracePeriodSeconds :: "int \<Rightarrow> pod_template \<Rightarrow> pod_template" where
  "WithTerminationGracePeriodSeconds seconds = on_pod_spec (\<lambda>s. s\<lparr>ps_TerminationGracePeriodSeconds := Some seconds\<rparr>)"

definition pod_WithSecurityContext :: "pod_security_context \<Rightarrow> pod_template \<Rightarrow> pod_template" where
  "pod_WithSecurityContext securityContext = on_pod_spec (\<lambda>s. s\<lparr>ps_SecurityContext := Some securityContext\<rparr>)"

definition DefaultPodSecurityContext :: pod_security_context where
  "DefaultPodSecurityContext = \<lparr>psc_RunAsUser = Some 2000, psc_RunAsNonRoot = Some True, psc_FSGroup = Some 2000,
     psc_Other = None\<rparr>"

definition WithImagePullSecrets :: "string \<Rightarrow> pod_template \<Rightarrow> pod_template" where
  "WithImagePullSecrets name = on_pod_spec (\<lambda>s.
    (let existing = (case ps_ImagePullSecrets s of Some l \<Rightarrow> l | None \<Rightarrow> [])
     in if list_ex (\<lambda>v. v = name) existing then s else s\<lparr>ps_ImagePullSecrets := Some (existing @ [name])\<rparr>))"

definition WithTolerations :: "go_value option \<Rightarrow> pod_template \<Rightarrow> pod_template" where
  "WithTolerations tolerations = on_pod_spec (\<lambda>s. s\<lparr>ps_Scheduling := (ps_Scheduling s)\<lparr>ps_Tolerations := tolerations\<rparr>\<rparr>)"

definition pod_WithAnnotations :: "str_map \<Rightarrow> pod_template \<Rightarrow> pod_template" where
  "pod_WithAnnotations annotations t =
    t\<lparr>pt_Annotations := fold (\<lambda>(k, v). map_put k v) annotations (pt_Annotations t)\<rparr>"

text \<open>\<open>FindContainerByName\<close> returns a pointer; its two uses below write through it.\<close>

definition FindContainerByName :: "string \<Rightarrow> pod_template \<Rightarrow> container option" where
  "FindContainerByName name t =
    (case GetByName name (ps_Containers (pt_Spec t)) of
       Some c \<Rightarrow> Some c
     | None \<Rightarrow> GetByName name (ps_InitContainers (pt_Spec t)))"

definition modify_found :: "string \<Rightarrow> (container \<Rightarrow> container) \<Rightarrow> pod_template \<Rightarrow> pod_template" where
  "modify_found containerName f t =
    (if findIndexByName containerName (ps_Containers (pt_Spec t)) \<noteq> -1 then WithContainer containerName f t
     else if findIndexByName containerName (ps_InitContainers (pt_Spec t)) \<noteq> -1 then WithInitContainer containerName f t
     else t)"

definition pod_WithVolumeMounts :: "iteration \<Rightarrow> string \<Rightarrow> volume_mount list \<Rightarrow> pod_template \<Rightarrow> pod_template" where
  "pod_WithVolumeMounts order containerName volumeMounts =
    modify_found containerName (container_WithVolumeMounts order volumeMounts)"

definition pod_RemoveVolumeMount :: "string \<Rightarrow> string \<Rightarrow> pod_template \<Rightarrow> pod_template" where
  "pod_RemoveVolumeMount containerName volumeMount =
    modify_found containerName (container_RemoveVolumeMount volumeMount)"

definition ManagedSecurityContextEnv :: string where "ManagedSecurityContextEnv = ''MANAGED_SECURITY_CONTEXT''"

definition WithDefaultSecurityContextsModifications ::
    "getenv \<Rightarrow> (pod_template \<Rightarrow> pod_template) \<times> (container \<Rightarrow> container)" where
  "WithDefaultSecurityContextsModifications getenv =
    (if \<not> ReadBool getenv ManagedSecurityContextEnv
     then (pod_WithSecurityContext DefaultPodSecurityContext, container_WithSecurityContext DefaultSecurityContext)
     else (id, id))"

definition podtemplatespec_New :: "(pod_template \<Rightarrow> pod_template) list \<Rightarrow> pod_template" where
  "podtemplatespec_New templateMods = Apply templateMods zero_pod_template"

subsection \<open>Volumes and mounts\<close>

definition CreateVolumeFromConfigMap :: "string \<Rightarrow> string \<Rightarrow> (volume \<Rightarrow> volume) list \<Rightarrow> volume" where
  "CreateVolumeFromConfigMap name sourceName options = Apply options
    \<lparr>vol_Name = name, vol_Source = zero_volume_source\<lparr>vs_ConfigMap := Some
       \<lparr>cs_Name = sourceName, cs_Items = [], cs_DefaultMode = None, cs_Optional = None\<rparr>\<rparr>\<rparr>"

definition CreateVolumeFromSecret :: "string \<Rightarrow> string \<Rightarrow> (volume \<Rightarrow> volume) list \<Rightarrow> volume" where
  "CreateVolumeFromSecret name sourceName options = Apply options
    \<lparr>vol_Name = name, vol_Source = zero_volume_source\<lparr>vs_Secret := Some
       \<lparr>ss_SecretName = sourceName, ss_Items = [], ss_DefaultMode = Some 416, ss_Optional = None\<rparr>\<rparr>\<rparr>"

definition CreateVolumeFromEmptyDir :: "string \<Rightarrow> volume" where
  "CreateVolumeFromEmptyDir name = \<lparr>vol_Name = name, vol_Source = zero_volume_source\<lparr>vs_EmptyDir := Some
     \<lparr>ed_Medium = '''', ed_SizeLimit = None\<rparr>\<rparr>\<rparr>"

definition CreateVolumeMount :: "string \<Rightarrow> string \<Rightarrow> (volume_mount \<Rightarrow> volume_mount) list \<Rightarrow> volume_mount" where
  "CreateVolumeMount name path options = Apply options
    \<lparr>vm_Name = name, vm_ReadOnly = False, vm_MountPath = path, vm_SubPath = '''', vm_MountPropagation = None,
     vm_SubPathExpr = ''''\<rparr>"

definition WithSecretDefaultMode :: "int option \<Rightarrow> volume \<Rightarrow> volume" where
  "WithSecretDefaultMode mode v =
    (let secret = or_zero \<lparr>ss_SecretName = '''', ss_Items = [], ss_DefaultMode = None, ss_Optional = None\<rparr>
           (vs_Secret (vol_Source v))
     in v\<lparr>vol_Source := (vol_Source v)\<lparr>vs_Secret := Some (secret\<lparr>ss_DefaultMode := mode\<rparr>)\<rparr>\<rparr>)"

definition WithSubPath :: "string \<Rightarrow> volume_mount \<Rightarrow> volume_mount" where
  "WithSubPath subPath v = v\<lparr>vm_SubPath := subPath\<rparr>"

definition WithReadOnly :: "bool \<Rightarrow> volume_mount \<Rightarrow> volume_mount" where
  "WithReadOnly readonly v = v\<lparr>vm_ReadOnly := readonly\<rparr>"

definition VolumeMountWithNameExists :: "volume_mount list \<Rightarrow> string \<Rightarrow> bool" where
  "VolumeMountWithNameExists mounts volumeName = list_ex (\<lambda>mount. vm_Name mount = volumeName) mounts"

subsection \<open>StatefulSets\<close>

abbreviation on_sts_spec :: "(statefulset_spec \<Rightarrow> statefulset_spec) \<Rightarrow> statefulset \<Rightarrow> statefulset" where
  "on_sts_spec f sts \<equiv> sts\<lparr>sts_Spec := f (sts_Spec sts)\<rparr>"

definition IsReady :: "statefulset \<Rightarrow> int \<Rightarrow> bool" where
  "IsReady sts expectedReplicas =
    (let allUpdated = (word_of_int expectedReplicas = sts_UpdatedReplicas sts);
         allReady = (word_of_int expectedReplicas = sts_ReadyReplicas sts);
         atExpectedGeneration = (sts_Generation sts = sts_ObservedGeneration sts)
     in allUpdated \<and> allReady \<and> atExpectedGeneration)"

definition statefulset_New :: "(statefulset \<Rightarrow> statefulset) list \<Rightarrow> statefulset" where
  "statefulset_New mods = Apply mods zero_statefulset"

definition sts_WithName :: "string \<Rightarrow> statefulset \<Rightarrow> statefulset" where
  "sts_WithName name sts = sts\<lparr>sts_Name := name\<rparr>"

definition WithNamespace :: "string \<Rightarrow> statefulset \<Rightarrow> statefulset" where
  "WithNamespace namespace sts = sts\<lparr>sts_Namespace := namespace\<rparr>"

definition WithServiceName :: "string \<Rightarrow> statefulset \<Rightarrow> statefulset" where
  "WithServiceName svcName = on_sts_spec (\<lambda>s. s\<lparr>stss_ServiceName := svcName\<rparr>)"

definition sts_WithLabels :: "str_map \<Rightarrow> statefulset \<Rightarrow> statefulset" where
  "sts_WithLabels labels sts = sts\<lparr>sts_Labels := labels\<rparr>"

definition sts_WithAnnotations :: "str_map \<Rightarrow> statefulset \<Rightarrow> statefulset" where
  "sts_WithAnnotations annotations sts = sts\<lparr>sts_Annotations := StringToStringMap (sts_Annotations sts) annotations\<rparr>"

definition WithMatchLabels :: "str_map \<Rightarrow> statefulset \<Rightarrow> statefulset" where
  "WithMatchLabels matchLabels = on_sts_spec (\<lambda>s. s\<lparr>stss_Selector :=
     Some ((or_zero \<lparr>ls_MatchLabels = [], ls_MatchExpressions = []\<rparr> (stss_Selector s))\<lparr>ls_MatchLabels := matchLabels\<rparr>)\<rparr>)"

definition WithOwnerReference :: "owner_ref list \<Rightarrow> statefulset \<Rightarrow> statefulset" where
  "WithOwnerReference ownerRefs sts = sts\<lparr>sts_OwnerReferences := ownerRefs\<rparr>"

definition WithReplicas :: "int \<Rightarrow> statefulset \<Rightarrow> statefulset" where
  "WithReplicas replicas = on_sts_spec (\<lambda>s. s\<lparr>stss_Replicas := Some (word_of_int replicas)\<rparr>)"

definition WithRevisionHistoryLimit :: "int \<Rightarrow> statefulset \<Rightarrow> statefulset" where
  "WithRevisionHistoryLimit limit = on_sts_spec (\<lambda>s. s\<lparr>stss_RevisionHistoryLimit := Some (word_of_int limit)\<rparr>)"

definition WithPodManagementPolicyType :: "string \<Rightarrow> statefulset \<Rightarrow> statefulset" where
  "WithPodManagementPolicyType policyType = on_sts_spec (\<lambda>s. s\<lparr>stss_PodManagementPolicy := policyType\<rparr>)"

definition WithSelector :: "label_selector option \<Rightarrow> statefulset \<Rightarrow> statefulset" where
  "WithSelector selector = on_sts_spec (\<lambda>s. s\<lparr>stss_Selector := selector\<rparr>)"

definition WithUpdateStrategyType :: "string \<Rightarrow> statefulset \<Rightarrow> statefulset" where
  "WithUpdateStrategyType strategyType =
    on_sts_spec (\<lambda>s. s\<lparr>stss_UpdateStrategyType := strategyType, stss_RollingUpdate := None\<rparr>)"

definition WithPodSpecTemplate :: "(pod_template \<Rightarrow> pod_template) \<Rightarrow> statefulset \<Rightarrow> statefulset" where
  "WithPodSpecTemplate templateFunc = on_sts_spec (\<lambda>s. s\<lparr>stss_Template := templateFunc (stss_Template s)\<rparr>)"

text \<open>\<open>findVolumeClaimIndexByName\<close> and the update at that index; a new claim starts empty.\<close>

fun update_claim :: "string \<Rightarrow> (pvc \<Rightarrow> pvc) \<Rightarrow> pvc list \<Rightarrow> pvc list" where
  "update_claim name f [] = [f zero_pvc]"
| "update_claim name f (p # ps) = (if pvc_Name p = name then f p # ps else p # update_claim name f ps)"

definition WithVolumeClaim :: "string \<Rightarrow> (pvc \<Rightarrow> pvc) \<Rightarrow> statefulset \<Rightarrow> statefulset" where
  "WithVolumeClaim name f =
    on_sts_spec (\<lambda>s. s\<lparr>stss_VolumeClaimTemplates := update_claim name f (stss_VolumeClaimTemplates s)\<rparr>)"

definition WithVolumeClaimTemplates :: "pvc list \<Rightarrow> statefulset \<Rightarrow> statefulset" where
  "WithVolumeClaimTemplates pv = on_sts_spec (\<lambda>s. s\<lparr>stss_VolumeClaimTemplates := pv\<rparr>)"

definition WithCustomSpecs :: "iteration \<Rightarrow> statefulset_spec \<Rightarrow> statefulset \<Rightarrow> statefulset" where
  "WithCustomSpecs order spec = on_sts_spec (\<lambda>s. StatefulSetSpecs order s spec)"

definition WithObjectMetadata :: "str_map \<Rightarrow> str_map \<Rightarrow> statefulset \<Rightarrow> statefulset" where
  "WithObjectMetadata labels annotations sts = sts_WithAnnotations annotations (sts_WithLabels labels sts)"

definition sts_CreateOrUpdate :: "'w kube_client \<Rightarrow> statefulset \<Rightarrow> ('w, statefulset fallible) effect" where
  "sts_CreateOrUpdate c statefulSet w =
    (case UpdateStatefulSet c statefulSet w of
       ((sts, None), w1) \<Rightarrow> (Inr sts, w1)
     | ((_, Some err), w1) \<Rightarrow>
         if err_not_found err
         then (case CreateStatefulSet c statefulSet w1 of
                 (None, w2) \<Rightarrow> (Inr statefulSet, w2)
               | (Some err2, w2) \<Rightarrow> (Inl err2, w2))
         else (Inl err, w1))"

definition sts_GetAndUpdate ::
    "'w kube_client \<Rightarrow> nsname \<Rightarrow> (statefulset \<Rightarrow> statefulset) \<Rightarrow> ('w, statefulset fallible) effect" where
  "sts_GetAndUpdate c nsName updateFunc w =
    (case GetStatefulSet c nsName w of
       (Inl err, w1) \<Rightarrow> (Inl err, w1)
     | (Inr sts, w1) \<Rightarrow>
         (case UpdateStatefulSet c (updateFunc sts) w1 of
            ((sts', None), w2) \<Rightarrow> (Inr sts', w2)
          | ((_, Some err), w2) \<Rightarrow> (Inl err, w2)))"

definition ResetUpdateStrategy :: "'w kube_client \<Rightarrow> mdb \<Rightarrow> ('w, unit fallible) effect" where
  "ResetUpdateStrategy c m =
    (if \<not> IsChangingVersion m then eff_return ()
     else eff_bind (sts_GetAndUpdate c (NamespacedName m)
            (\<lambda>sts. on_sts_spec (\<lambda>s. s\<lparr>stss_UpdateStrategyType := ''RollingUpdate''\<rparr>) sts)) (\<lambda>_. eff_return ()))"

end
