(* ===== verification/Crypto.thy ===== *)
theory Crypto
  imports Prelude
begin

text \<open>
  The parts of the Go standard library the operator computes credentials and file names with:
  \<open>crypto/sha1\<close>, \<open>crypto/sha256\<close>, \<open>crypto/md5\<close>, \<open>crypto/hmac\<close>, \<open>encoding/hex\<close> and
  \<open>encoding/base64\<close>.  A byte slice is a string.
\<close>

unbundle bit_operations_syntax

subsection \<open>Bytes and 32-bit words\<close>

type_synonym w32 = "32 word"

definition byte_xor :: "char \<Rightarrow> char \<Rightarrow> char" where
  "byte_xor a b = char_of ((of_char a :: nat) XOR of_char b)"

definition be_word :: "string \<Rightarrow> w32" where
  "be_word bs = of_nat (fold (\<lambda>b n. n * 256 + of_char b) bs 0)"

definition be_bytes :: "w32 \<Rightarrow> string" where
  "be_bytes x = map (\<lambda>i. char_of (unat (drop_bit i x) mod 256)) [24, 16, 8, 0]"

definition le_bytes :: "w32 \<Rightarrow> string" where
  "le_bytes x = rev (be_bytes x)"

definition rotl :: "nat \<Rightarrow> w32 \<Rightarrow> w32" where
  "rotl n x = (push_bit n x OR drop_bit (32 - n) x)"

definition rotr :: "nat \<Rightarrow> w32 \<Rightarrow> w32" where
  "rotr n x = rotl (32 - n) x"

function chunks :: "nat \<Rightarrow> 'a list \<Rightarrow> 'a list list" where
  "chunks n xs = (if xs = [] \<or> n = 0 then [] else take n xs # chunks n (drop n xs))"
  by pat_completeness simp_all
termination by (relation "measure (\<lambda>(_, xs). length xs)") simp_all

declare chunks.simps [simp del]

text \<open>The padding all three hash functions share: a one bit, zeros, and the length in bits.\<close>

definition length_bytes :: "nat \<Rightarrow> string" where
  "length_bytes n = map (\<lambda>i. char_of ((8 * n) div 256 ^ i mod 256)) [7, 6, 5, 4, 3, 2, 1, 0]"

definition hash_pad :: "string \<Rightarrow> string" where
  "hash_pad bs = bs @ CHR 0x80 # replicate ((119 - length bs mod 64) mod 64) CHR 0x00"

definition be_blocks :: "string \<Rightarrow> w32 list list" where
  "be_blocks bs = chunks 16 (map be_word (chunks 4 (hash_pad bs @ length_bytes (length bs))))"

definition le_blocks :: "string \<Rightarrow> w32 list list" where
  "le_blocks bs = chunks 16 (map (be_word \<circ> rev) (chunks 4 (hash_pad bs @ rev (length_bytes (length bs)))))"

subsection \<open>SHA-256\<close>

text \<open>The constants are read off irrational numbers: the first 32 bits of the fractional parts of
  the cube roots (for the rounds) and of the square roots (for the start) of the first primes.\<close>

definition iroot :: "nat \<Rightarrow> int \<Rightarrow> int" where
  "iroot k n = fold (\<lambda>i r. if (r + 2 ^ i) ^ k \<le> n then r + 2 ^ i else r) (rev [0..<40]) 0"

definition small_primes :: "int list" where
  "small_primes = filter (\<lambda>n. list_all (\<lambda>d. d < n \<longrightarrow> n mod d \<noteq> 0) [2..17]) [2..311]"

definition fraction_bits :: "nat \<Rightarrow> int \<Rightarrow> w32" where
  "fraction_bits k p = of_int (iroot k (p * 2 ^ (32 * k)))"

definition sha256_K :: "w32 list" where
  "sha256_K = map (fraction_bits 3) small_primes"

type_synonym sha256_state = "w32 \<times> w32 \<times> w32 \<times> w32 \<times> w32 \<times> w32 \<times> w32 \<times> w32"

definition sha256_init :: sha256_state where
  "sha256_init = (let h = fraction_bits 2 in (h 2, h 3, h 5, h 7, h 11, h 13, h 17, h 19))"

text \<open>The message schedule, most recent word first.\<close>

fun sha256_schedule :: "nat \<Rightarrow> w32 list \<Rightarrow> w32 list" where
  "sha256_schedule 0 ws = ws"
| "sha256_schedule (Suc n) ws =
    (let w15 = ws ! 14; w2 = ws ! 1;
         s0 = rotr 7 w15 XOR rotr 18 w15 XOR drop_bit 3 w15;
         s1 = rotr 17 w2 XOR rotr 19 w2 XOR drop_bit 10 w2
     in sha256_schedule n ((ws ! 15 + s0 + ws ! 6 + s1) # ws))"

definition sha256_round :: "w32 \<times> w32 \<Rightarrow> sha256_state \<Rightarrow> sha256_state" where
  "sha256_round = (\<lambda>(k, x) (a, b, c, d, e, f, g, h).
    (let S1 = rotr 6 e XOR rotr 11 e XOR rotr 25 e;
         ch = (e AND f) XOR (NOT e AND g);
         t1 = h + S1 + ch + k + x;
         S0 = rotr 2 a XOR rotr 13 a XOR rotr 22 a;
         maj = (a AND b) XOR (a AND c) XOR (b AND c)
     in (t1 + (S0 + maj), a, b, c, d + t1, e, f, g)))"

definition sha256_block :: "w32 list \<Rightarrow> sha256_state \<Rightarrow> sha256_state" where
  "sha256_block block st =
    (case (st, fold sha256_round (zip sha256_K (rev (sha256_schedule 48 (rev block)))) st) of
       ((a, b, c, d, e, f, g, h), (a', b', c', d', e', f', g', h')) \<Rightarrow>
         (a + a', b + b', c + c', d + d', e + e', f + f', g + g', h + h'))"

definition sha256_sum :: "string \<Rightarrow> string" where
  "sha256_sum bs = (case fold sha256_block (be_blocks bs) sha256_init of
     (a, b, c, d, e, f, g, h) \<Rightarrow> concat (map be_bytes [a, b, c, d, e, f, g, h]))"

subsection \<open>SHA-1\<close>

type_synonym sha1_state = "w32 \<times> w32 \<times> w32 \<times> w32 \<times> w32"

definition sha1_init :: sha1_state where
  "sha1_init = (0x67452301, 0xefcdab89, 0x98badcfe, 0x10325476, 0xc3d2e1f0)"

fun sha1_schedule :: "nat \<Rightarrow> w32 list \<Rightarrow> w32 list" where
  "sha1_schedule 0 ws = ws"
| "sha1_schedule (Suc n) ws =
    sha1_schedule n (rotl 1 (ws ! 2 XOR ws ! 7 XOR ws ! 13 XOR ws ! 15) # ws)"

definition sha1_f :: "nat \<Rightarrow> w32 \<Rightarrow> w32 \<Rightarrow> w32 \<Rightarrow> w32 \<times> w32" where
  "sha1_f i b c d =
    (if i < 20 then ((b AND c) OR (NOT b AND d), 0x5a827999)
     else if i < 40 then (b XOR c XOR d, 0x6ed9eba1)
     else if i < 60 then ((b AND c) OR (b AND d) OR (c AND d), 0x8f1bbcdc)
     else (b XOR c XOR d, 0xca62c1d6))"

definition sha1_round :: "nat \<times> w32 \<Rightarrow> sha1_state \<Rightarrow> sha1_state" where
  "sha1_round = (\<lambda>(i, x) (a, b, c, d, e).
    (let (f, k) = sha1_f i b c d in (rotl 5 a + f + e + k + x, a, rotl 30 b, c, d)))"

definition sha1_block :: "w32 list \<Rightarrow> sha1_state \<Rightarrow> sha1_state" where
  "sha1_block block st =
    (case (st, fold sha1_round (zip [0..<80] (rev (sha1_schedule 64 (rev block)))) st) of
       ((a, b, c, d, e), (a', b', c', d', e')) \<Rightarrow> (a + a', b + b', c + c', d + d', e + e'))"

definition sha1_sum :: "string \<Rightarrow> string" where
  "sha1_sum bs = (case fold sha1_block (be_blocks bs) sha1_init of
     (a, b, c, d, e) \<Rightarrow> concat (map be_bytes [a, b, c, d, e]))"

subsection \<open>MD5\<close>

definition md5_T :: "w32 list" where
  "md5_T = [
     0xd76aa478, 0xe8c7b756, 0x242070db, 0xc1bdceee, 0xf57c0faf, 0x4787c62a, 0xa8304613, 0xfd469501,
     0x698098d8, 0x8b44f7af, 0xffff5bb1, 0x895cd7be, 0x6b901122, 0xfd987193, 0xa679438e, 0x49b40821,
     0xf61e2562, 0xc040b340, 0x265e5a51, 0xe9b6c7aa, 0xd62f105d, 0x02441453, 0xd8a1e681, 0xe7d3fbc8,
     0x21e1cde6, 0xc33707d6, 0xf4d50d87, 0x455a14ed, 0xa9e3e905, 0xfcefa3f8, 0x676f02d9, 0x8d2a4c8a,
     0xfffa3942, 0x8771f681, 0x6d9d6122, 0xfde5380c, 0xa4beea44, 0x4bdecfa9, 0xf6bb4b60, 0xbebfbc70,
     0x289b7ec6, 0xeaa127fa, 0xd4ef3085, 0x04881d05, 0xd9d4d039, 0xe6db99e5, 0x1fa27cf8, 0xc4ac5665,
     0xf4292244, 0x432aff97, 0xab9423a7, 0xfc93a039, 0x655b59c3, 0x8f0ccc92, 0xffeff47d, 0x85845dd1,
     0x6fa87e4f, 0xfe2ce6e0, 0xa3014314, 0x4e0811a1, 0xf7537e82, 0xbd3af235, 0x2ad7d2bb, 0xeb86d391
   ]"

type_synonym md5_state = "w32 \<times> w32 \<times> w32 \<times> w32"

definition md5_init :: md5_state where
  "md5_init = (0x67452301, 0xefcdab89, 0x98badcfe, 0x10325476)"

definition md5_shift :: "nat \<Rightarrow> nat" where
  "md5_shift i = ([[7, 12, 17, 22], [5, 9, 14, 20], [4, 11, 16, 23], [6, 10, 15, 21]] ! (i div 16)) ! (i mod 4)"

definition md5_f :: "nat \<Rightarrow> w32 \<Rightarrow> w32 \<Rightarrow> w32 \<Rightarrow> w32 \<times> nat" where
  "md5_f i b c d =
    (if i < 16 then ((b AND c) OR (NOT b AND d), i)
     else if i < 32 then ((d AND b) OR (NOT d AND c), (5 * i + 1) mod 16)
     else if i < 48 then (b XOR c XOR d, (3 * i + 5) mod 16)
     else (c XOR (b OR NOT d), (7 * i) mod 16))"

definition md5_round :: "w32 list \<Rightarrow> nat \<Rightarrow> md5_state \<Rightarrow> md5_state" where
  "md5_round block i = (\<lambda>(a, b, c, d).
    (let (f, g) = md5_f i b c d
     in (d, b + rotl (md5_shift i) (a + f + md5_T ! i + block ! g), b, c)))"

definition md5_block :: "w32 list \<Rightarrow> md5_state \<Rightarrow> md5_state" where
  "md5_block block st = (case (st, fold (md5_round block) [0..<64] st) of
     ((a, b, c, d), (a', b', c', d')) \<Rightarrow> (a + a', b + b', c + c', d + d'))"

definition md5_sum :: "string \<Rightarrow> string" where
  "md5_sum bs = (case fold md5_block (le_blocks bs) md5_init of
     (a, b, c, d) \<Rightarrow> concat (map le_bytes [a, b, c, d]))"

subsection \<open>HMAC\<close>

text \<open>A \<open>func() hash.Hash\<close>: the size of the sum, the size of a block, and the sum of what
  was written.  Writing to a hash never fails.\<close>

record hash_fn =
  hash_Size :: nat
  hash_BlockSize :: nat
  hash_Sum :: "string \<Rightarrow> string"

definition sha256_New :: hash_fn where
  "sha256_New = \<lparr>hash_Size = 32, hash_BlockSize = 64, hash_Sum = sha256_sum\<rparr>"

definition sha1_New :: hash_fn where
  "sha1_New = \<lparr>hash_Size = 20, hash_BlockSize = 64, hash_Sum = sha1_sum\<rparr>"

definition hmac_sum :: "hash_fn \<Rightarrow> string \<Rightarrow> string \<Rightarrow> string" where
  "hmac_sum h key0 msg =
    (let key1 = (if length key0 > hash_BlockSize h then hash_Sum h key0 else key0);
         key = key1 @ replicate (hash_BlockSize h - length key1) CHR 0x00;
         ipad = map (\<lambda>b. byte_xor b CHR 0x36) key;
         opad = map (\<lambda>b. byte_xor b CHR 0x5C) key
     in hash_Sum h (opad @ hash_Sum h (ipad @ msg)))"

subsection \<open>Hexadecimal\<close>

definition lower_hex_digit :: "nat \<Rightarrow> char" where
  "lower_hex_digit n = (if n < 10 then char_of (48 + n) else char_of (87 + n))"

definition hex_EncodeToString :: "string \<Rightarrow> string" where
  "hex_EncodeToString bs =
    concat (map (\<lambda>b. [lower_hex_digit (of_char b div 16), lower_hex_digit (of_char b mod 16)]) bs)"

subsection \<open>Base64\<close>

definition encodeStd :: string where
  "encodeStd = ''ABCDEFGHIJKLMNOPQRSTUVWXYZabcdefghijklmnopqrstuvwxyz0123456789+/''"

definition encodeURL :: string where
  "encodeURL = ''ABCDEFGHIJKLMNOPQRSTUVWXYZabcdefghijklmnopqrstuvwxyz0123456789-_''"

text \<open>Both encodings have padding; the alphabet is the argument.\<close>

fun base64_encode :: "string \<Rightarrow> string \<Rightarrow> string" where
  "base64_encode abc [] = []"
| "base64_encode abc [a] = (let n = (of_char a :: nat) * 65536
     in [abc ! (n div 262144), abc ! (n div 4096 mod 64), CHR ''='', CHR ''=''])"
| "base64_encode abc [a, b] = (let n = (of_char a :: nat) * 65536 + of_char b * 256
     in [abc ! (n div 262144), abc ! (n div 4096 mod 64), abc ! (n div 64 mod 64), CHR ''=''])"
| "base64_encode abc (a # b # c # bs) = (let n = (of_char a :: nat) * 65536 + of_char b * 256 + of_char c
     in [abc ! (n div 262144), abc ! (n div 4096 mod 64), abc ! (n div 64 mod 64), abc ! (n mod 64)]
        @ base64_encode abc bs)"

fun index_of :: "char \<Rightarrow> string \<Rightarrow> nat \<Rightarrow> nat option" where
  "index_of c [] i = None"
| "index_of c (d # ds) i = (if c = d then Some i else index_of c ds (i + 1))"

text \<open>Decoding with the standard alphabet, after carriage returns and line feeds are skipped.
  \<open>None\<close> is a \<open>CorruptInputError\<close>.  The unused bits before the padding are not checked.\<close>

definition decode_char :: "char \<Rightarrow> nat option" where
  "decode_char c = index_of c encodeStd 0"

fun decode_quanta :: "string \<Rightarrow> string option" where
  "decode_quanta [] = Some []"
| "decode_quanta (c0 # c1 # c2 # c3 # cs) =
    (case (decode_char c0, decode_char c1) of
       (Some v0, Some v1) \<Rightarrow>
         (case decode_char c2 of
            Some v2 \<Rightarrow>
              (case decode_char c3 of
                 Some v3 \<Rightarrow> (let n = v0 * 262144 + v1 * 4096 + v2 * 64 + v3
                   in map_option (\<lambda>bs. char_of (n div 65536) # char_of (n div 256 mod 256) # char_of (n mod 256) # bs)
                        (decode_quanta cs))
               | None \<Rightarrow> if c3 = CHR ''='' \<and> cs = []
                   then (let n = v0 * 262144 + v1 * 4096 + v2 * 64
                     in Some [char_of (n div 65536), char_of (n div 256 mod 256)])
                   else None)
          | None \<Rightarrow> if c2 = CHR ''='' \<and> c3 = CHR ''='' \<and> cs = []
              then Some [char_of ((v0 * 262144 + v1 * 4096) div 65536)]
              else None)
     | _ \<Rightarrow> None)"
| "decode_quanta _ = None"

definition base64_DecodeString :: "string \<Rightarrow> string fallible" where
  "base64_DecodeString s =
    (case decode_quanta (filter (\<lambda>c. c \<noteq> CHR 0x0A \<and> c \<noteq> CHR 0x0D) s) of
       Some bs \<Rightarrow> Inr bs
     | None \<Rightarrow> Inl (errorf ''illegal base64 data''))"

definition base64_EncodeToString :: "string \<Rightarrow> string" where
  "base64_EncodeToString = base64_encode encodeStd"

definition base64url_EncodeToString :: "string \<Rightarrow> string" where
  "base64url_EncodeToString = base64_encode encodeURL"

subsection \<open>Sizes\<close>

lemma length_be_bytes [simp]: "length (be_bytes x) = 4"
  by (simp add: be_bytes_def)

text \<open>The first and the last round constant and a digit of the start, as the standard prints them.\<close>

lemma length_small_primes: "length small_primes = 64"
  by code_simp

lemma sha256_constants:
  "fraction_bits 3 2 = 0x428a2f98" "fraction_bits 3 311 = 0xc67178f2" "fraction_bits 2 19 = 0x5be0cd19"
  by (simp_all add: fraction_bits_def iroot_def upt_rec)

lemma length_sha256_sum [simp]: "length (sha256_sum bs) = 32"
  by (simp add: sha256_sum_def split: prod.split)

lemma length_sha1_sum [simp]: "length (sha1_sum bs) = 20"
  by (simp add: sha1_sum_def split: prod.split)

lemma length_hex [simp]: "length (hex_EncodeToString bs) = 2 * length bs"
  by (simp add: hex_EncodeToString_def length_concat comp_def sum_list_triv)

text \<open>What HMAC relies on: every sum of a hash function has the size it announces.\<close>

locale sized_hash =
  fixes h :: hash_fn
  assumes size_sum [simp]: "length (hash_Sum h msg) = hash_Size h"
begin

lemma length_hmac [simp]: "length (hmac_sum h key msg) = hash_Size h"
  by (simp add: hmac_sum_def Let_def)

end

interpretation sha1: sized_hash sha1_New
  by unfold_locales (simp add: sha1_New_def)

interpretation sha256: sized_hash sha256_New
  by unfold_locales (simp add: sha256_New_def)

subsection \<open>Base64 round trip\<close>

lemma decode_encodeStd_all:
  "list_all (\<lambda>i. decode_char (encodeStd ! i) = Some i \<and> encodeStd ! i \<noteq> CHR 0x0A \<and> encodeStd ! i \<noteq> CHR 0x0D) [0..<64]"
  by code_simp

lemma decode_encodeStd [simp]:
  assumes "i < 64"
  shows "decode_char (encodeStd ! i) = Some i" "encodeStd ! i \<noteq> CHR 0x0A" "encodeStd ! i \<noteq> CHR 0x0D"
  using decode_encodeStd_all assms by (auto simp: list_all_iff)

lemma decode_pad [simp]: "decode_char CHR ''='' = None"
  by code_simp

lemma of_char_lt [simp]: "(of_char c :: nat) < 256"
  by (metis mod_less_divisor of_char_mod_256 zero_less_numeral)

lemma sextets: "(n::nat) div 262144 * 262144 + n div 4096 mod 64 * 4096 + n div 64 mod 64 * 64 + n mod 64 = n"
proof -
  have "n div 4096 = n div 262144 * 64 + n div 4096 mod 64" using div_mult_mod_eq[of "n div 4096" 64] by (simp add: div_mult2_eq[symmetric])
  moreover have "n div 64 = n div 4096 * 64 + n div 64 mod 64" using div_mult_mod_eq[of "n div 64" 64] by (simp add: div_mult2_eq[symmetric])
  moreover have "n = n div 64 * 64 + n mod 64" by simp
  ultimately show ?thesis by linarith
qed

lemma three_bytes:
  assumes "(a::nat) < 256" "b < 256" "c < 256"
  defines "n \<equiv> a * 65536 + b * 256 + c"
  shows "n div 65536 = a" "n div 256 mod 256 = b" "n mod 256 = c" "n div 262144 < 64"
proof -
  have n: "n = (a * 256 + b) * 256 + c" by (simp add: n_def)
  have 1: "n div 256 = a * 256 + b" "n mod 256 = c" using assms(3) by (simp_all add: n del: distrib_right_numeral add_mult_distrib)
  then show "n mod 256 = c" "n div 256 mod 256 = b" using assms(2) by simp_all
  have "n div 65536 = n div 256 div 256" by (simp flip: div_mult2_eq)
  then show "n div 65536 = a" using 1 assms(2) by simp
  then show "n div 262144 < 64" using assms(1) by (simp add: div_mult2_eq[of n 65536 4, simplified])
qed

lemma three_chars:
  fixes a b c :: char
  defines "n \<equiv> (of_char a :: nat) * 65536 + of_char b * 256 + of_char c"
  shows "char_of (n div 65536) = a" "char_of (n div 256) = b" "char_of n = c" "n div 262144 < 64"
proof -
  note bytes = three_bytes[OF of_char_lt of_char_lt of_char_lt, of a b c, folded n_def]
  show "char_of (n div 65536) = a" "n div 262144 < 64" using bytes by simp_all
  show "char_of (n div 256) = b" "char_of n = c" using bytes by (metis char_of_mod_256 char_of_char)+
qed

lemma decode_encode_one: "decode_quanta (base64_encode encodeStd [a]) = Some [a]"
proof -
  define n where "n = (of_char a :: nat) * 65536"
  have "n div 64 mod 64 = 0" "n mod 64 = 0" by (simp_all add: n_def)
  then have "(n div 262144 * 262144 + n div 4096 mod 64 * 4096) div 65536 = of_char a"
    using sextets[of n] three_bytes[of "of_char a" 0 0] by (simp add: n_def)
  moreover have "n div 262144 < 64" using three_bytes[of "of_char a" 0 0] by (simp add: n_def)
  ultimately show ?thesis by (simp add: Let_def flip: n_def)
qed

lemma decode_encode_two: "decode_quanta (base64_encode encodeStd [a, b]) = Some [a, b]"
proof -
  define n where "n = (of_char a :: nat) * 65536 + of_char b * 256"
  have n0: "n = (of_char a :: nat) * 65536 + of_char b * 256 + of_char CHR 0x00" by (simp add: n_def)
  note bytes = three_chars[of a b "CHR 0x00", folded n0]
  have "n = 64 * (of_char a * 1024 + of_char b * 4)" by (simp add: n_def)
  then have "n mod 64 = 0" by (metis mod_mult_self1_is_0)
  then have "n div 262144 * 262144 + n div 4096 mod 64 * 4096 + n div 64 mod 64 * 64 = n"
    using sextets[of n] by simp
  then show ?thesis using bytes by (simp add: Let_def flip: n_def)
qed

lemma decode_encode_three:
  "decode_quanta (base64_encode encodeStd (a # b # c # bs)) =
   map_option (\<lambda>r. a # b # c # r) (decode_quanta (base64_encode encodeStd bs))"
proof -
  define n where "n = (of_char a :: nat) * 65536 + of_char b * 256 + of_char c"
  note bytes = three_chars[of a b c, folded n_def]
  show ?thesis using bytes sextets[of n] by (simp add: Let_def flip: n_def)
qed

lemma decode_encode: "decode_quanta (base64_encode encodeStd bs) = Some bs"
  by (induction encodeStd bs rule: base64_encode.induct)
    (simp_all add: decode_encode_one decode_encode_two decode_encode_three del: base64_encode.simps(2-4))

lemma encode_no_newline:
  "c \<in> set (base64_encode encodeStd bs) \<Longrightarrow> c \<noteq> CHR 0x0A \<and> c \<noteq> CHR 0x0D"
proof (induction encodeStd bs rule: base64_encode.induct)
  case (2 a)
  then show ?case using three_bytes(4)[of "of_char a" 0 0] by (auto simp: Let_def)
next
  case (3 a b)
  then show ?case using three_bytes(4)[of "of_char a" "of_char b" 0] by (auto simp: Let_def)
next
  case (4 a b c bs)
  then show ?case using three_bytes(4)[of "of_char a" "of_char b" "of_char c"] by (auto simp: Let_def)
qed simp

text \<open>What is encoded is read back, whatever the bytes.\<close>

lemma base64_roundtrip [simp]: "base64_DecodeString (base64_EncodeToString bs) = Inr bs"
proof -
  have "filter (\<lambda>c. c \<noteq> CHR 0x0A \<and> c \<noteq> CHR 0x0D) (base64_encode encodeStd bs) = base64_encode encodeStd bs"
    using encode_no_newline by (intro filter_True) blast
  then show ?thesis by (simp add: base64_DecodeString_def base64_EncodeToString_def decode_encode)
qed

lemma length_base64url: "length bs \<le> length (base64_encode abc bs)"
  by (induction abc bs rule: base64_encode.induct) (auto simp: Let_def)

end
