(* ===== verification/Scram_Credentials.thy ===== *)
theory Scram_Credentials
  imports Crypto Automation_Config
begin

text \<open>
  SCRAM credentials (\<open>pkg/authentication/scramcredentials\<close>) and random values
  (\<open>pkg/util/generate\<close>).

  \<open>saslprep\<close> is the third-party \<open>stringprep.SASLprep.Prepare\<close>.  \<open>rnd n\<close> is a call of
  \<open>rand.Read\<close> on \<open>n\<close> bytes and returns them.
\<close>

subsection \<open>Credentials\<close>

definition RFC5802MandatedSaltSize :: int where "RFC5802MandatedSaltSize = 4"
definition clientKeyInput :: string where "clientKeyInput = ''Client Key''"
definition serverKeyInput :: string where "serverKeyInput = ''Server Key''"
definition DefaultScramSha1Iterations :: int where "DefaultScramSha1Iterations = 10000"
definition DefaultScramSha256Iterations :: int where "DefaultScramSha256Iterations = 15000"

definition md5Hex :: "string \<Rightarrow> string" where
  "md5Hex s = hex_EncodeToString (md5_sum s)"

text \<open>The loop \<open>for i := 1; i < iterationCount; i++\<close>, run \<open>n\<close> times.\<close>

fun hmac_rounds :: "hash_fn \<Rightarrow> string \<Rightarrow> nat \<Rightarrow> string \<Rightarrow> string \<Rightarrow> string" where
  "hmac_rounds h input 0 intermediateDigest result = result"
| "hmac_rounds h input (Suc n) intermediateDigest result =
    (let intermediateDigest' = hmac_sum h input intermediateDigest
     in hmac_rounds h input n intermediateDigest' (map2 byte_xor result intermediateDigest'))"

definition hmacIteration :: "hash_fn \<Rightarrow> string \<Rightarrow> string \<Rightarrow> int \<Rightarrow> string fallible" where
  "hmacIteration h input salt iterationCount =
    (let saltSize = int (hash_Size h) - RFC5802MandatedSaltSize
     in if int (length salt) \<noteq> saltSize
        then Inl (errorf (''salt should have a size of '' @ itoa saltSize @ '' bytes, but instead has a size of ''
               @ itoa (int (length salt)) @ '' bytes''))
        else (let startKey = salt @ [CHR 0x00, CHR 0x00, CHR 0x00, CHR 0x01];
                  intermediateDigest = hmac_sum h input startKey
              in Inr (hmac_rounds h input (nat (iterationCount - 1)) intermediateDigest intermediateDigest)))"

definition generateSaltedPassword ::
    "(string \<Rightarrow> string fallible) \<Rightarrow> hash_fn \<Rightarrow> string \<Rightarrow> string \<Rightarrow> int \<Rightarrow> string fallible" where
  "generateSaltedPassword saslprep h password salt iterationCount =
    (case saslprep password of
       Inl err \<Rightarrow> Inl (errorf (''could not SASLprep password: '' @ err_msg err))
     | Inr preparedPassword \<Rightarrow>
         wrap_err ''could not run hmacIteration: '' (hmacIteration h preparedPassword salt iterationCount))"

definition generateClientOrServerKey :: "hash_fn \<Rightarrow> string \<Rightarrow> string \<Rightarrow> string" where
  "generateClientOrServerKey h saltedPassword input = hmac_sum h saltedPassword input"

definition generateStoredKey :: "hash_fn \<Rightarrow> string \<Rightarrow> string" where
  "generateStoredKey h clientKey = hash_Sum h clientKey"

text \<open>\<open>(storedKey, serverKey)\<close>.\<close>

definition generateSecrets ::
    "(string \<Rightarrow> string fallible) \<Rightarrow> hash_fn \<Rightarrow> string \<Rightarrow> string \<Rightarrow> int \<Rightarrow> (string \<times> string) fallible" where
  "generateSecrets saslprep h password salt iterationCount =
    (case generateSaltedPassword saslprep h password salt iterationCount of
       Inl err \<Rightarrow> Inl (errorf (''error generating salted password: '' @ err_msg err))
     | Inr saltedPassword \<Rightarrow>
         (let clientKey = generateClientOrServerKey h saltedPassword clientKeyInput;
              storedKey = generateStoredKey h clientKey;
              serverKey = generateClientOrServerKey h saltedPassword serverKeyInput
          in Inr (storedKey, serverKey)))"

definition generateB64EncodedSecrets ::
    "(string \<Rightarrow> string fallible) \<Rightarrow> hash_fn \<Rightarrow> string \<Rightarrow> string \<Rightarrow> int \<Rightarrow> (string \<times> string) fallible" where
  "generateB64EncodedSecrets saslprep h password b64EncodedSalt iterationCount =
    (case base64_DecodeString b64EncodedSalt of
       Inl err \<Rightarrow> Inl (errorf (''error decoding salt: '' @ err_msg err))
     | Inr salt \<Rightarrow>
         (case generateSecrets saslprep h password salt iterationCount of
            Inl err \<Rightarrow> Inl (errorf (''error generating secrets: '' @ err_msg err))
          | Inr (storedKey, serverKey) \<Rightarrow>
              Inr (base64_EncodeToString storedKey, base64_EncodeToString serverKey)))"

definition computeScramCredentials ::
    "(string \<Rightarrow> string fallible) \<Rightarrow> hash_fn \<Rightarrow> int \<Rightarrow> string \<Rightarrow> string \<Rightarrow> scram_creds fallible" where
  "computeScramCredentials saslprep h iterationCount base64EncodedSalt password =
    (case generateB64EncodedSecrets saslprep h password base64EncodedSalt iterationCount of
       Inl err \<Rightarrow> Inl (errorf (''error generating SCRAM-SHA keys: '' @ err_msg err))
     | Inr (storedKey, serverKey) \<Rightarrow>
         Inr \<lparr>IterationCount = iterationCount, Salt = base64EncodedSalt, ServerKey = serverKey, StoredKey = storedKey\<rparr>)"

definition ComputeScramSha256Creds :: "(string \<Rightarrow> string fallible) \<Rightarrow> string \<Rightarrow> string \<Rightarrow> scram_creds fallible" where
  "ComputeScramSha256Creds saslprep password salt =
    computeScramCredentials saslprep sha256_New DefaultScramSha256Iterations (base64_EncodeToString salt) password"

definition ComputeScramSha1Creds ::
    "(string \<Rightarrow> string fallible) \<Rightarrow> string \<Rightarrow> string \<Rightarrow> string \<Rightarrow> scram_creds fallible" where
  "ComputeScramSha1Creds saslprep username password salt =
    computeScramCredentials saslprep sha1_New DefaultScramSha1Iterations (base64_EncodeToString salt)
      (md5Hex (username @ '':mongo:'' @ password))"

subsection \<open>Random values\<close>

definition slice_panic :: go_error where
  "slice_panic = errorf ''panic: slice bounds out of range''"

definition generateRandomBytes :: "(nat \<Rightarrow> ('w, string fallible) effect) \<Rightarrow> nat \<Rightarrow> ('w, string fallible) effect" where
  "generateRandomBytes rnd n = rnd n"

definition generateRandomString :: "(nat \<Rightarrow> ('w, string fallible) effect) \<Rightarrow> nat \<Rightarrow> ('w, string fallible) effect" where
  "generateRandomString rnd numBytes =
    eff_bind (generateRandomBytes rnd numBytes) (\<lambda>b. eff_return (base64_EncodeToString b))"

text \<open>When no bytes could be read, the slice expression \<open>[:n]\<close> is applied to an empty string.\<close>

definition RandomFixedLengthStringOfSize ::
    "(nat \<Rightarrow> ('w, string fallible) effect) \<Rightarrow> nat \<Rightarrow> ('w, string fallible) effect" where
  "RandomFixedLengthStringOfSize rnd n w =
    (case generateRandomBytes rnd n w of
       (Inl err, w1) \<Rightarrow> (if n = 0 then Inl err else Inl slice_panic, w1)
     | (Inr b, w1) \<Rightarrow> (Inr (take n (base64url_EncodeToString b)), w1))"

definition KeyFileContents :: "(nat \<Rightarrow> ('w, string fallible) effect) \<Rightarrow> ('w, string fallible) effect" where
  "KeyFileContents rnd = generateRandomString rnd 500"

text \<open>The encoded string is ASCII.\<close>

definition dns1123_char :: "char \<Rightarrow> char" where
  "dns1123_char c =
    (if in_range CHR ''A'' CHR ''Z'' c then char_of (of_char c + 32 :: nat)
     else if in_range CHR ''a'' CHR ''z'' c \<or> in_range CHR ''0'' CHR ''9'' c then c
     else CHR ''0'')"

definition RandomValidDNS1123Label ::
    "(nat \<Rightarrow> ('w, string fallible) effect) \<Rightarrow> nat \<Rightarrow> ('w, string fallible) effect" where
  "RandomValidDNS1123Label rnd n =
    eff_bind (RandomFixedLengthStringOfSize rnd n) (\<lambda>s. eff_return (map dns1123_char s))"

definition generate_salt :: "(nat \<Rightarrow> ('w, string fallible) effect) \<Rightarrow> hash_fn \<Rightarrow> ('w, string fallible) effect" where
  "generate_salt rnd h =
    (let saltSize = int (hash_Size h) - RFC5802MandatedSaltSize
     in eff_bind (RandomFixedLengthStringOfSize rnd 20) (\<lambda>salt.
        eff_return (take (nat saltSize) (sha256_sum salt))))"

definition Salts :: "(nat \<Rightarrow> ('w, string fallible) effect) \<Rightarrow> ('w, (string \<times> string) fallible) effect" where
  "Salts rnd =
    eff_bind (generate_salt rnd sha1_New) (\<lambda>sha1Salt.
    eff_bind (generate_salt rnd sha256_New) (\<lambda>sha256Salt.
    eff_return (sha1Salt, sha256Salt)))"

subsection \<open>The salted password is \<open>Hi\<close> of RFC 5802\<close>

text \<open>\<open>U\<^sub>1 = HMAC(str, salt + INT(1))\<close>, \<open>U\<^sub>k\<^sub>+\<^sub>1 = HMAC(str, U\<^sub>k)\<close>, and \<open>Hi\<close> is the
  exclusive or of the first \<open>i\<close> of them.\<close>

definition Hi_U :: "hash_fn \<Rightarrow> string \<Rightarrow> string \<Rightarrow> nat \<Rightarrow> string" where
  "Hi_U h str salt k = (hmac_sum h str ^^ k) (salt @ [CHR 0x00, CHR 0x00, CHR 0x00, CHR 0x01])"

definition Hi :: "hash_fn \<Rightarrow> string \<Rightarrow> string \<Rightarrow> nat \<Rightarrow> string" where
  "Hi h str salt i = foldl (map2 byte_xor) (Hi_U h str salt 1) (map (Hi_U h str salt) [2..<Suc i])"

lemma hmac_rounds_fold:
  "hmac_rounds h str n (Hi_U h str salt k) r =
   foldl (map2 byte_xor) r (map (Hi_U h str salt) [Suc k..<Suc (k + n)])"
proof (induction n arbitrary: k r)
  case (Suc n)
  have step: "hmac_sum h str (Hi_U h str salt k) = Hi_U h str salt (Suc k)" by (simp add: Hi_U_def)
  have "[Suc k..<Suc (k + Suc n)] = Suc k # [Suc (Suc k)..<Suc (Suc k + n)]"
    by (simp add: upt_rec[of "Suc k"])
  then show ?case using Suc[of "Suc k"] by (simp add: step Let_def)
qed simp

lemma hmacIteration_Hi:
  assumes "int (length salt) = int (hash_Size h) - 4" and "i \<ge> 1"
  shows "hmacIteration h str salt i = Inr (Hi h str salt (nat i))"
proof -
  have U1: "hmac_sum h str (salt @ [CHR 0x00, CHR 0x00, CHR 0x00, CHR 0x01]) = Hi_U h str salt 1"
    by (simp add: Hi_U_def)
  have "Suc (1 + nat (i - 1)) = Suc (nat i)" using assms(2) by linarith
  then have "hmac_rounds h str (nat (i - 1)) (Hi_U h str salt 1) (Hi_U h str salt 1) = Hi h str salt (nat i)"
    unfolding hmac_rounds_fold Hi_def by (simp add: numeral_2_eq_2)
  then show ?thesis
    using assms(1) unfolding hmacIteration_def RFC5802MandatedSaltSize_def Let_def U1 by simp
qed

text \<open>Credentials by the book: RFC 5802 with the salt and iteration count given.\<close>

definition scram_reference :: "hash_fn \<Rightarrow> string \<Rightarrow> string \<Rightarrow> int \<Rightarrow> scram_creds" where
  "scram_reference h str salt i =
    (let salted = Hi h str salt (nat i)
     in \<lparr>IterationCount = i, Salt = base64_EncodeToString salt,
         ServerKey = base64_EncodeToString (hmac_sum h salted ''Server Key''),
         StoredKey = base64_EncodeToString (hash_Sum h (hmac_sum h salted ''Client Key''))\<rparr>)"

lemma computeScramCredentials_reference:
  assumes "saslprep password = Inr str" and "int (length salt) = int (hash_Size h) - 4" and "i \<ge> 1"
  shows "computeScramCredentials saslprep h i (base64_EncodeToString salt) password = Inr (scram_reference h str salt i)"
  using hmacIteration_Hi[OF assms(2,3), of str] assms(1)
  by (simp add: computeScramCredentials_def generateB64EncodedSecrets_def generateSecrets_def
      generateSaltedPassword_def generateClientOrServerKey_def generateStoredKey_def
      clientKeyInput_def serverKeyInput_def scram_reference_def Let_def)

lemma computeScramCredentials_errors:
  assumes "\<not> (int (length salt) = int (hash_Size h) - 4 \<and> (\<exists>str. saslprep password = Inr str))"
  shows "\<exists>e. computeScramCredentials saslprep h i (base64_EncodeToString salt) password = Inl e"
  using assms
  by (cases "saslprep password")
     (auto simp: computeScramCredentials_def generateB64EncodedSecrets_def generateSecrets_def
      generateSaltedPassword_def hmacIteration_def RFC5802MandatedSaltSize_def wrap_err_def Let_def)

lemma computeScramCredentials_iff:
  assumes "i \<ge> 1"
  shows "computeScramCredentials saslprep h i (base64_EncodeToString salt) password = Inr creds \<longleftrightarrow>
    int (length salt) = int (hash_Size h) - 4 \<and> (\<exists>str. saslprep password = Inr str \<and> creds = scram_reference h str salt i)"
  using computeScramCredentials_reference[of saslprep password _ salt h i]
    computeScramCredentials_errors[of salt h saslprep password i] assms by fastforce

lemma hash_sizes [simp]: "hash_Size sha1_New = 20" "hash_Size sha256_New = 32"
  by (simp_all add: sha1_New_def sha256_New_def)

subsection \<open>Generated salts\<close>

lemma generate_salt_length:
  "generate_salt rnd h w = (Inr salt, w') \<Longrightarrow> hash_Size h \<le> 36 \<Longrightarrow> 4 \<le> hash_Size h \<Longrightarrow> length salt = hash_Size h - 4"
  by (auto simp: generate_salt_def Let_def eff_bind_Inr_iff RFC5802MandatedSaltSize_def)

lemma Salts_length:
  "Salts rnd w = (Inr (s1, s256), w') \<Longrightarrow> length s1 = 16 \<and> length s256 = 28"
  unfolding Salts_def eff_bind_Inr_iff using generate_salt_length[of rnd] by fastforce

lemma RandomFixedLength_length:
  assumes "generateRandomBytes rnd n w = (Inr b, w')" and "length b = n"
  shows "fst (RandomFixedLengthStringOfSize rnd n w) = Inr (take n (base64url_EncodeToString b)) \<and>
    length (take n (base64url_EncodeToString b)) = n"
  using assms length_base64url[of b encodeURL]
  by (simp add: RandomFixedLengthStringOfSize_def base64url_EncodeToString_def)

text \<open>C20: the credentials the operator computes are those of RFC 5802: for a salt of the size
  the hash function demands and a password SASLprep accepts, the stored and the server key
  are derived from \<open>Hi\<close> of the prepared password with the default iteration count, in
  base64; for SCRAM-SHA-1 the password is MongoDB's MD5 digest.  Any other salt or a
  password SASLprep rejects is an error.\<close>

theorem ComputeScramCreds_rfc5802:
  "(ComputeScramSha256Creds saslprep password salt = Inr creds \<longleftrightarrow>
     length salt = 28 \<and> (\<exists>str. saslprep password = Inr str \<and> creds = scram_reference sha256_New str salt 15000)) \<and>
   (ComputeScramSha1Creds saslprep username password salt = Inr creds \<longleftrightarrow>
     length salt = 16 \<and> (\<exists>str. saslprep (hex_EncodeToString (md5_sum (username @ '':mongo:'' @ password))) = Inr str \<and>
       creds = scram_reference sha1_New str salt 10000))"
proof
  show "ComputeScramSha256Creds saslprep password salt = Inr creds \<longleftrightarrow>
     length salt = 28 \<and> (\<exists>str. saslprep password = Inr str \<and> creds = scram_reference sha256_New str salt 15000)"
    unfolding ComputeScramSha256Creds_def DefaultScramSha256Iterations_def
    by (simp add: computeScramCredentials_iff)
  show "ComputeScramSha1Creds saslprep username password salt = Inr creds \<longleftrightarrow>
     length salt = 16 \<and> (\<exists>str. saslprep (hex_EncodeToString (md5_sum (username @ '':mongo:'' @ password))) = Inr str \<and>
       creds = scram_reference sha1_New str salt 10000)"
    unfolding ComputeScramSha1Creds_def DefaultScramSha1Iterations_def md5Hex_def
    by (simp add: computeScramCredentials_iff)
qed

end
