(* ===== verification/Authentication.thy ===== *)
theory Authentication
  imports Scram_Credentials Kube_Objects "HOL-Library.Multiset"
begin

text \<open>
  Enabling authentication in the automation config: \<open>pkg/authentication\<close>,
  \<open>pkg/authentication/scram\<close> and \<open>pkg/authentication/x509\<close>.

  \<open>auth_env\<close> holds what these packages call: the Kubernetes client, the random source,
  and third-party code or parsers that are parameters of the model: SASLprep, the text of a
  \<open>multierror\<close>, \<open>IsDNS1123Subdomain\<close>, PEM decoding, the subject of a certificate and its
  text.  Functions of the same name in \<open>scram\<close> and \<open>x509\<close> carry the package as a prefix.
  The \<open>Auth\<close> struct the Go code fills in place is returned; the callers drop it on an error.
\<close>

record 'w auth_env =
  env_client :: "'w kube_client"
  env_rand :: "nat \<Rightarrow> ('w, string fallible) effect"
  env_saslprep :: "string \<Rightarrow> string fallible"
  env_multierror :: "string list \<Rightarrow> string"
  env_dns :: "string \<Rightarrow> bool"
  env_pem_Decode :: "string \<Rightarrow> (string \<times> string) option \<times> string"
  env_RawSubject :: "string \<Rightarrow> string fallible"
  env_rdn_String :: "string \<Rightarrow> string fallible"

subsection \<open>SCRAM credentials of a user\<close>

definition sha1SaltKey :: string where "sha1SaltKey = ''sha1-salt''"
definition sha256SaltKey :: string where "sha256SaltKey = ''sha256-salt''"
definition sha1ServerKeyKey :: string where "sha1ServerKeyKey = ''sha-1-server-key''"
definition sha256ServerKeyKey :: string where "sha256ServerKeyKey = ''sha-256-server-key''"
definition sha1StoredKeyKey :: string where "sha1StoredKeyKey = ''sha-1-stored-key''"
definition sha256StoredKeyKey :: string where "sha256StoredKeyKey = ''sha-256-stored-key''"

lemmas scram_key_defs = sha1SaltKey_def sha256SaltKey_def sha1ServerKeyKey_def sha256ServerKeyKey_def
  sha1StoredKeyKey_def sha256StoredKeyKey_def

definition data_value :: "str_map option \<Rightarrow> string \<Rightarrow> string" where
  "data_value d key = (case data_lookup d key of None \<Rightarrow> '''' | Some v \<Rightarrow> v)"

definition computeScramShaCredentials ::
    "'w auth_env \<Rightarrow> string \<Rightarrow> string \<Rightarrow> string \<Rightarrow> string \<Rightarrow> (scram_creds \<times> scram_creds) fallible" where
  "computeScramShaCredentials env username password sha1Salt sha256Salt =
    (case ComputeScramSha1Creds (env_saslprep env) username password sha1Salt of
       Inl err \<Rightarrow> Inl (errorf (''could not generate scramSha1Creds: '' @ err_msg err))
     | Inr scram1Creds \<Rightarrow>
         (case ComputeScramSha256Creds (env_saslprep env) password sha256Salt of
            Inl err \<Rightarrow> Inl (errorf (''could not generate scramSha256Creds: '' @ err_msg err))
          | Inr scram256Creds \<Rightarrow> Inr (scram1Creds, scram256Creds)))"

definition generateScramShaCredentials ::
    "'w auth_env \<Rightarrow> string \<Rightarrow> string \<Rightarrow> ('w, (scram_creds \<times> scram_creds) fallible) effect" where
  "generateScramShaCredentials env username password =
    eff_bind (Salts (env_rand env)) (\<lambda>(sha1Salt, sha256Salt).
    eff_lift (computeScramShaCredentials env username password sha1Salt sha256Salt))"

definition readExistingCredentials ::
    "'w auth_env \<Rightarrow> nsname \<Rightarrow> string \<Rightarrow> ('w, (scram_creds \<times> scram_creds) fallible) effect" where
  "readExistingCredentials env mdbObjectKey scramCredentialsSecretName =
    eff_bind (eff_wrap (''could not get secret '' @ ns_Namespace mdbObjectKey @ ''/'' @ scramCredentialsSecretName @ '': '')
        (GetSecret (env_client env) (nn (ns_Namespace mdbObjectKey) scramCredentialsSecretName)))
      (\<lambda>credentialsSecret.
        if \<not> HasAllKeys credentialsSecret [sha1SaltKey, sha1ServerKeyKey, sha1ServerKeyKey, sha256SaltKey,
               sha256ServerKeyKey, sha256StoredKeyKey]
        then eff_fail (errorf ''credentials secret did not have all of the required keys'')
        else (let value = data_value (s_Data credentialsSecret)
              in eff_return
                (\<lparr>IterationCount = DefaultScramSha1Iterations, Salt = value sha1SaltKey,
                  ServerKey = value sha1ServerKeyKey, StoredKey = value sha1StoredKeyKey\<rparr>,
                 \<lparr>IterationCount = DefaultScramSha256Iterations, Salt = value sha256SaltKey,
                  ServerKey = value sha256ServerKeyKey, StoredKey = value sha256StoredKeyKey\<rparr>)))"

definition scramCredsSecret :: "nsname \<Rightarrow> owner_ref list \<Rightarrow> string \<Rightarrow> scram_creds \<Rightarrow> scram_creds \<Rightarrow> secret" where
  "scramCredsSecret mdbObjectKey ref scramCredentialsSecretName sha1Creds sha256Creds =
    secret_Build (secret_SetOwnerReferences ref
      (secret_SetField sha256ServerKeyKey (ServerKey sha256Creds)
      (secret_SetField sha256StoredKeyKey (StoredKey sha256Creds)
      (secret_SetField sha256SaltKey (Salt sha256Creds)
      (secret_SetField sha1ServerKeyKey (ServerKey sha1Creds)
      (secret_SetField sha1StoredKeyKey (StoredKey sha1Creds)
      (secret_SetField sha1SaltKey (Salt sha1Creds)
      (secret_SetNamespace (ns_Namespace mdbObjectKey)
      (secret_SetName scramCredentialsSecretName secret_Builder)))))))))"

definition createScramCredentialsSecret ::
    "'w auth_env \<Rightarrow> nsname \<Rightarrow> owner_ref list \<Rightarrow> string \<Rightarrow> scram_creds \<Rightarrow> scram_creds \<Rightarrow> ('w, unit fallible) effect" where
  "createScramCredentialsSecret env mdbObjectKey ref scramCredentialsSecretName sha1Creds sha256Creds =
    eff_check (secret_CreateOrUpdate (env_client env)
      (scramCredsSecret mdbObjectKey ref scramCredentialsSecretName sha1Creds sha256Creds))"

definition needToGenerateNewCredentials ::
    "'w auth_env \<Rightarrow> string \<Rightarrow> string \<Rightarrow> nsname \<Rightarrow> string \<Rightarrow> ('w, bool fallible) effect" where
  "needToGenerateNewCredentials env username scramCredentialsSecretName mdbNamespacedName password w =
    (case GetSecret (env_client env) (nn (ns_Namespace mdbNamespacedName) scramCredentialsSecretName) w of
       (Inl err, w1) \<Rightarrow> if SecretNotExist err then (Inr True, w1) else (Inl err, w1)
     | (Inr s, w1) \<Rightarrow>
         eff_bind (eff_lift (base64_DecodeString (data_value (s_Data s) sha1SaltKey))) (\<lambda>decodedSha1Salt.
         eff_bind (eff_lift (base64_DecodeString (data_value (s_Data s) sha256SaltKey))) (\<lambda>decodedSha256Salt.
         eff_bind (eff_lift (computeScramShaCredentials env username password decodedSha1Salt decodedSha256Salt))
           (\<lambda>(sha1Creds, sha256Creds).
         eff_bind (readExistingCredentials env mdbNamespacedName scramCredentialsSecretName)
           (\<lambda>(existingSha1Creds, existingSha256Creds).
         eff_return (sha1Creds \<noteq> existingSha1Creds \<or> sha256Creds \<noteq> existingSha256Creds))))) w1)"

text \<open>The part of \<open>ensureScramCredentials\<close> after the password was read.\<close>

definition ensure_with_password ::
    "'w auth_env \<Rightarrow> auth_user \<Rightarrow> nsname \<Rightarrow> owner_ref list \<Rightarrow> string \<Rightarrow> ('w, (scram_creds \<times> scram_creds) fallible) effect" where
  "ensure_with_password env user mdbNamespacedName ownerRef password =
    eff_bind (eff_wrap ''could not determine if new credentials need to be generated: ''
        (needToGenerateNewCredentials env (Username user) (ScramCredentialsSecretName user) mdbNamespacedName password))
      (\<lambda>shouldGenerateNewCredentials.
        if \<not> shouldGenerateNewCredentials
        then readExistingCredentials env mdbNamespacedName (ScramCredentialsSecretName user)
        else
          eff_bind (eff_wrap ''failed generating scram credentials: ''
            (generateScramShaCredentials env (Username user) password)) (\<lambda>(sha1Creds, sha256Creds).
          eff_bind (eff_wrap (''faild to create scram credentials secret '' @ ScramCredentialsSecretName user @ '': '')
            (createScramCredentialsSecret env mdbNamespacedName ownerRef (ScramCredentialsSecretName user)
               sha1Creds sha256Creds)) (\<lambda>_.
          eff_return (sha1Creds, sha256Creds))))"

definition ensureScramCredentials ::
    "'w auth_env \<Rightarrow> auth_user \<Rightarrow> nsname \<Rightarrow> owner_ref list \<Rightarrow> ('w, (scram_creds \<times> scram_creds) fallible) effect" where
  "ensureScramCredentials env user mdbNamespacedName ownerRef w =
    (case secret_ReadKey (env_client env) (PasswordSecretKey user)
            (nn (ns_Namespace mdbNamespacedName) (PasswordSecretName user)) w of
       (Inl err, w1) \<Rightarrow>
         if SecretNotExist err
         then readExistingCredentials env mdbNamespacedName (ScramCredentialsSecretName user) w1
         else (Inl (errorf (''could not read secret key: '' @ err_msg err)), w1)
     | (Inr password, w1) \<Rightarrow> ensure_with_password env user mdbNamespacedName ownerRef password w1)"

subsection \<open>SCRAM users and agent\<close>

definition convert_roles :: "auth_user \<Rightarrow> ac_role list" where
  "convert_roles user = map (\<lambda>r. \<lparr>acr_Role = authrole_Name r, acr_Database = authrole_Database r\<rparr>) (UserRoles user)"

definition scram_convertMongoDBUserToAutomationConfigUser ::
    "'w auth_env \<Rightarrow> nsname \<Rightarrow> owner_ref list \<Rightarrow> auth_user \<Rightarrow> ('w, ac_user fallible) effect" where
  "scram_convertMongoDBUserToAutomationConfigUser env mdbNsName ownerRef user =
    eff_bind (eff_wrap ''could not ensure scram credentials: '' (ensureScramCredentials env user mdbNsName ownerRef))
      (\<lambda>(sha1Creds, sha256Creds). eff_return
        \<lparr>acu_Mechanisms = [], acu_Roles = convert_roles user, acu_Username = Username user,
         acu_Database = Database user, acu_AuthenticationRestrictions = [],
         acu_ScramSha256Creds = Some sha256Creds, acu_ScramSha1Creds = Some sha1Creds\<rparr>)"

definition scram_convertMongoDBResourceUsersToAutomationConfigUsers ::
    "'w auth_env \<Rightarrow> mdb \<Rightarrow> ('w, ac_user list fallible) effect" where
  "scram_convertMongoDBResourceUsersToAutomationConfigUsers env m =
    eff_map (\<lambda>u. eff_wrap (''failed to convert scram user '' @ Username u @ '' to Automation Config user: '')
        (scram_convertMongoDBUserToAutomationConfigUser env (NamespacedName m) (GetOwnerReferences m) u))
      (filter (\<lambda>u. Database u \<noteq> ExternalDB) (GetAuthUsers (env_dns env) m))"

definition multierror :: "'w auth_env \<Rightarrow> string list \<Rightarrow> go_error option" where
  "multierror env errs = (if errs = [] then None else Some (errorf (env_multierror env errs)))"

definition scram_validateAgentOptions :: "'w auth_env \<Rightarrow> auth_options \<Rightarrow> go_error option" where
  "scram_validateAgentOptions env opts = multierror env
    ((if AutoAuthMechanism opts = '''' then [''AutoAuthMechanism must not be empty''] else []) @
     (if opt_AgentName opts = '''' then [''AgentName must be specified''] else []) @
     (if KeyFile opts = '''' then [''KeyFile must be specified''] else []))"

definition validateClientOptions :: "'w auth_env \<Rightarrow> auth_options \<Rightarrow> go_error option" where
  "validateClientOptions env opts = multierror env
    (if length (AuthMechanisms opts) = 0 then [''at least one AuthMechanism must be specified''] else [])"

definition scram_enableAgentAuthentication ::
    "'w auth_env \<Rightarrow> ac_auth \<Rightarrow> string \<Rightarrow> string \<Rightarrow> auth_options \<Rightarrow> ac_auth fallible" where
  "scram_enableAgentAuthentication env auth agentPassword agentKeyFileContents opts =
    (case scram_validateAgentOptions env opts of
       Some err \<Rightarrow> Inl err
     | None \<Rightarrow> Inr (auth\<lparr>au_Disabled := False,
         au_AuthoritativeSet := AuthoritativeSet opts,
         au_KeyFile := KeyFile opts,
         au_KeyFileWindows := AutomationAgentWindowsKeyFilePath,
         au_AutoAuthMechanisms :=
           (if contains_Sha256 (AuthMechanisms opts) then [Sha256] else []) @
           (if contains_Sha1 (AuthMechanisms opts) then [Sha1] else []),
         au_AutoUser := opt_AgentName opts,
         au_AutoAuthMechanism := AutoAuthMechanism opts,
         au_AutoPwd := agentPassword,
         au_Key := agentKeyFileContents\<rparr>))"

definition scram_enableClientAuthentication ::
    "'w auth_env \<Rightarrow> ac_auth \<Rightarrow> auth_options \<Rightarrow> ac_user list \<Rightarrow> ac_auth fallible" where
  "scram_enableClientAuthentication env auth opts users =
    (case validateClientOptions env opts of
       Some err \<Rightarrow> Inl err
     | None \<Rightarrow>
         (let mechs = au_DeploymentAuthMechanisms auth;
              mechs1 = (if \<not> contains_Sha256 mechs \<and> contains_Sha256 (AuthMechanisms opts) then mechs @ [Sha256] else mechs);
              mechs2 = (if \<not> contains_Sha1 mechs1 \<and> contains_Sha1 (AuthMechanisms opts) then mechs1 @ [Sha1] else mechs1)
          in Inr (auth\<lparr>au_DeploymentAuthMechanisms := mechs2, au_Users := au_Users auth @ users\<rparr>)))"

definition scram_ensureAgent :: "'w auth_env \<Rightarrow> ac_auth \<Rightarrow> mdb \<Rightarrow> ('w, ac_auth fallible) effect" where
  "scram_ensureAgent env auth m =
    eff_bind (eff_wrap ''could not generate password: '' (RandomFixedLengthStringOfSize (env_rand env) 20)) (\<lambda>generatedPassword.
    eff_bind (eff_wrap ''could not generate keyfile contents: '' (KeyFileContents (env_rand env))) (\<lambda>generatedContents.
    eff_bind (EnsureSecretWithKey (env_client env) (GetAgentPasswordSecretNamespacedName m) (GetOwnerReferences m)
        AgentPasswordKey generatedPassword) (\<lambda>agentPassword.
    eff_bind (EnsureSecretWithKey (env_client env) (GetAgentKeyfileSecretNamespacedName m) (GetOwnerReferences m)
        AgentKeyfileKey generatedContents) (\<lambda>agentKeyFile.
    eff_lift (scram_enableAgentAuthentication env auth agentPassword agentKeyFile (GetAuthOptions m))))))"

definition scram_Enable :: "'w auth_env \<Rightarrow> ac_auth \<Rightarrow> mdb \<Rightarrow> ('w, ac_auth fallible) effect" where
  "scram_Enable env auth m =
    (let opts = GetAuthOptions m
     in eff_bind (eff_wrap ''could not convert users to Automation Config users: ''
          (scram_convertMongoDBResourceUsersToAutomationConfigUsers env m)) (\<lambda>desiredUsers.
        eff_bind (if AutoAuthMechanism opts = Sha256 \<or> AutoAuthMechanism opts = Sha1
                  then scram_ensureAgent env auth m else eff_return auth) (\<lambda>auth1.
        eff_lift (scram_enableClientAuthentication env auth1 opts desiredUsers))))"

subsection \<open>X.509\<close>

definition x509_convertMongoDBUserToAutomationConfigUser :: "auth_user \<Rightarrow> ac_user" where
  "x509_convertMongoDBUserToAutomationConfigUser user =
    \<lparr>acu_Mechanisms = [], acu_Roles = convert_roles user, acu_Username = Username user,
     acu_Database = Database user, acu_AuthenticationRestrictions = [],
     acu_ScramSha256Creds = None, acu_ScramSha1Creds = None\<rparr>"

definition x509_convertMongoDBResourceUsersToAutomationConfigUsers :: "'w auth_env \<Rightarrow> mdb \<Rightarrow> ac_user list" where
  "x509_convertMongoDBResourceUsersToAutomationConfigUsers env m =
    map x509_convertMongoDBUserToAutomationConfigUser
      (filter (\<lambda>u. Database u = ExternalDB) (GetAuthUsers (env_dns env) m))"

text \<open>The text of an empty \<open>RDNSequence\<close> is empty.\<close>

definition readAgentSubjectsFromCert :: "'w auth_env \<Rightarrow> string \<Rightarrow> string fallible" where
  "readAgentSubjectsFromCert env agentCert =
    (let subject = (\<lambda>der. case env_RawSubject env der of Inl err \<Rightarrow> Inl err | Inr raw \<Rightarrow> env_rdn_String env raw)
     in case env_pem_Decode env agentCert of
          (Some (block_Type, bytes), rest) \<Rightarrow>
            if block_Type = ''CERTIFICATE'' then subject bytes
            else if rest \<noteq> [] then subject rest else Inr ''''
        | (None, rest) \<Rightarrow> if rest \<noteq> [] then subject rest else Inr '''')"

text \<open>\<open>regexp.MatchString(name+"=\w+", subject)\<close>: a \<open>name=\<close> followed by a word character.\<close>

definition word_char :: "char \<Rightarrow> bool" where
  "word_char c = (in_range CHR ''a'' CHR ''z'' c \<or> in_range CHR ''A'' CHR ''Z'' c \<or> in_range CHR ''0'' CHR ''9'' c \<or> c = CHR ''_'')"

fun match_attribute :: "string \<Rightarrow> string \<Rightarrow> bool" where
  "match_attribute name [] = False"
| "match_attribute name (c # s) =
    ((has_prefix (c # s) (name @ ''='') \<and>
      (case drop (length name + 1) (c # s) of [] \<Rightarrow> False | d # _ \<Rightarrow> word_char d))
     \<or> match_attribute name s)"

definition isValidX509Subject :: "string \<Rightarrow> bool" where
  "isValidX509Subject subject = list_all (\<lambda>name. match_attribute name subject) [''CN'', ''C'', ''OU'']"

definition x509_validateAgentOptions :: "'w auth_env \<Rightarrow> auth_options \<Rightarrow> go_error option" where
  "x509_validateAgentOptions env opts = multierror env
    (if AutoAuthMechanism opts = '''' then [''AutoAuthMechanism must not be empty''] else [])"

definition x509_enableAgentAuthentication ::
    "'w auth_env \<Rightarrow> ac_auth \<Rightarrow> string \<Rightarrow> string \<Rightarrow> auth_options \<Rightarrow> ac_auth fallible" where
  "x509_enableAgentAuthentication env auth agentKeyFileContents agentName opts =
    (case x509_validateAgentOptions env opts of
       Some err \<Rightarrow> Inl err
     | None \<Rightarrow> Inr (auth\<lparr>au_Disabled := False,
         au_AuthoritativeSet := AuthoritativeSet opts,
         au_KeyFile := KeyFile opts,
         au_Key := agentKeyFileContents,
         au_KeyFileWindows := AutomationAgentWindowsKeyFilePath,
         au_AutoAuthMechanisms := [X509],
         au_AutoUser := agentName,
         au_AutoAuthMechanism := X509,
         au_AutoPwd := ''''\<rparr>))"

definition x509_enableClientAuthentication ::
    "'w auth_env \<Rightarrow> ac_auth \<Rightarrow> auth_options \<Rightarrow> ac_user list \<Rightarrow> ac_auth fallible" where
  "x509_enableClientAuthentication env auth opts users =
    (case validateClientOptions env opts of
       Some err \<Rightarrow> Inl err
     | None \<Rightarrow>
         Inr (auth\<lparr>au_DeploymentAuthMechanisms :=
             (if \<not> contains_X509 (au_DeploymentAuthMechanisms auth) then au_DeploymentAuthMechanisms auth @ [X509]
              else au_DeploymentAuthMechanisms auth),
           au_Users := au_Users auth @ users\<rparr>))"

definition x509_ensureAgent :: "'w auth_env \<Rightarrow> ac_auth \<Rightarrow> mdb \<Rightarrow> nsname \<Rightarrow> ('w, ac_auth fallible) effect" where
  "x509_ensureAgent env auth m agentCertSecret =
    eff_bind (eff_wrap ''could not generate keyfile contents: '' (KeyFileContents (env_rand env))) (\<lambda>generatedContents.
    eff_bind (EnsureSecretWithKey (env_client env) (GetAgentKeyfileSecretNamespacedName m) (GetOwnerReferences m)
        AgentKeyfileKey generatedContents) (\<lambda>agentKeyFile.
    eff_bind (secret_ReadKey (env_client env) ''tls.crt'' agentCertSecret) (\<lambda>agentCert.
    eff_bind (eff_lift (readAgentSubjectsFromCert env agentCert)) (\<lambda>agentSubject.
    if \<not> isValidX509Subject agentSubject
    then eff_fail (errorf (''Agent subject: '' @ agentSubject @ '' is not a valid subject''))
    else eff_lift (x509_enableAgentAuthentication env auth agentKeyFile agentSubject (GetAuthOptions m))))))"

definition x509_Enable :: "'w auth_env \<Rightarrow> ac_auth \<Rightarrow> mdb \<Rightarrow> nsname \<Rightarrow> ('w, ac_auth fallible) effect" where
  "x509_Enable env auth m agentCertSecret =
    (let opts = GetAuthOptions m;
         desiredUsers = x509_convertMongoDBResourceUsersToAutomationConfigUsers env m
     in eff_bind (if AutoAuthMechanism opts = X509 then x509_ensureAgent env auth m agentCertSecret else eff_return auth)
          (\<lambda>auth1. eff_lift (x509_enableClientAuthentication env auth1 opts desiredUsers)))"

subsection \<open>All mechanisms\<close>

fun enable_loop :: "'w auth_env \<Rightarrow> mdb \<Rightarrow> nsname \<Rightarrow> string list \<Rightarrow> bool \<Rightarrow> ac_auth \<Rightarrow> ('w, ac_auth fallible) effect" where
  "enable_loop env m agentCertSecret [] scramEnabled auth = eff_return auth"
| "enable_loop env m agentCertSecret (authMode # authModes) scramEnabled auth =
    (if authMode = Sha1 \<or> authMode = Sha256 then
       (if scramEnabled then enable_loop env m agentCertSecret authModes scramEnabled auth
        else eff_bind (eff_wrap ''could not configure scram authentication: '' (scram_Enable env auth m))
               (enable_loop env m agentCertSecret authModes True))
     else if authMode = X509 then
       eff_bind (eff_wrap ''could not configure x509 authentication: '' (x509_Enable env auth m agentCertSecret))
         (enable_loop env m agentCertSecret authModes scramEnabled)
     else enable_loop env m agentCertSecret authModes scramEnabled auth)"

definition authentication_Enable :: "'w auth_env \<Rightarrow> ac_auth \<Rightarrow> mdb \<Rightarrow> nsname \<Rightarrow> ('w, ac_auth fallible) effect" where
  "authentication_Enable env auth m agentCertSecret =
    enable_loop env m agentCertSecret (AuthMechanisms (GetAuthOptions m)) False auth"

subsection \<open>Removed users\<close>

abbreviation user_id :: "mongodb_user \<Rightarrow> string \<times> string" where
  "user_id u \<equiv> (u_DB u, u_Name u)"

definition getRemovedUsersFromSpec :: "mdb_spec \<Rightarrow> mdb_spec \<Rightarrow> deleted_user list" where
  "getRemovedUsersFromSpec currentMDB lastAppliedMDBSpec =
    (let m = fold (\<lambda>u m. if u_DB u = ExternalDB then m else map_put (user_id u) True m) (Users currentMDB) []
     in concat (map (\<lambda>u.
          if u_DB u = ExternalDB then []
          else if map_of m (user_id u) = None then [\<lparr>du_User = u_Name u, du_Dbs = [u_DB u]\<rparr>] else [])
        (Users lastAppliedMDBSpec)))"

definition AddRemovedUsers :: "ac_auth \<Rightarrow> mdb \<Rightarrow> mdb_spec \<Rightarrow> ac_auth" where
  "AddRemovedUsers auth m lastAppliedSpec =
    auth\<lparr>au_UsersDeleted := au_UsersDeleted auth @ getRemovedUsersFromSpec (Spec m) lastAppliedSpec\<rparr>"

subsection \<open>Stored credentials\<close>

definition stored_creds :: "secret \<Rightarrow> scram_creds \<times> scram_creds" where
  "stored_creds s = (let value = data_value (s_Data s) in
    (\<lparr>IterationCount = DefaultScramSha1Iterations, Salt = value sha1SaltKey,
      ServerKey = value sha1ServerKeyKey, StoredKey = value sha1StoredKeyKey\<rparr>,
     \<lparr>IterationCount = DefaultScramSha256Iterations, Salt = value sha256SaltKey,
      ServerKey = value sha256ServerKeyKey, StoredKey = value sha256StoredKeyKey\<rparr>))"

definition has_creds :: "secret \<Rightarrow> bool" where
  "has_creds s = HasAllKeys s [sha1SaltKey, sha1ServerKeyKey, sha1ServerKeyKey, sha256SaltKey,
     sha256ServerKeyKey, sha256StoredKeyKey]"

text \<open>The credentials in the secret are those of the password under the salts in the secret.\<close>

definition creds_match :: "'w auth_env \<Rightarrow> string \<Rightarrow> string \<Rightarrow> scram_creds \<times> scram_creds \<Rightarrow> bool" where
  "creds_match env username password cr =
    (\<exists>salt1 salt256. base64_DecodeString (Salt (fst cr)) = Inr salt1 \<and> base64_DecodeString (Salt (snd cr)) = Inr salt256 \<and>
       computeScramShaCredentials env username password salt1 salt256 = Inr cr)"

lemma stored_salts:
  "Salt (fst (stored_creds s)) = data_value (s_Data s) sha1SaltKey"
  "Salt (snd (stored_creds s)) = data_value (s_Data s) sha256SaltKey"
  by (simp_all add: stored_creds_def Let_def)

lemma readExistingCredentials_alt:
  "readExistingCredentials env n name =
    eff_bind (eff_wrap (''could not get secret '' @ ns_Namespace n @ ''/'' @ name @ '': '')
        (GetSecret (env_client env) (nn (ns_Namespace n) name)))
      (\<lambda>s. if has_creds s then eff_return (stored_creds s)
           else eff_fail (errorf ''credentials secret did not have all of the required keys''))"
  unfolding readExistingCredentials_def has_creds_def stored_creds_def Let_def
  by (intro arg_cong2[where f = eff_bind] refl ext) simp

lemma computeScramSha_shape:
  assumes "computeScramShaCredentials env username password salt1 salt256 = Inr (c1, c256)"
  shows "Salt c1 = base64_EncodeToString salt1" "Salt c256 = base64_EncodeToString salt256"
    "IterationCount c1 = DefaultScramSha1Iterations" "IterationCount c256 = DefaultScramSha256Iterations"
  using assms
  by (auto simp: computeScramShaCredentials_def ComputeScramSha1Creds_def ComputeScramSha256Creds_def
      DefaultScramSha1Iterations_def DefaultScramSha256Iterations_def computeScramCredentials_iff
      scram_reference_def Let_def split: sum.splits)

lemma creds_match_computed:
  assumes "computeScramShaCredentials env username password salt1 salt256 = Inr cr"
  shows "creds_match env username password cr"
proof -
  obtain c1 c256 where "cr = (c1, c256)" by fastforce
  then show ?thesis using assms computeScramSha_shape[of env username password salt1 salt256 c1 c256]
    by (auto simp: creds_match_def)
qed

lemma stored_scramCredsSecret:
  assumes "computeScramShaCredentials env username password salt1 salt256 = Inr (c1, c256)"
  shows "stored_creds (scramCredsSecret n refs name c1 c256) = (c1, c256)"
    and "has_creds (scramCredsSecret n refs name c1 c256)"
    and "secret_key (scramCredsSecret n refs name c1 c256) = nn (ns_Namespace n) name"
  using computeScramSha_shape[OF assms]
  by (simp_all add: stored_creds_def scramCredsSecret_def secret_builder_defs data_value_def data_lookup_def
      scram_key_defs has_creds_def HasAllKeys_def Let_def)

subsection \<open>Ensuring credentials\<close>

definition stored_value :: "(nsname \<Rightarrow> secret option) \<Rightarrow> nsname \<Rightarrow> string \<Rightarrow> string option" where
  "stored_value secrets k key = (case secrets k of None \<Rightarrow> None | Some s \<Rightarrow> data_lookup (s_Data s) key)"

context reliable_secrets
begin

lemma ReadKey_fails_again:
  assumes "secret_ReadKey c key k w = (Inl e, w')" and "SecretNotExist e" and "content w2 = content w"
  shows "\<exists>e2 w3. secret_ReadKey c key k w2 = (Inl e2, w3) \<and> SecretNotExist e2 \<and> content w3 = content w2 \<and>
    stored_value (content w2) k key = None"
proof (cases "content w k")
  case None
  then show ?thesis
    using ReadKey_run_absent[of w2 k key] assms(3) by (auto simp: SecretNotExist_def stored_value_def)
next
  case (Some s)
  obtain v1 v2 where g: "GetSecret c k w = (Inr s, v1)" "GetSecret c k w2 = (Inr s, v2)" "content v2 = content w2"
    using GetSecret_run[of w k s] GetSecret_run[of w2 k s] Some assms(3) by metis
  then have "map_of (dataToStringData (s_Data s)) key = None"
    using assms(1) by (auto simp: secret_ReadKey_def ReadStringData_def split: option.splits)
  then show ?thesis
    using assms g Some
    by (auto simp: secret_ReadKey_def ReadStringData_def stored_value_def data_lookup_def dataToStringData_def
        split: option.splits)
qed

end

lemma eff_bind_keeps:
  assumes "f (snd (m w)) = f w" and "\<And>x w'. f (snd (k x w')) = f w'"
  shows "f (snd (eff_bind m k w)) = f w"
  using assms(1) assms(2)[of _ "snd (m w)"] by (auto simp: eff_bind_def split: prod.split sum.split)

locale auth_store = reliable_secrets "env_client env" content
  for env :: "'w auth_env" and content :: "'w \<Rightarrow> nsname \<Rightarrow> secret option" +
  assumes rand_content: "content (snd (env_rand env k w)) = content w"
begin

lemma readExisting_run:
  assumes "content w (nn (ns_Namespace n) name) = Some s" and "has_creds s"
  shows "\<exists>w'. readExistingCredentials env n name w = (Inr (stored_creds s), w') \<and> content w' = content w"
  using GetSecret_run[OF assms(1)] assms(2) unfolding readExistingCredentials_alt by fastforce

lemma readExisting_Inr:
  assumes "readExistingCredentials env n name w = (Inr cr, w')"
  obtains s where "content w (nn (ns_Namespace n) name) = Some s" "has_creds s" "cr = stored_creds s"
    "content w' = content w"
proof -
  obtain s w1 where s: "GetSecret (env_client env) (nn (ns_Namespace n) name) w = (Inr s, w1)"
      "(if has_creds s then eff_return (stored_creds s)
        else eff_fail (errorf ''credentials secret did not have all of the required keys'')) w1 = (Inr cr, w')"
    using assms unfolding readExistingCredentials_alt eff_bind_Inr_iff by auto
  then show thesis using that GetSecret_Inr[OF s(1)] by (auto split: if_splits)
qed

lemma need_run:
  assumes "content w (nn (ns_Namespace n) name) = Some s" and "has_creds s"
    and "creds_match env username password (stored_creds s)"
  shows "\<exists>w'. needToGenerateNewCredentials env username name n password w = (Inr False, w') \<and> content w' = content w"
proof -
  obtain salt1 salt256 where salts: "base64_DecodeString (data_value (s_Data s) sha1SaltKey) = Inr salt1"
      "base64_DecodeString (data_value (s_Data s) sha256SaltKey) = Inr salt256"
      "computeScramShaCredentials env username password salt1 salt256 = Inr (stored_creds s)"
    using assms(3) unfolding creds_match_def stored_salts by blast
  obtain w1 where g: "GetSecret (env_client env) (nn (ns_Namespace n) name) w = (Inr s, w1)" "content w1 = content w"
    using GetSecret_run[OF assms(1)] by blast
  obtain w2 where r: "readExistingCredentials env n name w1 = (Inr (stored_creds s), w2)" "content w2 = content w1"
    using readExisting_run[of w1 n name s] assms(1,2) g(2) by auto
  show ?thesis using g r salts by (auto simp: needToGenerateNewCredentials_def split: prod.split)
qed

lemma need_False:
  assumes "needToGenerateNewCredentials env username name n password w = (Inr False, w')"
  obtains s where "content w (nn (ns_Namespace n) name) = Some s" "has_creds s"
    "creds_match env username password (stored_creds s)" "content w' = content w"
proof -
  obtain s w1 where g: "GetSecret (env_client env) (nn (ns_Namespace n) name) w = (Inr s, w1)"
    using assms by (cases "GetSecret (env_client env) (nn (ns_Namespace n) name) w"; cases "fst (GetSecret (env_client env) (nn (ns_Namespace n) name) w)")
      (auto simp: needToGenerateNewCredentials_def split: if_splits)
  obtain salt1 salt256 c1 c256 where c: "base64_DecodeString (data_value (s_Data s) sha1SaltKey) = Inr salt1"
      "base64_DecodeString (data_value (s_Data s) sha256SaltKey) = Inr salt256"
      "computeScramShaCredentials env username password salt1 salt256 = Inr (c1, c256)"
      "readExistingCredentials env n name w1 = (Inr (c1, c256), w')"
    using assms g by (auto simp: needToGenerateNewCredentials_def eff_bind_Inr_iff)
  have "content w (nn (ns_Namespace n) name) = Some s" "content w1 = content w" using GetSecret_Inr[OF g] by auto
  then show thesis
    using that readExisting_Inr[OF c(4)] c creds_match_computed[OF c(3)] by (metis option.inject)
qed

lemma need_content:
  assumes "needToGenerateNewCredentials env username name n password w = (r, w')"
  shows "content w' = content w"
proof -
  obtain g w1 where g: "GetSecret (env_client env) (nn (ns_Namespace n) name) w = (g, w1)" by (metis prod.exhaust)
  have w1: "content w1 = content w" using GetSecret_content[of "nn (ns_Namespace n) name" w] g by simp
  have read: "content (snd (readExistingCredentials env n name v)) = content v" for v
    using GetSecret_content[of "nn (ns_Namespace n) name" v]
    by (auto simp: readExistingCredentials_alt eff_bind_def eff_wrap_def split: prod.splits sum.splits)
  show ?thesis
    using assms g w1 read[of w1]
    by (auto simp: needToGenerateNewCredentials_def eff_bind_def split: sum.splits prod.splits if_splits)
qed

lemma Salts_content: "content (snd (Salts (env_rand env) w)) = content w"
proof -
  have fixed: "content (snd (RandomFixedLengthStringOfSize (env_rand env) k w)) = content w" for k w
    using rand_content[of k w]
    by (auto simp: RandomFixedLengthStringOfSize_def generateRandomBytes_def split: prod.splits sum.splits)
  have salt: "content (snd (generate_salt (env_rand env) h w)) = content w" for h w
    unfolding generate_salt_def Let_def by (rule eff_bind_keeps) (simp_all add: fixed)
  show ?thesis unfolding Salts_def by (intro eff_bind_keeps) (simp_all add: salt)
qed

lemma ensure_with_password_run:
  assumes "content w (nn (ns_Namespace n) (ScramCredentialsSecretName user)) = Some s" and "has_creds s"
    and "creds_match env (Username user) password (stored_creds s)"
  shows "\<exists>w'. ensure_with_password env user n refs password w = (Inr (stored_creds s), w') \<and> content w' = content w"
proof -
  obtain w1 where need: "needToGenerateNewCredentials env (Username user) (ScramCredentialsSecretName user) n password w
      = (Inr False, w1)" "content w1 = content w"
    using need_run[OF assms] by blast
  then show ?thesis
    using readExisting_run[of w1 n "ScramCredentialsSecretName user" s] assms(1,2)
    by (simp add: ensure_with_password_def eff_bind_def eff_wrap_def)
qed

lemma generate_Inr:
  assumes "generateScramShaCredentials env username password w = (Inr (c1, c256), w')"
  shows "content w' = content w \<and> (\<exists>salt1 salt256. computeScramShaCredentials env username password salt1 salt256 = Inr (c1, c256))"
  using assms Salts_content[of w] unfolding generateScramShaCredentials_def eff_bind_Inr_iff by fastforce

lemma ensure_with_password_Inr:
  assumes "ensure_with_password env user n refs password w = (Inr cr, w')"
  obtains s where "content w' = (content w)(nn (ns_Namespace n) (ScramCredentialsSecretName user) \<mapsto> s)"
    and "has_creds s" and "cr = stored_creds s" and "creds_match env (Username user) password (stored_creds s)"
proof -
  let ?k = "nn (ns_Namespace n) (ScramCredentialsSecretName user)"
  obtain should w1 where need:
      "needToGenerateNewCredentials env (Username user) (ScramCredentialsSecretName user) n password w = (Inr should, w1)"
    using assms unfolding ensure_with_password_def eff_bind_Inr_iff by auto
  note w1 = need_content[OF need]
  show thesis
  proof (cases should)
    case True
    then obtain c1 c256 w2 where gen: "generateScramShaCredentials env (Username user) password w1 = (Inr (c1, c256), w2)"
        "secret_CreateOrUpdate (env_client env) (scramCredsSecret n refs (ScramCredentialsSecretName user) c1 c256) w2 = (None, w')"
        "cr = (c1, c256)"
      using assms need unfolding ensure_with_password_def eff_bind_Inr_iff createScramCredentialsSecret_def
      by (auto simp: eff_bind_Inr_iff)
    obtain salt1 salt256 where c: "computeScramShaCredentials env (Username user) password salt1 salt256 = Inr (c1, c256)"
      using generate_Inr[OF gen(1)] by blast
    have "content w' = (content w)(?k \<mapsto> scramCredsSecret n refs (ScramCredentialsSecretName user) c1 c256)"
      using CreateOrUpdate_cases[OF gen(2)] generate_Inr[OF gen(1)] w1 stored_scramCredsSecret(3)[OF c] by simp
    then show thesis using that stored_scramCredsSecret[OF c] creds_match_computed[OF c] gen(3) by metis
  next
    case False
    then have read: "readExistingCredentials env n (ScramCredentialsSecretName user) w1 = (Inr cr, w')"
      using assms need by (simp add: ensure_with_password_def eff_bind_def eff_wrap_def)
    obtain s where "content w1 ?k = Some s" "has_creds s" "cr = stored_creds s" "content w' = content w1"
      by (rule readExisting_Inr[OF read])
    moreover obtain s' where "content w ?k = Some s'" "creds_match env (Username user) password (stored_creds s')"
      using need False by (metis need_False)
    moreover have "content w = (content w)(?k \<mapsto> s')" using calculation(5) by (simp add: fun_upd_idem)
    ultimately show thesis using that[of s'] w1 by simp
  qed
qed

end

text \<open>The random source of the witnesses repeats one letter.\<close>

definition mock_env :: "mock_world auth_env" where
  "mock_env = \<lparr>env_client = mockedClient, env_rand = (\<lambda>n w. (Inr (replicate n CHR ''r''), w)),
     env_saslprep = Inr, env_multierror = concat, env_dns = (\<lambda>_. True),
     env_pem_Decode = (\<lambda>s. (None, s)), env_RawSubject = Inr, env_rdn_String = Inr\<rparr>"

interpretation mock_auth: auth_store mock_env mw_secrets
  unfolding auth_store_def auth_store_axioms_def mock_env_def
  by (simp add: mock_reliable.reliable_secrets_axioms)

text \<open>C18: the credentials given to the agents are those of the password in the user's secret, and
  they are stable: calling again returns the same ones and writes nothing, so the version
  of the automation config does not change without need.  When the password secret is
  gone the stored credentials go on to be used.\<close>

theorem ensureScramCredentials_stable:
  assumes "auth_store env content"
    and "ScramCredentialsSecretName user \<noteq> PasswordSecretName user"
    and "ensureScramCredentials env user n refs w = (Inr cr, w1)"
  shows "(\<exists>w2. ensureScramCredentials env user n refs w1 = (Inr cr, w2) \<and> content w2 = content w1) \<and>
    (case stored_value (content w1) (nn (ns_Namespace n) (PasswordSecretName user)) (PasswordSecretKey user) of
       Some password \<Rightarrow> creds_match env (Username user) password cr
     | None \<Rightarrow> content w1 = content w)"
proof -
  note reliable = auth_store.axioms(1)[OF assms(1)]
  note store = reliable_secrets.axioms(1)[OF reliable]
  let ?pk = "nn (ns_Namespace n) (PasswordSecretName user)"
  let ?sk = "nn (ns_Namespace n) (ScramCredentialsSecretName user)"
  obtain p w' where read: "secret_ReadKey (env_client env) (PasswordSecretKey user) ?pk w = (p, w')"
    by (metis prod.exhaust)
  have w': "content w' = content w" using secret_store.ReadKey_content[OF store] read by (metis snd_conv)
  show ?thesis
  proof (cases p)
    case (Inl e)
    then have ex: "readExistingCredentials env n (ScramCredentialsSecretName user) w' = (Inr cr, w1)" "SecretNotExist e"
      using assms(3) read by (auto simp: ensureScramCredentials_def split: if_splits)
    obtain s where s: "content w' ?sk = Some s" "has_creds s" "cr = stored_creds s" "content w1 = content w'"
      by (rule auth_store.readExisting_Inr[OF assms(1) ex(1)])
    obtain e2 w2 where again: "secret_ReadKey (env_client env) (PasswordSecretKey user) ?pk w1 = (Inl e2, w2)"
        "SecretNotExist e2" "content w2 = content w1" "stored_value (content w1) ?pk (PasswordSecretKey user) = None"
      using reliable_secrets.ReadKey_fails_again[OF reliable, of "PasswordSecretKey user" ?pk w e w' w1] read Inl ex(2) s(4) w' by auto
    moreover obtain w3 where "readExistingCredentials env n (ScramCredentialsSecretName user) w2 = (Inr cr, w3)"
        "content w3 = content w2"
      using auth_store.readExisting_run[OF assms(1), of w2] s again(3) by metis
    ultimately show ?thesis using s(4) w' by (simp add: ensureScramCredentials_def)
  next
    case (Inr password)
    then have "ensure_with_password env user n refs password w' = (Inr cr, w1)"
      using assms(3) read by (simp add: ensureScramCredentials_def)
    then obtain s where s: "content w1 = (content w')(?sk \<mapsto> s)" "has_creds s" "cr = stored_creds s"
        "creds_match env (Username user) password (stored_creds s)"
      by (rule auth_store.ensure_with_password_Inr[OF assms(1)])
    obtain ps where ps: "content w1 ?pk = Some ps" "data_lookup (s_Data ps) (PasswordSecretKey user) = Some password"
      using secret_store.ReadKey_Inr[OF store] read Inr s(1) w' assms(2) by fastforce
    obtain w2 where w2: "secret_ReadKey (env_client env) (PasswordSecretKey user) ?pk w1 = (Inr password, w2)"
        "content w2 = content w1"
      using reliable_secrets.ReadKey_run[OF reliable ps] by blast
    obtain w3 where "ensure_with_password env user n refs password w2 = (Inr cr, w3)" "content w3 = content w2"
      using auth_store.ensure_with_password_run[OF assms(1), of w2 n user s password refs] s w2(2) by auto
    then show ?thesis using w2 ps s by (simp add: ensureScramCredentials_def stored_value_def)
  qed
qed

text \<open>A user with a password secret and no credentials yet.\<close>

definition demo_scram_user :: auth_user where
  "demo_scram_user = \<lparr>Username = ''u'', Database = ''admin'', UserRoles = [], PasswordSecretKey = ''password'',
     PasswordSecretName = ''user'', ScramCredentialsSecretName = ''u-scram-credentials'',
     ConnectionStringSecretName = '''', ConnectionStringSecretNamespace = '''', ConnectionStringOptions = []\<rparr>"

lemma mock_salts:
  "Salts (env_rand mock_env) w = (Inr (take 16 (sha256_sum (take 20 (base64url_EncodeToString (replicate 20 CHR ''r'')))),
     take 28 (sha256_sum (take 20 (base64url_EncodeToString (replicate 20 CHR ''r''))))), w)"
  by (simp add: Salts_def generate_salt_def RandomFixedLengthStringOfSize_def generateRandomBytes_def mock_env_def
      eff_bind_def RFC5802MandatedSaltSize_def Let_def)

lemma mock_compute:
  assumes "length s1 = 16" and "length s256 = 28"
  shows "\<exists>c1 c256. computeScramShaCredentials mock_env u p s1 s256 = Inr (c1, c256)"
  using assms computeScramCredentials_reference[of Inr _ _ s1 sha1_New 10000]
    computeScramCredentials_reference[of Inr _ _ s256 sha256_New 15000]
  by (simp add: computeScramShaCredentials_def ComputeScramSha1Creds_def ComputeScramSha256Creds_def
      DefaultScramSha1Iterations_def DefaultScramSha256Iterations_def mock_env_def)

lemma demo_scram_run:
  "\<exists>cr w1. ensureScramCredentials mock_env demo_scram_user (nn ''ns'' ''mdb'') [] (demo_cluster [demo_secret ''pw'']) = (Inr cr, w1)"
proof -
  let ?w = "demo_cluster [demo_secret ''pw'']"
  have read: "secret_ReadKey mockedClient ''password'' (nn ''ns'' ''user'') ?w = (Inr ''pw'', ?w)"
    by (simp add: secret_ReadKey_def ReadStringData_def client_defs mockedClient_def mock_defs demo_cluster_def
        demo_secret_def secret_builder_defs dataToStringData_def)
  have absent: "GetSecret mockedClient (nn ''ns'' ''u-scram-credentials'') ?w = (Inl notFoundError, ?w)"
    by (simp add: client_defs mockedClient_def mock_defs demo_cluster_def demo_secret_def secret_builder_defs NewMockedClient_def)
  have need: "needToGenerateNewCredentials mock_env ''u'' ''u-scram-credentials'' (nn ''ns'' ''mdb'') ''pw'' ?w = (Inr True, ?w)"
    using absent by (simp add: needToGenerateNewCredentials_def mock_env_def SecretNotExist_def notFoundError_def)
  obtain c1 c256 where gen: "generateScramShaCredentials mock_env ''u'' ''pw'' ?w = (Inr (c1, c256), ?w)"
    using mock_compute by (fastforce simp: generateScramShaCredentials_def eff_bind_def mock_salts)
  obtain w1 where "secret_CreateOrUpdate mockedClient (scramCredsSecret (nn ''ns'' ''mdb'') [] ''u-scram-credentials'' c1 c256) ?w = (None, w1)"
    using mock_reliable.CreateOrUpdate_run by blast
  then show ?thesis
    using read need gen
    by (simp add: ensureScramCredentials_def ensure_with_password_def demo_scram_user_def eff_bind_def eff_wrap_def
        createScramCredentialsSecret_def eff_check_def mock_env_def)
qed

theorem ensureScramCredentials_stable_witness:
  "\<exists>cr w1 w2. ensureScramCredentials mock_env demo_scram_user (nn ''ns'' ''mdb'') [] (demo_cluster [demo_secret ''pw'']) = (Inr cr, w1) \<and>
     ensureScramCredentials mock_env demo_scram_user (nn ''ns'' ''mdb'') [] w1 = (Inr cr, w2) \<and> mw_secrets w2 = mw_secrets w1"
proof -
  obtain cr w1 where run: "ensureScramCredentials mock_env demo_scram_user (nn ''ns'' ''mdb'') []
      (demo_cluster [demo_secret ''pw'']) = (Inr cr, w1)"
    using demo_scram_run by blast
  have "ScramCredentialsSecretName demo_scram_user \<noteq> PasswordSecretName demo_scram_user"
    by (simp add: demo_scram_user_def)
  from ensureScramCredentials_stable[OF mock_auth.auth_store_axioms this run] run show ?thesis by blast
qed

subsection \<open>Which users are configured\<close>

lemma eff_map_Inr:
  "eff_map f xs w = (Inr ys, w') \<Longrightarrow> list_all2 (\<lambda>x y. \<exists>w1 w2. f x w1 = (Inr y, w2)) xs ys"
proof (induction xs arbitrary: w ys)
  case (Cons x xs)
  then obtain y w1 zs w2 where "f x w = (Inr y, w1)" "eff_map f xs w1 = (Inr zs, w2)" "ys = y # zs" "w2 = w'"
    by (auto simp: eff_bind_Inr_iff)
  then show ?case using Cons.IH by auto
qed simp

abbreviation ac_user_id :: "ac_user \<Rightarrow> string \<times> string" where
  "ac_user_id u \<equiv> (acu_Username u, acu_Database u)"

abbreviation auth_user_id :: "auth_user \<Rightarrow> string \<times> string" where
  "auth_user_id u \<equiv> (Username u, Database u)"

definition scram_ids :: "'w auth_env \<Rightarrow> mdb \<Rightarrow> (string \<times> string) list" where
  "scram_ids env m = map auth_user_id (filter (\<lambda>u. Database u \<noteq> ExternalDB) (GetAuthUsers (env_dns env) m))"

definition x509_ids :: "'w auth_env \<Rightarrow> mdb \<Rightarrow> (string \<times> string) list" where
  "x509_ids env m = map auth_user_id (filter (\<lambda>u. Database u = ExternalDB) (GetAuthUsers (env_dns env) m))"

lemma scram_convert_ids:
  assumes "scram_convertMongoDBResourceUsersToAutomationConfigUsers env m w = (Inr us, w')"
  shows "map ac_user_id us = scram_ids env m"
proof -
  have "list_all2 (\<lambda>x y. ac_user_id y = auth_user_id x)
      (filter (\<lambda>u. Database u \<noteq> ExternalDB) (GetAuthUsers (env_dns env) m)) us"
    using eff_map_Inr[OF assms[unfolded scram_convertMongoDBResourceUsersToAutomationConfigUsers_def]]
    by (rule list_all2_mono)
       (auto simp: scram_convertMongoDBUserToAutomationConfigUser_def eff_bind_Inr_iff)
  then show ?thesis unfolding scram_ids_def by (induction rule: list_all2_induct) auto
qed

lemma scram_agent_keeps:
  assumes "scram_ensureAgent env auth m w = (Inr auth', w')"
  shows "au_Users auth' = au_Users auth" "au_DeploymentAuthMechanisms auth' = au_DeploymentAuthMechanisms auth"
  using assms
  by (auto simp: scram_ensureAgent_def eff_bind_Inr_iff scram_enableAgentAuthentication_def split: option.splits)

lemma x509_agent_keeps:
  assumes "x509_ensureAgent env auth m n w = (Inr auth', w')"
  shows "au_Users auth' = au_Users auth" "au_DeploymentAuthMechanisms auth' = au_DeploymentAuthMechanisms auth"
  using assms
  by (auto simp: x509_ensureAgent_def eff_bind_Inr_iff x509_enableAgentAuthentication_def
      split: option.splits if_splits)

lemma contains_set [simp]:
  "contains_Sha256 xs \<longleftrightarrow> Sha256 \<in> set xs" "contains_Sha1 xs \<longleftrightarrow> Sha1 \<in> set xs" "contains_X509 xs \<longleftrightarrow> X509 \<in> set xs"
  by (auto simp: contains_Sha256_def contains_Sha1_def contains_X509_def contains_String_def list_ex_iff)

lemma scram_Enable_Inr:
  assumes "scram_Enable env auth m w = (Inr auth', w')"
  shows "map ac_user_id (au_Users auth') = map ac_user_id (au_Users auth) @ scram_ids env m"
    and "set (au_DeploymentAuthMechanisms auth') =
      set (au_DeploymentAuthMechanisms auth) \<union> ({Sha1, Sha256} \<inter> set (AuthMechanisms (GetAuthOptions m)))"
proof -
  obtain us auth1 w1 w2 where run:
      "scram_convertMongoDBResourceUsersToAutomationConfigUsers env m w = (Inr us, w1)"
      "(if AutoAuthMechanism (GetAuthOptions m) = Sha256 \<or> AutoAuthMechanism (GetAuthOptions m) = Sha1
        then scram_ensureAgent env auth m else eff_return auth) w1 = (Inr auth1, w2)"
      "scram_enableClientAuthentication env auth1 (GetAuthOptions m) us = Inr auth'"
    using assms by (auto simp: scram_Enable_def Let_def eff_bind_Inr_iff)
  have keep: "au_Users auth1 = au_Users auth" "au_DeploymentAuthMechanisms auth1 = au_DeploymentAuthMechanisms auth"
    using run(2) scram_agent_keeps[of env auth m w1 auth1 w2] by (auto split: if_splits)
  show "map ac_user_id (au_Users auth') = map ac_user_id (au_Users auth) @ scram_ids env m"
    and "set (au_DeploymentAuthMechanisms auth') =
      set (au_DeploymentAuthMechanisms auth) \<union> ({Sha1, Sha256} \<inter> set (AuthMechanisms (GetAuthOptions m)))"
    using run(3) keep scram_convert_ids[OF run(1)]
    by (auto simp: scram_enableClientAuthentication_def Let_def split: option.splits if_splits)
qed

lemma x509_Enable_Inr:
  assumes "x509_Enable env auth m n w = (Inr auth', w')"
  shows "map ac_user_id (au_Users auth') = map ac_user_id (au_Users auth) @ x509_ids env m"
    and "set (au_DeploymentAuthMechanisms auth') = insert X509 (set (au_DeploymentAuthMechanisms auth))"
proof -
  obtain auth1 w1 where run:
      "(if AutoAuthMechanism (GetAuthOptions m) = X509 then x509_ensureAgent env auth m n else eff_return auth) w = (Inr auth1, w1)"
      "x509_enableClientAuthentication env auth1 (GetAuthOptions m)
         (x509_convertMongoDBResourceUsersToAutomationConfigUsers env m) = Inr auth'"
    using assms by (auto simp: x509_Enable_def Let_def eff_bind_Inr_iff)
  have keep: "au_Users auth1 = au_Users auth" "au_DeploymentAuthMechanisms auth1 = au_DeploymentAuthMechanisms auth"
    using run(1) x509_agent_keeps[of env auth m n w auth1 w1] by (auto split: if_splits)
  show "map ac_user_id (au_Users auth') = map ac_user_id (au_Users auth) @ x509_ids env m"
    and "set (au_DeploymentAuthMechanisms auth') = insert X509 (set (au_DeploymentAuthMechanisms auth))"
    using run(2) keep
    by (auto simp: x509_enableClientAuthentication_def x509_convertMongoDBResourceUsersToAutomationConfigUsers_def
        x509_convertMongoDBUserToAutomationConfigUser_def x509_ids_def comp_def split: option.splits if_splits)
qed

definition scram_in :: "string list \<Rightarrow> bool" where
  "scram_in ms = (Sha1 \<in> set ms \<or> Sha256 \<in> set ms)"

lemma mechanisms_distinct [simp]: "X509 \<noteq> Sha1" "X509 \<noteq> Sha256" "Sha1 \<noteq> X509" "Sha256 \<noteq> X509"
  by (simp_all add: X509_def Sha1_def Sha256_def)

lemma enable_loop_Inr:
  assumes "enable_loop env m n ms scramEnabled auth w = (Inr auth', w')" and "distinct ms"
  shows "mset (map ac_user_id (au_Users auth')) = mset (map ac_user_id (au_Users auth))
      + (if scram_in ms \<and> \<not> scramEnabled then mset (scram_ids env m) else {#})
      + (if X509 \<in> set ms then mset (x509_ids env m) else {#}) \<and>
    set (au_DeploymentAuthMechanisms auth') = set (au_DeploymentAuthMechanisms auth)
      \<union> (if scram_in ms \<and> \<not> scramEnabled then {Sha1, Sha256} \<inter> set (AuthMechanisms (GetAuthOptions m)) else {})
      \<union> (if X509 \<in> set ms then {X509} else {})"
  using assms
proof (induction ms arbitrary: scramEnabled auth w)
  case (Cons a ms)
  consider (skip) "a = Sha1 \<or> a = Sha256" "scramEnabled" | (scram) "a = Sha1 \<or> a = Sha256" "\<not> scramEnabled"
    | (x509) "a = X509" | (other) "a \<noteq> Sha1" "a \<noteq> Sha256" "a \<noteq> X509" by blast
  then show ?case
  proof cases
    case skip
    then show ?thesis using Cons.IH[of scramEnabled auth w] Cons.prems by (auto simp: scram_in_def)
  next
    case scram
    then obtain auth1 w1 where "scram_Enable env auth m w = (Inr auth1, w1)"
        "enable_loop env m n ms True auth1 w1 = (Inr auth', w')"
      using Cons.prems(1) by (auto simp: eff_bind_Inr_iff)
    with scram_Enable_Inr[of env auth m w auth1 w1] Cons.IH[of True auth1 w1] scram Cons.prems(2)
    show ?thesis by (auto simp: scram_in_def)
  next
    case x509
    then obtain auth1 w1 where "x509_Enable env auth m n w = (Inr auth1, w1)"
        "enable_loop env m n ms scramEnabled auth1 w1 = (Inr auth', w')"
      using Cons.prems(1) by (auto simp: eff_bind_Inr_iff)
    with x509_Enable_Inr[of env auth m n w auth1 w1] Cons.IH[of scramEnabled auth1 w1] x509 Cons.prems(2)
    show ?thesis by (auto simp: scram_in_def)
  next
    case other
    then show ?thesis using Cons.IH[of scramEnabled auth w] Cons.prems by (auto simp: scram_in_def)
  qed
qed (simp add: scram_in_def)


definition x509_mdb :: mdb where
  "x509_mdb = (let m = demo_mdb 3 0; s = Spec m; sec = Security s in
    m\<lparr>Spec := s\<lparr>Security := sec\<lparr>sec_Authentication := (sec_Authentication sec)\<lparr>auth_Modes := [''X509'']\<rparr>\<rparr>,
      Users := [\<lparr>u_Name = ''CN=alice'', u_DB = ExternalDB, u_PasswordSecretRef = \<lparr>skr_Name = '''', skr_Key = ''''\<rparr>,
        u_Roles = [], u_ScramCredentialsSecretName = '''', u_ConnectionStringSecretName = '''',
        u_ConnectionStringSecretNamespace = '''', u_AdditionalConnectionStringConfig = []\<rparr>]\<rparr>\<rparr>)"

definition agent_cert_secret :: secret where
  "agent_cert_secret = secret_Build (secret_SetField ''tls.crt'' ''CN=a,C=b,OU=c'' (secret_SetName ''agent-certs''
     (secret_SetNamespace ''ns'' secret_Builder)))"

lemma x509_mdb_options:
  "AuthMechanisms (GetAuthOptions x509_mdb) = [X509]" "AutoAuthMechanism (GetAuthOptions x509_mdb) = X509"
  "map auth_user_id (GetAuthUsers dns x509_mdb) = [(''CN=alice'', ExternalDB)]"
  by (simp_all add: x509_mdb_def demo_mdb_def zero_spec_def GetAuthOptions_def ConvertAuthModeToAuthMechanism_def
      GetAgentAuthMode_def X509_def GetAuthUsers_def GetAuthUser_def ExternalDB_def Let_def)

lemma x509_mdb_run:
  "\<exists>auth' w'. authentication_Enable mock_env zero_Auth x509_mdb (nn ''ns'' ''agent-certs'')
     (demo_cluster [agent_cert_secret]) = (Inr auth', w')"
proof -
  let ?w = "demo_cluster [agent_cert_secret]"
  let ?key = "base64_EncodeToString (replicate 500 CHR ''r'')"
  have content: "mw_secrets ?w = [nn ''ns'' ''agent-certs'' \<mapsto> agent_cert_secret]"
    by (auto simp: demo_cluster_def agent_cert_secret_def secret_builder_defs)
  have kf: "GetAgentKeyfileSecretNamespacedName x509_mdb = nn ''ns'' ''mdb-keyfile''"
    by (simp add: GetAgentKeyfileSecretNamespacedName_def x509_mdb_def demo_mdb_def Let_def)
  obtain w1 where ensure: "EnsureSecretWithKey mockedClient (GetAgentKeyfileSecretNamespacedName x509_mdb)
      (GetOwnerReferences x509_mdb) AgentKeyfileKey ?key ?w = (Inr ?key, w1)"
      "mw_secrets w1 (nn ''ns'' ''agent-certs'') = Some agent_cert_secret"
    using content kf
    by (auto simp: EnsureSecretWithKey_def client_defs mockedClient_def mock_defs notFoundError_def SecretNotExist_def
        secret_builder_defs)
  obtain w2 where read: "secret_ReadKey mockedClient ''tls.crt'' (nn ''ns'' ''agent-certs'') w1 = (Inr ''CN=a,C=b,OU=c'', w2)"
    using mock_reliable.ReadKey_run[OF ensure(2), of "''tls.crt''"]
    by (auto simp: agent_cert_secret_def secret_builder_defs data_lookup_def)
  have valid: "isValidX509Subject ''CN=a,C=b,OU=c''" by code_simp
  have rand: "KeyFileContents (env_rand mock_env) ?w = (Inr ?key, ?w)"
    by (simp add: KeyFileContents_def generateRandomString_def generateRandomBytes_def mock_env_def eff_bind_def)
  have ne: "X509 \<noteq> ''''" by (simp add: X509_def)
  have cl: "env_client mock_env = mockedClient" by (simp add: mock_env_def)
  have subject: "readAgentSubjectsFromCert mock_env ''CN=a,C=b,OU=c'' = Inr ''CN=a,C=b,OU=c''"
    by (simp add: readAgentSubjectsFromCert_def mock_env_def)
  show ?thesis
    using ensure(1) read valid rand subject
    by (simp add: authentication_Enable_def x509_mdb_options x509_Enable_def x509_ensureAgent_def cl eff_bind_def eff_wrap_def
        x509_enableAgentAuthentication_def x509_validateAgentOptions_def multierror_def ne
        x509_enableClientAuthentication_def validateClientOptions_def Let_def)
qed


subsection \<open>Agent certificates for tests\<close>

text \<open>\<open>CreateAgentCertificate\<close> makes a self-signed certificate.  Keys, certificates and the clock are the argument
  \<open>cert_tools\<close>; a time is a value that years can be added to.\<close>

record 't cert_template =
  ct_SerialNumber :: int
  ct_Country :: "string list"
  ct_Organization :: "string list"
  ct_OrganizationalUnit :: "string list"
  ct_CommonName :: string
  ct_NotBefore :: 't
  ct_NotAfter :: 't
  ct_KeyUsage :: "string list"
  ct_ExtKeyUsage :: "string list"
  ct_BasicConstraintsValid :: bool

record ('w, 'k, 't) cert_tools =
  ecdsa_GenerateKey :: "('w, 'k fallible) effect"
  MarshalPKCS8PrivateKey :: "'k \<Rightarrow> string fallible"
  rand_Int :: "int \<Rightarrow> ('w, int fallible) effect"
  time_Now :: "('w, 't) effect"
  AddYears :: "int \<Rightarrow> 't \<Rightarrow> 't"
  CreateCertificate :: "'t cert_template \<Rightarrow> 't cert_template \<Rightarrow> 'k \<Rightarrow> ('w, string fallible) effect"

function pem_lines :: "string \<Rightarrow> string" where
  "pem_lines s = (if s = [] then [] else take 64 s @ CHR 0x0A # pem_lines (drop 64 s))"
  by pat_completeness auto
termination by (relation "measure length") auto

declare pem_lines.simps [simp del]

definition pem_Encode :: "string \<Rightarrow> string \<Rightarrow> string" where
  "pem_Encode type bytes = ''-----BEGIN '' @ type @ ''-----'' @ CHR 0x0A # pem_lines (base64_EncodeToString bytes) @
     ''-----END '' @ type @ ''-----'' @ [CHR 0x0A]"

definition CreateAgentCertificate :: "('w, 'k, 't) cert_tools \<Rightarrow> ('w, (string \<times> string) fallible) effect" where
  "CreateAgentCertificate t =
    eff_bind (ecdsa_GenerateKey t) (\<lambda>priv. case MarshalPKCS8PrivateKey t priv of
      Inl err \<Rightarrow> eff_fail err
    | Inr privBytes \<Rightarrow> eff_bind (rand_Int t (2 ^ 128)) (\<lambda>serialNumber w. case time_Now t w of
        (notBefore, w1) \<Rightarrow> (case time_Now t w1 of
          (now, w2) \<Rightarrow>
            (let template = \<lparr>ct_SerialNumber = serialNumber, ct_Country = [''US''], ct_Organization = [''MongoDB''],
                   ct_OrganizationalUnit = [''ENG''], ct_CommonName = ''mms-automation-agent'', ct_NotBefore = notBefore,
                   ct_NotAfter = AddYears t 10 now, ct_KeyUsage = [''KeyEncipherment'', ''DigitalSignature''],
                   ct_ExtKeyUsage = [''ClientAuth''], ct_BasicConstraintsValid = True\<rparr>
             in eff_bind (CreateCertificate t template template priv) (\<lambda>certBytes.
                  eff_return (pem_Encode ''CERTIFICATE'' certBytes, pem_Encode ''RSA PRIVATE KEY'' privBytes)) w2))))"

definition CreateAgentCertificateSecret ::
    "('w, 'k, 't) cert_tools \<Rightarrow> string \<Rightarrow> bool \<Rightarrow> nsname \<Rightarrow> ('w, secret) effect" where
  "CreateAgentCertificateSecret t key invalid agentCertSecret w = (case CreateAgentCertificate t w of
      (result, w1) \<Rightarrow>
        (let agentCert = (case result of Inr (cert, _) \<Rightarrow> cert | Inl _ \<Rightarrow> '''');
             agentCert' = (if invalid then ''INVALID CERT'' else agentCert)
         in (secret_Build (secret_SetField key agentCert' (secret_SetNamespace (ns_Namespace agentCertSecret)
               (secret_SetName (ns_Name agentCertSecret) secret_Builder))), w1)))"

text \<open>The key of the secret holds the certificate, unless an invalid one was asked for; a failure to make one shows
  only as an empty value.\<close>

lemma CreateAgentCertificateSecret_value:
  "data_lookup (s_Data (fst (CreateAgentCertificateSecret t key invalid n w))) key =
     Some (if invalid then ''INVALID CERT'' else (case fst (CreateAgentCertificate t w) of Inr (cert, _) \<Rightarrow> cert | Inl _ \<Rightarrow> ''''))"
  by (auto simp: CreateAgentCertificateSecret_def secret_builder_defs data_lookup_def Let_def split: prod.splits sum.splits)

end
