(* ===== verification/Resources.thy ===== *)
theory Resources
  imports Authentication Status
begin

text \<open>
  The objects the controller keeps for a resource besides its StatefulSets: TLS secrets
  (\<open>controllers/mongodb_tls.go\<close>), users and connection strings
  (\<open>controllers/mongodb_users.go\<close>), Prometheus (\<open>controllers/prometheus.go\<close>) and the
  cleanup of what is no longer used (\<open>controllers/mongodb_cleanup.go\<close>).

  The reconciler's state is the cluster together with the two watchers.  \<open>order\<close>, \<open>fmt_g\<close>,
  \<open>ox\<close> and \<open>dns\<close> are as in the theory of the custom resource.
\<close>

record 'w rstate =
  rs_cluster :: 'w
  rs_secretWatcher :: watcher
  rs_configMapWatcher :: watcher

text \<open>A call of the client inside the reconciler.\<close>

definition on_cluster :: "('w, 'a) effect \<Rightarrow> ('w rstate, 'a) effect" where
  "on_cluster m r = (case m (rs_cluster r) of (x, w) \<Rightarrow> (x, r\<lparr>rs_cluster := w\<rparr>))"

definition watch_secret :: "nsname \<Rightarrow> nsname \<Rightarrow> 'w rstate \<Rightarrow> 'w rstate" where
  "watch_secret watched dep r = r\<lparr>rs_secretWatcher := Watch watched dep (rs_secretWatcher r)\<rparr>"

definition watch_configmap :: "nsname \<Rightarrow> nsname \<Rightarrow> 'w rstate \<Rightarrow> 'w rstate" where
  "watch_configmap watched dep r = r\<lparr>rs_configMapWatcher := Watch watched dep (rs_configMapWatcher r)\<rparr>"

subsection \<open>Certificates\<close>

definition tlsCAMountPath :: string where "tlsCAMountPath = ''/var/lib/tls/ca/''"
definition tlsCACertName :: string where "tlsCACertName = ''ca.crt''"
definition tlsOperatorSecretMountPath :: string where "tlsOperatorSecretMountPath = ''/var/lib/tls/server/''"
definition tlsPrometheusSecretMountPath :: string where "tlsPrometheusSecretMountPath = ''/var/lib/tls/prometheus/''"
definition tlsSecretCertName :: string where "tlsSecretCertName = ''tls.crt''"
definition tlsSecretKeyName :: string where "tlsSecretKeyName = ''tls.key''"
definition tlsSecretPemName :: string where "tlsSecretPemName = ''tls.pem''"
definition automationAgentPemMountPath :: string where
  "automationAgentPemMountPath = ''/var/lib/mongodb-mms-automation/agent-certs''"

definition quote :: "string \<Rightarrow> string" where "quote s = [CHR 0x22] @ s @ [CHR 0x22]"

definition combineCertificateAndKey :: "string \<Rightarrow> string \<Rightarrow> string" where
  "combineCertificateAndKey cert key = trim_right newline cert @ [newline] @ trim_right newline key"

definition getCertAndKey :: "'w kube_client \<Rightarrow> nsname \<Rightarrow> ('w, string) effect" where
  "getCertAndKey c secretName w =
    (case secret_ReadKey c tlsSecretCertName secretName w of
       (Inl _, w1) \<Rightarrow> ('''', w1)
     | (Inr cert, w1) \<Rightarrow>
         (case secret_ReadKey c tlsSecretKeyName secretName w1 of
            (Inl _, w2) \<Rightarrow> ('''', w2)
          | (Inr key, w2) \<Rightarrow> (combineCertificateAndKey cert key, w2)))"

definition getPem :: "'w kube_client \<Rightarrow> nsname \<Rightarrow> ('w, string) effect" where
  "getPem c secretName w =
    (case secret_ReadKey c tlsSecretPemName secretName w of
       (Inl _, w1) \<Rightarrow> ('''', w1)
     | (Inr pem, w1) \<Rightarrow> (pem, w1))"

definition choose_pem :: "string \<Rightarrow> string \<Rightarrow> string fallible" where
  "choose_pem certKey pem =
    (if certKey = '''' \<and> pem = ''''
     then Inl (errorf (''neither '' @ quote tlsSecretPemName @ '' nor the pair '' @ quote tlsSecretCertName @ ''/''
            @ quote tlsSecretKeyName @ '' were present in the TLS secret''))
     else if certKey = '''' then Inr pem
     else if pem = '''' then Inr certKey
     else if certKey \<noteq> pem
     then Inl (errorf (''if all of '' @ quote tlsSecretCertName @ '', '' @ quote tlsSecretKeyName @ '' and ''
            @ quote tlsSecretPemName @ '' are present in the secret, the entry for '' @ quote tlsSecretPemName
            @ '' must be equal to the concatenation of '' @ quote tlsSecretCertName @ '' with '' @ quote tlsSecretKeyName))
     else Inr certKey)"

definition getPemOrConcatenatedCrtAndKey :: "'w kube_client \<Rightarrow> nsname \<Rightarrow> ('w, string fallible) effect" where
  "getPemOrConcatenatedCrtAndKey c secretName w =
    (case getCertAndKey c secretName w of (certKey, w1) \<Rightarrow>
     case getPem c secretName w1 of (pem, w2) \<Rightarrow> (choose_pem certKey pem, w2))"

definition ca_cert_of :: "nsname \<Rightarrow> str_map option \<Rightarrow> string fallible" where
  "ca_cert_of caResourceName caData =
    (case caData of
       None \<Rightarrow> Inl (errorf (''TLS field requires a reference to the CA certificate which signed the server certificates. ''
          @ ''Neither secret (field caCertificateSecretRef) not configMap (field CaConfigMap) reference present''))
     | Some data \<Rightarrow>
         (case map_of data tlsCACertName of
            Some cert \<Rightarrow> if cert \<noteq> '''' then Inr cert
              else Inl (errorf (''CA certificate resource '' @ quote (nsname_String caResourceName)
                @ '' should have a CA certificate in field '' @ quote tlsCACertName))
          | None \<Rightarrow> Inl (errorf (''CA certificate resource '' @ quote (nsname_String caResourceName)
                @ '' should have a CA certificate in field '' @ quote tlsCACertName))))"

definition getCaCrt :: "'w kube_client \<Rightarrow> mdb \<Rightarrow> ('w, string fallible) effect" where
  "getCaCrt c m =
    (case tls_CaCertificateSecret (spec_tls m) of
       Some ca \<Rightarrow> (let name = TLSCaCertificateSecretNamespacedName m ca
         in eff_bind (ReadStringData c name) (\<lambda>data. eff_lift (ca_cert_of name (Some data))))
     | None \<Rightarrow>
         (case tls_CaConfigMap (spec_tls m) of
            Some ca \<Rightarrow> (let name = TLSConfigMapNamespacedName m ca
              in eff_bind (ReadData c name) (\<lambda>data. eff_lift (ca_cert_of name data)))
          | None \<Rightarrow> eff_lift (ca_cert_of (nn '''' '''') None)))"

definition nil_deref_panic :: go_error where
  "nil_deref_panic = errorf ''panic: invalid memory address or nil pointer dereference''"

text \<open>The watches at the end of \<open>validateTLSConfig\<close>; a resource without any CA reference does
  not get here.\<close>

definition watch_tls :: "mdb \<Rightarrow> ('w rstate, bool fallible) effect" where
  "watch_tls m r =
    (let r1 = watch_secret (TLSSecretNamespacedName m) (NamespacedName m) r
     in case tls_CaCertificateSecret (spec_tls m) of
          Some ca \<Rightarrow> (Inr True, watch_secret (TLSCaCertificateSecretNamespacedName m ca) (NamespacedName m) r1)
        | None \<Rightarrow>
            (case tls_CaConfigMap (spec_tls m) of
               Some ca \<Rightarrow> (Inr True, watch_configmap (TLSConfigMapNamespacedName m ca) (NamespacedName m) r1)
             | None \<Rightarrow> (Inl nil_deref_panic, r1)))"

definition validateTLSConfig :: "'w kube_client \<Rightarrow> mdb \<Rightarrow> ('w rstate, bool fallible) effect" where
  "validateTLSConfig c m r =
    (if \<not> tls_Enabled (spec_tls m) then (Inr True, r)
     else case on_cluster (getCaCrt c m) r of
       (Inl err, r1) \<Rightarrow> if err_not_found err then (Inr False, r1) else (Inl err, r1)
     | (Inr _, r1) \<Rightarrow>
         (case on_cluster (ReadStringData c (TLSSecretNamespacedName m)) r1 of
            (Inl err, r2) \<Rightarrow> if err_not_found err then (Inr False, r2) else (Inl err, r2)
          | (Inr _, r2) \<Rightarrow>
              (case on_cluster (getPemOrConcatenatedCrtAndKey c (TLSSecretNamespacedName m)) r2 of
                 (Inl _, r3) \<Rightarrow> (Inr False, r3)
               | (Inr _, r3) \<Rightarrow> watch_tls m r3)))"

definition tlsOperatorSecretFileName :: "string \<Rightarrow> string" where
  "tlsOperatorSecretFileName certKey = hex_EncodeToString (sha256_sum certKey) @ ''.pem''"

definition operator_secret :: "nsname \<Rightarrow> string \<Rightarrow> string \<Rightarrow> mdb \<Rightarrow> secret" where
  "operator_secret name field value m =
    secret_Build (secret_SetOwnerReferences (GetOwnerReferences m) (secret_SetField field value
      (secret_SetNamespace (ns_Namespace name) (secret_SetName (ns_Name name) secret_Builder))))"

definition ensureCASecret :: "'w kube_client \<Rightarrow> mdb \<Rightarrow> ('w, unit fallible) effect" where
  "ensureCASecret c m =
    eff_bind (getCaCrt c m) (\<lambda>cert.
    eff_check (secret_CreateOrUpdate c
      (operator_secret (TLSOperatorCASecretNamespacedName m) (tlsOperatorSecretFileName cert) cert m)))"

definition ensureTLSSecret :: "'w kube_client \<Rightarrow> mdb \<Rightarrow> ('w, unit fallible) effect" where
  "ensureTLSSecret c m =
    eff_bind (getPemOrConcatenatedCrtAndKey c (TLSSecretNamespacedName m)) (\<lambda>certKey.
    eff_check (secret_CreateOrUpdate c
      (operator_secret (TLSOperatorSecretNamespacedName m) (tlsOperatorSecretFileName certKey) certKey m)))"

definition ensureAgentCertSecret :: "'w kube_client \<Rightarrow> mdb \<Rightarrow> ('w, unit fallible) effect" where
  "ensureAgentCertSecret c m =
    (if GetAgentAuthMode (Spec m) \<noteq> ''X509'' then eff_return ()
     else eff_bind (getPemOrConcatenatedCrtAndKey c (AgentCertificateSecretNamespacedName m)) (\<lambda>certKey.
       eff_check (secret_CreateOrUpdate c
         (operator_secret (nn (ns_Namespace (NamespacedName m)) (ns_Name (AgentCertificatePemSecretNamespacedName m)))
            (ns_Name (AgentCertificatePemSecretNamespacedName m)) certKey m))))"

definition ensurePrometheusTLSSecret :: "'w kube_client \<Rightarrow> mdb \<Rightarrow> crd_prometheus \<Rightarrow> ('w, unit fallible) effect" where
  "ensurePrometheusTLSSecret c m p =
    eff_bind (getPemOrConcatenatedCrtAndKey c (PrometheusTLSSecretNamespacedName m p)) (\<lambda>certKey.
    eff_check (secret_CreateOrUpdate c
      (operator_secret (PrometheusTLSOperatorSecretNamespacedName m) (tlsOperatorSecretFileName certKey) certKey m)))"

text \<open>From \<open>replica_set_controller.go\<close>.\<close>

definition ensureTLSResources :: "'w kube_client \<Rightarrow> mdb \<Rightarrow> ('w, unit fallible) effect" where
  "ensureTLSResources c m =
    (if \<not> tls_Enabled (spec_tls m) then eff_return ()
     else
       eff_bind (eff_wrap ''could not ensure CA secret: '' (ensureCASecret c m)) (\<lambda>_.
       eff_bind (eff_wrap ''could not ensure TLS secret: '' (ensureTLSSecret c m)) (\<lambda>_.
       if IsAgentX509 (Spec m)
       then eff_wrap ''could not ensure Agent Certificate secret: '' (ensureAgentCertSecret c m)
       else eff_return ())))"

definition ensurePrometheusTLSResources :: "'w kube_client \<Rightarrow> mdb \<Rightarrow> ('w, unit fallible) effect" where
  "ensurePrometheusTLSResources c m =
    (case Prometheus (Spec m) of
       None \<Rightarrow> eff_return ()
     | Some p \<Rightarrow> if skr_Name (cprom_TLSSecretRef p) = '''' then eff_return ()
         else eff_wrap ''could not ensure TLS secret: '' (ensurePrometheusTLSSecret c m p))"

subsection \<open>TLS in the automation config\<close>

text \<open>The modification writes through the pointer to the TLS config and into the argument
  maps of the processes; the builder always sets both.\<close>

definition tlsConfigModification :: "objx \<Rightarrow> mdb \<Rightarrow> string \<Rightarrow> string \<Rightarrow> automation_config \<Rightarrow> automation_config" where
  "tlsConfigModification ox m certKey caCert config =
    (let caCertificatePath = tlsCAMountPath @ tlsOperatorSecretFileName caCert;
         certificateKeyPath = tlsOperatorSecretMountPath @ tlsOperatorSecretFileName certKey;
         mode = (if tls_Optional (spec_tls m) then ''preferTLS'' else ''requireTLS'');
         automationAgentPemFilePath =
           (if IsAgentX509 (Spec m)
            then automationAgentPemMountPath @ ''/'' @ ns_Name (AgentCertificatePemSecretNamespacedName m)
            else '''')
     in config\<lparr>
          ac_TLSConfig := map_option (\<lambda>t. t\<lparr>tls_CAFilePath := caCertificatePath,
            tls_AutoPEMKeyFilePath := automationAgentPemFilePath\<rparr>) (ac_TLSConfig config),
          ac_Processes := map (\<lambda>p. p\<lparr>p_Args26 := map_option (\<lambda>args.
            objx_Set ox (objx_Set ox (objx_Set ox (objx_Set ox args
              ''net.tls.mode'' (VStr mode))
              ''net.tls.CAFile'' (VStr caCertificatePath))
              ''net.tls.certificateKeyFile'' (VStr certificateKeyPath))
              ''net.tls.allowConnectionsWithoutCertificates'' (VBool True)) (p_Args26 p)\<rparr>)
            (ac_Processes config)\<rparr>)"

definition getTLSConfigModification ::
    "objx \<Rightarrow> 'w kube_client \<Rightarrow> mdb \<Rightarrow> ('w, (automation_config \<Rightarrow> automation_config) fallible) effect" where
  "getTLSConfigModification ox c m =
    (if \<not> tls_Enabled (spec_tls m) then eff_return id
     else
       eff_bind (getCaCrt c m) (\<lambda>caCert.
       eff_bind (getPemOrConcatenatedCrtAndKey c (TLSSecretNamespacedName m)) (\<lambda>certKey.
       eff_return (tlsConfigModification ox m certKey caCert))))"

subsection \<open>Prometheus\<close>

definition ListenAddress :: string where "ListenAddress = ''0.0.0.0''"

definition prometheus_config :: "crd_prometheus \<Rightarrow> string \<Rightarrow> string \<Rightarrow> string \<Rightarrow> ac_prometheus" where
  "prometheus_config p password tlsPEMPath scheme =
    (let promConfig = (NewDefaultPrometheus (cprom_Username p))\<lparr>prom_TLSPemPath := tlsPEMPath,
           prom_Scheme := scheme, prom_Password := password\<rparr>;
         promConfig1 = (if cprom_Port p > 0
           then promConfig\<lparr>prom_ListenAddress := ListenAddress @ '':'' @ itoa (cprom_Port p)\<rparr> else promConfig)
     in if cprom_MetricsPath p \<noteq> '''' then promConfig1\<lparr>prom_MetricsPath := cprom_MetricsPath p\<rparr> else promConfig1)"

definition getPrometheusModification ::
    "'w kube_client \<Rightarrow> mdb \<Rightarrow> ('w, (automation_config \<Rightarrow> automation_config) fallible) effect" where
  "getPrometheusModification c m =
    (case Prometheus (Spec m) of
       None \<Rightarrow> eff_return id
     | Some p \<Rightarrow>
         eff_bind (eff_wrap ''could not configure Prometheus modification: ''
             (secret_ReadKey c (Prometheus_GetPasswordKey p) (nn (mdb_Namespace m) (skr_Name (cprom_PasswordSecretRef p)))))
           (\<lambda>password.
         eff_bind (if skr_Name (cprom_TLSSecretRef p) \<noteq> ''''
                   then eff_bind (getPemOrConcatenatedCrtAndKey c (PrometheusTLSSecretNamespacedName m p))
                     (\<lambda>certKey. eff_return (tlsPrometheusSecretMountPath @ tlsOperatorSecretFileName certKey, ''https''))
                   else eff_return ('''', ''http''))
           (\<lambda>(tlsPEMPath, scheme).
         eff_return (\<lambda>config. config\<lparr>ac_Prometheus := Some (prometheus_config p password tlsPEMPath scheme)\<rparr>))))"

subsection \<open>Users\<close>

text \<open>One user of \<open>ensureUserResources\<close>.\<close>

definition ensure_user :: "'w kube_client \<Rightarrow> mdb \<Rightarrow> auth_user \<Rightarrow> ('w rstate, unit fallible) effect" where
  "ensure_user c m user r =
    (if Database user = ExternalDB then (Inr (), r)
     else let secretNamespacedName = nn (mdb_Namespace m) (PasswordSecretName user)
     in case on_cluster (secret_ReadKey c (PasswordSecretKey user) secretNamespacedName) r of
          (Inl err, r1) \<Rightarrow>
            if err_not_found err
            then (let scramSecretName = nn (mdb_Namespace m) (ScramCredentialsSecretName user)
                  in case on_cluster (GetSecret c scramSecretName) r1 of
                       (Inl err2, r2) \<Rightarrow>
                         if err_not_found err2
                         then (Inl (errorf (''user password secret: '' @ nsname_String secretNamespacedName
                                 @ '' and scram secret: '' @ nsname_String scramSecretName @ '' not found'')), r2)
                         else (Inr (), r2)
                     | (Inr _, r2) \<Rightarrow> (Inr (), r2))
            else (Inl err, r1)
        | (Inr _, r1) \<Rightarrow> (Inr (), watch_secret secretNamespacedName (NamespacedName m) r1))"

definition ensureUserResources :: "(string \<Rightarrow> bool) \<Rightarrow> 'w kube_client \<Rightarrow> mdb \<Rightarrow> ('w rstate, unit fallible) effect" where
  "ensureUserResources dns c m = eff_bind (eff_map (ensure_user c m) (GetAuthUsers dns m)) (\<lambda>_. eff_return ())"

definition connectionStringSecret ::
    "(go_map \<Rightarrow> go_map) \<Rightarrow> (rat \<Rightarrow> string) \<Rightarrow> objx \<Rightarrow> mdb \<Rightarrow> string \<Rightarrow> auth_user \<Rightarrow> string \<Rightarrow> string \<Rightarrow> secret" where
  "connectionStringSecret order fmt_g ox m clusterDomain user secretNamespace pwd =
    secret_Build (secret_SetOwnerReferences (GetOwnerReferences m)
      (secret_SetField ''password'' pwd
      (secret_SetField ''username'' (Username user)
      (secret_SetField ''connectionString.standardSrv'' (MongoAuthUserSRVURI order fmt_g m user pwd clusterDomain)
      (secret_SetField ''connectionString.standard'' (MongoAuthUserURI order fmt_g ox m user pwd clusterDomain)
      (secret_SetNamespace secretNamespace
      (secret_SetName (ConnectionStringSecretName user) secret_Builder)))))))"

text \<open>One user of \<open>updateConnectionStringSecrets\<close>.\<close>

definition update_connection_string ::
    "(go_map \<Rightarrow> go_map) \<Rightarrow> (rat \<Rightarrow> string) \<Rightarrow> objx \<Rightarrow> 'w kube_client \<Rightarrow> mdb \<Rightarrow> string \<Rightarrow> auth_user
      \<Rightarrow> ('w rstate, unit fallible) effect" where
  "update_connection_string order fmt_g ox c m clusterDomain user r =
    (let secretName = ConnectionStringSecretName user;
         secretNamespace = (if ConnectionStringSecretNamespace user \<noteq> '''' then ConnectionStringSecretNamespace user
           else mdb_Namespace m);
         write = eff_bind (if Database user \<noteq> ExternalDB
               then on_cluster (secret_ReadKey c (PasswordSecretKey user) (nn (mdb_Namespace m) (PasswordSecretName user)))
               else eff_return '''') (\<lambda>pwd.
             let s = connectionStringSecret order fmt_g ox m clusterDomain user secretNamespace pwd
             in eff_bind (eff_check (on_cluster (secret_CreateOrUpdate c s))) (\<lambda>_ r.
                  (Inr (), watch_secret (secret_key s) (NamespacedName m) r)))
     in case on_cluster (GetSecret c (nn secretNamespace secretName)) r of
          (Inl err, r1) \<Rightarrow> if \<not> err_not_found err then (Inl err, r1) else write r1
        | (Inr existingSecret, r1) \<Rightarrow>
            if \<not> HasOwnerReferences existingSecret (GetOwnerReferences m)
            then (Inl (errorf (''connection string secret '' @ secretName @ '' already exists and is not managed by the operator'')), r1)
            else write r1)"

definition updateConnectionStringSecrets ::
    "(string \<Rightarrow> bool) \<Rightarrow> (go_map \<Rightarrow> go_map) \<Rightarrow> (rat \<Rightarrow> string) \<Rightarrow> objx \<Rightarrow> 'w kube_client \<Rightarrow> mdb \<Rightarrow> string
      \<Rightarrow> ('w rstate, unit fallible) effect" where
  "updateConnectionStringSecrets dns order fmt_g ox c m clusterDomain =
    eff_bind (eff_map (update_connection_string order fmt_g ox c m clusterDomain) (GetAuthUsers dns m)) (\<lambda>_. eff_return ())"

subsection \<open>Cleanup\<close>

text \<open>Errors of a deletion are only logged.\<close>

definition delete_secret :: "'w kube_client \<Rightarrow> nsname \<Rightarrow> 'w \<Rightarrow> 'w" where
  "delete_secret c name w = snd (DeleteSecret c name w)"

definition cleanupPemSecret :: "'w kube_client \<Rightarrow> mdb_spec \<Rightarrow> mdb_spec \<Rightarrow> string \<Rightarrow> 'w \<Rightarrow> 'w" where
  "cleanupPemSecret c currentMDBSpec lastAppliedMDBSpec namespace w =
    (if GetAgentAuthMode currentMDBSpec = GetAgentAuthMode lastAppliedMDBSpec then w
     else if \<not> IsAgentX509 currentMDBSpec \<and> IsAgentX509 lastAppliedMDBSpec
     then delete_secret c (nn namespace (GetAgentCertificateRef lastAppliedMDBSpec @ ''-pem'')) w
     else w)"

text \<open>The loops both functions below share: \<open>name_of\<close> is the name of a user's secret.\<close>

definition names_in_use :: "(mongodb_user \<Rightarrow> string) \<Rightarrow> mongodb_user list \<Rightarrow> ((string \<times> string) \<times> string) list" where
  "names_in_use name_of users =
    fold (\<lambda>u m. if u_DB u = ExternalDB then m else map_put (user_id u) (name_of u) m) users []"

definition names_to_delete ::
    "(mongodb_user \<Rightarrow> string) \<Rightarrow> ((string \<times> string) \<times> string) list \<Rightarrow> mongodb_user list \<Rightarrow> string list" where
  "names_to_delete name_of m users =
    concat (map (\<lambda>u. if u_DB u = ExternalDB then []
      else (case map_of m (user_id u) of
              None \<Rightarrow> [name_of u]
            | Some current \<Rightarrow> if current \<noteq> name_of u then [name_of u] else [])) users)"

definition getScramSecretsToDelete :: "mdb_spec \<Rightarrow> mdb_spec \<Rightarrow> string list" where
  "getScramSecretsToDelete currentMDBSpec lastAppliedMDBSpec =
    names_to_delete GetScramCredentialsSecretName
      (names_in_use GetScramCredentialsSecretName (Users currentMDBSpec)) (Users lastAppliedMDBSpec)"

definition getConnectionStringSecretsToDelete :: "(string \<Rightarrow> bool) \<Rightarrow> mdb_spec \<Rightarrow> mdb_spec \<Rightarrow> string \<Rightarrow> string list" where
  "getConnectionStringSecretsToDelete dns currentMDBSpec lastAppliedMDBSpec resourceName =
    names_to_delete (\<lambda>u. GetConnectionStringSecretName dns u resourceName)
      (names_in_use (\<lambda>u. GetConnectionStringSecretName dns u resourceName) (Users currentMDBSpec))
      (Users lastAppliedMDBSpec)"

definition cleanupScramSecrets :: "'w kube_client \<Rightarrow> mdb_spec \<Rightarrow> mdb_spec \<Rightarrow> string \<Rightarrow> 'w \<Rightarrow> 'w" where
  "cleanupScramSecrets c currentMDBSpec lastAppliedMDBSpec namespace w =
    fold (\<lambda>s. delete_secret c (nn namespace s)) (getScramSecretsToDelete currentMDBSpec lastAppliedMDBSpec) w"

definition cleanupConnectionStringSecrets ::
    "(string \<Rightarrow> bool) \<Rightarrow> 'w kube_client \<Rightarrow> mdb_spec \<Rightarrow> mdb_spec \<Rightarrow> string \<Rightarrow> string \<Rightarrow> 'w \<Rightarrow> 'w" where
  "cleanupConnectionStringSecrets dns c currentMDBSpec lastAppliedMDBSpec namespace resourceName w =
    fold (\<lambda>s. delete_secret c (nn namespace s))
      (getConnectionStringSecretsToDelete dns currentMDBSpec lastAppliedMDBSpec resourceName) w"

subsection \<open>What the TLS helpers read and write\<close>

definition cert_and_key :: "(nsname \<Rightarrow> secret option) \<Rightarrow> nsname \<Rightarrow> string" where
  "cert_and_key secrets k = (case (stored_value secrets k tlsSecretCertName, stored_value secrets k tlsSecretKeyName) of
     (Some cert, Some key) \<Rightarrow> combineCertificateAndKey cert key | _ \<Rightarrow> '''')"

definition stored_pem :: "(nsname \<Rightarrow> secret option) \<Rightarrow> nsname \<Rightarrow> string" where
  "stored_pem secrets k = (case stored_value secrets k tlsSecretPemName of Some pem \<Rightarrow> pem | None \<Rightarrow> '''')"

definition pem_of :: "(nsname \<Rightarrow> secret option) \<Rightarrow> nsname \<Rightarrow> string fallible" where
  "pem_of secrets k = choose_pem (cert_and_key secrets k) (stored_pem secrets k)"

definition ca_of :: "(nsname \<Rightarrow> secret option) \<Rightarrow> (nsname \<Rightarrow> config_map option) \<Rightarrow> mdb \<Rightarrow> string option" where
  "ca_of secrets cms m =
    (case tls_CaCertificateSecret (spec_tls m) of
       Some ca \<Rightarrow> stored_value secrets (TLSCaCertificateSecretNamespacedName m ca) tlsCACertName
     | None \<Rightarrow> (case tls_CaConfigMap (spec_tls m) of
          Some ca \<Rightarrow> (case cms (TLSConfigMapNamespacedName m ca) of
             Some cm \<Rightarrow> data_lookup (cm_Data cm) tlsCACertName | None \<Rightarrow> None)
        | None \<Rightarrow> None))"

context reliable_secrets
begin

lemma ReadKey_value:
  "stored_value (content w) k key = (case fst (secret_ReadKey c key k w) of Inr v \<Rightarrow> Some v | Inl _ \<Rightarrow> None)"
proof (cases "content w k")
  case None
  then show ?thesis using ReadKey_run_absent[of w k key] by (auto simp: stored_value_def)
next
  case (Some s)
  then show ?thesis
    using GetSecret_run[of w k s]
    by (auto simp: stored_value_def secret_ReadKey_def ReadStringData_def data_lookup_def dataToStringData_def
        split: option.splits)
qed

lemma getCertAndKey_value: "fst (getCertAndKey c k w) = cert_and_key (content w) k"
  using ReadKey_value[of w k tlsSecretCertName] ReadKey_content[of tlsSecretCertName k w]
    ReadKey_value[of "snd (secret_ReadKey c tlsSecretCertName k w)" k tlsSecretKeyName]
  by (auto simp: getCertAndKey_def cert_and_key_def split: prod.splits sum.splits)

lemma getCertAndKey_content: "content (snd (getCertAndKey c k w)) = content w"
  using ReadKey_content[of tlsSecretCertName k w]
    ReadKey_content[of tlsSecretKeyName k "snd (secret_ReadKey c tlsSecretCertName k w)"]
  by (auto simp: getCertAndKey_def split: prod.splits sum.splits)

lemma getPem_value: "fst (getPem c k w) = stored_pem (content w) k" "content (snd (getPem c k w)) = content w"
  using ReadKey_value[of w k tlsSecretPemName] ReadKey_content[of tlsSecretPemName k w]
  by (auto simp: getPem_def stored_pem_def split: prod.splits sum.splits)

lemma getPemOr_value:
  "fst (getPemOrConcatenatedCrtAndKey c k w) = pem_of (content w) k"
  "content (snd (getPemOrConcatenatedCrtAndKey c k w)) = content w"
  using getCertAndKey_value[of k w] getCertAndKey_content[of k w] getPem_value[of k "snd (getCertAndKey c k w)"]
  by (auto simp: getPemOrConcatenatedCrtAndKey_def pem_of_def split: prod.splits)

end

text \<open>Secrets and config maps live side by side: reading or writing the one kind leaves the
  other alone.\<close>

locale tls_cluster = reliable_secrets c secrets
    + cm: object_store "configMaps_api c" config_map_key cms Inr err_not_found
  for c :: "'w kube_client" and secrets :: "'w \<Rightarrow> nsname \<Rightarrow> secret option" and cms :: "'w \<Rightarrow> nsname \<Rightarrow> config_map option" +
  assumes get_secret_cms: "cms (snd (GetSecret c k w)) = cms w"
    and update_secret_cms: "cms (snd (UpdateSecret c s w)) = cms w"
    and create_secret_cms: "cms (snd (CreateSecret c s w)) = cms w"
    and get_cm_secrets: "secrets (snd (GetConfigMap c k w)) = secrets w"
begin

lemma ReadKey_cms: "cms (snd (secret_ReadKey c key k w)) = cms w"
  using get_secret_cms[of k w]
  by (auto simp: secret_ReadKey_def ReadStringData_def split: prod.splits sum.splits option.splits)

lemma getPemOr_cms: "cms (snd (getPemOrConcatenatedCrtAndKey c k w)) = cms w"
  using ReadKey_cms[of tlsSecretCertName k w]
    ReadKey_cms[of tlsSecretKeyName k "snd (secret_ReadKey c tlsSecretCertName k w)"]
    ReadKey_cms[of tlsSecretPemName k "snd (getCertAndKey c k w)"]
  by (auto simp: getPemOrConcatenatedCrtAndKey_def getCertAndKey_def getPem_def split: prod.splits sum.splits)

lemma CreateOrUpdate_cms: "cms (snd (secret_CreateOrUpdate c s w)) = cms w"
  using update_secret_cms[of s w] create_secret_cms[of s "snd (UpdateSecret c s w)"]
  by (auto simp: secret_CreateOrUpdate_def split: prod.splits option.splits)

lemma ca_cert_of_Inr: "ca_cert_of name d = Inr cert \<longleftrightarrow> data_lookup d tlsCACertName = Some cert \<and> cert \<noteq> ''''"
  by (auto simp: ca_cert_of_def data_lookup_def split: option.splits)

lemma getCaCrt_Inr:
  assumes "getCaCrt c m w = (Inr cert, w')"
  shows "secrets w' = secrets w \<and> cms w' = cms w \<and> ca_of (secrets w) (cms w) m = Some cert"
proof (cases "tls_CaCertificateSecret (spec_tls m)")
  case (Some ca)
  then obtain s where "GetSecret c (TLSCaCertificateSecretNamespacedName m ca) w = (Inr s, w')"
      "data_lookup (s_Data s) tlsCACertName = Some cert"
    using assms by (auto simp: getCaCrt_def Let_def eff_bind_Inr_iff ca_cert_of_Inr ReadStringData_def
        data_lookup_def dataToStringData_def split: prod.splits sum.splits option.splits)
  with Some GetSecret_Inr[of "TLSCaCertificateSecretNamespacedName m ca" w s w']
    get_secret_cms[of "TLSCaCertificateSecretNamespacedName m ca" w]
  show ?thesis by (simp add: ca_of_def stored_value_def)
next
  case None
  then obtain ca where ca: "tls_CaConfigMap (spec_tls m) = Some ca"
    using assms by (auto simp: getCaCrt_def ca_cert_of_def split: option.splits)
  then obtain cm where "GetConfigMap c (TLSConfigMapNamespacedName m ca) w = (Inr cm, w')"
      "data_lookup (cm_Data cm) tlsCACertName = Some cert"
    using assms None by (auto simp: getCaCrt_def Let_def eff_bind_Inr_iff ca_cert_of_Inr ReadData_def
        split: prod.splits sum.splits)
  with None ca cm.get_ok[of "TLSConfigMapNamespacedName m ca" w cm w']
    get_cm_secrets[of "TLSConfigMapNamespacedName m ca" w]
  show ?thesis by (simp add: ca_of_def GetConfigMap_def)
qed

lemma ensureCASecret_Inr:
  assumes "ensureCASecret c m w = (Inr (), w')"
  obtains ca where "ca_of (secrets w) (cms w) m = Some ca" and "cms w' = cms w"
    and "secrets w' = (secrets w)(TLSOperatorCASecretNamespacedName m \<mapsto>
      operator_secret (TLSOperatorCASecretNamespacedName m) (tlsOperatorSecretFileName ca) ca m)"
proof -
  obtain ca w1 where run: "getCaCrt c m w = (Inr ca, w1)"
      "secret_CreateOrUpdate c (operator_secret (TLSOperatorCASecretNamespacedName m) (tlsOperatorSecretFileName ca) ca m) w1 = (None, w')"
    using assms by (auto simp: ensureCASecret_def eff_bind_Inr_iff)
  from CreateOrUpdate_cases[OF run(2)] getCaCrt_Inr[OF run(1)]
    CreateOrUpdate_cms[of "operator_secret (TLSOperatorCASecretNamespacedName m) (tlsOperatorSecretFileName ca) ca m" w1] run(2)
  show thesis
    using that by (simp add: operator_secret_def secret_builder_defs TLSOperatorCASecretNamespacedName_def)
qed

lemma pem_secret_Inr:
  assumes "eff_bind (getPemOrConcatenatedCrtAndKey c k) (\<lambda>pem.
      eff_check (secret_CreateOrUpdate c (operator_secret name (field pem) pem m))) w = (Inr (), w')"
  obtains pem where "pem_of (secrets w) k = Inr pem" and "cms w' = cms w"
    and "secrets w' = (secrets w)(name \<mapsto> operator_secret name (field pem) pem m)"
proof -
  obtain pem w1 where run: "getPemOrConcatenatedCrtAndKey c k w = (Inr pem, w1)"
      "secret_CreateOrUpdate c (operator_secret name (field pem) pem m) w1 = (None, w')"
    using assms by (auto simp: eff_bind_Inr_iff)
  have key: "secret_key (operator_secret name (field pem) pem m) = name"
    by (simp add: operator_secret_def secret_builder_defs)
  show thesis
    using that[of pem] CreateOrUpdate_cases[OF run(2)] getPemOr_value[of k w] getPemOr_cms[of k w]
      CreateOrUpdate_cms[of "operator_secret name (field pem) pem m" w1] run key by simp
qed

end

text \<open>The secrets the operator owns, and the ones the user provides, which the operator only
  reads: none of the latter may have the name of one of the former.\<close>

definition operator_names :: "mdb \<Rightarrow> nsname set" where
  "operator_names m = {TLSOperatorCASecretNamespacedName m, TLSOperatorSecretNamespacedName m,
     nn (ns_Namespace (NamespacedName m)) (ns_Name (AgentCertificatePemSecretNamespacedName m))}"

definition provided_names :: "mdb \<Rightarrow> nsname set" where
  "provided_names m = {TLSSecretNamespacedName m} \<union>
     (case tls_CaCertificateSecret (spec_tls m) of
        Some ca \<Rightarrow> {TLSCaCertificateSecretNamespacedName m ca} | None \<Rightarrow> {})"

lemma suffix_ne: "last a \<noteq> last b \<Longrightarrow> a \<noteq> [] \<Longrightarrow> b \<noteq> [] \<Longrightarrow> x @ a \<noteq> y @ b"
  by (metis last_appendR)

lemma operator_names_distinct:
  "TLSOperatorCASecretNamespacedName m \<noteq> TLSOperatorSecretNamespacedName m"
  "ns_Name (AgentCertificatePemSecretNamespacedName m) \<noteq> ns_Name (TLSOperatorCASecretNamespacedName m)"
  "ns_Name (AgentCertificatePemSecretNamespacedName m) \<noteq> ns_Name (TLSOperatorSecretNamespacedName m)"
  by (simp_all add: TLSOperatorCASecretNamespacedName_def TLSOperatorSecretNamespacedName_def
      AgentCertificatePemSecretNamespacedName_def suffix_ne)

lemma ca_of_cong:
  assumes "\<And>k. k \<in> provided_names m \<Longrightarrow> secrets' k = secrets k"
  shows "ca_of secrets' cms m = ca_of secrets cms m"
proof -
  have "tls_CaCertificateSecret (spec_tls m) = Some ca \<Longrightarrow>
      secrets' (TLSCaCertificateSecretNamespacedName m ca) = secrets (TLSCaCertificateSecretNamespacedName m ca)" for ca
    using assms by (simp add: provided_names_def)
  then show ?thesis by (auto simp: ca_of_def stored_value_def split: option.splits)
qed

lemma pem_of_cong: "secrets' k = secrets k \<Longrightarrow> pem_of secrets' k = pem_of secrets k"
  by (simp add: pem_of_def cert_and_key_def stored_pem_def stored_value_def)

lemma operator_secret_value [simp]:
  "data_lookup (s_Data (operator_secret name field value m)) field = Some value"
  by (simp add: operator_secret_def secret_builder_defs data_lookup_def)

context tls_cluster
begin

lemma ensureAgentCert_Inr:
  assumes "(if IsAgentX509 (Spec m)
      then eff_wrap ''could not ensure Agent Certificate secret: '' (ensureAgentCertSecret c m)
      else eff_return ()) w = (Inr (), w')"
  shows "cms w' = cms w \<and> (\<forall>k. k \<noteq> nn (ns_Namespace (NamespacedName m)) (ns_Name (AgentCertificatePemSecretNamespacedName m))
    \<longrightarrow> secrets w' k = secrets w k)"
proof (cases "IsAgentX509 (Spec m)")
  case True
  let ?n = "nn (ns_Namespace (NamespacedName m)) (ns_Name (AgentCertificatePemSecretNamespacedName m))"
  have "eff_bind (getPemOrConcatenatedCrtAndKey c (AgentCertificateSecretNamespacedName m)) (\<lambda>pem.
      eff_check (secret_CreateOrUpdate c (operator_secret ?n (ns_Name (AgentCertificatePemSecretNamespacedName m)) pem m))) w
    = (Inr (), w')"
    using assms True by (simp add: ensureAgentCertSecret_def IsAgentX509_def)
  then show ?thesis by (rule pem_secret_Inr) simp
qed (use assms in simp)

text \<open>After the TLS resources were ensured, the operator's secrets hold what the automation
  config is going to name.\<close>

lemma ensureTLSResources_Inr:
  assumes "ensureTLSResources c m w = (Inr (), w')" and "tls_Enabled (spec_tls m)"
    and "operator_names m \<inter> provided_names m = {}"
  obtains ca pem where "ca_of (secrets w') (cms w') m = Some ca" and "pem_of (secrets w') (TLSSecretNamespacedName m) = Inr pem"
    and "stored_value (secrets w') (TLSOperatorCASecretNamespacedName m) (tlsOperatorSecretFileName ca) = Some ca"
    and "stored_value (secrets w') (TLSOperatorSecretNamespacedName m) (tlsOperatorSecretFileName pem) = Some pem"
proof -
  obtain w1 w2 where run: "ensureCASecret c m w = (Inr (), w1)" "ensureTLSSecret c m w1 = (Inr (), w2)"
      "(if IsAgentX509 (Spec m) then eff_wrap ''could not ensure Agent Certificate secret: '' (ensureAgentCertSecret c m)
        else eff_return ()) w2 = (Inr (), w')"
    using assms(1,2) by (auto simp: ensureTLSResources_def eff_bind_Inr_iff)
  let ?cak = "TLSOperatorCASecretNamespacedName m" and ?tk = "TLSOperatorSecretNamespacedName m"
  obtain ca where ca: "ca_of (secrets w) (cms w) m = Some ca" "cms w1 = cms w"
      "secrets w1 = (secrets w)(?cak \<mapsto> operator_secret ?cak (tlsOperatorSecretFileName ca) ca m)"
    by (rule ensureCASecret_Inr[OF run(1)])
  obtain pem where pem: "pem_of (secrets w1) (TLSSecretNamespacedName m) = Inr pem" "cms w2 = cms w1"
      "secrets w2 = (secrets w1)(?tk \<mapsto> operator_secret ?tk (tlsOperatorSecretFileName pem) pem m)"
    by (rule pem_secret_Inr[OF run(2)[unfolded ensureTLSSecret_def]])
  note agent = ensureAgentCert_Inr[OF run(3)]
  have keep: "k \<notin> operator_names m \<Longrightarrow> secrets w' k = secrets w k" for k
    using ca(3) pem(3) agent by (auto simp: operator_names_def)
  have provided: "k \<in> provided_names m \<Longrightarrow> secrets w' k = secrets w k" for k
    using keep assms(3) by blast
  have tls_provided: "TLSSecretNamespacedName m \<in> provided_names m" by (simp add: provided_names_def)
  then have "TLSSecretNamespacedName m \<noteq> ?cak" using assms(3) by (auto simp: operator_names_def)
  then have "secrets w' (TLSSecretNamespacedName m) = secrets w1 (TLSSecretNamespacedName m)"
    using provided[OF tls_provided] ca(3) by simp
  then have "pem_of (secrets w') (TLSSecretNamespacedName m) = Inr pem"
    using pem(1) pem_of_cong by metis
  moreover have "ca_of (secrets w') (cms w') m = Some ca"
    using ca(1,2) pem(2) agent ca_of_cong[of m "secrets w'" "secrets w" "cms w'"] provided by simp
  moreover have "secrets w' ?cak = secrets w1 ?cak" "secrets w' ?tk = secrets w2 ?tk"
    using agent pem(3) operator_names_distinct[of m] by (metis fun_upd_other nsname.select_convs(2))+
  ultimately show thesis using that[of ca pem] ca(3) pem(3) by (simp add: stored_value_def)
qed

lemma getTLSConfigModification_Inr:
  assumes "getTLSConfigModification ox c m w = (Inr f, w')" and "tls_Enabled (spec_tls m)"
  obtains ca pem where "ca_of (secrets w) (cms w) m = Some ca" and "pem_of (secrets w) (TLSSecretNamespacedName m) = Inr pem"
    and "f = tlsConfigModification ox m pem ca"
proof -
  obtain ca w1 pem where run: "getCaCrt c m w = (Inr ca, w1)"
      "getPemOrConcatenatedCrtAndKey c (TLSSecretNamespacedName m) w1 = (Inr pem, w')" "f = tlsConfigModification ox m pem ca"
    using assms by (auto simp: getTLSConfigModification_def eff_bind_Inr_iff)
  then show thesis
    using that[of ca pem] getCaCrt_Inr[OF run(1)] getPemOr_value(1)[of "TLSSecretNamespacedName m" w1] by simp
qed

end

interpretation mock_tls: tls_cluster mockedClient mw_secrets mw_configMaps
  by unfold_locales
     (auto simp: client_defs mockedClient_def mock_defs split: option.splits)

subsection \<open>Which secrets the cleanup deletes\<close>

abbreviation scram_user :: "mongodb_user \<Rightarrow> bool" where
  "scram_user u \<equiv> u_DB u \<noteq> ExternalDB"

lemma map_of_names_in_use:
  "map_of (fold (\<lambda>u m. if u_DB u = ExternalDB then m else map_put (user_id u) (f u) m) users m0) i =
   (case filter (\<lambda>u. scram_user u \<and> user_id u = i) (rev users) of [] \<Rightarrow> map_of m0 i | u # _ \<Rightarrow> Some (f u))"
proof (induction users arbitrary: m0)
  case (Cons v users)
  show ?case
    by (cases "filter (\<lambda>u. scram_user u \<and> user_id u = i) (rev users)") (auto simp: Cons.IH)
qed simp

lemma names_in_use_iff:
  assumes "distinct (map user_id (filter scram_user users))"
  shows "map_of (names_in_use f users) i = Some n \<longleftrightarrow> (\<exists>u\<in>set users. scram_user u \<and> user_id u = i \<and> f u = n)"
proof -
  let ?fs = "filter (\<lambda>u. scram_user u \<and> user_id u = i) (rev users)"
  have inj: "inj_on user_id (set (filter scram_user users))" using assms by (simp add: distinct_map)
  have same: "u = v" if "u \<in> set ?fs" "v \<in> set ?fs" for u v
    using that inj_onD[OF inj, of u v] by auto
  have fs: "u \<in> set ?fs \<longleftrightarrow> u \<in> set users \<and> scram_user u \<and> user_id u = i" for u by auto
  show ?thesis
  proof (cases ?fs)
    case Nil
    then have "\<not> (\<exists>u\<in>set users. scram_user u \<and> user_id u = i)" by (auto simp: filter_empty_conv)
    then show ?thesis unfolding names_in_use_def map_of_names_in_use Nil by auto
  next
    case (Cons v vs)
    then have v: "v \<in> set ?fs" by simp
    have "(\<exists>u\<in>set users. scram_user u \<and> user_id u = i \<and> f u = n) \<longleftrightarrow> f v = n"
      using same[OF _ v] v fs by blast
    then show ?thesis unfolding names_in_use_def map_of_names_in_use Cons by simp
  qed
qed

lemma names_to_delete_iff:
  assumes "distinct (map user_id (filter scram_user users))"
  shows "n \<in> set (names_to_delete f (names_in_use f users) last_users) \<longleftrightarrow>
    (\<exists>u\<in>set last_users. scram_user u \<and> f u = n \<and> \<not> (\<exists>v\<in>set users. scram_user v \<and> user_id v = user_id u \<and> f v = f u))"
proof -
  have step: "n \<in> set (if u_DB u = ExternalDB then []
      else (case map_of (names_in_use f users) (user_id u) of None \<Rightarrow> [f u] | Some current \<Rightarrow> if current \<noteq> f u then [f u] else []))
    \<longleftrightarrow> scram_user u \<and> f u = n \<and> map_of (names_in_use f users) (user_id u) \<noteq> Some (f u)" for u
    by (auto split: option.splits)
  show ?thesis
    unfolding names_to_delete_def set_concat set_map Union_iff bex_simps(7) step names_in_use_iff[OF assms] by blast
qed

context secret_store
begin

lemma delete_secret_content: "k' \<noteq> k \<Longrightarrow> content (delete_secret c k w) k' = content w k'"
  using delete_ok[of k w] delete_err[of k w] unfolding delete_secret_def DeleteSecret_def
  by (cases "api_Delete (secrets_api c) k w"; cases "fst (api_Delete (secrets_api c) k w)") auto

lemma delete_secrets_content:
  "k \<notin> nn ns ` set names \<Longrightarrow> content (fold (\<lambda>s. delete_secret c (nn ns s)) names w) k = content w k"
  by (induction names arbitrary: w) (simp_all add: delete_secret_content)

end

text \<open>The secrets of the users of an old spec that the same user (database and name) does not
  use in the new one.\<close>

definition dropped_names :: "(mongodb_user \<Rightarrow> string) \<Rightarrow> mdb_spec \<Rightarrow> mdb_spec \<Rightarrow> string set" where
  "dropped_names f cur lst = {f u | u. u \<in> set (Users lst) \<and> scram_user u \<and>
     \<not> (\<exists>v\<in>set (Users cur). scram_user v \<and> user_id v = user_id u \<and> f v = f u)}"

lemma set_names_to_delete:
  assumes "distinct (map user_id (filter scram_user (Users cur)))"
  shows "set (names_to_delete f (names_in_use f (Users cur)) (Users lst)) = dropped_names f cur lst"
  unfolding dropped_names_def set_eq_iff names_to_delete_iff[OF assms] by blast


definition spec_with_users :: "mongodb_user list \<Rightarrow> mdb_spec" where
  "spec_with_users us = zero_spec\<lparr>Users := us\<rparr>"




end
