(* ===== verification/Construct.thy ===== *)
theory Construct
  imports Sts_Modifications Resources
begin

text \<open>
  The StatefulSet of a replica set: \<open>controllers/construct/mongodbstatefulset.go\<close>, the pod
  modifications of \<open>controllers/mongodb_tls.go\<close>, and the functions of
  \<open>controllers/replica_set_controller.go\<close> that put the StatefulSets together.

  A build environment holds what the code takes from outside: the environment variables, the
  iteration order of Go maps, the quantity parser and the package \<open>objx\<close>.
\<close>

record build_env =
  be_order :: iteration
  be_getenv :: getenv
  be_quantity :: quantity
  be_objx :: objx

subsection \<open>Constants\<close>

definition OfficialMongodbRepoUrls :: "string list" where
  "OfficialMongodbRepoUrls = [''docker.io/mongodb'', ''quay.io/mongodb'']"
definition construct_AgentName :: string where "construct_AgentName = ''mongodb-agent''"
definition MongodbName :: string where "MongodbName = ''mongod''"
definition versionUpgradeHookName :: string where "versionUpgradeHookName = ''mongod-posthook''"
definition ReadinessProbeContainerName :: string where "ReadinessProbeContainerName = ''mongodb-agent-readinessprobe''"
definition readinessProbePath :: string where "readinessProbePath = ''/opt/scripts/readinessprobe''"
definition agentHealthStatusFilePathEnv :: string where "agentHealthStatusFilePathEnv = ''AGENT_STATUS_FILEPATH''"
definition clusterFilePath :: string where "clusterFilePath = ''/var/lib/automation/config/cluster-config.json''"
definition mongodbDatabaseServiceAccountName :: string where "mongodbDatabaseServiceAccountName = ''mongodb-database''"
definition agentHealthStatusFilePathValue :: string where
  "agentHealthStatusFilePathValue = ''/var/log/mongodb-mms-automation/healthstatus/agent-health-status.json''"
definition OfficialMongodbEnterpriseServerImageName :: string where
  "OfficialMongodbEnterpriseServerImageName = ''mongodb-enterprise-server''"
definition headlessAgentEnv :: string where "headlessAgentEnv = ''HEADLESS_AGENT''"
definition podNamespaceEnv :: string where "podNamespaceEnv = ''POD_NAMESPACE''"
definition automationConfigEnv :: string where "automationConfigEnv = ''AUTOMATION_CONFIG_MAP''"
definition MongoDBAssumeEnterpriseEnv :: string where "MongoDBAssumeEnterpriseEnv = ''MDB_ASSUME_ENTERPRISE''"
definition automationMongodConfFileName :: string where "automationMongodConfFileName = ''automation-mongod.conf''"
definition keyfileFilePath :: string where "keyfileFilePath = ''/var/lib/mongodb-mms-automation/authentication/keyfile''"
definition automationAgentOptions :: string where
  "automationAgentOptions = '' -skipMongoStart -noDaemonize -useLocalMongoDbTools''"
definition DefaultAgentLogPath :: string where "DefaultAgentLogPath = ''/var/log/mongodb-mms-automation''"
definition DefaultAgentLogFile :: string where
  "DefaultAgentLogFile = ''/var/log/mongodb-mms-automation/automation-agent.log''"
definition DefaultAgentMaxLogFileDurationHours :: int where "DefaultAgentMaxLogFileDurationHours = 24"
definition LogLevelInfo :: string where "LogLevelInfo = ''INFO''"
definition AgentPemFile :: string where "AgentPemFile = ''agent-certs-pem''"
definition ReadinessProbeLoggerBackups :: string where "ReadinessProbeLoggerBackups = ''READINESS_PROBE_LOGGER_BACKUPS''"
definition ReadinessProbeLoggerMaxSize :: string where "ReadinessProbeLoggerMaxSize = ''READINESS_PROBE_LOGGER_MAX_SIZE''"
definition ReadinessProbeLoggerMaxAge :: string where "ReadinessProbeLoggerMaxAge = ''READINESS_PROBE_LOGGER_MAX_AGE''"
definition ReadinessProbeLoggerCompress :: string where "ReadinessProbeLoggerCompress = ''READINESS_PROBE_LOGGER_COMPRESS''"
definition WithAgentFileLogging :: string where "WithAgentFileLogging = ''MDB_WITH_AGENT_FILE_LOGGING''"

text \<open>A multi-line literal is the list of its lines, each with its newline.\<close>

definition unlines :: "string list \<Rightarrow> string" where
  "unlines ls = concat (map (\<lambda>l. l @ [CHR 0x0A]) ls)"

text \<open>The lines the two shell preambles share after the declaration of \<open>current_uid\<close>.\<close>

definition user_command_tail :: "string list" where
  "user_command_tail = [''declare -r current_uid'',
     ''if ! grep -q '' @ quote ''${current_uid}'' @ '' /etc/passwd ; then'',
     ''sed -e '' @ quote ''s/^mongodb:/builder:/'' @ '' /etc/passwd > /tmp/passwd'',
     ''echo '' @ quote ''mongodb:x:$(id -u):$(id -g):,,,:/:/bin/bash'' @ '' >> /tmp/passwd'',
     ''export NSS_WRAPPER_PASSWD=/tmp/passwd'',
     ''export LD_PRELOAD=libnss_wrapper.so'',
     ''export NSS_WRAPPER_GROUP=/etc/group'',
     ''fi'']"

definition MongodbUserCommand :: string where
  "MongodbUserCommand = unlines (''current_uid=$(id -u)'' # user_command_tail)"

definition MongodbUserCommandWithAPIKeyExport :: string where
  "MongodbUserCommandWithAPIKeyExport = unlines (''current_uid=$(id -u)''
     # (''AGENT_API_KEY='' @ quote ''$(cat /mongodb-automation/agent-api-key/agentApiKey)'') # user_command_tail)"

subsection \<open>What the resource provides\<close>

definition GetMongoDBVersion :: "mdb \<Rightarrow> string" where "GetMongoDBVersion m = Version (Spec m)"
definition HasSeparateDataAndLogsVolumes :: "mdb \<Rightarrow> bool" where "HasSeparateDataAndLogsVolumes m = True"
definition DataVolumeName :: "mdb \<Rightarrow> string" where "DataVolumeName m = ''data-volume''"
definition LogsVolumeName :: "mdb \<Rightarrow> string" where "LogsVolumeName m = ''logs-volume''"
definition NeedsAutomationConfigVolume :: "mdb \<Rightarrow> bool" where "NeedsAutomationConfigVolume m = True"
definition GetAgentLogLevel :: "mdb \<Rightarrow> string" where "GetAgentLogLevel m = ag_LogLevel (AgentConfiguration (Spec m))"
definition GetAgentLogFile :: "mdb \<Rightarrow> string" where "GetAgentLogFile m = ag_LogFile (AgentConfiguration (Spec m))"
definition GetAgentMaxLogFileDurationHours :: "mdb \<Rightarrow> int" where
  "GetAgentMaxLogFileDurationHours m = ag_MaxLogFileDurationHours (AgentConfiguration (Spec m))"

subsection \<open>Containers and claims\<close>

definition BaseAgentCommand :: string where
  "BaseAgentCommand = ''agent/mongodb-agent -healthCheckFilePath='' @ agentHealthStatusFilePathValue @ '' -serveStatusPort=5000''"

definition AutomationAgentCommand :: "bool \<Rightarrow> string \<Rightarrow> string \<Rightarrow> int \<Rightarrow> string list" where
  "AutomationAgentCommand withAgentAPIKeyExport logLevel logFile maxLogFileDurationHours =
    (let agentLogOptions =
           (if logFile = ''/dev/stdout'' then '' -logLevel '' @ logLevel
            else '' -logFile '' @ logFile @ '' -logLevel '' @ logLevel @ '' -maxLogFileDurationHrs ''
              @ itoa maxLogFileDurationHours)
     in if withAgentAPIKeyExport
        then [''/bin/bash'', ''-c'', MongodbUserCommandWithAPIKeyExport @ BaseAgentCommand @ '' -cluster=''
          @ clusterFilePath @ automationAgentOptions @ agentLogOptions]
        else [''/bin/bash'', ''-c'', MongodbUserCommand @ BaseAgentCommand @ '' -cluster='' @ clusterFilePath
          @ automationAgentOptions @ agentLogOptions])"

definition DefaultReadiness :: "probe \<Rightarrow> probe" where
  "DefaultReadiness = Apply [WithExecCommand [readinessProbePath], WithFailureThreshold 40, WithInitialDelaySeconds 5]"

definition plain_env :: "string \<Rightarrow> string \<Rightarrow> env_var" where
  "plain_env name value = \<lparr>env_Name = name, env_Value = value, env_ValueFrom = None\<rparr>"

definition namespace_env :: env_var where
  "namespace_env = \<lparr>env_Name = podNamespaceEnv, env_Value = '''', env_ValueFrom = Some (VMap [(''fieldRef'',
     VMap [(''apiVersion'', VStr ''v1''), (''fieldPath'', VStr ''metadata.namespace'')])])\<rparr>"

definition mongodbAgentContainer ::
    "build_env \<Rightarrow> string \<Rightarrow> volume_mount list \<Rightarrow> string \<Rightarrow> string \<Rightarrow> int \<Rightarrow> string \<Rightarrow> container \<Rightarrow> container" where
  "mongodbAgentContainer be automationConfigSecretName volumeMounts logLevel logFile maxLogFileDurationHours agentImage =
    (let containerSecurityContext = snd (WithDefaultSecurityContextsModifications (be_getenv be))
     in Apply [
       container_WithName construct_AgentName,
       WithImage agentImage,
       WithImagePullPolicy ''Always'',
       WithReadinessProbe DefaultReadiness,
       WithResourceRequirements (resource_Defaults (be_quantity be)),
       container_WithVolumeMounts (be_order be) volumeMounts,
       WithCommand (AutomationAgentCommand False logLevel logFile maxLogFileDurationHours),
       containerSecurityContext,
       WithEnvs (be_order be) [plain_env headlessAgentEnv ''true'', namespace_env,
         plain_env automationConfigEnv automationConfigSecretName,
         plain_env agentHealthStatusFilePathEnv agentHealthStatusFilePathValue]])"

definition versionUpgradeHookInit :: "build_env \<Rightarrow> volume_mount list \<Rightarrow> string \<Rightarrow> container \<Rightarrow> container" where
  "versionUpgradeHookInit be volumeMount versionUpgradeHookImage =
    (let containerSecurityContext = snd (WithDefaultSecurityContextsModifications (be_getenv be))
     in Apply [
       container_WithName versionUpgradeHookName,
       WithCommand [''cp'', ''version-upgrade-hook'', ''/hooks/version-upgrade''],
       WithImage versionUpgradeHookImage,
       WithResourceRequirements (resource_Defaults (be_quantity be)),
       WithImagePullPolicy ''Always'',
       container_WithVolumeMounts (be_order be) volumeMount,
       containerSecurityContext])"

definition dataPvc :: "build_env \<Rightarrow> string \<Rightarrow> pvc \<Rightarrow> pvc" where
  "dataPvc be dataVolumeName = Apply [pvc_WithName dataVolumeName, WithAccessModes ''ReadWriteOnce'',
     WithResourceRequests (BuildDefaultStorageRequirements (be_quantity be))]"

definition logsPvc :: "build_env \<Rightarrow> string \<Rightarrow> pvc \<Rightarrow> pvc" where
  "logsPvc be logsVolumeName = Apply [pvc_WithName logsVolumeName, WithAccessModes ''ReadWriteOnce'',
     WithResourceRequests (BuildStorageRequirements (be_quantity be) ''2G'')]"

definition readinessProbeInit :: "build_env \<Rightarrow> volume_mount list \<Rightarrow> string \<Rightarrow> container \<Rightarrow> container" where
  "readinessProbeInit be volumeMount readinessProbeImage =
    (let containerSecurityContext = snd (WithDefaultSecurityContextsModifications (be_getenv be))
     in Apply [
       container_WithName ReadinessProbeContainerName,
       WithCommand [''cp'', ''/probes/readinessprobe'', ''/opt/scripts/readinessprobe''],
       WithImage readinessProbeImage,
       WithImagePullPolicy ''Always'',
       container_WithVolumeMounts (be_order be) volumeMount,
       WithResourceRequirements (resource_Defaults (be_quantity be)),
       containerSecurityContext])"

definition addEnvVarIfSet :: "getenv \<Rightarrow> string \<Rightarrow> env_var list \<Rightarrow> env_var list" where
  "addEnvVarIfSet getenv name envVars =
    (let value = os_Getenv getenv name in if value \<noteq> '''' then envVars @ [plain_env name value] else envVars)"

definition collectEnvVars :: "getenv \<Rightarrow> env_var list" where
  "collectEnvVars getenv = fold (addEnvVarIfSet getenv)
     [ReadinessProbeLoggerBackups, ReadinessProbeLoggerMaxSize, ReadinessProbeLoggerMaxAge,
      ReadinessProbeLoggerCompress, WithAgentFileLogging]
     [plain_env agentHealthStatusFilePathEnv ''/healthstatus/agent-health-status.json'']"

text \<open>The shell script that waits for the agent's files and starts the server.\<close>

definition mongod_command :: "string \<Rightarrow> string" where
  "mongod_command filePath = unlines ['''',
     ''if [ -e '' @ quote ''/hooks/version-upgrade'' @ '' ]; then'',
     [CHR 0x09] @ ''#run post-start hook to handle version changes (if exists)'',
     ''    /hooks/version-upgrade'',
     ''fi'',
     '''',
     ''# wait for config and keyfile to be created by the agent'',
     ''while ! [ -f '' @ filePath @ '' -a -f '' @ keyfileFilePath @ '' ]; do sleep 3 ; done ; sleep 2 ;'',
     '''',
     ''# start mongod with this configuration'',
     ''exec mongod -f '' @ filePath @ '';'',
     '''']"

definition mongodbContainer :: "build_env \<Rightarrow> string \<Rightarrow> volume_mount list \<Rightarrow> go_map \<Rightarrow> container \<Rightarrow> container" where
  "mongodbContainer be mongodbImage volumeMounts additionalMongoDBConfig =
    (let filePath = GetDBDataDir (be_objx be) additionalMongoDBConfig @ ''/'' @ automationMongodConfFileName;
         containerSecurityContext = snd (WithDefaultSecurityContextsModifications (be_getenv be))
     in Apply [
       container_WithName MongodbName,
       WithImage mongodbImage,
       WithResourceRequirements (resource_Defaults (be_quantity be)),
       WithCommand [''/bin/sh'', ''-c'', mongod_command filePath],
       WithArgs [''''],
       containerSecurityContext,
       WithEnvs (be_order be) (collectEnvVars (be_getenv be)),
       container_WithVolumeMounts (be_order be) volumeMounts])"

subsection \<open>The StatefulSet\<close>

text \<open>The mounts of the two containers: of the agent (with the automation config), of \<open>mongod\<close>.\<close>

definition common_mounts :: "mdb \<Rightarrow> string \<Rightarrow> volume_mount list" where
  "common_mounts m healthPath = [CreateVolumeMount ''healthstatus'' healthPath [],
     CreateVolumeMount (ns_Name (GetAgentKeyfileSecretNamespacedName m))
       ''/var/lib/mongodb-mms-automation/authentication'' [WithReadOnly False],
     CreateVolumeMount ''tmp'' ''/tmp'' [WithReadOnly False]]"

definition storage_mounts :: "build_env \<Rightarrow> mdb \<Rightarrow> volume_mount list" where
  "storage_mounts be m =
    (let dataDir = GetDBDataDir (be_objx be) (GetMongodConfiguration (iterate (be_order be)) (be_objx be) m)
     in if HasSeparateDataAndLogsVolumes m
        then [CreateVolumeMount (DataVolumeName m) dataDir [], CreateVolumeMount (LogsVolumeName m) DefaultAgentLogPath []]
        else [CreateVolumeMount (DataVolumeName m) dataDir [WithSubPath ''data''],
              CreateVolumeMount (DataVolumeName m) DefaultAgentLogPath [WithSubPath ''logs'']])"

definition hooks_mount :: volume_mount where
  "hooks_mount = CreateVolumeMount ''hooks'' ''/hooks'' [WithReadOnly False]"

definition scripts_mount :: volume_mount where
  "scripts_mount = CreateVolumeMount ''agent-scripts'' ''/opt/scripts'' [WithReadOnly False]"

definition agent_mounts :: "build_env \<Rightarrow> mdb \<Rightarrow> bool \<Rightarrow> volume_mount list" where
  "agent_mounts be m withInitContainers = common_mounts m ''/var/log/mongodb-mms-automation/healthstatus''
     @ (if NeedsAutomationConfigVolume m
        then [CreateVolumeMount ''automation-config'' ''/var/lib/automation/config'' [WithReadOnly True]] else [])
     @ (if withInitContainers then [scripts_mount] else [])
     @ storage_mounts be m"

definition mongod_mounts :: "build_env \<Rightarrow> mdb \<Rightarrow> bool \<Rightarrow> volume_mount list" where
  "mongod_mounts be m withInitContainers = common_mounts m ''/healthstatus''
     @ (if withInitContainers then [hooks_mount] else []) @ storage_mounts be m"

text \<open>The modifications of the pod template, in their order.\<close>

definition replica_set_pod_template ::
    "build_env \<Rightarrow> mdb \<Rightarrow> string \<Rightarrow> string \<Rightarrow> string \<Rightarrow> string \<Rightarrow> bool \<Rightarrow> pod_template \<Rightarrow> pod_template" where
  "replica_set_pod_template be m mongodbImage agentImage versionUpgradeHookImage readinessProbeImage withInitContainers =
    (let order = be_order be;
         agentLogLevel = (if GetAgentLogLevel m \<noteq> '''' then GetAgentLogLevel m else LogLevelInfo);
         agentLogFile = (if GetAgentLogFile m \<noteq> '''' then GetAgentLogFile m else DefaultAgentLogFile);
         hours = (if GetAgentMaxLogFileDurationHours m \<noteq> 0 then GetAgentMaxLogFileDurationHours m
           else DefaultAgentMaxLogFileDurationHours)
     in Apply [
       fst (WithDefaultSecurityContextsModifications (be_getenv be)),
       WithPodLabels [(''app'', ServiceName m)],
       WithVolume order (CreateVolumeFromEmptyDir ''healthstatus''),
       (if NeedsAutomationConfigVolume m
        then WithVolume order (CreateVolumeFromSecret ''automation-config'' (AutomationConfigSecretName m) []) else id),
       (if withInitContainers then WithVolume order (CreateVolumeFromEmptyDir ''hooks'') else id),
       (if withInitContainers then WithVolume order (CreateVolumeFromEmptyDir ''agent-scripts'') else id),
       WithVolume order (CreateVolumeFromEmptyDir ''tmp''),
       WithVolume order (CreateVolumeFromEmptyDir (ns_Name (GetAgentKeyfileSecretNamespacedName m))),
       WithServiceAccount mongodbDatabaseServiceAccountName,
       WithContainer construct_AgentName (mongodbAgentContainer be (AutomationConfigSecretName m)
         (agent_mounts be m withInitContainers) agentLogLevel agentLogFile hours agentImage),
       WithContainer MongodbName (mongodbContainer be mongodbImage (mongod_mounts be m withInitContainers)
         (GetMongodConfiguration (iterate order) (be_objx be) m)),
       (if withInitContainers then WithInitContainer versionUpgradeHookName
          (versionUpgradeHookInit be [hooks_mount] versionUpgradeHookImage) else id),
       (if withInitContainers then WithInitContainer ReadinessProbeContainerName
          (readinessProbeInit be [scripts_mount] readinessProbeImage) else id)])"

definition BuildMongoDBReplicaSetStatefulSetModificationFunction ::
    "build_env \<Rightarrow> mdb \<Rightarrow> replica_set_scaler \<Rightarrow> string \<Rightarrow> string \<Rightarrow> string \<Rightarrow> string \<Rightarrow> bool \<Rightarrow> statefulset \<Rightarrow> statefulset" where
  "BuildMongoDBReplicaSetStatefulSetModificationFunction be m scaler mongodbImage agentImage versionUpgradeHookImage
     readinessProbeImage withInitContainers =
    (let labels = [(''app'', ServiceName m)]; separate = HasSeparateDataAndLogsVolumes m
     in Apply [
       sts_WithName (mdb_Name m),
       WithNamespace (mdb_Namespace m),
       WithServiceName (ServiceName m),
       sts_WithLabels labels,
       WithMatchLabels labels,
       WithReplicas (ReplicasThisReconciliation scaler),
       WithUpdateStrategyType (GetUpdateStrategyType m),
       (if separate then WithVolumeClaim (DataVolumeName m) (dataPvc be (DataVolumeName m)) else id),
       (if separate then WithVolumeClaim (LogsVolumeName m) (logsPvc be (LogsVolumeName m)) else id),
       (if separate then id else WithVolumeClaim (DataVolumeName m) (dataPvc be (DataVolumeName m))),
       WithPodSpecTemplate (replica_set_pod_template be m mongodbImage agentImage versionUpgradeHookImage
         readinessProbeImage withInitContainers)])"

subsection \<open>TLS\<close>

definition buildTLSPodSpecModification :: "build_env \<Rightarrow> mdb \<Rightarrow> pod_template \<Rightarrow> pod_template" where
  "buildTLSPodSpecModification be m =
    (if \<not> tls_Enabled (spec_tls m) then id
     else (let order = be_order be;
               caVolume = CreateVolumeFromSecret ''tls-ca'' (ns_Name (TLSOperatorCASecretNamespacedName m)) [];
               caVolumeMount = CreateVolumeMount (vol_Name caVolume) tlsCAMountPath [WithReadOnly True];
               tlsSecretVolume = CreateVolumeFromSecret ''tls-secret'' (ns_Name (TLSOperatorSecretNamespacedName m)) [];
               tlsSecretVolumeMount = CreateVolumeMount (vol_Name tlsSecretVolume) tlsOperatorSecretMountPath [WithReadOnly True]
           in Apply [WithVolume order caVolume, WithVolume order tlsSecretVolume,
                pod_WithVolumeMounts order construct_AgentName [tlsSecretVolumeMount, caVolumeMount],
                pod_WithVolumeMounts order MongodbName [tlsSecretVolumeMount, caVolumeMount]]))"

definition buildTLSPrometheus :: "build_env \<Rightarrow> mdb \<Rightarrow> pod_template \<Rightarrow> pod_template" where
  "buildTLSPrometheus be m =
    (case Prometheus (Spec m) of
       None \<Rightarrow> id
     | Some p \<Rightarrow>
         if skr_Name (cprom_TLSSecretRef p) = '''' then id
         else (let order = be_order be;
                   tlsSecretVolume = CreateVolumeFromSecret ''prom-tls-secret'' (ns_Name (PrometheusTLSOperatorSecretNamespacedName m)) [];
                   tlsSecretVolumeMount = CreateVolumeMount (vol_Name tlsSecretVolume) tlsPrometheusSecretMountPath [WithReadOnly True]
               in Apply [WithVolume order tlsSecretVolume,
                    pod_WithVolumeMounts order construct_AgentName [tlsSecretVolumeMount],
                    pod_WithVolumeMounts order MongodbName [tlsSecretVolumeMount]]))"

definition buildAgentX509 :: "build_env \<Rightarrow> mdb \<Rightarrow> pod_template \<Rightarrow> pod_template" where
  "buildAgentX509 be m =
    (if GetAgentAuthMode (Spec m) \<noteq> ''X509''
     then Apply [RemoveVolume AgentPemFile, pod_RemoveVolumeMount construct_AgentName AgentPemFile]
     else (let agentCertVolume = CreateVolumeFromSecret AgentPemFile (ns_Name (AgentCertificatePemSecretNamespacedName m)) [];
               agentCertVolumeMount = CreateVolumeMount (vol_Name agentCertVolume) automationAgentPemMountPath [WithReadOnly True]
           in Apply [WithVolume (be_order be) agentCertVolume,
                pod_WithVolumeMounts (be_order be) construct_AgentName [agentCertVolumeMount]]))"

definition buildStatefulSetModificationFunction ::
    "build_env \<Rightarrow> mdb \<Rightarrow> string \<Rightarrow> string \<Rightarrow> string \<Rightarrow> string \<Rightarrow> statefulset \<Rightarrow> statefulset" where
  "buildStatefulSetModificationFunction be m mongodbImage agentImage versionUpgradeHookImage readinessProbeImage =
    Apply [
      BuildMongoDBReplicaSetStatefulSetModificationFunction be m (mdb_scaler m) mongodbImage agentImage
        versionUpgradeHookImage readinessProbeImage True,
      WithOwnerReference (GetOwnerReferences m),
      WithPodSpecTemplate (Apply [buildTLSPodSpecModification be m, buildTLSPrometheus be m, buildAgentX509 be m]),
      WithCustomSpecs (be_order be) (sc_Spec (StatefulSetConfiguration (Spec m))),
      WithObjectMetadata (sc_Labels (StatefulSetConfiguration (Spec m)))
        (sc_Annotations (StatefulSetConfiguration (Spec m)))]"

definition buildArbitersModificationFunction :: "mdb \<Rightarrow> statefulset \<Rightarrow> statefulset" where
  "buildArbitersModificationFunction m = Apply [
     WithReplicas (StatefulSetArbitersThisReconciliation m),
     WithServiceName (ServiceName m),
     sts_WithName (ns_Name (ArbiterNamespacedName m))]"

definition isPreReadinessInitContainerStatefulSet :: "statefulset \<Rightarrow> bool" where
  "isPreReadinessInitContainerStatefulSet sts =
    (GetByName ReadinessProbeContainerName (ps_InitContainers (pt_Spec (stss_Template (sts_Spec sts)))) = None)"

text \<open>\<open>strings.TrimRight(repoUrl, slash)\<close> drops every trailing slash.\<close>

definition getMongoDBImage :: "string \<Rightarrow> string \<Rightarrow> string \<Rightarrow> string \<Rightarrow> string" where
  "getMongoDBImage repoUrl0 mongodbImage mongodbImageType version =
    (let repoUrl = (if has_suffix repoUrl0 ''/'' then rev (dropWhile (\<lambda>c. c = CHR ''/'') (rev repoUrl0)) else repoUrl0)
     in if list_ex (\<lambda>officialUrl. repoUrl = officialUrl) OfficialMongodbRepoUrls
        then repoUrl @ ''/'' @ mongodbImage @ '':'' @ version @ ''-'' @ mongodbImageType
        else repoUrl @ ''/'' @ mongodbImage @ '':'' @ version)"

end
