(* ===== verification/Controller.thy ===== *)
theory Controller
  imports Construct Validation
begin

text \<open>
  The reconciler, \<open>controllers/replica_set_controller.go\<close>, with \<open>pkg/kube/annotations\<close> and the
  service port of \<open>controllers/prometheus.go\<close>.

  \<open>reconciler\<close> holds the fields of the Go struct and the third-party code the reconciler
  calls: besides those of the components it uses, \<open>controllerutil.CreateOrUpdate\<close>,
  \<open>mergo.Merge\<close> with override, the client's \<open>Patch\<close>, and the JSON text of a spec, which
  contains Kubernetes types.  Logging has no effect.  Pods are read at the state of the
  cluster at the time of the call; reading one does not change it.
\<close>

record patch_value =
  pv_Op :: string
  pv_Path :: string
  pv_Value :: go_value

record ('w, 'v) reconciler =
  r_auth :: "'w auth_env"
  r_build :: build_env
  r_codec :: ac_codec
  r_semver :: "'v semver"
  r_toInt :: "string \<Rightarrow> int"
  r_toFloat :: "string \<Rightarrow> rat"
  r_fmt_g :: "rat \<Rightarrow> string"
  r_mergo :: "go_map option \<Rightarrow> go_map \<Rightarrow> go_map option"
  r_CreateOrUpdate :: "service \<Rightarrow> (service \<Rightarrow> service) \<Rightarrow> ('w, go_error option) effect"
  r_Patch :: "mdb \<Rightarrow> patch_value list \<Rightarrow> ('w, mdb fallible) effect"
  r_spec_Marshal :: "mdb_spec \<Rightarrow> string fallible"
  r_spec_Unmarshal :: "string \<Rightarrow> mdb_spec fallible"
  r_mongodbRepoUrl :: string
  r_mongodbImage :: string
  r_mongodbImageType :: string
  r_agentImage :: string
  r_versionUpgradeHookImage :: string
  r_readinessProbeImage :: string

abbreviation r_client :: "('w, 'v) reconciler \<Rightarrow> 'w kube_client" where "r_client r \<equiv> env_client (r_auth r)"
abbreviation r_objx :: "('w, 'v) reconciler \<Rightarrow> objx" where "r_objx r \<equiv> be_objx (r_build r)"
abbreviation r_iterate :: "('w, 'v) reconciler \<Rightarrow> (string \<times> 'a) list \<Rightarrow> (string \<times> 'a) list" where
  "r_iterate r \<equiv> iterate (be_order (r_build r))"
abbreviation r_Getenv :: "('w, 'v) reconciler \<Rightarrow> string \<Rightarrow> string" where
  "r_Getenv r \<equiv> os_Getenv (be_getenv (r_build r))"
abbreviation ac_secret_name :: "mdb \<Rightarrow> nsname" where
  "ac_secret_name m \<equiv> nn (mdb_Namespace m) (AutomationConfigSecretName m)"

definition clusterDomain :: string where "clusterDomain = ''CLUSTER_DOMAIN''"
definition lastSuccessfulConfiguration :: string where
  "lastSuccessfulConfiguration = ''mongodb.com/v1.lastSuccessfulConfiguration''"
definition lastAppliedMongoDBVersion :: string where
  "lastAppliedMongoDBVersion = ''mongodb.com/v1.lastAppliedMongoDBVersion''"

subsection \<open>Annotations\<close>

definition GetAnnotation :: "mdb \<Rightarrow> string \<Rightarrow> string" where
  "GetAnnotation object key = map_get key '''' (mdb_Annotations object)"

text \<open>\<open>strings.Replace\<close> of the first slash.\<close>

fun escape_slash :: "string \<Rightarrow> string" where
  "escape_slash [] = []"
| "escape_slash (c # s) = (if c = CHR ''/'' then ''~1'' @ s else c # escape_slash s)"

definition annotation_patches :: "iteration \<Rightarrow> str_map \<Rightarrow> str_map \<Rightarrow> patch_value list" where
  "annotation_patches order current annotations =
    (if current = [] then [\<lparr>pv_Op = ''replace'', pv_Path = ''/metadata/annotations'', pv_Value = VMap []\<rparr>] else [])
    @ map (\<lambda>(key, val). \<lparr>pv_Op = ''replace'', pv_Path = ''/metadata/annotations/'' @ escape_slash key,
        pv_Value = VStr val\<rparr>) (iterate order annotations)"

definition SetAnnotations :: "('w, 'v) reconciler \<Rightarrow> mdb \<Rightarrow> str_map \<Rightarrow> ('w, mdb fallible) effect" where
  "SetAnnotations r object annotations =
    eff_bind (api_Get (mongodbs_api (r_client r)) (nn (mdb_Namespace object) (mdb_Name object))) (\<lambda>currentObject.
    eff_bind (r_Patch r currentObject (annotation_patches (be_order (r_build r)) (mdb_Annotations currentObject) annotations))
      (\<lambda>patched. eff_return (object\<lparr>mdb_Annotations := mdb_Annotations patched\<rparr>)))"

definition UpdateLastAppliedMongoDBVersion :: "('w, 'v) reconciler \<Rightarrow> mdb \<Rightarrow> ('w, mdb fallible) effect" where
  "UpdateLastAppliedMongoDBVersion r m =
    SetAnnotations r m [(LastAppliedMongoDBVersion, GetMongoDBVersion m)]"

definition updateLastSuccessfulConfiguration :: "('w, 'v) reconciler \<Rightarrow> mdb \<Rightarrow> ('w, unit fallible) effect" where
  "updateLastSuccessfulConfiguration r m =
    eff_bind (eff_lift (r_spec_Marshal r (Spec m))) (\<lambda>currentSpec.
    eff_bind (SetAnnotations r m [(lastSuccessfulConfiguration, currentSpec), (lastAppliedMongoDBVersion, Version (Spec m))])
      (\<lambda>_. eff_return ()))"

subsection \<open>Validation\<close>

text \<open>\<open>validateSpec\<close> of the reconciler returns the last spec also when there is an error.\<close>

definition validateSpec :: "('w, 'v) reconciler \<Rightarrow> mdb \<Rightarrow> mdb_spec option fallible" where
  "validateSpec r m =
    (case map_of (mdb_Annotations m) lastSuccessfulConfiguration of
       None \<Rightarrow> (case ValidateInitialSpec (env_dns (r_auth r)) m of None \<Rightarrow> Inr None | Some err \<Rightarrow> Inl err)
     | Some saved \<Rightarrow>
         (case r_spec_Unmarshal r saved of
            Inl err \<Rightarrow> Inl err
          | Inr lastSpec \<Rightarrow>
              (case ValidateUpdate (env_dns (r_auth r)) m lastSpec of
                 None \<Rightarrow> Inr (Some lastSpec) | Some err \<Rightarrow> Inl err)))"

subsection \<open>The service\<close>

definition prometheusPort :: "mdb \<Rightarrow> service_port option" where
  "prometheusPort m = map_option (\<lambda>p. \<lparr>sp_Port = word_of_int (Prometheus_GetPort p), sp_Name = ''prometheus''\<rparr>)
     (Prometheus (Spec m))"

definition buildService :: "('w, 'v) reconciler \<Rightarrow> mdb \<Rightarrow> port_manager \<Rightarrow> service" where
  "buildService r m portManager =
    (let name = ServiceName m; label = [(''app'', name)];
         serviceBuilder = service_SetOwnerReferences (GetOwnerReferences m)
           (service_SetPublishNotReadyAddresses True
           (service_SetClusterIP ''None''
           (service_SetServiceType ''ClusterIP''
           (service_SetLabels label
           (service_SetSelector label
           (service_SetNamespace (mdb_Namespace m)
           (service_SetName name service_Builder)))))));
         withPorts = fold (\<lambda>servicePort. service_AddPort (Some servicePort))
           (GetServicePorts (r_iterate r) (r_objx r) portManager) serviceBuilder
     in service_Build (service_AddPort (prometheusPort m) withPorts))"

definition read_pods :: "('w, 'v) reconciler \<Rightarrow> 'w \<Rightarrow> nsname \<Rightarrow> pod fallible" where
  "read_pods r w n = fst (GetPod (r_client r) n w)"

definition createProcessPortManager :: "('w, 'v) reconciler \<Rightarrow> mdb \<Rightarrow> ('w, port_manager fallible) effect" where
  "createProcessPortManager r m =
    eff_bind (eff_wrap ''could not read existing automation config: ''
        (ReadFromSecret (r_codec r) (r_client r) (ac_secret_name m))) (\<lambda>currentAC w.
      case GetAllDesiredMembersAndArbitersPodState (read_pods r w) (r_toInt r) (NamespacedName m)
          (StatefulSetReplicasThisReconciliation m) (StatefulSetArbitersThisReconciliation m) (ac_Version currentAC) of
        Inl err \<Rightarrow> (Inl (errorf_w ''cannot get all pods goal state: '' err), w)
      | Inr podStates \<Rightarrow>
          (Inr (NewReplicaSetPortManager (GetDBPort (r_objx r) (AdditionalMongodConfig (Spec m))) podStates
             (ac_Processes currentAC)), w))"

text \<open>An error of \<open>CreateOrUpdate\<close> is logged and dropped.\<close>

definition ensureService :: "('w, 'v) reconciler \<Rightarrow> mdb \<Rightarrow> ('w, unit fallible) effect" where
  "ensureService r m =
    eff_bind (createProcessPortManager r m) (\<lambda>processPortManager w.
      case r_CreateOrUpdate r ((service_Build service_Builder)\<lparr>svc_Name := ServiceName m, svc_Namespace := mdb_Namespace m\<rparr>)
          (\<lambda>_. buildService r m processPortManager) w of (_, w1) \<Rightarrow> (Inr (), w1))"

subsection \<open>The StatefulSets\<close>

definition createOrUpdateStatefulSet :: "('w, 'v) reconciler \<Rightarrow> mdb \<Rightarrow> bool \<Rightarrow> ('w, unit fallible) effect" where
  "createOrUpdateStatefulSet r m isArbiter w =
    (let name = (if isArbiter then ArbiterNamespacedName m else NamespacedName m);
         mongodbImage = getMongoDBImage (r_mongodbRepoUrl r) (r_mongodbImage r) (r_mongodbImageType r) (GetMongoDBVersion m);
         modify = (\<lambda>sts.
           (let sts1 = buildStatefulSetModificationFunction (r_build r) m mongodbImage (r_agentImage r)
                  (r_versionUpgradeHookImage r) (r_readinessProbeImage r) sts
            in if isArbiter then buildArbitersModificationFunction m sts1 else sts1));
         write = (\<lambda>sts. eff_bind (eff_wrap ''error creating/updating StatefulSet: ''
             (sts_CreateOrUpdate (r_client r) (modify sts))) (\<lambda>_. eff_return ()))
     in case api_Get (statefulSets_api (r_client r)) name w of
          (Inr sts, w1) \<Rightarrow> write sts w1
        | (Inl err, w1) \<Rightarrow>
            if err_not_found err then write zero_statefulset w1
            else (Inl (errorf (''error getting StatefulSet: '' @ err_msg err)), w1))"

definition deployStatefulSet :: "('w, 'v) reconciler \<Rightarrow> mdb \<Rightarrow> ('w, bool fallible) effect" where
  "deployStatefulSet r m =
    eff_bind (eff_wrap ''error creating/updating StatefulSet: '' (createOrUpdateStatefulSet r m False)) (\<lambda>_.
    eff_bind (eff_wrap ''error creating/updating StatefulSet: '' (createOrUpdateStatefulSet r m True)) (\<lambda>_.
    eff_bind (eff_wrap ''error getting StatefulSet: '' (GetStatefulSet (r_client r) (NamespacedName m))) (\<lambda>currentSts.
    eff_return (IsReady currentSts (StatefulSetReplicasThisReconciliation m) \<or>
      stss_UpdateStrategyType (sts_Spec currentSts) = ''OnDelete''))))"

subsection \<open>The automation config\<close>

definition getDomain :: "string \<Rightarrow> string \<Rightarrow> string \<Rightarrow> string" where
  "getDomain service' namespace clusterName =
    service' @ ''.'' @ namespace @ ''.svc.'' @ (if clusterName = '''' then ''cluster.local'' else clusterName)"

text \<open>\<open>strconv.ParseBool\<close>.\<close>

definition ParseBool :: "string \<Rightarrow> bool option" where
  "ParseBool s =
    (if s \<in> set [''1'', ''t'', ''T'', ''true'', ''TRUE'', ''True''] then Some True
     else if s \<in> set [''0'', ''f'', ''F'', ''false'', ''FALSE'', ''False''] then Some False
     else None)"

definition guessEnterprise :: "getenv \<Rightarrow> mdb \<Rightarrow> string \<Rightarrow> bool" where
  "guessEnterprise getenv m mongodbImage =
    (case ParseBool (os_Getenv getenv MongoDBAssumeEnterpriseEnv) of
       Some overrideAssumption \<Rightarrow> overrideAssumption
     | None \<Rightarrow>
         (let containers = ps_Containers (pt_Spec (stss_Template (sc_Spec (StatefulSetConfiguration (Spec m)))));
              overriddenImage = fold (\<lambda>c img. if c_Name c = MongodbName \<and> c_Image c \<noteq> '''' then c_Image c else img)
                containers ''''
          in if overriddenImage \<noteq> '''' then str_contains overriddenImage OfficialMongodbEnterpriseServerImageName
             else mongodbImage = OfficialMongodbEnterpriseServerImageName))"

definition getMongodConfigModification ::
    "(go_map option \<Rightarrow> go_map \<Rightarrow> go_map option) \<Rightarrow> mdb \<Rightarrow> automation_config \<Rightarrow> automation_config" where
  "getMongodConfigModification mergo m ac =
    ac\<lparr>ac_Processes := map (\<lambda>p. p\<lparr>p_Args26 := mergo (p_Args26 p) (AdditionalMongodConfig (Spec m))\<rparr>) (ac_Processes ac)\<rparr>"

definition getCustomRolesModification :: "mdb \<Rightarrow> automation_config \<Rightarrow> automation_config" where
  "getCustomRolesModification m =
    (case sec_Roles (Security (Spec m)) of
       None \<Rightarrow> NOOP
     | Some roles \<Rightarrow> (\<lambda>config. config\<lparr>ac_Roles := ConvertCustomRolesToAutomationConfigCustomRole roles\<rparr>))"

definition OverrideToAutomationConfig :: "(string \<Rightarrow> rat) \<Rightarrow> automation_config_override \<Rightarrow> automation_config" where
  "OverrideToAutomationConfig toFloat override = zero_AutomationConfig\<lparr>ac_Processes :=
     map (\<lambda>o'. zero_Process\<lparr>p_Name := op_Name o', p_Disabled := op_Disabled o',
       p_LogRotate := ConvertCrdLogRotateToAC toFloat (op_LogRotate o')\<rparr>) (aco_Processes override)\<rparr>"

text \<open>The number of arbiters waits for the members.\<close>

definition arbitersCount :: "mdb \<Rightarrow> int" where
  "arbitersCount m =
    (if AutomationConfigMembersThisReconciliation m < Members (Spec m) then CurrentMongoDBArbiters (Status m)
     else AutomationConfigArbitersThisReconciliation m)"

definition buildAutomationConfig ::
    "('w, 'v) reconciler \<Rightarrow> mdb \<Rightarrow> bool \<Rightarrow> ac_auth \<Rightarrow> automation_config \<Rightarrow> (automation_config \<Rightarrow> automation_config) list
      \<Rightarrow> automation_config fallible" where
  "buildAutomationConfig r m isEnterprise auth currentAc modifications =
    (let domain = getDomain (ServiceName m) (mdb_Namespace m) (r_Getenv r clusterDomain);
         arbiterDomain = getDomain (ServiceName m) (mdb_Namespace m) (r_Getenv r clusterDomain);
         acOverrideSettings = (case AutomationConfigOverride (Spec m) of None \<Rightarrow> [] | Some ov \<Rightarrow> aco_ReplicaSet_Settings ov);
         acReplicaSetId = (case AutomationConfigOverride (Spec m) of None \<Rightarrow> None | Some ov \<Rightarrow> aco_ReplicaSet_Id ov);
         agentConf = AgentConfiguration (Spec m)
     in Build (r_objx r) (r_toFloat r) (r_semver r) (Apply [
          IsEnterprise isEnterprise,
          SetTopology ReplicaSetTopology,
          SetName (mdb_Name m),
          SetDomain domain,
          SetArbiterDomain arbiterDomain,
          SetMembers (AutomationConfigMembersThisReconciliation m),
          SetArbiters (arbitersCount m),
          SetReplicaSetHorizons (ReplicaSetHorizons (Spec m)),
          SetPreviousAutomationConfig currentAc,
          SetMongoDBVersion (Version (Spec m)),
          SetFCV (FeatureCompatibilityVersion (Spec m)),
          SetOptions ''/var/lib/mongodb-mms-automation'',
          SetAuth auth,
          SetReplicaSetId acReplicaSetId,
          SetSettings acOverrideSettings,
          SetMemberOptions (MemberConfig (Spec m)),
          SetDataDir (GetDBDataDir (r_objx r) (GetMongodConfiguration (r_iterate r) (r_objx r) m)),
          AddModifications [getMongodConfigModification (r_mergo r) m],
          AddModifications modifications,
          AddProcessModification (\<lambda>_. ConfigureAgentConfiguration (r_objx r) (r_toFloat r) (ag_SystemLog agentConf)
            (ag_LogRotate agentConf) (ag_AuditLogRotate agentConf))]
        NewBuilder))"

text \<open>The two watches of the method below on the secrets Prometheus and the agent use.\<close>

definition prometheus_modification ::
    "('w, 'v) reconciler \<Rightarrow> mdb \<Rightarrow> ('w rstate, (automation_config \<Rightarrow> automation_config) fallible) effect" where
  "prometheus_modification r m rs =
    (case Prometheus (Spec m) of
       None \<Rightarrow> (Inr NOOP, rs)
     | Some p \<Rightarrow> eff_wrap ''could not enable TLS on Prometheus endpoint: ''
         (on_cluster (getPrometheusModification (r_client r) m))
         (watch_secret (nn (mdb_Namespace m) (skr_Name (cprom_PasswordSecretRef p))) (NamespacedName m) rs))"

definition watch_agent_certs :: "mdb \<Rightarrow> ('w rstate, unit fallible) effect" where
  "watch_agent_certs m rs =
    (Inr (), if IsAgentX509 (Spec m)
       then watch_secret (AgentCertificatePemSecretNamespacedName m) (NamespacedName m)
         (watch_secret (AgentCertificateSecretNamespacedName m) (NamespacedName m) rs)
       else rs)"

text \<open>The method of the same name.\<close>

definition reconciler_buildAutomationConfig ::
    "('w, 'v) reconciler \<Rightarrow> mdb \<Rightarrow> mdb_spec option \<Rightarrow> ('w rstate, automation_config fallible) effect" where
  "reconciler_buildAutomationConfig r m lastAppliedSpec =
    eff_bind (eff_wrap ''could not configure TLS modification: ''
        (on_cluster (getTLSConfigModification (r_objx r) (r_client r) m))) (\<lambda>tlsModification.
    eff_bind (eff_wrap ''could not read existing automation config: ''
        (on_cluster (ReadFromSecret (r_codec r) (r_client r) (ac_secret_name m)))) (\<lambda>currentAC.
    eff_bind (on_cluster (authentication_Enable (r_auth r) zero_Auth m (AgentCertificateSecretNamespacedName m))) (\<lambda>auth0.
    let auth = (case lastAppliedSpec of None \<Rightarrow> auth0 | Some lastSpec \<Rightarrow> AddRemovedUsers auth0 m lastSpec) in
    eff_bind (prometheus_modification r m) (\<lambda>prometheusModification.
    eff_bind (watch_agent_certs m) (\<lambda>_.
    eff_bind (on_cluster (createProcessPortManager r m)) (\<lambda>processPortManager.
    eff_bind (eff_wrap ''could not create an automation config: '' (eff_lift
        (buildAutomationConfig r m (guessEnterprise (be_getenv (r_build r)) m (r_mongodbImage r)) auth currentAC
          [tlsModification, getCustomRolesModification m, prometheusModification,
           GetPortsModification (r_iterate r) (r_objx r) processPortManager]))) (\<lambda>automationConfig.
    eff_return (case AutomationConfigOverride (Spec m) of
       None \<Rightarrow> automationConfig
     | Some override \<Rightarrow> AutomationConfigs automationConfig (OverrideToAutomationConfig (r_toFloat r) override)))))))))"

definition ensureAutomationConfig ::
    "('w, 'v) reconciler \<Rightarrow> mdb \<Rightarrow> mdb_spec option \<Rightarrow> ('w rstate, automation_config fallible) effect" where
  "ensureAutomationConfig r m lastAppliedSpec =
    eff_bind (eff_wrap ''could not build automation config: '' (reconciler_buildAutomationConfig r m lastAppliedSpec)) (\<lambda>ac.
    on_cluster (EnsureSecret (r_codec r) (r_client r) (ac_secret_name m) (GetOwnerReferences m) ac))"

text \<open>\<open>GetStatefulSet\<close> returns an empty StatefulSet with an error.  The code tests the error
  of the later call for \<open>NotFound\<close>, which is \<open>nil\<close> there, so that branch is never taken.\<close>

definition sts_or_zero :: "statefulset fallible \<Rightarrow> statefulset" where
  "sts_or_zero res = (case res of Inr sts \<Rightarrow> sts | Inl _ \<Rightarrow> zero_statefulset)"

definition wait_for_agents ::
    "('w, 'v) reconciler \<Rightarrow> mdb \<Rightarrow> statefulset \<Rightarrow> automation_config \<Rightarrow> ('w rstate, bool fallible) effect" where
  "wait_for_agents r m sts ac rs =
    (if isPreReadinessInitContainerStatefulSet sts then (Inr True, rs)
     else (wrap_err ''failed to ensure agents have reached goal state: ''
       (AllReachedGoalState (read_pods r (rs_cluster rs)) (r_toInt r) (sts_key sts)
         (StatefulSetReplicasThisReconciliation m) (ac_Version ac)), rs))"

definition deployAutomationConfig ::
    "('w, 'v) reconciler \<Rightarrow> mdb \<Rightarrow> mdb_spec option \<Rightarrow> ('w rstate, bool fallible) effect" where
  "deployAutomationConfig r m lastAppliedSpec rs =
    (let deploy = (\<lambda>sts. eff_bind (eff_wrap ''failed to ensure AutomationConfig: ''
           (ensureAutomationConfig r m lastAppliedSpec)) (wait_for_agents r m sts))
     in case on_cluster (GetStatefulSet (r_client r) (NamespacedName m)) rs of
          (Inr sts, rs1) \<Rightarrow> deploy sts rs1
        | (Inl err, rs1) \<Rightarrow>
            if err_not_found err then deploy zero_statefulset rs1
            else (Inl (errorf (''failed to get StatefulSet: '' @ err_msg err)), rs1))"

subsection \<open>Reconciliation\<close>

definition run_order :: "mdb \<Rightarrow> statefulset fallible \<Rightarrow> bool" where
  "run_order m res =
    (let sts = sts_or_zero res; tls = tls_Enabled (spec_tls m)
     in if \<not> IsReady sts (StatefulSetReplicasThisReconciliation m) \<and> tls then True
        else if \<not> isl res \<and> tls then False
        else if IsScalingUp (mdb_scaler m) \<or> CurrentArbiters m < DesiredArbiters m then HasZeroReplicas (mdb_scaler m)
        else if IsScalingDown (mdb_scaler m) then True
        else \<not> IsChangingVersion m)"

definition shouldRunInOrder :: "('w, 'v) reconciler \<Rightarrow> mdb \<Rightarrow> ('w rstate, bool) effect" where
  "shouldRunInOrder r m rs =
    (case on_cluster (GetStatefulSet (r_client r) (NamespacedName m)) rs of (res, rs1) \<Rightarrow> (run_order m res, rs1))"

definition as_step :: "('w, bool fallible) effect \<Rightarrow> 'w step_fn" where
  "as_step f w = (case f w of (Inl err, w1) \<Rightarrow> ((False, Some err), w1) | (Inr b, w1) \<Rightarrow> ((b, None), w1))"

definition deployMongoDBReplicaSet :: "('w, 'v) reconciler \<Rightarrow> mdb \<Rightarrow> mdb_spec option \<Rightarrow> 'w rstate step_fn" where
  "deployMongoDBReplicaSet r m lastAppliedSpec rs =
    (case shouldRunInOrder r m rs of (inOrder, rs1) \<Rightarrow>
       RunSequentially inOrder [as_step (deployAutomationConfig r m lastAppliedSpec),
         as_step (on_cluster (deployStatefulSet r m))] rs1)"

text \<open>\<open>status.Update\<close> from the reconciler.\<close>

definition update_status ::
    "('w, 'v) reconciler \<Rightarrow> mdb \<Rightarrow> optionBuilder \<Rightarrow> ('w rstate, (reconcile_result \<times> go_error option) \<times> mdb) effect" where
  "update_status r m options = on_cluster (status_Update_options (r_client r) m options)"

definition report :: "('w, 'v) reconciler \<Rightarrow> mdb \<Rightarrow> optionBuilder \<Rightarrow> ('w rstate, reconcile_result \<times> go_error option) effect" where
  "report r m options rs = (case update_status r m options rs of ((res, _), rs1) \<Rightarrow> (res, rs1))"

definition failed_options :: "string \<Rightarrow> go_error \<Rightarrow> optionBuilder" where
  "failed_options prefix err = withFailedPhase (withMessage Error (prefix @ err_msg err) statusOptions)"

definition pending_options :: "string \<Rightarrow> optionBuilder" where
  "pending_options msg = withPendingPhase 10 (withMessage Info msg statusOptions)"

text \<open>The guard of every step before the deployment: an error ends the reconciliation with the
  phase \<open>Failed\<close>.\<close>

definition or_fail ::
    "('w, 'v) reconciler \<Rightarrow> mdb \<Rightarrow> string \<Rightarrow> ('w rstate, 'a fallible) effect
      \<Rightarrow> ('a \<Rightarrow> ('w rstate, reconcile_result \<times> go_error option) effect)
      \<Rightarrow> ('w rstate, reconcile_result \<times> go_error option) effect" where
  "or_fail r m prefix act next' rs =
    (case act rs of
       (Inl err, rs1) \<Rightarrow> report r m (failed_options prefix err) rs1
     | (Inr x, rs1) \<Rightarrow> next' x rs1)"

definition scaling_options :: "mdb \<Rightarrow> optionBuilder" where
  "scaling_options m = withPendingPhase 10
    (withMongoDBArbiters (AutomationConfigArbitersThisReconciliation m)
    (withStatefulSetArbiters (StatefulSetArbitersThisReconciliation m)
    (withStatefulSetReplicas (StatefulSetReplicasThisReconciliation m)
    (withMessage Info (''Performing scaling operation, currentMembers='' @ itoa (CurrentReplicas (mdb_scaler m))
       @ '', desiredMembers='' @ itoa (DesiredReplicas (mdb_scaler m)))
    (withMongoDBMembers (AutomationConfigMembersThisReconciliation m) statusOptions)))))"

definition running_options :: "('w, 'v) reconciler \<Rightarrow> mdb \<Rightarrow> optionBuilder" where
  "running_options r m = withVersion (GetMongoDBVersion m)
    (withRunningPhase
    (withMessage NoSeverity ''''
    (withMongoDBArbiters (AutomationConfigArbitersThisReconciliation m)
    (withStatefulSetArbiters (StatefulSetArbitersThisReconciliation m)
    (withStatefulSetReplicas (StatefulSetReplicasThisReconciliation m)
    (withMongoDBMembers (AutomationConfigMembersThisReconciliation m)
    (withMongoURI (mdb_MongoURI (r_iterate r) (r_fmt_g r) (r_objx r) m (r_Getenv r clusterDomain)) statusOptions)))))))"

definition cleanup_resources :: "('w, 'v) reconciler \<Rightarrow> mdb \<Rightarrow> mdb_spec \<Rightarrow> 'w \<Rightarrow> 'w" where
  "cleanup_resources r m lastSpec w =
    cleanupConnectionStringSecrets (env_dns (r_auth r)) (r_client r) (Spec m) lastSpec (mdb_Namespace m) (mdb_Name m)
      (cleanupPemSecret (r_client r) (Spec m) lastSpec (mdb_Namespace m)
        (cleanupScramSecrets (r_client r) (Spec m) lastSpec (mdb_Namespace m) w))"

text \<open>The end of \<open>Reconcile\<close> for a resource that is deployed and not scaling: errors after the
  status was written are only logged.\<close>

definition finish :: "('w, 'v) reconciler \<Rightarrow> mdb \<Rightarrow> mdb_spec option \<Rightarrow> ('w rstate, reconcile_result \<times> go_error option) effect" where
  "finish r m lastAppliedSpec rs =
    (case update_status r m (running_options r m) rs of
       (((res, Some err), _), rs1) \<Rightarrow> ((res, Some err), rs1)
     | (((res, None), m'), rs1) \<Rightarrow>
         (let rs2 = snd (updateConnectionStringSecrets (env_dns (r_auth r)) (r_iterate r) (r_fmt_g r) (r_objx r) (r_client r)
                m' (r_Getenv r clusterDomain) rs1);
              rs3 = (case lastAppliedSpec of None \<Rightarrow> rs2
                | Some lastSpec \<Rightarrow> rs2\<lparr>rs_cluster := cleanup_resources r m' lastSpec (rs_cluster rs2)\<rparr>);
              rs4 = snd (on_cluster (updateLastSuccessfulConfiguration r m') rs3)
          in ((res, None), rs4)))"

definition fallible_step :: "'w step_fn \<Rightarrow> ('w, bool fallible) effect" where
  "fallible_step f w = (case f w of ((b, None), w1) \<Rightarrow> (Inr b, w1) | ((_, Some err), w1) \<Rightarrow> (Inl err, w1))"

text \<open>What follows the check that all members and agents are ready.\<close>

definition after_deploy :: "('w, 'v) reconciler \<Rightarrow> mdb \<Rightarrow> mdb_spec option \<Rightarrow> bool \<Rightarrow> ('w rstate, reconcile_result \<times> go_error option) effect" where
  "after_deploy r m lastAppliedSpec ready =
    (if \<not> ready then report r m (pending_options ''ReplicaSet is not yet ready, retrying in 10 seconds'')
     else or_fail r m ''Error resetting StatefulSet UpdateStrategyType: '' (on_cluster (ResetUpdateStrategy (r_client r) m)) (\<lambda>_.
       if mdb_IsStillScaling m then report r m (scaling_options m) else finish r m lastAppliedSpec))"

definition reconcile_resource :: "('w, 'v) reconciler \<Rightarrow> mdb \<Rightarrow> ('w rstate, reconcile_result \<times> go_error option) effect" where
  "reconcile_resource r m =
    or_fail r m ''error validating new Spec: '' (eff_lift (validateSpec r m)) (\<lambda>lastAppliedSpec.
    or_fail r m ''Error ensuring the service (members) exists: '' (on_cluster (ensureService r m)) (\<lambda>_.
    or_fail r m ''Error validating TLS config: '' (validateTLSConfig (r_client r) m) (\<lambda>isTLSValid.
    if \<not> isTLSValid then report r m (pending_options ''TLS config is not yet valid, retrying in 10 seconds'')
    else
    or_fail r m ''Error ensuring TLS resources: '' (on_cluster (ensureTLSResources (r_client r) m)) (\<lambda>_.
    or_fail r m ''Error ensuring TLS resources: '' (on_cluster (ensurePrometheusTLSResources (r_client r) m)) (\<lambda>_.
    or_fail r m ''Error ensuring User config: '' (ensureUserResources (env_dns (r_auth r)) (r_client r) m) (\<lambda>_.
    or_fail r m ''Error deploying MongoDB ReplicaSet: '' (fallible_step (deployMongoDBReplicaSet r m lastAppliedSpec))
      (after_deploy r m lastAppliedSpec)))))))"

definition Reconcile :: "('w, 'v) reconciler \<Rightarrow> nsname \<Rightarrow> ('w rstate, reconcile_result \<times> go_error option) effect" where
  "Reconcile r request rs =
    (case on_cluster (api_Get (mongodbs_api (r_client r)) request) rs of
       (Inl err, rs1) \<Rightarrow> (if err_not_found err then result_OK else result_Failed, rs1)
     | (Inr m, rs1) \<Rightarrow> reconcile_resource r m rs1)"

end
