(* ===== verification/Deployment.thy ===== *)
theory Deployment
  imports Controller
begin

text \<open>
  What a reconciliation guarantees: the order of the automation config and the StatefulSet,
  rejected specs, and the record of the last successful configuration.

  The locale \<open>secret_frame\<close> says which calls leave an observation of the cluster alone; the
  components that only use those calls are shown to leave it alone too.
\<close>

subsection \<open>Components that only touch secrets\<close>

locale secret_frame =
  fixes env :: "'w auth_env" and obs :: "'w \<Rightarrow> 'b"
  assumes get: "preserves obs (api_Get (secrets_api (env_client env)) k)"
    and create: "preserves obs (api_Create (secrets_api (env_client env)) s)"
    and update: "preserves obs (api_Update (secrets_api (env_client env)) s)"
    and get_cm: "preserves obs (api_Get (configMaps_api (env_client env)) k)"
    and rand: "preserves obs (env_rand env n)"
begin

abbreviation "c \<equiv> env_client env"

lemma base:
  "preserves obs (GetSecret c k)" "preserves obs (CreateSecret c s)" "preserves obs (UpdateSecret c s)"
  "preserves obs (GetConfigMap c k)"
  using get create preservesI[of "UpdateSecret c s" obs] preservesD[OF update] get_cm
  by (fastforce simp: client_defs split: prod.splits)+

lemma ReadStringData: "preserves obs (ReadStringData c k)"
  by (rule preservesI) (auto simp: ReadStringData_def dest!: preservesD[OF base(1)] split: prod.splits sum.splits)

lemma ReadKey: "preserves obs (secret_ReadKey c key k)"
  by (rule preservesI) (auto simp: secret_ReadKey_def dest!: preservesD[OF ReadStringData]
      split: prod.splits sum.splits option.splits)

lemma CreateOrUpdate: "preserves obs (secret_CreateOrUpdate c s)"
  by (rule preservesI) (auto simp: secret_CreateOrUpdate_def dest!: preservesD[OF base(2)] preservesD[OF base(3)]
      split: prod.splits option.splits if_splits)

lemma EnsureSecretWithKey: "preserves obs (EnsureSecretWithKey c k refs key v)"
  by (rule preservesI) (auto simp: EnsureSecretWithKey_def Let_def dest!: preservesD[OF base(1)] preservesD[OF base(2)]
      split: prod.splits sum.splits option.splits if_splits)

lemma ReadFromSecret: "preserves obs (ReadFromSecret cd c k)"
  by (rule preservesI) (auto simp: ReadFromSecret_def dest!: preservesD[OF base(1)]
      split: prod.splits sum.splits if_splits)

lemma update_ac_secret: "preserves obs (update_ac_secret cd c k s ac)"
  by (rule preservesI) (auto simp: update_ac_secret_def dest!: preservesD[OF base(3)] split: prod.splits option.splits)

lemma create_ac_secret: "preserves obs (createNewAutomationConfigSecret cd c k refs ac)"
  by (rule preservesI) (auto simp: createNewAutomationConfigSecret_def Let_def dest!: preservesD[OF base(2)]
      split: prod.splits option.splits)

lemma EnsureSecret: "preserves obs (EnsureSecret cd c k refs ac)"
  by (rule preservesI) (auto simp: EnsureSecret_def dest!: preservesD[OF base(1)] preservesD[OF update_ac_secret]
      preservesD[OF create_ac_secret] split: prod.splits sum.splits option.splits if_splits)

lemma random:
  "preserves obs (Salts (env_rand env))" "preserves obs (KeyFileContents (env_rand env))"
  "preserves obs (RandomFixedLengthStringOfSize (env_rand env) n)"
proof -
  have string: "preserves obs (generateRandomString (env_rand env) n)" for n
    unfolding generateRandomString_def generateRandomBytes_def by (auto intro!: preserves_intros rand)
  have bytes: "preserves obs (RandomFixedLengthStringOfSize (env_rand env) n)" for n
    by (rule preservesI) (auto simp: RandomFixedLengthStringOfSize_def generateRandomBytes_def
      dest!: preservesD[OF rand] split: prod.splits sum.splits)
  show "preserves obs (Salts (env_rand env))"
    unfolding Salts_def generate_salt_def by (auto intro!: preserves_intros bytes)
  show "preserves obs (KeyFileContents (env_rand env))"
    "preserves obs (RandomFixedLengthStringOfSize (env_rand env) n)"
    unfolding KeyFileContents_def by (rule string bytes)+
qed

lemma readExistingCredentials: "preserves obs (readExistingCredentials env n name)"
  unfolding readExistingCredentials_def Let_def by (auto intro!: preserves_intros base)

lemma needToGenerate: "preserves obs (needToGenerateNewCredentials env u name n p)"
proof (rule preservesI)
  fix w x w'
  assume run: "needToGenerateNewCredentials env u name n p w = (x, w')"
  have rest: "preserves obs (eff_bind (eff_lift a) (\<lambda>y. eff_bind (eff_lift b) (\<lambda>z. eff_bind (eff_lift (f y z)) (\<lambda>(s1, s2).
      eff_bind (readExistingCredentials env n name) (\<lambda>(e1, e2). eff_return (g s1 s2 e1 e2))))))" for a b f g
    by (auto intro!: preserves_intros readExistingCredentials)
  show "obs w' = obs w"
    using run by (auto simp: needToGenerateNewCredentials_def dest!: preservesD[OF base(1)] preservesD[OF rest]
      split: prod.splits sum.splits if_splits)
qed

lemma ensureScramCredentials: "preserves obs (ensureScramCredentials env u n refs)"
proof -
  have "preserves obs (ensure_with_password env u n refs p)" for p
    unfolding ensure_with_password_def generateScramShaCredentials_def createScramCredentialsSecret_def
    by (auto intro!: preserves_intros needToGenerate readExistingCredentials random CreateOrUpdate)
  from preservesD[OF this] show ?thesis
    by (intro preservesI) (auto simp: ensureScramCredentials_def dest!: preservesD[OF ReadKey]
      preservesD[OF readExistingCredentials] split: prod.splits sum.splits if_splits)
qed

lemma scram_Enable: "preserves obs (scram_Enable env auth m)"
  unfolding scram_Enable_def Let_def scram_convertMongoDBResourceUsersToAutomationConfigUsers_def
    scram_convertMongoDBUserToAutomationConfigUser_def scram_ensureAgent_def
  by (auto intro!: preserves_intros ensureScramCredentials EnsureSecretWithKey random)

lemma x509_Enable: "preserves obs (x509_Enable env auth m k)"
  unfolding x509_Enable_def Let_def x509_ensureAgent_def
  by (auto intro!: preserves_intros EnsureSecretWithKey ReadKey random)

lemma authentication_Enable: "preserves obs (authentication_Enable env auth m k)"
proof -
  have "preserves obs (enable_loop env m k modes b auth)" for modes b auth
    by (induction modes arbitrary: b auth) (auto intro!: preserves_intros scram_Enable x509_Enable)
  then show ?thesis by (simp add: authentication_Enable_def)
qed

lemma getPemOr: "preserves obs (getPemOrConcatenatedCrtAndKey c k)"
  by (rule preservesI) (auto simp: getPemOrConcatenatedCrtAndKey_def getCertAndKey_def getPem_def
      dest!: preservesD[OF ReadKey] split: prod.splits sum.splits)

lemma getCaCrt: "preserves obs (getCaCrt c m)"
proof -
  have "preserves obs (ReadData c k)" for k
    by (rule preservesI) (auto simp: ReadData_def dest!: preservesD[OF base(4)] split: prod.splits sum.splits)
  then show ?thesis
    unfolding getCaCrt_def Let_def by (auto intro!: preserves_intros ReadStringData split: option.split)
qed

lemma getTLSConfigModification: "preserves obs (getTLSConfigModification ox c m)"
  unfolding getTLSConfigModification_def by (auto intro!: preserves_intros getCaCrt getPemOr)

lemma getPrometheusModification: "preserves obs (getPrometheusModification c m)"
  unfolding getPrometheusModification_def by (auto intro!: preserves_intros ReadKey getPemOr split: option.split)

end

subsection \<open>Order of deployment\<close>

lemma preserves_on_cluster [preserves_intros]:
  "preserves obs m \<Longrightarrow> preserves (\<lambda>rs. obs (rs_cluster rs)) (on_cluster m)"
  by (rule preservesI) (auto simp: on_cluster_def dest!: preservesD split: prod.splits)

lemma watch_cluster [simp]:
  "rs_cluster (watch_secret a d rs) = rs_cluster rs" "rs_cluster (watch_configmap a d rs) = rs_cluster rs"
  by (simp_all add: watch_secret_def watch_configmap_def)

text \<open>A ready automation config: the agents of the existing StatefulSet, if there is one, have
  reached its version.\<close>

definition agents_ready :: "('w, 'v) reconciler \<Rightarrow> ('w \<Rightarrow> nsname \<Rightarrow> statefulset option) \<Rightarrow> mdb \<Rightarrow> 'w \<Rightarrow> automation_config \<Rightarrow> bool" where
  "agents_ready r sets m w ac = (case sets w (NamespacedName m) of
      None \<Rightarrow> True
    | Some sts \<Rightarrow> isPreReadinessInitContainerStatefulSet sts \<or>
        AllReachedGoalState (read_pods r w) (r_toInt r) (sts_key sts)
          (StatefulSetReplicasThisReconciliation m) (ac_Version ac) = Inr True)"

text \<open>Everything the automation config step does leaves such an observation alone.\<close>

locale config_frame = secret_frame "r_auth r" obs for r :: "('w, 'v) reconciler" and obs :: "'w \<Rightarrow> 'b" +
  assumes get_set: "preserves obs (api_Get (statefulSets_api (r_client r)) k)"
begin

abbreviation "obs_rs \<equiv> \<lambda>rs. obs (rs_cluster rs)"

lemma GetStatefulSet_frame: "preserves obs (GetStatefulSet (r_client r) k)"
  unfolding GetStatefulSet_def by (rule get_set)

lemma createProcessPortManager: "preserves obs (createProcessPortManager r m)"
  unfolding createProcessPortManager_def
  by (intro preserves_intros ReadFromSecret preservesI) (auto split: sum.splits)

lemma prometheus_modification: "preserves obs_rs (prometheus_modification r m)"
proof (rule preservesI)
  fix rs x rs'
  assume run: "prometheus_modification r m rs = (x, rs')"
  have "preserves obs_rs (eff_wrap msg (on_cluster (getPrometheusModification c m)))" for msg
    by (intro preserves_intros getPrometheusModification)
  from preservesD[OF this] show "obs_rs rs' = obs_rs rs"
    using run by (fastforce simp: prometheus_modification_def split: option.splits)
qed

lemma ensureAutomationConfig: "preserves obs_rs (ensureAutomationConfig r m lastSpec)"
proof -
  have "preserves obs_rs (watch_agent_certs m)" by (simp add: preserves_def watch_agent_certs_def)
  then show ?thesis
    unfolding ensureAutomationConfig_def reconciler_buildAutomationConfig_def Let_def
    by (intro preserves_intros getTLSConfigModification ReadFromSecret authentication_Enable
        prometheus_modification createProcessPortManager EnsureSecret)
qed

lemma wait_for_agents: "preserves obs_rs (wait_for_agents r m sts ac)"
  by (auto simp: preserves_def wait_for_agents_def)

lemma deployAutomationConfig: "preserves obs_rs (deployAutomationConfig r m lastSpec)"
proof (rule preservesI)
  fix rs x rs'
  assume run: "deployAutomationConfig r m lastSpec rs = (x, rs')"
  have rest: "preserves obs_rs (eff_bind (eff_wrap msg (ensureAutomationConfig r m lastSpec)) (wait_for_agents r m sts))" for msg sts
    by (intro preserves_intros ensureAutomationConfig wait_for_agents)
  show "obs_rs rs' = obs_rs rs"
    using run unfolding deployAutomationConfig_def Let_def
    by (auto dest!: preservesD[OF preserves_on_cluster[OF GetStatefulSet_frame]] preservesD[OF rest]
        split: prod.splits sum.splits if_splits)
qed

lemma shouldRunInOrder: "preserves obs_rs (shouldRunInOrder r m)"
  by (rule preservesI, auto simp: shouldRunInOrder_def
      dest!: preservesD[OF preserves_on_cluster[OF GetStatefulSet_frame]] split: prod.splits)

end

lemma wait_for_agents_True:
  "wait_for_agents r m sts ac rs = (Inr True, rs') \<longleftrightarrow> rs' = rs \<and> (isPreReadinessInitContainerStatefulSet sts \<or>
     AllReachedGoalState (read_pods r (rs_cluster rs)) (r_toInt r) (sts_key sts)
       (StatefulSetReplicasThisReconciliation m) (ac_Version ac) = Inr True)"
  by (auto simp: wait_for_agents_def)

locale deployment = config_frame r sets for r :: "('w, 'v) reconciler" and sets :: "'w \<Rightarrow> nsname \<Rightarrow> statefulset option" +
  fixes secrets :: "'w \<Rightarrow> nsname \<Rightarrow> secret option" and created :: "statefulset \<Rightarrow> statefulset fallible"
  assumes store: "object_store (statefulSets_api (r_client r)) sts_key sets created err_not_found"
    and get_sts: "preserves secrets (api_Get (statefulSets_api (r_client r)) k)"
    and create_sts: "preserves secrets (api_Create (statefulSets_api (r_client r)) s)"
    and update_sts: "preserves secrets (api_Update (statefulSets_api (r_client r)) s)"
begin

lemma GetStatefulSet_Inr: "GetStatefulSet (r_client r) k w = (Inr s, w1) \<Longrightarrow> sets w k = Some s \<and> sets w1 = sets w"
  unfolding GetStatefulSet_def by (rule object_store.get_ok[OF store])

lemma deployAutomationConfig_True:
  assumes "deployAutomationConfig r m lastSpec rs = (Inr True, rs')"
  obtains ac rs1 where "ensureAutomationConfig r m lastSpec rs1 = (Inr ac, rs')" and "agents_ready r sets m (rs_cluster rs') ac"
proof -
  obtain res rs1 where get: "on_cluster (GetStatefulSet c (NamespacedName m)) rs = (res, rs1)" by fastforce
  then obtain w1 where get': "GetStatefulSet c (NamespacedName m) (rs_cluster rs) = (res, w1)" "rs1 = rs\<lparr>rs_cluster := w1\<rparr>"
    by (auto simp: on_cluster_def split: prod.splits)
  let ?sts = "sts_or_zero res"
  have "eff_bind (eff_wrap ''failed to ensure AutomationConfig: '' (ensureAutomationConfig r m lastSpec))
      (wait_for_agents r m ?sts) rs1 = (Inr True, rs')"
    using assms get by (auto simp: deployAutomationConfig_def Let_def sts_or_zero_def split: sum.splits if_splits)
  then obtain ac where run: "ensureAutomationConfig r m lastSpec rs1 = (Inr ac, rs')"
      "isPreReadinessInitContainerStatefulSet ?sts \<or> AllReachedGoalState (read_pods r (rs_cluster rs')) (r_toInt r) (sts_key ?sts)
         (StatefulSetReplicasThisReconciliation m) (ac_Version ac) = Inr True"
    by (auto simp: eff_bind_Inr_iff wait_for_agents_True)
  have sets: "obs_rs rs' = sets (rs_cluster rs)"
    using preservesD[OF ensureAutomationConfig run(1)] preservesD[OF GetStatefulSet_frame get'(1)] get'(2) by simp
  have "agents_ready r sets m (rs_cluster rs') ac"
  proof (cases res)
    case (Inl err)
    then have "err_not_found err" using assms get by (auto simp: deployAutomationConfig_def Let_def split: if_splits)
    then have "sets (rs_cluster rs) (NamespacedName m) = None"
      using object_store.get_err[OF store] get'(1) Inl by (simp add: GetStatefulSet_def)
    then show ?thesis by (simp add: agents_ready_def sets)
  next
    case (Inr sts)
    then show ?thesis using run(2) GetStatefulSet_Inr get'(1) by (simp add: agents_ready_def sets sts_or_zero_def)
  qed
  with run(1) show thesis by (rule that)
qed

lemma sts_secrets: "preserves secrets (GetStatefulSet c k)" "preserves secrets (sts_CreateOrUpdate c s)"
proof -
  show "preserves secrets (GetStatefulSet c k)" using get_sts by (simp add: GetStatefulSet_def)
  show "preserves secrets (sts_CreateOrUpdate c s)"
    by (rule preservesI) (auto simp: sts_CreateOrUpdate_def UpdateStatefulSet_def CreateStatefulSet_def
        dest!: preservesD[OF create_sts] preservesD[OF update_sts] split: prod.splits option.splits if_splits)
qed

lemma createOrUpdateStatefulSet: "preserves secrets (createOrUpdateStatefulSet r m isArbiter)"
proof (rule preservesI)
  fix w x w'
  assume run: "createOrUpdateStatefulSet r m isArbiter w = (x, w')"
  have "preserves secrets (eff_bind (eff_wrap msg (sts_CreateOrUpdate c s)) (\<lambda>_. eff_return ()))" for msg s
    by (intro preserves_intros sts_secrets)
  from preservesD[OF this] show "secrets w' = secrets w"
    using run unfolding createOrUpdateStatefulSet_def Let_def
    by (auto dest!: preservesD[OF get_sts] split: prod.splits sum.splits if_splits)
qed

lemma deployStatefulSet: "preserves secrets (deployStatefulSet r m)"
  unfolding deployStatefulSet_def by (intro preserves_intros createOrUpdateStatefulSet sts_secrets)

lemma deployStatefulSet_True:
  assumes "deployStatefulSet r m w = (Inr True, w')"
  obtains sts where "sets w' (NamespacedName m) = Some sts"
    and "IsReady sts (StatefulSetReplicasThisReconciliation m) \<or> stss_UpdateStrategyType (sts_Spec sts) = ''OnDelete''"
  using assms GetStatefulSet_Inr by (fastforce simp: deployStatefulSet_def eff_bind_Inr_iff)

lemma as_step_eq: "as_step f w = ((b, err), w') \<longleftrightarrow>
  (case err of None \<Rightarrow> f w = (Inr b, w') | Some e \<Rightarrow> \<not> b \<and> f w = (Inl e, w'))"
  by (auto simp: as_step_def split: prod.splits sum.splits option.splits)

text \<open>The two orders.\<close>

lemma in_order_cases:
  assumes "RunSequentially True [f, g] w = (x, w')"
  shows "(\<exists>x1. f w = (x1, w')) \<or> (\<exists>w1 x2. f w = ((True, None), w1) \<and> g w1 = (x2, w'))"
  using assms by (auto simp: RunSequentially_def split: prod.splits option.splits if_splits)

lemma reversed_cases:
  assumes "RunSequentially False [f, g] w = (x, w')"
  shows "(\<exists>x1. g w = (x1, w')) \<or> (\<exists>w1 x2. g w = ((True, None), w1) \<and> f w1 = (x2, w'))"
  using assms by (auto simp: RunSequentially_def runReversed_def numeral_2_eq_2 split: prod.splits option.splits if_splits)

lemma run_secrets: "preserves (\<lambda>rs. secrets (rs_cluster rs)) (shouldRunInOrder r m)"
  by (rule preservesI, auto simp: shouldRunInOrder_def
      dest!: preservesD[OF preserves_on_cluster[OF sts_secrets(1)]] split: prod.splits)

lemma deploy_run:
  assumes "deployMongoDBReplicaSet r m lastSpec rs = (out, rs')"
  obtains rs0 where "shouldRunInOrder r m rs = (fst (shouldRunInOrder r m rs), rs0)"
    and "obs_rs rs0 = obs_rs rs" and "secrets (rs_cluster rs0) = secrets (rs_cluster rs)"
    and "RunSequentially (fst (shouldRunInOrder r m rs)) [as_step (deployAutomationConfig r m lastSpec),
           as_step (on_cluster (deployStatefulSet r m))] rs0 = (out, rs')"
proof -
  obtain b rs0 where run: "shouldRunInOrder r m rs = (b, rs0)" by fastforce
  then show thesis
    using that[of rs0] assms preservesD[OF shouldRunInOrder run] preservesD[OF run_secrets run]
    by (simp add: deployMongoDBReplicaSet_def)
qed

lemma deploySts_step: "as_step (on_cluster (deployStatefulSet r m)) rs = (x, rs') \<Longrightarrow>
    secrets (rs_cluster rs') = secrets (rs_cluster rs)"
  using preservesD[OF preserves_on_cluster[OF deployStatefulSet]]
  by (auto simp: as_step_def split: prod.splits sum.splits)

lemma deployAC_step: "as_step (deployAutomationConfig r m lastSpec) rs = (x, rs') \<Longrightarrow> obs_rs rs' = obs_rs rs"
  using preservesD[OF deployAutomationConfig] by (auto simp: as_step_def split: prod.splits sum.splits)

lemma statefulset_waits:
  assumes "fst (shouldRunInOrder r m rs)" and "deployMongoDBReplicaSet r m lastSpec rs = (out, rs')"
    and "obs_rs rs' \<noteq> obs_rs rs"
  shows "\<exists>ac rs1 rs2. ensureAutomationConfig r m lastSpec rs1 = (Inr ac, rs2) \<and>
     agents_ready r sets m (rs_cluster rs2) ac \<and> obs_rs rs2 = obs_rs rs \<and>
     secrets (rs_cluster rs') = secrets (rs_cluster rs2)"
proof (cases rule: deploy_run[OF assms(2)])
  case (1 rs0)
  then obtain rs2 x2 where ac: "as_step (deployAutomationConfig r m lastSpec) rs0 = ((True, None), rs2)"
      and sts: "as_step (on_cluster (deployStatefulSet r m)) rs2 = (x2, rs')"
    using in_order_cases[of "as_step (deployAutomationConfig r m lastSpec)"] deployAC_step assms(1,3) by (metis (full_types))
  from ac have "deployAutomationConfig r m lastSpec rs0 = (Inr True, rs2)" by (simp add: as_step_eq)
  then obtain ac' rs1 where "ensureAutomationConfig r m lastSpec rs1 = (Inr ac', rs2)" "agents_ready r sets m (rs_cluster rs2) ac'"
    by (rule deployAutomationConfig_True)
  then show ?thesis using deploySts_step[OF sts] deployAC_step[OF ac] 1(2) by metis
qed

lemma config_waits:
  assumes "\<not> fst (shouldRunInOrder r m rs)" and "deployMongoDBReplicaSet r m lastSpec rs = (out, rs')"
    and "secrets (rs_cluster rs') \<noteq> secrets (rs_cluster rs)"
  shows "\<exists>sts. sets (rs_cluster rs') (NamespacedName m) = Some sts \<and>
    (IsReady sts (StatefulSetReplicasThisReconciliation m) \<or> stss_UpdateStrategyType (sts_Spec sts) = ''OnDelete'')"
proof (cases rule: deploy_run[OF assms(2)])
  case (1 rs0)
  then obtain rs2 x2 where sts: "as_step (on_cluster (deployStatefulSet r m)) rs0 = ((True, None), rs2)"
      and ac: "as_step (deployAutomationConfig r m lastSpec) rs2 = (x2, rs')"
    using reversed_cases[of "as_step (deployAutomationConfig r m lastSpec)"] deploySts_step assms(1,3) by (metis (full_types))
  from sts have "deployStatefulSet r m (rs_cluster rs0) = (Inr True, rs_cluster rs2)"
    by (auto simp: as_step_eq on_cluster_def split: prod.splits)
  then show ?thesis by (rule deployStatefulSet_True) (use deployAC_step[OF ac] in auto)
qed

end

text \<open>Scaling up with TLS enabled: the StatefulSet is not ready for the number of replicas aimed
  at, its first pod exists and the last one does not.\<close>

definition tls_scale_up_pending ::
    "('w, 'v) reconciler \<Rightarrow> ('w \<Rightarrow> nsname \<Rightarrow> statefulset option) \<Rightarrow> mdb \<Rightarrow> 'w \<Rightarrow> bool" where
  "tls_scale_up_pending r sets m w =
    (let n = StatefulSetReplicasThisReconciliation m
     in tls_Enabled (spec_tls m) \<and> 2 \<le> n \<and> n < 2 ^ 31 \<and>
        (case sets w (NamespacedName m) of
           None \<Rightarrow> False
         | Some sts \<Rightarrow> \<not> isPreReadinessInitContainerStatefulSet sts \<and> \<not> IsReady sts n \<and>
             \<not> pod_missing (read_pods r w) (hd (member_pods (sts_key sts) n)) \<and>
             pod_missing (read_pods r w) (last (member_pods (sts_key sts) n))))"

lemma mixed_pods_not_ready:
  assumes "2 \<le> n" and "\<not> pod_missing getPod (hd (member_pods sts n))" and "pod_missing getPod (last (member_pods sts n))"
  shows "AllReachedGoalState getPod toInt sts n t \<noteq> Inr True"
proof -
  have ne: "member_pods sts n \<noteq> []" using assms(1) by (simp add: member_pods_def)
  have "\<not> list_all (pod_missing getPod) (member_pods sts n)"
    using assms(2) hd_in_set[OF ne] by (auto simp: list_all_iff)
  moreover have "\<not> pod_at_goal getPod toInt t (last (member_pods sts n))"
    using assms(3) by (auto simp: pod_missing_def pod_at_goal_def split: sum.splits)
  then have "\<not> list_all (pod_at_goal getPod toInt t) (member_pods sts n)"
    using last_in_set[OF ne] by (auto simp: list_all_iff)
  ultimately show ?thesis
    using AllReachedGoalState_cases[of n getPod sts toInt t] assms(1) by (auto split: if_splits)
qed

lemma zero_not_ready: "0 < n \<Longrightarrow> n < 2 ^ 31 \<Longrightarrow> \<not> IsReady zero_statefulset n"
proof -
  assume "0 < n" "n < 2 ^ 31"
  then have "uint (word_of_int n :: 32 word) = n" by (simp add: uint_word_of_int take_bit_int_eq_self)
  then have "(word_of_int n :: 32 word) \<noteq> 0" using \<open>0 < n\<close> by auto
  then show ?thesis by (simp add: IsReady_def zero_statefulset_def)
qed

locale deployment_with_pods = deployment r sets secrets created + pods: config_frame r "read_pods r"
  for r :: "('w, 'v) reconciler" and sets secrets created
begin

lemma scale_up_stuck:
  assumes "tls_scale_up_pending r sets m (rs_cluster rs)" and "deployMongoDBReplicaSet r m lastSpec rs = ((ready, err), rs')"
  shows "\<not> (ready \<and> err = None) \<and> sets (rs_cluster rs') = sets (rs_cluster rs) \<and> tls_scale_up_pending r sets m (rs_cluster rs')"
proof -
  let ?n = "StatefulSetReplicasThisReconciliation m"
  obtain sts where sts: "sets (rs_cluster rs) (NamespacedName m) = Some sts" "\<not> isPreReadinessInitContainerStatefulSet sts"
      "\<not> IsReady sts ?n" and n: "tls_Enabled (spec_tls m)" "2 \<le> ?n" "?n < 2 ^ 31"
      and pods: "\<not> pod_missing (read_pods r (rs_cluster rs)) (hd (member_pods (sts_key sts) ?n))"
        "pod_missing (read_pods r (rs_cluster rs)) (last (member_pods (sts_key sts) ?n))"
    using assms(1) by (auto simp: tls_scale_up_pending_def Let_def split: option.splits)
  obtain res w1 where get: "GetStatefulSet c (NamespacedName m) (rs_cluster rs) = (res, w1)" by fastforce
  have "run_order m res"
    using zero_not_ready[of ?n] n sts GetStatefulSet_Inr get
    by (auto simp: run_order_def Let_def sts_or_zero_def split: sum.splits)
  then have order: "fst (shouldRunInOrder r m rs)" by (simp add: shouldRunInOrder_def on_cluster_def get)
  have no: "deployAutomationConfig r m lastSpec rs0 \<noteq> (Inr True, rs2)"
    if "obs_rs rs0 = obs_rs rs" "pods.obs_rs rs0 = pods.obs_rs rs" for rs0 rs2
  proof
    assume run: "deployAutomationConfig r m lastSpec rs0 = (Inr True, rs2)"
    then obtain ac where "agents_ready r sets m (rs_cluster rs2) ac" by (rule deployAutomationConfig_True)
    moreover have "obs_rs rs2 = obs_rs rs" "pods.obs_rs rs2 = pods.obs_rs rs"
      using preservesD[OF deployAutomationConfig run] preservesD[OF pods.deployAutomationConfig run] that by simp_all
    ultimately show False using sts(1,2) mixed_pods_not_ready[OF n(2) pods] by (simp add: agents_ready_def)
  qed
  obtain rs0 where rs0: "shouldRunInOrder r m rs = (True, rs0)"
    "RunSequentially True [as_step (deployAutomationConfig r m lastSpec), as_step (on_cluster (deployStatefulSet r m))] rs0
      = ((ready, err), rs')"
    using deploy_run[OF assms(2)] order by (metis (full_types))
  have same0: "obs_rs rs0 = obs_rs rs" "pods.obs_rs rs0 = pods.obs_rs rs"
    using preservesD[OF shouldRunInOrder rs0(1)] preservesD[OF pods.shouldRunInOrder rs0(1)] by simp_all
  obtain x rs1 where step: "deployAutomationConfig r m lastSpec rs0 = (x, rs1)" by fastforce
  have same: "obs_rs rs1 = obs_rs rs" "pods.obs_rs rs1 = pods.obs_rs rs"
    using preservesD[OF deployAutomationConfig step] preservesD[OF pods.deployAutomationConfig step] same0 by simp_all
  have "x \<noteq> Inr True" using no[OF same0] step by blast
  then have "\<not> (ready \<and> err = None)" "rs' = rs1"
    using rs0(2) step by (auto simp: RunSequentially_def as_step_def split: sum.splits if_splits)
  moreover have "tls_scale_up_pending r sets m (rs_cluster rs1)"
    using assms(1) unfolding tls_scale_up_pending_def same .
  ultimately show ?thesis using same(1) by simp
qed

end

subsection \<open>A concrete reconciler\<close>

text \<open>The mocked client's \<open>Patch\<close> (\<open>pkg/kube/client/mocked_client.go\<close>): only annotations can be replaced.\<close>

fun unescape_slash :: "string \<Rightarrow> string" where
  "unescape_slash [] = []"
| "unescape_slash (c # s) = (if has_prefix (c # s) ''~1'' then CHR ''/'' # drop 1 s else c # unescape_slash s)"

fun apply_patches :: "patch_value list \<Rightarrow> str_map \<Rightarrow> str_map fallible" where
  "apply_patches [] annotations = Inr annotations"
| "apply_patches (p # ps) annotations =
    (if pv_Op p \<noteq> ''replace''
     then Inl (errorf (''patch operations different from '' @ quote ''replace'' @ '' are not yet implemented''))
     else if \<not> has_prefix (pv_Path p) ''/metadata/annotations''
     then Inl (errorf ''patch that modify something different from annotations are not yet implemented'')
     else if pv_Path p = ''/metadata/annotations'' then apply_patches ps []
     else if \<not> has_prefix (pv_Path p) ''/metadata/annotations/'' then Inl (errorf ''panic: index out of range'')
     else (case pv_Value p of
             VStr val \<Rightarrow> apply_patches ps (map_put (unescape_slash (drop 22 (pv_Path p))) val annotations)
           | _ \<Rightarrow> Inl (errorf ''patch operations with values that are not strings are not implemented yet'')))"

definition mock_Patch :: "mdb \<Rightarrow> patch_value list \<Rightarrow> (mock_world, mdb fallible) effect" where
  "mock_Patch obj ps w =
    (case apply_patches ps (mdb_Annotations obj) of
       Inl err \<Rightarrow> (Inl err, w)
     | Inr annotations \<Rightarrow>
         (let obj' = obj\<lparr>mdb_Annotations := annotations\<rparr>
          in (Inr obj', w\<lparr>mw_mongodbs := (mw_mongodbs w)(mdb_key obj \<mapsto> obj')\<rparr>)))"

text \<open>\<open>controllerutil.CreateOrUpdate\<close> on the mock: read, change, then create or update.\<close>

definition mock_CreateOrUpdate :: "service \<Rightarrow> (service \<Rightarrow> service) \<Rightarrow> (mock_world, go_error option) effect" where
  "mock_CreateOrUpdate svc mutate w =
    (case GetService mockedClient (service_key svc) w of
       (Inl err, w1) \<Rightarrow> if err_not_found err then CreateService mockedClient (mutate svc) w1 else (Some err, w1)
     | (Inr existing, w1) \<Rightarrow> UpdateService mockedClient (mutate existing) w1)"

definition mock_build :: build_env where
  "mock_build = \<lparr>be_order = (\<lambda>ks. ks), be_getenv = (\<lambda>_. None), be_quantity = Inr, be_objx = nested_objx\<rparr>"

definition mock_reconciler :: "(mock_world, nat \<times> nat \<times> nat) reconciler" where
  "mock_reconciler = \<lparr>r_auth = mock_env\<lparr>env_rand := (\<lambda>_ w. (Inr '''', w))\<rparr>, r_build = mock_build,
     r_codec = \<lparr>json_text = (\<lambda>_. ''config''), json_tree = (\<lambda>_. Inr (marshal_AutomationConfig zero_AutomationConfig))\<rparr>,
     r_semver = plain_semver, r_toInt = (\<lambda>s. int (digits_val s)), r_toFloat = (\<lambda>_. 0), r_fmt_g = (\<lambda>_. ''''),
     r_mergo = (\<lambda>args _. args), r_CreateOrUpdate = mock_CreateOrUpdate, r_Patch = mock_Patch,
     r_spec_Marshal = (\<lambda>_. Inr ''spec''), r_spec_Unmarshal = (\<lambda>_. Inr zero_spec),
     r_mongodbRepoUrl = ''docker.io/mongodb'', r_mongodbImage = ''mongodb-community-server'', r_mongodbImageType = ''ubi8'',
     r_agentImage = ''agent'', r_versionUpgradeHookImage = ''hook'', r_readinessProbeImage = ''probe''\<rparr>"

lemma mock_frame:
  assumes "\<And>w f. obs (mw_secrets_update f w) = obs w"
  shows "config_frame mock_reconciler obs"
  using assms
  by unfold_locales (auto simp: preserves_def mock_reconciler_def mock_env_def mockedClient_def mock_defs split: option.splits)

interpretation mock_deploy: deployment_with_pods mock_reconciler mw_statefulSets mw_secrets makeStatefulSetReady
proof (intro deployment_with_pods.intro deployment.intro deployment_axioms.intro)
  show "config_frame mock_reconciler mw_statefulSets" by (rule mock_frame) simp
  show "config_frame mock_reconciler (read_pods mock_reconciler)"
    by (rule mock_frame)
       (simp add: fun_eq_iff read_pods_def GetPod_def mock_reconciler_def mock_env_def mockedClient_def mock_api_def mock_Get_def)
  show "object_store (statefulSets_api (r_client mock_reconciler)) sts_key mw_statefulSets makeStatefulSetReady err_not_found"
    using mock_statefulsets.object_store_axioms by (simp add: mock_reconciler_def mock_env_def)
qed (auto simp: mock_reconciler_def mock_env_def mockedClient_def mock_defs preserves_def split: option.splits sum.splits)

definition mock_rs :: "mock_world \<Rightarrow> mock_world rstate" where
  "mock_rs w = \<lparr>rs_cluster = w, rs_secretWatcher = watch_New, rs_configMapWatcher = watch_New\<rparr>"

subsection \<open>Properties\<close>

text \<open>C6: when the automation config goes first, the StatefulSets are not touched before the new
  config is stored and the agents of the existing StatefulSet have reached its version: no
  pod is restarted or removed while the agents still work towards the config that allows it.\<close>

theorem statefulset_waits_for_agents:
  assumes "deployment r sets secrets created" and "fst (shouldRunInOrder r m rs)"
  shows "let rs' = snd (deployMongoDBReplicaSet r m lastSpec rs)
    in sets (rs_cluster rs') = sets (rs_cluster rs) \<or>
       (\<exists>ac rs1 rs2. ensureAutomationConfig r m lastSpec rs1 = (Inr ac, rs2) \<and>
          agents_ready r sets m (rs_cluster rs2) ac \<and> sets (rs_cluster rs2) = sets (rs_cluster rs) \<and>
          secrets (rs_cluster rs') = secrets (rs_cluster rs2))"
  using deployment.statefulset_waits[OF assms surjective_pairing] unfolding Let_def by blast

text \<open>A StatefulSet of three ready members, whose agents carry no version yet.\<close>

definition ready_sts :: statefulset where
  "ready_sts = zero_statefulset\<lparr>sts_Name := ''mdb'', sts_Namespace := ''ns'', sts_ReadyReplicas := 3, sts_UpdatedReplicas := 3,
     sts_Spec := zero_statefulset_spec\<lparr>stss_Template := zero_pod_template\<lparr>pt_Spec := zero_pod_spec\<lparr>ps_InitContainers :=
       [zero_container\<lparr>c_Name := ReadinessProbeContainerName\<rparr>]\<rparr>\<rparr>\<rparr>\<rparr>"

definition three_members :: mock_world where
  "three_members = NewMockedClient\<lparr>mw_statefulSets := [nn ''ns'' ''mdb'' \<mapsto> ready_sts],
     mw_pods := (\<lambda>n. if ns_Name n \<in> {''mdb-0'', ''mdb-1'', ''mdb-2''}
       then Some \<lparr>pod_Name = ns_Name n, pod_Namespace = ''ns'', pod_Annotations = []\<rparr> else None)\<rparr>"

definition scaling_mdb :: "bool \<Rightarrow> int \<Rightarrow> mdb" where
  "scaling_mdb tls members = (demo_mdb members 0)\<lparr>
     Spec := (Spec (demo_mdb members 0))\<lparr>Security := (Security (Spec (demo_mdb members 0)))\<lparr>
       sec_TLS := (spec_tls (demo_mdb members 0))\<lparr>tls_Enabled := tls\<rparr>\<rparr>\<rparr>,
     Status := zero_status\<lparr>CurrentStatefulSetReplicas := 3, CurrentMongoDBMembers := 3\<rparr>\<rparr>"

lemma get_three: "GetStatefulSet (r_client mock_reconciler) (NamespacedName (scaling_mdb tls n)) three_members =
    (Inr ready_sts, three_members)"
  by (simp add: client_defs mock_reconciler_def mock_env_def mockedClient_def mock_defs three_members_def scaling_mdb_def
      demo_mdb_def NamespacedName_def)

lemma scaling_sel [simp]:
  "tls_Enabled (spec_tls (scaling_mdb tls n)) = tls" "mdb_scaler (scaling_mdb tls n) =
     \<lparr>DesiredReplicas = n, CurrentReplicas = 3, ForcedIndividualScaling = False\<rparr>"
  "CurrentArbiters (scaling_mdb tls n) = 0" "DesiredArbiters (scaling_mdb tls n) = 0" "NamespacedName (scaling_mdb tls n) = nn ''ns'' ''mdb''"
  by (simp_all add: scaling_mdb_def demo_mdb_def zero_spec_def zero_status_def mdb_scaler_def CurrentArbiters_def
      DesiredArbiters_def NamespacedName_def)

lemma order_three: "fst (shouldRunInOrder mock_reconciler (scaling_mdb tls n) (mock_rs three_members)) =
    run_order (scaling_mdb tls n) (Inr ready_sts)"
  by (simp add: shouldRunInOrder_def on_cluster_def mock_rs_def get_three del: scaling_sel)

theorem statefulset_waits_for_agents_witness:
  "let rs = mock_rs three_members; rs' = snd (deployMongoDBReplicaSet mock_reconciler (scaling_mdb False 2) None rs)
   in mw_statefulSets (rs_cluster rs') = mw_statefulSets (rs_cluster rs) \<or>
      (\<exists>ac rs1 rs2. ensureAutomationConfig mock_reconciler (scaling_mdb False 2) None rs1 = (Inr ac, rs2) \<and>
         agents_ready mock_reconciler mw_statefulSets (scaling_mdb False 2) (rs_cluster rs2) ac \<and>
         mw_statefulSets (rs_cluster rs2) = mw_statefulSets (rs_cluster rs) \<and>
         mw_secrets (rs_cluster rs') = mw_secrets (rs_cluster rs2))"
proof -
  have "fst (shouldRunInOrder mock_reconciler (scaling_mdb False 2) (mock_rs three_members))"
    unfolding order_three run_order_def Let_def by (simp add: IsScalingUp_def IsScalingDown_def) 
  from statefulset_waits_for_agents[OF mock_deploy.deployment_axioms this, of None]
  show ?thesis by (simp add: Let_def)
qed

text \<open>C7: when the StatefulSet goes first, no secret is written, the automation config among them,
  before the StatefulSet is ready for the number of replicas aimed at (or the pods are
  replaced on deletion, during a version change).\<close>

theorem config_waits_for_statefulset:
  assumes "deployment r sets secrets created" and "\<not> fst (shouldRunInOrder r m rs)"
  shows "let rs' = snd (deployMongoDBReplicaSet r m lastSpec rs)
    in secrets (rs_cluster rs') = secrets (rs_cluster rs) \<or>
       (\<exists>sts. sets (rs_cluster rs') (NamespacedName m) = Some sts \<and>
          (IsReady sts (StatefulSetReplicasThisReconciliation m) \<or> stss_UpdateStrategyType (sts_Spec sts) = ''OnDelete''))"
  using deployment.config_waits[OF assms surjective_pairing] unfolding Let_def by blast

theorem config_waits_for_statefulset_witness:
  "let rs = mock_rs three_members; rs' = snd (deployMongoDBReplicaSet mock_reconciler (scaling_mdb False 4) None rs)
   in mw_secrets (rs_cluster rs') = mw_secrets (rs_cluster rs) \<or>
      (\<exists>sts. mw_statefulSets (rs_cluster rs') (nn ''ns'' ''mdb'') = Some sts \<and>
         (IsReady sts 4 \<or> stss_UpdateStrategyType (sts_Spec sts) = ''OnDelete''))"
proof -
  have "\<not> fst (shouldRunInOrder mock_reconciler (scaling_mdb False 4) (mock_rs three_members))"
    unfolding order_three run_order_def Let_def by (simp add: IsScalingUp_def IsScalingDown_def HasZeroReplicas_def)
  moreover have "StatefulSetReplicasThisReconciliation (scaling_mdb False 4) = 4" by code_simp
  ultimately show ?thesis
    using config_waits_for_statefulset[OF mock_deploy.deployment_axioms, of "scaling_mdb False 4" "mock_rs three_members" None]
    by (simp add: Let_def)
qed

text \<open>C29: scaling up a replica set that has TLS enabled never completes.  The StatefulSet is not
  ready for the new number of replicas, so the automation config goes first; the agents are
  then waited for, among them the one of the new pod; and the StatefulSet, which alone could
  create that pod, is not updated until they are ready.  The situation is the same afterwards.\<close>

theorem tls_scale_up_never_completes:
  assumes "deployment_with_pods r sets secrets created" and "tls_scale_up_pending r sets m (rs_cluster rs)"
  shows "fst (deployMongoDBReplicaSet r m lastSpec rs) \<noteq> (True, None) \<and>
    sets (rs_cluster (snd (deployMongoDBReplicaSet r m lastSpec rs))) = sets (rs_cluster rs) \<and>
    tls_scale_up_pending r sets m (rs_cluster (snd (deployMongoDBReplicaSet r m lastSpec rs)))"
proof -
  obtain b e rs' where run: "deployMongoDBReplicaSet r m lastSpec rs = ((b, e), rs')" by (metis prod.exhaust)
  from deployment_with_pods.scale_up_stuck[OF assms run] show ?thesis unfolding run by simp
qed

theorem tls_scale_up_never_completes_witness:
  "fst (deployMongoDBReplicaSet mock_reconciler (scaling_mdb True 5) None (mock_rs three_members)) \<noteq> (True, None) \<and>
   mw_statefulSets (rs_cluster (snd (deployMongoDBReplicaSet mock_reconciler (scaling_mdb True 5) None (mock_rs three_members))))
     = mw_statefulSets three_members"
proof -
  have n: "StatefulSetReplicasThisReconciliation (scaling_mdb True 5) = 4" by code_simp
  have pods: "member_pods (nn ''ns'' ''mdb'') 4 = [nn ''ns'' ''mdb-0'', nn ''ns'' ''mdb-1'', nn ''ns'' ''mdb-2'', nn ''ns'' ''mdb-3'']"
    by code_simp
  have read: "\<not> pod_missing (read_pods mock_reconciler three_members) (nn ''ns'' ''mdb-0'')"
    "pod_missing (read_pods mock_reconciler three_members) (nn ''ns'' ''mdb-3'')"
    by (simp_all add: pod_missing_def read_pods_def GetPod_def mock_reconciler_def mock_env_def mockedClient_def mock_defs
      three_members_def notFoundError_def)
  have "\<not> isPreReadinessInitContainerStatefulSet ready_sts" "\<not> IsReady ready_sts 4" by code_simp+
  moreover have "mw_statefulSets three_members (nn ''ns'' ''mdb'') = Some ready_sts" "sts_key ready_sts = nn ''ns'' ''mdb''"
    by (simp_all add: three_members_def ready_sts_def)
  ultimately have "tls_scale_up_pending mock_reconciler mw_statefulSets (scaling_mdb True 5) (rs_cluster (mock_rs three_members))"
    using read unfolding tls_scale_up_pending_def n Let_def mock_rs_def scaling_sel by (simp add: pods)
  from tls_scale_up_never_completes[OF mock_deploy.deployment_with_pods_axioms this, of None]
  show ?thesis by (simp add: mock_rs_def)
qed

subsection \<open>The record of the last successful configuration\<close>

text \<open>What a JSON patch of the annotations does to the stored resource.\<close>

locale annotated_resources =
  fixes r :: "('w, 'v) reconciler" and mdbs :: "'w \<Rightarrow> nsname \<Rightarrow> mdb option"
  assumes resources: "object_store (mongodbs_api (r_client r)) mdb_key mdbs Inr err_not_found"
    and patched: "r_Patch r obj ps w = (Inr obj', w') \<Longrightarrow>
      apply_patches ps (mdb_Annotations obj) = Inr (mdb_Annotations obj') \<and> obj' = obj\<lparr>mdb_Annotations := mdb_Annotations obj'\<rparr> \<and>
      mdbs w' = (mdbs w)(mdb_key obj \<mapsto> obj')"

abbreviation annotation_patch :: "string \<times> string \<Rightarrow> patch_value" where
  "annotation_patch kv \<equiv> \<lparr>pv_Op = ''replace'', pv_Path = ''/metadata/annotations/'' @ escape_slash (fst kv), pv_Value = VStr (snd kv)\<rparr>"

lemma has_prefix_append [simp]: "has_prefix (p @ s) p"
  by (induction p) simp_all

lemma apply_annotation_patches:
  assumes "\<forall>(k, v)\<in>set kvs. unescape_slash (escape_slash k) = k"
  shows "apply_patches (map annotation_patch kvs) ann = Inr (fold (\<lambda>(k, v). map_put k v) kvs ann)"
  using assms
proof (induction kvs arbitrary: ann)
  case (Cons kv kvs)
  have "drop 22 (''/metadata/annotations/'' @ s) = s" "has_prefix (''/metadata/annotations/'' @ s) ''/metadata/annotations''"
    "''/metadata/annotations/'' @ s \<noteq> ''/metadata/annotations''" for s
    by (simp_all add: numeral_eq_Suc)
  then show ?case using Cons by (cases kv) simp
qed simp

lemma map_of_fold_put:
  "distinct (map fst kvs) \<Longrightarrow> map_of (fold (\<lambda>(k, v). map_put k v) kvs ann) k =
    (case map_of kvs k of Some v \<Rightarrow> Some v | None \<Rightarrow> map_of ann k)"
proof (induction kvs arbitrary: ann)
  case (Cons kv kvs)
  then show ?case by (cases kv) (auto split: option.splits simp: map_of_eq_None_iff image_iff)
qed simp

context annotated_resources
begin

lemma SetAnnotations_Inr:
  assumes "SetAnnotations r m annotations w = (Inr m1, w')" and "is_iteration (be_order (r_build r))"
    and "distinct (map fst annotations)" and "\<forall>(k, v)\<in>set annotations. unescape_slash (escape_slash k) = k"
    and keyed: "\<And>obj. mdbs w (NamespacedName m) = Some obj \<Longrightarrow> mdb_key obj = NamespacedName m"
  obtains cur m' where "mdbs w (NamespacedName m) = Some cur"
    and "mdbs w' (NamespacedName m) = Some m'" and "m' = cur\<lparr>mdb_Annotations := mdb_Annotations m'\<rparr>"
    and "\<forall>k. map_of (mdb_Annotations m') k = (case map_of annotations k of Some v \<Rightarrow> Some v | None \<Rightarrow> map_of (mdb_Annotations cur) k)"
proof -
  let ?it = "iterate (be_order (r_build r)) annotations"
  obtain cur w1 m' where get: "api_Get (mongodbs_api (r_client r)) (NamespacedName m) w = (Inr cur, w1)"
      and patch: "r_Patch r cur (annotation_patches (be_order (r_build r)) (mdb_Annotations cur) annotations) w1 = (Inr m', w')"
    using assms(1) by (auto simp: SetAnnotations_def eff_bind_Inr_iff NamespacedName_def)
  have cur: "mdbs w (NamespacedName m) = Some cur" using object_store.get_ok[OF resources get] by simp
  have "\<forall>(k, v)\<in>set ?it. unescape_slash (escape_slash k) = k"
    using iterate_props(1)[OF assms(2,3)] assms(4) by simp
  moreover have "annotation_patches order [] annotations =
      \<lparr>pv_Op = ''replace'', pv_Path = ''/metadata/annotations'', pv_Value = VMap []\<rparr> # map annotation_patch (iterate order annotations)"
    "ann \<noteq> [] \<Longrightarrow> annotation_patches order ann annotations = map annotation_patch (iterate order annotations)" for order ann
    by (simp_all add: annotation_patches_def case_prod_unfold)
  ultimately have "apply_patches (annotation_patches (be_order (r_build r)) (mdb_Annotations cur) annotations) (mdb_Annotations cur)
      = Inr (fold (\<lambda>(k, v). map_put k v) ?it (mdb_Annotations cur))"
    using apply_annotation_patches[of ?it] by (cases "mdb_Annotations cur = []") simp_all
  moreover note p = patched[OF patch]
  ultimately have "mdb_Annotations m' = fold (\<lambda>(k, v). map_put k v) ?it (mdb_Annotations cur)" by simp
  then have "map_of (mdb_Annotations m') k = (case map_of annotations k of Some v \<Rightarrow> Some v | None \<Rightarrow> map_of (mdb_Annotations cur) k)" for k
    using iterate_props(2,3)[OF assms(2,3)] by (simp add: map_of_fold_put)
  moreover have "mdbs w' (NamespacedName m) = Some m'" using p keyed[OF cur] by simp
  ultimately show thesis using that[OF cur] p by blast
qed

lemma configuration_recorded:
  assumes run: "updateLastSuccessfulConfiguration r m w = (Inr (), w')" and iter: "is_iteration (be_order (r_build r))"
    and enc: "r_spec_Marshal r (Spec m) = Inr txt" "r_spec_Unmarshal r txt = Inr (Spec m)"
    and keyed: "\<And>obj. mdbs w (NamespacedName m) = Some obj \<Longrightarrow> mdb_key obj = NamespacedName m"
  shows "\<exists>m'. mdbs w' (NamespacedName m) = Some m' \<and> getLastVersion m' = Version (Spec m) \<and>
    validateSpec r m' = (case ValidateUpdate (env_dns (r_auth r)) m' (Spec m) of None \<Rightarrow> Inr (Some (Spec m)) | Some err \<Rightarrow> Inl err)"
proof -
  let ?a = "[(lastSuccessfulConfiguration, txt), (lastAppliedMongoDBVersion, Version (Spec m))]"
  have keys: "lastSuccessfulConfiguration \<noteq> lastAppliedMongoDBVersion" "LastAppliedMongoDBVersion = lastAppliedMongoDBVersion"
    "unescape_slash (escape_slash lastSuccessfulConfiguration) = lastSuccessfulConfiguration"
    "unescape_slash (escape_slash lastAppliedMongoDBVersion) = lastAppliedMongoDBVersion" by code_simp+
  obtain m1 where written: "SetAnnotations r m ?a w = (Inr m1, w')"
    using run enc by (auto simp: updateLastSuccessfulConfiguration_def eff_bind_Inr_iff)
  have ok: "distinct (map fst ?a)" "\<forall>(k, v)\<in>set ?a. unescape_slash (escape_slash k) = k" using keys by simp_all
  obtain cur :: mdb and m' where m': "mdbs w' (NamespacedName m) = Some m'"
      "\<forall>k. map_of (mdb_Annotations m') k = (case map_of ?a k of Some v \<Rightarrow> Some v | None \<Rightarrow> map_of (mdb_Annotations cur) k)"
    by (rule SetAnnotations_Inr[OF written iter ok keyed]) (assumption, rule that, assumption, assumption)
  then show ?thesis
    using keys(1,2) enc(2) by (auto simp: getLastVersion_def map_get_def validateSpec_def)
qed

end

interpretation mock_annotated: annotated_resources mock_reconciler mw_mongodbs
proof (rule annotated_resources.intro)
  show "object_store (mongodbs_api (r_client mock_reconciler)) mdb_key mw_mongodbs Inr err_not_found"
    using mock_mongodbs.object_store_axioms by (simp add: mock_reconciler_def mock_env_def)
qed (auto simp: mock_reconciler_def mock_Patch_def Let_def split: sum.splits)



text \<open>C32: a spec that is rejected changes nothing but the status of the resource, which is marked
  as failed; the resource is requeued.\<close>

theorem rejected_spec_only_changes_status:
  assumes "api_Get (mongodbs_api (r_client r)) request (rs_cluster rs) = (Inr m, w1)" and "validateSpec r m = Inl err"
  shows "Reconcile r request rs =
    (let msg = ''error validating new Spec: '' @ err_msg err;
         m' = m\<lparr>Status := (Status m)\<lparr>Message := (if IsTransientMessage msg then '''' else msg), Phase := Failed\<rparr>\<rparr>
     in case status_Update (r_client r) m' w1 of
          (None, w2) \<Rightarrow> (result_Failed, rs\<lparr>rs_cluster := w2\<rparr>)
        | (Some e, w2) \<Rightarrow> ((zero_result, Some e), rs\<lparr>rs_cluster := w2\<rparr>))"
  using assms
  by (simp add: Reconcile_def on_cluster_def reconcile_resource_def or_fail_def report_def update_status_def
      status_Update_options_def failed_options_def option_defs Let_def determineReconciliationResult_def result_defs
      split: prod.splits option.splits)

theorem rejected_spec_only_changes_status_witness:
  "let m = demo_mdb 3 (-1); rs = mock_rs (NewMockedClient\<lparr>mw_mongodbs := [nn ''ns'' ''mdb'' \<mapsto> m]\<rparr>);
       out = Reconcile mock_reconciler (nn ''ns'' ''mdb'') rs
   in fst out = result_Failed \<and> map_option (\<lambda>m'. Phase (Status m')) (mw_mongodbs (rs_cluster (snd out)) (nn ''ns'' ''mdb'')) = Some Failed \<and>
      (rs_cluster (snd out))\<lparr>mw_mongodbs := [nn ''ns'' ''mdb'' \<mapsto> m]\<rparr> = rs_cluster rs"
proof -
  let ?m = "demo_mdb 3 (-1)"
  let ?w = "NewMockedClient\<lparr>mw_mongodbs := [nn ''ns'' ''mdb'' \<mapsto> ?m]\<rparr>"
  have key: "mdb_key ?m = nn ''ns'' ''mdb''" by (simp add: demo_mdb_def)
  have get: "api_Get (mongodbs_api (r_client mock_reconciler)) (nn ''ns'' ''mdb'') (rs_cluster (mock_rs ?w)) = (Inr ?m, ?w)"
    by (simp add: mock_reconciler_def mock_env_def mockedClient_def mock_defs mock_rs_def)
  have "isl (validateSpec mock_reconciler ?m)" by code_simp
  then obtain err where err: "validateSpec mock_reconciler ?m = Inl err" by (auto simp: isl_def)
  have upd: "status_Update (r_client mock_reconciler) (?m\<lparr>Status := st\<rparr>) ?w =
      (None, ?w\<lparr>mw_mongodbs := [nn ''ns'' ''mdb'' \<mapsto> ?m\<lparr>Status := st\<rparr>]\<rparr>)" for st
    using key by (simp add: mock_reconciler_def mock_env_def mockedClient_def mock_Update_def)
  show ?thesis
    unfolding Let_def rejected_spec_only_changes_status[OF get err] upd by (simp add: mock_rs_def)
qed

end
