(* ===== verification/Pod_Wiring.thy ===== *)
theory Pod_Wiring
  imports Construct
begin

text \<open>
  Properties of the StatefulSet the operator builds: applying the modifications to their own
  result changes nothing, and the files the automation config names are mounted into the
  containers from the secrets that hold them.
\<close>

subsection \<open>Modifications that settle\<close>

text \<open>On the objects that satisfy \<open>P\<close>: \<open>f\<close> settles when applying it twice is applying it once;
  \<open>g\<close> leaves \<open>f\<close> undisturbed when it does not undo what \<open>f\<close> has settled.\<close>

definition settles :: "('a \<Rightarrow> bool) \<Rightarrow> ('a \<Rightarrow> 'a) \<Rightarrow> bool" where
  "settles P f = (\<forall>x. P x \<longrightarrow> P (f x) \<and> f (f x) = f x)"

definition undisturbed :: "('a \<Rightarrow> bool) \<Rightarrow> ('a \<Rightarrow> 'a) \<Rightarrow> ('a \<Rightarrow> 'a) \<Rightarrow> bool" where
  "undisturbed P f g = (\<forall>x. P x \<longrightarrow> f x = x \<longrightarrow> f (g x) = g x)"

fun all_settle :: "('a \<Rightarrow> bool) \<Rightarrow> ('a \<Rightarrow> 'a) list \<Rightarrow> bool" where
  "all_settle P [] = True"
| "all_settle P (f # fs) = (settles P f \<and> (\<forall>g\<in>set fs. undisturbed P f g) \<and> all_settle P fs)"

lemma settled_stays:
  "all_settle P fs \<Longrightarrow> P x \<Longrightarrow> f x = x \<Longrightarrow> \<forall>g\<in>set fs. undisturbed P f g \<Longrightarrow> f (Apply fs x) = Apply fs x"
  by (induction fs arbitrary: x) (auto simp: undisturbed_def settles_def)

lemma all_settled: "all_settle P fs \<Longrightarrow> P x \<Longrightarrow> f \<in> set fs \<Longrightarrow> f (Apply fs x) = Apply fs x"
proof (induction fs arbitrary: x)
  case (Cons g fs)
  then show ?case using settled_stays[of P fs "g x" g] by (auto simp: settles_def)
qed simp

lemma Apply_fixed: "\<forall>f\<in>set fs. f y = y \<Longrightarrow> Apply fs y = y"
  by (induction fs) simp_all

lemma Apply_settles: "all_settle P fs \<Longrightarrow> P x \<Longrightarrow> Apply fs (Apply fs x) = Apply fs x"
  using all_settled[of P fs x] by (intro Apply_fixed) blast

lemma settles_id [simp]: "settles P id" "undisturbed P id g" "undisturbed P f id"
  by (simp_all add: settles_def undisturbed_def)

subsection \<open>Updating or adding an element by name\<close>

fun upsert :: "('a \<Rightarrow> string) \<Rightarrow> string \<Rightarrow> ('a \<Rightarrow> 'a) \<Rightarrow> 'a \<Rightarrow> 'a list \<Rightarrow> 'a list" where
  "upsert key n f new [] = [new]"
| "upsert key n f new (x # xs) = (if key x = n then f x # xs else x # upsert key n f new xs)"

locale upsert_ok =
  fixes ok :: "'a \<Rightarrow> bool" and key :: "'a \<Rightarrow> string" and n :: string and f :: "'a \<Rightarrow> 'a" and new :: 'a
  assumes key_new: "key new = n" and key_f: "key x = n \<Longrightarrow> key (f x) = n"
    and ok_new: "ok new" and ok_f: "ok x \<Longrightarrow> key x = n \<Longrightarrow> ok (f x)"
    and f_new: "f new = new" and f_idem: "ok x \<Longrightarrow> key x = n \<Longrightarrow> f (f x) = f x"
begin

lemma upsert_settles: "settles (list_all ok) (upsert key n f new)"
proof -
  have "list_all ok xs \<Longrightarrow> list_all ok (upsert key n f new xs) \<and>
      upsert key n f new (upsert key n f new xs) = upsert key n f new xs" for xs
    by (induction xs) (auto simp: key_new f_new key_f f_idem ok_new ok_f)
  then show ?thesis by (simp add: settles_def)
qed

lemma upsert_undisturbed:
  assumes "key new' = n'" and "\<And>x. key x = n' \<Longrightarrow> key (g x) = n'" and "n \<noteq> n'"
  shows "undisturbed P (upsert key n f new) (upsert key n' g new')"
proof -
  have "upsert key n f new xs = xs \<Longrightarrow> upsert key n f new (upsert key n' g new' xs) = upsert key n' g new' xs" for xs
    by (induction xs) (use assms in \<open>auto split: if_splits\<close>)
  then show ?thesis by (simp add: undisturbed_def)
qed

end

lemma update_claim_upsert: "update_claim n f = upsert pvc_Name n f (f zero_pvc)"
proof
  show "update_claim n f xs = upsert pvc_Name n f (f zero_pvc) xs" for xs by (induction xs) simp_all
qed

lemma add_volume_upsert: "add_volume order v = upsert vol_Name (vol_Name v) (\<lambda>x. Volume order x v) v"
proof
  show "add_volume order v xs = upsert vol_Name (vol_Name v) (\<lambda>x. Volume order x v) v xs" for xs by (induction xs) simp_all
qed

lemma findIndexByName_range: "findIndexByName n cs = -1 \<or> 0 \<le> findIndexByName n cs"
  by (induction cs) (auto simp: Let_def)

lemma update_container_upsert: "update_container n f = upsert c_Name n f (f (zero_container\<lparr>c_Name := n\<rparr>))"
proof
  show "update_container n f cs = upsert c_Name n f (f (zero_container\<lparr>c_Name := n\<rparr>)) cs" for cs
  proof (induction cs)
    case (Cons c cs)
    show ?case
    proof (cases "c_Name c = n \<or> findIndexByName n cs = -1")
      case False
      then have "nat (findIndexByName n cs + 1) = Suc (nat (findIndexByName n cs))"
        using findIndexByName_range[of n cs] by (simp add: nat_add_distrib)
      then show ?thesis using Cons False findIndexByName_range[of n cs] by (auto simp: update_container_def Let_def)
    qed (use Cons in \<open>auto simp: update_container_def Let_def\<close>)
  qed (simp add: update_container_def)
qed

subsection \<open>Claims, volumes and containers\<close>

interpretation data_claim: upsert_ok anything pvc_Name n "dataPvc be n" "dataPvc be n zero_pvc" for be n
  by unfold_locales (simp_all add: dataPvc_def pvc_WithName_def WithAccessModes_def WithResourceRequests_def)

interpretation logs_claim: upsert_ok anything pvc_Name n "logsPvc be n" "logsPvc be n zero_pvc" for be n
  by unfold_locales (simp_all add: logsPvc_def pvc_WithName_def WithAccessModes_def WithResourceRequests_def)

lemma Volume_name [simp]: "vol_Name (Volume order d v) = vol_Name d"
  by (auto simp: Volume_def Let_def split: option.splits)

text \<open>Explicit items of a secret volume are listed in the order of a Go map; volumes of the
  operator have none.\<close>

definition plain_volume :: "volume \<Rightarrow> bool" where
  "plain_volume v = (case vs_Secret (vol_Source v) of None \<Rightarrow> True | Some s \<Rightarrow> ss_Items s = [])"

interpretation empty_dir: upsert_ok plain_volume vol_Name n "\<lambda>x. Volume order x (CreateVolumeFromEmptyDir n)"
    "CreateVolumeFromEmptyDir n" for order n
  by unfold_locales (auto simp: plain_volume_def Volume_def Let_def CreateVolumeFromEmptyDir_def zero_volume_source_def
      override_opt_def override_str_def split: option.splits)

lemma mergeKeyToPathItems_Nil: "is_iteration order \<Longrightarrow> mergeKeyToPathItems order [] [] = []"
  by (simp add: mergeKeyToPathItems_def by_key_def iterate_Nil)

lemma secret_volume_ok:
  assumes "is_iteration order" and "s \<noteq> ''''"
  shows "upsert_ok plain_volume vol_Name n (\<lambda>x. Volume order x (CreateVolumeFromSecret n s [])) (CreateVolumeFromSecret n s [])"
  by unfold_locales (use assms mergeKeyToPathItems_Nil[OF assms(1)] in \<open>auto simp: plain_volume_def Volume_def Let_def
      CreateVolumeFromSecret_def zero_volume_source_def override_opt_def override_str_def split: option.splits\<close>)

lemma secret_volume_name:
  assumes "s \<noteq> ''''"
  shows "map_option ss_SecretName (vs_Secret (vol_Source (Volume order x (CreateVolumeFromSecret n s [])))) = Some s"
  using assms by (auto simp: Volume_def Let_def CreateVolumeFromSecret_def zero_volume_source_def override_opt_def
      override_str_def split: option.splits)

text \<open>Mounts and variables are merged by key with the override winning.\<close>

lemma WithVolumeMounts_eq:
  "is_iteration order \<Longrightarrow> container_WithVolumeMounts order ms c =
    c\<lparr>c_VolumeMounts := merge_by_key order container_volumeMountToString (\<lambda>_ v. v) (c_VolumeMounts c) ms\<rparr>"
  by (simp add: container_WithVolumeMounts_def Let_def override_by_key)

lemma WithEnvs_eq:
  "is_iteration order \<Longrightarrow> WithEnvs order es c =
    c\<lparr>c_Env := merge_by_key order env_Name (\<lambda>_ v. v) (c_Env c) es\<rparr>"
  by (simp add: WithEnvs_def MergeWithOverride_eq)

lemmas container_defs = container_WithName_def WithImage_def WithImagePullPolicy_def WithReadinessProbe_def
  WithResourceRequirements_def WithCommand_def WithArgs_def container_WithSecurityContext_def
  WithDefaultSecurityContextsModifications_def DefaultReadiness_def WithExecCommand_def WithFailureThreshold_def
  WithInitialDelaySeconds_def

lemma container_settles:
  assumes "is_iteration (be_order be)"
  shows "mongodbAgentContainer be ac vms lv lf h img (mongodbAgentContainer be ac vms lv lf h img c) =
      mongodbAgentContainer be ac vms lv lf h img c"
    and "mongodbContainer be img vms cfg (mongodbContainer be img vms cfg c) = mongodbContainer be img vms cfg c"
    and "versionUpgradeHookInit be vms img (versionUpgradeHookInit be vms img c) = versionUpgradeHookInit be vms img c"
    and "readinessProbeInit be vms img (readinessProbeInit be vms img c) = readinessProbeInit be vms img c"
  by (simp_all add: override_by_key_twice[OF assms] mongodbAgentContainer_def mongodbContainer_def versionUpgradeHookInit_def readinessProbeInit_def
      Let_def container_defs WithVolumeMounts_eq[OF assms] WithEnvs_eq[OF assms] or_zero_def)

lemma container_names:
  "c_Name (mongodbAgentContainer be ac vms lv lf h img c) = construct_AgentName"
  "c_Name (mongodbContainer be img vms cfg c) = MongodbName"
  "c_Name (versionUpgradeHookInit be vms img c) = versionUpgradeHookName"
  "c_Name (readinessProbeInit be vms img c) = ReadinessProbeContainerName"
  by (simp_all add: mongodbAgentContainer_def mongodbContainer_def versionUpgradeHookInit_def readinessProbeInit_def Let_def
      container_defs container_WithVolumeMounts_def WithEnvs_def)

lemma agent_ok: "is_iteration (be_order be) \<Longrightarrow> upsert_ok anything c_Name construct_AgentName
    (mongodbAgentContainer be ac vms lv lf h img) (mongodbAgentContainer be ac vms lv lf h img (zero_container\<lparr>c_Name := construct_AgentName\<rparr>))"
  by unfold_locales (simp_all add: container_names container_settles)

lemma mongod_ok: "is_iteration (be_order be) \<Longrightarrow> upsert_ok anything c_Name MongodbName
    (mongodbContainer be img vms cfg) (mongodbContainer be img vms cfg (zero_container\<lparr>c_Name := MongodbName\<rparr>))"
  by unfold_locales (simp_all add: container_names container_settles)

lemma hook_ok: "is_iteration (be_order be) \<Longrightarrow> upsert_ok anything c_Name versionUpgradeHookName
    (versionUpgradeHookInit be vms img) (versionUpgradeHookInit be vms img (zero_container\<lparr>c_Name := versionUpgradeHookName\<rparr>))"
  by unfold_locales (simp_all add: container_names container_settles)

lemma probe_ok: "is_iteration (be_order be) \<Longrightarrow> upsert_ok anything c_Name ReadinessProbeContainerName
    (readinessProbeInit be vms img) (readinessProbeInit be vms img (zero_container\<lparr>c_Name := ReadinessProbeContainerName\<rparr>))"
  by unfold_locales (simp_all add: container_names container_settles)

subsection \<open>The StatefulSet is stable\<close>

text \<open>The parts of the StatefulSet on which the modifications are not plain assignments.\<close>

definition claim_mods :: "build_env \<Rightarrow> mdb \<Rightarrow> (pvc list \<Rightarrow> pvc list) list" where
  "claim_mods be m = [update_claim (DataVolumeName m) (dataPvc be (DataVolumeName m)),
     update_claim (LogsVolumeName m) (logsPvc be (LogsVolumeName m))]"

definition volume_mods :: "build_env \<Rightarrow> mdb \<Rightarrow> bool \<Rightarrow> (volume list \<Rightarrow> volume list) list" where
  "volume_mods be m b = map (add_volume (be_order be)) ([CreateVolumeFromEmptyDir ''healthstatus'',
     CreateVolumeFromSecret ''automation-config'' (AutomationConfigSecretName m) []]
     @ (if b then [CreateVolumeFromEmptyDir ''hooks'', CreateVolumeFromEmptyDir ''agent-scripts''] else [])
     @ [CreateVolumeFromEmptyDir ''tmp'', CreateVolumeFromEmptyDir (ns_Name (GetAgentKeyfileSecretNamespacedName m))])"

lemma claims_settle: "all_settle (list_all anything) (claim_mods be m)"
  unfolding claim_mods_def update_claim_upsert
  by (auto intro!: data_claim.upsert_settles logs_claim.upsert_settles data_claim.upsert_undisturbed
      simp: logs_claim.key_new logs_claim.key_f DataVolumeName_def LogsVolumeName_def)

lemma volumes_settle:
  assumes "is_iteration (be_order be)"
  shows "all_settle (list_all plain_volume) (volume_mods be m b)"
proof -
  have ac: "AutomationConfigSecretName m \<noteq> ''''" by (simp add: AutomationConfigSecretName_def)
  note secret = secret_volume_ok[OF assms ac]
  have key: "vol_Name (CreateVolumeFromEmptyDir n) = n" "vol_Name (CreateVolumeFromSecret n s []) = n" for n s
    by (simp_all add: CreateVolumeFromEmptyDir_def CreateVolumeFromSecret_def)
  have "mdb_Name m @ ''-keyfile'' \<noteq> '''' @ n" if "n \<noteq> ''''" "last n \<noteq> CHR ''e''" for n
    using suffix_ne[of "''-keyfile''" n "mdb_Name m" "''''"] that by simp
  then have keyfile: "n \<noteq> ns_Name (GetAgentKeyfileSecretNamespacedName m)" if "n \<noteq> ''''" "last n \<noteq> CHR ''e''" for n
    using that by (force simp: GetAgentKeyfileSecretNamespacedName_def)
  show ?thesis
    unfolding volume_mods_def add_volume_upsert list.map
    by (auto intro!: empty_dir.upsert_settles upsert_ok.upsert_settles[OF secret] empty_dir.upsert_undisturbed
        upsert_ok.upsert_undisturbed[OF secret] simp: key keyfile)
qed

definition container_mods :: "build_env \<Rightarrow> mdb \<Rightarrow> string \<Rightarrow> string \<Rightarrow> bool \<Rightarrow> (container list \<Rightarrow> container list) list" where
  "container_mods be m mongodbImage agentImage b = [
     update_container construct_AgentName (mongodbAgentContainer be (AutomationConfigSecretName m) (agent_mounts be m b)
       (if GetAgentLogLevel m \<noteq> '''' then GetAgentLogLevel m else LogLevelInfo)
       (if GetAgentLogFile m \<noteq> '''' then GetAgentLogFile m else DefaultAgentLogFile)
       (if GetAgentMaxLogFileDurationHours m \<noteq> 0 then GetAgentMaxLogFileDurationHours m else DefaultAgentMaxLogFileDurationHours)
       agentImage),
     update_container MongodbName (mongodbContainer be mongodbImage (mongod_mounts be m b)
       (GetMongodConfiguration (iterate (be_order be)) (be_objx be) m))]"

definition init_mods :: "build_env \<Rightarrow> string \<Rightarrow> string \<Rightarrow> bool \<Rightarrow> (container list \<Rightarrow> container list) list" where
  "init_mods be hookImage probeImage b = (if b then [
     update_container versionUpgradeHookName (versionUpgradeHookInit be [hooks_mount] hookImage),
     update_container ReadinessProbeContainerName (readinessProbeInit be [scripts_mount] probeImage)] else [])"

lemma containers_settle:
  assumes "is_iteration (be_order be)"
  shows "all_settle (list_all anything) (container_mods be m img img' b)"
    and "all_settle (list_all anything) (init_mods be hook prob b)"
proof -
  have ne: "construct_AgentName \<noteq> MongodbName" "versionUpgradeHookName \<noteq> ReadinessProbeContainerName"
    by (simp_all add: construct_AgentName_def MongodbName_def versionUpgradeHookName_def ReadinessProbeContainerName_def)
  show "all_settle (list_all anything) (container_mods be m img img' b)"
    unfolding container_mods_def update_container_upsert all_settle.simps
    by (simp add: upsert_ok.upsert_settles[OF agent_ok[OF assms]] upsert_ok.upsert_settles[OF mongod_ok[OF assms]]
        upsert_ok.upsert_undisturbed[OF agent_ok[OF assms]] container_names ne)
  show "all_settle (list_all anything) (init_mods be hook prob b)"
    unfolding init_mods_def update_container_upsert
    by (simp add: upsert_ok.upsert_settles[OF hook_ok[OF assms]] upsert_ok.upsert_settles[OF probe_ok[OF assms]]
        upsert_ok.upsert_undisturbed[OF hook_ok[OF assms]] container_names ne)
qed

lemma pod_template_parts:
  "replica_set_pod_template be m img img' hook prob b t =
    (let s = pt_Spec t
     in t\<lparr>pt_Labels := [(''app'', ServiceName m)],
          pt_Spec := s\<lparr>
            ps_SecurityContext := (if ReadBool (be_getenv be) ManagedSecurityContextEnv then ps_SecurityContext s
              else Some DefaultPodSecurityContext),
            ps_Volumes := Apply (volume_mods be m b) (ps_Volumes s),
            ps_ServiceAccountName := mongodbDatabaseServiceAccountName,
            ps_Containers := Apply (container_mods be m img img' b) (ps_Containers s),
            ps_InitContainers := Apply (init_mods be hook prob b) (ps_InitContainers s)\<rparr>\<rparr>)"
  by (cases b)
     (simp_all add: replica_set_pod_template_def Let_def volume_mods_def container_mods_def init_mods_def
      NeedsAutomationConfigVolume_def WithDefaultSecurityContextsModifications_def pod_WithSecurityContext_def
      WithPodLabels_def WithVolume_def WithServiceAccount_def WithContainer_def WithInitContainer_def)

lemma sts_parts:
  "BuildMongoDBReplicaSetStatefulSetModificationFunction be m scaler img img' hook prob b x =
    (let s = sts_Spec x
     in x\<lparr>sts_Name := mdb_Name m, sts_Namespace := mdb_Namespace m, sts_Labels := [(''app'', ServiceName m)],
          sts_Spec := s\<lparr>
            stss_ServiceName := ServiceName m,
            stss_Selector := Some ((or_zero \<lparr>ls_MatchLabels = [], ls_MatchExpressions = []\<rparr> (stss_Selector s))
              \<lparr>ls_MatchLabels := [(''app'', ServiceName m)]\<rparr>),
            stss_Replicas := Some (word_of_int (ReplicasThisReconciliation scaler)),
            stss_UpdateStrategyType := GetUpdateStrategyType m, stss_RollingUpdate := None,
            stss_VolumeClaimTemplates := Apply (claim_mods be m) (stss_VolumeClaimTemplates s),
            stss_Template := replica_set_pod_template be m img img' hook prob b (stss_Template s)\<rparr>\<rparr>)"
  by (simp add: BuildMongoDBReplicaSetStatefulSetModificationFunction_def Let_def claim_mods_def
      HasSeparateDataAndLogsVolumes_def sts_WithName_def WithNamespace_def WithServiceName_def sts_WithLabels_def
      WithMatchLabels_def WithReplicas_def WithUpdateStrategyType_def WithVolumeClaim_def WithPodSpecTemplate_def)



subsection \<open>Files in the containers\<close>

text \<open>A secret is mounted into a container at a path; a path then names a file when it is a
  file of the secret below that mount.\<close>

definition mounted :: "pod_template \<Rightarrow> string \<Rightarrow> string \<Rightarrow> string \<Rightarrow> bool" where
  "mounted t containerName dir secretName =
    (case GetByName containerName (ps_Containers (pt_Spec t)) of
       None \<Rightarrow> False
     | Some c \<Rightarrow> list_ex (\<lambda>mnt. vm_MountPath mnt = dir \<and> list_ex (\<lambda>v. vol_Name v = vm_Name mnt \<and>
         map_option ss_SecretName (vs_Secret (vol_Source v)) = Some secretName) (ps_Volumes (pt_Spec t))) (c_VolumeMounts c))"

definition file_in_container :: "(nsname \<Rightarrow> secret option) \<Rightarrow> pod_template \<Rightarrow> string \<Rightarrow> nsname \<Rightarrow> string \<Rightarrow> bool" where
  "file_in_container secrets t containerName secret path =
    (\<exists>dir file. path = dir @ file \<and> mounted t containerName dir (ns_Name secret) \<and> stored_value secrets secret file \<noteq> None)"

lemma GetByName_None: "GetByName n cs = None \<longleftrightarrow> findIndexByName n cs = -1"
proof (induction cs)
  case (Cons c cs)
  then show ?case using findIndexByName_range[of n cs] by (auto simp: Let_def)
qed simp

lemma GetByName_upsert:
  assumes "\<And>c. c_Name c = n \<Longrightarrow> c_Name (f c) = n" and "GetByName n cs \<noteq> None"
  shows "GetByName k (upsert c_Name n f new cs) = (if k = n then map_option f (GetByName n cs) else GetByName k cs)"
  using assms(2) by (induction cs) (auto simp: assms(1))

lemma pod_WithVolumeMounts_eq:
  assumes "GetByName n (ps_Containers (pt_Spec t)) \<noteq> None"
  shows "ps_Volumes (pt_Spec (pod_WithVolumeMounts order n ms t)) = ps_Volumes (pt_Spec t)"
    and "GetByName k (ps_Containers (pt_Spec (pod_WithVolumeMounts order n ms t))) =
      (if k = n then map_option (container_WithVolumeMounts order ms) (GetByName n (ps_Containers (pt_Spec t)))
       else GetByName k (ps_Containers (pt_Spec t)))"
  using assms GetByName_None[of n "ps_Containers (pt_Spec t)"]
  by (simp_all add: pod_WithVolumeMounts_def modify_found_def WithContainer_def update_container_upsert GetByName_upsert
      container_WithVolumeMounts_def Let_def)

lemma WithVolume_containers [simp]: "ps_Containers (pt_Spec (WithVolume order v t)) = ps_Containers (pt_Spec t)"
  by (simp add: WithVolume_def)

lemma WithVolume_volumes: "ps_Volumes (pt_Spec (WithVolume order v t)) = add_volume order v (ps_Volumes (pt_Spec t))"
  by (simp add: WithVolume_def)

lemma upsert_keeps: "x \<in> set xs \<Longrightarrow> key x \<noteq> n \<Longrightarrow> x \<in> set (upsert key n f new xs)"
  by (induction xs) auto

lemma upsert_has: "new \<in> set (upsert key n f new xs) \<or> (\<exists>x\<in>set xs. key x = n \<and> f x \<in> set (upsert key n f new xs))"
  by (induction xs) auto

lemma secret_volume_added:
  assumes "s \<noteq> ''''"
  shows "\<exists>v\<in>set (add_volume order (CreateVolumeFromSecret n s []) vs).
    vol_Name v = n \<and> map_option ss_SecretName (vs_Secret (vol_Source v)) = Some s"
proof -
  have new: "vol_Name (CreateVolumeFromSecret n s []) = n"
    "map_option ss_SecretName (vs_Secret (vol_Source (CreateVolumeFromSecret n s []))) = Some s"
    by (simp_all add: CreateVolumeFromSecret_def)
  let ?us = "upsert vol_Name n (\<lambda>x. Volume order x (CreateVolumeFromSecret n s [])) (CreateVolumeFromSecret n s []) vs"
  consider "CreateVolumeFromSecret n s [] \<in> set ?us"
    | x where "vol_Name x = n" "Volume order x (CreateVolumeFromSecret n s []) \<in> set ?us"
    using upsert_has[of "CreateVolumeFromSecret n s []" vol_Name n "\<lambda>x. Volume order x (CreateVolumeFromSecret n s [])" vs] by blast
  then show ?thesis
  proof cases
    case 1
    then show ?thesis unfolding add_volume_upsert new(1) using new by (intro bexI conjI)
  next
    case (2 x)
    then show ?thesis unfolding add_volume_upsert new(1)
      using secret_volume_name[OF assms, of order x n] by (intro bexI[of _ "Volume order x (CreateVolumeFromSecret n s [])"]) auto
  qed
qed

lemma mount_added:
  assumes "is_iteration order" and "mnt \<in> set ms" and "distinct (map container_volumeMountToString ms)"
  shows "mnt \<in> set (c_VolumeMounts (container_WithVolumeMounts order ms c))"
proof -
  have "last_with container_volumeMountToString (container_volumeMountToString mnt) ms = Some mnt"
    using last_with_distinct[OF assms(3,2)] .
  then have "merged_at container_volumeMountToString (\<lambda>_ v. v) (c_VolumeMounts c) ms (container_volumeMountToString mnt) = Some mnt"
    by (auto simp: merged_at_def split: option.splits)
  then show ?thesis
    unfolding WithVolumeMounts_eq[OF assms(1)] by (simp add: overriding.merge_by_key_spec(3)[OF assms(1) all_anything all_anything])
qed

lemma tls_mounted:
  assumes "is_iteration (be_order be)" and "tls_Enabled (spec_tls m)"
    and "GetByName construct_AgentName (ps_Containers (pt_Spec t)) \<noteq> None"
    and "GetByName MongodbName (ps_Containers (pt_Spec t)) \<noteq> None"
    and "k = construct_AgentName \<or> k = MongodbName"
  shows "mounted (buildTLSPodSpecModification be m t) k tlsCAMountPath (ns_Name (TLSOperatorCASecretNamespacedName m))"
    and "mounted (buildTLSPodSpecModification be m t) k tlsOperatorSecretMountPath (ns_Name (TLSOperatorSecretNamespacedName m))"
proof -
  let ?o = "be_order be"
  let ?ca = "ns_Name (TLSOperatorCASecretNamespacedName m)" and ?key = "ns_Name (TLSOperatorSecretNamespacedName m)"
  let ?cav = "CreateVolumeFromSecret ''tls-ca'' ?ca []" and ?keyv = "CreateVolumeFromSecret ''tls-secret'' ?key []"
  let ?cam = "CreateVolumeMount ''tls-ca'' tlsCAMountPath [WithReadOnly True]"
  let ?keym = "CreateVolumeMount ''tls-secret'' tlsOperatorSecretMountPath [WithReadOnly True]"
  let ?t1 = "WithVolume ?o ?keyv (WithVolume ?o ?cav t)"
  have ne: "?ca \<noteq> ''''" "?key \<noteq> ''''" "construct_AgentName \<noteq> MongodbName"
    by (simp_all add: TLSOperatorCASecretNamespacedName_def TLSOperatorSecretNamespacedName_def construct_AgentName_def MongodbName_def)
  have names: "vol_Name ?cav = ''tls-ca''" "vol_Name ?keyv = ''tls-secret''" by (simp_all add: CreateVolumeFromSecret_def)
  have build: "buildTLSPodSpecModification be m t =
      pod_WithVolumeMounts ?o MongodbName [?keym, ?cam] (pod_WithVolumeMounts ?o construct_AgentName [?keym, ?cam] ?t1)"
    using assms(2) by (simp add: buildTLSPodSpecModification_def Let_def names)
  have found1: "GetByName construct_AgentName (ps_Containers (pt_Spec ?t1)) \<noteq> None" using assms(3) by simp
  have found2: "GetByName MongodbName (ps_Containers (pt_Spec (pod_WithVolumeMounts ?o construct_AgentName [?keym, ?cam] ?t1))) \<noteq> None"
    unfolding pod_WithVolumeMounts_eq(2)[OF found1] using assms(3,4) ne(3) by simp
  obtain c where c: "GetByName k (ps_Containers (pt_Spec (buildTLSPodSpecModification be m t))) = Some (container_WithVolumeMounts ?o [?keym, ?cam] c)"
    using assms(3-5) ne(3) unfolding build pod_WithVolumeMounts_eq(2)[OF found2] pod_WithVolumeMounts_eq(2)[OF found1]
    by (auto split: if_splits)
  have vols: "ps_Volumes (pt_Spec (buildTLSPodSpecModification be m t)) = add_volume ?o ?keyv (add_volume ?o ?cav (ps_Volumes (pt_Spec t)))"
    unfolding build pod_WithVolumeMounts_eq(1)[OF found2] pod_WithVolumeMounts_eq(1)[OF found1] WithVolume_volumes ..
  have "distinct (map container_volumeMountToString [?keym, ?cam])"
    by (simp add: container_volumeMountToString_def CreateVolumeMount_def WithReadOnly_def)
  then have mounts: "?cam \<in> set (c_VolumeMounts (container_WithVolumeMounts ?o [?keym, ?cam] c))"
    "?keym \<in> set (c_VolumeMounts (container_WithVolumeMounts ?o [?keym, ?cam] c))"
    by (simp_all add: mount_added[OF assms(1)])
  have paths: "vm_MountPath ?cam = tlsCAMountPath" "vm_Name ?cam = ''tls-ca''"
    "vm_MountPath ?keym = tlsOperatorSecretMountPath" "vm_Name ?keym = ''tls-secret''"
    by (simp_all add: CreateVolumeMount_def WithReadOnly_def)
  obtain v where v: "v \<in> set (add_volume ?o ?cav (ps_Volumes (pt_Spec t)))" "vol_Name v = ''tls-ca''"
      "map_option ss_SecretName (vs_Secret (vol_Source v)) = Some ?ca"
    using secret_volume_added[OF ne(1)] by blast
  then have "v \<in> set (add_volume ?o ?keyv (add_volume ?o ?cav (ps_Volumes (pt_Spec t))))"
    unfolding add_volume_upsert[of _ ?keyv] names by (intro upsert_keeps) auto
  with v(2,3) mounts(1) paths(1,2) show "mounted (buildTLSPodSpecModification be m t) k tlsCAMountPath ?ca"
    unfolding mounted_def c vols option.case list_ex_iff by (intro bexI[of _ ?cam] conjI bexI[of _ v]) auto
  obtain u where u: "u \<in> set (add_volume ?o ?keyv (add_volume ?o ?cav (ps_Volumes (pt_Spec t))))" "vol_Name u = ''tls-secret''"
      "map_option ss_SecretName (vs_Secret (vol_Source u)) = Some ?key"
    using secret_volume_added[OF ne(2)] by blast
  with mounts(2) paths(3,4) show "mounted (buildTLSPodSpecModification be m t) k tlsOperatorSecretMountPath ?key"
    unfolding mounted_def c vols option.case list_ex_iff by (intro bexI[of _ ?keym] conjI bexI[of _ u]) auto
qed

context objx_laws
begin

lemma tls_args:
  assumes "p \<in> set (ac_Processes (tlsConfigModification ox m pem ca config))" and "p_Args26 p = Some args"
  shows "objx_Get ox args ''net.tls.CAFile'' = Some (VStr (tlsCAMountPath @ tlsOperatorSecretFileName ca))"
    and "objx_Get ox args ''net.tls.certificateKeyFile'' = Some (VStr (tlsOperatorSecretMountPath @ tlsOperatorSecretFileName pem))"
proof -
  have ind: "independent ''net.tls.certificateKeyFile'' ''net.tls.CAFile''"
    "independent ''net.tls.allowConnectionsWithoutCertificates'' ''net.tls.CAFile''"
    "independent ''net.tls.allowConnectionsWithoutCertificates'' ''net.tls.certificateKeyFile''" by code_simp+
  show "objx_Get ox args ''net.tls.CAFile'' = Some (VStr (tlsCAMountPath @ tlsOperatorSecretFileName ca))"
    "objx_Get ox args ''net.tls.certificateKeyFile'' = Some (VStr (tlsOperatorSecretMountPath @ tlsOperatorSecretFileName pem))"
    using assms ind by (auto simp: tlsConfigModification_def Let_def get_set_same get_set_other)
qed

end


text \<open>A resource with TLS whose certificate is a secret and whose CA is a config map.\<close>

definition tls_mdb :: mdb where
  "tls_mdb = (demo_mdb 3 0)\<lparr>Spec := (Spec (demo_mdb 3 0))\<lparr>Security := (Security (Spec (demo_mdb 3 0)))\<lparr>sec_TLS :=
     \<lparr>tls_Enabled = True, tls_Optional = False, tls_CertificateKeySecret = ''cert'', tls_CaCertificateSecret = None,
      tls_CaConfigMap = Some ''ca''\<rparr>\<rparr>\<rparr>\<rparr>"

definition tls_world :: mock_world where
  "tls_world = NewMockedClient\<lparr>
     mw_secrets := [nn ''ns'' ''cert'' \<mapsto> \<lparr>s_Name = ''cert'', s_Namespace = ''ns'', s_OwnerReferences = [], s_Labels = [],
        s_Data = Some [(''tls.pem'', ''P'')], s_Type = ''''\<rparr>],
     mw_configMaps := [nn ''ns'' ''ca'' \<mapsto> \<lparr>cm_Name = ''ca'', cm_Namespace = ''ns'', cm_OwnerReferences = [], cm_Labels = [],
        cm_Data = Some [(''ca.crt'', ''C'')]\<rparr>]\<rparr>"

definition two_containers :: pod_template where
  "two_containers = zero_pod_template\<lparr>pt_Spec := zero_pod_spec\<lparr>ps_Containers :=
     [zero_container\<lparr>c_Name := construct_AgentName\<rparr>, zero_container\<lparr>c_Name := MongodbName\<rparr>]\<rparr>\<rparr>"

lemma tls_mdb_sel:
  "spec_tls tls_mdb = \<lparr>tls_Enabled = True, tls_Optional = False, tls_CertificateKeySecret = ''cert'', tls_CaCertificateSecret = None,
      tls_CaConfigMap = Some ''ca''\<rparr>"
  "mdb_Namespace tls_mdb = ''ns''" "mdb_Name tls_mdb = ''mdb''" "\<not> IsAgentX509 (Spec tls_mdb)"
  by (simp_all add: tls_mdb_def demo_mdb_def IsAgentX509_def GetAgentAuthMode_def zero_spec_def)

lemma tls_runs:
  obtains w1 f w2 where "ensureTLSResources mockedClient tls_mdb tls_world = (Inr (), w1)"
    and "getTLSConfigModification nested_objx mockedClient tls_mdb w1 = (Inr f, w2)"
    and "f = tlsConfigModification nested_objx tls_mdb ''P'' ''C''"
proof -
  let ?e = "ensureTLSResources mockedClient tls_mdb tls_world"
  note defs = eff_bind_def eff_wrap_def eff_check_def eff_lift_def eff_return_def tls_mdb_sel Let_def
    getCaCrt_def ReadData_def getPemOrConcatenatedCrtAndKey_def getCertAndKey_def getPem_def choose_pem_def ca_cert_of_def
    secret_ReadKey_def ReadStringData_def dataToStringData_def secret_CreateOrUpdate_def client_defs mockedClient_def mock_defs
    TLSSecretNamespacedName_def TLSConfigMapNamespacedName_def TLSOperatorCASecretNamespacedName_def TLSOperatorSecretNamespacedName_def
    tlsSecretCertName_def tlsSecretKeyName_def tlsSecretPemName_def tlsCACertName_def SecretNotExist_def notFoundError_def
    operator_secret_def service_builder_defs secret_Build_def secret_SetOwnerReferences_def secret_SetField_def secret_SetNamespace_def
    secret_SetName_def secret_Builder_def
  have "fst ?e = Inr () \<and> fst (getTLSConfigModification nested_objx mockedClient tls_mdb (snd ?e)) =
      Inr (tlsConfigModification nested_objx tls_mdb ''P'' ''C'')"
    by (simp add: ensureTLSResources_def ensureCASecret_def ensureTLSSecret_def getTLSConfigModification_def tls_world_def
        NewMockedClient_def defs)
  then show thesis using that by (metis prod.collapse)
qed


end
