(* ===== verification/Readiness.thy ===== *)
theory Readiness
  imports Construct
begin

text \<open>
  The readiness probe that runs beside every agent: \<open>cmd/readiness/main.go\<close> and
  \<open>pkg/readiness\<close>.  It reads the health file of the agent, publishes the version the agent has
  reached as an annotation of its own pod, and decides whether the pod is ready.

  A \<open>time.Time\<close> is a number of nanoseconds since the epoch and \<open>time.Now\<close> an effect.  The
  entries of a Go slice of pointers may be \<open>nil\<close>: they are options, and following a \<open>nil\<close> is a
  panic, which is the error \<open>nil_pointer\<close>.  The clientset, the decoding of JSON text and
  \<open>cast.ToInt64\<close> are third-party or text-level code and fields of \<open>probe_env\<close>; logging has no effect.
\<close>

type_synonym time = int
type_synonym duration = int

definition second :: duration where "second = 1000000000"
definition minute :: duration where "minute = 60 * second"

definition nil_pointer :: go_error where
  "nil_pointer = errorf ''panic: runtime error: invalid memory address or nil pointer dereference''"

subsection \<open>\<open>strconv\<close>\<close>

text \<open>\<open>strconv.ParseInt(s, 10, 64)\<close> and \<open>strconv.Atoi\<close>: an optional sign and digits, in the range
  of a signed 64-bit integer.\<close>

definition parse_error :: "string \<Rightarrow> string \<Rightarrow> string \<Rightarrow> go_error" where
  "parse_error fn s why = errorf (''strconv.'' @ fn @ '': parsing '' @ quote s @ '': '' @ why)"

definition parse_int64 :: "string \<Rightarrow> string \<Rightarrow> int fallible" where
  "parse_int64 fn s =
    (let neg = has_prefix s ''-''; ds = (if neg \<or> has_prefix s ''+'' then tl s else s);
         n = int (digits_val ds)
     in if ds = [] \<or> \<not> list_all (in_range CHR ''0'' CHR ''9'') ds then Inl (parse_error fn s ''invalid syntax'')
        else if neg \<and> n > 2 ^ 63 \<or> \<not> neg \<and> n \<ge> 2 ^ 63 then Inl (parse_error fn s ''value out of range'')
        else Inr (if neg then - n else n))"

definition ParseInt :: "string \<Rightarrow> int fallible" where "ParseInt = parse_int64 ''ParseInt''"
definition Atoi :: "string \<Rightarrow> int fallible" where "Atoi = parse_int64 ''Atoi''"

subsection \<open>The health file\<close>

definition replicationStatusPrimary :: int where "replicationStatusPrimary = 1"
definition replicationStatusSecondary :: int where "replicationStatusSecondary = 2"
definition replicationStatusArbiter :: int where "replicationStatusArbiter = 7"
definition replicationStatusUndefined :: int where "replicationStatusUndefined = -1"

record process_status =
  pst_IsInGoalState :: bool
  pst_LastMongoUpTime :: int
  pst_ExpectedToBeUp :: bool
  pst_ReplicaStatus :: "int option"

record step_status =
  ss_Step :: string
  ss_StepDoc :: string
  ss_IsWaitStep :: bool
  ss_Started :: "time option"
  ss_Completed :: "time option"
  ss_Result :: string

record move_status =
  ms_Steps :: "step_status option list"

record plan_status =
  pl_Moves :: "move_status option list"
  pl_Started :: "time option"
  pl_Completed :: "time option"

record director_status =
  ds_Name :: string
  ds_LastGoalStateClusterConfigVersion :: int
  ds_Plans :: "plan_status option list"

record health_status =
  hs_Statuses :: "(string \<times> process_status) list"
  hs_MmsStatus :: "(string \<times> director_status) list"

definition IsReadyState :: "process_status \<Rightarrow> bool" where
  "IsReadyState h = (case pst_ReplicaStatus h of
      None \<Rightarrow> True
    | Some status \<Rightarrow>
        if status = replicationStatusUndefined then True
        else status \<in> {replicationStatusPrimary, replicationStatusSecondary, replicationStatusArbiter})"

subsection \<open>Configuration\<close>

definition logPathEnv :: string where "logPathEnv = ''LOG_FILE_PATH''"
definition defaultLogPath :: string where "defaultLogPath = ''/var/log/mongodb-mms-automation/readiness.log''"
definition config_podNamespaceEnv :: string where "config_podNamespaceEnv = ''POD_NAMESPACE''"
definition automationConfigSecretEnv :: string where "automationConfigSecretEnv = ''AUTOMATION_CONFIG_MAP''"
definition hostNameEnv :: string where "hostNameEnv = ''HOSTNAME''"
definition headlessAgent :: string where "headlessAgent = ''HEADLESS_AGENT''"
definition AgentHealthStatusFilePathEnv :: string where "AgentHealthStatusFilePathEnv = ''AGENT_STATUS_FILEPATH''"
definition DefaultAgentHealthStatusFilePath :: string where
  "DefaultAgentHealthStatusFilePath = ''/var/log/mongodb-mms-automation/agent-health-status.json''"

record probe_config =
  pc_Namespace :: string
  pc_Hostname :: string
  pc_AutomationConfigSecretName :: string
  pc_HealthStatusReader :: "string fallible"
  pc_LogFilePath :: string

text \<open>A third function of this name; unlike the one of \<open>pkg/util/envvar\<close> it trims the value and
  takes an empty one for unset.\<close>

definition config_GetEnvOrDefault :: "getenv \<Rightarrow> string \<Rightarrow> string \<Rightarrow> string" where
  "config_GetEnvOrDefault getenv envVar defaultValue =
    (let value = TrimSpace (os_Getenv getenv envVar) in if value = '''' then defaultValue else value)"

definition readIntOrDefault :: "getenv \<Rightarrow> string \<Rightarrow> int \<Rightarrow> int" where
  "readIntOrDefault getenv envVarName defaultValue =
    (case Atoi (config_GetEnvOrDefault getenv envVarName (itoa defaultValue)) of
       Inl err \<Rightarrow> defaultValue
     | Inr intValue \<Rightarrow> intValue)"

definition readInt :: "getenv \<Rightarrow> string \<Rightarrow> int" where
  "readInt getenv envVarName = readIntOrDefault getenv envVarName 0"

definition ReadBoolWitDefault :: "getenv \<Rightarrow> string \<Rightarrow> string \<Rightarrow> bool" where
  "ReadBoolWitDefault getenv envVarName defaultValue =
    (TrimSpace (map lower_char (config_GetEnvOrDefault getenv envVarName defaultValue)) = ''true'')"

definition readinessProbeLogFilePath :: "getenv \<Rightarrow> string" where
  "readinessProbeLogFilePath getenv = config_GetEnvOrDefault getenv logPathEnv defaultLogPath"

record lumberjack =
  lj_Filename :: string
  lj_MaxBackups :: int
  lj_MaxSize :: int
  lj_MaxAge :: int
  lj_Compress :: bool

definition GetLogger :: "getenv \<Rightarrow> lumberjack" where
  "GetLogger getenv = \<lparr>lj_Filename = readinessProbeLogFilePath getenv,
     lj_MaxBackups = readIntOrDefault getenv ''READINESS_PROBE_LOGGER_BACKUPS'' 5,
     lj_MaxSize = readIntOrDefault getenv ''READINESS_PROBE_LOGGER_MAX_SIZE'' 5,
     lj_MaxAge = readInt getenv ''READINESS_PROBE_LOGGER_MAX_AGE'',
     lj_Compress = ReadBoolWitDefault getenv ''READINESS_PROBE_LOGGER_COMPRESS'' ''false''\<rparr>"

definition must_be_set :: "getenv \<Rightarrow> string \<Rightarrow> string fallible" where
  "must_be_set getenv v = (case getenv v of
      None \<Rightarrow> Inl (errorf (''the '' @ [CHR 0x27] @ v @ [CHR 0x27] @ '' environment variable must be set''))
    | Some s \<Rightarrow> Inr s)"

definition BuildFromEnvVariables :: "getenv \<Rightarrow> bool \<Rightarrow> string fallible \<Rightarrow> probe_config fallible" where
  "BuildFromEnvVariables getenv isHeadless reader =
    (let conf = (\<lambda>namespace name hostname. \<lparr>pc_Namespace = namespace, pc_Hostname = hostname,
           pc_AutomationConfigSecretName = name, pc_HealthStatusReader = reader,
           pc_LogFilePath = config_GetEnvOrDefault getenv logPathEnv defaultLogPath\<rparr>)
     in if isHeadless
        then (case must_be_set getenv config_podNamespaceEnv of Inl e \<Rightarrow> Inl e | Inr namespace \<Rightarrow>
             (case must_be_set getenv automationConfigSecretEnv of Inl e \<Rightarrow> Inl e | Inr name \<Rightarrow>
             (case must_be_set getenv hostNameEnv of Inl e \<Rightarrow> Inl e | Inr hostname \<Rightarrow>
               Inr (conf namespace name hostname))))
        else Inr (conf '''' '''' ''''))"

subsection \<open>The environment of the probe\<close>

text \<open>A file as the probe finds it: \<open>os.IsNotExist\<close> holds of \<open>os.Stat\<close> exactly for \<open>No_file\<close>.\<close>

datatype disk_file = No_file go_error | Open_fails go_error | Read_fails go_error | Contents string

record pod_patch =
  pp_Op :: string
  pp_Path :: string
  pp_Value :: go_value

record 'w clientset =
  cs_GetPod :: "nsname \<Rightarrow> ('w, pod fallible) effect"
  cs_PatchPod :: "nsname \<Rightarrow> pod_patch list \<Rightarrow> ('w, pod fallible) effect"
  cs_GetSecret :: "nsname \<Rightarrow> ('w, secret fallible) effect"

record 'w probe_env =
  pe_getenv :: getenv
  pe_files :: "string \<Rightarrow> disk_file"
  pe_Now :: "('w, time) effect"
  pe_order :: iteration
  pe_clientset :: "'w clientset fallible"
  pe_health_Unmarshal :: "string \<Rightarrow> health_status fallible"
  pe_object_Unmarshal :: "string \<Rightarrow> go_map fallible"
  pe_ToInt64 :: "go_value \<Rightarrow> int"

text \<open>\<open>os.Open\<close>, and \<open>io.ReadAll\<close> of the open file.\<close>

definition os_Open :: "disk_file \<Rightarrow> string fallible fallible" where
  "os_Open f = (case f of
      No_file e \<Rightarrow> Inl e | Open_fails e \<Rightarrow> Inl e
    | Read_fails e \<Rightarrow> Inr (Inl e) | Contents s \<Rightarrow> Inr (Inr s))"

subsection \<open>The annotation of the pod\<close>

definition mongodbAgentVersionAnnotation :: string where
  "mongodbAgentVersionAnnotation = ''agent.mongodb.com/version''"

fun escape_all_slashes :: "string \<Rightarrow> string" where
  "escape_all_slashes [] = []"
| "escape_all_slashes (c # s) = (if c = CHR ''/'' then ''~1'' else [c]) @ escape_all_slashes s"

definition version_patches :: "pod \<Rightarrow> int \<Rightarrow> pod_patch list" where
  "version_patches p lastVersionAchieved =
    (if pod_Annotations p = [] then [\<lparr>pp_Op = ''add'', pp_Path = ''/metadata/annotations'', pp_Value = VMap []\<rparr>] else [])
    @ [\<lparr>pp_Op = ''add'', pp_Path = ''/metadata/annotations/'' @ escape_all_slashes mongodbAgentVersionAnnotation,
        pp_Value = VStr (itoa lastVersionAchieved)\<rparr>]"

definition PatchPodAnnotation :: "string \<Rightarrow> int \<Rightarrow> string \<Rightarrow> 'w clientset \<Rightarrow> ('w, unit fallible) effect" where
  "PatchPodAnnotation podNamespace lastVersionAchieved memberName cs =
    eff_bind (cs_GetPod cs (nn podNamespace memberName)) (\<lambda>p.
    eff_bind (cs_PatchPod cs (nn podNamespace memberName) (version_patches p lastVersionAchieved)) (\<lambda>_.
    eff_return ()))"

subsection \<open>The goal state\<close>

definition ReadAutomationConfigVersionFromSecret ::
    "'w probe_env \<Rightarrow> 'w clientset \<Rightarrow> string \<Rightarrow> string \<Rightarrow> ('w, int fallible) effect" where
  "ReadAutomationConfigVersionFromSecret pe cs namespace automationConfigMap =
    eff_bind (cs_GetSecret cs (nn namespace automationConfigMap)) (\<lambda>theSecret.
    eff_bind (eff_lift (pe_object_Unmarshal pe
        (case data_lookup (s_Data theSecret) ''cluster-config.json'' of None \<Rightarrow> '''' | Some bytes \<Rightarrow> bytes))) (\<lambda>existingDeployment.
    eff_return (case map_of existingDeployment ''version'' of None \<Rightarrow> -1 | Some version \<Rightarrow> pe_ToInt64 pe version)))"

definition acVersionPath :: string where
  "acVersionPath = ''/var/lib/automation/config/acVersion/version''"

definition readCurrentAgentInfo :: "iteration \<Rightarrow> health_status \<Rightarrow> int \<Rightarrow> int" where
  "readCurrentAgentInfo order h targetVersion =
    (case iterate order (hs_MmsStatus h) of
       (_, v) # _ \<Rightarrow> ds_LastGoalStateClusterConfigVersion v
     | [] \<Rightarrow> targetVersion)"

text \<open>The version in the mounted file, when the secret could not be read.\<close>

definition version_from_file :: "'w probe_env \<Rightarrow> string \<Rightarrow> go_error \<Rightarrow> int fallible" where
  "version_from_file pe secretName err = (case pe_files pe acVersionPath of
      No_file _ \<Rightarrow> Inl (errorf (''failed to fetch automation-config secret name: '' @ secretName @ '', err: '' @ err_msg err))
    | Open_fails e \<Rightarrow> Inl e
    | Read_fails e \<Rightarrow> Inl e
    | Contents s \<Rightarrow> ParseInt s)"

definition target_version :: "'w probe_env \<Rightarrow> 'w clientset \<Rightarrow> probe_config \<Rightarrow> ('w, int fallible) effect" where
  "target_version pe cs conf w =
    (case ReadAutomationConfigVersionFromSecret pe cs (pc_Namespace conf) (pc_AutomationConfigSecretName conf) w of
       (Inl err, w1) \<Rightarrow> (version_from_file pe (pc_AutomationConfigSecretName conf) err, w1)
     | (Inr v, w1) \<Rightarrow> (Inr v, w1))"

definition PerformCheckHeadlessMode ::
    "'w probe_env \<Rightarrow> 'w clientset \<Rightarrow> health_status \<Rightarrow> probe_config \<Rightarrow> ('w, bool fallible) effect" where
  "PerformCheckHeadlessMode pe cs h conf =
    eff_bind (target_version pe cs conf) (\<lambda>targetVersion.
      let currentAgentVersion = readCurrentAgentInfo (pe_order pe) h targetVersion
      in eff_bind (PatchPodAnnotation (pc_Namespace conf) currentAgentVersion (pc_Hostname conf) cs) (\<lambda>_.
         eff_return (targetVersion = currentAgentVersion)))"

definition performCheckOMMode :: "health_status \<Rightarrow> bool" where
  "performCheckOMMode h = list_ex (\<lambda>(_, v). pst_IsInGoalState v) (hs_Statuses h)"

definition isHeadlessMode :: "'w probe_env \<Rightarrow> bool" where
  "isHeadlessMode pe = (os_Getenv (pe_getenv pe) headlessAgent = ''true'')"

definition isInGoalState :: "'w probe_env \<Rightarrow> 'w clientset \<Rightarrow> health_status \<Rightarrow> probe_config \<Rightarrow> ('w, bool fallible) effect" where
  "isInGoalState pe cs h conf =
    (if isHeadlessMode pe then PerformCheckHeadlessMode pe cs h conf else eff_return (performCheckOMMode h))"

definition mongodNotReadyIntervalMinutes :: duration where
  "mongodNotReadyIntervalMinutes = minute * 1"

definition isInReadyState :: "'w probe_env \<Rightarrow> health_status \<Rightarrow> ('w, bool) effect" where
  "isInReadyState pe h w =
    (case iterate (pe_order pe) (hs_Statuses h) of
       [] \<Rightarrow> (True, w)
     | (_, processHealth) # _ \<Rightarrow>
         if \<not> pst_ExpectedToBeUp processHealth then (True, w)
         else (case pe_Now pe w of (now, w1) \<Rightarrow>
           (let timeMongoUp = pst_LastMongoUpTime processHealth * second;
                mongoUpThreshold = now - mongodNotReadyIntervalMinutes;
                mongoIsHealthy = timeMongoUp > mongoUpThreshold
            in (mongoIsHealthy \<and> IsReadyState processHealth, w1))))"

subsection \<open>The current step\<close>

text \<open>The two nested loops of \<open>findCurrentStep\<close>; \<open>acc\<close> is \<open>lastStartedStep\<close>.\<close>

fun last_started :: "step_status option list \<Rightarrow> step_status option \<Rightarrow> step_status option fallible" where
  "last_started [] acc = Inr acc"
| "last_started (None # ss) acc = Inl nil_pointer"
| "last_started (Some s # ss) acc =
    last_started ss (if ss_Started s \<noteq> None \<and> ss_Completed s = None then Some s else acc)"

fun last_started_move :: "move_status option list \<Rightarrow> step_status option \<Rightarrow> step_status option fallible" where
  "last_started_move [] acc = Inr acc"
| "last_started_move (None # ms) acc = Inl nil_pointer"
| "last_started_move (Some m # ms) acc =
    (case last_started (ms_Steps m) acc of Inl e \<Rightarrow> Inl e | Inr acc' \<Rightarrow> last_started_move ms acc')"

definition findCurrentStep :: "(string \<times> director_status) list \<Rightarrow> step_status option fallible" where
  "findCurrentStep processStatuses =
    (case processStatuses of
       [(processName, processStatus)] \<Rightarrow>
         if ds_Plans processStatus = [] then Inr None
         else (case last (ds_Plans processStatus) of
             None \<Rightarrow> Inl nil_pointer
           | Some currentPlan \<Rightarrow>
               if pl_Completed currentPlan \<noteq> None then Inr None
               else last_started_move (pl_Moves currentPlan) None)
     | _ \<Rightarrow> Inr None)"

definition isWaitStep :: "'w probe_env \<Rightarrow> step_status \<Rightarrow> ('w, bool fallible) effect" where
  "isWaitStep pe status w = (case pe_Now pe w of (now, w1) \<Rightarrow>
    (let fifteenSecondsAgo = now - 15 * second
     in if ss_IsWaitStep status \<and> ss_Completed status = None
        then (case ss_Started status of
            None \<Rightarrow> (Inl nil_pointer, w1)
          | Some started \<Rightarrow> (Inr (started < fifteenSecondsAgo), w1))
        else (Inr False, w1)))"

definition isOnWaitingStep :: "'w probe_env \<Rightarrow> health_status \<Rightarrow> ('w, bool fallible) effect" where
  "isOnWaitingStep pe h = (case findCurrentStep (hs_MmsStatus h) of
      Inl e \<Rightarrow> eff_fail e
    | Inr (Some currentStep) \<Rightarrow> isWaitStep pe currentStep
    | Inr None \<Rightarrow> eff_return False)"

subsection \<open>The decision\<close>

definition parseHealthStatus :: "'w probe_env \<Rightarrow> string fallible \<Rightarrow> health_status fallible" where
  "parseHealthStatus pe reader = (case reader of Inl err \<Rightarrow> Inl err | Inr data \<Rightarrow> pe_health_Unmarshal pe data)"

definition isPodReady :: "'w probe_env \<Rightarrow> 'w clientset \<Rightarrow> probe_config \<Rightarrow> ('w, bool fallible) effect" where
  "isPodReady pe cs conf =
    (case parseHealthStatus pe (pc_HealthStatusReader conf) of
       Inl err \<Rightarrow> eff_return False
     | Inr h \<Rightarrow>
         if hs_Statuses h = [] \<and> \<not> isHeadlessMode pe then eff_return True
         else eff_bind (isInGoalState pe cs h conf) (\<lambda>inGoalState w.
           case isInReadyState pe h w of (inReadyState, w1) \<Rightarrow>
             if inGoalState \<and> inReadyState then (Inr True, w1)
             else if \<not> inGoalState then isOnWaitingStep pe h w1
             else (Inr False, w1)))"

text \<open>The exit code of the process; a panic exits with 2.\<close>

definition readiness_main :: "'w probe_env \<Rightarrow> ('w, int) effect" where
  "readiness_main pe w =
    (case pe_clientset pe of
       Inl err \<Rightarrow> (2, w)
     | Inr clientSet \<Rightarrow>
         (case os_Open (pe_files pe (config_GetEnvOrDefault (pe_getenv pe) AgentHealthStatusFilePathEnv DefaultAgentHealthStatusFilePath)) of
            Inl err \<Rightarrow> (1, w)
          | Inr file \<Rightarrow>
              (case BuildFromEnvVariables (pe_getenv pe) (isHeadlessMode pe) file of
                 Inl err \<Rightarrow> (2, w)
               | Inr cfg \<Rightarrow>
                   (case isPodReady pe clientSet cfg w of
                      (Inl err, w1) \<Rightarrow> (2, w1)
                    | (Inr ready, w1) \<Rightarrow> (if ready then 0 else 1, w1)))))"

subsection \<open>Parsing integers\<close>

lemma digits_are_digits: "list_all (in_range CHR ''0'' CHR ''9'') (digits n)"
proof -
  have "in_range CHR ''0'' CHR ''9'' (digit d)" for d
    by (simp add: in_range_def less_eq_char_def)
  then show ?thesis using set_digits[of n] by (auto simp: list_all_iff)
qed

lemma parse_int64_itoa:
  assumes "- (2 ^ 63) \<le> v" and "v < 2 ^ 63"
  shows "parse_int64 fn (itoa v) = Inr v"
proof -
  have no_sign: "\<not> has_prefix (digits n) ''-''" "\<not> has_prefix (digits n) ''+''" for n
    using digits_no_minus[of n] digits_are_digits[of n]
    by (cases "digits n"; auto simp: in_range_def less_eq_char_def)+
  show ?thesis
    using assms digits_are_digits no_sign by (auto simp: parse_int64_def itoa_def Let_def)
qed

lemma parse_int64_range: "parse_int64 fn s = Inr v \<Longrightarrow> - (2 ^ 63) \<le> v \<and> v < 2 ^ 63"
  by (auto simp: parse_int64_def Let_def split: if_splits)

subsection \<open>The step the agent works on\<close>

abbreviation running :: "step_status \<Rightarrow> bool" where
  "running s \<equiv> ss_Started s \<noteq> None \<and> ss_Completed s = None"

definition no_nil :: "'a option list \<Rightarrow> bool" where
  "no_nil xs = (None \<notin> set xs)"

definition plan_steps :: "plan_status \<Rightarrow> step_status list" where
  "plan_steps plan = concat (map (\<lambda>m. map the (ms_Steps (the m))) (pl_Moves plan))"

definition last_satisfying :: "('a \<Rightarrow> bool) \<Rightarrow> 'a option \<Rightarrow> 'a list \<Rightarrow> 'a option" where
  "last_satisfying P acc xs = fold (\<lambda>x a. if P x then Some x else a) xs acc"

lemma last_satisfying_iff: "last_satisfying P None xs = (if filter P xs = [] then None else Some (last (filter P xs)))"
proof -
  have "last_satisfying P acc xs = (if filter P xs = [] then acc else Some (last (filter P xs)))" for acc
    unfolding last_satisfying_def by (induction xs arbitrary: acc) auto
  then show ?thesis by simp
qed

lemma last_started_eq:
  "no_nil ss \<Longrightarrow> last_started ss acc = Inr (last_satisfying running acc (map the ss))"
  by (induction ss acc rule: last_started.induct) (auto simp: last_satisfying_def no_nil_def)

lemma last_started_nil: "\<not> no_nil ss \<Longrightarrow> last_started ss acc = Inl nil_pointer"
  by (induction ss acc rule: last_started.induct) (auto simp: no_nil_def)

lemma last_started_move_eq:
  assumes "no_nil ms" and "\<forall>m\<in>set ms. no_nil (ms_Steps (the m))"
  shows "last_started_move ms acc = Inr (last_satisfying running acc (concat (map (\<lambda>m. map the (ms_Steps (the m))) ms)))"
  using assms
proof (induction ms acc rule: last_started_move.induct)
  case (3 m ms acc)
  then have "last_started (ms_Steps m) acc = Inr (last_satisfying running acc (map the (ms_Steps m)))"
    by (intro last_started_eq) simp
  with 3 show ?case by (simp add: no_nil_def last_satisfying_def)
qed (simp_all add: last_satisfying_def no_nil_def)

lemma last_started_move_nil:
  assumes "\<not> (no_nil ms \<and> (\<forall>m\<in>set ms. no_nil (ms_Steps (the m))))"
  shows "last_started_move ms acc = Inl nil_pointer"
  using assms
proof (induction ms acc rule: last_started_move.induct)
  case (3 m ms acc)
  show ?case
  proof (cases "no_nil (ms_Steps m)")
    case True
    with 3 show ?thesis using last_started_eq[OF True] by (auto simp: no_nil_def)
  next
    case False
    then show ?thesis by (simp add: last_started_nil)
  qed
qed (simp_all add: no_nil_def)

lemma last_started_move_Inr:
  assumes "last_started_move (pl_Moves plan) None = Inr r"
  shows "r = last_satisfying running None (plan_steps plan)"
  using assms last_started_move_eq[of "pl_Moves plan" None] last_started_move_nil[of "pl_Moves plan" None]
  by (cases "no_nil (pl_Moves plan) \<and> (\<forall>m\<in>set (pl_Moves plan). no_nil (ms_Steps (the m)))")
     (auto simp: plan_steps_def)

text \<open>The agent has been waiting for more than fifteen seconds in the step it started last of a
  plan that is not finished.\<close>

definition waits_since :: "time \<Rightarrow> health_status \<Rightarrow> bool" where
  "waits_since now h = (\<exists>name d plan s started.
     hs_MmsStatus h = [(name, d)] \<and> ds_Plans d \<noteq> [] \<and> last (ds_Plans d) = Some plan \<and> pl_Completed plan = None \<and>
     filter running (plan_steps plan) \<noteq> [] \<and> s = last (filter running (plan_steps plan)) \<and>
     ss_IsWaitStep s \<and> ss_Started s = Some started \<and> started + 15 * second < now)"

lemma findCurrentStep_Inr:
  assumes "findCurrentStep ms = Inr (Some s)"
  obtains name d plan where "ms = [(name, d)]" "ds_Plans d \<noteq> []" "last (ds_Plans d) = Some plan" "pl_Completed plan = None"
    "filter running (plan_steps plan) \<noteq> []" "s = last (filter running (plan_steps plan))"
proof -
  obtain name d plan where m: "ms = [(name, d)]" "ds_Plans d \<noteq> []" "last (ds_Plans d) = Some plan" "pl_Completed plan = None"
    and r: "last_started_move (pl_Moves plan) None = Inr (Some s)"
    using assms by (auto simp: findCurrentStep_def split: list.splits prod.splits if_splits option.splits)
  from last_started_move_Inr[OF r] show thesis
    by (intro that[OF m]) (auto simp: last_satisfying_iff split: if_splits)
qed

lemma isOnWaitingStep_waits:
  assumes "isOnWaitingStep pe h w = (Inr True, w')"
  shows "\<exists>w1. waits_since (fst (pe_Now pe w1)) h"
proof -
  obtain s where s: "findCurrentStep (hs_MmsStatus h) = Inr (Some s)" and r: "isWaitStep pe s w = (Inr True, w')"
    using assms by (auto simp: isOnWaitingStep_def split: sum.splits option.splits)
  obtain started where st: "ss_IsWaitStep s" "ss_Started s = Some started" "started < fst (pe_Now pe w) - 15 * second"
    using r by (auto simp: isWaitStep_def Let_def split: prod.splits if_splits option.splits)
  from s show ?thesis
  proof (rule findCurrentStep_Inr)
    fix name d plan
    assume "hs_MmsStatus h = [(name, d)]" "ds_Plans d \<noteq> []" "last (ds_Plans d) = Some plan" "pl_Completed plan = None"
      "filter running (plan_steps plan) \<noteq> []" "s = last (filter running (plan_steps plan))"
    with st have "waits_since (fst (pe_Now pe w)) h" unfolding waits_since_def by fastforce
    then show ?thesis ..
  qed
qed

subsection \<open>What readiness means\<close>

text \<open>The process the probe looks at is up, or is not meant to be.\<close>

definition mongod_ready :: "time \<Rightarrow> iteration \<Rightarrow> health_status \<Rightarrow> bool" where
  "mongod_ready now order h = (case iterate order (hs_Statuses h) of
      [] \<Rightarrow> True
    | (_, p) # _ \<Rightarrow> pst_ExpectedToBeUp p \<longrightarrow> IsReadyState p \<and> pst_LastMongoUpTime p * second + minute > now)"

lemma isInReadyState_ready:
  assumes "isInReadyState pe h w = (True, w')"
  shows "mongod_ready (fst (pe_Now pe w)) (pe_order pe) h"
  using assms
  by (auto simp: isInReadyState_def mongod_ready_def mongodNotReadyIntervalMinutes_def Let_def
      split: list.splits prod.splits if_splits)

lemma PerformCheckHeadlessMode_Inr:
  assumes "PerformCheckHeadlessMode pe cs h conf w = (Inr b, w')"
  obtains t w1 where "target_version pe cs conf w = (Inr t, w1)"
    and "b \<longleftrightarrow> t = readCurrentAgentInfo (pe_order pe) h t"
    and "PatchPodAnnotation (pc_Namespace conf) (readCurrentAgentInfo (pe_order pe) h t) (pc_Hostname conf) cs w1 = (Inr (), w')"
  using assms by (auto simp: PerformCheckHeadlessMode_def eff_bind_Inr_iff Let_def)

lemma isPodReady_headless:
  assumes "isPodReady pe cs conf w = (Inr True, w')" and "isHeadlessMode pe"
  obtains h t w1 where "parseHealthStatus pe (pc_HealthStatusReader conf) = Inr h"
    and "target_version pe cs conf w = (Inr t, w1)"
    and "readCurrentAgentInfo (pe_order pe) h t = t \<and> (\<exists>w2. mongod_ready (fst (pe_Now pe w2)) (pe_order pe) h) \<or>
         readCurrentAgentInfo (pe_order pe) h t \<noteq> t \<and> (\<exists>w2. waits_since (fst (pe_Now pe w2)) h)"
proof -
  obtain h b w1 where h: "parseHealthStatus pe (pc_HealthStatusReader conf) = Inr h"
      and check: "PerformCheckHeadlessMode pe cs h conf w = (Inr b, w1)"
      and rest: "(case isInReadyState pe h w1 of (r, w2) \<Rightarrow> if b \<and> r then (Inr True, w2)
        else if \<not> b then isOnWaitingStep pe h w2 else (Inr False, w2)) = (Inr True, w')"
    using assms by (auto simp: isPodReady_def isInGoalState_def eff_bind_Inr_iff split: sum.splits)
  obtain r w2 where r: "isInReadyState pe h w1 = (r, w2)" by fastforce
  from check show thesis
  proof (rule PerformCheckHeadlessMode_Inr)
    fix t w3
    assume t: "target_version pe cs conf w = (Inr t, w3)" and b: "b \<longleftrightarrow> t = readCurrentAgentInfo (pe_order pe) h t"
    show thesis
    proof (rule that[OF h t], cases b)
      case True
      then have "isInReadyState pe h w1 = (True, w2)" using rest r by (auto split: if_splits)
      then have "\<exists>w2. mongod_ready (fst (pe_Now pe w2)) (pe_order pe) h" by (intro exI) (rule isInReadyState_ready)
      then show "readCurrentAgentInfo (pe_order pe) h t = t \<and> (\<exists>w2. mongod_ready (fst (pe_Now pe w2)) (pe_order pe) h) \<or>
         readCurrentAgentInfo (pe_order pe) h t \<noteq> t \<and> (\<exists>w2. waits_since (fst (pe_Now pe w2)) h)"
        using True b by simp
    next
      case False
      then have "isOnWaitingStep pe h w2 = (Inr True, w')" using rest r by simp
      then show "readCurrentAgentInfo (pe_order pe) h t = t \<and> (\<exists>w2. mongod_ready (fst (pe_Now pe w2)) (pe_order pe) h) \<or>
         readCurrentAgentInfo (pe_order pe) h t \<noteq> t \<and> (\<exists>w2. waits_since (fst (pe_Now pe w2)) h)"
        using isOnWaitingStep_waits False b by auto
    qed
  qed
qed

subsection \<open>The published version\<close>

text \<open>The two forms of a JSON patch (RFC 6902) the probe sends: adding the object of annotations,
  and adding one member to it, which fails when the object is absent.  A Kubernetes object
  without annotations is written without the field.\<close>

fun unescape_pointer :: "string \<Rightarrow> string" where
  "unescape_pointer (c # d # s) =
    (if c = CHR ''~'' \<and> d = CHR ''1'' then CHR ''/'' # unescape_pointer s
     else if c = CHR ''~'' \<and> d = CHR ''0'' then CHR ''~'' # unescape_pointer s
     else c # unescape_pointer (d # s))"
| "unescape_pointer s = s"

fun add_annotations :: "pod_patch list \<Rightarrow> str_map option \<Rightarrow> str_map option" where
  "add_annotations [] doc = doc"
| "add_annotations (p # ps) doc =
    (if pp_Op p \<noteq> ''add'' then None
     else if pp_Path p = ''/metadata/annotations'' \<and> pp_Value p = VMap [] then add_annotations ps (Some [])
     else case (doc, pp_Value p) of
            (Some ann, VStr v) \<Rightarrow>
              if has_prefix (pp_Path p) ''/metadata/annotations/''
              then add_annotations ps (Some (map_put (unescape_pointer (drop 22 (pp_Path p))) v ann))
              else None
          | _ \<Rightarrow> None)"

definition annotations_doc :: "pod \<Rightarrow> str_map option" where
  "annotations_doc p = (if pod_Annotations p = [] then None else Some (pod_Annotations p))"

lemma add_version_patches:
  "add_annotations (version_patches p v) (annotations_doc p) =
   Some (map_put mongodbAgentVersionAnnotation (itoa v) (pod_Annotations p))"
proof -
  have "unescape_pointer (drop 22 (''/metadata/annotations/'' @ escape_all_slashes mongodbAgentVersionAnnotation))
      = mongodbAgentVersionAnnotation" by code_simp
  moreover have "has_prefix (''/metadata/annotations/'' @ s) ''/metadata/annotations/''"
    "''/metadata/annotations/'' @ s \<noteq> ''/metadata/annotations''" for s by simp_all
  ultimately show ?thesis by (simp add: version_patches_def annotations_doc_def)
qed

locale pod_patching =
  fixes cs :: "'w clientset" and pods :: "'w \<Rightarrow> nsname \<Rightarrow> pod option" and secrets :: "'w \<Rightarrow> nsname \<Rightarrow> secret option"
  assumes get_pod: "cs_GetPod cs k w = (Inr p, w') \<Longrightarrow> pods w k = Some p \<and> pods w' = pods w"
    and patch_pod: "cs_PatchPod cs k ps w = (Inr p', w') \<Longrightarrow>
      \<exists>p ann. pods w k = Some p \<and> add_annotations ps (annotations_doc p) = Some ann \<and>
        p' = p\<lparr>pod_Annotations := ann\<rparr> \<and> pods w' = (pods w)(k \<mapsto> p')"
    and secret_read: "preserves pods (cs_GetSecret cs k)"
    and secret_result: "secrets w = secrets w' \<Longrightarrow> fst (cs_GetSecret cs k w) = fst (cs_GetSecret cs k w')"
    and secrets_kept: "preserves secrets (cs_GetSecret cs k)" "preserves secrets (cs_GetPod cs k)"
      "preserves secrets (cs_PatchPod cs k ps)"
begin

lemma PatchPodAnnotation_Inr:
  assumes "PatchPodAnnotation ns v name cs w = (Inr (), w')"
  obtains p where "pods w (nn ns name) = Some p"
    and "pods w' = (pods w)(nn ns name \<mapsto> p\<lparr>pod_Annotations := map_put mongodbAgentVersionAnnotation (itoa v) (pod_Annotations p)\<rparr>)"
proof -
  obtain p w1 p' where g: "cs_GetPod cs (nn ns name) w = (Inr p, w1)"
      and u: "cs_PatchPod cs (nn ns name) (version_patches p v) w1 = (Inr p', w')"
    using assms by (auto simp: PatchPodAnnotation_def eff_bind_Inr_iff)
  have p: "pods w (nn ns name) = Some p" "pods w1 = pods w" using get_pod[OF g] by auto
  from patch_pod[OF u] p show thesis by (intro that[OF p(1)]) (auto simp: add_version_patches)
qed

lemma target_version_preserves:
  assumes "\<And>k. preserves obs (cs_GetSecret cs k)"
  shows "preserves obs (target_version pe cs conf)"
proof -
  have "preserves obs (ReadAutomationConfigVersionFromSecret pe cs ns name)" for ns name
    unfolding ReadAutomationConfigVersionFromSecret_def by (intro preserves_intros assms)
  from preservesD[OF this] show ?thesis
    by (auto simp: target_version_def intro!: preservesI split: prod.splits sum.splits)
qed

lemma target_version_stable:
  assumes "secrets w = secrets w'"
  shows "fst (target_version pe cs conf w) = fst (target_version pe cs conf w')"
proof -
  have "fst (ReadAutomationConfigVersionFromSecret pe cs ns name w) = fst (ReadAutomationConfigVersionFromSecret pe cs ns name w')"
    for ns name
    using secret_result[OF assms, of "nn ns name"]
    by (auto simp: ReadAutomationConfigVersionFromSecret_def eff_bind_def split: prod.splits sum.splits)
  from this[of "pc_Namespace conf" "pc_AutomationConfigSecretName conf"] show ?thesis
    by (auto simp: target_version_def split: prod.splits sum.splits)
qed

lemma check_keeps_secrets: "preserves secrets (PerformCheckHeadlessMode pe cs h conf)"
  unfolding PerformCheckHeadlessMode_def PatchPodAnnotation_def Let_def
  by (intro preserves_intros target_version_preserves secrets_kept)

text \<open>A successful check leaves its verdict in the pod, where the operator reads it.\<close>

lemma check_published:
  assumes "PerformCheckHeadlessMode pe cs h conf w = (Inr b, w')" and "fst (target_version pe cs conf w) = Inr t"
    and "toInt (itoa (readCurrentAgentInfo (pe_order pe) h t)) = readCurrentAgentInfo (pe_order pe) h t"
  obtains p' where "pods w' = (pods w)(nn (pc_Namespace conf) (pc_Hostname conf) \<mapsto> p')"
    and "ReachedGoalState toInt p' t \<longleftrightarrow> b"
proof -
  from assms(1) show thesis
  proof (rule PerformCheckHeadlessMode_Inr)
    fix t' w1
    assume t: "target_version pe cs conf w = (Inr t', w1)" and b: "b \<longleftrightarrow> t' = readCurrentAgentInfo (pe_order pe) h t'"
      and patch: "PatchPodAnnotation (pc_Namespace conf) (readCurrentAgentInfo (pe_order pe) h t') (pc_Hostname conf) cs w1 = (Inr (), w')"
    have "t' = t" using t assms(2) by simp
    from patch show thesis
    proof (rule PatchPodAnnotation_Inr)
      fix p :: pod
      let ?p = "p\<lparr>pod_Annotations := map_put mongodbAgentVersionAnnotation
        (itoa (readCurrentAgentInfo (pe_order pe) h t')) (pod_Annotations p)\<rparr>"
      assume "pods w' = (pods w1)(nn (pc_Namespace conf) (pc_Hostname conf) \<mapsto> ?p)"
      moreover have "pods w1 = pods w" by (rule preservesD[OF target_version_preserves[OF secret_read] t])
      moreover have "ReachedGoalState toInt ?p t \<longleftrightarrow> b"
        using b \<open>t' = t\<close> by (auto simp: ReachedGoalState_def podAnnotationAgentVersion_def mongodbAgentVersionAnnotation_def assms(3))
      ultimately show thesis using that by simp
    qed
  qed
qed

lemma checks_published:
  assumes "eff_map (\<lambda>(h, conf). PerformCheckHeadlessMode pe cs h conf) probes w = (Inr verdicts, w')"
    and "\<And>h conf. (h, conf) \<in> set probes \<Longrightarrow> fst (target_version pe cs conf w) = Inr t"
    and "\<And>h conf. (h, conf) \<in> set probes \<Longrightarrow>
      toInt (itoa (readCurrentAgentInfo (pe_order pe) h t)) = readCurrentAgentInfo (pe_order pe) h t"
    and "distinct (map (\<lambda>(h, conf). nn (pc_Namespace conf) (pc_Hostname conf)) probes)"
  shows "length verdicts = length probes \<and>
    (\<forall>k. k \<notin> (\<lambda>(h, conf). nn (pc_Namespace conf) (pc_Hostname conf)) ` set probes \<longrightarrow> pods w' k = pods w k) \<and>
    (\<forall>i<length probes. \<exists>p. pods w' (nn (pc_Namespace (snd (probes ! i))) (pc_Hostname (snd (probes ! i)))) = Some p \<and>
       ReachedGoalState toInt p t = verdicts ! i)"
  using assms
proof (induction probes arbitrary: verdicts w)
  case (Cons hc probes)
  obtain h conf where hc: "hc = (h, conf)" by fastforce
  obtain b bs w1 where run: "PerformCheckHeadlessMode pe cs h conf w = (Inr b, w1)"
      and rest: "eff_map (\<lambda>(h, conf). PerformCheckHeadlessMode pe cs h conf) probes w1 = (Inr bs, w')"
      and v: "verdicts = b # bs"
    using Cons.prems(1) by (auto simp: hc eff_bind_Inr_iff)
  obtain p where p: "pods w1 = (pods w)(nn (pc_Namespace conf) (pc_Hostname conf) \<mapsto> p)" "ReachedGoalState toInt p t \<longleftrightarrow> b"
    using check_published[OF run, of t toInt] Cons.prems(2)[of h conf] Cons.prems(3)[of h conf] by (auto simp: hc)
  have "secrets w1 = secrets w" by (rule preservesD[OF check_keeps_secrets run])
  then have target: "fst (target_version pe cs c w1) = Inr t" if "(h', c) \<in> set probes" for h' c
    using Cons.prems(2)[OF list.set_intros(2)[OF that]] target_version_stable[of w1 w pe c] by simp
  have IH: "length bs = length probes \<and>
    (\<forall>k. k \<notin> (\<lambda>(h, conf). nn (pc_Namespace conf) (pc_Hostname conf)) ` set probes \<longrightarrow> pods w' k = pods w1 k) \<and>
    (\<forall>i<length probes. \<exists>p. pods w' (nn (pc_Namespace (snd (probes ! i))) (pc_Hostname (snd (probes ! i)))) = Some p \<and>
       ReachedGoalState toInt p t = bs ! i)"
    by (rule Cons.IH[OF rest target Cons.prems(3)[OF list.set_intros(2)]]) (use Cons.prems(4) in simp_all)
  have "nn (pc_Namespace conf) (pc_Hostname conf) \<notin> (\<lambda>(h, conf). nn (pc_Namespace conf) (pc_Hostname conf)) ` set probes"
    using Cons.prems(4) by (simp add: hc)
  with IH p have here: "pods w' (nn (pc_Namespace conf) (pc_Hostname conf)) = Some p" by simp
  have "\<exists>p. pods w' (nn (pc_Namespace (snd ((hc # probes) ! i))) (pc_Hostname (snd ((hc # probes) ! i)))) = Some p \<and>
       ReachedGoalState toInt p t = (b # bs) ! i" if "i < length (hc # probes)" for i
    using that here p(2) IH hc by (cases i) auto
  with IH p v hc show ?case by auto
qed simp

end

text \<open>The clientset over the mocked cluster, with the patch applied to the stored pod.\<close>

definition mock_PatchPod :: "nsname \<Rightarrow> pod_patch list \<Rightarrow> (mock_world, pod fallible) effect" where
  "mock_PatchPod k ps w = (case mw_pods w k of
      None \<Rightarrow> (Inl notFoundError, w)
    | Some p \<Rightarrow> (case add_annotations ps (annotations_doc p) of
          None \<Rightarrow> (Inl (errorf ''invalid patch''), w)
        | Some ann \<Rightarrow> (let p' = p\<lparr>pod_Annotations := ann\<rparr>
            in (Inr p', w\<lparr>mw_pods := (mw_pods w)(k \<mapsto> p')\<rparr>))))"

definition mock_clientset :: "mock_world clientset" where
  "mock_clientset = \<lparr>cs_GetPod = GetPod mockedClient, cs_PatchPod = mock_PatchPod, cs_GetSecret = GetSecret mockedClient\<rparr>"

interpretation mock_pods: pod_patching mock_clientset mw_pods mw_secrets
  by unfold_locales
     (auto simp: mock_clientset_def mock_PatchPod_def client_defs mockedClient_def mock_defs preserves_def Let_def
       split: option.splits)

text \<open>A pod named \<open>mdb-0\<close> in headless mode, at ten minutes after the epoch, whose agent has reached
  the version that \<open>v\<close> says; the automation config has version 5.\<close>

definition demo_health :: "int \<Rightarrow> health_status" where
  "demo_health v = \<lparr>hs_Statuses = [(''mdb-0'', \<lparr>pst_IsInGoalState = True, pst_LastMongoUpTime = 590, pst_ExpectedToBeUp = True,
      pst_ReplicaStatus = Some replicationStatusSecondary\<rparr>)],
    hs_MmsStatus = [(''mdb-0'', \<lparr>ds_Name = ''mdb-0'', ds_LastGoalStateClusterConfigVersion = v, ds_Plans = []\<rparr>)]\<rparr>"

definition demo_probe :: "mock_world probe_env" where
  "demo_probe = \<lparr>
    pe_getenv = map_of [(headlessAgent, ''true''), (config_podNamespaceEnv, ''ns''), (automationConfigSecretEnv, ''mdb-config''),
      (hostNameEnv, ''mdb-0''), (AgentHealthStatusFilePathEnv, ''health.json'')],
    pe_files = (\<lambda>f. if f = ''health.json'' then Contents ''5'' else No_file (errorf ''no such file'')),
    pe_Now = (\<lambda>w. (10 * minute, w)), pe_order = (\<lambda>ks. ks), pe_clientset = Inr mock_clientset,
    pe_health_Unmarshal = (\<lambda>s. Inr (demo_health (int (digits_val s)))),
    pe_object_Unmarshal = (\<lambda>s. Inr [(''version'', VInt 5)]),
    pe_ToInt64 = (\<lambda>v. case v of VInt i \<Rightarrow> i | _ \<Rightarrow> 0)\<rparr>"

definition probed_cluster :: mock_world where
  "probed_cluster = NewMockedClient\<lparr>
    mw_secrets := [nn ''ns'' ''mdb-config'' \<mapsto> \<lparr>s_Name = ''mdb-config'', s_Namespace = ''ns'', s_OwnerReferences = [], s_Labels = [],
      s_Data = Some [(''cluster-config.json'', ''{}'')], s_Type = ''''\<rparr>],
    mw_pods := (\<lambda>k. if k \<in> {nn ''ns'' ''mdb-0'', nn ''ns'' ''mdb-1''}
      then Some \<lparr>pod_Name = ns_Name k, pod_Namespace = ''ns'', pod_Annotations = []\<rparr> else None)\<rparr>"

subsection \<open>Properties\<close>



lemma distinct_member_pods: "distinct (member_pods sts n)"
proof -
  have "distinct (map (\<lambda>i. ns_Name sts @ ''-'' @ itoa (int i)) [0..<nat n])" by (auto simp: distinct_map inj_on_def)
  then have "distinct (map ns_Name (member_pods sts n))" by (simp add: member_pods_def comp_def)
  then show ?thesis by (simp add: distinct_map)
qed

text \<open>C5: the operator waits for exactly what the probes see.  When the probe of every member has
  run against the current automation config, the operator, reading the pods, finds that all
  members have reached the goal state if and only if every probe did.\<close>

theorem operator_sees_probe_verdicts:
  assumes "pod_patching cs pods secrets"
    and "eff_map (\<lambda>(h, conf). PerformCheckHeadlessMode pe cs h conf) probes w = (Inr verdicts, w')"
    and "map (\<lambda>(h, conf). nn (pc_Namespace conf) (pc_Hostname conf)) probes = member_pods sts n" and "probes \<noteq> []"
    and "\<And>h conf. (h, conf) \<in> set probes \<Longrightarrow> fst (target_version pe cs conf w) = Inr t"
    and "\<And>h conf. (h, conf) \<in> set probes \<Longrightarrow>
      toInt (itoa (readCurrentAgentInfo (pe_order pe) h t)) = readCurrentAgentInfo (pe_order pe) h t"
    and "\<And>k p. pods w' k = Some p \<Longrightarrow> getPod k = Inr p"
  shows "AllReachedGoalState getPod toInt sts n t = Inr (list_all (\<lambda>b. b) verdicts)"
proof -
  let ?key = "\<lambda>(h, conf). nn (pc_Namespace conf) (pc_Hostname conf)"
  have "distinct (map ?key probes)" unfolding assms(3) by (rule distinct_member_pods)
  from pod_patching.checks_published[OF assms(1,2,5,6) this]
  have len: "length verdicts = length probes"
    and pub: "\<And>i. i < length probes \<Longrightarrow> \<exists>p. pods w' (?key (probes ! i)) = Some p \<and> ReachedGoalState toInt p t = verdicts ! i"
    by (auto simp: case_prod_beta)
  have got: "\<exists>p. getPod (member_pods sts n ! i) = Inr p \<and> ReachedGoalState toInt p t = verdicts ! i" if "i < length probes" for i
  proof -
    have "member_pods sts n ! i = ?key (probes ! i)" using that unfolding assms(3)[symmetric] by simp
    with pub[OF that] assms(7) show ?thesis by fastforce
  qed
  have lens: "length (member_pods sts n) = length probes" using assms(3) by (metis length_map)
  with assms(4) have "0 \<le> n" by (cases "0 \<le> n") (auto simp: member_pods_def)
  have "\<not> list_ex (pod_unreadable getPod) (member_pods sts n)"
    using got lens by (fastforce simp: list_ex_length pod_unreadable_def)
  moreover have "\<not> list_all (pod_missing getPod) (member_pods sts n)"
    using got[of 0] lens assms(4) by (fastforce simp: list_all_length pod_missing_def)
  moreover have "list_all (pod_at_goal getPod toInt t) (member_pods sts n) \<longleftrightarrow> list_all (\<lambda>b. b) verdicts"
    using got lens len by (fastforce simp: list_all_length pod_at_goal_def)
  ultimately show ?thesis using AllReachedGoalState_cases[OF \<open>0 \<le> n\<close>, of getPod sts toInt t] by simp
qed

definition demo_probes :: "(health_status \<times> probe_config) list" where
  "demo_probes = map (\<lambda>(v, host). (demo_health v, \<lparr>pc_Namespace = ''ns'', pc_Hostname = host,
     pc_AutomationConfigSecretName = ''mdb-config'', pc_HealthStatusReader = Inr '''', pc_LogFilePath = ''''\<rparr>))
     [(5, ''mdb-0''), (4, ''mdb-1'')]"

theorem operator_sees_probe_verdicts_witness:
  "let w' = snd (eff_map (\<lambda>(h, conf). PerformCheckHeadlessMode demo_probe mock_clientset h conf) demo_probes probed_cluster)
   in AllReachedGoalState (\<lambda>k. case mw_pods w' k of None \<Rightarrow> Inl notFoundError | Some p \<Rightarrow> Inr p)
        (\<lambda>s. int (digits_val s)) (nn ''ns'' ''mdb'') 2 5 = Inr False"
proof -
  let ?run = "eff_map (\<lambda>(h, conf). PerformCheckHeadlessMode demo_probe mock_clientset h conf) demo_probes probed_cluster"
  have "fst ?run = Inr [True, False]" by code_simp
  then have run: "?run = (Inr [True, False], snd ?run)" by (metis prod.collapse)
  have pods: "map (\<lambda>(h, conf). nn (pc_Namespace conf) (pc_Hostname conf)) demo_probes = member_pods (nn ''ns'' ''mdb'') 2"
    "demo_probes \<noteq> []" by code_simp+
  have "list_all (\<lambda>(h, conf). fst (target_version demo_probe mock_clientset conf probed_cluster) = Inr 5) demo_probes"
    "list_all (\<lambda>(h, conf). int (digits_val (itoa (readCurrentAgentInfo (pe_order demo_probe) h 5)))
       = readCurrentAgentInfo (pe_order demo_probe) h 5) demo_probes" by code_simp+
  then show ?thesis
    using operator_sees_probe_verdicts[OF mock_pods.pod_patching_axioms run pods, of 5 "\<lambda>s. int (digits_val s)"
        "\<lambda>k. case mw_pods (snd ?run) k of None \<Rightarrow> Inl notFoundError | Some p \<Rightarrow> Inr p"]
    by (auto simp: Let_def list_all_iff)
qed

end
