(* ===== verification/Version_Hook.thy ===== *)
theory Version_Hook
  imports Readiness
begin

text \<open>
  The hook that runs in the \<open>mongod\<close> container before \<open>mongod\<close> starts,
  \<open>cmd/versionhook/main.go\<close>, with the types of \<open>pkg/agent/agenthealth.go\<close>.  During a version
  change the agent stops \<open>mongod\<close>; the container restarts with the old image, and the hook deletes
  the pod so that it comes back with the new one.

  Every tick of the poll reads the health file again: \<open>he_Read\<close> is that effect, \<open>os.Open\<close> and
  the decoding of the text.  The client inside the cluster is a parameter.
\<close>

record agent_process_health =
  ah_IsInGoalState :: bool
  ah_ExpectedToBeUp :: bool
  ah_LastMongoUpTime :: int

record agent_step =
  as_Step :: string
  as_Started :: "time option"
  as_Completed :: "time option"
  as_Result :: string

record agent_move =
  am_Move :: string
  am_Steps :: "agent_step option list"

record agent_plan =
  ap_Moves :: "agent_move option list"
  ap_Started :: "time option"
  ap_Completed :: "time option"

record agent_director =
  ad_Name :: string
  ad_LastGoalStateClusterConfigVersion :: int
  ad_Plans :: "agent_plan option list"

record agent_health =
  Healthiness :: "(string \<times> agent_process_health) list"
  ProcessPlans :: "(string \<times> agent_director) list"

definition agentStatusFilePathEnv :: string where "agentStatusFilePathEnv = ''AGENT_STATUS_FILEPATH''"
definition defaultNamespace :: string where "defaultNamespace = ''default''"
definition pollingInterval :: duration where "pollingInterval = 1 * second"
definition pollingDuration :: duration where "pollingDuration = 60 * second"

record 'w hook_env =
  he_getenv :: getenv
  he_File :: "string \<Rightarrow> ('w, disk_file) effect"
  he_Unmarshal :: "string \<Rightarrow> agent_health fallible"
  he_Delete :: "(nsname \<Rightarrow> ('w, go_error option) effect) fallible"

definition getHostname :: "'w hook_env \<Rightarrow> string" where
  "getHostname he = os_Getenv (he_getenv he) ''HOSTNAME''"

subsection \<open>The health file\<close>

definition readAgentHealthStatus :: "'w hook_env \<Rightarrow> string fallible \<Rightarrow> agent_health fallible" where
  "readAgentHealthStatus he reader = (case reader of Inl err \<Rightarrow> Inl err | Inr data \<Rightarrow> he_Unmarshal he data)"

definition getAgentHealthStatus :: "'w hook_env \<Rightarrow> ('w, agent_health fallible) effect" where
  "getAgentHealthStatus he w =
    (case he_File he (os_Getenv (he_getenv he) agentStatusFilePathEnv) w of (f, w1) \<Rightarrow>
      (case os_Open f of
         Inl err \<Rightarrow> (Inl err, w1)
       | Inr reader \<Rightarrow> (wrap_err ''could not read health status file: '' (readAgentHealthStatus he reader), w1)))"

text \<open>The loop over the ticks; \<open>totalTime\<close> is its counter.\<close>

function poll_health :: "'w hook_env \<Rightarrow> duration \<Rightarrow> ('w, agent_health fallible) effect" where
  "poll_health he totalTime w =
    (if totalTime > pollingDuration
     then (Inl (errorf (''agent health status not ready after waiting '' @ ''1m0s'')), w)
     else (case getAgentHealthStatus he w of
         (Inl err, w1) \<Rightarrow> (Inl err, w1)
       | (Inr health, w1) \<Rightarrow>
           (case map_of (Healthiness health) (getHostname he) of
              None \<Rightarrow> (Inl (errorf (''couldn'' @ [CHR 0x27] @ ''t find status for hostname '' @ getHostname he)), w1)
            | Some status \<Rightarrow>
                if \<not> ah_IsInGoalState status then (Inr health, w1)
                else poll_health he (totalTime + pollingInterval) w1)))"
  by pat_completeness auto
termination
  by (relation "measure (\<lambda>(he, totalTime, w). nat (pollingDuration + pollingInterval - totalTime))")
     (auto simp: pollingDuration_def pollingInterval_def second_def)

declare poll_health.simps [simp del]

definition waitForAgentHealthStatus :: "'w hook_env \<Rightarrow> ('w, agent_health fallible) effect" where
  "waitForAgentHealthStatus he = poll_health he 0"

subsection \<open>Deleting the pod\<close>

fun has_change_version :: "agent_move option list \<Rightarrow> bool fallible" where
  "has_change_version [] = Inr False"
| "has_change_version (None # ms) = Inl nil_pointer"
| "has_change_version (Some m # ms) = (if am_Move m = ''ChangeVersion'' then Inr True else has_change_version ms)"

definition isWaitingToBeDeleted :: "agent_director \<Rightarrow> bool fallible" where
  "isWaitingToBeDeleted healthStatus =
    (if ad_Plans healthStatus = [] then Inr False
     else (case last (ad_Plans healthStatus) of
         None \<Rightarrow> Inl nil_pointer
       | Some lastPlan \<Rightarrow> has_change_version (ap_Moves lastPlan)))"

text \<open>A panic, or the result and the error of the Go function.\<close>

definition shouldDeletePod :: "'w hook_env \<Rightarrow> agent_health \<Rightarrow> (bool \<times> go_error option) fallible" where
  "shouldDeletePod he health =
    (case map_of (ProcessPlans health) (getHostname he) of
       None \<Rightarrow> Inr (False, Some (errorf (''hostname '' @ getHostname he @ '' was not in the process plans'')))
     | Some status \<Rightarrow> map_sum id (\<lambda>b. (b, None)) (isWaitingToBeDeleted status))"

definition getNamespace :: "'w hook_env \<Rightarrow> ('w, string fallible) effect" where
  "getNamespace he w =
    (case he_File he ''/var/run/secrets/kubernetes.io/serviceaccount/namespace'' w of (f, w1) \<Rightarrow>
      (case os_Open f of
         Inr (Inr data) \<Rightarrow> (let ns = TrimSpace data in (Inr (if length ns > 0 then ns else defaultNamespace), w1))
       | Inr (Inl err) \<Rightarrow> (Inl err, w1)
       | Inl err \<Rightarrow> (Inl err, w1)))"

definition getThisPod :: "'w hook_env \<Rightarrow> ('w, nsname fallible) effect" where
  "getThisPod he =
    (let podName = getHostname he
     in if podName = '''' then eff_fail (errorf ''environment variable HOSTNAME was not present'')
        else eff_bind (eff_wrap ''could not read namespace: '' (getNamespace he)) (\<lambda>ns. eff_return (nn ns podName)))"

definition deletePod :: "'w hook_env \<Rightarrow> ('w, go_error option) effect" where
  "deletePod he w =
    (case getThisPod he w of
       (Inl err, w1) \<Rightarrow> (Some (errorf (''could not get pod: '' @ err_msg err)), w1)
     | (Inr thisPod, w1) \<Rightarrow>
         (case he_Delete he of
            Inl err \<Rightarrow> (Some (errorf (''could not get client: '' @ err_msg err)), w1)
          | Inr delete \<Rightarrow>
              (case delete thisPod w1 of
                 (Some err, w2) \<Rightarrow> (Some (errorf (''could not delete pod: '' @ err_msg err)), w2)
               | (None, w2) \<Rightarrow> (None, w2))))"

subsection \<open>The process\<close>

text \<open>How the hook ends: it exits with an error, it returns and \<open>mongod\<close> starts, it panics, or it
  blocks for ever and waits for its pod to be killed.\<close>

datatype hook_end = Fatal | Mongod_starts | Panics | Waits_to_be_killed

definition hook_main :: "'w hook_env \<Rightarrow> ('w, hook_end) effect" where
  "hook_main he w =
    (if os_Getenv (he_getenv he) agentStatusFilePathEnv = '''' then (Fatal, w)
     else (case waitForAgentHealthStatus he w of
         (Inl err, w1) \<Rightarrow> (Mongod_starts, w1)
       | (Inr health, w1) \<Rightarrow>
           (case shouldDeletePod he health of
              Inl panic \<Rightarrow> (Panics, w1)
            | Inr (shouldDelete, err) \<Rightarrow>
                if shouldDelete then (Waits_to_be_killed, snd (deletePod he w1))
                else (Mongod_starts, w1))))"

subsection \<open>Polling\<close>

text \<open>The reads the poll would make if it went on for ever, and the reference of the poll: the
  first of sixty-one reads that is not a report of a reached goal state.\<close>

definition after_reads :: "'w hook_env \<Rightarrow> nat \<Rightarrow> 'w \<Rightarrow> 'w" where
  "after_reads he k = (\<lambda>w. snd (getAgentHealthStatus he w)) ^^ k"

definition read_at :: "'w hook_env \<Rightarrow> 'w \<Rightarrow> nat \<Rightarrow> agent_health fallible" where
  "read_at he w k = fst (getAgentHealthStatus he (after_reads he k w))"

definition own_status :: "'w hook_env \<Rightarrow> agent_health fallible \<Rightarrow> agent_process_health option" where
  "own_status he r = (case r of Inl _ \<Rightarrow> None | Inr h \<Rightarrow> map_of (Healthiness h) (getHostname he))"

definition in_goal :: "'w hook_env \<Rightarrow> agent_health fallible \<Rightarrow> bool" where
  "in_goal he r = (case own_status he r of None \<Rightarrow> False | Some s \<Rightarrow> ah_IsInGoalState s)"

definition poll_timeout :: go_error where
  "poll_timeout = errorf (''agent health status not ready after waiting '' @ ''1m0s'')"

definition unknown_host :: "'w hook_env \<Rightarrow> go_error" where
  "unknown_host he = errorf (''couldn'' @ [CHR 0x27] @ ''t find status for hostname '' @ getHostname he)"

definition first_update :: "'w hook_env \<Rightarrow> agent_health fallible list \<Rightarrow> agent_health fallible" where
  "first_update he rs = (case dropWhile (in_goal he) rs of
      [] \<Rightarrow> Inl poll_timeout
    | Inl e # _ \<Rightarrow> Inl e
    | Inr h # _ \<Rightarrow> if own_status he (Inr h) = None then Inl (unknown_host he) else Inr h)"

lemma after_reads_Suc: "after_reads he k (snd (getAgentHealthStatus he w)) = after_reads he (Suc k) w"
  by (induction k) (simp_all add: after_reads_def)

lemma reads_upt_Suc:
  "map (read_at he w) [0..<Suc n] = fst (getAgentHealthStatus he w) # map (read_at he (snd (getAgentHealthStatus he w))) [0..<n]"
proof -
  have "[0..<Suc n] = 0 # map Suc [0..<n]" by (simp add: map_Suc_upt upt_conv_Cons)
  then show ?thesis by (simp add: read_at_def after_reads_Suc) (simp add: after_reads_def)
qed

lemma poll_health_eq:
  assumes "totalTime = pollingDuration + pollingInterval - int n * pollingInterval"
  shows "poll_health he totalTime w =
    (first_update he (map (read_at he w) [0..<n]),
     after_reads he (min n (Suc (length (takeWhile (in_goal he) (map (read_at he w) [0..<n]))))) w)"
  using assms
proof (induction n arbitrary: totalTime w)
  case 0
  then have "totalTime > pollingDuration" by (simp add: pollingInterval_def second_def)
  then show ?case
    by (simp add: poll_health.simps first_update_def poll_timeout_def after_reads_def)
next
  case (Suc n)
  obtain r w1 where r: "getAgentHealthStatus he w = (r, w1)" by fastforce
  have go: "\<not> totalTime > pollingDuration" using Suc.prems by (simp add: pollingInterval_def second_def algebra_simps)
  have one: "after_reads he (Suc 0) w = w1" using r by (simp add: after_reads_def)
  have reads: "map (read_at he w) [0..<Suc n] = r # map (read_at he w1) [0..<n]" using reads_upt_Suc[of he w n] r by simp
  show ?case
  proof (cases "in_goal he r")
    case True
    then obtain h s where h: "r = Inr h" "map_of (Healthiness h) (getHostname he) = Some s" "ah_IsInGoalState s"
      by (auto simp: in_goal_def own_status_def split: sum.splits option.splits)
    have next_tick: "totalTime + pollingInterval = pollingDuration + pollingInterval - int n * pollingInterval"
      using Suc.prems by (simp add: algebra_simps)
    have step: "poll_health he totalTime w = poll_health he (totalTime + pollingInterval) w1"
      by (subst poll_health.simps) (use go r h in simp)
    have more: "after_reads he k w1 = after_reads he (Suc k) w" for k using after_reads_Suc[of he k w] r by simp
    show ?thesis unfolding step Suc.IH[OF next_tick] reads using True by (simp add: first_update_def more)
  next
    case False
    have "poll_health he totalTime w = (first_update he (r # map (read_at he w1) [0..<n]), w1)"
      by (subst poll_health.simps)
         (use go r False in \<open>auto simp: first_update_def in_goal_def own_status_def unknown_host_def split: sum.splits option.splits\<close>)
    then show ?thesis unfolding reads using False one by simp
  qed
qed

lemma waitForAgentHealthStatus_eq:
  "waitForAgentHealthStatus he w =
    (first_update he (map (read_at he w) [0..<61]),
     after_reads he (min 61 (Suc (length (takeWhile (in_goal he) (map (read_at he w) [0..<61]))))) w)"
  unfolding waitForAgentHealthStatus_def by (rule poll_health_eq) (simp add: pollingDuration_def pollingInterval_def)

text \<open>C36: the hook reads the health file at most sixty-one times, once a second, and then lets
  \<open>mongod\<close> start: it returns the first report of an agent that works on a plan, the first error,
  or a timeout when all sixty-one reads report a reached goal state.\<close>

theorem polling_reads_at_most_61_times:
  "\<exists>k\<le>61. waitForAgentHealthStatus he w = (first_update he (map (read_at he w) [0..<61]), after_reads he k w) \<and>
     k = min 61 (Suc (length (takeWhile (in_goal he) (map (read_at he w) [0..<61]))))"
  unfolding waitForAgentHealthStatus_eq by (intro exI conjI) (rule min.cobounded1, rule refl, rule refl)

subsection \<open>When the pod is deleted\<close>

lemma has_change_version_True:
  "has_change_version ms = Inr True \<Longrightarrow> \<exists>mv. Some mv \<in> set ms \<and> am_Move mv = ''ChangeVersion''"
  by (induction ms rule: has_change_version.induct) (auto split: if_splits)

lemma has_change_version_iff:
  "None \<notin> set ms \<Longrightarrow> has_change_version ms = Inr (\<exists>mv. Some mv \<in> set ms \<and> am_Move mv = ''ChangeVersion'')"
  by (induction ms rule: has_change_version.induct) auto

text \<open>The last plan of this pod's agent changes the version, and the agent works on it.\<close>

definition changes_version :: "'w hook_env \<Rightarrow> agent_health \<Rightarrow> bool" where
  "changes_version he h = (\<exists>s d plan mv.
     map_of (Healthiness h) (getHostname he) = Some s \<and> \<not> ah_IsInGoalState s \<and>
     map_of (ProcessPlans h) (getHostname he) = Some d \<and> ad_Plans d \<noteq> [] \<and> last (ad_Plans d) = Some plan \<and>
     Some mv \<in> set (ap_Moves plan) \<and> am_Move mv = ''ChangeVersion'')"

lemma shouldDeletePod_True:
  assumes "shouldDeletePod he h = Inr (True, err)"
  obtains d plan mv where "map_of (ProcessPlans h) (getHostname he) = Some d" "ad_Plans d \<noteq> []" "last (ad_Plans d) = Some plan"
    "Some mv \<in> set (ap_Moves plan)" "am_Move mv = ''ChangeVersion''"
  using assms
  by (auto simp: shouldDeletePod_def isWaitingToBeDeleted_def dest!: has_change_version_True split: option.splits if_splits)

lemma first_update_Inr:
  assumes "first_update he rs = Inr h"
  shows "Inr h \<in> set rs" and "\<exists>s. map_of (Healthiness h) (getHostname he) = Some s \<and> \<not> ah_IsInGoalState s"
proof -
  obtain rs' where d: "dropWhile (in_goal he) rs = Inr h # rs'" "own_status he (Inr h) \<noteq> None"
    using assms by (auto simp: first_update_def split: list.splits sum.splits if_splits)
  then show "Inr h \<in> set rs" by (metis list.set_intros(1) set_dropWhileD)
  have "\<not> in_goal he (Inr h)" using d(1) by (metis dropWhile_eq_Cons_conv)
  with d(2) show "\<exists>s. map_of (Healthiness h) (getHostname he) = Some s \<and> \<not> ah_IsInGoalState s"
    by (auto simp: in_goal_def own_status_def)
qed

lemma hook_main_waits:
  assumes "hook_main he w = (Waits_to_be_killed, w')"
  obtains h w1 where "\<exists>k<61. read_at he w k = Inr h" "changes_version he h"
    "waitForAgentHealthStatus he w = (Inr h, w1)" "w' = snd (deletePod he w1)"
proof -
  obtain h w1 err where run: "waitForAgentHealthStatus he w = (Inr h, w1)" "shouldDeletePod he h = Inr (True, err)"
      "w' = snd (deletePod he w1)"
    using assms by (auto simp: hook_main_def split: if_splits prod.splits sum.splits)
  have u: "first_update he (map (read_at he w) [0..<61]) = Inr h" using run(1) waitForAgentHealthStatus_eq[of he w] by simp
  have read: "\<exists>k<61. read_at he w k = Inr h" using first_update_Inr(1)[OF u] by force
  have "changes_version he h"
    using first_update_Inr(2)[OF u] run(2) unfolding changes_version_def by (auto elim!: shouldDeletePod_True)
  then show thesis using that[OF read _ run(1,3)] by blast
qed

locale hook_cluster =
  fixes he :: "'w hook_env" and delete :: "nsname \<Rightarrow> ('w, go_error option) effect" and pods :: "'w \<Rightarrow> nsname \<Rightarrow> pod option"
  assumes client: "he_Delete he = Inr delete"
    and reads_files: "preserves pods (he_File he f)"
    and delete_ok: "delete k w = (None, w') \<Longrightarrow> pods w' = (pods w)(k := None)"
    and delete_err: "delete k w = (Some e, w') \<Longrightarrow> pods w' = pods w"
begin

lemma read_pods_kept: "preserves pods (getAgentHealthStatus he)"
proof (rule preservesI)
  fix w x w'
  assume run: "getAgentHealthStatus he w = (x, w')"
  obtain f w1 where f: "he_File he (os_Getenv (he_getenv he) agentStatusFilePathEnv) w = (f, w1)" by fastforce
  have "w' = w1" using run f by (auto simp: getAgentHealthStatus_def split: sum.splits)
  then show "pods w' = pods w" using preservesD[OF reads_files f] by simp
qed

lemma wait_pods_kept: "preserves pods (waitForAgentHealthStatus he)"
proof -
  have "pods (after_reads he k w) = pods w" for k w
    using read_pods_kept by (induction k arbitrary: w) (simp_all add: after_reads_def preserves_def)
  then show ?thesis by (simp add: preserves_def waitForAgentHealthStatus_eq)
qed

lemma this_pod:
  assumes "getThisPod he w = (Inr k, w1)"
  shows "ns_Name k = getHostname he" and "pods w1 = pods w"
proof -
  obtain ns where ns: "getNamespace he w = (Inr ns, w1)" "k = nn ns (getHostname he)"
    using assms by (auto simp: getThisPod_def eff_bind_Inr_iff Let_def split: if_splits)
  then show "ns_Name k = getHostname he" by simp
  obtain f w2 where f: "he_File he ''/var/run/secrets/kubernetes.io/serviceaccount/namespace'' w = (f, w2)" by fastforce
  have "w1 = w2" using ns(1) f by (auto simp: getNamespace_def Let_def split: sum.splits)
  then show "pods w1 = pods w" using preservesD[OF reads_files f] by simp
qed

lemma this_pod_err: "getThisPod he w = (Inl e, w1) \<Longrightarrow> pods w1 = pods w"
  using preservesD[OF reads_files]
  by (auto simp: getThisPod_def getNamespace_def eff_bind_def eff_wrap_def Let_def split: prod.splits sum.splits if_splits)

lemma deletePod_pods:
  "pods (snd (deletePod he w)) = pods w \<or> (\<exists>ns. pods (snd (deletePod he w)) = (pods w)(nn ns (getHostname he) := None))"
proof -
  obtain r w1 where r: "getThisPod he w = (r, w1)" by fastforce
  show ?thesis
  proof (cases r)
    case (Inl e)
    then show ?thesis using this_pod_err[of w e w1] r by (simp add: deletePod_def)
  next
    case (Inr k)
    obtain d w2 where d: "delete k w1 = (d, w2)" by fastforce
    have "k = nn (ns_Namespace k) (getHostname he)" using this_pod(1)[of w k w1] r Inr by simp
    moreover have "pods w1 = pods w" using this_pod(2)[of w k w1] r Inr by simp
    moreover have "snd (deletePod he w) = w2" using r Inr d client by (simp add: deletePod_def split: option.splits)
    ultimately show ?thesis using d delete_ok[of k w1 w2] delete_err[of k w1 _ w2] by (cases d) (auto, metis)
  qed
qed

lemma hook_pods:
  assumes "hook_main he w = (e, w')"
  shows "pods w' = pods w \<or> e = Waits_to_be_killed \<and> (\<exists>ns. pods w' = (pods w)(nn ns (getHostname he) := None)) \<and>
    (\<exists>k<61. \<exists>h. read_at he w k = Inr h \<and> changes_version he h)"
proof (cases "e = Waits_to_be_killed")
  case True
  with assms have "hook_main he w = (Waits_to_be_killed, w')" by simp
  then show ?thesis
  proof (rule hook_main_waits)
    fix h w1
    assume "\<exists>k<61. read_at he w k = Inr h" "changes_version he h" and wait: "waitForAgentHealthStatus he w = (Inr h, w1)"
      and "w' = snd (deletePod he w1)"
    moreover have "pods w1 = pods w" by (rule preservesD[OF wait_pods_kept wait])
    ultimately show ?thesis using True deletePod_pods[of w1] by auto
  qed
next
  case False
  then show ?thesis
    using assms preservesD[OF wait_pods_kept]
    by (auto simp: hook_main_def split: if_splits prod.splits sum.splits)
qed

end

text \<open>The hook over the mocked cluster, with the files fixed.\<close>

definition mock_hook :: "getenv \<Rightarrow> (string \<Rightarrow> disk_file) \<Rightarrow> (string \<Rightarrow> agent_health fallible) \<Rightarrow> mock_world hook_env" where
  "mock_hook getenv files decode = \<lparr>he_getenv = getenv, he_File = (\<lambda>f w. (files f, w)), he_Unmarshal = decode,
     he_Delete = Inr (api_Delete (pods_api mockedClient))\<rparr>"

interpretation mock_hooks: hook_cluster "mock_hook getenv files decode" "api_Delete (pods_api mockedClient)" mw_pods
  for getenv files decode
  by unfold_locales (auto simp: mock_hook_def preserves_def mockedClient_def mock_defs fun_upd_def)

lemma shouldDeletePod_changes_version:
  assumes "changes_version he h" and "\<forall>d plan. (getHostname he, d) \<in> set (ProcessPlans h) \<longrightarrow> Some plan \<in> set (ad_Plans d) \<longrightarrow> None \<notin> set (ap_Moves plan)"
  shows "shouldDeletePod he h = Inr (True, None)"
proof -
  obtain d plan mv where d: "map_of (ProcessPlans h) (getHostname he) = Some d" "ad_Plans d \<noteq> []" "last (ad_Plans d) = Some plan"
      "Some mv \<in> set (ap_Moves plan)" "am_Move mv = ''ChangeVersion''"
    using assms(1) unfolding changes_version_def by blast
  have "None \<notin> set (ap_Moves plan)" using assms(2) d(1-3) map_of_SomeD last_in_set by metis
  then have "has_change_version (ap_Moves plan) = Inr True" using d(4,5) has_change_version_iff by auto
  then show ?thesis using d by (simp add: shouldDeletePod_def isWaitingToBeDeleted_def)
qed


text \<open>A pod whose agent is in the middle of a version change.\<close>

definition upgrading_health :: agent_health where
  "upgrading_health = \<lparr>Healthiness = [(''mdb-0'', \<lparr>ah_IsInGoalState = False, ah_ExpectedToBeUp = True, ah_LastMongoUpTime = 0\<rparr>)],
     ProcessPlans = [(''mdb-0'', \<lparr>ad_Name = ''mdb-0'', ad_LastGoalStateClusterConfigVersion = 4, ad_Plans =
       [Some \<lparr>ap_Moves = [Some \<lparr>am_Move = ''Stop'', am_Steps = []\<rparr>, Some \<lparr>am_Move = ''ChangeVersion'', am_Steps = []\<rparr>],
          ap_Started = Some 0, ap_Completed = None\<rparr>]\<rparr>)]\<rparr>"

definition upgrading_hook :: "mock_world hook_env" where
  "upgrading_hook = mock_hook (map_of [(agentStatusFilePathEnv, ''health.json''), (''HOSTNAME'', ''mdb-0'')])
     (\<lambda>f. Contents (if f = ''health.json'' then ''{}'' else ''ns '')) (\<lambda>_. Inr upgrading_health)"


end
