(* ===== verification/Agent_Wiring.thy ===== *)
theory Agent_Wiring
  imports Pod_Wiring Version_Hook
begin

text \<open>
  The pod template of \<open>controllers/construct/mongodbstatefulset.go\<close> seen from the two programs
  that run inside the pod: the environment and the files the readiness probe (in the agent's
  container) and the version hook (in the container of \<open>mongod\<close>) find there.
\<close>

subsection \<open>Containers of the template\<close>

lemma GetByName_upsert_any:
  assumes "\<And>c. c_Name c = n \<Longrightarrow> c_Name (f c) = n" and "c_Name new = n"
  shows "GetByName k (upsert c_Name n f new cs) =
    (if k = n then Some (case GetByName n cs of Some c \<Rightarrow> f c | None \<Rightarrow> new) else GetByName k cs)"
  by (induction cs) (auto simp: assms)

text \<open>The container a modification starts from: the existing one, or an empty one.\<close>

definition previous :: "string \<Rightarrow> pod_template \<Rightarrow> container" where
  "previous n t = (case GetByName n (ps_Containers (pt_Spec t)) of
     Some c \<Rightarrow> c | None \<Rightarrow> zero_container\<lparr>c_Name := n\<rparr>)"

lemma built_containers:
  fixes be m img img' hook prob b t
  defines "t' \<equiv> replica_set_pod_template be m img img' hook prob b t"
  shows "\<exists>lv lf h. GetByName construct_AgentName (ps_Containers (pt_Spec t')) =
      Some (mongodbAgentContainer be (AutomationConfigSecretName m) (agent_mounts be m b) lv lf h img' (previous construct_AgentName t))"
    and "\<exists>cfg. GetByName MongodbName (ps_Containers (pt_Spec t')) =
      Some (mongodbContainer be img (mongod_mounts be m b) cfg (previous MongodbName t))"
proof -
  have ne: "construct_AgentName \<noteq> MongodbName" by (simp add: construct_AgentName_def MongodbName_def)
  note parts = pod_template_parts[of be m img img' hook prob b t, folded t'_def, unfolded Let_def]
  show "\<exists>lv lf h. GetByName construct_AgentName (ps_Containers (pt_Spec t')) =
      Some (mongodbAgentContainer be (AutomationConfigSecretName m) (agent_mounts be m b) lv lf h img' (previous construct_AgentName t))"
    unfolding parts
    by (auto simp: container_mods_def update_container_upsert GetByName_upsert_any container_names ne previous_def split: option.split)
  show "\<exists>cfg. GetByName MongodbName (ps_Containers (pt_Spec t')) =
      Some (mongodbContainer be img (mongod_mounts be m b) cfg (previous MongodbName t))"
    unfolding parts using ne
    by (auto simp: container_mods_def update_container_upsert GetByName_upsert_any container_names previous_def split: option.split)
qed

subsection \<open>The environment of a container\<close>

text \<open>What Kubernetes sets: the declared variables, the field reference to the namespace resolved,
  and \<open>HOSTNAME\<close>, which is the name of the pod, unless declared.\<close>

definition kubelet_env :: "string \<Rightarrow> string \<Rightarrow> container \<Rightarrow> getenv" where
  "kubelet_env ns podName c name =
    (case find (\<lambda>e. env_Name e = name) (c_Env c) of
       Some e \<Rightarrow> (case env_ValueFrom e of
           None \<Rightarrow> Some (env_Value e)
         | Some ref \<Rightarrow> if Some ref = env_ValueFrom namespace_env then Some ns else None)
     | None \<Rightarrow> if name = hostNameEnv then Some podName else None)"

lemma find_merged_env:
  assumes "is_iteration order"
  shows "find (\<lambda>e. env_Name e = k) (merge_by_key order env_Name (\<lambda>_ v. v) es ds) =
    (case last_with env_Name k ds of Some e \<Rightarrow> Some e | None \<Rightarrow> last_with env_Name k es)"
  unfolding overriding.merge_by_key_find[OF assms all_anything all_anything]
  by (auto simp: merged_at_def split: option.split)

definition agent_envs :: "string \<Rightarrow> env_var list" where
  "agent_envs secretName = [plain_env headlessAgentEnv ''true'', namespace_env, plain_env automationConfigEnv secretName,
     plain_env agentHealthStatusFilePathEnv agentHealthStatusFilePathValue]"

lemma agent_env:
  assumes "is_iteration (be_order be)"
  shows "c_Env (mongodbAgentContainer be s vms lv lf h img c) = merge_by_key (be_order be) env_Name (\<lambda>_ v. v) (c_Env c) (agent_envs s)"
  by (simp add: mongodbAgentContainer_def Let_def container_defs WithVolumeMounts_eq[OF assms] WithEnvs_eq[OF assms] agent_envs_def)

lemma mongod_env:
  assumes "is_iteration (be_order be)"
  shows "c_Env (mongodbContainer be img vms cfg c) = merge_by_key (be_order be) env_Name (\<lambda>_ v. v) (c_Env c) (collectEnvVars (be_getenv be))"
  by (simp add: mongodbContainer_def Let_def container_defs WithVolumeMounts_eq[OF assms] WithEnvs_eq[OF assms])

lemmas env_names = headlessAgentEnv_def podNamespaceEnv_def automationConfigEnv_def agentHealthStatusFilePathEnv_def
  headlessAgent_def config_podNamespaceEnv_def automationConfigSecretEnv_def hostNameEnv_def AgentHealthStatusFilePathEnv_def
  agentStatusFilePathEnv_def logPathEnv_def

lemma agent_kubelet_env:
  assumes "is_iteration (be_order be)" and "env_Name ` set (c_Env c) \<subseteq> env_Name ` set (agent_envs s')"
  shows "kubelet_env ns podName (mongodbAgentContainer be s vms lv lf h img c) =
    map_of [(headlessAgent, ''true''), (config_podNamespaceEnv, ns), (automationConfigSecretEnv, s),
      (AgentHealthStatusFilePathEnv, agentHealthStatusFilePathValue), (hostNameEnv, podName)]"
proof
  fix name
  have "last_with env_Name name (c_Env c) = None" if "name \<notin> {headlessAgent, config_podNamespaceEnv, automationConfigSecretEnv, AgentHealthStatusFilePathEnv}"
    unfolding last_with_None using assms(2) that by (auto simp: agent_envs_def plain_env_def namespace_env_def env_names)
  then show "kubelet_env ns podName (mongodbAgentContainer be s vms lv lf h img c) name =
    map_of [(headlessAgent, ''true''), (config_podNamespaceEnv, ns), (automationConfigSecretEnv, s),
      (AgentHealthStatusFilePathEnv, agentHealthStatusFilePathValue), (hostNameEnv, podName)] name"
    unfolding kubelet_env_def agent_env[OF assms(1)] find_merged_env[OF assms(1)]
    by (auto simp: last_with_def agent_envs_def plain_env_def namespace_env_def env_names)
qed

lemma collectEnvVars_health:
  "last_with env_Name agentHealthStatusFilePathEnv (collectEnvVars getenv) =
    Some (plain_env agentHealthStatusFilePathEnv ''/healthstatus/agent-health-status.json'')"
  by (auto simp: collectEnvVars_def addEnvVarIfSet_def Let_def last_with_def plain_env_def agentHealthStatusFilePathEnv_def
      ReadinessProbeLoggerBackups_def ReadinessProbeLoggerMaxSize_def ReadinessProbeLoggerMaxAge_def
      ReadinessProbeLoggerCompress_def WithAgentFileLogging_def)

subsection \<open>The health file\<close>

abbreviation health_mount :: "string \<Rightarrow> volume_mount" where
  "health_mount dir \<equiv> CreateVolumeMount ''healthstatus'' dir []"

lemma keyfile_mount_differs:
  "container_volumeMountToString (CreateVolumeMount n ''/var/lib/mongodb-mms-automation/authentication'' [WithReadOnly False])
    \<noteq> container_volumeMountToString (health_mount (d @ ''/healthstatus''))"
proof
  assume "container_volumeMountToString (CreateVolumeMount n ''/var/lib/mongodb-mms-automation/authentication'' [WithReadOnly False])
    = container_volumeMountToString (health_mount (d @ ''/healthstatus''))"
  from arg_cong[OF this, of rev] show False
    by (simp add: container_volumeMountToString_def CreateVolumeMount_def WithReadOnly_def)
qed

lemma find_skips_prefix: "find P xs = None \<Longrightarrow> find P (xs @ ys) = find P ys"
  by (induction xs) (auto split: if_splits)

lemma health_mount_wins:
  assumes "set extra \<subseteq> {hooks_mount, scripts_mount, CreateVolumeMount ''automation-config'' ''/var/lib/automation/config'' [WithReadOnly True]}"
  shows "last_with container_volumeMountToString (container_volumeMountToString (health_mount (d @ ''/healthstatus'')))
    (common_mounts m (d @ ''/healthstatus'') @ extra @ storage_mounts be m) = Some (health_mount (d @ ''/healthstatus''))"
proof -
  let ?key = "container_volumeMountToString (health_mount (d @ ''/healthstatus''))"
  have "container_volumeMountToString x \<noteq> ?key" if "x \<in> set (extra @ storage_mounts be m)" for x
    using that assms by (auto simp: container_volumeMountToString_def storage_mounts_def hooks_mount_def scripts_mount_def CreateVolumeMount_def
        WithReadOnly_def WithSubPath_def DataVolumeName_def LogsVolumeName_def Let_def split: if_splits)
  then have none: "find (\<lambda>x. container_volumeMountToString x = ?key) (rev (extra @ storage_mounts be m)) = None"
    unfolding find_None_iff by (metis set_rev)
  show ?thesis
    unfolding last_with_def rev_append[of "common_mounts m _"] find_skips_prefix[OF none]
    using keyfile_mount_differs[of "ns_Name (GetAgentKeyfileSecretNamespacedName m)" d]
    by (simp add: common_mounts_def) (simp add: container_volumeMountToString_def CreateVolumeMount_def WithReadOnly_def)
qed

lemma health_mount_merged:
  assumes "is_iteration order"
    and "set extra \<subseteq> {hooks_mount, scripts_mount, CreateVolumeMount ''automation-config'' ''/var/lib/automation/config'' [WithReadOnly True]}"
  shows "health_mount (d @ ''/healthstatus'') \<in> set (merge_by_key order container_volumeMountToString (\<lambda>_ v. v) vms
    (common_mounts m (d @ ''/healthstatus'') @ extra @ storage_mounts be m))"
  by (simp add: overriding.merge_by_key_spec(3)[OF assms(1) all_anything all_anything] merged_at_def
      health_mount_wins[OF assms(2)] split: option.split)

lemma health_mounted:
  assumes "is_iteration (be_order be)"
  shows "health_mount ''/var/log/mongodb-mms-automation/healthstatus'' \<in>
      set (c_VolumeMounts (mongodbAgentContainer be s (agent_mounts be m b) lv lf h img c))"
    and "health_mount ''/healthstatus'' \<in> set (c_VolumeMounts (mongodbContainer be img (mongod_mounts be m b) cfg c))"
proof -
  have "agent_mounts be m b = common_mounts m (''/var/log/mongodb-mms-automation'' @ ''/healthstatus'') @
      (CreateVolumeMount ''automation-config'' ''/var/lib/automation/config'' [WithReadOnly True] # (if b then [scripts_mount] else [])) @ storage_mounts be m"
    "mongod_mounts be m b = common_mounts m ([] @ ''/healthstatus'') @ (if b then [hooks_mount] else []) @ storage_mounts be m"
    by (simp_all add: agent_mounts_def mongod_mounts_def NeedsAutomationConfigVolume_def)
  then have "health_mount (''/var/log/mongodb-mms-automation'' @ ''/healthstatus'') \<in>
      set (merge_by_key (be_order be) container_volumeMountToString (\<lambda>_ v. v) vms (agent_mounts be m b))"
    and "health_mount ([] @ ''/healthstatus'') \<in>
      set (merge_by_key (be_order be) container_volumeMountToString (\<lambda>_ v. v) vms (mongod_mounts be m b))" for vms
    by (simp_all only:) (auto intro!: health_mount_merged[OF assms] simp del: append.simps)
  then show "health_mount ''/var/log/mongodb-mms-automation/healthstatus'' \<in>
      set (c_VolumeMounts (mongodbAgentContainer be s (agent_mounts be m b) lv lf h img c))"
    and "health_mount ''/healthstatus'' \<in> set (c_VolumeMounts (mongodbContainer be img (mongod_mounts be m b) cfg c))"
    by (simp_all add: mongodbAgentContainer_def mongodbContainer_def Let_def container_defs WithVolumeMounts_eq[OF assms] WithEnvs_eq[OF assms])
qed

subsection \<open>Properties\<close>

lemma agent_command:
  "\<exists>cmd. c_Command (mongodbAgentContainer be s vms lv lf h img c) = [''/bin/bash'', ''-c'', cmd] \<and>
     str_contains cmd (''-healthCheckFilePath='' @ agentHealthStatusFilePathValue)"
proof -
  have "str_contains (a @ BaseAgentCommand @ z) (''-healthCheckFilePath='' @ agentHealthStatusFilePathValue)" for a z
  proof -
    have "a @ BaseAgentCommand @ z = (a @ ''agent/mongodb-agent '') @ (''-healthCheckFilePath='' @ agentHealthStatusFilePathValue)
        @ ('' -serveStatusPort=5000'' @ z)" by (simp add: BaseAgentCommand_def)
    then show ?thesis unfolding str_contains_iff by blast
  qed
  then show ?thesis
    by (auto simp: mongodbAgentContainer_def Let_def container_defs container_WithVolumeMounts_def WithEnvs_def AutomationAgentCommand_def)
qed

lemma probe_configuration:
  assumes "getenv = map_of [(headlessAgent, ''true''), (config_podNamespaceEnv, ns), (automationConfigSecretEnv, s),
      (AgentHealthStatusFilePathEnv, agentHealthStatusFilePathValue), (hostNameEnv, podName)]"
  shows "os_Getenv getenv headlessAgent = ''true''"
    and "config_GetEnvOrDefault getenv AgentHealthStatusFilePathEnv d = agentHealthStatusFilePathValue"
    and "BuildFromEnvVariables getenv True reader = Inr \<lparr>pc_Namespace = ns, pc_Hostname = podName,
      pc_AutomationConfigSecretName = s, pc_HealthStatusReader = reader, pc_LogFilePath = defaultLogPath\<rparr>"
proof -
  have "TrimSpace agentHealthStatusFilePathValue = agentHealthStatusFilePathValue" "TrimSpace '''' = ''''" by code_simp+
  then show "os_Getenv getenv headlessAgent = ''true''"
    "config_GetEnvOrDefault getenv AgentHealthStatusFilePathEnv d = agentHealthStatusFilePathValue"
    "BuildFromEnvVariables getenv True reader = Inr \<lparr>pc_Namespace = ns, pc_Hostname = podName,
      pc_AutomationConfigSecretName = s, pc_HealthStatusReader = reader, pc_LogFilePath = defaultLogPath\<rparr>"
    unfolding assms
    by (simp_all add: os_Getenv_def GetEnvOrDefault_def config_GetEnvOrDefault_def BuildFromEnvVariables_def must_be_set_def Let_def
        env_names agentHealthStatusFilePathValue_def)
qed

text \<open>C17: the pod the operator builds is one in which the readiness probe and the version hook work.
  The probe runs headless, with its own namespace and pod, against the automation config secret of
  the resource; the file it reads is the one the agent is told to write; and the file the version
  hook reads is that same file, in the volume both containers mount.\<close>

theorem probe_and_hook_read_the_agents_health_file:
  assumes "is_iteration (be_order be)"
    and "env_Name ` set (c_Env (previous construct_AgentName t)) \<subseteq> env_Name ` set (agent_envs s)"
    and "t' = replica_set_pod_template be m mongodbImage agentImage hookImage probeImage b t"
  shows "\<exists>agent mongod cmd.
    GetByName construct_AgentName (ps_Containers (pt_Spec t')) = Some agent \<and> GetByName MongodbName (ps_Containers (pt_Spec t')) = Some mongod \<and>
    (let probe = kubelet_env ns podName agent; hook = kubelet_env ns podName mongod; file = ''/agent-health-status.json'';
         agentDir = ''/var/log/mongodb-mms-automation/healthstatus''; hookDir = ''/healthstatus''
     in os_Getenv probe headlessAgent = ''true'' \<and>
        BuildFromEnvVariables probe True reader = Inr \<lparr>pc_Namespace = ns, pc_Hostname = podName,
          pc_AutomationConfigSecretName = AutomationConfigSecretName m, pc_HealthStatusReader = reader, pc_LogFilePath = defaultLogPath\<rparr> \<and>
        config_GetEnvOrDefault probe AgentHealthStatusFilePathEnv DefaultAgentHealthStatusFilePath = agentDir @ file \<and>
        c_Command agent = [''/bin/bash'', ''-c'', cmd] \<and> str_contains cmd (''-healthCheckFilePath='' @ agentDir @ file) \<and>
        os_Getenv hook agentStatusFilePathEnv = hookDir @ file \<and>
        health_mount agentDir \<in> set (c_VolumeMounts agent) \<and> health_mount hookDir \<in> set (c_VolumeMounts mongod))"
proof -
  obtain lv lf h where agent: "GetByName construct_AgentName (ps_Containers (pt_Spec t')) =
      Some (mongodbAgentContainer be (AutomationConfigSecretName m) (agent_mounts be m b) lv lf h agentImage (previous construct_AgentName t))"
    using built_containers(1) assms(3) by blast
  obtain cfg where mongod: "GetByName MongodbName (ps_Containers (pt_Spec t')) =
      Some (mongodbContainer be mongodbImage (mongod_mounts be m b) cfg (previous MongodbName t))"
    using built_containers(2) assms(3) by blast
  let ?a = "mongodbAgentContainer be (AutomationConfigSecretName m) (agent_mounts be m b) lv lf h agentImage (previous construct_AgentName t)"
  let ?g = "mongodbContainer be mongodbImage (mongod_mounts be m b) cfg (previous MongodbName t)"
  have path: "agentHealthStatusFilePathValue = ''/var/log/mongodb-mms-automation/healthstatus'' @ ''/agent-health-status.json''"
    by (simp add: agentHealthStatusFilePathValue_def)
  obtain cmd where cmd: "c_Command ?a = [''/bin/bash'', ''-c'', cmd]" "str_contains cmd (''-healthCheckFilePath='' @ agentHealthStatusFilePathValue)"
    using agent_command by blast
  have hook: "os_Getenv (kubelet_env ns podName ?g) agentStatusFilePathEnv = ''/healthstatus'' @ ''/agent-health-status.json''"
    using collectEnvVars_health[of "be_getenv be"]
    by (simp add: os_Getenv_def GetEnvOrDefault_def kubelet_env_def mongod_env[OF assms(1)] find_merged_env[OF assms(1)] env_names plain_env_def)
  show ?thesis
    unfolding Let_def path[symmetric]
    by (rule exI[of _ ?a], rule exI[of _ ?g], rule exI[of _ cmd])
       (simp only: agent mongod cmd hook probe_configuration[OF agent_kubelet_env[OF assms(1,2)]] health_mounted[OF assms(1)] simp_thms)
qed

theorem probe_and_hook_read_the_agents_health_file_witness:
  "let be = \<lparr>be_order = rev, be_getenv = (\<lambda>_. None), be_quantity = Inr, be_objx = nested_objx\<rparr>;
       t' = replica_set_pod_template be (demo_mdb 3 0) ''mongod'' ''agent'' ''hook'' ''probe'' True zero_pod_template
   in \<exists>agent mongod. GetByName construct_AgentName (ps_Containers (pt_Spec t')) = Some agent \<and>
        GetByName MongodbName (ps_Containers (pt_Spec t')) = Some mongod \<and>
        os_Getenv (kubelet_env ''ns'' ''mdb-0'' mongod) agentStatusFilePathEnv = ''/healthstatus/agent-health-status.json'' \<and>
        BuildFromEnvVariables (kubelet_env ''ns'' ''mdb-0'' agent) True (Inr ''{}'') = Inr \<lparr>pc_Namespace = ''ns'', pc_Hostname = ''mdb-0'',
          pc_AutomationConfigSecretName = AutomationConfigSecretName (demo_mdb 3 0), pc_HealthStatusReader = Inr ''{}'',
          pc_LogFilePath = defaultLogPath\<rparr>"
proof -
  let ?be = "\<lparr>be_order = rev, be_getenv = (\<lambda>_. None), be_quantity = Inr, be_objx = nested_objx\<rparr>"
  have "is_iteration (be_order ?be)" by (simp add: is_iteration_rev)
  moreover have "env_Name ` set (c_Env (previous construct_AgentName zero_pod_template)) \<subseteq> env_Name ` set (agent_envs '''')"
    by (simp add: previous_def zero_pod_template_def zero_pod_spec_def zero_container_def)
  ultimately show ?thesis
    unfolding Let_def
    using probe_and_hook_read_the_agents_health_file[OF _ _ refl, of ?be zero_pod_template "''''" "demo_mdb 3 0" "''mongod''" "''agent''" "''hook''" "''probe''" True "''ns''" "''mdb-0''" "Inr ''{}''", unfolded Let_def] by force
qed



end
