(* ===== verification/Operator.thy ===== *)
theory Operator
  imports Controller
begin

text \<open>
  The operator process: start-up from environment variables (\<open>cmd/manager/main.go\<close>), the
  construction of the reconciler and its registration for events (\<open>NewReconciler\<close> and
  \<open>SetupWithManager\<close> of \<open>replica_set_controller.go\<close>), and the event handlers of the watcher
  (\<open>controllers/watch\<close>).

  The controller runtime is third-party: the calls of \<open>main\<close> into it are the fields of
  \<open>operator_env\<close>, and the handler that \<open>Owns\<close> installs is a parameter.
\<close>

subsection \<open>Start-up\<close>

definition MongodbRepoUrlEnv :: string where "MongodbRepoUrlEnv = ''MONGODB_REPO_URL''"
definition MongodbImageEnv :: string where "MongodbImageEnv = ''MONGODB_IMAGE''"
definition MongoDBImageTypeEnv :: string where "MongoDBImageTypeEnv = ''MDB_IMAGE_TYPE''"
definition AgentImageEnv :: string where "AgentImageEnv = ''AGENT_IMAGE''"
definition VersionUpgradeHookImageEnv :: string where "VersionUpgradeHookImageEnv = ''VERSION_UPGRADE_HOOK_IMAGE''"
definition ReadinessProbeImageEnv :: string where "ReadinessProbeImageEnv = ''READINESS_PROBE_IMAGE''"
definition DefaultImageType :: string where "DefaultImageType = ''ubi8''"
definition WatchNamespaceEnv :: string where "WatchNamespaceEnv = ''WATCH_NAMESPACE''"

lemmas variable_defs = MongodbRepoUrlEnv_def MongodbImageEnv_def MongoDBImageTypeEnv_def AgentImageEnv_def
  VersionUpgradeHookImageEnv_def ReadinessProbeImageEnv_def DefaultImageType_def WatchNamespaceEnv_def

text \<open>\<open>'m\<close> is the manager.  \<open>mgr_reconciler\<close> is a reconciler with the client of the manager and no
  images yet; \<open>mgr_cluster\<close> is the cluster that client talks to.\<close>

record ('m, 'w, 'v) operator_env =
  op_getenv :: getenv
  op_logger :: "unit fallible"
  op_GetConfig :: "string fallible"
  op_NewManager :: "string \<Rightarrow> string list \<Rightarrow> 'm fallible"
  op_AddToScheme :: "'m \<Rightarrow> unit fallible"
  mgr_reconciler :: "'m \<Rightarrow> ('w, 'v) reconciler"
  mgr_cluster :: "'m \<Rightarrow> 'w"
  op_Complete :: "'m \<Rightarrow> ('w, 'v) reconciler \<Rightarrow> 'w rstate \<Rightarrow> unit fallible"
  op_Start :: "'m \<Rightarrow> unit fallible"

text \<open>The error messages are in the order of the arguments.\<close>

fun missing_variables :: "getenv \<Rightarrow> string list \<Rightarrow> string list" where
  "missing_variables getenv [] = []"
| "missing_variables getenv (v # vs) =
    (if getenv v = None then (''required environment variable '' @ v @ '' not found'') # missing_variables getenv vs
     else missing_variables getenv vs)"

definition hasRequiredVariables :: "getenv \<Rightarrow> string list \<Rightarrow> bool" where
  "hasRequiredVariables getenv envVariables = (missing_variables getenv envVariables = [])"

definition NewReconciler ::
    "('m, 'w, 'v) operator_env \<Rightarrow> 'm \<Rightarrow> string \<Rightarrow> string \<Rightarrow> string \<Rightarrow> string \<Rightarrow> string \<Rightarrow> string
      \<Rightarrow> ('w, 'v) reconciler \<times> 'w rstate" where
  "NewReconciler e mgr mongodbRepoUrl mongodbImage mongodbImageType agentImage versionUpgradeHookImage readinessProbeImage =
    ((mgr_reconciler e mgr)\<lparr>
       r_mongodbRepoUrl := mongodbRepoUrl,
       r_mongodbImage := mongodbImage,
       r_mongodbImageType := mongodbImageType,
       r_agentImage := agentImage,
       r_versionUpgradeHookImage := versionUpgradeHookImage,
       r_readinessProbeImage := readinessProbeImage\<rparr>,
     \<lparr>rs_cluster = mgr_cluster e mgr, rs_secretWatcher = watch_New, rs_configMapWatcher = watch_New\<rparr>)"

text \<open>How the process ends: a call of \<open>os.Exit(1)\<close> with the messages logged before, a fatal log
  message, which exits with 1 as well, or \<open>mgr.Start\<close> returned, after which \<open>main\<close> returns.
  The last case carries what was started.\<close>

datatype ('m, 'w, 'v) main_end =
    Exit1 "string list"
  | Fatal string
  | Served 'm "('w, 'v) reconciler" "'w rstate"

definition watch_namespace :: "string \<Rightarrow> string" where
  "watch_namespace namespace = (if namespace = ''*'' then '''' else namespace)"

definition required_variables :: "string list" where
  "required_variables = [MongodbRepoUrlEnv, MongodbImageEnv, AgentImageEnv, VersionUpgradeHookImageEnv, ReadinessProbeImageEnv]"

text \<open>The reconciler and its state, built from the environment.\<close>

definition reconciler_from_env :: "('m, 'w, 'v) operator_env \<Rightarrow> 'm \<Rightarrow> ('w, 'v) reconciler \<times> 'w rstate" where
  "reconciler_from_env e mgr =
    NewReconciler e mgr
      (os_Getenv (op_getenv e) MongodbRepoUrlEnv)
      (os_Getenv (op_getenv e) MongodbImageEnv)
      (GetEnvOrDefault (op_getenv e) MongoDBImageTypeEnv DefaultImageType)
      (os_Getenv (op_getenv e) AgentImageEnv)
      (os_Getenv (op_getenv e) VersionUpgradeHookImageEnv)
      (os_Getenv (op_getenv e) ReadinessProbeImageEnv)"

definition operator_main :: "('m, 'w, 'v) operator_env \<Rightarrow> ('m, 'w, 'v) main_end" where
  "operator_main e =
    (case op_logger e of Inl err \<Rightarrow> Fatal (''Failed to configure logger: '' @ err_msg err) | Inr _ \<Rightarrow>
     if \<not> hasRequiredVariables (op_getenv e) required_variables
     then Exit1 (missing_variables (op_getenv e) required_variables)
     else
     case op_getenv e WatchNamespaceEnv of None \<Rightarrow> Fatal ''No namespace specified to watch'' | Some namespace \<Rightarrow>
     case op_GetConfig e of Inl err \<Rightarrow> Fatal (''Unable to get config: '' @ err_msg err) | Inr cfg \<Rightarrow>
     case op_NewManager e cfg [watch_namespace namespace] of
       Inl err \<Rightarrow> Fatal (''Unable to create manager: '' @ err_msg err) | Inr mgr \<Rightarrow>
     case op_AddToScheme e mgr of Inl err \<Rightarrow> Fatal (''Unable to add mdbv1 to scheme: '' @ err_msg err) | Inr _ \<Rightarrow>
     (let (r, rs) = reconciler_from_env e mgr in
     case op_Complete e mgr r rs of Inl err \<Rightarrow> Fatal (''Unable to create controller: '' @ err_msg err) | Inr _ \<Rightarrow>
     case op_Start e mgr of Inl err \<Rightarrow> Fatal (''Unable to start manager: '' @ err_msg err) | Inr _ \<Rightarrow>
     Served mgr r rs))"

subsection \<open>Events\<close>

datatype 'o event =
    CreateEvent (event_Object: 'o)
  | UpdateEvent 'o 'o
  | DeleteEvent 'o
  | GenericEvent 'o

text \<open>An update names the old object first.  The watcher reads its name from there.\<close>

fun watcher_event :: "('o \<Rightarrow> nsname) \<Rightarrow> watcher \<Rightarrow> 'o event \<Rightarrow> nsname list \<Rightarrow> nsname list" where
  "watcher_event key w (CreateEvent obj) queue = handleEvent w (key obj) queue"
| "watcher_event key w (UpdateEvent oldObj newObj) queue = handleEvent w (key oldObj) queue"
| "watcher_event key w (DeleteEvent obj) queue = handleEvent w (key obj) queue"
| "watcher_event key w (GenericEvent obj) queue = handleEvent w (key obj) queue"

text \<open>\<open>predicate.Funcs\<close>: a function that is not set lets every event pass.\<close>

fun spec_change_predicate :: "mdb event \<Rightarrow> bool" where
  "spec_change_predicate (UpdateEvent oldObj newObj) = OnlyOnSpecChange oldObj newObj"
| "spec_change_predicate _ = True"

text \<open>\<open>For\<close> enqueues the object of the event itself.\<close>

fun mdb_requests :: "mdb event \<Rightarrow> nsname list" where
  "mdb_requests (CreateEvent obj) = [mdb_key obj]"
| "mdb_requests (UpdateEvent oldObj newObj) = [mdb_key newObj]"
| "mdb_requests (DeleteEvent obj) = [mdb_key obj]"
| "mdb_requests (GenericEvent obj) = [mdb_key obj]"

datatype cluster_event =
    resource_event "mdb event"
  | secret_event "secret event"
  | configMap_event "config_map event"
  | statefulSet_event "statefulset event"

text \<open>What \<open>SetupWithManager\<close> registers: which event enqueues which requests.  \<open>owners\<close> is the
  handler of \<open>Owns\<close>.\<close>

fun SetupWithManager ::
    "(statefulset event \<Rightarrow> nsname list) \<Rightarrow> 'w rstate \<Rightarrow> cluster_event \<Rightarrow> nsname list \<Rightarrow> nsname list" where
  "SetupWithManager owners rs (resource_event ev) queue =
    (if spec_change_predicate ev then queue @ mdb_requests ev else queue)"
| "SetupWithManager owners rs (secret_event ev) queue = watcher_event secret_key (rs_secretWatcher rs) ev queue"
| "SetupWithManager owners rs (configMap_event ev) queue = watcher_event config_map_key (rs_configMapWatcher rs) ev queue"
| "SetupWithManager owners rs (statefulSet_event ev) queue = queue @ owners ev"

lemma SetupWithManager_keeps: "set queue \<subseteq> set (SetupWithManager owners rs ev queue)"
proof (cases ev)
  case (secret_event ev')
  then show ?thesis by (cases ev') (auto simp: handleEvent_def)
next
  case (configMap_event ev')
  then show ?thesis by (cases ev') (auto simp: handleEvent_def)
qed auto

lemma missing_variables_iff: "missing_variables getenv vs = [] \<longleftrightarrow> list_all (\<lambda>v. getenv v \<noteq> None) vs"
  by (induction vs) auto

subsection \<open>What a running operator was given\<close>

lemma operator_main_Served:
  assumes "operator_main e = Served mgr r rs"
  obtains ns cfg where "hasRequiredVariables (op_getenv e) required_variables" and "op_getenv e WatchNamespaceEnv = Some ns"
    and "op_NewManager e cfg [watch_namespace ns] = Inr mgr" and "reconciler_from_env e mgr = (r, rs)"
  using assms unfolding operator_main_def
  by (auto simp: Let_def split: sum.splits option.splits if_splits prod.splits)

lemma required_variables_iff: "hasRequiredVariables getenv required_variables \<longleftrightarrow>
    (\<forall>v\<in>set required_variables. \<exists>x. getenv v = Some x)"
  by (simp add: hasRequiredVariables_def missing_variables_iff list_all_iff)

lemma os_Getenv_Some: "getenv v = Some x \<Longrightarrow> os_Getenv getenv v = x"
  by (simp add: os_Getenv_def GetEnvOrDefault_def)

text \<open>The operator serves only if every image it deploys was named in its environment; it then
  deploys exactly those, with an empty set of watches, in the namespace given or in all.\<close>

theorem served_images_come_from_environment:
  assumes "operator_main e = Served mgr r rs"
  shows "\<exists>repo image agent hook probe ns cfg.
    op_getenv e MongodbRepoUrlEnv = Some repo \<and> op_getenv e MongodbImageEnv = Some image \<and>
    op_getenv e AgentImageEnv = Some agent \<and> op_getenv e VersionUpgradeHookImageEnv = Some hook \<and>
    op_getenv e ReadinessProbeImageEnv = Some probe \<and> op_getenv e WatchNamespaceEnv = Some ns \<and>
    op_NewManager e cfg [if ns = ''*'' then '''' else ns] = Inr mgr \<and>
    r_mongodbRepoUrl r = repo \<and> r_mongodbImage r = image \<and> r_agentImage r = agent \<and>
    r_versionUpgradeHookImage r = hook \<and> r_readinessProbeImage r = probe \<and>
    r_mongodbImageType r = (case op_getenv e MongoDBImageTypeEnv of None \<Rightarrow> ''ubi8'' | Some t \<Rightarrow> t) \<and>
    rs_secretWatcher rs = [] \<and> rs_configMapWatcher rs = []"
proof -
  obtain ns cfg where run: "hasRequiredVariables (op_getenv e) required_variables" "op_getenv e WatchNamespaceEnv = Some ns"
      "op_NewManager e cfg [watch_namespace ns] = Inr mgr" "reconciler_from_env e mgr = (r, rs)"
    using assms by (rule operator_main_Served)
  have given: "\<exists>x. op_getenv e v = Some x" if "v \<in> set required_variables" for v
    using run(1) that unfolding required_variables_iff by blast
  obtain repo image agent hook probe where vars:
      "op_getenv e MongodbRepoUrlEnv = Some repo" "op_getenv e MongodbImageEnv = Some image"
      "op_getenv e AgentImageEnv = Some agent" "op_getenv e VersionUpgradeHookImageEnv = Some hook"
      "op_getenv e ReadinessProbeImageEnv = Some probe"
    using given[of MongodbRepoUrlEnv] given[of MongodbImageEnv] given[of AgentImageEnv]
      given[of VersionUpgradeHookImageEnv] given[of ReadinessProbeImageEnv]
    by (simp add: required_variables_def) blast
  have fields: "r_mongodbRepoUrl r = repo" "r_mongodbImage r = image" "r_agentImage r = agent"
      "r_versionUpgradeHookImage r = hook" "r_readinessProbeImage r = probe"
      "r_mongodbImageType r = (case op_getenv e MongoDBImageTypeEnv of None \<Rightarrow> ''ubi8'' | Some t \<Rightarrow> t)"
      "rs_secretWatcher rs = []" "rs_configMapWatcher rs = []"
    using run(4) vars[THEN os_Getenv_Some[of "op_getenv e"]]
    by (auto simp: reconciler_from_env_def NewReconciler_def GetEnvOrDefault_def DefaultImageType_def watch_New_def
        split: option.splits)
  show ?thesis
    using vars fields run(2,3) unfolding watch_namespace_def by blast
qed

end
