(* ===== verification/Settling.thy ===== *)
theory Settling
  imports Deployment Operator
begin

text \<open>
  When the operator stops working on a resource.  The controller runtime calls \<open>Reconcile\<close> again
  when it returns an error or a result that asks for it; only otherwise the request is dropped.
  Shown here: a request is dropped only when the resource is gone or rolled out, and a
  reconciliation never changes the spec of any resource.
\<close>

subsection \<open>Requests that are dropped\<close>

text \<open>The documented contract of \<open>reconcile.Result\<close>.\<close>

definition requeued :: "reconcile_result \<times> go_error option \<Rightarrow> bool" where
  "requeued out = (snd out \<noteq> None \<or> Requeue (fst out) \<or> RequeueAfter (fst out) > 0)"

lemma requeued_results [simp]:
  "\<not> requeued result_OK" "requeued (result_Retry t)" "requeued result_Failed" "requeued (res, Some err)"
  by (simp_all add: requeued_def result_defs)

lemma first_requeue_unfinished:
  assumes "phaseOption p t \<in> set options" and "p = Pending \<or> p = Failed"
  shows "\<exists>res. first_requeue (map GetResult options) = Some (res, None) \<and> requeued (res, None)"
  using assms(1)
proof (induction options)
  case (Cons opt options)
  show ?case
  proof (cases "requeued (GetResult opt)")
    case True
    then show ?thesis by (cases opt rule: GetResult_pair) (simp add: requeued_def)
  next
    case False
    then have "phaseOption p t \<in> set options"
      using Cons.prems assms(2) by auto
    with Cons.IH False show ?thesis by (cases opt rule: GetResult_pair) (simp add: requeued_def)
  qed
qed simp

lemma report_unfinished:
  assumes "phaseOption p t \<in> set options" and "p = Pending \<or> p = Failed" and "report r m options rs = (out, rs')"
  shows "requeued out"
proof -
  obtain res where "determineReconciliationResult (map GetResult options) = (res, None)" "requeued (res, None)"
    using first_requeue_unfinished[OF assms(1,2)] by (auto simp: determineReconciliationResult_def)
  then show ?thesis
    using assms(3) by (auto simp: report_def update_status_def on_cluster_def status_Update_options_def Let_def
        split: prod.splits option.splits)
qed

lemma unfinished_options:
  "phaseOption Failed 0 \<in> set (failed_options prefix err)" "phaseOption Pending 10 \<in> set (pending_options msg)"
  "phaseOption Pending 10 \<in> set (scaling_options m)"
  by (simp_all add: failed_options_def pending_options_def scaling_options_def option_defs)

lemmas report_failed = report_unfinished[OF unfinished_options(1) disjI2[OF refl]]
  and report_pending = report_unfinished[OF unfinished_options(2) disjI1[OF refl]]
  and report_scaling = report_unfinished[OF unfinished_options(3) disjI1[OF refl]]

lemma or_fail_dropped:
  assumes "or_fail r m prefix act next' rs = (out, rs')" and "\<not> requeued out"
  obtains x rs1 where "act rs = (Inr x, rs1)" and "next' x rs1 = (out, rs')"
  using assms by (auto simp: or_fail_def dest: report_failed split: prod.splits sum.splits)

text \<open>What \<open>finish\<close> returns when the status could be written.\<close>

lemma running_result: "determineReconciliationResult (map GetResult (running_options r m)) = result_OK"
  by (simp add: running_options_def option_defs determineReconciliationResult_def IsTransientMessage_def result_defs)

lemma finish_dropped:
  assumes "finish r m lastSpec rs = (out, rs')" and "\<not> requeued out"
  shows "out = result_OK \<and> fst (status_Update (r_client r) (fold ApplyOption (running_options r m) m) (rs_cluster rs)) = None"
  using assms running_result[of r m]
  by (auto simp: finish_def update_status_def on_cluster_def status_Update_options_def Let_def result_defs
      split: prod.splits option.splits)

lemma reconcile_resource_dropped:
  assumes "reconcile_resource r m rs = (out, rs')" and "\<not> requeued out"
  obtains lastSpec rs1 rs2 rs3 where "validateSpec r m = Inr lastSpec"
    and "deployMongoDBReplicaSet r m lastSpec rs1 = ((True, None), rs2)" and "\<not> mdb_IsStillScaling m"
    and "on_cluster (ResetUpdateStrategy (r_client r) m) rs2 = (Inr (), rs3)" and "finish r m lastSpec rs3 = (out, rs')"
proof -
  note step = or_fail_dropped[OF _ assms(2)]
  obtain lastSpec where spec: "validateSpec r m = Inr lastSpec"
      and s1: "or_fail r m ''Error ensuring the service (members) exists: '' (on_cluster (ensureService r m)) (\<lambda>_.
        or_fail r m ''Error validating TLS config: '' (validateTLSConfig (r_client r) m) (\<lambda>isTLSValid.
        if \<not> isTLSValid then report r m (pending_options ''TLS config is not yet valid, retrying in 10 seconds'')
        else
        or_fail r m ''Error ensuring TLS resources: '' (on_cluster (ensureTLSResources (r_client r) m)) (\<lambda>_.
        or_fail r m ''Error ensuring TLS resources: '' (on_cluster (ensurePrometheusTLSResources (r_client r) m)) (\<lambda>_.
        or_fail r m ''Error ensuring User config: '' (ensureUserResources (env_dns (r_auth r)) (r_client r) m) (\<lambda>_.
        or_fail r m ''Error deploying MongoDB ReplicaSet: '' (fallible_step (deployMongoDBReplicaSet r m lastSpec))
          (after_deploy r m lastSpec)))))) rs = (out, rs')"
    using assms(1) unfolding reconcile_resource_def by (rule step) (auto simp: eff_lift_def)
  obtain rs1 ready rs2 where s3: "fallible_step (deployMongoDBReplicaSet r m lastSpec) rs1 = (Inr ready, rs2)"
      "after_deploy r m lastSpec ready rs2 = (out, rs')"
    using s1 assms(2) by (elim step) (auto split: if_splits elim!: step dest: report_pending)
  then have "ready" "deployMongoDBReplicaSet r m lastSpec rs1 = ((True, None), rs2)"
    using assms(2) by (auto simp: fallible_step_def after_deploy_def dest: report_pending split: prod.splits option.splits if_splits)
  moreover from s3(2) \<open>ready\<close> obtain rs3 where "on_cluster (ResetUpdateStrategy (r_client r) m) rs2 = (Inr (), rs3)"
      "(if mdb_IsStillScaling m then report r m (scaling_options m) else finish r m lastSpec) rs3 = (out, rs')"
    unfolding after_deploy_def by (auto elim!: step)
  moreover then have "\<not> mdb_IsStillScaling m" using assms(2) by (auto dest: report_scaling split: if_splits)
  ultimately show thesis using spec that by (auto split: if_splits)
qed

subsection \<open>A rolled-out resource\<close>

text \<open>The StatefulSet is ready for the replicas aimed at, or replaces its pods on deletion; and the
  agents of the StatefulSet there was reached the version of the automation config that is
  now in the secrets.\<close>

definition rolled_out ::
    "('w, 'v) reconciler \<Rightarrow> ('w \<Rightarrow> nsname \<Rightarrow> statefulset option) \<Rightarrow> ('w \<Rightarrow> nsname \<Rightarrow> secret option) \<Rightarrow> mdb \<Rightarrow> mdb_spec option \<Rightarrow> 'w \<Rightarrow> bool" where
  "rolled_out r sets secrets m lastSpec w =
    ((\<exists>sts. sets w (NamespacedName m) = Some sts \<and>
        (IsReady sts (StatefulSetReplicasThisReconciliation m) \<or> stss_UpdateStrategyType (sts_Spec sts) = ''OnDelete'')) \<and>
     (\<exists>ac rs1 rs2. ensureAutomationConfig r m lastSpec rs1 = (Inr ac, rs2) \<and>
        agents_ready r sets m (rs_cluster rs2) ac \<and> secrets w = secrets (rs_cluster rs2)))"

lemma run_both:
  assumes "RunSequentially b [f, g] w = ((True, None), w')"
  obtains w1 where "(if b then f else g) w = ((True, None), w1)" and "(if b then g else f) w1 = ((True, None), w')"
  using assms by (auto simp: RunSequentially_eq split: prod.splits option.splits if_splits)

context deployment
begin

lemma deploySts_done:
  assumes "as_step (on_cluster (deployStatefulSet r m)) rs = ((True, None), rs')"
  shows "\<exists>sts. sets (rs_cluster rs') (NamespacedName m) = Some sts \<and>
    (IsReady sts (StatefulSetReplicasThisReconciliation m) \<or> stss_UpdateStrategyType (sts_Spec sts) = ''OnDelete'')"
proof -
  have "deployStatefulSet r m (rs_cluster rs) = (Inr True, rs_cluster rs')"
    using assms by (auto simp: as_step_eq on_cluster_def split: prod.splits)
  then show ?thesis by (rule deployStatefulSet_True) blast
qed

lemma deployAC_done:
  assumes "as_step (deployAutomationConfig r m lastSpec) rs = ((True, None), rs')"
  shows "\<exists>ac rs1. ensureAutomationConfig r m lastSpec rs1 = (Inr ac, rs') \<and> agents_ready r sets m (rs_cluster rs') ac"
proof -
  from assms have "deployAutomationConfig r m lastSpec rs = (Inr True, rs')" by (simp add: as_step_eq)
  then show ?thesis by (rule deployAutomationConfig_True) blast
qed

lemma deployed_rolled_out:
  assumes "deployMongoDBReplicaSet r m lastSpec rs = ((True, None), rs')"
  shows "rolled_out r sets secrets m lastSpec (rs_cluster rs')"
proof -
  let ?ac = "as_step (deployAutomationConfig r m lastSpec)" and ?sts = "as_step (on_cluster (deployStatefulSet r m))"
  obtain b rs0 where "RunSequentially b [?ac, ?sts] rs0 = ((True, None), rs')"
    using deploy_run[OF assms] by blast
  then obtain rs1 where run: "(if b then ?ac else ?sts) rs0 = ((True, None), rs1)" "(if b then ?sts else ?ac) rs1 = ((True, None), rs')"
    by (rule run_both)
  show ?thesis
  proof (cases b)
    case True
    with run have "?ac rs0 = ((True, None), rs1)" and sts: "?sts rs1 = ((True, None), rs')" by simp_all
    from deployAC_done[OF this(1)] deploySts_done[OF sts] deploySts_step[OF sts] show ?thesis
      unfolding rolled_out_def by metis
  next
    case False
    with run have "?sts rs0 = ((True, None), rs1)" and ac: "?ac rs1 = ((True, None), rs')" by simp_all
    from deploySts_done[OF this(1)] deployAC_done[OF ac] deployAC_step[OF ac] show ?thesis
      unfolding rolled_out_def by metis
  qed
qed

lemma Reconcile_dropped:
  assumes "Reconcile r request rs = (out, rs')" and "\<not> requeued out"
  obtains err where "fst (api_Get (mongodbs_api c) request (rs_cluster rs)) = Inl err" and "err_not_found err"
  | m lastSpec w1 rs3 where "fst (api_Get (mongodbs_api c) request (rs_cluster rs)) = Inr m"
    and "validateSpec r m = Inr lastSpec" and "\<not> mdb_IsStillScaling m" and "rolled_out r sets secrets m lastSpec w1"
    and "finish r m lastSpec rs3 = (out, rs')"
proof (cases "api_Get (mongodbs_api c) request (rs_cluster rs)")
  case (Pair res w1)
  show thesis
  proof (cases res)
    case (Inl err)
    then show thesis using assms Pair that(1) by (auto simp: Reconcile_def on_cluster_def split: if_splits)
  next
    case (Inr m)
    with assms(1) Pair have "reconcile_resource r m (rs\<lparr>rs_cluster := w1\<rparr>) = (out, rs')"
      by (simp add: Reconcile_def on_cluster_def)
    then obtain lastSpec rs1 rs2 rs3 where "validateSpec r m = Inr lastSpec" "\<not> mdb_IsStillScaling m"
        "deployMongoDBReplicaSet r m lastSpec rs1 = ((True, None), rs2)" "finish r m lastSpec rs3 = (out, rs')"
      using assms(2) by (rule reconcile_resource_dropped)
    then show thesis using that(2) Pair Inr deployed_rolled_out by (metis fst_conv)
  qed
qed

end

lemma not_scaling_counts:
  assumes "\<not> mdb_IsStillScaling m"
  shows "StatefulSetReplicasThisReconciliation m = Members (Spec m)"
    and "StatefulSetArbitersThisReconciliation m = Arbiters (Spec m)"
  using assms by (simp_all add: mdb_IsStillScaling_def IsStillScaling_def reconciliation_counts scaler_defs ReplicasThisReconciliation_def
      split: if_splits)

lemma running_status:
  "Phase (Status (fold ApplyOption (running_options r m) m)) = Running"
  "StatusVersion (Status (fold ApplyOption (running_options r m) m)) = GetMongoDBVersion m"
  "CurrentStatefulSetReplicas (Status (fold ApplyOption (running_options r m) m)) = StatefulSetReplicasThisReconciliation m"
  "CurrentStatefulSetArbitersReplicas (Status (fold ApplyOption (running_options r m) m)) = StatefulSetArbitersThisReconciliation m"
  "CurrentMongoDBArbiters (Status (fold ApplyOption (running_options r m) m)) = AutomationConfigArbitersThisReconciliation m"
  by (simp_all add: running_options_def option_defs)


subsection \<open>What a reconciliation leaves alone\<close>

text \<open>Every call of a reconciliation but the two that write the resource itself.\<close>

locale operator_frame = config_frame r obs for r :: "('w, 'v) reconciler" and obs :: "'w \<Rightarrow> 'b" +
  assumes delete: "preserves obs (api_Delete (secrets_api (r_client r)) k)"
    and create_set: "preserves obs (api_Create (statefulSets_api (r_client r)) s)"
    and update_set: "preserves obs (api_Update (statefulSets_api (r_client r)) s)"
    and write_service: "preserves obs (r_CreateOrUpdate r svc f)"
begin

lemma ensureService: "preserves obs (ensureService r m)"
  unfolding ensureService_def
  by (intro preserves_intros createProcessPortManager preservesI)
     (auto dest!: preservesD[OF write_service] split: prod.splits)

lemma validateTLSConfig: "preserves obs_rs (validateTLSConfig c m)"
proof -
  have "preserves obs_rs (watch_tls m)"
    by (rule preservesI) (auto simp: watch_tls_def Let_def split: option.splits)
  note parts = this[THEN preservesD] preserves_on_cluster[OF getCaCrt, THEN preservesD]
    preserves_on_cluster[OF ReadStringData, THEN preservesD] preserves_on_cluster[OF getPemOr, THEN preservesD]
  show ?thesis
    by (rule preservesI) (auto simp: validateTLSConfig_def dest!: parts split: prod.splits sum.splits if_splits)
qed

lemma write_secret: "preserves obs (eff_check (secret_CreateOrUpdate c s))"
  by (intro preserves_intros CreateOrUpdate)

lemma ensureTLSResources: "preserves obs (ensureTLSResources c m)"
  unfolding ensureTLSResources_def ensureCASecret_def ensureTLSSecret_def ensureAgentCertSecret_def
  by (auto intro!: preserves_intros getCaCrt getPemOr write_secret)

lemma ensurePrometheusTLSResources: "preserves obs (ensurePrometheusTLSResources c m)"
  unfolding ensurePrometheusTLSResources_def ensurePrometheusTLSSecret_def
  by (auto intro!: preserves_intros getPemOr write_secret split: option.split)

lemma ensureUserResources: "preserves obs_rs (ensureUserResources dns c m)"
proof -
  have "preserves obs_rs (ensure_user c m u)" for u
    by (rule preservesI) (auto simp: ensure_user_def Let_def dest!: preserves_on_cluster[OF ReadKey, THEN preservesD]
        preserves_on_cluster[OF base(1), THEN preservesD] split: prod.splits sum.splits if_splits)
  then show ?thesis unfolding ensureUserResources_def by (intro preserves_intros)
qed

lemma updateConnectionStringSecrets: "preserves obs_rs (updateConnectionStringSecrets dns it fg ox c m d)"
proof -
  have put: "preserves obs_rs (eff_bind (eff_check (on_cluster (secret_CreateOrUpdate c s)))
      (\<lambda>_ rs. (Inr (), watch_secret k n rs)))" for s k n
    by (intro preserves_intros CreateOrUpdate) (simp add: preserves_def)
  have read_put: "preserves obs_rs (eff_bind (on_cluster (secret_ReadKey c key k)) (\<lambda>pwd.
      eff_bind (eff_check (on_cluster (secret_CreateOrUpdate c (f pwd)))) (\<lambda>_ rs. (Inr (), watch_secret (g pwd) n rs))))" for key k f g n
    by (intro preserves_intros ReadKey put)
  note parts = preserves_on_cluster[OF base(1), THEN preservesD] preservesD[OF put] preservesD[OF read_put]
  have "preserves obs_rs (update_connection_string it fg ox c m d u)" for u
    by (rule preservesI) (auto simp: update_connection_string_def Let_def dest!: parts split: prod.splits sum.splits if_splits)
  then show ?thesis unfolding updateConnectionStringSecrets_def by (intro preserves_intros)
qed

end

context operator_frame
begin

lemma delete_secrets: "obs (fold (\<lambda>s. delete_secret c (nn ns s)) names w) = obs w"
proof (induction names arbitrary: w)
  case (Cons s names)
  have "obs (delete_secret c (nn ns s) w) = obs w"
    using delete[of "nn ns s"] by (simp add: delete_secret_def DeleteSecret_def preserves_def)
  then show ?case using Cons by simp
qed simp

lemma cleanup: "obs (cleanup_resources r m lastSpec w) = obs w"
  using delete_secrets[of "mdb_Namespace m" "[GetAgentCertificateRef lastSpec @ ''-pem'']"]
  by (simp add: cleanup_resources_def cleanupConnectionStringSecrets_def cleanupScramSecrets_def cleanupPemSecret_def delete_secrets)

lemma sts_writes:
  "preserves obs (sts_CreateOrUpdate c s)" "preserves obs (sts_GetAndUpdate c k f)"
proof -
  note parts = preservesD[OF create_set] preservesD[OF update_set] preservesD[OF GetStatefulSet_frame]
  show "preserves obs (sts_CreateOrUpdate c s)"
    by (rule preservesI) (auto simp: sts_CreateOrUpdate_def UpdateStatefulSet_def CreateStatefulSet_def dest!: parts
        split: prod.splits option.splits if_splits)
  show "preserves obs (sts_GetAndUpdate c k f)"
    by (rule preservesI) (auto simp: sts_GetAndUpdate_def UpdateStatefulSet_def dest!: parts
        split: prod.splits option.splits sum.splits)
qed

lemma createOrUpdateStatefulSet_frame: "preserves obs (createOrUpdateStatefulSet r m isArbiter)"
proof (rule preservesI)
  fix w x w'
  assume run: "createOrUpdateStatefulSet r m isArbiter w = (x, w')"
  have "preserves obs (eff_bind (eff_wrap msg (sts_CreateOrUpdate c s)) (\<lambda>_. eff_return ()))" for msg s
    by (intro preserves_intros sts_writes)
  from preservesD[OF this] show "obs w' = obs w"
    using run unfolding createOrUpdateStatefulSet_def Let_def
    by (auto dest!: preservesD[OF get_set] split: prod.splits sum.splits if_splits)
qed

lemma deployStatefulSet_frame: "preserves obs (deployStatefulSet r m)"
  unfolding deployStatefulSet_def by (intro preserves_intros createOrUpdateStatefulSet_frame GetStatefulSet_frame)

lemma ResetUpdateStrategy: "preserves obs (ResetUpdateStrategy c m)"
  unfolding ResetUpdateStrategy_def by (auto intro!: preserves_intros sts_writes)

lemma run_steps:
  assumes "preserves obs' f" and "preserves obs' g"
  shows "preserves obs' (RunSequentially b [f, g])"
  by (rule preservesI) (auto simp: RunSequentially_eq dest!: assms[THEN preservesD] split: prod.splits option.splits if_splits)

lemma as_step: "preserves obs' f \<Longrightarrow> preserves obs' (as_step f)"
  by (rule preservesI) (auto simp: as_step_def dest!: preservesD split: prod.splits sum.splits)

lemma deploy: "preserves obs_rs (fallible_step (deployMongoDBReplicaSet r m lastSpec))"
proof (rule preservesI)
  fix rs x rs'
  assume run: "fallible_step (deployMongoDBReplicaSet r m lastSpec) rs = (x, rs')"
  obtain b rs1 out where order: "shouldRunInOrder r m rs = (b, rs1)"
      and steps: "RunSequentially b [as_step (deployAutomationConfig r m lastSpec), as_step (on_cluster (deployStatefulSet r m))] rs1
        = (out, rs')"
    using run by (auto simp: fallible_step_def deployMongoDBReplicaSet_def split: prod.splits option.splits)
  have "preserves obs_rs (RunSequentially b [as_step (deployAutomationConfig r m lastSpec), as_step (on_cluster (deployStatefulSet r m))])"
    by (intro run_steps as_step deployAutomationConfig preserves_on_cluster deployStatefulSet_frame)
  from preservesD[OF this steps] preservesD[OF shouldRunInOrder order] show "obs_rs rs' = obs_rs rs" by simp
qed

end

text \<open>The two calls that write the resource: an update of its status, for which the server may take
  the whole object, and a patch of its annotations.  Both leave a spec alone that is current.\<close>

locale resource_store = operator_frame r mdbs for r :: "('w, 'v) reconciler" and mdbs :: "'w \<Rightarrow> nsname \<Rightarrow> mdb option" +
  assumes resources: "object_store (mongodbs_api (r_client r)) mdb_key mdbs Inr err_not_found"
    and status_write: "status_Update (r_client r) m w = (err, w') \<Longrightarrow> mdbs w' = mdbs w \<or>
      (\<exists>m0 m'. mdbs w (mdb_key m) = Some m0 \<and> mdbs w' = (mdbs w)(mdb_key m \<mapsto> m') \<and> mdb_key m' = mdb_key m \<and>
         (Spec m0 = Spec m \<longrightarrow> Spec m' = Spec m))"
    and patch_write: "r_Patch r obj ps w = (res, w') \<Longrightarrow> mdbs w (mdb_key obj) = Some obj \<Longrightarrow> mdbs w' = mdbs w \<or>
      (\<exists>obj'. mdbs w' = (mdbs w)(mdb_key obj \<mapsto> obj') \<and> mdb_key obj' = mdb_key obj \<and> Spec obj' = Spec obj)"

definition keyed :: "('w \<Rightarrow> nsname \<Rightarrow> mdb option) \<Rightarrow> 'w \<Rightarrow> bool" where
  "keyed mdbs w = (\<forall>k m. mdbs w k = Some m \<longrightarrow> mdb_key m = k)"

definition specs :: "('w \<Rightarrow> nsname \<Rightarrow> mdb option) \<Rightarrow> 'w \<Rightarrow> nsname \<Rightarrow> mdb_spec option" where
  "specs mdbs w k = map_option Spec (mdbs w k)"

lemma kept_by_write:
  assumes "mdbs w' = mdbs w \<or> (\<exists>m'. mdbs w' = (mdbs w)(k \<mapsto> m') \<and> mdb_key m' = k \<and> specs mdbs w k = Some (Spec m'))"
  shows "specs mdbs w' = specs mdbs w \<and> (keyed mdbs w \<longrightarrow> keyed mdbs w')"
  using assms
proof
  assume "\<exists>m'. mdbs w' = (mdbs w)(k \<mapsto> m') \<and> mdb_key m' = k \<and> specs mdbs w k = Some (Spec m')"
  then obtain m' where m': "mdbs w' = (mdbs w)(k \<mapsto> m')" "mdb_key m' = k" "specs mdbs w k = Some (Spec m')" by blast
  have "specs mdbs w' j = specs mdbs w j" for j using m'(1,3) by (auto simp: specs_def)
  then show ?thesis using m'(1,2) by (auto simp: keyed_def)
qed (simp add: specs_def keyed_def fun_eq_iff)

lemma ApplyOption_same [simp]:
  "Spec (fold ApplyOption options m) = Spec m" "mdb_Name (fold ApplyOption options m) = mdb_Name m"
  "mdb_Namespace (fold ApplyOption options m) = mdb_Namespace m"
proof -
  have one: "Spec (ApplyOption opt m) = Spec m \<and> mdb_Name (ApplyOption opt m) = mdb_Name m \<and>
      mdb_Namespace (ApplyOption opt m) = mdb_Namespace m" for opt m
    by (cases opt) simp_all
  show "Spec (fold ApplyOption options m) = Spec m" "mdb_Name (fold ApplyOption options m) = mdb_Name m"
    "mdb_Namespace (fold ApplyOption options m) = mdb_Namespace m"
    by (induction options arbitrary: m) (simp_all add: one)
qed

named_theorems harmless_intros \<open>parts of a reconciliation that leave every spec alone\<close>

text \<open>A part of the reconciliation of \<open>m\<close> that leaves every spec alone, as long as that of \<open>m\<close> is current.\<close>

definition harmless ::
    "('w \<Rightarrow> nsname \<Rightarrow> mdb option) \<Rightarrow> mdb \<Rightarrow> ('w rstate, 'a) effect \<Rightarrow> bool" where
  "harmless mdbs m f = (\<forall>rs out rs'. f rs = (out, rs') \<longrightarrow> keyed mdbs (rs_cluster rs) \<longrightarrow>
     specs mdbs (rs_cluster rs) (mdb_key m) = Some (Spec m) \<longrightarrow>
     specs mdbs (rs_cluster rs') = specs mdbs (rs_cluster rs) \<and> keyed mdbs (rs_cluster rs'))"

lemma harmless_if [harmless_intros]: "harmless mdbs m f \<Longrightarrow> harmless mdbs m g \<Longrightarrow> harmless mdbs m (if b then f else g)"
  by simp

lemma same_resources:
  assumes "mdbs w' = mdbs w"
  shows "specs mdbs w' = specs mdbs w" and "keyed mdbs w' = keyed mdbs w"
  using assms by (simp_all add: specs_def keyed_def fun_eq_iff)

context resource_store
begin

lemma update_status_harmless:
  assumes "update_status r m options rs = ((res, m'), rs')" and "specs mdbs (rs_cluster rs) (mdb_key m) = Some (Spec m)"
  shows "Spec m' = Spec m" and "mdb_key m' = mdb_key m"
    and "specs mdbs (rs_cluster rs') = specs mdbs (rs_cluster rs) \<and> (keyed mdbs (rs_cluster rs) \<longrightarrow> keyed mdbs (rs_cluster rs'))"
proof -
  let ?m = "fold ApplyOption options m"
  obtain err w' where put: "status_Update c ?m (rs_cluster rs) = (err, w')" by fastforce
  have m': "m' = ?m" "rs_cluster rs' = w'"
    using assms(1) put by (auto simp: update_status_def on_cluster_def status_Update_options_def Let_def split: option.splits prod.splits)
  then show "Spec m' = Spec m" "mdb_key m' = mdb_key m" by simp_all
  from assms(2) obtain m0 where "mdbs (rs_cluster rs) (mdb_key m) = Some m0" "Spec m0 = Spec m" by (auto simp: specs_def)
  with status_write[OF put] assms(2) have "mdbs w' = mdbs (rs_cluster rs) \<or> (\<exists>m'. mdbs w' = (mdbs (rs_cluster rs))(mdb_key m \<mapsto> m') \<and>
      mdb_key m' = mdb_key m \<and> specs mdbs (rs_cluster rs) (mdb_key m) = Some (Spec m'))"
    by auto
  from kept_by_write[of mdbs, OF this] m'(2)
  show "specs mdbs (rs_cluster rs') = specs mdbs (rs_cluster rs) \<and> (keyed mdbs (rs_cluster rs) \<longrightarrow> keyed mdbs (rs_cluster rs'))"
    by simp
qed

lemma report_harmless [harmless_intros]: "harmless mdbs m (report r m options)"
  unfolding harmless_def report_def using update_status_harmless(3) by (fastforce split: prod.splits)

lemma or_fail_harmless [harmless_intros]:
  assumes "preserves obs_rs act" and "\<And>x. harmless mdbs m (next' x)"
  shows "harmless mdbs m (or_fail r m prefix act next')"
  unfolding harmless_def
proof (intro allI impI)
  fix rs out rs'
  assume run: "or_fail r m prefix act next' rs = (out, rs')" and pre: "keyed mdbs (rs_cluster rs)"
    "specs mdbs (rs_cluster rs) (mdb_key m) = Some (Spec m)"
  obtain res rs1 where act: "act rs = (res, rs1)" by fastforce
  note same = same_resources[of mdbs, OF preservesD[OF assms(1) act]]
  have "(case res of Inl err \<Rightarrow> report r m (failed_options prefix err) | Inr x \<Rightarrow> next' x) rs1 = (out, rs')"
    using run act by (auto simp: or_fail_def split: sum.splits)
  moreover have "harmless mdbs m (case res of Inl err \<Rightarrow> report r m (failed_options prefix err) | Inr x \<Rightarrow> next' x)"
    using report_harmless assms(2) by (auto split: sum.splits)
  ultimately show "specs mdbs (rs_cluster rs') = specs mdbs (rs_cluster rs) \<and> keyed mdbs (rs_cluster rs')"
    unfolding harmless_def using pre same by metis
qed

end

context resource_store
begin

lemma get_mdb: "api_Get (mongodbs_api c) k w = (res, w') \<Longrightarrow> mdbs w' = mdbs w \<and> (\<forall>m. res = Inr m \<longrightarrow> mdbs w k = Some m)"
  using object_store.get_ok[OF resources] object_store.get_err[OF resources] by (cases res) fastforce+

lemma SetAnnotations_kept:
  assumes "SetAnnotations r m annotations w = (res, w')" and "keyed mdbs w"
  shows "specs mdbs w' = specs mdbs w \<and> keyed mdbs w'"
proof -
  obtain got w1 where get: "api_Get (mongodbs_api c) (mdb_key m) w = (got, w1)" by fastforce
  have w1: "mdbs w1 = mdbs w" using get_mdb[OF get] by simp
  note same = same_resources[of mdbs, OF w1]
  show ?thesis
  proof (cases got)
    case (Inl err)
    then show ?thesis using assms get same by (simp add: SetAnnotations_def eff_bind_def)
  next
    case (Inr cur)
    then obtain patched where patch: "r_Patch r cur (annotation_patches (be_order (r_build r)) (mdb_Annotations cur) annotations) w1 = (patched, w')"
      using assms(1) get by (auto simp: SetAnnotations_def eff_bind_def split: prod.splits sum.splits)
    have cur: "mdbs w1 (mdb_key cur) = Some cur" "mdb_key cur = mdb_key m"
      using get_mdb[OF get] Inr assms(2) by (auto simp: keyed_def)
    from patch_write[OF patch cur(1)] cur(1)
    have "mdbs w' = mdbs w1 \<or> (\<exists>m'. mdbs w' = (mdbs w1)(mdb_key cur \<mapsto> m') \<and> mdb_key m' = mdb_key cur \<and>
        specs mdbs w1 (mdb_key cur) = Some (Spec m'))"
      by (auto simp: specs_def)
    from kept_by_write[of mdbs, OF this] same assms(2) show ?thesis by simp
  qed
qed

lemma updateLastSuccessfulConfiguration_kept:
  assumes "keyed mdbs w"
  shows "specs mdbs (snd (updateLastSuccessfulConfiguration r m w)) = specs mdbs w \<and>
    keyed mdbs (snd (updateLastSuccessfulConfiguration r m w))"
  using SetAnnotations_kept[OF surjective_pairing assms] assms
  by (auto simp: updateLastSuccessfulConfiguration_def eff_bind_def eff_lift_def split: sum.splits prod.splits)
    (metis snd_conv)+

lemma finish_harmless [harmless_intros]: "harmless mdbs m (finish r m lastSpec)"
  unfolding harmless_def
proof (intro allI impI)
  fix rs out rs'
  assume run: "finish r m lastSpec rs = (out, rs')" and pre: "keyed mdbs (rs_cluster rs)"
    "specs mdbs (rs_cluster rs) (mdb_key m) = Some (Spec m)"
  obtain res err m' rs1 where upd: "update_status r m (running_options r m) rs = (((res, err), m'), rs1)"
    by (metis prod.exhaust)
  note kept = update_status_harmless(3)[OF upd pre(2)]
  show "specs mdbs (rs_cluster rs') = specs mdbs (rs_cluster rs) \<and> keyed mdbs (rs_cluster rs')"
  proof (cases err)
    case (Some e)
    then show ?thesis using run upd kept pre(1) by (simp add: finish_def)
  next
    case None
    let ?rs2 = "snd (updateConnectionStringSecrets (env_dns (r_auth r)) (r_iterate r) (r_fmt_g r) (r_objx r) c m' (r_Getenv r clusterDomain) rs1)"
    let ?rs3 = "case lastSpec of None \<Rightarrow> ?rs2
      | Some spec \<Rightarrow> ?rs2\<lparr>rs_cluster := cleanup_resources r m' spec (rs_cluster ?rs2)\<rparr>"
    have "mdbs (rs_cluster ?rs3) = mdbs (rs_cluster rs1)"
      using updateConnectionStringSecrets cleanup by (simp add: preserves_def split: option.split)
    note same = same_resources[of mdbs, OF this]
    have "rs' = snd (on_cluster (updateLastSuccessfulConfiguration r m') ?rs3)"
      using run upd None by (auto simp: finish_def Let_def)
    then have "rs_cluster rs' = snd (updateLastSuccessfulConfiguration r m' (rs_cluster ?rs3))"
      by (simp add: on_cluster_def split: prod.splits)
    then show ?thesis
      using updateLastSuccessfulConfiguration_kept[of "rs_cluster ?rs3" m'] same kept pre(1) by simp
  qed
qed

lemma reconcile_resource_harmless: "harmless mdbs m (reconcile_resource r m)"
proof -
  have "harmless mdbs m (after_deploy r m lastSpec ready)" for lastSpec ready
    unfolding after_deploy_def
    by (intro harmless_intros preserves_on_cluster ResetUpdateStrategy)
  then show ?thesis
    unfolding reconcile_resource_def
    by (intro harmless_intros preserves_on_cluster preserves_basic ensureService validateTLSConfig ensureTLSResources
        ensurePrometheusTLSResources ensureUserResources deploy)
qed

lemma Reconcile_kept:
  assumes "Reconcile r k rs = (out, rs')" and "keyed mdbs (rs_cluster rs)"
  shows "specs mdbs (rs_cluster rs') = specs mdbs (rs_cluster rs)" and "keyed mdbs (rs_cluster rs')"
proof -
  obtain res w1 where get: "api_Get (mongodbs_api c) k (rs_cluster rs) = (res, w1)" by fastforce
  have w1: "mdbs w1 = mdbs (rs_cluster rs)" and read: "\<And>m. res = Inr m \<Longrightarrow> mdbs (rs_cluster rs) k = Some m"
    using get_mdb[OF get] by simp_all
  note same = same_resources[of mdbs, OF w1]
  have "specs mdbs (rs_cluster rs') = specs mdbs (rs_cluster rs) \<and> keyed mdbs (rs_cluster rs')"
  proof (cases res)
    case (Inl err)
    then show ?thesis using assms get same by (auto simp: Reconcile_def on_cluster_def)
  next
    case (Inr m)
    then have "reconcile_resource r m (rs\<lparr>rs_cluster := w1\<rparr>) = (out, rs')"
      using assms(1) get by (simp add: Reconcile_def on_cluster_def)
    moreover have "specs mdbs w1 (mdb_key m) = Some (Spec m)"
      using read[OF Inr] assms(2) same(1) by (auto simp: specs_def keyed_def)
    ultimately show ?thesis
      using reconcile_resource_harmless[of m] same assms(2) unfolding harmless_def by fastforce
  qed
  then show "specs mdbs (rs_cluster rs') = specs mdbs (rs_cluster rs)" "keyed mdbs (rs_cluster rs')" by simp_all
qed

end

lemma mock_secret_frame: "config_frame mock_reconciler mw_mongodbs"
  by (rule mock_frame) simp

interpretation mock_resources: resource_store mock_reconciler mw_mongodbs
proof (intro resource_store.intro operator_frame.intro operator_frame_axioms.intro resource_store_axioms.intro mock_secret_frame)
  show "preserves mw_mongodbs (r_CreateOrUpdate mock_reconciler svc f)" for svc f
    by (rule preservesI) (auto simp: mock_reconciler_def mock_CreateOrUpdate_def client_defs mockedClient_def mock_defs
        split: option.splits prod.splits sum.splits if_splits)
  show "object_store (mongodbs_api (r_client mock_reconciler)) mdb_key mw_mongodbs Inr err_not_found"
    using mock_mongodbs.object_store_axioms by (simp add: mock_reconciler_def mock_env_def)
next
  fix m w err w'
  assume "status_Update (r_client mock_reconciler) m w = (err, w')"
  then show "mw_mongodbs w' = mw_mongodbs w \<or>
      (\<exists>m0 m'. mw_mongodbs w (mdb_key m) = Some m0 \<and> mw_mongodbs w' = (mw_mongodbs w)(mdb_key m \<mapsto> m') \<and>
         mdb_key m' = mdb_key m \<and> (Spec m0 = Spec m \<longrightarrow> Spec m' = Spec m))"
    by (auto simp: mock_reconciler_def mock_env_def mockedClient_def mock_defs split: option.splits)
qed (auto simp: preserves_def mock_reconciler_def mock_env_def mockedClient_def mock_defs mock_Patch_def Let_def
    split: option.splits sum.splits)

text \<open>C8: a reconciliation changes the spec of no resource, neither its own nor another one, and
  creates or removes none: whatever it writes, the users' wishes stay as they are.\<close>

theorem Reconcile_keeps_every_spec:
  assumes "resource_store r mdbs" and "keyed mdbs (rs_cluster rs)"
  shows "specs mdbs (rs_cluster (snd (Reconcile r request rs))) = specs mdbs (rs_cluster rs)"
  using resource_store.Reconcile_kept(1)[OF assms(1) surjective_pairing assms(2)] .

theorem Reconcile_keeps_every_spec_witness:
  "let m = demo_mdb 3 (-1); rs = mock_rs (NewMockedClient\<lparr>mw_mongodbs := [nn ''ns'' ''mdb'' \<mapsto> m]\<rparr>)
   in specs mw_mongodbs (rs_cluster (snd (Reconcile mock_reconciler (nn ''ns'' ''mdb'') rs))) = [nn ''ns'' ''mdb'' \<mapsto> Spec m]"
proof -
  let ?m = "demo_mdb 3 (-1)"
  let ?rs = "mock_rs (NewMockedClient\<lparr>mw_mongodbs := [nn ''ns'' ''mdb'' \<mapsto> ?m]\<rparr>)"
  have "keyed mw_mongodbs (rs_cluster ?rs)" by (auto simp: keyed_def mock_rs_def demo_mdb_def split: if_splits)
  from Reconcile_keeps_every_spec[OF mock_resources.resource_store_axioms this, of "nn ''ns'' ''mdb''"]
  show ?thesis by (auto simp: specs_def mock_rs_def fun_eq_iff)
qed

end
