(* ===== verification/System.thy ===== *)
theory System
  imports Settling
begin

text \<open>
  The operator in its cluster, as one transition system.  The operator takes requests from its
  work queue and reconciles; users create, edit and delete resources; everything else in
  the cluster (agents, probes, StatefulSet controller, secrets) changes as it likes; the
  notifications of these changes reach the operator later and in any order; the process may
  be restarted at any time.

  Shown for every interleaving: the operator never forgets a resource.
\<close>

subsection \<open>States and steps\<close>

text \<open>The last field is a ghost: the resource as it was read by the last reconciliation that dropped
  its request.\<close>

record 'w sys =
  sys_rs :: "'w rstate"
  sys_queue :: "nsname list"
  sys_events :: "cluster_event list"
  sys_done :: "nsname \<Rightarrow> mdb option"

abbreviation sys_cluster :: "'w sys \<Rightarrow> 'w" where "sys_cluster s \<equiv> rs_cluster (sys_rs s)"

text \<open>The notification for the change of one resource.\<close>

fun change_events :: "mdb option \<Rightarrow> mdb option \<Rightarrow> cluster_event list" where
  "change_events None None = []"
| "change_events None (Some m) = [resource_event (CreateEvent m)]"
| "change_events (Some m) None = [resource_event (DeleteEvent m)]"
| "change_events (Some m) (Some m') = [resource_event (UpdateEvent m m')]"

text \<open>At its start a controller lists all resources and is notified of each as if it were new.\<close>

definition listed :: "('w \<Rightarrow> nsname \<Rightarrow> mdb option) \<Rightarrow> 'w \<Rightarrow> cluster_event list \<Rightarrow> bool" where
  "listed mdbs w evs = (\<forall>k m. mdbs w k = Some m \<longrightarrow> resource_event (CreateEvent m) \<in> set evs)"

text \<open>A reconciliation may cause notifications of its own, \<open>evs\<close>.  The queue holds a request once,
  however often it was added.\<close>

inductive sys_step ::
    "('w, 'v) reconciler \<Rightarrow> ('w \<Rightarrow> nsname \<Rightarrow> mdb option) \<Rightarrow> (statefulset event \<Rightarrow> nsname list) \<Rightarrow> 'w sys \<Rightarrow> 'w sys \<Rightarrow> bool"
  for r mdbs owners where
  reconcile: "\<lbrakk>k \<in> set (sys_queue s); Reconcile r k (sys_rs s) = (out, rs')\<rbrakk> \<Longrightarrow>
    sys_step r mdbs owners s
      \<lparr>sys_rs = rs', sys_queue = (if requeued out then sys_queue s else removeAll k (sys_queue s)),
       sys_events = sys_events s @ evs,
       sys_done = (if requeued out then sys_done s else (sys_done s)(k := mdbs (sys_cluster s) k))\<rparr>"
| edit: "\<lbrakk>mdbs w' = (mdbs (sys_cluster s))(k := new); \<And>m. new = Some m \<Longrightarrow> mdb_key m = k\<rbrakk> \<Longrightarrow>
    sys_step r mdbs owners s
      (s\<lparr>sys_rs := (sys_rs s)\<lparr>rs_cluster := w'\<rparr>, sys_events := sys_events s @ change_events (mdbs (sys_cluster s) k) new\<rparr>)"
| environment: "mdbs w' = mdbs (sys_cluster s) \<Longrightarrow>
    sys_step r mdbs owners s (s\<lparr>sys_rs := (sys_rs s)\<lparr>rs_cluster := w'\<rparr>, sys_events := sys_events s @ evs\<rparr>)"
| deliver: "ev \<in> set (sys_events s) \<Longrightarrow>
    sys_step r mdbs owners s
      (s\<lparr>sys_queue := SetupWithManager owners (sys_rs s) ev (sys_queue s), sys_events := remove1 ev (sys_events s)\<rparr>)"
| restart: "listed mdbs (sys_cluster s) evs \<Longrightarrow>
    sys_step r mdbs owners s
      \<lparr>sys_rs = \<lparr>rs_cluster = sys_cluster s, rs_secretWatcher = watch_New, rs_configMapWatcher = watch_New\<rparr>,
       sys_queue = [], sys_events = evs, sys_done = (\<lambda>_. None)\<rparr>"

definition sys_start :: "('w \<Rightarrow> nsname \<Rightarrow> mdb option) \<Rightarrow> 'w sys \<Rightarrow> bool" where
  "sys_start mdbs s = (keyed mdbs (sys_cluster s) \<and> listed mdbs (sys_cluster s) (sys_events s) \<and> sys_done s = (\<lambda>_. None))"

inductive sys_reachable ::
    "('w, 'v) reconciler \<Rightarrow> ('w \<Rightarrow> nsname \<Rightarrow> mdb option) \<Rightarrow> (statefulset event \<Rightarrow> nsname list) \<Rightarrow> 'w sys \<Rightarrow> bool"
  for r mdbs owners where
  start: "sys_start mdbs s \<Longrightarrow> sys_reachable r mdbs owners s"
| step: "sys_reachable r mdbs owners s \<Longrightarrow> sys_step r mdbs owners s s' \<Longrightarrow> sys_reachable r mdbs owners s'"

subsection \<open>The invariant\<close>

text \<open>A notification that will put the resource into the queue.\<close>

definition notified :: "nsname \<Rightarrow> cluster_event list \<Rightarrow> bool" where
  "notified k evs = (\<exists>ev. resource_event ev \<in> set evs \<and> spec_change_predicate ev \<and> k \<in> set (mdb_requests ev))"

lemma notified_append [simp]: "notified k (evs @ evs') \<longleftrightarrow> notified k evs \<or> notified k evs'"
  by (auto simp: notified_def)

lemma notified_change:
  "notified k (change_events old (Some m)) \<longleftrightarrow> mdb_key m = k \<and> (\<forall>m0. old = Some m0 \<longrightarrow> Spec m0 \<noteq> Spec m)"
  by (cases old) (auto simp: notified_def OnlyOnSpecChange_def)

lemma notified_listed: "listed mdbs w evs \<Longrightarrow> mdbs w k = Some m \<Longrightarrow> keyed mdbs w \<Longrightarrow> notified k evs"
  by (fastforce simp: listed_def keyed_def notified_def)

lemma notified_delivered:
  assumes "notified k evs"
  shows "notified k (remove1 ev evs) \<or> k \<in> set (SetupWithManager owners rs ev queue)"
proof -
  obtain e where e: "resource_event e \<in> set evs" "spec_change_predicate e" "k \<in> set (mdb_requests e)"
    using assms by (auto simp: notified_def)
  show ?thesis
  proof (cases "ev = resource_event e")
    case True
    then show ?thesis using e by simp
  next
    case False
    then have "resource_event e \<in> set (remove1 ev evs)" using e(1) by (metis in_set_remove1)
    then show ?thesis using e by (auto simp: notified_def)
  qed
qed

definition remembered :: "('w \<Rightarrow> nsname \<Rightarrow> mdb option) \<Rightarrow> 'w sys \<Rightarrow> bool" where
  "remembered mdbs s = (keyed mdbs (sys_cluster s) \<and>
    (\<forall>k sp. specs mdbs (sys_cluster s) k = Some sp \<longrightarrow>
       k \<in> set (sys_queue s) \<or> notified k (sys_events s) \<or> map_option Spec (sys_done s k) = Some sp))"

lemma remembered_start: "sys_start mdbs s \<Longrightarrow> remembered mdbs s"
  by (auto simp: sys_start_def remembered_def specs_def intro: notified_listed)

lemma remembered_edit:
  assumes "remembered mdbs s" and "mdbs w' = (mdbs (sys_cluster s))(k := new)" and "\<And>m. new = Some m \<Longrightarrow> mdb_key m = k"
  shows "remembered mdbs (s\<lparr>sys_rs := (sys_rs s)\<lparr>rs_cluster := w'\<rparr>,
    sys_events := sys_events s @ change_events (mdbs (sys_cluster s) k) new\<rparr>)"
proof -
  have "j \<in> set (sys_queue s) \<or> notified j (sys_events s) \<or> notified j (change_events (mdbs (sys_cluster s) k) new) \<or>
      map_option Spec (sys_done s j) = Some sp" if at_j: "specs mdbs w' j = Some sp" for j sp
  proof (cases "j = k")
    case True
    then obtain m where "new = Some m" "sp = Spec m" using at_j by (auto simp: specs_def assms(2))
    moreover from this(1) True have "mdb_key m = j" by (simp add: assms(3))
    ultimately have m: "new = Some m" "mdb_key m = j" "sp = Spec m" by simp_all
    then show ?thesis
      using assms(1) True unfolding remembered_def m(1) notified_change by (auto simp: specs_def)
  next
    case False
    then show ?thesis using at_j assms(1,2) by (auto simp: specs_def remembered_def)
  qed
  moreover have "keyed mdbs w'" using assms by (auto simp: keyed_def remembered_def)
  ultimately show ?thesis by (auto simp: remembered_def)
qed

lemma remembered_deliver:
  assumes "remembered mdbs s"
  shows "remembered mdbs (s\<lparr>sys_queue := SetupWithManager owners (sys_rs s) ev (sys_queue s), sys_events := remove1 ev (sys_events s)\<rparr>)"
  using assms notified_delivered[of _ "sys_events s" ev owners "sys_rs s" "sys_queue s"]
    SetupWithManager_keeps[of "sys_queue s" owners "sys_rs s" ev]
  unfolding remembered_def by fastforce

context resource_store
begin

lemma remembered_step:
  assumes "sys_step r mdbs owners s s'" and "remembered mdbs s"
  shows "remembered mdbs s'"
  using assms
proof (induction rule: sys_step.induct)
  case (reconcile k s out rs' evs)
  then have "keyed mdbs (sys_cluster s)" by (simp add: remembered_def)
  with Reconcile_kept[OF reconcile(2)] reconcile show ?case
    by (auto simp: remembered_def specs_def)
next
  case (environment w' s evs)
  then have "specs mdbs w' = specs mdbs (sys_cluster s)" "keyed mdbs w' = keyed mdbs (sys_cluster s)"
    using same_resources[of mdbs w' "sys_cluster s"] by simp_all
  then show ?case using environment(2) by (simp add: remembered_def) blast
next
  case (restart s evs)
  then show ?case by (auto simp: remembered_def specs_def intro: notified_listed)
qed (rule remembered_edit remembered_deliver; assumption)+

lemma reachable_remembered: "sys_reachable r mdbs owners s \<Longrightarrow> remembered mdbs s"
  by (induction rule: sys_reachable.induct) (auto intro: remembered_start remembered_step)

end

subsection \<open>What the ghost stands for\<close>

definition delivered ::
    "('w, 'v) reconciler \<Rightarrow> ('w \<Rightarrow> nsname \<Rightarrow> statefulset option) \<Rightarrow> ('w \<Rightarrow> nsname \<Rightarrow> secret option) \<Rightarrow> mdb \<Rightarrow> bool" where
  "delivered r sets secrets m = (\<exists>lastSpec w. validateSpec r m = Inr lastSpec \<and> rolled_out r sets secrets m lastSpec w \<and>
     StatefulSetReplicasThisReconciliation m = Members (Spec m) \<and> StatefulSetArbitersThisReconciliation m = Arbiters (Spec m))"

locale operated_cluster = deployment r sets secrets created + res: resource_store r mdbs
  for r :: "('w, 'v) reconciler" and sets secrets created mdbs
begin

lemma dropped_delivered:
  assumes "Reconcile r k rs = (out, rs')" and "\<not> requeued out" and "mdbs (rs_cluster rs) k = Some m"
  shows "delivered r sets secrets m"
proof -
  have get: "mdbs (rs_cluster rs) k = (case fst (api_Get (mongodbs_api c) k (rs_cluster rs)) of Inr m \<Rightarrow> Some m | Inl err \<Rightarrow> None)"
    if "\<And>err. fst (api_Get (mongodbs_api c) k (rs_cluster rs)) = Inl err \<Longrightarrow> err_not_found err"
    using that object_store.get_ok[OF res.resources] object_store.get_err[OF res.resources]
    by (cases "api_Get (mongodbs_api c) k (rs_cluster rs)") (fastforce split: sum.splits)
  from assms(1,2) show ?thesis
  proof (cases rule: Reconcile_dropped)
    case (1 err)
    then show ?thesis using get assms(3) by simp
  next
    case (2 m' lastSpec w1)
    then have "m' = m" using get assms(3) by simp
    then show ?thesis using 2 not_scaling_counts[OF 2(3)] unfolding delivered_def by blast
  qed
qed

lemma done_delivered:
  "sys_reachable r mdbs owners s \<Longrightarrow> sys_done s k = Some m \<Longrightarrow> delivered r sets secrets m"
proof (induction arbitrary: k m rule: sys_reachable.induct)
  case (start s)
  then show ?case by (simp add: sys_start_def)
next
  case (step s s')
  from step(2) step(3,4) show ?case
    by (induction rule: sys_step.induct) (auto dest: dropped_delivered split: if_splits)
qed

lemma never_forgotten:
  assumes "sys_reachable r mdbs owners s" and "mdbs (sys_cluster s) k = Some m"
  shows "k \<in> set (sys_queue s) \<or> notified k (sys_events s) \<or> (\<exists>m0. Spec m0 = Spec m \<and> delivered r sets secrets m0)"
proof -
  have "specs mdbs (sys_cluster s) k = Some (Spec m)" using assms(2) by (simp add: specs_def)
  with res.reachable_remembered[OF assms(1)]
  have "k \<in> set (sys_queue s) \<or> notified k (sys_events s) \<or> map_option Spec (sys_done s k) = Some (Spec m)"
    unfolding remembered_def by blast
  then show ?thesis using done_delivered[OF assms(1)] by blast
qed

end

interpretation mock_system: operated_cluster mock_reconciler mw_statefulSets mw_secrets makeStatefulSetReady mw_mongodbs
  by (intro operated_cluster.intro mock_deploy.deployment_axioms mock_resources.resource_store_axioms)

subsection \<open>Properties\<close>


subsection \<open>Arbiters and members scaled together\<close>

text \<open>A running replica set of \<open>c\<close> members without arbiters is to get \<open>d\<close> more members and \<open>a\<close> arbiters.\<close>

definition scaled_with_arbiters :: "int \<Rightarrow> int \<Rightarrow> int \<Rightarrow> mdb \<Rightarrow> bool" where
  "scaled_with_arbiters c d a m =
    (CurrentStatefulSetReplicas (Status m) = c \<and> CurrentMongoDBMembers (Status m) = c \<and> 0 < c \<and> Members (Spec m) = c + d \<and>
     CurrentStatefulSetArbitersReplicas (Status m) = 0 \<and> CurrentMongoDBArbiters (Status m) = 0 \<and> Arbiters (Spec m) = a)"

lemma scaled_rounds:
  assumes "scaled_with_arbiters c d a m" and "0 \<le> a" and "int k < d"
  shows "let s = Status ((scaling_round ^^ k) m) in
    CurrentStatefulSetReplicas s = c + int k \<and> CurrentMongoDBMembers s = c + int k \<and>
    CurrentStatefulSetArbitersReplicas s = min (int k) a \<and> CurrentMongoDBArbiters s = 0"
  using assms(3)
proof (induction k)
  case 0
  then show ?case using assms(1,2) by (simp add: scaled_with_arbiters_def)
next
  case (Suc k)
  then have "0 < c" "int (Suc k) < d" "Members (Spec m) = c + d" "Arbiters (Spec m) = a"
    using assms(1) by (simp_all add: scaled_with_arbiters_def)
  with Suc show ?case
    using assms(2) by (simp add: Let_def reconciliation_counts scaler_defs ReplicasThisReconciliation_def IsStillScaling_def IsScalingDown_def)
qed



end
