(* ===== verification/First_Run.thy ===== *)
theory First_Run
  imports System Pod_Wiring
begin

text \<open>
  The first reconciliation of a new resource, on the in-memory cluster of the repository's tests
  (\<open>mocked_client.go\<close>).  Shown: nothing on the way of a plain resource fails, and one reconciliation
  brings it to the phase \<open>Running\<close> with both StatefulSets and the automation config in place.

  \<open>succeeds P f\<close> is total correctness: from a state with \<open>P\<close>, the call \<open>f\<close> returns no error and keeps \<open>P\<close>.
\<close>

subsection \<open>Calls that succeed\<close>

definition succeeds :: "('w \<Rightarrow> bool) \<Rightarrow> ('w, 'a fallible) effect \<Rightarrow> bool" where
  "succeeds P f = (\<forall>w. P w \<longrightarrow> (\<exists>x w'. f w = (Inr x, w') \<and> P w'))"

lemma succeedsI: "(\<And>w. P w \<Longrightarrow> \<exists>x w'. f w = (Inr x, w') \<and> P w') \<Longrightarrow> succeeds P f"
  by (simp add: succeeds_def)

lemma succeedsE:
  assumes "succeeds P f" and "P w"
  obtains x w' where "f w = (Inr x, w')" and "P w'"
  using assms by (auto simp: succeeds_def)

lemma succeeds_basic [simp, intro]: "succeeds P (eff_return x)" "succeeds P (eff_lift (Inr x))"
  by (simp_all add: succeeds_def)

lemma succeeds_bind [intro]:
  assumes "succeeds P f" and "\<And>x. succeeds P (g x)"
  shows "succeeds P (eff_bind f g)"
  using assms by (fastforce simp: succeeds_def)

lemma succeeds_bind_value:
  assumes "\<And>w. P w \<Longrightarrow> f w = (Inr x, w)" and "succeeds P (g x)"
  shows "succeeds P (eff_bind f g)"
  using assms by (fastforce simp: succeeds_def)

lemma succeeds_wrap [intro]: "succeeds P f \<Longrightarrow> succeeds P (eff_wrap msg f)"
  by (fastforce simp: succeeds_def)

lemma succeeds_on_cluster [intro]: "succeeds P f \<Longrightarrow> succeeds (\<lambda>rs. P (rs_cluster rs)) (on_cluster f)"
  by (fastforce simp: succeeds_def on_cluster_def)

lemma succeeds_or_fail:
  assumes "succeeds P act" and "P rs" and "\<And>x rs1. P rs1 \<Longrightarrow> act rs = (Inr x, rs1) \<Longrightarrow> Q (next' x rs1)"
  shows "Q (or_fail r m prefix act next' rs)"
  using assms(1,2) by (rule succeedsE) (simp add: or_fail_def assms(3))

subsection \<open>The operator on the mocked cluster\<close>

locale mocked_operator =
  fixes r :: "(mock_world, 'v) reconciler"
  assumes client: "r_client r = mockedClient"
    and random: "\<exists>s. env_rand (r_auth r) n w = (Inr s, w)"
    and service: "r_CreateOrUpdate r = mock_CreateOrUpdate"
    and annotations: "r_Patch r = mock_Patch"

interpretation mock_run: mocked_operator mock_reconciler
  by unfold_locales (simp_all add: mock_reconciler_def mock_env_def)

text \<open>Before the first reconciliation: the resource is there, its automation config and its
  StatefulSets are not.\<close>

definition undeployed :: "mdb \<Rightarrow> mock_world \<Rightarrow> bool" where
  "undeployed m w = (mw_mongodbs w (mdb_key m) = Some m \<and> mw_secrets w (ac_secret_name m) = None \<and>
     mw_statefulSets w (NamespacedName m) = None \<and> mw_statefulSets w (ArbiterNamespacedName m) = None)"

text \<open>After the automation config was stored.\<close>

definition configured :: "ac_codec \<Rightarrow> mdb \<Rightarrow> mock_world \<Rightarrow> bool" where
  "configured cd m w = (mw_mongodbs w (mdb_key m) = Some m \<and>
     (\<exists>ac. stored_value (mw_secrets w) (ac_secret_name m) ConfigKey = Some (ac_bytes cd ac)) \<and>
     mw_statefulSets w (NamespacedName m) = None \<and> mw_statefulSets w (ArbiterNamespacedName m) = None)"

text \<open>After the StatefulSets were created too, with the numbers of the spec.\<close>

definition deployed :: "ac_codec \<Rightarrow> mdb \<Rightarrow> mock_world \<Rightarrow> bool" where
  "deployed cd m w = (
     (\<exists>ac. stored_value (mw_secrets w) (ac_secret_name m) ConfigKey = Some (ac_bytes cd ac)) \<and>
     (\<exists>sts. mw_statefulSets w (NamespacedName m) = Some sts \<and> IsReady sts (Members (Spec m)) \<and>
        stss_Replicas (sts_Spec sts) = Some (word_of_int (Members (Spec m)))) \<and>
     (\<exists>sts. mw_statefulSets w (ArbiterNamespacedName m) = Some sts \<and>
        stss_Replicas (sts_Spec sts) = Some (word_of_int (Arbiters (Spec m)))))"

text \<open>A new resource without users, TLS and Prometheus, and with at most one arbiter, since arbiters are
  added one by one.\<close>

definition plain_resource :: "'v semver \<Rightarrow> mdb \<Rightarrow> bool" where
  "plain_resource sv m = (Users (Spec m) = [] \<and> \<not> tls_Enabled (spec_tls m) \<and> Prometheus (Spec m) = None \<and>
     \<not> IsAgentX509 (Spec m) \<and> Arbiters (Spec m) \<le> 1 \<and>
     (FeatureCompatibilityVersion (Spec m) = '''' \<or> \<not> isl (semver_Make sv (FeatureCompatibilityVersion (Spec m) @ ''.0''))) \<and>
     mdb_Annotations m = [] \<and>
     CurrentStatefulSetReplicas (Status m) = 0 \<and> CurrentMongoDBMembers (Status m) = 0 \<and>
     CurrentStatefulSetArbitersReplicas (Status m) = 0 \<and> CurrentMongoDBArbiters (Status m) = 0)"

text \<open>A StatefulSet that does not exist has no readiness probe to wait for.\<close>

lemma no_probe_yet: "isPreReadinessInitContainerStatefulSet zero_statefulset"
  by (simp add: isPreReadinessInitContainerStatefulSet_def zero_statefulset_def zero_statefulset_spec_def zero_pod_template_def
      zero_pod_spec_def)

text \<open>What building a StatefulSet sets, and what it leaves alone.\<close>

lemma statefulset_built:
  assumes "ReplicasThisReconciliation (mdb_scaler m) = Members (Spec m)"
    and "stss_Replicas (sc_Spec (StatefulSetConfiguration (Spec m))) \<in> {None, Some (word_of_int (Members (Spec m)))}"
    and sts: "sts = buildStatefulSetModificationFunction be m img agent hook prob x"
  shows "sts_key sts = NamespacedName m" and "stss_Replicas (sts_Spec sts) = Some (word_of_int (Members (Spec m)))"
    and "sts_Generation sts = sts_Generation x" and "sts_ObservedGeneration sts = sts_ObservedGeneration x"
    and "IsReady sts n = IsReady x n"
  using assms(2) unfolding sts buildStatefulSetModificationFunction_def
  by (auto simp: sts_parts Let_def WithOwnerReference_def WithPodSpecTemplate_def WithCustomSpecs_def WithObjectMetadata_def
      sts_WithAnnotations_def sts_WithLabels_def StatefulSetSpecs_def NamespacedName_def assms(1) override_opt_def IsReady_def)

lemma arbiters_built:
  assumes "sts_key sts = NamespacedName m" and "StatefulSetArbitersThisReconciliation m = Arbiters (Spec m)"
  shows "sts_key (buildArbitersModificationFunction m sts) = ArbiterNamespacedName m"
    and "stss_Replicas (sts_Spec (buildArbitersModificationFunction m sts)) = Some (word_of_int (Arbiters (Spec m)))"
  using assms by (simp_all add: buildArbitersModificationFunction_def WithReplicas_def WithServiceName_def sts_WithName_def
      ArbiterNamespacedName_def NamespacedName_def)

context mocked_operator
begin

lemmas run = client mockedClient_def mock_defs client_defs

lemma ReadFromSecret_none:
  "undeployed m w \<Longrightarrow> ReadFromSecret cd (r_client r) (ac_secret_name m) w = (Inr zero_AutomationConfig, w)"
  by (simp add: ReadFromSecret_def run undeployed_def SecretNotExist_def notFoundError_def)

lemma ReadFromSecret_succeeds: "succeeds (undeployed m) (ReadFromSecret cd (r_client r) (ac_secret_name m))"
  by (rule succeedsI) (simp add: ReadFromSecret_none)

lemma pods_read: "read_pods r w k = Inl e \<Longrightarrow> err_not_found e"
  by (auto simp: read_pods_def run notFoundError_def split: option.splits)

lemma pod_states_read: "\<exists>ss. pod_states_loop (read_pods r w) toInt target ns n i names = Inr ss"
  by (induction names arbitrary: i) (auto simp: Let_def split: sum.splits dest: pods_read)

lemma port_manager_succeeds: "succeeds (undeployed m) (createProcessPortManager r m)"
  unfolding createProcessPortManager_def GetAllDesiredMembersAndArbitersPodState_def Let_def
  using pod_states_read
  by (intro succeeds_bind succeeds_wrap ReadFromSecret_succeeds succeedsI)
     (auto split: sum.splits, metis sum.distinct(1))

lemma ensureService_succeeds: "succeeds (undeployed m) (ensureService r m)"
  unfolding ensureService_def
  by (intro succeeds_bind port_manager_succeeds succeedsI)
     (auto simp: service mock_CreateOrUpdate_def run undeployed_def notFoundError_def split: option.splits prod.splits)

lemma EnsureSecretWithKey_succeeds:
  assumes "k \<noteq> ac_secret_name m"
  shows "succeeds (undeployed m) (EnsureSecretWithKey (r_client r) k refs key v)"
proof (rule succeedsI)
  fix w assume "undeployed m w"
  with assms show "\<exists>x w'. EnsureSecretWithKey (r_client r) k refs key v w = (Inr x, w') \<and> undeployed m w'"
    by (cases k; cases "mw_secrets w k")
       (auto simp: EnsureSecretWithKey_def run undeployed_def SecretNotExist_def notFoundError_def secret_builder_defs Let_def)
qed

lemma random_succeeds:
  "succeeds P (RandomFixedLengthStringOfSize (env_rand (r_auth r)) n)" "succeeds P (KeyFileContents (env_rand (r_auth r)))"
proof -
  have rand: "succeeds P (env_rand (r_auth r) k)" for k
  proof (rule succeedsI)
    show "\<exists>x w'. env_rand (r_auth r) k w = (Inr x, w') \<and> P w'" if "P w" for w
      using random[of k w] that by auto
  qed
  show "succeeds P (RandomFixedLengthStringOfSize (env_rand (r_auth r)) n)"
  proof (rule succeedsI)
    fix w assume "P w"
    then obtain s w' where "env_rand (r_auth r) n w = (Inr s, w')" "P w'" by (rule succeedsE[OF rand])
    then show "\<exists>x w'. RandomFixedLengthStringOfSize (env_rand (r_auth r)) n w = (Inr x, w') \<and> P w'"
      by (simp add: RandomFixedLengthStringOfSize_def generateRandomBytes_def)
  qed
  show "succeeds P (KeyFileContents (env_rand (r_auth r)))"
    unfolding KeyFileContents_def generateRandomString_def generateRandomBytes_def by (intro succeeds_bind succeeds_basic rand)
qed

lemma agent_secrets_differ:
  "GetAgentPasswordSecretNamespacedName m \<noteq> ac_secret_name m" "GetAgentKeyfileSecretNamespacedName m \<noteq> ac_secret_name m"
  by (simp_all add: GetAgentPasswordSecretNamespacedName_def GetAgentKeyfileSecretNamespacedName_def
      AutomationConfigSecretName_def suffix_ne)

lemma client_options: "validateClientOptions env (GetAuthOptions m) = None"
  by (simp add: validateClientOptions_def multierror_def GetAuthOptions_def Let_def)

lemma agent_options: "scram_validateAgentOptions env (GetAuthOptions m) = None"
  by (simp add: scram_validateAgentOptions_def multierror_def GetAuthOptions_def Let_def ConvertAuthModeToAuthMechanism_def
      AgentName_def AutomationAgentKeyFilePathInContainer_def Sha256_def Sha1_def X509_def defaultMode_def)

lemma scram_agent_succeeds: "succeeds (undeployed m) (scram_ensureAgent (r_auth r) auth m)"
  unfolding scram_ensureAgent_def scram_enableAgentAuthentication_def agent_options option.case
  by (intro succeeds_bind succeeds_wrap random_succeeds EnsureSecretWithKey_succeeds agent_secrets_differ succeeds_basic)

text \<open>Without users, and with an agent that does not use certificates.\<close>

lemma scram_Enable_succeeds:
  assumes "Users (Spec m) = []"
  shows "succeeds (undeployed m) (scram_Enable (r_auth r) auth m)"
  using assms
  unfolding scram_Enable_def scram_convertMongoDBResourceUsersToAutomationConfigUsers_def
    scram_enableClientAuthentication_def client_options Let_def
  by (auto simp: GetAuthUsers_def intro!: succeeds_bind succeeds_wrap scram_agent_succeeds)

lemma x509_Enable_succeeds:
  assumes "\<not> IsAgentX509 (Spec m)"
  shows "succeeds P (x509_Enable (r_auth r) auth m cert)"
proof -
  have "AutoAuthMechanism (GetAuthOptions m) \<noteq> X509"
    using assms by (auto simp: GetAuthOptions_def Let_def IsAgentX509_def ConvertAuthModeToAuthMechanism_def defaultMode_def
        Sha256_def Sha1_def X509_def)
  then show ?thesis
    unfolding x509_Enable_def x509_enableClientAuthentication_def client_options Let_def by (auto intro!: succeeds_bind)
qed

lemma enable_loop_succeeds:
  assumes "Users (Spec m) = []" and "\<not> IsAgentX509 (Spec m)"
  shows "succeeds (undeployed m) (enable_loop (r_auth r) m cert modes enabled auth)"
proof (induction modes arbitrary: enabled auth)
  case (Cons mode modes)
  then show ?case
    using scram_Enable_succeeds[OF assms(1)] x509_Enable_succeeds[OF assms(2)]
    by (auto intro!: succeeds_bind succeeds_wrap)
qed simp

text \<open>The first automation config has no predecessor, whose version could be too old or new.\<close>

lemma accepted_counts:
  assumes "validateSpec r m = Inr None" and "plain_resource sv m"
  shows "0 \<le> Members (Spec m)" and "0 \<le> Arbiters (Spec m)"
    and "stss_Replicas (sc_Spec (StatefulSetConfiguration (Spec m))) \<in> {None, Some (word_of_int (Members (Spec m)))}"
proof -
  have "ValidateInitialSpec (env_dns (r_auth r)) m = None"
    using assms by (auto simp: validateSpec_def plain_resource_def split: option.splits)
  then have "validateArbiterSpec m = None" "validateStatefulSet m = None"
    by (auto simp: ValidateInitialSpec_def validation_validateSpec_def split: option.splits)
  then show "0 \<le> Members (Spec m)" "0 \<le> Arbiters (Spec m)"
    "stss_Replicas (sc_Spec (StatefulSetConfiguration (Spec m))) \<in> {None, Some (word_of_int (Members (Spec m)))}"
    by (auto simp: validateArbiterSpec_def validateStatefulSet_def split: if_splits option.splits)
qed

lemma plain_counts:
  assumes "plain_resource sv m" and "0 \<le> Members (Spec m)" and "0 \<le> Arbiters (Spec m)"
  shows "StatefulSetReplicasThisReconciliation m = Members (Spec m)" "ReplicasThisReconciliation (mdb_scaler m) = Members (Spec m)"
    "AutomationConfigMembersThisReconciliation m = Members (Spec m)" "0 \<le> arbitersCount m"
    "StatefulSetArbitersThisReconciliation m = Arbiters (Spec m)" "\<not> mdb_IsStillScaling m"
  using assms by (auto simp: plain_resource_def reconciliation_counts arbitersCount_def mdb_IsStillScaling_def IsStillScaling_def
      ReplicasThisReconciliation_def scaler_defs IsScalingDown_def)

lemmas setter_defs = IsEnterprise_def SetTopology_def SetName_def SetDomain_def SetArbiterDomain_def SetMembers_def SetArbiters_def
  SetReplicaSetHorizons_def SetPreviousAutomationConfig_def SetMongoDBVersion_def SetFCV_def SetOptions_def SetAuth_def
  SetReplicaSetId_def SetSettings_def SetMemberOptions_def SetDataDir_def AddModifications_def AddProcessModification_def

lemma builds:
  assumes "plain_resource (r_semver r) m" and "0 \<le> Members (Spec m)" and "0 \<le> Arbiters (Spec m)"
  shows "\<exists>ac. buildAutomationConfig r m enterprise auth zero_AutomationConfig mods = Inr ac"
proof -
  have "\<exists>ac. Build ox tf (r_semver r) b = Inr ac"
    if "b_previousAC b = zero_AutomationConfig" "b_members b = Members (Spec m)" "b_arbiters b = arbitersCount m"
      "b_fcv b = FeatureCompatibilityVersion (Spec m)" for ox tf b
    using that assms plain_counts(4)[OF assms]
    by (auto simp: Build_Inr_iff setFeatureCompatibilityVersionIfUpgradeIsHappening_def zero_AutomationConfig_def invalid_fcv_def
        plain_resource_def isl_def split: sum.splits)
  then show ?thesis
    using plain_counts(3)[OF assms] by (auto simp: buildAutomationConfig_def Let_def setter_defs)
qed

lemma config_built:
  assumes "plain_resource (r_semver r) m" and "0 \<le> Members (Spec m)" and "0 \<le> Arbiters (Spec m)"
  shows "succeeds (\<lambda>rs. undeployed m (rs_cluster rs)) (reconciler_buildAutomationConfig r m None)" (is "succeeds ?P _")
  unfolding reconciler_buildAutomationConfig_def option.case Let_def
proof (rule succeeds_bind_value[where x = id], goal_cases)
  case (1 rs)
  then show ?case using assms(1) by (simp add: getTLSConfigModification_def plain_resource_def on_cluster_def eff_wrap_def)
next
  case 2
  show ?case
  proof (rule succeeds_bind_value[where x = zero_AutomationConfig], goal_cases)
    case (1 rs)
    then show ?case using ReadFromSecret_none[OF 1] by (simp add: on_cluster_def eff_wrap_def)
  next
    case 2
    have "succeeds (undeployed m) (authentication_Enable (r_auth r) zero_Auth m cert)" for cert
      using assms(1) unfolding authentication_Enable_def by (intro enable_loop_succeeds) (simp_all add: plain_resource_def)
    moreover have "succeeds ?P (prometheus_modification r m)" "succeeds ?P (watch_agent_certs m)"
      using assms(1) by (auto simp: succeeds_def prometheus_modification_def watch_agent_certs_def plain_resource_def)
    moreover have "succeeds ?P (eff_lift (buildAutomationConfig r m ent auth zero_AutomationConfig mods))" for ent auth mods
      using builds[OF assms] by (auto simp: succeeds_def)
    ultimately show ?case
      by (intro succeeds_bind succeeds_wrap succeeds_basic succeeds_on_cluster port_manager_succeeds) simp_all
  qed
qed

lemma config_deployed:
  assumes "plain_resource (r_semver r) m" and "0 \<le> Members (Spec m)" and "0 \<le> Arbiters (Spec m)" and "undeployed m (rs_cluster rs)"
  obtains rs' where "deployAutomationConfig r m None rs = (Inr True, rs')" and "configured (r_codec r) m (rs_cluster rs')"
proof -
  obtain ac rs1 where built: "reconciler_buildAutomationConfig r m None rs = (Inr ac, rs1)" and new: "undeployed m (rs_cluster rs1)"
    using config_built[OF assms(1-3)] assms(4) by (rule succeedsE)
  obtain w where stored: "EnsureSecret (r_codec r) (r_client r) (ac_secret_name m) (GetOwnerReferences m) ac (rs_cluster rs1) = (Inr ac, w)"
      and conf: "configured (r_codec r) m w"
    using new by (auto simp: EnsureSecret_def createNewAutomationConfigSecret_def run undeployed_def configured_def stored_value_def
        SecretNotExist_def notFoundError_def secret_builder_defs data_lookup_def)
  have "GetStatefulSet (r_client r) (NamespacedName m) (rs_cluster rs) = (Inl notFoundError, rs_cluster rs)"
    using assms(4) by (simp add: run undeployed_def)
  then have "deployAutomationConfig r m None rs = (Inr True, rs1\<lparr>rs_cluster := w\<rparr>)"
    using built stored
    by (simp add: deployAutomationConfig_def on_cluster_def notFoundError_def ensureAutomationConfig_def eff_bind_def eff_wrap_def
        wait_for_agents_def no_probe_yet)
  then show thesis using that conf by simp
qed

lemma statefulset_created:
  assumes "mw_statefulSets w (sts_key s) = None" and "stss_Replicas (sts_Spec s) = Some n"
  shows "\<exists>w'. sts_CreateOrUpdate (r_client r) s w = (Inr s, w') \<and>
    w' = w\<lparr>mw_statefulSets := (mw_statefulSets w)(sts_key s \<mapsto> s\<lparr>sts_UpdatedReplicas := n, sts_ReadyReplicas := n\<rparr>)\<rparr>"
  using assms by (simp add: sts_CreateOrUpdate_def run makeStatefulSetReady_def)

lemma statefulsets_deployed:
  assumes "plain_resource sv m" and "0 \<le> Members (Spec m)" and "0 \<le> Arbiters (Spec m)"
    and "stss_Replicas (sc_Spec (StatefulSetConfiguration (Spec m))) \<in> {None, Some (word_of_int (Members (Spec m)))}"
    and "configured cd m w"
  obtains w' where "deployStatefulSet r m w = (Inr True, w')" and "deployed cd m w'" and "mw_mongodbs w' = mw_mongodbs w"
    and "mw_secrets w' = mw_secrets w"
proof -
  define img where "img = getMongoDBImage (r_mongodbRepoUrl r) (r_mongodbImage r) (r_mongodbImageType r) (GetMongoDBVersion m)"
  define sts where "sts = buildStatefulSetModificationFunction (r_build r) m img (r_agentImage r)
    (r_versionUpgradeHookImage r) (r_readinessProbeImage r) zero_statefulset"
  define arb where "arb = buildArbitersModificationFunction m sts"
  note built = statefulset_built[OF plain_counts(2)[OF assms(1-3)] assms(4) sts_def]
  note arb = arbiters_built[OF built(1) plain_counts(5)[OF assms(1-3)], folded arb_def]
  let ?ready = "\<lambda>s n. s\<lparr>sts_UpdatedReplicas := n, sts_ReadyReplicas := n\<rparr>"
  let ?w1 = "w\<lparr>mw_statefulSets := (mw_statefulSets w)(NamespacedName m \<mapsto> ?ready sts (word_of_int (Members (Spec m))))\<rparr>"
  let ?w2 = "?w1\<lparr>mw_statefulSets := (mw_statefulSets ?w1)(ArbiterNamespacedName m \<mapsto> ?ready arb (word_of_int (Arbiters (Spec m))))\<rparr>"
  have ne: "ArbiterNamespacedName m \<noteq> NamespacedName m" by (simp add: ArbiterNamespacedName_def NamespacedName_def)
  have "sts_CreateOrUpdate (r_client r) sts w = (Inr sts, ?w1)" "sts_CreateOrUpdate (r_client r) arb ?w1 = (Inr arb, ?w2)"
    using assms(5) ne statefulset_created[of w sts] statefulset_created[of ?w1 arb] built(1,2) arb by (auto simp: configured_def)
  moreover have "api_Get (statefulSets_api (r_client r)) (NamespacedName m) w = (Inl notFoundError, w)"
    "api_Get (statefulSets_api (r_client r)) (ArbiterNamespacedName m) ?w1 = (Inl notFoundError, ?w1)"
    using assms(5) ne by (simp_all add: run configured_def)
  ultimately have "createOrUpdateStatefulSet r m False w = (Inr (), ?w1)" "createOrUpdateStatefulSet r m True ?w1 = (Inr (), ?w2)"
    by (simp_all add: createOrUpdateStatefulSet_def notFoundError_def eff_bind_def eff_wrap_def flip: img_def sts_def arb_def)
  moreover have "IsReady (?ready sts (word_of_int (Members (Spec m)))) (Members (Spec m))"
    using built(3,4) by (simp add: IsReady_def zero_statefulset_def)
  moreover have "GetStatefulSet (r_client r) (NamespacedName m) ?w2 = (Inr (?ready sts (word_of_int (Members (Spec m)))), ?w2)"
    using ne by (simp add: run)
  ultimately have "deployStatefulSet r m w = (Inr True, ?w2)" "deployed cd m ?w2"
    using ne built(2) arb(2) assms(5) plain_counts(1)[OF assms(1-3)]
    by (simp_all add: deployStatefulSet_def eff_bind_def eff_wrap_def deployed_def configured_def)
  then show thesis by (rule that) simp_all
qed

lemma configuration_noted:
  assumes "mw_mongodbs w (mdb_key m) = Some m" and "updateLastSuccessfulConfiguration r m w = (res, w')"
  shows "\<exists>m'. mw_mongodbs w' (mdb_key m) = Some m' \<and> Status m' = Status m \<and> Spec m' = Spec m"
    and "mw_secrets w' = mw_secrets w" and "mw_statefulSets w' = mw_statefulSets w"
  using assms
  by (auto simp: updateLastSuccessfulConfiguration_def SetAnnotations_def annotations mock_Patch_def run eff_bind_def eff_lift_def Let_def
      split: sum.splits prod.splits option.splits)

lemma plain_order:
  assumes "plain_resource sv m" and "0 \<le> Members (Spec m)"
  shows "run_order m (Inl e)" and "\<not> IsChangingVersion m"
  using assms by (auto simp: run_order_def Let_def plain_resource_def IsScalingUp_def IsScalingDown_def HasZeroReplicas_def scaler_defs
      IsChangingVersion_def getLastVersion_def map_get_def)

lemma replica_set_deployed:
  assumes "plain_resource (r_semver r) m" and "0 \<le> Members (Spec m)" and "0 \<le> Arbiters (Spec m)"
    and "stss_Replicas (sc_Spec (StatefulSetConfiguration (Spec m))) \<in> {None, Some (word_of_int (Members (Spec m)))}"
    and "undeployed m (rs_cluster rs)"
  obtains rs' where "deployMongoDBReplicaSet r m None rs = ((True, None), rs')" and "deployed (r_codec r) m (rs_cluster rs')"
    and "mw_mongodbs (rs_cluster rs') (mdb_key m) = Some m"
proof -
  obtain rs1 where ac: "deployAutomationConfig r m None rs = (Inr True, rs1)" "configured (r_codec r) m (rs_cluster rs1)"
    using config_deployed[OF assms(1-3,5)] by blast
  obtain w where sts: "deployStatefulSet r m (rs_cluster rs1) = (Inr True, w)" "deployed (r_codec r) m w"
      "mw_mongodbs w = mw_mongodbs (rs_cluster rs1)"
    using statefulsets_deployed[OF assms(1-4) ac(2)] by blast
  have "shouldRunInOrder r m rs = (True, rs)"
    using assms(5) plain_order(1)[OF assms(1,2)] by (simp add: shouldRunInOrder_def on_cluster_def run undeployed_def)
  then have "deployMongoDBReplicaSet r m None rs = ((True, None), rs1\<lparr>rs_cluster := w\<rparr>)"
    using ac(1) sts(1) by (simp add: deployMongoDBReplicaSet_def RunSequentially_eq as_step_def on_cluster_def)
  then show thesis using that sts(2,3) ac(2) by (simp add: configured_def)
qed

lemma finished:
  assumes "plain_resource sv m" and "0 \<le> Members (Spec m)" and "0 \<le> Arbiters (Spec m)"
    and "deployed cd m (rs_cluster rs)" and "mw_mongodbs (rs_cluster rs) (mdb_key m) = Some m"
  shows "\<exists>rs' m'. finish r m None rs = (result_OK, rs') \<and> deployed cd m (rs_cluster rs') \<and>
    mw_mongodbs (rs_cluster rs') (mdb_key m) = Some m' \<and> Spec m' = Spec m \<and> Phase (Status m') = Running \<and>
    CurrentStatefulSetReplicas (Status m') = Members (Spec m) \<and> CurrentStatefulSetArbitersReplicas (Status m') = Arbiters (Spec m)"
proof -
  define m1 where "m1 = fold ApplyOption (running_options r m) m"
  have m1: "Spec m1 = Spec m" "mdb_key m1 = mdb_key m" by (simp_all add: m1_def)
  let ?w1 = "(rs_cluster rs)\<lparr>mw_mongodbs := (mw_mongodbs (rs_cluster rs))(mdb_key m \<mapsto> m1)\<rparr>"
  obtain res w2 where saved: "updateLastSuccessfulConfiguration r m1 ?w1 = (res, w2)" by (metis prod.exhaust)
  have "status_Update (r_client r) m1 (rs_cluster rs) = (None, ?w1)"
    using assms(5) m1(2) by (simp add: client mockedClient_def mock_Update_def)
  then have upd: "update_status r m (running_options r m) rs = ((result_OK, m1), rs\<lparr>rs_cluster := ?w1\<rparr>)"
    using running_result[of r m] by (simp add: update_status_def on_cluster_def status_Update_options_def Let_def flip: m1_def)
  have "GetAuthUsers (env_dns (r_auth r)) m1 = []" using assms(1) m1 by (simp add: GetAuthUsers_def plain_resource_def)
  then have run: "finish r m None rs = (result_OK, rs\<lparr>rs_cluster := w2\<rparr>)"
    using upd saved by (simp add: finish_def result_defs updateConnectionStringSecrets_def on_cluster_def Let_def)
  have "mw_mongodbs ?w1 (mdb_key m1) = Some m1" using m1(2) by simp
  note noted = configuration_noted[OF this saved]
  have "deployed cd m w2" using assms(4) noted(2,3) by (simp add: deployed_def)
  moreover have "Phase (Status m1) = Running" "CurrentStatefulSetReplicas (Status m1) = Members (Spec m)"
    "CurrentStatefulSetArbitersReplicas (Status m1) = Arbiters (Spec m)"
    using running_status[of r m] plain_counts(1,5)[OF assms(1-3)] by (simp_all add: m1_def)
  ultimately show ?thesis using run noted(1) m1 by auto
qed

lemma new_resource_runs:
  assumes "plain_resource (r_semver r) m" and "validateSpec r m = Inr None" and "undeployed m (rs_cluster rs)"
  shows "\<exists>rs' m'. Reconcile r (mdb_key m) rs = (result_OK, rs') \<and> deployed (r_codec r) m (rs_cluster rs') \<and>
    mw_mongodbs (rs_cluster rs') (mdb_key m) = Some m' \<and> Spec m' = Spec m \<and> Phase (Status m') = Running \<and>
    CurrentStatefulSetReplicas (Status m') = Members (Spec m) \<and> CurrentStatefulSetArbitersReplicas (Status m') = Arbiters (Spec m)"
proof -
  note counts = accepted_counts[OF assms(2,1)]
  note plain = assms(1)[unfolded plain_resource_def]
  obtain w1 where service: "ensureService r m (rs_cluster rs) = (Inr (), w1)" "undeployed m w1"
    using ensureService_succeeds assms(3) by (rule succeedsE) simp
  obtain rs2 where deploy: "deployMongoDBReplicaSet r m None (rs\<lparr>rs_cluster := w1\<rparr>) = ((True, None), rs2)"
      "deployed (r_codec r) m (rs_cluster rs2)" "mw_mongodbs (rs_cluster rs2) (mdb_key m) = Some m"
    using replica_set_deployed[OF assms(1) counts, of "rs\<lparr>rs_cluster := w1\<rparr>"] service(2) by auto
  have "Reconcile r (mdb_key m) rs = reconcile_resource r m rs"
    using assms(3) by (simp add: Reconcile_def on_cluster_def run undeployed_def)
  also have "\<dots> = after_deploy r m None True rs2"
    using assms(2) service(1) deploy(1) plain
    by (simp add: reconcile_resource_def or_fail_def on_cluster_def validateTLSConfig_def ensureTLSResources_def
        ensurePrometheusTLSResources_def ensureUserResources_def GetAuthUsers_def fallible_step_def)
  also have "\<dots> = finish r m None rs2"
    using plain_counts(6)[OF assms(1) counts(1,2)] plain_order(2)[OF assms(1) counts(1)]
    by (simp add: after_deploy_def or_fail_def ResetUpdateStrategy_def on_cluster_def)
  finally show ?thesis using finished[OF assms(1) counts(1,2) deploy(2,3)] by simp
qed

end

subsection \<open>Properties\<close>


text \<open>A cluster to which a user has just added a resource with three members.\<close>

definition with_new_resource :: mock_world where
  "with_new_resource = NewMockedClient\<lparr>mw_mongodbs := [nn ''ns'' ''mdb'' \<mapsto> demo_mdb 3 0]\<rparr>"

lemma new_resource:
  shows "plain_resource (r_semver mock_reconciler) (demo_mdb 3 0)" and "validateSpec mock_reconciler (demo_mdb 3 0) = Inr None"
    and "undeployed (demo_mdb 3 0) with_new_resource" and "mdb_key (demo_mdb 3 0) = nn ''ns'' ''mdb''"
proof -
  show "plain_resource (r_semver mock_reconciler) (demo_mdb 3 0)" by code_simp
  show "validateSpec mock_reconciler (demo_mdb 3 0) = Inr None" by code_simp
qed (simp_all add: undeployed_def with_new_resource_def NewMockedClient_def demo_mdb_def)


subsection \<open>The properties of \<open>Settling\<close> and \<open>System\<close> on this cluster\<close>


text \<open>The user creates the resource, the operator is notified and reconciles it.  Then its queue is
  empty and no notification is under way.\<close>

definition notified_state :: "mock_world sys" where
  "notified_state = \<lparr>sys_rs = mock_rs with_new_resource, sys_queue = [nn ''ns'' ''mdb''], sys_events = [], sys_done = (\<lambda>_. None)\<rparr>"

definition idle_state :: "mock_world sys" where
  "idle_state = \<lparr>sys_rs = snd (Reconcile mock_reconciler (nn ''ns'' ''mdb'') (mock_rs with_new_resource)), sys_queue = [],
     sys_events = [], sys_done = (\<lambda>_. None)(nn ''ns'' ''mdb'' := Some (demo_mdb 3 0))\<rparr>"

lemma notified_state_reachable: "sys_reachable mock_reconciler mw_mongodbs (\<lambda>_. []) notified_state"
proof -
  let ?s0 = "\<lparr>sys_rs = mock_rs NewMockedClient, sys_queue = [], sys_events = [], sys_done = (\<lambda>_. None)\<rparr>"
  let ?s1 = "?s0\<lparr>sys_rs := (sys_rs ?s0)\<lparr>rs_cluster := with_new_resource\<rparr>, sys_events := sys_events ?s0 @
      change_events (mw_mongodbs (sys_cluster ?s0) (nn ''ns'' ''mdb'')) (Some (demo_mdb 3 0))\<rparr>"
  have "sys_reachable mock_reconciler mw_mongodbs (\<lambda>_. []) ?s0"
    by (rule sys_reachable.start) (simp add: sys_start_def keyed_def listed_def mock_rs_def NewMockedClient_def)
  moreover have "sys_step mock_reconciler mw_mongodbs (\<lambda>_. []) ?s0 ?s1"
    using new_resource(4) by (intro sys_step.edit) (auto simp: mock_rs_def with_new_resource_def NewMockedClient_def fun_eq_iff)
  moreover have "sys_step mock_reconciler mw_mongodbs (\<lambda>_. []) ?s1 notified_state"
    using sys_step.deliver[of "resource_event (CreateEvent (demo_mdb 3 0))" ?s1 mock_reconciler mw_mongodbs "\<lambda>_. []"] new_resource(4)
    by (simp add: notified_state_def mock_rs_def NewMockedClient_def)
  ultimately show ?thesis by (blast intro: sys_reachable.step)
qed

lemma idle_state_reachable:
  "sys_reachable mock_reconciler mw_mongodbs (\<lambda>_. []) idle_state"
  "\<exists>m. mw_mongodbs (sys_cluster idle_state) (nn ''ns'' ''mdb'') = Some m \<and> Spec m = Spec (demo_mdb 3 0)"
proof -
  obtain rs' m where run: "Reconcile mock_reconciler (nn ''ns'' ''mdb'') (mock_rs with_new_resource) = (result_OK, rs')"
      "mw_mongodbs (rs_cluster rs') (nn ''ns'' ''mdb'') = Some m" "Spec m = Spec (demo_mdb 3 0)"
    using mock_run.new_resource_runs[OF new_resource(1,2), of "mock_rs with_new_resource"] new_resource(3,4) by (auto simp: mock_rs_def)
  have "mw_mongodbs (sys_cluster notified_state) (nn ''ns'' ''mdb'') = Some (demo_mdb 3 0)"
    by (simp add: notified_state_def mock_rs_def with_new_resource_def)
  then have "sys_step mock_reconciler mw_mongodbs (\<lambda>_. []) notified_state idle_state"
    using sys_step.reconcile[of "nn ''ns'' ''mdb''" notified_state mock_reconciler result_OK rs' mw_mongodbs "\<lambda>_. []" "[]"] run(1)
    by (simp add: idle_state_def notified_state_def)
  then show "sys_reachable mock_reconciler mw_mongodbs (\<lambda>_. []) idle_state"
    using notified_state_reachable by (rule sys_reachable.step[rotated])
  show "\<exists>m. mw_mongodbs (sys_cluster idle_state) (nn ''ns'' ''mdb'') = Some m \<and> Spec m = Spec (demo_mdb 3 0)"
    using run by (simp add: idle_state_def)
qed


end
