(* ===== verification/Steady.thy ===== *)
theory Steady
  imports First_Run
begin

text \<open>
  Reconciling again what was reconciled before, on the in-memory cluster of the repository's tests.
  After the first reconciliation of a new resource (theory \<open>First_Run\<close>) the cluster is \<open>settled\<close>: whatever
  the pods do, every further reconciliation computes the same credentials and ports, builds the automation
  config that is already stored, and leaves all secrets alone.  It ends \<open>Running\<close> when the agents are done
  and asks to be called again otherwise.

  The config is read back from its JSON text.  Of the text it is only assumed that it parses to the tree it
  was written from; what comes back then is \<open>read_back\<close> of the config (theory \<open>AC_Json\<close>).
\<close>

subsection \<open>The same config from what was read back\<close>

definition reads_as :: "automation_config \<Rightarrow> automation_config \<Rightarrow> bool" where
  "reads_as ac d = (marshal_AutomationConfig d = marshal_AutomationConfig ac \<and>
     map p_FeatureCompatibilityVersion (ac_Processes d) = map p_FeatureCompatibilityVersion (ac_Processes ac))"

definition same_ports :: "objx \<Rightarrow> automation_config \<Rightarrow> automation_config \<Rightarrow> bool" where
  "same_ports ox ac d = (map (\<lambda>p. (p_Name p, GetPort ox p)) (ac_Processes d) = map (\<lambda>p. (p_Name p, GetPort ox p)) (ac_Processes ac))"

lemma reads_as_AreEqual:
  assumes "reads_as ac d"
  shows "AreEqual d = AreEqual ac" and "AreEqual ac d" and "ac_Version d = ac_Version ac"
proof -
  have m: "marshal_AutomationConfig d = marshal_AutomationConfig ac" using assms by (simp add: reads_as_def)
  show v: "ac_Version d = ac_Version ac" using marshal_version[OF m] .
  have "d\<lparr>ac_Version := ac_Version ac\<rparr> = d" using v by simp
  then have "marshal_AutomationConfig (d\<lparr>ac_Version := w\<rparr>) = marshal_AutomationConfig (ac\<lparr>ac_Version := w\<rparr>)" for w
    using marshal_with_version[where a = d and b = ac and v = "ac_Version ac" and w = w] m by simp
  then show "AreEqual d = AreEqual ac" by (simp add: fun_eq_iff AreEqual_def)
  then show "AreEqual ac d" using AreEqual_refl[of d "ac_Version d"] by simp
qed

lemma set_fcv_previous:
  assumes "map p_FeatureCompatibilityVersion (ac_Processes d) = map p_FeatureCompatibilityVersion (ac_Processes ac)"
  shows "setFeatureCompatibilityVersionIfUpgradeIsHappening sv (b\<lparr>b_previousAC := d\<rparr>) =
    map_sum id (\<lambda>b. b\<lparr>b_previousAC := d\<rparr>) (setFeatureCompatibilityVersionIfUpgradeIsHappening sv (b\<lparr>b_previousAC := ac\<rparr>))"
  using assms
  by (cases "ac_Processes d"; cases "ac_Processes ac")
     (auto simp: setFeatureCompatibilityVersionIfUpgradeIsHappening_def Let_def split: sum.splits)

lemma build_currentAc_previous:
  "ac_Version d = ac_Version (b_previousAC b) \<Longrightarrow> build_currentAc ox tf sv (b\<lparr>b_previousAC := d\<rparr>) = build_currentAc ox tf sv b"
  using build_currentAc_frame[where f = "b_fcv b" and P = d and b = b and sv = sv and ox = ox and tf = tf]
    build_currentAc_sel(2)[of ox tf sv b] by simp

lemma Build_previous:
  assumes "reads_as ac d" and "Build ox tf sv (SetPreviousAutomationConfig ac b) = Inr ac"
  shows "Build ox tf sv (SetPreviousAutomationConfig d b) = Inr ac"
proof -
  obtain b1 where b1: "setFeatureCompatibilityVersionIfUpgradeIsHappening sv (b\<lparr>b_previousAC := ac\<rparr>) = Inr b1"
      "0 \<le> b_members b" "0 \<le> b_arbiters b" "invalid_fcv sv b1 = None"
      "ac = bump_version ac (fold (\<lambda>m. m) (b_modifications b) (build_currentAc ox tf sv b1))"
    using assms(2) by (auto simp: Build_Inr_iff SetPreviousAutomationConfig_def)
  have "b_previousAC b1 = ac" using set_fcv_fields(6)[OF b1(1)] by simp
  then have "build_currentAc ox tf sv (b1\<lparr>b_previousAC := d\<rparr>) = build_currentAc ox tf sv b1"
    using reads_as_AreEqual(3)[OF assms(1)] by (simp add: build_currentAc_previous)
  moreover have "bump_version d cur = bump_version ac cur" for cur
    using reads_as_AreEqual(1)[OF assms(1)] by (simp add: bump_version_def)
  moreover have "invalid_fcv sv (b1\<lparr>b_previousAC := d\<rparr>) = None" using b1(4) by (simp add: invalid_fcv_def split: if_splits)
  moreover have "setFeatureCompatibilityVersionIfUpgradeIsHappening sv (b\<lparr>b_previousAC := d\<rparr>) = Inr (b1\<lparr>b_previousAC := d\<rparr>)"
    using set_fcv_previous[of d ac sv b] assms(1) b1(1) by (simp add: reads_as_def)
  ultimately show ?thesis using b1 by (simp add: Build_Inr_iff SetPreviousAutomationConfig_def)
qed

subsection \<open>The same ports\<close>

definition ports_settled :: "objx \<Rightarrow> port_manager \<Rightarrow> bool" where
  "ports_settled ox pm = (\<forall>n\<in>pod_names pm. current_port ox pm n = expectedPort pm)"

lemma settled_port_map:
  assumes "ports_settled ox pm" and "\<And>m. distinct (map fst m) \<Longrightarrow> set (order m) = set m"
  shows "fst (calculateExpectedPorts order ox pm) = fold (\<lambda>n. map_put n (expectedPort pm)) (map state_name (currentPodStates pm)) []"
proof -
  have "distinct (map fst (port_map0 ox pm))" unfolding port_map0_def by (rule distinct_fold_map_put) simp
  then have "find (\<lambda>(_, port). port \<noteq> expectedPort pm) (order (port_map0 ox pm)) = None"
    using assms by (auto simp: find_None_iff set_port_map0 ports_settled_def)
  then have "fst (calculateExpectedPorts order ox pm) = port_map0 ox pm" by (simp add: calculateExpectedPorts_eq)
  also have "\<dots> = fold (\<lambda>s. map_put (state_name s) (expectedPort pm)) (currentPodStates pm) []"
    unfolding port_map0_def using assms(1) by (intro fold_cong) (auto simp: ports_settled_def)
  finally show ?thesis by (simp add: fold_map comp_def)
qed

lemma settled_ports_modification:
  assumes "ports_settled ox pm" and "ports_settled ox pm'" and "\<And>m. distinct (map fst m) \<Longrightarrow> set (order m) = set m"
    and "expectedPort pm = expectedPort pm'" and "map PodName (currentPodStates pm) = map PodName (currentPodStates pm')"
  shows "GetPortsModification order ox pm = GetPortsModification order ox pm'"
proof -
  have "map state_name (currentPodStates pm) = map state_name (currentPodStates pm')"
    using arg_cong[OF assms(5), of "map ns_Name"] by (simp add: comp_def)
  then show ?thesis
    by (simp add: fun_eq_iff GetPortsModification_def settled_port_map[OF assms(1,3)] settled_port_map[OF assms(2,3)] assms(4))
qed

lemma find_process_in: "find_process n ps = Some p \<Longrightarrow> p \<in> set ps \<and> p_Name p = n"
  by (induction ps) (auto split: if_splits)

text \<open>No processes yet, or those that the modification has written and that were read back.\<close>

lemma no_processes_settled: "currentACProcesses pm = [] \<Longrightarrow> ports_settled ox pm"
  by (simp add: ports_settled_def current_port_def getProcessByName_def)

context objx_laws
begin

lemma written_ports_settled:
  assumes "ports_settled ox pm" and "\<And>m. distinct (map fst m) \<Longrightarrow> set (order m) = set m"
    and "same_ports ox (GetPortsModification order ox pm config) d"
    and "expectedPort pm' = expectedPort pm" and "map PodName (currentPodStates pm') = map PodName (currentPodStates pm)"
    and "currentACProcesses pm' = ac_Processes d"
  shows "ports_settled ox pm'"
  unfolding ports_settled_def
proof
  fix n assume n': "n \<in> pod_names pm'"
  let ?written = "GetPortsModification order ox pm config"
  have n: "n \<in> pod_names pm"
    using n' arg_cong[OF assms(5), of "\<lambda>xs. ns_Name ` set xs"] by (simp add: image_image)
  have port: "GetPort ox q \<in> {0, expectedPort pm}" if q: "q \<in> set (ac_Processes ?written)" "p_Name q = n" for q
  proof -
    have "map_get n 0 (fst (calculateExpectedPorts order ox pm)) = expectedPort pm"
      using n settled_port_map[OF assms(1,2)]
        map_of_fold_map_put[where k = "\<lambda>n. n" and f = "\<lambda>_. expectedPort pm" and xs = "map state_name (currentPodStates pm)" and m = "[]"]
      by (simp add: map_get_def)
    moreover obtain p where "q = (case p_Args26 p of None \<Rightarrow> p | Some _ \<Rightarrow>
        SetPort ox (map_get (p_Name p) 0 (fst (calculateExpectedPorts order ox pm))) p)"
      using q(1) by (auto simp: GetPortsModification_def Let_def)
    ultimately show ?thesis using q(2) by (cases "p_Args26 p") (auto simp: GetPort_def[of ox p])
  qed
  have "GetPort ox p \<in> {0, expectedPort pm}" if "find_process n (ac_Processes d) = Some p" for p
  proof -
    have "(n, GetPort ox p) \<in> set (map (\<lambda>p. (p_Name p, GetPort ox p)) (ac_Processes d))"
      using find_process_in[OF that] by force
    then obtain q where "q \<in> set (ac_Processes ?written)" "p_Name q = n" "GetPort ox q = GetPort ox p"
      unfolding assms(3)[unfolded same_ports_def] by auto
    then show ?thesis using port[of q] by simp
  qed
  then show "current_port ox pm' n = expectedPort pm'"
    by (auto simp: current_port_def getProcessByName_def assms(4,6) split: option.splits)
qed

end

subsection \<open>Building the config again\<close>

lemma ConfigureAgentConfiguration_fcv:
  "p_FeatureCompatibilityVersion (ConfigureAgentConfiguration ox tf sl lr alr p) = p_FeatureCompatibilityVersion p"
  by (simp add: ConfigureAgentConfiguration_def Let_def SetSystemLog_def SetLogRotate_def SetAuditLogRotate_def split: option.splits)

text \<open>The modifications of a resource without TLS and Prometheus.\<close>

abbreviation plain_mods :: "('w, 'v) reconciler \<Rightarrow> mdb \<Rightarrow> port_manager \<Rightarrow> (automation_config \<Rightarrow> automation_config) list" where
  "plain_mods r m pm \<equiv> [id, getCustomRolesModification m, NOOP, GetPortsModification (r_iterate r) (r_objx r) pm]"

lemma plain_mods_frame:
  "version_blind (getMongodConfigModification mergo m # plain_mods r m pm)"
  "keeps (\<lambda>ac. map p_FeatureCompatibilityVersion (ac_Processes ac)) (getMongodConfigModification mergo m # plain_mods r m pm)"
  by (auto simp: version_blind_def getMongodConfigModification_def getCustomRolesModification_def NOOP_def GetPortsModification_def
      Let_def SetPort_def comp_def split: option.splits)

lemma buildAutomationConfig_builder:
  obtains b where "\<And>cur. buildAutomationConfig r m ent auth cur mods = Build (r_objx r) (r_toFloat r) (r_semver r) (SetPreviousAutomationConfig cur b)"
    and "b_members b = AutomationConfigMembersThisReconciliation m" and "b_arbiters b = arbitersCount m"
    and "b_fcv b = FeatureCompatibilityVersion (Spec m)" and "b_mongodbVersion b = Version (Spec m)"
    and "b_modifications b = getMongodConfigModification (r_mergo r) m # mods" and "process_mods_keep_fcv b"
proof -
  define b where "b = NewBuilder\<lparr>b_isEnterprise := ent, b_topology := ReplicaSetTopology, b_name := mdb_Name m,
    b_domain := getDomain (ServiceName m) (mdb_Namespace m) (r_Getenv r clusterDomain),
    b_arbiterDomain := getDomain (ServiceName m) (mdb_Namespace m) (r_Getenv r clusterDomain),
    b_members := AutomationConfigMembersThisReconciliation m, b_arbiters := arbitersCount m,
    b_replicaSetHorizons := ReplicaSetHorizons (Spec m), b_mongodbVersion := Version (Spec m),
    b_fcv := FeatureCompatibilityVersion (Spec m), b_options := ''/var/lib/mongodb-mms-automation'', b_auth := Some auth,
    b_replicaSetId := (case AutomationConfigOverride (Spec m) of None \<Rightarrow> None | Some ov \<Rightarrow> aco_ReplicaSet_Id ov),
    b_settings := (case AutomationConfigOverride (Spec m) of None \<Rightarrow> [] | Some ov \<Rightarrow> aco_ReplicaSet_Settings ov),
    b_memberOptions := MemberConfig (Spec m),
    b_dataDir := GetDBDataDir (r_objx r) (GetMongodConfiguration (r_iterate r) (r_objx r) m),
    b_modifications := getMongodConfigModification (r_mergo r) m # mods,
    b_processModifications := [\<lambda>_. ConfigureAgentConfiguration (r_objx r) (r_toFloat r) (ag_SystemLog (AgentConfiguration (Spec m)))
      (ag_LogRotate (AgentConfiguration (Spec m))) (ag_AuditLogRotate (AgentConfiguration (Spec m)))]\<rparr>"
  show thesis
  proof
    show "buildAutomationConfig r m ent auth cur mods =
        Build (r_objx r) (r_toFloat r) (r_semver r) (SetPreviousAutomationConfig cur b)" for cur
      by (simp add: buildAutomationConfig_def Let_def b_def NewBuilder_def IsEnterprise_def SetTopology_def SetName_def SetDomain_def
          SetArbiterDomain_def SetMembers_def SetArbiters_def SetReplicaSetHorizons_def SetPreviousAutomationConfig_def
          SetMongoDBVersion_def SetFCV_def SetOptions_def SetAuth_def SetReplicaSetId_def SetSettings_def SetMemberOptions_def
          SetDataDir_def AddModifications_def AddProcessModification_def)
  qed (simp_all add: b_def process_mods_keep_fcv_def ConfigureAgentConfiguration_fcv)
qed

text \<open>The version of MongoDB is one that the version parser knows, or the feature compatibility version is given.\<close>

definition known_version :: "'v semver \<Rightarrow> mdb \<Rightarrow> bool" where
  "known_version sv m = (FeatureCompatibilityVersion (Spec m) \<noteq> '''' \<or>
     (\<not> isl (semver_Make sv (Version (Spec m))) \<and>
      \<not> isl (semver_Make sv (CalculateFeatureCompatibilityVersion sv (Version (Spec m)) @ ''.0''))))"

lemma not_isl: "\<not> isl x \<longleftrightarrow> (\<exists>v. x = Inr v)"
  by (cases x) simp_all

lemma config_rebuilt:
  assumes laws: "objx_laws (r_objx r)" and iter: "is_iteration (be_order (r_build r))"
    and built: "buildAutomationConfig r m ent auth zero_AutomationConfig (plain_mods r m pm) = Inr ac" "currentACProcesses pm = []"
    and read: "reads_as ac d" "same_ports (r_objx r) ac d"
    and pm': "expectedPort pm' = expectedPort pm" "map PodName (currentPodStates pm') = map PodName (currentPodStates pm)"
      "currentACProcesses pm' = ac_Processes d"
    and some: "0 < AutomationConfigMembersThisReconciliation m + arbitersCount m" and known: "known_version (r_semver r) m"
  shows "buildAutomationConfig r m ent auth d (plain_mods r m pm') = Inr ac"
proof -
  let ?it = "r_iterate r :: (string \<times> int) list \<Rightarrow> _" and ?sv = "r_semver r"
  have it: "set (?it kvs) = set kvs" if "distinct (map fst kvs)" for kvs using iterate_props(1)[OF iter that] .
  obtain b where b: "\<And>cur. buildAutomationConfig r m ent auth cur (plain_mods r m pm) =
      Build (r_objx r) (r_toFloat r) ?sv (SetPreviousAutomationConfig cur b)"
    and b_sel: "b_members b = AutomationConfigMembersThisReconciliation m" "b_arbiters b = arbitersCount m"
      "b_fcv b = FeatureCompatibilityVersion (Spec m)" "b_mongodbVersion b = Version (Spec m)"
      "b_modifications b = getMongodConfigModification (r_mergo r) m # plain_mods r m pm" "process_mods_keep_fcv b"
    by (rule buildAutomationConfig_builder[of r m ent auth "plain_mods r m pm"]) blast
  let ?b = "SetPreviousAutomationConfig zero_AutomationConfig b"
  have build: "Build (r_objx r) (r_toFloat r) ?sv ?b = Inr ac" using built(1) b by simp
  then obtain b1 where b1: "setFeatureCompatibilityVersionIfUpgradeIsHappening ?sv ?b = Inr b1"
      "ac = bump_version zero_AutomationConfig (fold (\<lambda>m. m) (b_modifications b) (build_currentAc (r_objx r) (r_toFloat r) ?sv b1))"
    unfolding Build_Inr_iff by (auto simp: SetPreviousAutomationConfig_def)
  have b1_eq: "b1 = ?b" using set_fcv_Inr[OF b1(1)] by (auto simp: SetPreviousAutomationConfig_def zero_AutomationConfig_def)
  let ?cur = "build_currentAc (r_objx r) (r_toFloat r) ?sv b1"
  note frame = plain_mods_frame[of "r_mergo r" m r pm, folded b_sel(5)]
  have keep: "process_mods_keep_fcv ?b" using b_sel(6) by (simp add: process_mods_keep_fcv_def SetPreviousAutomationConfig_def)
  have "map p_FeatureCompatibilityVersion (ac_Processes ac) = replicate (n_members ?b + n_arbiters ?b) (build_fcv ?sv ?b)"
    using fold_keeps[OF frame(2), of ?cur] fcv_build_processes[OF keep] b1(2) b1_eq by simp
  then have "p_FeatureCompatibilityVersion p = build_fcv ?sv ?b" if "p \<in> set (ac_Processes ac)" for p
    using that by (metis image_eqI in_set_replicate list.set_map)
  then have known': "b_fcv ?b \<noteq> '''' \<or> (\<exists>pv cv. (\<forall>p\<in>set (ac_Processes ac). semver_Make ?sv (p_FeatureCompatibilityVersion p @ ''.0'') = Inr pv) \<and>
      semver_Make ?sv (b_mongodbVersion ?b) = Inr cv)"
    using known b_sel(3,4) by (auto simp: known_version_def not_isl SetPreviousAutomationConfig_def build_fcv_def)
  have "Build (r_objx r) (r_toFloat r) ?sv (SetPreviousAutomationConfig ac ?b) = Inr ac"
    using Build_again[OF build _ keep _ _ known'] frame some b_sel(1,2) by (simp add: SetPreviousAutomationConfig_def)
  then have again: "buildAutomationConfig r m ent auth d (plain_mods r m pm) = Inr ac"
    using Build_previous[OF read(1), of "r_objx r" "r_toFloat r" ?sv b] b by (simp add: SetPreviousAutomationConfig_def)
  have settled: "ports_settled (r_objx r) pm" using built(2) by (rule no_processes_settled)
  obtain c where "ac_Processes ac = ac_Processes (GetPortsModification ?it (r_objx r) pm c)"
    using b1(2) b_sel(5) by simp
  then have "ports_settled (r_objx r) pm'"
    using objx_laws.written_ports_settled[OF laws settled it _ pm', of c] read(2) by (simp add: same_ports_def)
  then have "GetPortsModification ?it (r_objx r) pm' = GetPortsModification ?it (r_objx r) pm"
    using settled_ports_modification[OF _ settled it pm'(1,2)] by simp
  then show ?thesis using again by simp
qed

subsection \<open>The same credentials\<close>

definition plain_spec :: "mdb_spec \<Rightarrow> bool" where
  "plain_spec s = (Users s = [] \<and> \<not> tls_Enabled (sec_TLS (Security s)) \<and> Prometheus s = None \<and> \<not> IsAgentX509 s)"

lemma plain_resource_spec: "plain_resource sv m \<Longrightarrow> plain_spec (Spec m)"
  by (simp add: plain_resource_def plain_spec_def)

text \<open>No secret but the one of the config was changed or removed; a call that succeeded before then finds
  what it stored, returns the same value and writes nothing.\<close>

definition grows :: "mdb \<Rightarrow> mock_world \<Rightarrow> mock_world \<Rightarrow> bool" where
  "grows m w w' = (\<forall>k s. k \<noteq> ac_secret_name m \<longrightarrow> mw_secrets w k = Some s \<longrightarrow> mw_secrets w' k = Some s)"

definition settles :: "mdb \<Rightarrow> (mock_world, 'a fallible) effect \<Rightarrow> bool" where
  "settles m f = (\<forall>w x w1. f w = (Inr x, w1) \<longrightarrow> grows m w w1 \<and> (\<forall>w2. grows m w1 w2 \<longrightarrow> f w2 = (Inr x, w2)))"

lemma grows_refl [simp]: "grows m w w"
  by (simp add: grows_def)

lemma grows_trans: "grows m w w1 \<Longrightarrow> grows m w1 w2 \<Longrightarrow> grows m w w2"
  unfolding grows_def by blast

lemma settlesI:
  "(\<And>w x w1. f w = (Inr x, w1) \<Longrightarrow> grows m w w1 \<and> (\<forall>w2. grows m w1 w2 \<longrightarrow> f w2 = (Inr x, w2))) \<Longrightarrow> settles m f"
  unfolding settles_def by blast

lemma settlesD:
  assumes "settles m f" and "f w = (Inr x, w1)"
  shows "grows m w w1" and "grows m w1 w2 \<Longrightarrow> f w2 = (Inr x, w2)"
  using assms unfolding settles_def by blast+

lemma settles_basic [simp, intro]: "settles m (eff_return x)" "settles m (eff_lift y)"
  by (simp_all add: settles_def)

lemma settles_wrap [intro]: "settles m f \<Longrightarrow> settles m (eff_wrap msg f)"
  by (rule settlesI, simp) (blast dest: settlesD)

lemma settles_bind [intro]:
  assumes "settles m f" and "\<And>x. settles m (g x)"
  shows "settles m (eff_bind f g)"
proof (rule settlesI)
  fix w y w2 assume "eff_bind f g w = (Inr y, w2)"
  then obtain x w1 where run: "f w = (Inr x, w1)" "g x w1 = (Inr y, w2)" by (auto simp: eff_bind_Inr_iff)
  note steps = settlesD[OF assms(1) run(1)] settlesD[OF assms(2) run(2)]
  have "eff_bind f g w3 = (Inr y, w3)" if "grows m w2 w3" for w3
    using steps(2)[OF grows_trans[OF steps(3) that]] steps(4)[OF that] by simp
  then show "grows m w w2 \<and> (\<forall>w3. grows m w2 w3 \<longrightarrow> eff_bind f g w3 = (Inr y, w3))"
    using grows_trans[OF steps(1,3)] by blast
qed

context mocked_operator
begin

lemma EnsureSecretWithKey_settles:
  assumes "k \<noteq> ac_secret_name m" and "EnsureSecretWithKey (r_client r) k refs key v w = (Inr x, w1)"
  shows "grows m w w1" and "grows m w1 w2 \<Longrightarrow> EnsureSecretWithKey (r_client r) k refs key v' w2 = (Inr x, w2)"
proof -
  have "grows m w w1 \<and> (\<exists>s. mw_secrets w1 k = Some s \<and> x = (case data_lookup (s_Data s) key of None \<Rightarrow> '''' | Some v \<Rightarrow> v))"
  proof (cases "mw_secrets w k")
    case None
    then show ?thesis
      using assms(2) by (cases k) (auto simp: EnsureSecretWithKey_def run SecretNotExist_def notFoundError_def secret_builder_defs
          Let_def grows_def data_lookup_def)
  qed (use assms(2) in \<open>auto simp: EnsureSecretWithKey_def run\<close>)
  then show "grows m w w1" "grows m w1 w2 \<Longrightarrow> EnsureSecretWithKey (r_client r) k refs key v' w2 = (Inr x, w2)"
    using assms(1) by (auto simp: grows_def EnsureSecretWithKey_def run)
qed

lemma random_value:
  "\<exists>s. RandomFixedLengthStringOfSize (env_rand (r_auth r)) n w = (Inr s, w)" "\<exists>s. KeyFileContents (env_rand (r_auth r)) w = (Inr s, w)"
proof -
  obtain s s' where "env_rand (r_auth r) n w = (Inr s, w)" "env_rand (r_auth r) 500 w = (Inr s', w)"
    using random[of n w] random[of 500 w] by blast
  then show "\<exists>s. RandomFixedLengthStringOfSize (env_rand (r_auth r)) n w = (Inr s, w)"
    "\<exists>s. KeyFileContents (env_rand (r_auth r)) w = (Inr s, w)"
    by (simp_all add: RandomFixedLengthStringOfSize_def KeyFileContents_def generateRandomString_def generateRandomBytes_def)
qed

lemma scram_ensureAgent_settles: "settles m (scram_ensureAgent (r_auth r) auth m)"
proof (rule settlesI)
  fix w a w2 assume run1: "scram_ensureAgent (r_auth r) auth m w = (Inr a, w2)"
  let ?pwd = "EnsureSecretWithKey (r_client r) (GetAgentPasswordSecretNamespacedName m) (GetOwnerReferences m) AgentPasswordKey"
  let ?key = "EnsureSecretWithKey (r_client r) (GetAgentKeyfileSecretNamespacedName m) (GetOwnerReferences m) AgentKeyfileKey"
  have agent: "scram_ensureAgent (r_auth r) auth m w0 = (Inr b, w2') \<longleftrightarrow> (\<exists>p c x w1 y. ?pwd p w0 = (Inr x, w1) \<and> ?key c w1 = (Inr y, w2') \<and>
      scram_enableAgentAuthentication (r_auth r) auth x y (GetAuthOptions m) = Inr b \<and>
      RandomFixedLengthStringOfSize (env_rand (r_auth r)) 20 w0 = (Inr p, w0) \<and> KeyFileContents (env_rand (r_auth r)) w0 = (Inr c, w0))"
    for w0 b w2'
    using random_value(1)[of 20 w0] random_value(2)[of w0] by (auto simp: scram_ensureAgent_def eff_bind_Inr_iff eff_lift_def) blast
  obtain p c x w1 y where run: "?pwd p w = (Inr x, w1)" "?key c w1 = (Inr y, w2)"
      "scram_enableAgentAuthentication (r_auth r) auth x y (GetAuthOptions m) = Inr a"
    using run1 unfolding agent by blast
  note pwd = EnsureSecretWithKey_settles[OF agent_secrets_differ(1) run(1)]
  note key = EnsureSecretWithKey_settles[OF agent_secrets_differ(2) run(2)]
  have "scram_ensureAgent (r_auth r) auth m w3 = (Inr a, w3)" if "grows m w2 w3" for w3
    unfolding agent using pwd(2)[OF grows_trans[OF key(1) that]] key(2)[OF that] run(3)
      random_value(1)[of 20 w3] random_value(2)[of w3] by blast
  then show "grows m w w2 \<and> (\<forall>w3. grows m w2 w3 \<longrightarrow> scram_ensureAgent (r_auth r) auth m w3 = (Inr a, w3))"
    using grows_trans[OF pwd(1) key(1)] by blast
qed

lemma scram_Enable_settles:
  assumes "Users (Spec m) = []"
  shows "settles m (scram_Enable (r_auth r) auth m)"
  using assms unfolding scram_Enable_def scram_convertMongoDBResourceUsersToAutomationConfigUsers_def Let_def
  by (auto simp: GetAuthUsers_def intro!: settles_bind settles_wrap scram_ensureAgent_settles)

lemma x509_Enable_settles:
  assumes "\<not> IsAgentX509 (Spec m)"
  shows "settles m (x509_Enable (r_auth r) auth m cert)"
proof -
  have "AutoAuthMechanism (GetAuthOptions m) \<noteq> X509"
    using assms by (auto simp: GetAuthOptions_def Let_def IsAgentX509_def ConvertAuthModeToAuthMechanism_def defaultMode_def
        Sha256_def Sha1_def X509_def)
  then show ?thesis unfolding x509_Enable_def Let_def by (auto intro!: settles_bind)
qed

lemma enable_loop_settles:
  assumes "Users (Spec m) = []" and "\<not> IsAgentX509 (Spec m)"
  shows "settles m (enable_loop (r_auth r) m cert modes enabled auth)"
proof (induction modes arbitrary: enabled auth)
  case (Cons mode modes)
  then show ?case
    using scram_Enable_settles[OF assms(1)] x509_Enable_settles[OF assms(2)] by (auto intro!: settles_bind settles_wrap)
qed simp

lemma authentication_settles:
  "plain_spec (Spec m) \<Longrightarrow> settles m (authentication_Enable (r_auth r) zero_Auth m cert)"
  unfolding authentication_Enable_def plain_spec_def by (intro enable_loop_settles) simp_all

end

subsection \<open>One build of the config\<close>

definition desired_pods :: "mdb \<Rightarrow> nsname list" where
  "desired_pods m = map (nn (mdb_Namespace m)) (statefulSetPodNames (mdb_Name m) (StatefulSetReplicasThisReconciliation m)
     @ arbitersStatefulSetPodNames (mdb_Name m) (StatefulSetArbitersThisReconciliation m))"

definition fresh_manager :: "('w, 'v) reconciler \<Rightarrow> mdb \<Rightarrow> automation_config \<Rightarrow> port_manager \<Rightarrow> bool" where
  "fresh_manager r m cur pm = (expectedPort pm = GetDBPort (r_objx r) (AdditionalMongodConfig (Spec m)) \<and>
     map PodName (currentPodStates pm) = desired_pods m \<and> currentACProcesses pm = ac_Processes cur)"

context mocked_operator
begin

lemma port_manager_created:
  assumes "ReadFromSecret (r_codec r) (r_client r) (ac_secret_name m) w = (Inr cur, w)"
  obtains pm where "createProcessPortManager r m w = (Inr pm, w)" and "fresh_manager r m cur pm"
proof -
  let ?names = "statefulSetPodNames (mdb_Name m) (StatefulSetReplicasThisReconciliation m)
    @ arbitersStatefulSetPodNames (mdb_Name m) (StatefulSetArbitersThisReconciliation m)"
  obtain ss where ss: "pod_states_loop (read_pods r w) (r_toInt r) (ac_Version cur) (mdb_Namespace m)
      (length (statefulSetPodNames (mdb_Name m) (StatefulSetReplicasThisReconciliation m))) 0 ?names = Inr ss"
    using pod_states_read by blast
  then have "GetAllDesiredMembersAndArbitersPodState (read_pods r w) (r_toInt r) (NamespacedName m)
      (StatefulSetReplicasThisReconciliation m) (StatefulSetArbitersThisReconciliation m) (ac_Version cur) = Inr ss"
    by (simp add: GetAllDesiredMembersAndArbitersPodState_def Let_def NamespacedName_def)
  moreover have "map PodName ss = desired_pods m" using pod_states_loop_Inr[OF ss] by (simp add: desired_pods_def)
  ultimately show thesis
    using assms that by (simp add: createProcessPortManager_def NewReplicaSetPortManager_def fresh_manager_def)
qed

lemma config_build:
  assumes plain: "plain_spec (Spec m)" "AutomationConfigOverride (Spec m) = None" and last: "lastSpec \<in> {None, Some (Spec m)}"
    and read: "ReadFromSecret (r_codec r) (r_client r) (ac_secret_name m) (rs_cluster rs) = (Inr cur, rs_cluster rs)"
    and auth: "authentication_Enable (r_auth r) zero_Auth m (AgentCertificateSecretNamespacedName m) (rs_cluster rs) = (Inr a, w1)"
    and ports: "createProcessPortManager r m w1 = (Inr pm, w1)"
    and build: "buildAutomationConfig r m (guessEnterprise (be_getenv (r_build r)) m (r_mongodbImage r)) a cur (plain_mods r m pm) = Inr ac"
  shows "reconciler_buildAutomationConfig r m lastSpec rs = (Inr ac, rs\<lparr>rs_cluster := w1\<rparr>)"
proof -
  have tls: "eff_wrap msg (on_cluster (getTLSConfigModification (r_objx r) (r_client r) m)) rs = (Inr id, rs)" for msg
    using plain(1) by (simp add: getTLSConfigModification_def plain_spec_def on_cluster_def eff_wrap_def)
  have prom: "prometheus_modification r m rs1 = (Inr NOOP, rs1)" "watch_agent_certs m rs1 = (Inr (), rs1)" for rs1
    using plain(1) by (simp_all add: prometheus_modification_def watch_agent_certs_def plain_spec_def)
  have removed: "AddRemovedUsers a m (Spec m) = a"
    using plain(1) by (simp add: AddRemovedUsers_def getRemovedUsersFromSpec_def plain_spec_def)
  show ?thesis
    using plain(2) last read auth ports build tls prom removed
    by (auto simp: reconciler_buildAutomationConfig_def on_cluster_def eff_bind_def eff_wrap_def Let_def)
qed

end

subsection \<open>The config of a new resource\<close>

abbreviation guessed :: "('w, 'v) reconciler \<Rightarrow> mdb \<Rightarrow> bool" where
  "guessed r m \<equiv> guessEnterprise (be_getenv (r_build r)) m (r_mongodbImage r)"

abbreviation enabled_auth :: "('w, 'v) reconciler \<Rightarrow> mdb \<Rightarrow> ('w, ac_auth fallible) effect" where
  "enabled_auth r m \<equiv> authentication_Enable (r_auth r) zero_Auth m (AgentCertificateSecretNamespacedName m)"

text \<open>What the operator builds when there is no config yet, from the credentials it makes in the state \<open>w\<close>.\<close>

definition first_manager :: "('w, 'v) reconciler \<Rightarrow> mdb \<Rightarrow> port_manager" where
  "first_manager r m = NewReplicaSetPortManager (GetDBPort (r_objx r) (AdditionalMongodConfig (Spec m)))
     (map (\<lambda>k. \<lparr>PodName = k, Found = False, ReachedGoal = False, IsArbiter = False\<rparr>) (desired_pods m)) []"

definition first_config :: "('w, 'v) reconciler \<Rightarrow> mdb \<Rightarrow> 'w \<Rightarrow> automation_config" where
  "first_config r m w = projr (buildAutomationConfig r m (guessed r m) (projr (fst (enabled_auth r m w))) zero_AutomationConfig
     (plain_mods r m (first_manager r m)))"

text \<open>The config \<open>ac\<close> is stored, is read back as \<open>d\<close>, and will be built again as long as no secret is lost.\<close>

definition config_settled :: "(mock_world, 'v) reconciler \<Rightarrow> mdb \<Rightarrow> automation_config \<Rightarrow> automation_config \<Rightarrow> mock_world \<Rightarrow> bool" where
  "config_settled r m ac d w = (
     stored_value (mw_secrets w) (ac_secret_name m) ConfigKey = Some (ac_bytes (r_codec r) ac) \<and>
     FromBytes (r_codec r) (ac_bytes (r_codec r) ac) = Inr d \<and> AreEqual ac d \<and>
     (\<exists>a. (\<forall>w'. grows m w w' \<longrightarrow> enabled_auth r m w' = (Inr a, w')) \<and>
        (\<forall>pm. fresh_manager r m d pm \<longrightarrow> buildAutomationConfig r m (guessed r m) a d (plain_mods r m pm) = Inr ac)))"

context mocked_operator
begin

lemma first_config_deployed:
  assumes plain: "plain_resource (r_semver r) m" "AutomationConfigOverride (Spec m) = None"
    and counts: "0 < Members (Spec m)" "0 \<le> Arbiters (Spec m)"
    and laws: "objx_laws (r_objx r)" "is_iteration (be_order (r_build r))" "known_version (r_semver r) m"
    and new: "undeployed m (rs_cluster rs)" and ac: "ac = first_config r m (rs_cluster rs)"
    and codec: "FromBytes (r_codec r) (ac_bytes (r_codec r) ac) = Inr d" "reads_as ac d" "same_ports (r_objx r) ac d"
  obtains rs' where "deployAutomationConfig r m None rs = (Inr True, rs')"
    and "configured (r_codec r) m (rs_cluster rs')" and "config_settled r m ac d (rs_cluster rs')"
proof -
  have ge: "0 \<le> Members (Spec m)" using counts by simp
  have "succeeds (undeployed m) (enabled_auth r m)"
    using plain(1) unfolding authentication_Enable_def by (intro enable_loop_succeeds) (simp_all add: plain_resource_def)
  then obtain a w1 where auth: "enabled_auth r m (rs_cluster rs) = (Inr a, w1)" and new1: "undeployed m w1"
    using new by (rule succeedsE)
  note again = settlesD[OF authentication_settles[OF plain_resource_spec[OF plain(1)]] auth]
  obtain pm where pm: "createProcessPortManager r m w1 = (Inr pm, w1)" "fresh_manager r m zero_AutomationConfig pm"
    using port_manager_created[OF ReadFromSecret_none[OF new1]] .
  have it: "set (r_iterate r kvs) = set kvs" if "distinct (map fst kvs)" for kvs :: "(string \<times> int) list"
    using iterate_props(1)[OF laws(2) that] .
  have none: "currentACProcesses pm = []" "currentACProcesses (first_manager r m) = []"
    using pm(2) by (simp_all add: fresh_manager_def zero_AutomationConfig_def first_manager_def NewReplicaSetPortManager_def)
  have "GetPortsModification (r_iterate r) (r_objx r) pm = GetPortsModification (r_iterate r) (r_objx r) (first_manager r m)"
    using none pm(2) it
    by (intro settled_ports_modification no_processes_settled) (simp_all add: fresh_manager_def first_manager_def NewReplicaSetPortManager_def comp_def)
  then have build: "buildAutomationConfig r m (guessed r m) a zero_AutomationConfig (plain_mods r m pm) = Inr ac"
    using builds[OF plain(1) ge counts(2), of "guessed r m" a "plain_mods r m (first_manager r m)"] ac auth
    by (auto simp: first_config_def)
  have rec: "reconciler_buildAutomationConfig r m None rs = (Inr ac, rs\<lparr>rs_cluster := w1\<rparr>)"
    using config_build[OF plain_resource_spec[OF plain(1)] plain(2) _ ReadFromSecret_none[OF new] auth pm(1) build] by simp
  define w2 where "w2 = snd (EnsureSecret (r_codec r) (r_client r) (ac_secret_name m) (GetOwnerReferences m) ac w1)"
  have stored: "EnsureSecret (r_codec r) (r_client r) (ac_secret_name m) (GetOwnerReferences m) ac w1 = (Inr ac, w2)"
      "configured (r_codec r) m w2" "grows m w1 w2"
      "stored_value (mw_secrets w2) (ac_secret_name m) ConfigKey = Some (ac_bytes (r_codec r) ac)"
    using new1 unfolding w2_def
    by (auto simp: EnsureSecret_def createNewAutomationConfigSecret_def run undeployed_def configured_def stored_value_def
        SecretNotExist_def notFoundError_def secret_builder_defs data_lookup_def grows_def)
  have "GetStatefulSet (r_client r) (NamespacedName m) (rs_cluster rs) = (Inl notFoundError, rs_cluster rs)"
    using new by (simp add: run undeployed_def)
  then have run1: "deployAutomationConfig r m None rs = (Inr True, rs\<lparr>rs_cluster := w2\<rparr>)"
    using rec stored(1)
    by (simp add: deployAutomationConfig_def on_cluster_def notFoundError_def ensureAutomationConfig_def eff_bind_def eff_wrap_def
        wait_for_agents_def no_probe_yet)
  have "buildAutomationConfig r m (guessed r m) a d (plain_mods r m pm') = Inr ac" if "fresh_manager r m d pm'" for pm'
    using that pm(2) none(1) plain_counts(3,4)[OF plain(1) ge counts(2)] counts(1)
    by (intro config_rebuilt[OF laws(1,2) build none(1) codec(2,3) _ _ _ _ laws(3)]) (simp_all add: fresh_manager_def)
  moreover have "enabled_auth r m w' = (Inr a, w')" if "grows m w2 w'" for w'
    using again(2)[OF grows_trans[OF stored(3) that]] .
  ultimately have "config_settled r m ac d w2"
    using stored(4) codec(1) reads_as_AreEqual(2)[OF codec(2)] unfolding config_settled_def by blast
  then show thesis using that[OF run1] stored(2) by simp
qed

lemma agents_answer:
  assumes "0 \<le> StatefulSetReplicasThisReconciliation m" and "mw_statefulSets (rs_cluster rs) (NamespacedName m) = Some sts"
  shows "wait_for_agents r m sts ac rs = (Inr (agents_ready r mw_statefulSets m (rs_cluster rs) ac), rs)"
proof -
  have "\<not> list_ex (pod_unreadable (read_pods r (rs_cluster rs))) ks" for ks
    using pods_read[of "rs_cluster rs"] by (auto simp: list_ex_iff pod_unreadable_def split: sum.splits)
  then obtain b where "AllReachedGoalState (read_pods r (rs_cluster rs)) (r_toInt r) (sts_key sts)
      (StatefulSetReplicasThisReconciliation m) (ac_Version ac) = Inr b"
    using AllReachedGoalState_cases[OF assms(1), of "read_pods r (rs_cluster rs)" "sts_key sts" "r_toInt r" "ac_Version ac"]
    by auto
  then show ?thesis using assms(2) by (simp add: wait_for_agents_def agents_ready_def)
qed

lemma config_deployed_again:
  assumes "plain_spec (Spec m)" and "AutomationConfigOverride (Spec m) = None" and "0 \<le> StatefulSetReplicasThisReconciliation m"
    and settled: "config_settled r m ac d (rs_cluster rs)"
    and sts: "mw_statefulSets (rs_cluster rs) (NamespacedName m) = Some sts"
  shows "deployAutomationConfig r m (Some (Spec m)) rs = (Inr (agents_ready r mw_statefulSets m (rs_cluster rs) d), rs)"
proof -
  let ?w = "rs_cluster rs"
  obtain s where s: "mw_secrets ?w (ac_secret_name m) = Some s" "data_lookup (s_Data s) ConfigKey = Some (ac_bytes (r_codec r) ac)"
    using settled by (auto simp: config_settled_def stored_value_def split: option.splits)
  have d: "FromBytes (r_codec r) (ac_bytes (r_codec r) ac) = Inr d" "AreEqual ac d" using settled by (simp_all add: config_settled_def)
  have read: "ReadFromSecret (r_codec r) (r_client r) (ac_secret_name m) ?w = (Inr d, ?w)"
    "EnsureSecret (r_codec r) (r_client r) (ac_secret_name m) refs ac ?w = (Inr d, ?w)" for refs
    using s d by (simp_all add: ReadFromSecret_def EnsureSecret_def run)
  obtain a where a: "enabled_auth r m ?w = (Inr a, ?w)"
      "\<And>pm. fresh_manager r m d pm \<Longrightarrow> buildAutomationConfig r m (guessed r m) a d (plain_mods r m pm) = Inr ac"
    using settled grows_refl unfolding config_settled_def by blast
  obtain pm where pm: "createProcessPortManager r m ?w = (Inr pm, ?w)" "fresh_manager r m d pm"
    using port_manager_created[OF read(1)] .
  have "reconciler_buildAutomationConfig r m (Some (Spec m)) rs = (Inr ac, rs)"
    using config_build[OF assms(1,2) _ read(1) a(1) pm(1) a(2)[OF pm(2)]] by simp
  moreover have "GetStatefulSet (r_client r) (NamespacedName m) ?w = (Inr sts, ?w)" using sts by (simp add: run)
  ultimately show ?thesis
    using read(2) agents_answer[OF assms(3) sts, of d]
    by (simp add: deployAutomationConfig_def on_cluster_def ensureAutomationConfig_def eff_bind_def eff_wrap_def)
qed

end

subsection \<open>The StatefulSets again\<close>

definition sets_settled :: "mdb \<Rightarrow> mock_world \<Rightarrow> bool" where
  "sets_settled m w = (
     (\<exists>sts. mw_statefulSets w (NamespacedName m) = Some sts \<and> IsReady sts (Members (Spec m)) \<and>
        stss_Replicas (sts_Spec sts) = Some (word_of_int (Members (Spec m)))) \<and>
     (\<exists>sts. mw_statefulSets w (ArbiterNamespacedName m) = Some sts \<and>
        stss_Replicas (sts_Spec sts) = Some (word_of_int (Arbiters (Spec m)))))"

context mocked_operator
begin

lemma statefulset_updated:
  assumes "mw_statefulSets w (sts_key s) = Some s0"
  shows "sts_CreateOrUpdate (r_client r) s w = (Inr s, w\<lparr>mw_statefulSets := (mw_statefulSets w)(sts_key s \<mapsto> s)\<rparr>)"
  using assms by (simp add: sts_CreateOrUpdate_def run)

lemma statefulsets_deployed_again:
  assumes counts: "ReplicasThisReconciliation (mdb_scaler m) = Members (Spec m)" "StatefulSetReplicasThisReconciliation m = Members (Spec m)"
      "StatefulSetArbitersThisReconciliation m = Arbiters (Spec m)"
    and spec: "stss_Replicas (sc_Spec (StatefulSetConfiguration (Spec m))) \<in> {None, Some (word_of_int (Members (Spec m)))}"
    and settled: "sets_settled m w"
  obtains sets where "deployStatefulSet r m w = (Inr True, w\<lparr>mw_statefulSets := sets\<rparr>)" and "sets_settled m (w\<lparr>mw_statefulSets := sets\<rparr>)"
proof -
  obtain old oldarb where old: "mw_statefulSets w (NamespacedName m) = Some old" "IsReady old (Members (Spec m))"
      "mw_statefulSets w (ArbiterNamespacedName m) = Some oldarb"
    using settled by (auto simp: sets_settled_def)
  let ?build = "buildStatefulSetModificationFunction (r_build r) m (getMongoDBImage (r_mongodbRepoUrl r) (r_mongodbImage r)
    (r_mongodbImageType r) (GetMongoDBVersion m)) (r_agentImage r) (r_versionUpgradeHookImage r) (r_readinessProbeImage r)"
  define sts where "sts = ?build old"
  define arb0 where "arb0 = ?build oldarb"
  define arb where "arb = buildArbitersModificationFunction m arb0"
  note built = statefulset_built[OF counts(1) spec sts_def] and arb0 = statefulset_built(1)[OF counts(1) spec arb0_def]
  note arb = arbiters_built[OF arb0 counts(3), folded arb_def]
  let ?w1 = "w\<lparr>mw_statefulSets := (mw_statefulSets w)(NamespacedName m \<mapsto> sts)\<rparr>"
  let ?sets = "(mw_statefulSets w)(NamespacedName m \<mapsto> sts, ArbiterNamespacedName m \<mapsto> arb)"
  have ne: "ArbiterNamespacedName m \<noteq> NamespacedName m" by (simp add: ArbiterNamespacedName_def NamespacedName_def)
  have "createOrUpdateStatefulSet r m False w = (Inr (), ?w1)"
    using old(1) statefulset_updated[of w sts old] built(1)
    by (simp add: createOrUpdateStatefulSet_def run eff_bind_def eff_wrap_def flip: sts_def)
  moreover have "createOrUpdateStatefulSet r m True ?w1 = (Inr (), w\<lparr>mw_statefulSets := ?sets\<rparr>)"
    using old(3) ne statefulset_updated[of ?w1 arb oldarb] arb(1)
    by (simp add: createOrUpdateStatefulSet_def run eff_bind_def eff_wrap_def flip: arb0_def arb_def)
  moreover have "GetStatefulSet (r_client r) (NamespacedName m) (w\<lparr>mw_statefulSets := ?sets\<rparr>) = (Inr sts, w\<lparr>mw_statefulSets := ?sets\<rparr>)"
    using ne by (simp add: run)
  ultimately have "deployStatefulSet r m w = (Inr True, w\<lparr>mw_statefulSets := ?sets\<rparr>)"
    using built(5) old(2) counts(2) by (simp add: deployStatefulSet_def eff_bind_def eff_wrap_def)
  then show thesis
    using built(2,5) old(2) arb(2) ne by (intro that) (auto simp: sets_settled_def)
qed

end

subsection \<open>The resource after a reconciliation\<close>

abbreviation touched :: "mdb_status \<Rightarrow> str_map \<Rightarrow> mdb \<Rightarrow> mdb" where
  "touched s a m \<equiv> m\<lparr>Status := s, mdb_Annotations := a\<rparr>"

lemma touched_names [simp]:
  "NamespacedName (touched s a m) = NamespacedName m" "ArbiterNamespacedName (touched s a m) = ArbiterNamespacedName m"
  "AutomationConfigSecretName (touched s a m) = AutomationConfigSecretName m" "ServiceName (touched s a m) = ServiceName m"
  "GetOwnerReferences (touched s a m) = GetOwnerReferences m" "GetAuthOptions (touched s a m) = GetAuthOptions m"
  "GetAuthUsers dns (touched s a m) = GetAuthUsers dns m"
  "GetAgentPasswordSecretNamespacedName (touched s a m) = GetAgentPasswordSecretNamespacedName m"
  "GetAgentKeyfileSecretNamespacedName (touched s a m) = GetAgentKeyfileSecretNamespacedName m"
  "AgentCertificateSecretNamespacedName (touched s a m) = AgentCertificateSecretNamespacedName m"
  by (simp_all add: NamespacedName_def ArbiterNamespacedName_def AutomationConfigSecretName_def ServiceName_def GetOwnerReferences_def
      GetAuthOptions_def GetAuthUsers_def GetAuthUser_def GetAgentPasswordSecretNamespacedName_def
      GetAgentKeyfileSecretNamespacedName_def AgentCertificateSecretNamespacedName_def Let_def)

lemma touched_scram: "scram_Enable env auth (touched s a m) = scram_Enable env auth m"
proof -
  have "scram_convertMongoDBResourceUsersToAutomationConfigUsers env (touched s a m) =
      scram_convertMongoDBResourceUsersToAutomationConfigUsers env m"
    unfolding scram_convertMongoDBResourceUsersToAutomationConfigUsers_def touched_names ..
  moreover have "scram_ensureAgent env auth (touched s a m) = scram_ensureAgent env auth m" for auth
    unfolding scram_ensureAgent_def touched_names ..
  ultimately show ?thesis by (simp add: scram_Enable_def Let_def)
qed

lemma touched_x509: "x509_Enable env auth (touched s a m) cert = x509_Enable env auth m cert"
proof -
  have "x509_ensureAgent env auth (touched s a m) cert = x509_ensureAgent env auth m cert" for auth
    unfolding x509_ensureAgent_def touched_names ..
  then show ?thesis by (simp add: x509_Enable_def x509_convertMongoDBResourceUsersToAutomationConfigUsers_def Let_def)
qed

lemma touched_auth: "authentication_Enable env auth (touched s a m) cert = authentication_Enable env auth m cert"
proof -
  have "enable_loop env (touched s a m) cert modes enabled auth = enable_loop env m cert modes enabled auth"
    for modes enabled auth
  proof (induction modes arbitrary: enabled auth)
    case (Cons mode modes)
    then have "enable_loop env (touched s a m) cert modes = enable_loop env m cert modes" by (simp add: fun_eq_iff)
    then show ?case by (simp add: touched_scram touched_x509)
  qed simp
  then show ?thesis by (simp add: authentication_Enable_def)
qed

text \<open>The numbers on which the config depends.\<close>

definition counts_of :: "mdb \<Rightarrow> int list" where
  "counts_of m = [AutomationConfigMembersThisReconciliation m, arbitersCount m, StatefulSetReplicasThisReconciliation m,
     StatefulSetArbitersThisReconciliation m]"

lemma touched_config:
  assumes "counts_of (touched s a m) = counts_of m"
  shows "config_settled r (touched s a m) ac d w = config_settled r m ac d w"
proof -
  have "buildAutomationConfig r (touched s a m) ent auth cur (plain_mods r (touched s a m) pm) =
      buildAutomationConfig r m ent auth cur (plain_mods r m pm)" for ent auth cur pm
  proof -
    have "plain_mods r (touched s a m) pm = plain_mods r m pm" by (simp add: getCustomRolesModification_def)
    moreover have "getMongodConfigModification mergo (touched s a m) = getMongodConfigModification mergo m" for mergo
      by (simp add: getMongodConfigModification_def fun_eq_iff)
    moreover have "GetMongodConfiguration order ox (touched s a m) = GetMongodConfiguration order ox m" for order ox
      by (simp add: GetMongodConfiguration_def)
    ultimately show ?thesis using assms by (simp add: buildAutomationConfig_def counts_of_def Let_def)
  qed
  moreover have "fresh_manager r (touched s a m) d pm = fresh_manager r m d pm" for pm
    using assms by (simp add: fresh_manager_def desired_pods_def counts_of_def)
  moreover have "guessed r (touched s a m) = guessed r m" "grows (touched s a m) w = grows m w"
    by (simp_all add: guessEnterprise_def grows_def fun_eq_iff Let_def cong: option.case_cong)
  ultimately show ?thesis by (simp add: config_settled_def touched_auth)
qed

lemma touched_sets: "sets_settled (touched s a m) w = sets_settled m w"
  by (simp add: sets_settled_def)

text \<open>The numbers of the spec are reached.\<close>

definition counted :: "mdb \<Rightarrow> bool" where
  "counted m = (AutomationConfigMembersThisReconciliation m = Members (Spec m) \<and> arbitersCount m = Arbiters (Spec m) \<and>
     AutomationConfigArbitersThisReconciliation m = Arbiters (Spec m) \<and> StatefulSetReplicasThisReconciliation m = Members (Spec m) \<and>
     StatefulSetArbitersThisReconciliation m = Arbiters (Spec m) \<and> ReplicasThisReconciliation (mdb_scaler m) = Members (Spec m) \<and>
     \<not> mdb_IsStillScaling m)"

definition status_settled :: "mdb \<Rightarrow> bool" where
  "status_settled m = (CurrentStatefulSetReplicas (Status m) = Members (Spec m) \<and> CurrentMongoDBMembers (Status m) = Members (Spec m) \<and>
     CurrentStatefulSetArbitersReplicas (Status m) = Arbiters (Spec m) \<and> CurrentMongoDBArbiters (Status m) = Arbiters (Spec m))"

lemma new_counted:
  assumes "plain_resource sv m" and "0 \<le> Members (Spec m)" and "0 \<le> Arbiters (Spec m)"
  shows "counted m"
  using assms by (auto simp: counted_def plain_resource_def reconciliation_counts arbitersCount_def mdb_IsStillScaling_def IsStillScaling_def
      ReplicasThisReconciliation_def scaler_defs IsScalingDown_def)

lemma status_settled_counted: "status_settled m \<Longrightarrow> counted m"
  by (auto simp: counted_def status_settled_def reconciliation_counts arbitersCount_def mdb_IsStillScaling_def IsStillScaling_def
      ReplicasThisReconciliation_def scaler_defs IsScalingDown_def)

lemma counted_counts_of: "counted m \<Longrightarrow> counts_of m = [Members (Spec m), Arbiters (Spec m), Members (Spec m), Arbiters (Spec m)]"
  by (simp add: counted_def counts_of_def)

lemma settled_order:
  assumes "status_settled m" and "plain_spec (Spec m)" and "getLastVersion m = Version (Spec m)"
  shows "run_order m res" and "\<not> IsChangingVersion m"
  using assms by (auto simp: run_order_def Let_def plain_spec_def status_settled_def IsScalingUp_def IsScalingDown_def scaler_defs
      IsChangingVersion_def)

lemma running_touched:
  obtains s where "fold ApplyOption (running_options r m) m = touched s (mdb_Annotations m) m" and "Phase s = Running"
    and "counted m \<Longrightarrow> status_settled (touched s a m)"
proof
  let ?m = "fold ApplyOption (running_options r m) m"
  show "?m = touched (Status ?m) (mdb_Annotations m) m" "Phase (Status ?m) = Running"
    "counted m \<Longrightarrow> status_settled (touched (Status ?m) a m)"
    by (simp_all add: running_options_def option_defs counted_def status_settled_def)
qed

lemma pending_touched:
  obtains s where "fold ApplyOption (pending_options msg) m = touched s (mdb_Annotations m) m" and "Phase s = Pending"
    and "status_settled m \<Longrightarrow> status_settled (touched s a m)"
proof
  let ?m = "fold ApplyOption (pending_options msg) m"
  show "?m = touched (Status ?m) (mdb_Annotations m) m" "Phase (Status ?m) = Pending"
    "status_settled m \<Longrightarrow> status_settled (touched (Status ?m) a m)"
    by (simp_all add: pending_options_def option_defs status_settled_def)
qed

lemma pending_result: "determineReconciliationResult (map GetResult (pending_options msg)) = result_Retry 10"
  by (simp add: pending_options_def option_defs determineReconciliationResult_def result_defs)

subsection \<open>The end of a reconciliation\<close>

text \<open>What the next reconciliation reads from the annotations.\<close>

definition recorded :: "mdb \<Rightarrow> string \<Rightarrow> bool" where
  "recorded m txt = (map_of (mdb_Annotations m) lastSuccessfulConfiguration = Some txt \<and> getLastVersion m = Version (Spec m))"

lemma recorded_validates:
  assumes "recorded m txt" and "r_spec_Unmarshal r txt = Inr (Spec m)" and "plain_spec (Spec m)"
    and "validation_validateSpec (env_dns (r_auth r)) m = None"
  shows "validateSpec r m = Inr (Some (Spec m))"
  using assms by (simp add: recorded_def validateSpec_def ValidateUpdate_def plain_spec_def)

lemma touched_validation: "validation_validateSpec dns (touched s a m) = validation_validateSpec dns m"
proof -
  have "validateUsers dns (touched s a m) = validateUsers dns m"
    by (simp add: validateUsers_def expected_auth_methods_def Let_def cong: sum.case_cong)
  moreover have "validateAuthModeSpec (touched s a m) = validateAuthModeSpec m"
    by (simp add: validateAuthModeSpec_def Let_def cong: sum.case_cong)
  moreover have "validateArbiterSpec (touched s a m) = validateArbiterSpec m" "validateStatefulSet (touched s a m) = validateStatefulSet m"
    "validateAgentCertSecret (touched s a m) = validateAgentCertSecret m"
    by (simp_all add: validateArbiterSpec_def validateStatefulSet_def validateAgentCertSecret_def cong: option.case_cong)
  ultimately show ?thesis by (simp add: validation_validateSpec_def)
qed

lemma no_cleanup: "plain_spec (Spec m) \<Longrightarrow> cleanup_resources r m (Spec m) w = w"
  by (simp add: cleanup_resources_def cleanupConnectionStringSecrets_def cleanupPemSecret_def cleanupScramSecrets_def
      getConnectionStringSecretsToDelete_def getScramSecretsToDelete_def names_to_delete_def plain_spec_def Let_def)

context mocked_operator
begin

lemma configuration_written:
  assumes "mw_mongodbs w (mdb_key m) = Some m" and "is_iteration (be_order (r_build r))" and "r_spec_Marshal r (Spec m) = Inr txt"
  obtains a where "updateLastSuccessfulConfiguration r m w =
      (Inr (), w\<lparr>mw_mongodbs := (mw_mongodbs w)(mdb_key m \<mapsto> m\<lparr>mdb_Annotations := a\<rparr>)\<rparr>)"
    and "recorded (m\<lparr>mdb_Annotations := a\<rparr>) txt"
proof -
  let ?kvs = "[(lastSuccessfulConfiguration, txt), (lastAppliedMongoDBVersion, Version (Spec m))]"
  let ?it = "iterate (be_order (r_build r)) ?kvs"
  have keys: "lastSuccessfulConfiguration \<noteq> lastAppliedMongoDBVersion" "LastAppliedMongoDBVersion = lastAppliedMongoDBVersion"
    "unescape_slash (escape_slash lastSuccessfulConfiguration) = lastSuccessfulConfiguration"
    "unescape_slash (escape_slash lastAppliedMongoDBVersion) = lastAppliedMongoDBVersion" by code_simp+
  have distinct: "distinct (map fst ?kvs)" using keys(1) by simp
  note it = iterate_props[OF assms(2) distinct]
  define a where "a = fold (\<lambda>(k, v). map_put k v) ?it (mdb_Annotations m)"
  have ok: "\<forall>(k, v)\<in>set ?it. unescape_slash (escape_slash k) = k" using it(1) keys(3,4) by simp
  have "apply_patches (annotation_patches (be_order (r_build r)) (mdb_Annotations m) ?kvs) (mdb_Annotations m) = Inr a"
    using apply_annotation_patches[OF ok] by (cases "mdb_Annotations m = []") (simp_all add: annotation_patches_def case_prod_unfold a_def)
  then have "updateLastSuccessfulConfiguration r m w =
      (Inr (), w\<lparr>mw_mongodbs := (mw_mongodbs w)(mdb_key m \<mapsto> m\<lparr>mdb_Annotations := a\<rparr>)\<rparr>)"
    using assms(1,3)
    by (simp add: updateLastSuccessfulConfiguration_def SetAnnotations_def annotations mock_Patch_def run eff_bind_def eff_lift_def Let_def)
  moreover have "map_of a k = (case map_of ?kvs k of Some v \<Rightarrow> Some v | None \<Rightarrow> map_of (mdb_Annotations m) k)" for k
    unfolding a_def using it(2,3) by (simp add: map_of_fold_put)
  then have "recorded (m\<lparr>mdb_Annotations := a\<rparr>) txt"
    using keys(1,2) by (simp add: recorded_def getLastVersion_def map_get_def)
  ultimately show thesis by (rule that)
qed

lemma finish_run:
  assumes "plain_spec (Spec m)" and "lastSpec \<in> {None, Some (Spec m)}" and "counted m"
    and "mw_mongodbs (rs_cluster rs) (mdb_key m) \<noteq> None"
    and "is_iteration (be_order (r_build r))" and "r_spec_Marshal r (Spec m) = Inr txt"
  obtains s a where "finish r m lastSpec rs = (result_OK, rs\<lparr>rs_cluster := (rs_cluster rs)\<lparr>mw_mongodbs :=
      (mw_mongodbs (rs_cluster rs))(mdb_key m \<mapsto> touched s a m)\<rparr>\<rparr>)"
    and "Phase s = Running" and "status_settled (touched s a m)" and "recorded (touched s a m) txt"
proof -
  obtain s where s: "fold ApplyOption (running_options r m) m = touched s (mdb_Annotations m) m" "Phase s = Running"
      "counted m \<Longrightarrow> status_settled (touched s [] m)"
    by (rule running_touched[of r m "[]"]) blast
  have finished: "status_settled (touched s b m)" for b using s(3)[OF assms(3)] by (simp add: status_settled_def)
  let ?m1 = "touched s (mdb_Annotations m) m"
  let ?w1 = "(rs_cluster rs)\<lparr>mw_mongodbs := (mw_mongodbs (rs_cluster rs))(mdb_key m \<mapsto> ?m1)\<rparr>"
  obtain a where a: "updateLastSuccessfulConfiguration r ?m1 ?w1 =
      (Inr (), ?w1\<lparr>mw_mongodbs := (mw_mongodbs ?w1)(mdb_key ?m1 \<mapsto> ?m1\<lparr>mdb_Annotations := a\<rparr>)\<rparr>)"
      "recorded (?m1\<lparr>mdb_Annotations := a\<rparr>) txt"
    using configuration_written[of ?w1 ?m1 "txt"] assms(5,6) by auto
  have upd: "update_status r m (running_options r m) rs = ((result_OK, ?m1), rs\<lparr>rs_cluster := ?w1\<rparr>)"
    using assms(4) running_result[of r m] s(1)
    by (auto simp: update_status_def on_cluster_def status_Update_options_def Let_def client mockedClient_def mock_Update_def)
  have "GetAuthUsers (env_dns (r_auth r)) ?m1 = []" using assms(1) by (simp add: GetAuthUsers_def plain_spec_def)
  moreover have "cleanup_resources r ?m1 (Spec m) w = w" for w using no_cleanup[of ?m1 r w] assms(1) by simp
  ultimately have "finish r m lastSpec rs = (result_OK, rs\<lparr>rs_cluster := (rs_cluster rs)\<lparr>mw_mongodbs :=
      (mw_mongodbs (rs_cluster rs))(mdb_key m \<mapsto> touched s a m)\<rparr>\<rparr>)"
    using upd a(1) assms(2) by (auto simp: finish_def result_defs updateConnectionStringSecrets_def on_cluster_def Let_def)
  moreover have "recorded (touched s a m) txt" using a(2) by simp
  ultimately show thesis using that s(2) finished by blast
qed

end

subsection \<open>One more reconciliation\<close>

definition resource_settled :: "(mock_world, 'v) reconciler \<Rightarrow> string \<Rightarrow> automation_config \<Rightarrow> automation_config \<Rightarrow> mdb \<Rightarrow> mock_world \<Rightarrow> bool" where
  "resource_settled r txt ac d m w = (mw_mongodbs w (mdb_key m) = Some m \<and> status_settled m \<and> recorded m txt \<and>
     validation_validateSpec (env_dns (r_auth r)) m = None \<and> config_settled r m ac d w \<and> sets_settled m w)"

text \<open>What the operator is configured with, and what is fixed about the spec.\<close>

definition steady_spec :: "(mock_world, 'v) reconciler \<Rightarrow> string \<Rightarrow> mdb_spec \<Rightarrow> bool" where
  "steady_spec r txt s = (plain_spec s \<and> AutomationConfigOverride s = None \<and> is_iteration (be_order (r_build r)) \<and>
     r_spec_Marshal r s = Inr txt \<and> r_spec_Unmarshal r txt = Inr s)"

lemma config_settled_secrets: "mw_secrets w' = mw_secrets w \<Longrightarrow> config_settled r m ac d w' = config_settled r m ac d w"
  by (simp add: config_settled_def grows_def)

lemma sets_settled_sets: "mw_statefulSets w' = mw_statefulSets w \<Longrightarrow> sets_settled m w' = sets_settled m w"
  by (simp add: sets_settled_def)

context mocked_operator
begin

lemma stored_config_read:
  assumes "config_settled r m ac d w"
  shows "ReadFromSecret (r_codec r) (r_client r) (ac_secret_name m) w = (Inr d, w)"
  using assms by (auto simp: config_settled_def stored_value_def ReadFromSecret_def run split: option.splits)

lemma service_ensured:
  assumes "ReadFromSecret (r_codec r) (r_client r) (ac_secret_name m) w = (Inr d, w)"
  obtains services where "ensureService r m w = (Inr (), w\<lparr>mw_services := services\<rparr>)"
proof -
  obtain pm where pm: "createProcessPortManager r m w = (Inr pm, w)"
    using port_manager_created[OF assms] .
  have "\<exists>err services. mock_CreateOrUpdate svc f w = (err, w\<lparr>mw_services := services\<rparr>)" for svc f
    by (auto simp: mock_CreateOrUpdate_def client_defs mockedClient_def mock_defs notFoundError_def split: option.splits)
      (metis mock_world.surjective mock_world.update_convs(3))+
  then show thesis using pm that by (simp add: ensureService_def service eff_bind_def) (metis case_prod_conv)
qed

lemma reconcile_until_deployed:
  assumes "steady_spec r txt (Spec m)" and "resource_settled r txt ac d m (rs_cluster rs)"
  obtains services where "Reconcile r (mdb_key m) rs = or_fail r m ''Error deploying MongoDB ReplicaSet: ''
      (fallible_step (deployMongoDBReplicaSet r m (Some (Spec m)))) (after_deploy r m (Some (Spec m)))
      (rs\<lparr>rs_cluster := (rs_cluster rs)\<lparr>mw_services := services\<rparr>\<rparr>)"
proof -
  have plain: "plain_spec (Spec m)" using assms(1) by (simp add: steady_spec_def)
  have ok: "validateSpec r m = Inr (Some (Spec m))"
    using recorded_validates[OF _ _ plain] assms by (auto simp: steady_spec_def resource_settled_def)
  obtain services where service1: "ensureService r m (rs_cluster rs) = (Inr (), (rs_cluster rs)\<lparr>mw_services := services\<rparr>)"
    using service_ensured stored_config_read assms(2) unfolding resource_settled_def by blast
  have "Reconcile r (mdb_key m) rs = reconcile_resource r m rs"
    using assms(2) by (simp add: Reconcile_def on_cluster_def run resource_settled_def)
  then show thesis
    using ok service1 plain
    by (intro that[of services]) (simp add: reconcile_resource_def or_fail_def on_cluster_def validateTLSConfig_def ensureTLSResources_def
        ensurePrometheusTLSResources_def ensureUserResources_def GetAuthUsers_def fallible_step_def plain_spec_def)
qed

lemma settled_deployment:
  assumes "steady_spec r txt (Spec m)" and "resource_settled r txt ac d m (rs_cluster rs)"
    and counts: "0 \<le> Members (Spec m)" "stss_Replicas (sc_Spec (StatefulSetConfiguration (Spec m))) \<in> {None, Some (word_of_int (Members (Spec m)))}"
  shows "\<exists>sets. deployMongoDBReplicaSet r m (Some (Spec m)) rs =
      ((agents_ready r mw_statefulSets m (rs_cluster rs) d, None), rs\<lparr>rs_cluster := (rs_cluster rs)\<lparr>mw_statefulSets := sets\<rparr>\<rparr>) \<and>
    sets_settled m ((rs_cluster rs)\<lparr>mw_statefulSets := sets\<rparr>)"
proof -
  have plain: "plain_spec (Spec m)" "AutomationConfigOverride (Spec m) = None" using assms(1) by (simp_all add: steady_spec_def)
  have st: "status_settled m" "config_settled r m ac d (rs_cluster rs)" "sets_settled m (rs_cluster rs)"
    "getLastVersion m = Version (Spec m)"
    using assms(2) by (simp_all add: resource_settled_def recorded_def)
  have counted: "counted m" using st(1) by (rule status_settled_counted)
  obtain sts where sts: "mw_statefulSets (rs_cluster rs) (NamespacedName m) = Some sts" using st(3) by (auto simp: sets_settled_def)
  have order: "shouldRunInOrder r m rs = (True, rs)"
    using settled_order(1)[OF st(1) plain(1) st(4)] sts by (simp add: shouldRunInOrder_def on_cluster_def run)
  have config: "deployAutomationConfig r m (Some (Spec m)) rs = (Inr (agents_ready r mw_statefulSets m (rs_cluster rs) d), rs)"
    using config_deployed_again[OF plain _ st(2) sts] counted counts(1) by (simp add: counted_def)
  show ?thesis
  proof (cases "agents_ready r mw_statefulSets m (rs_cluster rs) d")
    case True
    obtain sets where "deployStatefulSet r m (rs_cluster rs) = (Inr True, (rs_cluster rs)\<lparr>mw_statefulSets := sets\<rparr>)"
        "sets_settled m ((rs_cluster rs)\<lparr>mw_statefulSets := sets\<rparr>)"
      using statefulsets_deployed_again[OF _ _ _ counts(2) st(3)] counted unfolding counted_def by blast
    then show ?thesis
      using order config True
      by (intro exI[of _ sets]) (simp add: deployMongoDBReplicaSet_def RunSequentially_eq as_step_def on_cluster_def)
  next
    case False
    then show ?thesis
      using order config st(3)
      by (intro exI[of _ "mw_statefulSets (rs_cluster rs)"]) (simp add: deployMongoDBReplicaSet_def RunSequentially_eq as_step_def)
  qed
qed

lemma resource_settled_touched:
  assumes "resource_settled r txt ac d m w" and "status_settled (touched s a m)" and "recorded (touched s a m) txt"
    and "mw_secrets w' = mw_secrets w" and "sets_settled m w'" and "mw_mongodbs w' (mdb_key m) = Some (touched s a m)"
  shows "resource_settled r txt ac d (touched s a m) w'"
proof -
  have "counts_of (touched s a m) = counts_of m"
    using assms(1,2) counted_counts_of[OF status_settled_counted] by (simp add: resource_settled_def)
  then show ?thesis
    using assms config_settled_secrets[OF assms(4), of r m ac d]
    by (simp add: resource_settled_def touched_config touched_sets touched_validation)
qed

lemma settled_step:
  assumes "steady_spec r txt (Spec m)" and "resource_settled r txt ac d m (rs_cluster rs)"
    and counts: "0 \<le> Members (Spec m)" "stss_Replicas (sc_Spec (StatefulSetConfiguration (Spec m))) \<in> {None, Some (word_of_int (Members (Spec m)))}"
  obtains rs' s a where "Reconcile r (mdb_key m) rs =
      (if agents_ready r mw_statefulSets m (rs_cluster rs) d then result_OK else result_Retry 10, rs')"
    and "mw_secrets (rs_cluster rs') = mw_secrets (rs_cluster rs)" and "resource_settled r txt ac d (touched s a m) (rs_cluster rs')"
    and "Phase s = (if agents_ready r mw_statefulSets m (rs_cluster rs) d then Running else Pending)"
proof -
  obtain services where start: "Reconcile r (mdb_key m) rs = or_fail r m ''Error deploying MongoDB ReplicaSet: ''
      (fallible_step (deployMongoDBReplicaSet r m (Some (Spec m)))) (after_deploy r m (Some (Spec m)))
      (rs\<lparr>rs_cluster := (rs_cluster rs)\<lparr>mw_services := services\<rparr>\<rparr>)"
    using reconcile_until_deployed[OF assms(1,2)] .
  let ?rs1 = "rs\<lparr>rs_cluster := (rs_cluster rs)\<lparr>mw_services := services\<rparr>\<rparr>"
  let ?ready = "agents_ready r mw_statefulSets m (rs_cluster rs) d"
  have settled1: "resource_settled r txt ac d m (rs_cluster ?rs1)"
    using assms(2) config_settled_secrets[of "rs_cluster ?rs1" "rs_cluster rs" r m ac d] sets_settled_sets[of "rs_cluster ?rs1" "rs_cluster rs" m]
    by (simp add: resource_settled_def)
  have "read_pods r (rs_cluster ?rs1) = read_pods r (rs_cluster rs)" by (simp add: fun_eq_iff read_pods_def run)
  then have same: "agents_ready r mw_statefulSets m (rs_cluster ?rs1) d = ?ready" by (simp add: agents_ready_def cong: option.case_cong)
  obtain sets where deploy: "deployMongoDBReplicaSet r m (Some (Spec m)) ?rs1 =
      ((?ready, None), ?rs1\<lparr>rs_cluster := (rs_cluster ?rs1)\<lparr>mw_statefulSets := sets\<rparr>\<rparr>)"
      "sets_settled m ((rs_cluster ?rs1)\<lparr>mw_statefulSets := sets\<rparr>)"
    using settled_deployment[OF assms(1) settled1 counts] unfolding same by blast
  define rs2 where "rs2 = ?rs1\<lparr>rs_cluster := (rs_cluster ?rs1)\<lparr>mw_statefulSets := sets\<rparr>\<rparr>"
  have rs2: "mw_secrets (rs_cluster rs2) = mw_secrets (rs_cluster rs)" "sets_settled m (rs_cluster rs2)"
    "mw_mongodbs (rs_cluster rs2) (mdb_key m) = Some m"
    using deploy(2) assms(2) by (simp_all add: rs2_def resource_settled_def)
  have st: "status_settled m" "recorded m txt" "plain_spec (Spec m)" using assms(1,2) by (simp_all add: resource_settled_def steady_spec_def)
  have counted: "counted m" using st(1) by (rule status_settled_counted)
  have after: "Reconcile r (mdb_key m) rs = after_deploy r m (Some (Spec m)) ?ready rs2"
    using start deploy(1) by (simp add: or_fail_def fallible_step_def rs2_def)
  have written: "resource_settled r txt ac d (touched s a m) ((rs_cluster rs2)\<lparr>mw_mongodbs := (mw_mongodbs (rs_cluster rs2))(mdb_key m \<mapsto> touched s a m)\<rparr>)"
    if "status_settled (touched s a m)" "recorded (touched s a m) txt" for s a
    using resource_settled_touched[OF assms(2) that] rs2 by (simp add: sets_settled_def)
  show thesis
  proof (cases ?ready)
    case True
    have "\<not> IsChangingVersion m" using settled_order(2)[OF st(1,3)] st(2) by (simp add: recorded_def)
    then have "Reconcile r (mdb_key m) rs = finish r m (Some (Spec m)) rs2"
      using after True counted by (simp add: after_deploy_def or_fail_def ResetUpdateStrategy_def on_cluster_def counted_def)
    moreover obtain s a where "finish r m (Some (Spec m)) rs2 = (result_OK, rs2\<lparr>rs_cluster := (rs_cluster rs2)\<lparr>mw_mongodbs :=
        (mw_mongodbs (rs_cluster rs2))(mdb_key m \<mapsto> touched s a m)\<rparr>\<rparr>)"
        "Phase s = Running" "status_settled (touched s a m)" "recorded (touched s a m) txt"
      by (rule finish_run[OF st(3) _ counted, of "Some (Spec m)" rs2 "txt"]) (use assms(1) rs2(3) in \<open>auto simp: steady_spec_def\<close>)
    ultimately show thesis
      using written[where s = s and a = a] rs2(1) True
      by (intro that[where rs' = "rs2\<lparr>rs_cluster := (rs_cluster rs2)\<lparr>mw_mongodbs := (mw_mongodbs (rs_cluster rs2))(mdb_key m \<mapsto> touched s a m)\<rparr>\<rparr>" and s = s and a = a])
        simp_all
  next
    case False
    let ?msg = "''ReplicaSet is not yet ready, retrying in 10 seconds''"
    obtain s where s: "fold ApplyOption (pending_options ?msg) m = touched s (mdb_Annotations m) m" "Phase s = Pending"
        "status_settled m \<Longrightarrow> status_settled (touched s (mdb_Annotations m) m)"
      by (rule pending_touched[of ?msg m "mdb_Annotations m"]) blast
    have "Reconcile r (mdb_key m) rs = (result_Retry 10, rs2\<lparr>rs_cluster := (rs_cluster rs2)\<lparr>mw_mongodbs :=
        (mw_mongodbs (rs_cluster rs2))(mdb_key m \<mapsto> touched s (mdb_Annotations m) m)\<rparr>\<rparr>)"
      using after False rs2(3) s(1) pending_result[of ?msg]
      by (simp add: after_deploy_def report_def update_status_def on_cluster_def status_Update_options_def Let_def client mockedClient_def
          mock_Update_def)
    moreover have "recorded (touched s (mdb_Annotations m) m) txt" using st(2) by (simp add: recorded_def getLastVersion_def)
    ultimately show thesis
      using written[where s = s and a = "mdb_Annotations m"] s(2,3) st(1) rs2(1) False
      by (intro that[where rs' = "rs2\<lparr>rs_cluster := (rs_cluster rs2)\<lparr>mw_mongodbs := (mw_mongodbs (rs_cluster rs2))(mdb_key m \<mapsto>
          touched s (mdb_Annotations m) m)\<rparr>\<rparr>" and s = s and a = "mdb_Annotations m"]) simp_all
  qed
qed

end

subsection \<open>Every later reconciliation\<close>

text \<open>Anything may happen in the cluster apart from the resource, its two StatefulSets and the secrets that are
  there: pods come, go and report versions, services and other resources change, secrets are added.\<close>

definition elsewhere :: "mdb \<Rightarrow> mock_world \<Rightarrow> mock_world \<Rightarrow> bool" where
  "elsewhere m w w' = (mw_mongodbs w' (mdb_key m) = mw_mongodbs w (mdb_key m) \<and>
     mw_statefulSets w' (NamespacedName m) = mw_statefulSets w (NamespacedName m) \<and>
     mw_statefulSets w' (ArbiterNamespacedName m) = mw_statefulSets w (ArbiterNamespacedName m) \<and>
     mw_secrets w' (ac_secret_name m) = mw_secrets w (ac_secret_name m) \<and> grows m w w')"

inductive later :: "(mock_world, 'v) reconciler \<Rightarrow> mdb \<Rightarrow> mock_world rstate \<Rightarrow> mock_world rstate \<Rightarrow> bool" for r m rs where
  now: "later r m rs rs"
| change: "later r m rs rs1 \<Longrightarrow> elsewhere m (rs_cluster rs1) w \<Longrightarrow> later r m rs (rs1\<lparr>rs_cluster := w\<rparr>)"
| again: "later r m rs rs1 \<Longrightarrow> Reconcile r (mdb_key m) rs1 = (res, rs2) \<Longrightarrow> later r m rs rs2"

lemma elsewhere_settled:
  assumes "resource_settled r txt ac d m w" and "elsewhere m w w'"
  shows "resource_settled r txt ac d m w'"
proof -
  have "grows m w w'" "mw_secrets w' (ac_secret_name m) = mw_secrets w (ac_secret_name m)" using assms(2) by (simp_all add: elsewhere_def)
  then have "config_settled r m ac d w'"
    using assms(1) grows_trans[of m w w'] unfolding resource_settled_def config_settled_def stored_value_def by metis
  then show ?thesis using assms by (simp add: resource_settled_def elsewhere_def sets_settled_def)
qed

lemma elsewhere_touched: "elsewhere (touched s a m) = elsewhere m"
  by (simp add: fun_eq_iff elsewhere_def grows_def)

context mocked_operator
begin

lemma first_run_settles:
  assumes plain: "plain_resource (r_semver r) m" and spec: "steady_spec r txt (Spec m)"
    and laws: "objx_laws (r_objx r)" "known_version (r_semver r) m"
    and valid: "validateSpec r m = Inr None" and new: "undeployed m (rs_cluster rs)"
    and ac: "ac = first_config r m (snd (ensureService r m (rs_cluster rs)))"
    and codec: "FromBytes (r_codec r) (ac_bytes (r_codec r) ac) = Inr d" "reads_as ac d" "same_ports (r_objx r) ac d"
  obtains rs' s a where "Reconcile r (mdb_key m) rs = (result_OK, rs')" and "resource_settled r txt ac d (touched s a m) (rs_cluster rs')"
proof -
  note counts = accepted_counts[OF valid plain]
  note st = plain[unfolded plain_resource_def] spec[unfolded steady_spec_def]
  have checked: "ValidateInitialSpec (env_dns (r_auth r)) m = None"
    using valid st(1) by (auto simp: validateSpec_def split: option.splits)
  then have members: "0 < Members (Spec m)"
    using counts(2) by (auto simp: ValidateInitialSpec_def validation_validateSpec_def validateArbiterSpec_def split: option.splits if_splits)
  obtain w1 where service1: "ensureService r m (rs_cluster rs) = (Inr (), w1)" "undeployed m w1"
    using ensureService_succeeds new by (rule succeedsE) simp
  let ?rs1 = "rs\<lparr>rs_cluster := w1\<rparr>"
  obtain rs2 where config: "deployAutomationConfig r m None ?rs1 = (Inr True, rs2)" "configured (r_codec r) m (rs_cluster rs2)"
      "config_settled r m ac d (rs_cluster rs2)"
    by (rule first_config_deployed[OF plain _ members counts(2) laws(1) _ laws(2), of ?rs1 ac d]) (use st codec service1 ac in auto)
  obtain w3 where sets: "deployStatefulSet r m (rs_cluster rs2) = (Inr True, w3)" "deployed (r_codec r) m w3"
      "mw_mongodbs w3 = mw_mongodbs (rs_cluster rs2)" "mw_secrets w3 = mw_secrets (rs_cluster rs2)"
    using statefulsets_deployed[OF plain counts config(2)] by blast
  let ?rs3 = "rs2\<lparr>rs_cluster := w3\<rparr>"
  have "shouldRunInOrder r m ?rs1 = (True, ?rs1)"
    using service1(2) plain_order(1)[OF plain counts(1)] by (simp add: shouldRunInOrder_def on_cluster_def run undeployed_def)
  then have deploy: "deployMongoDBReplicaSet r m None ?rs1 = ((True, None), ?rs3)"
    using config(1) sets(1) by (simp add: deployMongoDBReplicaSet_def RunSequentially_eq as_step_def on_cluster_def)
  have counted: "counted m" using new_counted[OF plain counts(1,2)] .
  have there: "mw_mongodbs w3 (mdb_key m) = Some m" using config(2) sets(3) by (simp add: configured_def)
  obtain s a where finish: "finish r m None ?rs3 = (result_OK, ?rs3\<lparr>rs_cluster := w3\<lparr>mw_mongodbs := (mw_mongodbs w3)(mdb_key m \<mapsto> touched s a m)\<rparr>\<rparr>)"
      "status_settled (touched s a m)" "recorded (touched s a m) txt"
    by (rule finish_run[OF plain_resource_spec[OF plain] _ counted, of None ?rs3 "txt"]) (use st there in auto)
  have "Reconcile r (mdb_key m) rs = reconcile_resource r m rs"
    using new by (simp add: Reconcile_def on_cluster_def run undeployed_def)
  also have "\<dots> = after_deploy r m None True ?rs3"
    using valid service1(1) deploy st(1)
    by (simp add: reconcile_resource_def or_fail_def on_cluster_def validateTLSConfig_def ensureTLSResources_def
        ensurePrometheusTLSResources_def ensureUserResources_def GetAuthUsers_def fallible_step_def)
  also have "\<dots> = finish r m None ?rs3"
    using plain_counts(6)[OF plain counts(1,2)] plain_order(2)[OF plain counts(1)]
    by (simp add: after_deploy_def or_fail_def ResetUpdateStrategy_def on_cluster_def)
  finally have reconcile: "Reconcile r (mdb_key m) rs = finish r m None ?rs3" .
  let ?w4 = "w3\<lparr>mw_mongodbs := (mw_mongodbs w3)(mdb_key m \<mapsto> touched s a m)\<rparr>"
  have "counts_of (touched s a m) = counts_of m"
    using counted_counts_of[OF counted] counted_counts_of[OF status_settled_counted[OF finish(2)]] by simp
  moreover have "config_settled r m ac d ?w4" using config(3) sets(4) config_settled_secrets[of ?w4 "rs_cluster rs2" r m ac d] by simp
  moreover have "sets_settled m ?w4" using sets(2) by (auto simp: deployed_def sets_settled_def)
  ultimately have "resource_settled r txt ac d (touched s a m) ?w4"
    using finish(2,3) checked
    by (simp add: resource_settled_def touched_config touched_sets touched_validation ValidateInitialSpec_def)
  then show thesis using that reconcile finish(1) by simp
qed

lemma stays_settled:
  assumes "later r m rs rs'" and "steady_spec r txt (Spec m)"
    and counts: "0 \<le> Members (Spec m)" "stss_Replicas (sc_Spec (StatefulSetConfiguration (Spec m))) \<in> {None, Some (word_of_int (Members (Spec m)))}"
    and "resource_settled r txt ac d (touched s a m) (rs_cluster rs)"
  obtains s' a' where "resource_settled r txt ac d (touched s' a' m) (rs_cluster rs')"
proof -
  have "\<exists>s' a'. resource_settled r txt ac d (touched s' a' m) (rs_cluster rs')"
    using assms
  proof (induction rs')
    case (change rs1 w)
    then obtain s1 a1 where settled: "resource_settled r txt ac d (touched s1 a1 m) (rs_cluster rs1)" by blast
    have "elsewhere (touched s1 a1 m) (rs_cluster rs1) w" using change.hyps(2) unfolding elsewhere_touched .
    then show ?case using elsewhere_settled[OF settled] by auto
  next
    case (again rs1 res rs2)
    then obtain s1 a1 where settled: "resource_settled r txt ac d (touched s1 a1 m) (rs_cluster rs1)" by blast
    obtain s2 a2 where "resource_settled r txt ac d (touched s2 a2 (touched s1 a1 m)) (rs_cluster rs2)"
      by (rule settled_step[OF _ settled]) (use again.hyps(2) assms(2) counts in auto)
    then show ?case by auto
  qed auto
  then show thesis using that by blast
qed

end

subsection \<open>Properties\<close>

lemma reads_as_read_back: "reads_as ac (read_back ac)"
  by (simp add: reads_as_def comp_def)

lemma same_ports_read_back: "objx_reading ox \<Longrightarrow> same_ports ox ac (read_back ac)"
  by (simp add: same_ports_def comp_def objx_reading.GetPort_read_back)

lemma agents_ready_version: "ac_Version a = ac_Version b \<Longrightarrow> agents_ready r sts m w a = agents_ready r sts m w b"
  by (simp add: agents_ready_def cong: option.case_cong)


text \<open>The mocked operator of the other theories, with a codec that reads the config back.\<close>

lemma demo_credentials:
  "\<exists>a. \<forall>w. mw_secrets w = (\<lambda>_. None) \<longrightarrow> fst (enabled_auth mock_reconciler (demo_mdb 3 0) w) = Inr a"
proof -
  let ?m = "demo_mdb 3 0" and ?env = "r_auth mock_reconciler"
  let ?pwd = "take 20 (base64url_EncodeToString '''')" and ?key = "base64_EncodeToString ''''"
  have opts: "AuthMechanisms (GetAuthOptions ?m) = [Sha256]" "AutoAuthMechanism (GetAuthOptions ?m) = Sha256" by code_simp+
  have users: "GetAuthUsers dns ?m = []" for dns by (simp add: GetAuthUsers_def demo_mdb_def zero_spec_def)
  have names: "GetAgentPasswordSecretNamespacedName ?m \<noteq> GetAgentKeyfileSecretNamespacedName ?m" by code_simp
  have random: "RandomFixedLengthStringOfSize (env_rand ?env) 20 w = (Inr ?pwd, w)" "KeyFileContents (env_rand ?env) w = (Inr ?key, w)" for w
    by (simp_all add: mock_reconciler_def RandomFixedLengthStringOfSize_def KeyFileContents_def generateRandomString_def
        generateRandomBytes_def eff_bind_def)
  have ensure: "\<exists>s. EnsureSecretWithKey (r_client mock_reconciler) k refs key v w = (Inr v, w\<lparr>mw_secrets := (mw_secrets w)(k \<mapsto> s)\<rparr>)"
    if "mw_secrets w k = None" for k refs key v w
    using that by (cases k) (auto simp: EnsureSecretWithKey_def mock_run.run SecretNotExist_def notFoundError_def secret_builder_defs Let_def)
  obtain a where a: "scram_enableAgentAuthentication ?env zero_Auth ?pwd ?key (GetAuthOptions ?m) = Inr a"
    using mock_run.agent_options[of ?env ?m] by (simp add: scram_enableAgentAuthentication_def)
  obtain b where b: "scram_enableClientAuthentication ?env a (GetAuthOptions ?m) [] = Inr b"
    using mock_run.client_options[of ?env ?m] by (simp add: scram_enableClientAuthentication_def Let_def)
  have "fst (enabled_auth mock_reconciler ?m w) = Inr b" if w: "mw_secrets w = (\<lambda>_. None)" for w
  proof -
    obtain s where s: "EnsureSecretWithKey (r_client mock_reconciler) (GetAgentPasswordSecretNamespacedName ?m) (GetOwnerReferences ?m)
        AgentPasswordKey ?pwd w = (Inr ?pwd, w\<lparr>mw_secrets := (mw_secrets w)(GetAgentPasswordSecretNamespacedName ?m \<mapsto> s)\<rparr>)"
      using ensure[where w = w and k = "GetAgentPasswordSecretNamespacedName ?m" and refs = "GetOwnerReferences ?m" and
          key = AgentPasswordKey and v = ?pwd] w by auto
    let ?w1 = "w\<lparr>mw_secrets := (mw_secrets w)(GetAgentPasswordSecretNamespacedName ?m \<mapsto> s)\<rparr>"
    obtain w2 where "EnsureSecretWithKey (r_client mock_reconciler) (GetAgentKeyfileSecretNamespacedName ?m) (GetOwnerReferences ?m)
        AgentKeyfileKey ?key ?w1 = (Inr ?key, w2)"
      using ensure[where w = ?w1 and k = "GetAgentKeyfileSecretNamespacedName ?m" and refs = "GetOwnerReferences ?m" and
          key = AgentKeyfileKey and v = ?key] w names by auto
    then have "scram_ensureAgent ?env zero_Auth ?m w = (Inr a, w2)"
      using random s a by (simp add: scram_ensureAgent_def)
    then have "scram_Enable ?env zero_Auth ?m w = (Inr b, w2)"
      using b by (simp add: scram_Enable_def Let_def opts users scram_convertMongoDBResourceUsersToAutomationConfigUsers_def eff_bind_def)
    then show ?thesis by (simp add: authentication_Enable_def opts)
  qed
  then show ?thesis by blast
qed

definition demo_first_config :: automation_config where
  "demo_first_config = first_config mock_reconciler (demo_mdb 3 0) with_new_resource"

definition steady_reconciler :: "(mock_world, nat \<times> nat \<times> nat) reconciler" where
  "steady_reconciler = mock_reconciler\<lparr>r_codec := \<lparr>json_text = (\<lambda>_. ''config''), json_tree = (\<lambda>_. Inr (marshal_AutomationConfig demo_first_config))\<rparr>,
     r_spec_Unmarshal := (\<lambda>_. Inr (Spec (demo_mdb 3 0)))\<rparr>"

interpretation steady_run: mocked_operator steady_reconciler
  by unfold_locales (simp_all add: steady_reconciler_def mock_reconciler_def mock_env_def)

lemma codec_free: "first_config steady_reconciler m w = first_config mock_reconciler m w"
proof -
  have "buildAutomationConfig steady_reconciler m ent auth cur mods = buildAutomationConfig mock_reconciler m ent auth cur mods"
    for ent auth cur mods
    by (simp add: buildAutomationConfig_def steady_reconciler_def)
  moreover have "first_manager steady_reconciler m = first_manager mock_reconciler m"
    by (simp add: first_manager_def steady_reconciler_def)
  ultimately show ?thesis by (simp add: first_config_def) (simp add: steady_reconciler_def)
qed

lemma steady_first_config:
  "first_config steady_reconciler (demo_mdb 3 0) (snd (ensureService steady_reconciler (demo_mdb 3 0) with_new_resource)) = demo_first_config"
proof -
  let ?m = "demo_mdb 3 0"
  obtain services where "ensureService steady_reconciler ?m with_new_resource = (Inr (), with_new_resource\<lparr>mw_services := services\<rparr>)"
    using steady_run.service_ensured[OF steady_run.ReadFromSecret_none[OF new_resource(3)]] .
  moreover have "mw_secrets with_new_resource = (\<lambda>_. None)" by (simp add: with_new_resource_def NewMockedClient_def)
  moreover obtain a where "\<And>w. mw_secrets w = (\<lambda>_. None) \<Longrightarrow> fst (enabled_auth mock_reconciler ?m w) = Inr a"
    using demo_credentials by blast
  ultimately show ?thesis by (simp add: codec_free demo_first_config_def) (simp add: first_config_def)
qed

lemma steady_hypotheses:
  "objx_reading (r_objx steady_reconciler)" "plain_resource (r_semver steady_reconciler) (demo_mdb 3 0)"
  "steady_spec steady_reconciler ''spec'' (Spec (demo_mdb 3 0))" "known_version (r_semver steady_reconciler) (demo_mdb 3 0)"
  "validateSpec steady_reconciler (demo_mdb 3 0) = Inr None"
proof -
  have same: "r_objx steady_reconciler = nested_objx" "r_semver steady_reconciler = plain_semver" "r_auth steady_reconciler = r_auth mock_reconciler"
    "r_semver mock_reconciler = plain_semver"
    by (simp_all add: steady_reconciler_def mock_reconciler_def mock_build_def)
  show "objx_reading (r_objx steady_reconciler)" unfolding same by (rule nested_reading.objx_reading_axioms)
  show "plain_resource (r_semver steady_reconciler) (demo_mdb 3 0)" using new_resource(1) unfolding same .
  show "steady_spec steady_reconciler ''spec'' (Spec (demo_mdb 3 0))"
    using plain_resource_spec[OF new_resource(1)]
    by (simp add: steady_spec_def steady_reconciler_def mock_reconciler_def mock_build_def is_iteration_def demo_mdb_def zero_spec_def)
  show "known_version (r_semver steady_reconciler) (demo_mdb 3 0)" unfolding same by code_simp
  have "validateSpec mock_reconciler (demo_mdb 3 0) = Inr None" by (rule new_resource(2))
  then show "validateSpec steady_reconciler (demo_mdb 3 0) = Inr None" by (simp add: validateSpec_def demo_mdb_def same)
qed


end
