(* ===== verification/Sts_Builder.thy ===== *)
theory Sts_Builder
  imports Sts_Modifications
begin

text \<open>
  The StatefulSet builder (\<open>pkg/kube/statefulset/statefulset_builder.go\<close>) and the modifications
  for scheduling and probe handlers that nothing in the operator calls (\<open>podtemplatespec\<close>,
  \<open>probes\<close>).  They are part of the packages' interface.

  \<open>order\<close> is the order in which Go visits a map.  \<open>fmt_mount\<close> is the text of a mount for the verb
  \<open>%v\<close>.  The errors a \<open>multierror\<close> collects are a list; an empty one is \<open>nil\<close>.
\<close>

subsection \<open>The builder\<close>

record sts_builder =
  bs_name :: string
  bs_namespace :: string
  bs_replicas :: int
  bs_serviceName :: string
  bs_labels :: str_map
  bs_matchLabels :: str_map
  bs_ownerReference :: "owner_ref list"
  bs_podTemplateSpec :: pod_template
  bs_readinessProbePerContainer :: "(string \<times> probe option) list"
  bs_volumeClaimsTemplates :: "pvc list"
  bs_volumeMountsPerContainer :: "(string \<times> volume_mount list) list"
  bs_updateStrategyType :: string

definition sts_NewBuilder :: sts_builder where
  "sts_NewBuilder = \<lparr>bs_name = '''', bs_namespace = '''', bs_replicas = 1, bs_serviceName = '''', bs_labels = [],
     bs_matchLabels = [], bs_ownerReference = [], bs_podTemplateSpec = zero_pod_template,
     bs_readinessProbePerContainer = [], bs_volumeClaimsTemplates = [], bs_volumeMountsPerContainer = [],
     bs_updateStrategyType = ''''\<rparr>"

definition sts_SetLabels :: "str_map \<Rightarrow> sts_builder \<Rightarrow> sts_builder" where
  "sts_SetLabels labels s = s\<lparr>bs_labels := labels\<rparr>"

definition sts_SetName :: "string \<Rightarrow> sts_builder \<Rightarrow> sts_builder" where
  "sts_SetName name s = s\<lparr>bs_name := name\<rparr>"

definition sts_SetNamespace :: "string \<Rightarrow> sts_builder \<Rightarrow> sts_builder" where
  "sts_SetNamespace namespace s = s\<lparr>bs_namespace := namespace\<rparr>"

definition sts_SetOwnerReference :: "owner_ref list \<Rightarrow> sts_builder \<Rightarrow> sts_builder" where
  "sts_SetOwnerReference ownerReference s = s\<lparr>bs_ownerReference := ownerReference\<rparr>"

definition sts_SetServiceName :: "string \<Rightarrow> sts_builder \<Rightarrow> sts_builder" where
  "sts_SetServiceName serviceName s = s\<lparr>bs_serviceName := serviceName\<rparr>"

definition sts_SetReplicas :: "int \<Rightarrow> sts_builder \<Rightarrow> sts_builder" where
  "sts_SetReplicas replicas s = s\<lparr>bs_replicas := replicas\<rparr>"

definition sts_SetMatchLabels :: "str_map \<Rightarrow> sts_builder \<Rightarrow> sts_builder" where
  "sts_SetMatchLabels matchLabels s = s\<lparr>bs_matchLabels := matchLabels\<rparr>"

definition sts_SetReadinessProbe :: "probe option \<Rightarrow> string \<Rightarrow> sts_builder \<Rightarrow> sts_builder" where
  "sts_SetReadinessProbe probe containerName s =
    s\<lparr>bs_readinessProbePerContainer := map_put containerName probe (bs_readinessProbePerContainer s)\<rparr>"

definition sts_SetPodTemplateSpec :: "pod_template \<Rightarrow> sts_builder \<Rightarrow> sts_builder" where
  "sts_SetPodTemplateSpec podTemplateSpec s = s\<lparr>bs_podTemplateSpec := podTemplateSpec\<rparr>"

definition sts_SetUpdateStrategy :: "string \<Rightarrow> sts_builder \<Rightarrow> sts_builder" where
  "sts_SetUpdateStrategy updateStrategyType s = s\<lparr>bs_updateStrategyType := updateStrategyType\<rparr>"

definition sts_AddVolumeClaimTemplates :: "pvc list \<Rightarrow> sts_builder \<Rightarrow> sts_builder" where
  "sts_AddVolumeClaimTemplates claims s = s\<lparr>bs_volumeClaimsTemplates := bs_volumeClaimsTemplates s @ claims\<rparr>"

definition sts_AddVolumeMount :: "string \<Rightarrow> volume_mount \<Rightarrow> sts_builder \<Rightarrow> sts_builder" where
  "sts_AddVolumeMount containerName mount s =
    s\<lparr>bs_volumeMountsPerContainer := map_put containerName
        (map_get containerName [] (bs_volumeMountsPerContainer s) @ [mount]) (bs_volumeMountsPerContainer s)\<rparr>"

definition sts_AddVolumeMounts :: "string \<Rightarrow> volume_mount list \<Rightarrow> sts_builder \<Rightarrow> sts_builder" where
  "sts_AddVolumeMounts containerName mounts s = fold (sts_AddVolumeMount containerName) mounts s"

definition sts_AddVolume :: "volume \<Rightarrow> sts_builder \<Rightarrow> sts_builder" where
  "sts_AddVolume volume s = s\<lparr>bs_podTemplateSpec :=
     on_pod_spec (\<lambda>p. p\<lparr>ps_Volumes := ps_Volumes p @ [volume]\<rparr>) (bs_podTemplateSpec s)\<rparr>"

definition sts_AddVolumes :: "volume list \<Rightarrow> sts_builder \<Rightarrow> sts_builder" where
  "sts_AddVolumes volumes s = fold sts_AddVolume volumes s"

record volume_mount_data =
  vmd_Name :: string
  vmd_MountPath :: string
  vmd_Volume :: volume
  vmd_ReadOnly :: bool

definition sts_AddVolumeAndMount :: "volume_mount_data \<Rightarrow> string list \<Rightarrow> sts_builder \<Rightarrow> sts_builder" where
  "sts_AddVolumeAndMount volumeMountData containerNames s =
    fold (\<lambda>containerName. sts_AddVolumeMount containerName
        \<lparr>vm_Name = vmd_Name volumeMountData, vm_ReadOnly = vmd_ReadOnly volumeMountData,
         vm_MountPath = vmd_MountPath volumeMountData, vm_SubPath = '''', vm_MountPropagation = None, vm_SubPathExpr = ''''\<rparr>)
      containerNames (sts_AddVolume (vmd_Volume volumeMountData) s)"

subsection \<open>Building\<close>

abbreviation bs_containers :: "sts_builder \<Rightarrow> container list" where
  "bs_containers s \<equiv> ps_Containers (pt_Spec (bs_podTemplateSpec s))"

fun container_index :: "string \<Rightarrow> container list \<Rightarrow> nat \<Rightarrow> nat option" where
  "container_index name [] i = None"
| "container_index name (c # cs) i = (if c_Name c = name then Some i else container_index name cs (i + 1))"

definition GetContainerIndexByName :: "sts_builder \<Rightarrow> string \<Rightarrow> nat fallible" where
  "GetContainerIndexByName s containerName =
    (case container_index containerName (bs_containers s) 0 of
       Some i \<Rightarrow> Inr i
     | None \<Rightarrow> Inl (errorf (''no container with name ['' @ containerName @ ''] found'')))"

text \<open>The inner loop for one container.  The map of the paths seen so far holds \<open>true\<close>, and that is
  what the error prints as the previous mount.\<close>

fun mount_all ::
    "(volume_mount \<Rightarrow> string) \<Rightarrow> volume_mount list \<Rightarrow> string list \<Rightarrow> container \<Rightarrow> go_error list \<Rightarrow> container \<times> go_error list" where
  "mount_all fmt_mount [] existing c errs = (c, errs)"
| "mount_all fmt_mount (v # vs) existing c errs =
    (if vm_MountPath v \<in> set existing
     then mount_all fmt_mount vs existing c (errs @ [errorf (''Volume '' @ fmt_mount v @ '' already mounted as true'')])
     else mount_all fmt_mount vs (vm_MountPath v # existing) (c\<lparr>c_VolumeMounts := c_VolumeMounts c @ [v]\<rparr>) errs)"

definition add_mounts ::
    "(volume_mount \<Rightarrow> string) \<Rightarrow> sts_builder \<Rightarrow> string \<times> volume_mount list \<Rightarrow> container list \<times> go_error list
      \<Rightarrow> container list \<times> go_error list" where
  "add_mounts fmt_mount s = (\<lambda>(containerName, volumeMounts) (cs, errs).
    (case GetContainerIndexByName s containerName of
       Inl err \<Rightarrow> (cs, errs @ [err])
     | Inr idx \<Rightarrow> (case mount_all fmt_mount volumeMounts [] (cs ! idx) errs of (c, errs') \<Rightarrow> (cs[idx := c], errs'))))"

definition set_probe ::
    "sts_builder \<Rightarrow> string \<times> probe option \<Rightarrow> container list \<times> go_error list \<Rightarrow> container list \<times> go_error list" where
  "set_probe s = (\<lambda>(containerName, overrideReadinessProbe) (cs, errs).
    (case GetContainerIndexByName s containerName of
       Inl err \<Rightarrow> (cs, errs @ [err])
     | Inr idx \<Rightarrow> (cs[idx := (cs ! idx)\<lparr>c_ReadinessProbe := overrideReadinessProbe\<rparr>], errs)))"

definition sort_env :: "container \<Rightarrow> container" where
  "sort_env c = c\<lparr>c_Env := sort_key env_Name (c_Env c)\<rparr>"

definition buildPodTemplateSpec ::
    "iteration \<Rightarrow> (volume_mount \<Rightarrow> string) \<Rightarrow> sts_builder \<Rightarrow> pod_template \<times> go_error list" where
  "buildPodTemplateSpec order fmt_mount s =
    (let mounted = fold (add_mounts fmt_mount s) (iterate order (bs_volumeMountsPerContainer s)) (bs_containers s, []);
         (cs, errs) = fold (set_probe s) (iterate order (bs_readinessProbePerContainer s)) mounted
     in (on_pod_spec (\<lambda>p. p\<lparr>ps_Containers := map sort_env cs\<rparr>) (bs_podTemplateSpec s), errs))"

definition copyMap :: "str_map \<Rightarrow> str_map" where
  "copyMap originalMap = fold (\<lambda>(k, v). map_put k v) originalMap []"

definition sts_Build ::
    "iteration \<Rightarrow> (volume_mount \<Rightarrow> string) \<Rightarrow> sts_builder \<Rightarrow> go_error list + statefulset" where
  "sts_Build order fmt_mount s =
    (case buildPodTemplateSpec order fmt_mount s of (podTemplateSpec, errs) \<Rightarrow>
     if errs \<noteq> [] then Inl errs
     else Inr (zero_statefulset\<lparr>
       sts_Name := bs_name s,
       sts_Namespace := bs_namespace s,
       sts_Labels := copyMap (bs_labels s),
       sts_OwnerReferences := bs_ownerReference s,
       sts_Spec := zero_statefulset_spec\<lparr>
         stss_UpdateStrategyType := bs_updateStrategyType s,
         stss_ServiceName := bs_serviceName s,
         stss_Replicas := Some (word_of_int (bs_replicas s)),
         stss_Selector := Some \<lparr>ls_MatchLabels = copyMap (bs_matchLabels s), ls_MatchExpressions = []\<rparr>,
         stss_Template := podTemplateSpec,
         stss_VolumeClaimTemplates := bs_volumeClaimsTemplates s\<rparr>\<rparr>))"

subsection \<open>Scheduling and probe handlers\<close>

text \<open>Affinity terms are untyped values: the maps that the API encodes them as.  Dereferencing a missing
  affinity and an index out of range panic.\<close>

definition WithAffinity :: "string \<Rightarrow> string \<Rightarrow> int \<Rightarrow> pod_template \<Rightarrow> pod_template" where
  "WithAffinity stsName antiAffinityLabelKey weight = on_pod_spec (\<lambda>p. p\<lparr>ps_Scheduling := (ps_Scheduling p)\<lparr>ps_Affinity :=
     Some \<lparr>aff_NodeAffinity = None, aff_PodAffinity = None, aff_PodAntiAffinity = Some (VMap
       [(''preferredDuringSchedulingIgnoredDuringExecution'', VList [VMap
          [(''weight'', VInt (int32 weight)),
           (''podAffinityTerm'', VMap
             [(''labelSelector'', VMap [(''matchLabels'', VMap [(antiAffinityLabelKey, VStr stsName)])]),
              (''topologyKey'', VStr '''')])]])])\<rparr>\<rparr>\<rparr>)"

definition nil_affinity_panic :: go_error where
  "nil_affinity_panic = errorf ''panic: invalid memory address or nil pointer dereference''"

definition on_affinity :: "(affinity \<Rightarrow> affinity fallible) \<Rightarrow> pod_template \<Rightarrow> pod_template fallible" where
  "on_affinity f t =
    (case ps_Affinity (ps_Scheduling (pt_Spec t)) of
       None \<Rightarrow> Inl nil_affinity_panic
     | Some a \<Rightarrow> (case f a of
          Inl err \<Rightarrow> Inl err
        | Inr a' \<Rightarrow> Inr (on_pod_spec (\<lambda>p. p\<lparr>ps_Scheduling := (ps_Scheduling p)\<lparr>ps_Affinity := Some a'\<rparr>\<rparr>) t)))"

definition WithNodeAffinity :: "go_value option \<Rightarrow> pod_template \<Rightarrow> pod_template fallible" where
  "WithNodeAffinity nodeAffinity = on_affinity (\<lambda>a. Inr (a\<lparr>aff_NodeAffinity := nodeAffinity\<rparr>))"

definition WithPodAffinity :: "go_value option \<Rightarrow> pod_template \<Rightarrow> pod_template fallible" where
  "WithPodAffinity podAffinity = on_affinity (\<lambda>a. Inr (a\<lparr>aff_PodAffinity := podAffinity\<rparr>))"

text \<open>The list of preferred terms of an anti-affinity, and one term with a new topology key.\<close>

definition preferred_terms :: "go_map \<Rightarrow> go_value list" where
  "preferred_terms m = (case map_of m ''preferredDuringSchedulingIgnoredDuringExecution'' of Some (VList ts) \<Rightarrow> ts | _ \<Rightarrow> [])"

definition term_with_key :: "string \<Rightarrow> go_value \<Rightarrow> go_value" where
  "term_with_key topologyKey t =
    VMap (map_put ''podAffinityTerm'' (VMap (map_put ''topologyKey'' (VStr topologyKey)
      (members_of (map_of (members_of (Some t)) ''podAffinityTerm'')))) (members_of (Some t)))"

definition WithTopologyKey :: "string \<Rightarrow> int \<Rightarrow> pod_template \<Rightarrow> pod_template fallible" where
  "WithTopologyKey topologyKey idx = on_affinity (\<lambda>a.
    case aff_PodAntiAffinity a of
      None \<Rightarrow> Inl nil_affinity_panic
    | Some anti \<Rightarrow>
        (let ts = preferred_terms (members_of (Some anti))
         in if idx < 0 \<or> idx \<ge> int (length ts) then Inl (errorf ''panic: index out of range'')
            else Inr (a\<lparr>aff_PodAntiAffinity := Some (VMap (map_put ''preferredDuringSchedulingIgnoredDuringExecution''
              (VList (ts[nat idx := term_with_key topologyKey (ts ! nat idx)])) (members_of (Some anti))))\<rparr>)))"

record probe_handler =
  ph_Exec :: "string list option"
  ph_HTTPGet :: "go_value option"
  ph_TCPSocket :: "go_value option"

definition WithHandler :: "probe_handler \<Rightarrow> probe \<Rightarrow> probe" where
  "WithHandler handler p = p\<lparr>pr_Exec := ph_Exec handler, pr_HTTPGet := ph_HTTPGet handler, pr_TCPSocket := ph_TCPSocket handler\<rparr>"

text \<open>The topology key can be set after \<open>WithAffinity\<close>, at the one index there is, and nowhere else.\<close>

lemma topology_key_after_affinity:
  "WithTopologyKey key idx (WithAffinity name label weight t) =
    (if idx \<noteq> 0 then Inl (errorf ''panic: index out of range'')
     else Inr (on_pod_spec (\<lambda>p. p\<lparr>ps_Scheduling := (ps_Scheduling p)\<lparr>ps_Affinity :=
       Some \<lparr>aff_NodeAffinity = None, aff_PodAffinity = None, aff_PodAntiAffinity = Some (VMap
         [(''preferredDuringSchedulingIgnoredDuringExecution'', VList [VMap
            [(''weight'', VInt (int32 weight)),
             (''podAffinityTerm'', VMap
               [(''labelSelector'', VMap [(''matchLabels'', VMap [(label, VStr name)])]),
                (''topologyKey'', VStr key)])]])])\<rparr>\<rparr>\<rparr>) t))"
  by (auto simp: WithTopologyKey_def WithAffinity_def on_affinity_def preferred_terms_def term_with_key_def members_of_def Let_def)

subsection \<open>What a builder builds\<close>

text \<open>One container, updated in place by its name.\<close>

definition at_name :: "string \<Rightarrow> (container \<Rightarrow> container) \<Rightarrow> container list \<Rightarrow> container list" where
  "at_name n f = map (\<lambda>c. if c_Name c = n then f c else c)"

lemma container_index_iff:
  "container_index n cs i = None \<longleftrightarrow> n \<notin> c_Name ` set cs"
  by (induction n cs i rule: container_index.induct) auto

lemma container_index_nth:
  "container_index n cs i = Some j \<Longrightarrow> i \<le> j \<and> j - i < length cs \<and> c_Name (cs ! (j - i)) = n"
  by (induction n cs i rule: container_index.induct) (auto simp: nth_Cons' split: if_splits)

lemma update_at_name:
  assumes "distinct (map c_Name cs)" and "j < length cs"
  shows "cs[j := f (cs ! j)] = at_name (c_Name (cs ! j)) f cs"
proof (rule nth_equalityI)
  fix i assume "i < length (cs[j := f (cs ! j)])"
  then show "cs[j := f (cs ! j)] ! i = at_name (c_Name (cs ! j)) f cs ! i"
    using assms nth_eq_iff_index_eq[OF assms(1), of i j] by (cases "i = j") (auto simp: at_name_def)
qed (simp add: at_name_def)

lemma names_at_name: "(\<And>c. c_Name (f c) = c_Name c) \<Longrightarrow> map c_Name (at_name n f cs) = map c_Name cs"
  by (auto simp: at_name_def)

lemma mount_all_ok:
  "distinct (map vm_MountPath vs) \<Longrightarrow> set (map vm_MountPath vs) \<inter> set existing = {} \<Longrightarrow>
   mount_all fmt_mount vs existing c errs = (c\<lparr>c_VolumeMounts := c_VolumeMounts c @ vs\<rparr>, errs)"
  by (induction fmt_mount vs existing c errs rule: mount_all.induct) auto

lemma mount_all_errs:
  "length errs \<le> length (snd (mount_all fmt_mount vs existing c errs))"
  by (induction fmt_mount vs existing c errs rule: mount_all.induct) auto

lemma mount_all_dup:
  assumes "\<not> (distinct (map vm_MountPath vs) \<and> set (map vm_MountPath vs) \<inter> set existing = {})"
  shows "length errs < length (snd (mount_all fmt_mount vs existing c errs))"
  using assms
proof (induction fmt_mount vs existing c errs rule: mount_all.induct)
  case (2 fmt_mount v vs existing c errs)
  show ?case
  proof (cases "vm_MountPath v \<in> set existing")
    case True
    then show ?thesis using mount_all_errs[of "errs @ [_]"] by (fastforce intro: Suc_le_lessD)
  next
    case False
    then show ?thesis using 2 by auto
  qed
qed simp

text \<open>Entries that can be applied, and one step of either loop.\<close>

definition mounts_ok :: "sts_builder \<Rightarrow> string \<times> volume_mount list \<Rightarrow> bool" where
  "mounts_ok s = (\<lambda>(n, vs). n \<in> c_Name ` set (bs_containers s) \<and> distinct (map vm_MountPath vs))"

definition probe_ok :: "sts_builder \<Rightarrow> string \<times> probe option \<Rightarrow> bool" where
  "probe_ok s = (\<lambda>(n, p). n \<in> c_Name ` set (bs_containers s))"

lemma step_at_name:
  assumes "map c_Name cs = map c_Name (bs_containers s)" and "distinct (map c_Name cs)"
    and "n \<in> c_Name ` set (bs_containers s)"
  obtains j where "GetContainerIndexByName s n = Inr j" and "j < length cs" and "cs[j := f (cs ! j)] = at_name n f cs"
proof -
  obtain j where j: "container_index n (bs_containers s) 0 = Some j"
    using container_index_iff[of n "bs_containers s" 0] assms(3) by auto
  then have "j < length (bs_containers s)" "c_Name (bs_containers s ! j) = n"
    using container_index_nth[OF j] by simp_all
  then have "j < length cs" "c_Name (cs ! j) = n"
    using assms(1) by (metis length_map, metis length_map nth_map)
  then show thesis
    using that[of j] j update_at_name[OF assms(2), of j f] by (simp add: GetContainerIndexByName_def)
qed

lemma add_mounts_ok:
  assumes "map c_Name cs = map c_Name (bs_containers s)" and "distinct (map c_Name cs)" and "mounts_ok s (n, vs)"
  shows "add_mounts fmt_mount s (n, vs) (cs, errs) = (at_name n (\<lambda>c. c\<lparr>c_VolumeMounts := c_VolumeMounts c @ vs\<rparr>) cs, errs)"
proof -
  have "n \<in> c_Name ` set (bs_containers s)" "distinct (map vm_MountPath vs)" using assms(3) by (simp_all add: mounts_ok_def)
  moreover from assms(1,2) this(1) obtain j where "GetContainerIndexByName s n = Inr j"
      "cs[j := (cs ! j)\<lparr>c_VolumeMounts := c_VolumeMounts (cs ! j) @ vs\<rparr>] = at_name n (\<lambda>c. c\<lparr>c_VolumeMounts := c_VolumeMounts c @ vs\<rparr>) cs"
    by (rule step_at_name[where f = "\<lambda>c. c\<lparr>c_VolumeMounts := c_VolumeMounts c @ vs\<rparr>"])
  ultimately show ?thesis by (simp add: add_mounts_def mount_all_ok)
qed

lemma set_probe_ok:
  assumes "map c_Name cs = map c_Name (bs_containers s)" and "distinct (map c_Name cs)" and "probe_ok s (n, p)"
  shows "set_probe s (n, p) (cs, errs) = (at_name n (\<lambda>c. c\<lparr>c_ReadinessProbe := p\<rparr>) cs, errs)"
proof -
  have "n \<in> c_Name ` set (bs_containers s)" using assms(3) by (simp add: probe_ok_def)
  with assms(1,2) obtain j where "GetContainerIndexByName s n = Inr j"
      "cs[j := (cs ! j)\<lparr>c_ReadinessProbe := p\<rparr>] = at_name n (\<lambda>c. c\<lparr>c_ReadinessProbe := p\<rparr>) cs"
    by (rule step_at_name[where f = "\<lambda>c. c\<lparr>c_ReadinessProbe := p\<rparr>"])
  then show ?thesis by (simp add: set_probe_def)
qed

lemma missing_container: "n \<notin> c_Name ` set (bs_containers s) \<Longrightarrow> \<exists>err. GetContainerIndexByName s n = Inl err"
  using container_index_iff[of n "bs_containers s" 0] by (simp add: GetContainerIndexByName_def)

lemma step_errs:
  "length (snd st) + (if mounts_ok s e then 0 else 1) \<le> length (snd (add_mounts fmt_mount s e st))"
  "length (snd st) + (if probe_ok s e' then 0 else 1) \<le> length (snd (set_probe s e' st))"
proof -
  obtain n vs cs errs n' p' where [simp]: "e = (n, vs)" "st = (cs, errs)" "e' = (n', p')" by (metis prod.exhaust)
  show "length (snd st) + (if mounts_ok s e then 0 else 1) \<le> length (snd (add_mounts fmt_mount s e st))"
    using mount_all_errs[of errs fmt_mount vs "[]"] mount_all_dup[of vs "[]" errs fmt_mount] missing_container[of n s]
    by (auto simp: add_mounts_def mounts_ok_def Suc_le_eq split: sum.splits prod.splits) (metis snd_conv)+
  show "length (snd st) + (if probe_ok s e' then 0 else 1) \<le> length (snd (set_probe s e' st))"
    using missing_container[of n' s] by (cases "probe_ok s e'") (auto simp: set_probe_def probe_ok_def split: sum.splits)
qed

text \<open>The two loops of the builder share their shape: every entry updates the container of its name,
  or adds an error.\<close>

locale container_loop =
  fixes s :: sts_builder
    and step :: "string \<times> 'e \<Rightarrow> container list \<times> go_error list \<Rightarrow> container list \<times> go_error list"
    and ok :: "string \<times> 'e \<Rightarrow> bool" and upd :: "'e \<Rightarrow> container \<Rightarrow> container"
  assumes step_ok: "map c_Name cs = map c_Name (bs_containers s) \<Longrightarrow> distinct (map c_Name cs) \<Longrightarrow> ok (n, e) \<Longrightarrow>
      step (n, e) (cs, errs) = (at_name n (upd e) cs, errs)"
    and step_err: "length (snd st) + (if ok x then 0 else 1) \<le> length (snd (step x st))"
    and upd_name [simp]: "c_Name (upd e c) = c_Name c"
begin

definition applied :: "(string \<times> 'e) list \<Rightarrow> container \<Rightarrow> container" where
  "applied kvs c = (case map_of kvs (c_Name c) of None \<Rightarrow> c | Some e \<Rightarrow> upd e c)"

lemma loop_ok:
  assumes "map c_Name cs = map c_Name (bs_containers s)" and "distinct (map c_Name cs)"
    and "distinct (map fst kvs)" and "list_all ok kvs"
  shows "fold step kvs (cs, errs) = (map (applied kvs) cs, errs)"
  using assms
proof (induction kvs arbitrary: cs)
  case Nil
  then show ?case by (simp add: applied_def)
next
  case (Cons kv kvs)
  obtain n e where kv: "kv = (n, e)" by fastforce
  have "step kv (cs, errs) = (at_name n (upd e) cs, errs)" using step_ok Cons.prems by (simp add: kv)
  moreover have "map c_Name (at_name n (upd e) cs) = map c_Name cs" by (rule names_at_name) simp
  moreover have "map (applied kvs) (at_name n (upd e) cs) = map (applied (kv # kvs)) cs"
    using Cons.prems(3) by (auto simp: kv at_name_def applied_def map_of_eq_None_iff split: option.splits)
      (metis fst_conv image_eqI map_of_SomeD)+
  ultimately show ?case using Cons by simp
qed

lemma loop_mono: "length (snd st) \<le> length (snd (fold step kvs st))"
proof (induction kvs arbitrary: st)
  case (Cons kv kvs)
  have "length (snd st) \<le> length (snd (step kv st))" using step_err[of st kv] by simp
  then show ?case using Cons[of "step kv st"] by simp
qed simp

lemma loop_err: "\<not> list_all ok kvs \<Longrightarrow> length (snd st) < length (snd (fold step kvs st))"
proof (induction kvs arbitrary: st)
  case (Cons kv kvs)
  show ?case
  proof (cases "ok kv")
    case True
    then have "\<not> list_all ok kvs" using Cons.prems by simp
    from Cons.IH[OF this, of "step kv st"] step_err[of st kv] show ?thesis by simp
  next
    case False
    then show ?thesis using step_err[of st kv] loop_mono[of "step kv st" kvs] by simp
  qed
qed simp

end

interpretation mounts_loop: container_loop s "add_mounts fmt_mount s" "mounts_ok s"
    "\<lambda>vs c. c\<lparr>c_VolumeMounts := c_VolumeMounts c @ vs\<rparr>" for s fmt_mount
  by unfold_locales (simp_all add: add_mounts_ok step_errs)

interpretation probes_loop: container_loop s "set_probe s" "probe_ok s" "\<lambda>p c. c\<lparr>c_ReadinessProbe := p\<rparr>" for s
  by unfold_locales (simp_all add: set_probe_ok step_errs)

definition builder_ok :: "sts_builder \<Rightarrow> bool" where
  "builder_ok s = (list_all (mounts_ok s) (bs_volumeMountsPerContainer s) \<and> list_all (probe_ok s) (bs_readinessProbePerContainer s))"

definition built_container :: "sts_builder \<Rightarrow> container \<Rightarrow> container" where
  "built_container s c = c\<lparr>
     c_VolumeMounts := c_VolumeMounts c @ map_get (c_Name c) [] (bs_volumeMountsPerContainer s),
     c_ReadinessProbe := (case map_of (bs_readinessProbePerContainer s) (c_Name c) of None \<Rightarrow> c_ReadinessProbe c | Some p \<Rightarrow> p),
     c_Env := sort_key env_Name (c_Env c)\<rparr>"

text \<open>What the setters keep: maps have every key once.\<close>

definition wf_builder :: "sts_builder \<Rightarrow> bool" where
  "wf_builder s = (distinct (map c_Name (bs_containers s)) \<and> distinct (map fst (bs_volumeMountsPerContainer s)) \<and>
     distinct (map fst (bs_readinessProbePerContainer s)))"

lemma buildPodTemplateSpec_cases:
  assumes "wf_builder s" and "is_iteration order"
  shows "if builder_ok s
    then buildPodTemplateSpec order fmt_mount s =
      (on_pod_spec (\<lambda>p. p\<lparr>ps_Containers := map (built_container s) (bs_containers s)\<rparr>) (bs_podTemplateSpec s), [])
    else snd (buildPodTemplateSpec order fmt_mount s) \<noteq> []"
proof -
  let ?ms = "iterate order (bs_volumeMountsPerContainer s)" and ?ps = "iterate order (bs_readinessProbePerContainer s)"
  let ?mounted = "fold (add_mounts fmt_mount s) ?ms (bs_containers s, [])"
  have d: "distinct (map c_Name (bs_containers s))" "distinct (map fst (bs_volumeMountsPerContainer s))"
      "distinct (map fst (bs_readinessProbePerContainer s))" using assms(1) by (simp_all add: wf_builder_def)
  note ms = iterate_props[OF assms(2) d(2)] and ps = iterate_props[OF assms(2) d(3)]
  have ok: "builder_ok s \<longleftrightarrow> list_all (mounts_ok s) ?ms \<and> list_all (probe_ok s) ?ps"
    using ms(1) ps(1) by (simp add: builder_ok_def list_all_iff)
  show ?thesis
  proof (cases "builder_ok s")
    case True
    then have l: "list_all (mounts_ok s) ?ms" "list_all (probe_ok s) ?ps" by (simp_all add: ok)
    have "?mounted = (map (mounts_loop.applied ?ms) (bs_containers s), [])"
      using mounts_loop.loop_ok[OF refl d(1) ms(2) l(1)] .
    moreover have names: "map c_Name (map (mounts_loop.applied ?ms) (bs_containers s)) = map c_Name (bs_containers s)"
      by (simp add: mounts_loop.applied_def split: option.split)
    ultimately have "fold (set_probe s) ?ps ?mounted =
        (map (probes_loop.applied ?ps) (map (mounts_loop.applied ?ms) (bs_containers s)), [])"
      using probes_loop.loop_ok[OF names d(1)[folded names] ps(2) l(2)] by simp
    moreover have "sort_env (probes_loop.applied ?ps (mounts_loop.applied ?ms c)) = built_container s c" for c
      by (auto simp: sort_env_def mounts_loop.applied_def probes_loop.applied_def built_container_def ms(3) ps(3) map_get_def
          split: option.splits)
    ultimately show ?thesis using True by (simp add: buildPodTemplateSpec_def Let_def comp_def)
  next
    case False
    have "snd (fold (set_probe s) ?ps ?mounted) \<noteq> []"
    proof (cases "list_all (mounts_ok s) ?ms")
      case True
      then have "\<not> list_all (probe_ok s) ?ps" using False ok by simp
      from probes_loop.loop_err[OF this, of ?mounted] show ?thesis by auto
    next
      case False
      from mounts_loop.loop_err[OF this, of "(bs_containers s, [])" fmt_mount] probes_loop.loop_mono[of ?mounted s ?ps]
      show ?thesis by auto
    qed
    then show ?thesis using False by (simp add: buildPodTemplateSpec_def Let_def case_prod_unfold)
  qed
qed

text \<open>The StatefulSet builder succeeds exactly when every container it was given mounts or a probe for
  exists and no two mounts added to one container share a path.  Then each container has
  its own mounts followed by the added ones in the order they were added, the probe set for it
  and its environment sorted by name, whatever the order in which Go visits the maps.  Mounts the
  template has already are not compared with the added ones.\<close>

theorem sts_Build_correct:
  assumes "wf_builder s" and "is_iteration order"
  shows "if builder_ok s
    then \<exists>sts. sts_Build order fmt_mount s = Inr sts \<and> sts_Name sts = bs_name s \<and>
      stss_Replicas (sts_Spec sts) = Some (word_of_int (bs_replicas s)) \<and>
      ps_Volumes (pt_Spec (stss_Template (sts_Spec sts))) = ps_Volumes (pt_Spec (bs_podTemplateSpec s)) \<and>
      ps_Containers (pt_Spec (stss_Template (sts_Spec sts))) = map (built_container s) (bs_containers s)
    else \<exists>errs. sts_Build order fmt_mount s = Inl errs \<and> errs \<noteq> []"
  using buildPodTemplateSpec_cases[OF assms, of fmt_mount]
  by (auto simp: sts_Build_def split: if_splits prod.splits)

text \<open>The setters keep a builder well formed.\<close>

lemma wf_builder_setters:
  "wf_builder s \<Longrightarrow> wf_builder (sts_SetReadinessProbe p n s)" "wf_builder s \<Longrightarrow> wf_builder (sts_AddVolumeMount n m s)"
  "wf_builder s \<Longrightarrow> wf_builder (sts_AddVolume v s)"
  by (simp_all add: wf_builder_def sts_SetReadinessProbe_def sts_AddVolumeMount_def sts_AddVolume_def)

lemma wf_builder_folds:
  "wf_builder s \<Longrightarrow> wf_builder (sts_AddVolumeMounts n ms s)" "wf_builder s \<Longrightarrow> wf_builder (sts_AddVolumes vs s)"
  "wf_builder s \<Longrightarrow> wf_builder (sts_AddVolumeAndMount d ns s)"
proof -
  have keep: "wf_builder (fold f xs s)" if "wf_builder s" "\<And>x s. wf_builder s \<Longrightarrow> wf_builder (f x s)"
    for f :: "'x \<Rightarrow> sts_builder \<Rightarrow> sts_builder" and xs s
    using that by (induction xs arbitrary: s) simp_all
  show "wf_builder s \<Longrightarrow> wf_builder (sts_AddVolumeMounts n ms s)" "wf_builder s \<Longrightarrow> wf_builder (sts_AddVolumes vs s)"
    "wf_builder s \<Longrightarrow> wf_builder (sts_AddVolumeAndMount d ns s)"
    unfolding sts_AddVolumeMounts_def sts_AddVolumes_def sts_AddVolumeAndMount_def
    by (auto intro!: keep wf_builder_setters)
qed

end
