(* ===== verification/Crd_Wrappers.thy ===== *)
theory Crd_Wrappers
  imports Kube_Client Merge
begin

text \<open>
  The wrappers of \<open>api/v1/mongodbcommunity_types.go\<close> around untyped maps and around parts of a
  StatefulSet, with their JSON decoding and their copies.

  Everywhere else the model takes maps as values.  Here it matters which maps are shared, so a
  map lives at an address of a store and a wrapper holds the address, or none when the Go map
  is \<open>nil\<close>.  \<open>objx.New(m)\<close> is the map \<open>m\<close> itself, so \<open>Set\<close> changes it in place; the copies that
  \<open>runtime.DeepCopyJSON\<close> makes are fresh.  \<open>unmarshal\<close> is \<open>json.Unmarshal\<close> into an untyped map and
  \<open>order\<close> the order in which Go visits it.
\<close>

subsection \<open>The store\<close>

record map_store =
  st_maps :: "nat \<Rightarrow> go_map"
  st_next :: nat

definition new_map :: "go_map \<Rightarrow> (map_store, nat) effect" where
  "new_map m st = (st_next st, st\<lparr>st_maps := (st_maps st)(st_next st := m), st_next := st_next st + 1\<rparr>)"

definition nil_map_panic :: go_error where
  "nil_map_panic = errorf ''panic: assignment to entry in nil map''"

subsection \<open>\<open>MapWrapper\<close>\<close>

record map_wrapper =
  mw_Object :: "nat option"

definition NewMapWrapper :: "(map_store, map_wrapper) effect" where
  "NewMapWrapper st = (case new_map [] st of (a, st1) \<Rightarrow> (\<lparr>mw_Object = Some a\<rparr>, st1))"

definition SetOption :: "objx \<Rightarrow> string \<Rightarrow> go_value \<Rightarrow> map_wrapper \<Rightarrow> (map_store, map_wrapper fallible) effect" where
  "SetOption ox key value m st =
    (case mw_Object m of
       None \<Rightarrow> (Inl nil_map_panic, st)
     | Some a \<Rightarrow> (Inr m, st\<lparr>st_maps := (st_maps st)(a := objx_Set ox (st_maps st a) key value)\<rparr>))"

text \<open>The loop ignores what \<open>SetOption\<close> returns; the map it writes to is that of the wrapper.\<close>

fun set_options :: "objx \<Rightarrow> go_map \<Rightarrow> map_wrapper \<Rightarrow> map_store \<Rightarrow> map_store" where
  "set_options ox [] m st = st"
| "set_options ox ((k, v) # kvs) m st = set_options ox kvs m (snd (SetOption ox k v m st))"

definition MapWrapper_UnmarshalJSON ::
    "objx \<Rightarrow> iteration \<Rightarrow> (string \<Rightarrow> go_map fallible) \<Rightarrow> string \<Rightarrow> map_wrapper \<Rightarrow> (map_store, map_wrapper \<times> go_error option) effect" where
  "MapWrapper_UnmarshalJSON ox order unmarshal data m st =
    (let (m1, st1) = (if mw_Object m = None then NewMapWrapper st else (m, st))
     in case unmarshal data of
          Inl err \<Rightarrow> ((m1, Some err), st1)
        | Inr tmpMap \<Rightarrow> ((m1, None), set_options ox (iterate order tmpMap) m1 st1))"

definition MapWrapper_MarshalJSON :: "(json \<Rightarrow> string) \<Rightarrow> map_wrapper \<Rightarrow> map_store \<Rightarrow> string" where
  "MapWrapper_MarshalJSON txt m st =
    (case mw_Object m of None \<Rightarrow> txt JNull | Some a \<Rightarrow> txt (json_of_value (VMap (st_maps st a))))"

definition MapWrapper_DeepCopy :: "map_wrapper option \<Rightarrow> (map_store, map_wrapper) effect" where
  "MapWrapper_DeepCopy m st =
    (case Option.bind m mw_Object of
       Some a \<Rightarrow> (case new_map (st_maps st a) st of (b, st1) \<Rightarrow> (\<lparr>mw_Object = Some b\<rparr>, st1))
     | None \<Rightarrow> NewMapWrapper st)"

definition NewMongodConfiguration :: "(map_store, map_wrapper) effect" where
  "NewMongodConfiguration = NewMapWrapper"

subsection \<open>Wrappers of the StatefulSet\<close>

text \<open>The labels and annotations are maps of the store as well, with strings as values.  The spec of a
  StatefulSet is a value in the model; \<open>encode\<close> and \<open>decode\<close> are its JSON text.\<close>

record metadata_wrapper =
  mdw_Labels :: "nat option"
  mdw_Annotations :: "nat option"

definition StatefulSetMetadataWrapper_DeepCopy :: "metadata_wrapper \<Rightarrow> metadata_wrapper" where
  "StatefulSetMetadataWrapper_DeepCopy m = \<lparr>mdw_Labels = mdw_Labels m, mdw_Annotations = mdw_Annotations m\<rparr>"

record spec_wrapper =
  sw_Spec :: statefulset_spec

definition StatefulSetSpecWrapper_MarshalJSON :: "(statefulset_spec \<Rightarrow> string fallible) \<Rightarrow> spec_wrapper \<Rightarrow> string fallible" where
  "StatefulSetSpecWrapper_MarshalJSON encode m = encode (sw_Spec m)"

definition StatefulSetSpecWrapper_UnmarshalJSON ::
    "(string \<Rightarrow> statefulset_spec \<Rightarrow> statefulset_spec fallible) \<Rightarrow> string \<Rightarrow> spec_wrapper \<Rightarrow> spec_wrapper fallible" where
  "StatefulSetSpecWrapper_UnmarshalJSON decode data m =
    (case decode data (sw_Spec m) of Inl err \<Rightarrow> Inl err | Inr spec \<Rightarrow> Inr (m\<lparr>sw_Spec := spec\<rparr>))"

definition StatefulSetSpecWrapper_DeepCopy :: "spec_wrapper \<Rightarrow> spec_wrapper" where
  "StatefulSetSpecWrapper_DeepCopy m = \<lparr>sw_Spec = sw_Spec m\<rparr>"

text \<open>Writing a key of the map at an address.\<close>

definition put_at :: "nat \<Rightarrow> string \<Rightarrow> go_value \<Rightarrow> map_store \<Rightarrow> map_store" where
  "put_at a k v st = st\<lparr>st_maps := (st_maps st)(a := map_put k v (st_maps st a))\<rparr>"

subsection \<open>Copies\<close>

text \<open>A copy of a \<open>MapWrapper\<close> has the options of the original and a map of its own: whatever is set on
  it leaves all older maps alone.\<close>

theorem MapWrapper_DeepCopy_fresh:
  assumes "MapWrapper_DeepCopy (Some m) st = (m', st')" and "SetOption ox key value m' st' = (r, st'')"
    and "mw_Object m = Some a" and "a < st_next st"
  shows "st_maps st'' a = st_maps st a \<and> (\<exists>b. mw_Object m' = Some b \<and> st_maps st' b = st_maps st a)"
  using assms by (auto simp: MapWrapper_DeepCopy_def new_map_def SetOption_def)

text \<open>The copy of the metadata of a StatefulSet is the same pair of maps: a label written through the
  copy appears in the original.\<close>

theorem metadata_DeepCopy_shares:
  assumes "mdw_Labels m = Some a"
  shows "\<exists>b. mdw_Labels (StatefulSetMetadataWrapper_DeepCopy m) = Some b \<and>
    map_of (st_maps (put_at b k v st) a) k = Some v"
  using assms by (simp add: StatefulSetMetadataWrapper_DeepCopy_def put_at_def)

subsection \<open>Dotted keys\<close>

lemma set_options_at:
  "mw_Object m = Some a \<Longrightarrow>
   st_maps (set_options ox kvs m st) a = fold (\<lambda>(k, v) o'. objx_Set ox o' k v) kvs (st_maps st a)"
  by (induction ox kvs m st rule: set_options.induct) (simp_all add: SetOption_def)

text \<open>Keys none of which leads through another one.\<close>

definition separate_keys :: "go_map \<Rightarrow> bool" where
  "separate_keys m = (\<forall>(p, v)\<in>set m. \<forall>(q, w)\<in>set m. p = q \<or> independent p q)"

context objx_laws
begin

lemma get_fold_set:
  assumes "distinct (map fst kvs)" and "\<forall>(p, v)\<in>set kvs. p = q \<or> independent p q"
  shows "objx_Get ox (fold (\<lambda>(k, v) o'. objx_Set ox o' k v) kvs o0) q =
    (case map_of kvs q of Some v \<Rightarrow> Some v | None \<Rightarrow> objx_Get ox o0 q)"
  using assms
proof (induction kvs arbitrary: o0)
  case (Cons kv kvs)
  obtain p v where kv: "kv = (p, v)" by fastforce
  have "map_of kvs p = None" using Cons.prems(1) by (simp add: kv map_of_eq_None_iff)
  then show ?case using Cons get_set_if[of p q o0 v] by (auto simp: kv split: option.splits)
qed simp

end

lemma UnmarshalJSON_at:
  assumes "unmarshal data = Inr tmp" and "MapWrapper_UnmarshalJSON ox order unmarshal data m st = (res, st')"
  obtains m' a o0 where "res = (m', None)" and "mw_Object m' = Some a"
    and "st_maps st' a = fold (\<lambda>(k, v) o'. objx_Set ox o' k v) (iterate order tmp) o0"
proof -
  obtain m1 st1 where start: "(if mw_Object m = None then NewMapWrapper st else (m, st)) = (m1, st1)" by fastforce
  then obtain a where a: "mw_Object m1 = Some a"
    by (auto simp: NewMapWrapper_def new_map_def split: if_splits)
  have "res = (m1, None)" "st' = set_options ox (iterate order tmp) m1 st1"
    using assms start by (simp_all add: MapWrapper_UnmarshalJSON_def)
  with a show thesis using that[of m1 a "st_maps st1 a"] set_options_at[OF a] by simp
qed

text \<open>C23: options decoded from JSON are found under their keys, dotted or not: \<open>net.port\<close> is the option
  \<open>port\<close> of the map \<open>net\<close> afterwards.  This holds for every order in which Go visits the decoded
  map, as long as no key leads through another one.\<close>

theorem UnmarshalJSON_reads_back:
  assumes "objx_laws ox" and "is_iteration order" and "unmarshal data = Inr tmp" and "distinct (map fst tmp)"
    and "separate_keys tmp" and "(key, value) \<in> set tmp"
  shows "\<exists>m' a st'. MapWrapper_UnmarshalJSON ox order unmarshal data m st = ((m', None), st') \<and> mw_Object m' = Some a \<and>
    objx_Get ox (st_maps st' a) key = Some value"
proof -
  obtain res st' where run: "MapWrapper_UnmarshalJSON ox order unmarshal data m st = (res, st')" by fastforce
  obtain m' a o0 where m': "res = (m', None)" "mw_Object m' = Some a"
      "st_maps st' a = fold (\<lambda>(k, v) o'. objx_Set ox o' k v) (iterate order tmp) o0"
    using assms(3) run by (rule UnmarshalJSON_at)
  note it = iterate_props[OF assms(2,4)]
  have "\<forall>(p, v)\<in>set (iterate order tmp). p = key \<or> independent p key"
    using assms(5,6) by (auto simp: it(1) separate_keys_def)
  from objx_laws.get_fold_set[OF assms(1) it(2) this] have "objx_Get ox (st_maps st' a) key = Some value"
    using map_of_is_SomeI[OF assms(4,6)] by (simp add: m'(3) it(3))
  then show ?thesis using run m'(1,2) by blast
qed

theorem UnmarshalJSON_reads_back_witness:
  "\<exists>m' a st'. MapWrapper_UnmarshalJSON nested_objx (\<lambda>ks. ks) (\<lambda>_. Inr [(''net.port'', VFloat 27018), (''storage.engine'', VStr ''wiredTiger'')])
      ''text'' \<lparr>mw_Object = None\<rparr> \<lparr>st_maps = (\<lambda>_. []), st_next = 0\<rparr> = ((m', None), st') \<and> mw_Object m' = Some a \<and>
    objx_Get nested_objx (st_maps st' a) ''net.port'' = Some (VFloat 27018)"
proof -
  let ?tmp = "[(''net.port'', VFloat 27018), (''storage.engine'', VStr ''wiredTiger'')]"
  have "is_iteration (\<lambda>ks. ks)" by (simp add: is_iteration_def)
  moreover have "distinct (map fst ?tmp)" "separate_keys ?tmp" "(''net.port'', VFloat 27018) \<in> set ?tmp"
    by (simp_all add: separate_keys_def independent_def)
  ultimately show ?thesis
    using UnmarshalJSON_reads_back[OF nested.objx_laws_axioms, where unmarshal = "\<lambda>_. Inr ?tmp" and data = "''text''"] by blast
qed

text \<open>With a key that leads through another one the outcome depends on the order in which Go visits
  the decoded map: of \<open>storage\<close> and \<open>storage.engine\<close> the second is lost when it comes first.\<close>

theorem UnmarshalJSON_order_dependent:
  "let run = (\<lambda>order. MapWrapper_UnmarshalJSON nested_objx order
         (\<lambda>_. Inr [(''storage'', VMap [(''dbPath'', VStr ''/data'')]), (''storage.engine'', VStr ''inMemory'')])
         ''text'' \<lparr>mw_Object = None\<rparr> \<lparr>st_maps = (\<lambda>_. []), st_next = 0\<rparr>);
       engine = (\<lambda>order. objx_Get nested_objx (st_maps (snd (run order)) 0) ''storage.engine'')
   in is_iteration (\<lambda>ks. ks) \<and> is_iteration rev \<and>
      engine (\<lambda>ks. ks) = Some (VStr ''inMemory'') \<and> engine rev = None"
  by (simp add: Let_def is_iteration_def) code_simp

end
