(* ===== verification/Deep_Copies.thy ===== *)
theory Deep_Copies
  imports Crd_Wrappers
begin

text \<open>
  The deep copies that controller-gen generates for the custom resource
  (\<open>api/v1/zz_generated.deepcopy.go\<close>, \<open>pkg/automationconfig/zz_generated.deepcopy.go\<close>).

  Copies only matter where memory is shared, so values live in an explicit heap here: a pointer, a
  slice or a map is the address of a cell, or none for \<open>nil\<close>; a struct is the list of its fields.
  \<open>view t h v\<close> follows the references of a value of type \<open>t\<close>: it yields the value without addresses and
  the set of the addresses it consists of, or nothing when the value is not of that type.

  Each function below is composed of the statements the generator emits: \<open>copy_fields\<close> is \<open>*out = *in\<close>
  followed by the copies of the listed fields, \<open>copy_ptr\<close>, \<open>copy_slice\<close> and \<open>copy_map\<close> are the blocks for a
  field that is not \<open>nil\<close>, with the copy of what is inside as argument, \<open>shallow\<close> is a plain assignment.
  The new cell is allocated after its content was copied, which Go programs cannot observe.

  Shown: a copy of a resource has the same value as the original and shares no memory with it, up to the
  overrides of the StatefulSet, whose hand-written copies are shallow.
\<close>

subsection \<open>Memory\<close>

datatype hval = Scalar go_value | Ref "nat option" | Struct "(string \<times> hval) list"

datatype cell = Var hval | Arr "hval list" | Dict "(string \<times> hval) list" | Json go_map

record go_heap =
  cells :: "nat \<Rightarrow> cell"
  brk :: nat

type_synonym copy_fn = "hval \<Rightarrow> go_heap \<Rightarrow> hval \<times> go_heap"

definition alloc :: "cell \<Rightarrow> go_heap \<Rightarrow> hval \<times> go_heap" where
  "alloc c h = (Ref (Some (brk h)), h\<lparr>cells := (cells h)(brk h := c), brk := brk h + 1\<rparr>)"

subsection \<open>The statements of the generated code\<close>

definition shallow :: copy_fn where "shallow v h = (v, h)"

fun copy_elems :: "copy_fn \<Rightarrow> hval list \<Rightarrow> go_heap \<Rightarrow> hval list \<times> go_heap" where
  "copy_elems f [] h = ([], h)"
| "copy_elems f (v # vs) h =
    (case f v h of (v', h1) \<Rightarrow> case copy_elems f vs h1 of (vs', h2) \<Rightarrow> (v' # vs', h2))"

definition copy_ptr :: "copy_fn \<Rightarrow> copy_fn" where
  "copy_ptr f v h = (case v of
      Ref (Some a) \<Rightarrow> (case cells h a of
          Var x \<Rightarrow> (case f x h of (x', h1) \<Rightarrow> alloc (Var x') h1)
        | _ \<Rightarrow> (v, h))
    | _ \<Rightarrow> (v, h))"

definition copy_slice :: "copy_fn \<Rightarrow> copy_fn" where
  "copy_slice f v h = (case v of
      Ref (Some a) \<Rightarrow> (case cells h a of
          Arr xs \<Rightarrow> (case copy_elems f xs h of (xs', h1) \<Rightarrow> alloc (Arr xs') h1)
        | _ \<Rightarrow> (v, h))
    | _ \<Rightarrow> (v, h))"

definition copy_map :: "copy_fn \<Rightarrow> copy_fn" where
  "copy_map f v h = (case v of
      Ref (Some a) \<Rightarrow> (case cells h a of
          Dict kvs \<Rightarrow> (case copy_elems f (map snd kvs) h of (vs', h1) \<Rightarrow> alloc (Dict (zip (map fst kvs) vs')) h1)
        | _ \<Rightarrow> (v, h))
    | _ \<Rightarrow> (v, h))"

definition field_copy :: "(string \<times> copy_fn) list \<Rightarrow> string \<Rightarrow> copy_fn" where
  "field_copy gs n = (case map_of gs n of None \<Rightarrow> shallow | Some g \<Rightarrow> g)"

fun copy_each :: "(string \<times> copy_fn) list \<Rightarrow> (string \<times> hval) list \<Rightarrow> go_heap \<Rightarrow> (string \<times> hval) list \<times> go_heap" where
  "copy_each gs [] h = ([], h)"
| "copy_each gs ((n, v) # kvs) h =
    (case field_copy gs n v h of (v', h1) \<Rightarrow> case copy_each gs kvs h1 of (kvs', h2) \<Rightarrow> ((n, v') # kvs', h2))"

definition copy_fields :: "(string \<times> copy_fn) list \<Rightarrow> copy_fn" where
  "copy_fields gs v h = (case v of
      Struct kvs \<Rightarrow> (case copy_each gs kvs h of (kvs', h1) \<Rightarrow> (Struct kvs', h1))
    | _ \<Rightarrow> (v, h))"

subsection \<open>Types and values\<close>

text \<open>\<open>Shared\<close> is the type of a part whose references are not followed.  A struct type is a chain of
  fields.\<close>

datatype gotype = TScalar | TPtr gotype | TSlice gotype | TDict gotype | TJson | Shared
  | TEmpty | TField string gotype gotype

definition TStruct :: "(string \<times> gotype) list \<Rightarrow> gotype" where
  "TStruct fs = foldr (\<lambda>(n, t). TField n t) fs TEmpty"

datatype deep_value = DScalar go_value | DNil | DPtr deep_value | DSlice "deep_value list" | DMap "(string \<times> deep_value) list"
  | DJson go_map | DShared hval | DStruct "(string \<times> deep_value) list"

text \<open>A \<open>nil\<close> map of options reads as an empty one.\<close>

definition all_views :: "('a \<Rightarrow> ('d \<times> nat set) option) \<Rightarrow> 'a list \<Rightarrow> ('d list \<times> nat set) option" where
  "all_views f xs = map_option (\<lambda>ds. (map fst ds, \<Union> (set (map snd ds)))) (those (map f xs))"

fun view :: "gotype \<Rightarrow> go_heap \<Rightarrow> hval \<Rightarrow> (deep_value \<times> nat set) option" where
  "view TScalar h (Scalar x) = Some (DScalar x, {})"
| "view Shared h v = Some (DShared v, {})"
| "view (TPtr t) h (Ref None) = Some (DNil, {})"
| "view (TPtr t) h (Ref (Some a)) = (case cells h a of
     Var x \<Rightarrow> (if a < brk h then map_option (\<lambda>(d, A). (DPtr d, insert a A)) (view t h x) else None)
   | _ \<Rightarrow> None)"
| "view (TSlice t) h (Ref None) = Some (DNil, {})"
| "view (TSlice t) h (Ref (Some a)) = (case cells h a of
     Arr xs \<Rightarrow> (if a < brk h then map_option (\<lambda>(ds, A). (DSlice ds, insert a A)) (all_views (view t h) xs) else None)
   | _ \<Rightarrow> None)"
| "view (TDict t) h (Ref None) = Some (DNil, {})"
| "view (TDict t) h (Ref (Some a)) = (case cells h a of
     Dict kvs \<Rightarrow> (if a < brk h then map_option (\<lambda>(ds, A). (DMap (zip (map fst kvs) ds), insert a A))
         (all_views (view t h) (map snd kvs)) else None)
   | _ \<Rightarrow> None)"
| "view TJson h (Ref None) = Some (DJson [], {})"
| "view TJson h (Ref (Some a)) = (case cells h a of Json m \<Rightarrow> if a < brk h then Some (DJson m, {a}) else None | _ \<Rightarrow> None)"
| "view TEmpty h (Struct []) = Some (DStruct [], {})"
| "view (TField n t r) h (Struct ((n', v) # kvs)) =
    (if n = n' then (case (view t h v, view r h (Struct kvs)) of
        (Some (d, A), Some (DStruct ds, B)) \<Rightarrow> Some (DStruct ((n, d) # ds), A \<union> B)
      | _ \<Rightarrow> None) else None)"
| "view t h v = None"

subsection \<open>What a value depends on\<close>

definition agree :: "nat set \<Rightarrow> go_heap \<Rightarrow> go_heap \<Rightarrow> bool" where
  "agree A h h' = (brk h \<le> brk h' \<and> (\<forall>a\<in>A. cells h' a = cells h a))"

lemma agree_mono: "agree A h h' \<Longrightarrow> B \<subseteq> A \<Longrightarrow> agree B h h'"
  by (auto simp: agree_def)

lemma all_views_simps [simp]:
  "all_views f [] = Some ([], {})"
  "all_views f (x # xs) = (case (f x, all_views f xs) of
     (Some (d, A), Some (ds, B)) \<Rightarrow> Some (d # ds, A \<union> B) | _ \<Rightarrow> None)"
  by (auto simp: all_views_def split: option.splits)

lemma all_views_length: "all_views f xs = Some (ds, A) \<Longrightarrow> length ds = length xs"
  by (induction xs arbitrary: ds A) (auto split: option.splits)

lemma view_struct_shape: "view (TField n t r) h w = Some (d, A) \<Longrightarrow> \<exists>kvs. w = Struct kvs"
  by (cases w) auto

lemma all_views_frame:
  assumes "\<And>x d A. x \<in> set xs \<Longrightarrow> f x = Some (d, A) \<Longrightarrow> A \<subseteq> D \<and> (agree A h h' \<longrightarrow> g x = Some (d, A))"
    and "all_views f xs = Some (ds, A)"
  shows "A \<subseteq> D \<and> (agree A h h' \<longrightarrow> all_views g xs = Some (ds, A))"
  using assms
proof (induction xs arbitrary: ds A)
  case (Cons x xs)
  from Cons.prems(2) obtain d B ds1 B1 where x: "f x = Some (d, B)" "all_views f xs = Some (ds1, B1)" "ds = d # ds1" "A = B \<union> B1"
    by (auto split: option.splits)
  have "B \<subseteq> D \<and> (agree B h h' \<longrightarrow> g x = Some (d, B))" by (rule Cons.prems(1)[OF _ x(1)]) simp
  moreover have "B1 \<subseteq> D \<and> (agree B1 h h' \<longrightarrow> all_views g xs = Some (ds1, B1))"
    by (rule Cons.IH[OF _ x(2)]) (rule Cons.prems(1), simp)
  ultimately show ?case using x(3,4) by (auto dest: agree_mono)
qed simp

lemma view_frame:
  "view t h v = Some (d, A) \<Longrightarrow> A \<subseteq> {..<brk h} \<and> (agree A h h' \<longrightarrow> view t h' v = Some (d, A))"
proof (induction t h v arbitrary: d A rule: view.induct)
  case (4 t h a)
  then show ?case by (fastforce simp: agree_def split: cell.splits if_splits)
next
  case (6 t h a)
  then obtain xs ds B where xs: "cells h a = Arr xs" "a < brk h" "all_views (view t h) xs = Some (ds, B)" "d = DSlice ds" "A = insert a B"
    by (auto split: cell.splits if_splits)
  have "B \<subseteq> {..<brk h} \<and> (agree B h h' \<longrightarrow> all_views (view t h') xs = Some (ds, B))"
    by (rule all_views_frame[OF _ xs(3)]) (use 6(1)[OF xs(1,2)] in auto)
  then show ?case using xs by (auto simp: agree_def)
next
  case (8 t h a)
  then obtain kvs ds B where kvs: "cells h a = Dict kvs" "a < brk h" "all_views (view t h) (map snd kvs) = Some (ds, B)"
      "d = DMap (zip (map fst kvs) ds)" "A = insert a B"
    by (auto split: cell.splits if_splits)
  have "B \<subseteq> {..<brk h} \<and> (agree B h h' \<longrightarrow> all_views (view t h') (map snd kvs) = Some (ds, B))"
    by (rule all_views_frame[OF _ kvs(3)]) (use 8(1)[OF kvs(1,2)] in auto)
  then show ?case using kvs by (auto simp: agree_def)
next
  case (12 n t r h n' v kvs)
  then obtain d1 B ds B1 where "n = n'" "view t h v = Some (d1, B)" "view r h (Struct kvs) = Some (DStruct ds, B1)"
      "d = DStruct ((n, d1) # ds)" "A = B \<union> B1"
    by (auto split: if_splits option.splits deep_value.splits)
  with 12(1,2) show ?case by (fastforce simp: agree_def)
qed (auto simp: agree_def split: cell.splits if_splits)

lemma view_kept: "view t h v = Some (d, A) \<Longrightarrow> agree {..<brk h} h h' \<Longrightarrow> view t h' v = Some (d, A)"
  using view_frame[of t h v d A h'] agree_mono by blast

lemma view_bound: "view t h v = Some (d, A) \<Longrightarrow> A \<subseteq> {..<brk h}"
  using view_frame by blast

lemma all_views_kept:
  "all_views (view t h) xs = Some (ds, A) \<Longrightarrow> agree {..<brk h} h h' \<Longrightarrow> all_views (view t h') xs = Some (ds, A)"
  using all_views_frame[of xs "view t h" "{..<brk h}" h h' "view t h'" ds A] view_frame[of t h _ _ _ h'] agree_mono by blast

lemma agree_refl [simp]: "agree A h h"
  by (simp add: agree_def)

lemma agree_trans: "agree {..<brk h} h h1 \<Longrightarrow> agree {..<brk h1} h1 h2 \<Longrightarrow> agree {..<brk h} h h2"
  by (auto simp: agree_def)

lemma agree_alloc: "agree {..<brk h} h (snd (alloc c h))"
  by (auto simp: agree_def alloc_def)

subsection \<open>Deep copies\<close>

text \<open>A copy reads as the original, consists of new cells only, and no old cell is written.\<close>

definition deep :: "gotype \<Rightarrow> copy_fn \<Rightarrow> bool" where
  "deep t f = (\<forall>h v d A. view t h v = Some (d, A) \<longrightarrow>
     (\<exists>v' h' A'. f v h = (v', h') \<and> agree {..<brk h} h h' \<and> view t h' v' = Some (d, A') \<and> A' \<inter> {..<brk h} = {}))"

lemma deepI:
  assumes "\<And>h v d A. view t h v = Some (d, A) \<Longrightarrow>
    \<exists>v' h' A'. f v h = (v', h') \<and> agree {..<brk h} h h' \<and> view t h' v' = Some (d, A') \<and> A' \<inter> {..<brk h} = {}"
  shows "deep t f"
  using assms by (simp add: deep_def)

lemma deepE:
  assumes "deep t f" and "view t h v = Some (d, A)"
  obtains v' h' A' where "f v h = (v', h')" and "agree {..<brk h} h h'" and "view t h' v' = Some (d, A')" and "A' \<inter> {..<brk h} = {}"
  using assms unfolding deep_def by blast

text \<open>Copies one after the other: the first one stays as it is, the second starts from more cells.\<close>

lemma copy_elems_deep:
  assumes "deep t f" and "all_views (view t h) xs = Some (ds, A)"
  shows "\<exists>xs' h' A'. copy_elems f xs h = (xs', h') \<and> agree {..<brk h} h h' \<and> all_views (view t h') xs' = Some (ds, A') \<and>
    A' \<inter> {..<brk h} = {}"
  using assms(2)
proof (induction xs arbitrary: h ds A)
  case (Cons x xs)
  then obtain d B ds1 B1 where x: "view t h x = Some (d, B)" "all_views (view t h) xs = Some (ds1, B1)" "ds = d # ds1"
    by (auto split: option.splits)
  obtain x' h1 C where head: "f x h = (x', h1)" "agree {..<brk h} h h1" "view t h1 x' = Some (d, C)" "C \<inter> {..<brk h} = {}"
    using assms(1) x(1) by (rule deepE)
  obtain xs' h2 C1 where tail: "copy_elems f xs h1 = (xs', h2)" "agree {..<brk h1} h1 h2"
      "all_views (view t h2) xs' = Some (ds1, C1)" "C1 \<inter> {..<brk h1} = {}"
    using Cons.IH[OF all_views_kept[OF x(2) head(2)]] by blast
  have "brk h \<le> brk h1" using head(2) by (simp add: agree_def)
  then have "(C \<union> C1) \<inter> {..<brk h} = {}" using head(4) tail(4) by auto
  then show ?case
    using head(1) tail view_kept[OF head(3) tail(2)] agree_trans[OF head(2) tail(2)] x(3) by simp
qed simp

lemma copy_each_deep:
  assumes "list_all (\<lambda>(n, t). deep t (field_copy gs n)) fs" and "view (TStruct fs) h (Struct kvs) = Some (d, A)"
  shows "\<exists>kvs' h' A'. copy_each gs kvs h = (kvs', h') \<and> agree {..<brk h} h h' \<and>
    view (TStruct fs) h' (Struct kvs') = Some (d, A') \<and> A' \<inter> {..<brk h} = {}"
  using assms
proof (induction fs arbitrary: kvs h d A)
  case Nil
  then show ?case by (cases kvs) (simp_all add: TStruct_def)
next
  case (Cons nt fs)
  obtain n t where nt: "nt = (n, t)" by fastforce
  let ?fs = "TStruct fs"
  have struct: "TStruct (nt # fs) = TField n t ?fs" by (simp add: TStruct_def nt)
  then obtain v kvs1 where kvs: "kvs = (n, v) # kvs1" and "view (TField n t ?fs) h (Struct ((n, v) # kvs1)) = Some (d, A)"
    using Cons.prems(2) by (cases kvs) (auto split: if_splits)
  then obtain d1 B ds B1 where x: "view t h v = Some (d1, B)" "view ?fs h (Struct kvs1) = Some (DStruct ds, B1)"
      "d = DStruct ((n, d1) # ds)"
    by (auto split: option.splits deep_value.splits)
  have "deep t (field_copy gs n)" using Cons.prems(1) nt by simp
  then obtain v' h1 C where head: "field_copy gs n v h = (v', h1)" "agree {..<brk h} h h1" "view t h1 v' = Some (d1, C)"
      "C \<inter> {..<brk h} = {}"
    using x(1) by (rule deepE)
  obtain kvs' h2 C1 where tail: "copy_each gs kvs1 h1 = (kvs', h2)" "agree {..<brk h1} h1 h2"
      "view ?fs h2 (Struct kvs') = Some (DStruct ds, C1)" "C1 \<inter> {..<brk h1} = {}"
    using Cons.IH[OF _ view_kept[OF x(2) head(2)]] Cons.prems(1) by auto
  have "brk h \<le> brk h1" using head(2) by (simp add: agree_def)
  then have "(C \<union> C1) \<inter> {..<brk h} = {}" using head(4) tail(4) by auto
  then show ?case
    using head(1) tail view_kept[OF head(3) tail(2)] agree_trans[OF head(2) tail(2)] x(3) kvs struct by simp
qed

text \<open>A new cell around what was copied.\<close>

lemma deep_alloc:
  assumes "agree {..<brk h} h h1" and "C \<inter> {..<brk h} = {}"
    and "view t (snd (alloc c h1)) (Ref (Some (brk h1))) = Some (d, insert (brk h1) C)"
  shows "\<exists>v' h' A'. alloc c h1 = (v', h') \<and> agree {..<brk h} h h' \<and> view t h' v' = Some (d, A') \<and> A' \<inter> {..<brk h} = {}"
proof -
  have "brk h \<le> brk h1" using assms(1) by (simp add: agree_def)
  then have "insert (brk h1) C \<inter> {..<brk h} = {}" using assms(2) by auto
  moreover have "alloc c h1 = (Ref (Some (brk h1)), snd (alloc c h1))" by (simp add: alloc_def)
  ultimately show ?thesis using assms(3) agree_trans[OF assms(1) agree_alloc] by blast
qed

lemma deep_ptr: "deep t f \<Longrightarrow> deep (TPtr t) (copy_ptr f)"
proof (rule deepI)
  fix h v d A
  assume f: "deep t f" and v: "view (TPtr t) h v = Some (d, A)"
  show "\<exists>v' h' A'. copy_ptr f v h = (v', h') \<and> agree {..<brk h} h h' \<and> view (TPtr t) h' v' = Some (d, A') \<and> A' \<inter> {..<brk h} = {}"
  proof (cases "v = Ref None")
    case False
    then obtain a x d1 B where a: "v = Ref (Some a)" "cells h a = Var x" "view t h x = Some (d1, B)" "d = DPtr d1"
      using v by (cases v; cases "\<exists>a. v = Ref (Some a)") (auto split: cell.splits if_splits)
    obtain x' h1 C where x': "f x h = (x', h1)" "agree {..<brk h} h h1" "view t h1 x' = Some (d1, C)" "C \<inter> {..<brk h} = {}"
      using f a(3) by (rule deepE)
    have "view (TPtr t) (snd (alloc (Var x') h1)) (Ref (Some (brk h1))) = Some (d, insert (brk h1) C)"
      using view_kept[OF x'(3) agree_alloc[of h1 "Var x'"]] a(4) by (simp add: alloc_def)
    from deep_alloc[OF x'(2,4) this] show ?thesis using a x'(1) by (simp add: copy_ptr_def)
  qed (use v in \<open>simp add: copy_ptr_def\<close>)
qed

lemma deep_slice: "deep t f \<Longrightarrow> deep (TSlice t) (copy_slice f)"
proof (rule deepI)
  fix h v d A
  assume f: "deep t f" and v: "view (TSlice t) h v = Some (d, A)"
  show "\<exists>v' h' A'. copy_slice f v h = (v', h') \<and> agree {..<brk h} h h' \<and> view (TSlice t) h' v' = Some (d, A') \<and> A' \<inter> {..<brk h} = {}"
  proof (cases "v = Ref None")
    case False
    then obtain a xs ds B where a: "v = Ref (Some a)" "cells h a = Arr xs" "all_views (view t h) xs = Some (ds, B)" "d = DSlice ds"
      using v by (cases v; cases "\<exists>a. v = Ref (Some a)") (auto split: cell.splits if_splits)
    obtain xs' h1 C where xs': "copy_elems f xs h = (xs', h1)" "agree {..<brk h} h h1" "all_views (view t h1) xs' = Some (ds, C)"
        "C \<inter> {..<brk h} = {}"
      using copy_elems_deep[OF f a(3)] by blast
    have "view (TSlice t) (snd (alloc (Arr xs') h1)) (Ref (Some (brk h1))) = Some (d, insert (brk h1) C)"
      using all_views_kept[OF xs'(3) agree_alloc[of h1 "Arr xs'"]] a(4) by (simp add: alloc_def)
    from deep_alloc[OF xs'(2,4) this] show ?thesis using a xs'(1) by (simp add: copy_slice_def)
  qed (use v in \<open>simp add: copy_slice_def\<close>)
qed

lemma deep_dict: "deep t f \<Longrightarrow> deep (TDict t) (copy_map f)"
proof (rule deepI)
  fix h v d A
  assume f: "deep t f" and v: "view (TDict t) h v = Some (d, A)"
  show "\<exists>v' h' A'. copy_map f v h = (v', h') \<and> agree {..<brk h} h h' \<and> view (TDict t) h' v' = Some (d, A') \<and> A' \<inter> {..<brk h} = {}"
  proof (cases "v = Ref None")
    case False
    then obtain a kvs ds B where a: "v = Ref (Some a)" "cells h a = Dict kvs" "all_views (view t h) (map snd kvs) = Some (ds, B)"
        "d = DMap (zip (map fst kvs) ds)"
      using v by (cases v; cases "\<exists>a. v = Ref (Some a)") (auto split: cell.splits if_splits)
    obtain vs' h1 C where vs': "copy_elems f (map snd kvs) h = (vs', h1)" "agree {..<brk h} h h1"
        "all_views (view t h1) vs' = Some (ds, C)" "C \<inter> {..<brk h} = {}"
      using copy_elems_deep[OF f a(3)] by blast
    have "length kvs = length vs'" using all_views_length[OF a(3)] all_views_length[OF vs'(3)] by simp
    then have "view (TDict t) (snd (alloc (Dict (zip (map fst kvs) vs')) h1)) (Ref (Some (brk h1))) = Some (d, insert (brk h1) C)"
      using all_views_kept[OF vs'(3) agree_alloc[of h1 "Dict (zip (map fst kvs) vs')"]] a(4) by (simp add: alloc_def)
    from deep_alloc[OF vs'(2,4) this] show ?thesis using a vs'(1) by (simp add: copy_map_def)
  qed (use v in \<open>simp add: copy_map_def\<close>)
qed

lemma deep_struct:
  assumes "list_all (\<lambda>(n, t). deep t (field_copy gs n)) fs"
  shows "deep (TStruct fs) (copy_fields gs)"
proof (rule deepI)
  fix h v d A
  assume v: "view (TStruct fs) h v = Some (d, A)"
  then obtain kvs where kvs: "v = Struct kvs"
    by (cases fs; cases v) (auto simp: TStruct_def)
  from copy_each_deep[OF assms v[unfolded kvs]] show "\<exists>v' h' A'. copy_fields gs v h = (v', h') \<and> agree {..<brk h} h h' \<and>
      view (TStruct fs) h' v' = Some (d, A') \<and> A' \<inter> {..<brk h} = {}"
    by (fastforce simp: copy_fields_def kvs)
qed

lemma copy_each_nothing: "copy_each [] kvs h = (kvs, h)"
  by (induction kvs) (auto simp: field_copy_def shallow_def)

lemma copy_fields_nothing: "copy_fields [] = shallow"
  by (auto simp: fun_eq_iff copy_fields_def copy_each_nothing shallow_def split: hval.splits)

text \<open>A plain assignment is a deep copy of a value without references.\<close>

lemma deep_shallow: "deep TScalar shallow" "deep Shared shallow" "list_all (\<lambda>(n, t). deep t shallow) fs \<Longrightarrow> deep (TStruct fs) shallow"
proof -
  show "deep TScalar shallow"
  proof (rule deepI)
    show "\<exists>v' h' A'. shallow v h = (v', h') \<and> agree {..<brk h} h h' \<and> view TScalar h' v' = Some (d, A') \<and> A' \<inter> {..<brk h} = {}"
      if "view TScalar h v = Some (d, A)" for h v d A
      using that by (cases v) (auto simp: shallow_def)
  qed
  show "deep Shared shallow" by (rule deepI) (simp add: shallow_def)
  show "deep (TStruct fs) shallow" if "list_all (\<lambda>(n, t). deep t shallow) fs"
    using deep_struct[of "[]" fs] that by (simp add: copy_fields_nothing field_copy_def)
qed

subsection \<open>The types without references\<close>

definition LogRotate_type :: "gotype" where
  "LogRotate_type = TStruct
    [(''TimeThresholdHrs'', TScalar), (''NumUncompressed'', TScalar), (''NumTotal'', TScalar),
     (''IncludeAuditLogsWithMongoDBLogs'', TScalar)]"

definition LogRotate_DeepCopyInto :: "copy_fn" where
  "LogRotate_DeepCopyInto = shallow"

definition LogRotate_DeepCopy :: "copy_fn" where
  "LogRotate_DeepCopy = copy_ptr LogRotate_DeepCopyInto"

definition CrdLogRotate_type :: gotype where
  "CrdLogRotate_type = TStruct [(''LogRotate'', LogRotate_type), (''SizeThresholdMB'', TScalar), (''PercentOfDiskspace'', TScalar)]"

definition SystemLog_type :: gotype where
  "SystemLog_type = TStruct [(''Destination'', TScalar), (''Path'', TScalar), (''LogAppend'', TScalar)]"

definition LocalObjectReference_type :: gotype where
  "LocalObjectReference_type = TStruct [(''Name'', TScalar)]"

definition TypeMeta_type :: gotype where
  "TypeMeta_type = TStruct [(''Kind'', TScalar), (''APIVersion'', TScalar)]"

definition SecretKeyReference_type :: "gotype" where
  "SecretKeyReference_type = TStruct
    [(''Name'', TScalar), (''Key'', TScalar)]"

definition SecretKeyReference_DeepCopyInto :: "copy_fn" where
  "SecretKeyReference_DeepCopyInto = shallow"

definition SecretKeyReference_DeepCopy :: "copy_fn" where
  "SecretKeyReference_DeepCopy = copy_ptr SecretKeyReference_DeepCopyInto"

definition Role_type :: "gotype" where
  "Role_type = TStruct
    [(''DB'', TScalar), (''Name'', TScalar)]"

definition Role_DeepCopyInto :: "copy_fn" where
  "Role_DeepCopyInto = shallow"

definition Role_DeepCopy :: "copy_fn" where
  "Role_DeepCopy = copy_ptr Role_DeepCopyInto"

definition MongoDBCommunityStatus_type :: "gotype" where
  "MongoDBCommunityStatus_type = TStruct
    [(''MongoURI'', TScalar), (''Phase'', TScalar), (''Version'', TScalar),
     (''CurrentStatefulSetReplicas'', TScalar), (''CurrentMongoDBMembers'', TScalar),
     (''CurrentStatefulSetArbitersReplicas'', TScalar), (''CurrentMongoDBArbiters'', TScalar),
     (''Message'', TScalar)]"

definition MongoDBCommunityStatus_DeepCopyInto :: "copy_fn" where
  "MongoDBCommunityStatus_DeepCopyInto = shallow"

definition MongoDBCommunityStatus_DeepCopy :: "copy_fn" where
  "MongoDBCommunityStatus_DeepCopy = copy_ptr MongoDBCommunityStatus_DeepCopyInto"

definition Prometheus_type :: "gotype" where
  "Prometheus_type = TStruct
    [(''Port'', TScalar), (''Username'', TScalar), (''PasswordSecretRef'', SecretKeyReference_type),
     (''MetricsPath'', TScalar), (''TLSSecretRef'', SecretKeyReference_type)]"

definition Prometheus_DeepCopyInto :: "copy_fn" where
  "Prometheus_DeepCopyInto = copy_fields
    [(''PasswordSecretRef'', shallow), (''TLSSecretRef'', shallow)]"

definition Prometheus_DeepCopy :: "copy_fn" where
  "Prometheus_DeepCopy = copy_ptr Prometheus_DeepCopyInto"

subsection \<open>Pointers, slices and maps\<close>

definition MemberOptions_type :: "gotype" where
  "MemberOptions_type = TStruct
    [(''Votes'', TPtr TScalar), (''Priority'', TPtr TScalar), (''Tags'', TDict TScalar)]"

definition MemberOptions_DeepCopyInto :: "copy_fn" where
  "MemberOptions_DeepCopyInto = copy_fields
    [(''Votes'', copy_ptr shallow), (''Priority'', copy_ptr shallow), (''Tags'', copy_map shallow)]"

definition MemberOptions_DeepCopy :: "copy_fn" where
  "MemberOptions_DeepCopy = copy_ptr MemberOptions_DeepCopyInto"

definition AgentConfiguration_type :: "gotype" where
  "AgentConfiguration_type = TStruct
    [(''LogLevel'', TScalar), (''LogFile'', TScalar), (''MaxLogFileDurationHours'', TScalar),
     (''LogRotate'', TPtr CrdLogRotate_type), (''AuditLogRotate'', TPtr CrdLogRotate_type),
     (''SystemLog'', TPtr SystemLog_type)]"

definition AgentConfiguration_DeepCopyInto :: "copy_fn" where
  "AgentConfiguration_DeepCopyInto = copy_fields
    [(''LogRotate'', copy_ptr shallow), (''AuditLogRotate'', copy_ptr shallow),
     (''SystemLog'', copy_ptr shallow)]"

definition AgentConfiguration_DeepCopy :: "copy_fn" where
  "AgentConfiguration_DeepCopy = copy_ptr AgentConfiguration_DeepCopyInto"

definition Authentication_type :: "gotype" where
  "Authentication_type = TStruct
    [(''Modes'', TSlice TScalar), (''AgentMode'', TScalar),
     (''AgentCertificateSecret'', TPtr LocalObjectReference_type),
     (''IgnoreUnknownUsers'', TPtr TScalar)]"

definition Authentication_DeepCopyInto :: "copy_fn" where
  "Authentication_DeepCopyInto = copy_fields
    [(''Modes'', copy_slice shallow), (''AgentCertificateSecret'', copy_ptr shallow),
     (''IgnoreUnknownUsers'', copy_ptr shallow)]"

definition Authentication_DeepCopy :: "copy_fn" where
  "Authentication_DeepCopy = copy_ptr Authentication_DeepCopyInto"

definition AuthenticationRestriction_type :: "gotype" where
  "AuthenticationRestriction_type = TStruct
    [(''ClientSource'', TSlice TScalar), (''ServerAddress'', TSlice TScalar)]"

definition AuthenticationRestriction_DeepCopyInto :: "copy_fn" where
  "AuthenticationRestriction_DeepCopyInto = copy_fields
    [(''ClientSource'', copy_slice shallow), (''ServerAddress'', copy_slice shallow)]"

definition AuthenticationRestriction_DeepCopy :: "copy_fn" where
  "AuthenticationRestriction_DeepCopy = copy_ptr AuthenticationRestriction_DeepCopyInto"

definition Resource_type :: "gotype" where
  "Resource_type = TStruct
    [(''DB'', TPtr TScalar), (''Collection'', TPtr TScalar), (''Cluster'', TScalar),
     (''AnyResource'', TScalar)]"

definition Resource_DeepCopyInto :: "copy_fn" where
  "Resource_DeepCopyInto = copy_fields
    [(''DB'', copy_ptr shallow), (''Collection'', copy_ptr shallow)]"

definition Resource_DeepCopy :: "copy_fn" where
  "Resource_DeepCopy = copy_ptr Resource_DeepCopyInto"

definition Privilege_type :: "gotype" where
  "Privilege_type = TStruct
    [(''Resource'', Resource_type), (''Actions'', TSlice TScalar)]"

definition Privilege_DeepCopyInto :: "copy_fn" where
  "Privilege_DeepCopyInto = copy_fields
    [(''Resource'', Resource_DeepCopyInto), (''Actions'', copy_slice shallow)]"

definition Privilege_DeepCopy :: "copy_fn" where
  "Privilege_DeepCopy = copy_ptr Privilege_DeepCopyInto"

definition CustomRole_type :: "gotype" where
  "CustomRole_type = TStruct
    [(''Role'', TScalar), (''DB'', TScalar), (''Privileges'', TSlice Privilege_type),
     (''Roles'', TSlice Role_type),
     (''AuthenticationRestrictions'', TSlice AuthenticationRestriction_type)]"

definition CustomRole_DeepCopyInto :: "copy_fn" where
  "CustomRole_DeepCopyInto = copy_fields
    [(''Privileges'', copy_slice Privilege_DeepCopyInto), (''Roles'', copy_slice shallow),
     (''AuthenticationRestrictions'', copy_slice AuthenticationRestriction_DeepCopyInto)]"

definition CustomRole_DeepCopy :: "copy_fn" where
  "CustomRole_DeepCopy = copy_ptr CustomRole_DeepCopyInto"

definition TLS_type :: "gotype" where
  "TLS_type = TStruct
    [(''Enabled'', TScalar), (''Optional'', TScalar),
     (''CertificateKeySecret'', LocalObjectReference_type),
     (''CaCertificateSecret'', TPtr LocalObjectReference_type),
     (''CaConfigMap'', TPtr LocalObjectReference_type)]"

definition TLS_DeepCopyInto :: "copy_fn" where
  "TLS_DeepCopyInto = copy_fields
    [(''CertificateKeySecret'', shallow), (''CaCertificateSecret'', copy_ptr shallow),
     (''CaConfigMap'', copy_ptr shallow)]"

definition TLS_DeepCopy :: "copy_fn" where
  "TLS_DeepCopy = copy_ptr TLS_DeepCopyInto"

definition Security_type :: "gotype" where
  "Security_type = TStruct
    [(''Authentication'', Authentication_type), (''TLS'', TLS_type),
     (''Roles'', TSlice CustomRole_type)]"

definition Security_DeepCopyInto :: "copy_fn" where
  "Security_DeepCopyInto = copy_fields
    [(''Authentication'', Authentication_DeepCopyInto), (''TLS'', TLS_DeepCopyInto),
     (''Roles'', copy_slice CustomRole_DeepCopyInto)]"

definition Security_DeepCopy :: "copy_fn" where
  "Security_DeepCopy = copy_ptr Security_DeepCopyInto"

definition OverrideProcess_type :: "gotype" where
  "OverrideProcess_type = TStruct
    [(''Name'', TScalar), (''Disabled'', TScalar), (''LogRotate'', TPtr CrdLogRotate_type)]"

definition OverrideProcess_DeepCopyInto :: "copy_fn" where
  "OverrideProcess_DeepCopyInto = copy_fields
    [(''LogRotate'', copy_ptr shallow)]"

definition OverrideProcess_DeepCopy :: "copy_fn" where
  "OverrideProcess_DeepCopy = copy_ptr OverrideProcess_DeepCopyInto"

definition ReplicaSetHorizonConfiguration_type :: gotype where
  "ReplicaSetHorizonConfiguration_type = TSlice (TDict TScalar)"

text \<open>The slice is made even when the receiver is \<open>nil\<close>; \<open>DeepCopy\<close> does not get there then.\<close>

definition ReplicaSetHorizonConfiguration_DeepCopyInto :: copy_fn where
  "ReplicaSetHorizonConfiguration_DeepCopyInto v h =
    (if v = Ref None then alloc (Arr []) h else copy_slice (copy_map shallow) v h)"

definition ReplicaSetHorizonConfiguration_DeepCopy :: copy_fn where
  "ReplicaSetHorizonConfiguration_DeepCopy v h =
    (if v = Ref None then (Ref None, h) else ReplicaSetHorizonConfiguration_DeepCopyInto v h)"

subsection \<open>Wrappers\<close>

text \<open>Third-party copies: of an untyped map, of the metadata of an object, of the metadata of a list.\<close>

record k8s_copies =
  DeepCopyJSON :: copy_fn
  ObjectMeta_DeepCopyInto :: copy_fn
  ListMeta_DeepCopyInto :: copy_fn

text \<open>\<open>DeepCopyInto\<close> of a wrapper calls its hand-written \<open>DeepCopy\<close>: a \<open>nil\<close> map becomes an empty one, and the
  wrappers of the StatefulSet are copied by assignment.  The types of what they hold are parameters.\<close>

definition MapWrapper_type :: gotype where
  "MapWrapper_type = TStruct [(''Object'', TJson)]"

definition MapWrapper_clone :: "k8s_copies \<Rightarrow> copy_fn" where
  "MapWrapper_clone ks v h = (if v = Ref None then alloc (Json []) h else DeepCopyJSON ks v h)"

definition MapWrapper_DeepCopyInto :: "k8s_copies \<Rightarrow> copy_fn" where
  "MapWrapper_DeepCopyInto ks = copy_fields [(''Object'', MapWrapper_clone ks)]"

definition StatefulSetMetadataWrapper_type :: "gotype \<Rightarrow> gotype" where
  "StatefulSetMetadataWrapper_type labels = TStruct [(''Labels'', labels), (''Annotations'', labels)]"

definition StatefulSetMetadataWrapper_DeepCopyInto :: copy_fn where
  "StatefulSetMetadataWrapper_DeepCopyInto = copy_fields [(''Labels'', shallow), (''Annotations'', shallow)]"

definition StatefulSetSpecWrapper_type :: "gotype \<Rightarrow> gotype" where
  "StatefulSetSpecWrapper_type spec = TStruct [(''Spec'', spec)]"

definition StatefulSetSpecWrapper_DeepCopyInto :: copy_fn where
  "StatefulSetSpecWrapper_DeepCopyInto = copy_fields [(''Spec'', shallow)]"

definition StatefulSetConfiguration_type :: "gotype \<Rightarrow> gotype \<Rightarrow> gotype" where
  "StatefulSetConfiguration_type spec labels = TStruct
    [(''SpecWrapper'', StatefulSetSpecWrapper_type spec),
     (''MetadataWrapper'', StatefulSetMetadataWrapper_type labels)]"

definition StatefulSetConfiguration_DeepCopyInto :: "copy_fn" where
  "StatefulSetConfiguration_DeepCopyInto = copy_fields
    [(''SpecWrapper'', StatefulSetSpecWrapper_DeepCopyInto),
     (''MetadataWrapper'', StatefulSetMetadataWrapper_DeepCopyInto)]"

definition StatefulSetConfiguration_DeepCopy :: "copy_fn" where
  "StatefulSetConfiguration_DeepCopy = copy_ptr StatefulSetConfiguration_DeepCopyInto"

definition MongodConfiguration_type :: "gotype" where
  "MongodConfiguration_type = TStruct
    [(''MapWrapper'', MapWrapper_type)]"

definition MongodConfiguration_DeepCopyInto :: "k8s_copies \<Rightarrow> copy_fn" where
  "MongodConfiguration_DeepCopyInto ks = copy_fields
    [(''MapWrapper'', MapWrapper_DeepCopyInto ks)]"

definition MongodConfiguration_DeepCopy :: "k8s_copies \<Rightarrow> copy_fn" where
  "MongodConfiguration_DeepCopy ks = copy_ptr (MongodConfiguration_DeepCopyInto ks)"

definition OverrideReplicaSet_type :: "gotype" where
  "OverrideReplicaSet_type = TStruct
    [(''Id'', TPtr TScalar), (''Settings'', MapWrapper_type)]"

definition OverrideReplicaSet_DeepCopyInto :: "k8s_copies \<Rightarrow> copy_fn" where
  "OverrideReplicaSet_DeepCopyInto ks = copy_fields
    [(''Id'', copy_ptr shallow), (''Settings'', MapWrapper_DeepCopyInto ks)]"

definition OverrideReplicaSet_DeepCopy :: "k8s_copies \<Rightarrow> copy_fn" where
  "OverrideReplicaSet_DeepCopy ks = copy_ptr (OverrideReplicaSet_DeepCopyInto ks)"

definition AutomationConfigOverride_type :: "gotype" where
  "AutomationConfigOverride_type = TStruct
    [(''Processes'', TSlice OverrideProcess_type), (''ReplicaSet'', OverrideReplicaSet_type)]"

definition AutomationConfigOverride_DeepCopyInto :: "k8s_copies \<Rightarrow> copy_fn" where
  "AutomationConfigOverride_DeepCopyInto ks = copy_fields
    [(''Processes'', copy_slice OverrideProcess_DeepCopyInto),
     (''ReplicaSet'', OverrideReplicaSet_DeepCopyInto ks)]"

definition AutomationConfigOverride_DeepCopy :: "k8s_copies \<Rightarrow> copy_fn" where
  "AutomationConfigOverride_DeepCopy ks = copy_ptr (AutomationConfigOverride_DeepCopyInto ks)"

definition MongoDBUser_type :: "gotype" where
  "MongoDBUser_type = TStruct
    [(''Name'', TScalar), (''DB'', TScalar), (''PasswordSecretRef'', SecretKeyReference_type),
     (''Roles'', TSlice Role_type), (''ScramCredentialsSecretName'', TScalar),
     (''ConnectionStringSecretName'', TScalar), (''ConnectionStringSecretNamespace'', TScalar),
     (''AdditionalConnectionStringConfig'', MapWrapper_type)]"

definition MongoDBUser_DeepCopyInto :: "k8s_copies \<Rightarrow> copy_fn" where
  "MongoDBUser_DeepCopyInto ks = copy_fields
    [(''PasswordSecretRef'', shallow), (''Roles'', copy_slice shallow),
     (''AdditionalConnectionStringConfig'', MapWrapper_DeepCopyInto ks)]"

definition MongoDBUser_DeepCopy :: "k8s_copies \<Rightarrow> copy_fn" where
  "MongoDBUser_DeepCopy ks = copy_ptr (MongoDBUser_DeepCopyInto ks)"

subsection \<open>The resource\<close>

definition MongoDBCommunitySpec_type :: "gotype \<Rightarrow> gotype \<Rightarrow> gotype" where
  "MongoDBCommunitySpec_type spec labels = TStruct
    [(''Members'', TScalar), (''Type'', TScalar), (''Version'', TScalar), (''Arbiters'', TScalar),
     (''FeatureCompatibilityVersion'', TScalar),
     (''ReplicaSetHorizons'', ReplicaSetHorizonConfiguration_type), (''Security'', Security_type),
     (''Users'', TSlice MongoDBUser_type),
     (''StatefulSetConfiguration'', StatefulSetConfiguration_type spec labels),
     (''AgentConfiguration'', AgentConfiguration_type),
     (''AdditionalMongodConfig'', MongodConfiguration_type),
     (''AutomationConfigOverride'', TPtr AutomationConfigOverride_type),
     (''Prometheus'', TPtr Prometheus_type), (''AdditionalConnectionStringConfig'', MapWrapper_type),
     (''MemberConfig'', TSlice MemberOptions_type)]"

definition MongoDBCommunitySpec_DeepCopyInto :: "k8s_copies \<Rightarrow> copy_fn" where
  "MongoDBCommunitySpec_DeepCopyInto ks = copy_fields
    [(''ReplicaSetHorizons'', copy_slice (copy_map shallow)), (''Security'', Security_DeepCopyInto),
     (''Users'', copy_slice (MongoDBUser_DeepCopyInto ks)),
     (''StatefulSetConfiguration'', StatefulSetConfiguration_DeepCopyInto),
     (''AgentConfiguration'', AgentConfiguration_DeepCopyInto),
     (''AdditionalMongodConfig'', MongodConfiguration_DeepCopyInto ks),
     (''AutomationConfigOverride'', copy_ptr (AutomationConfigOverride_DeepCopyInto ks)),
     (''Prometheus'', copy_ptr shallow),
     (''AdditionalConnectionStringConfig'', MapWrapper_DeepCopyInto ks),
     (''MemberConfig'', copy_slice MemberOptions_DeepCopyInto)]"

definition MongoDBCommunitySpec_DeepCopy :: "k8s_copies \<Rightarrow> copy_fn" where
  "MongoDBCommunitySpec_DeepCopy ks = copy_ptr (MongoDBCommunitySpec_DeepCopyInto ks)"

definition MongoDBCommunity_type :: "gotype \<Rightarrow> gotype \<Rightarrow> gotype \<Rightarrow> gotype" where
  "MongoDBCommunity_type meta spec labels = TStruct
    [(''TypeMeta'', TypeMeta_type), (''ObjectMeta'', meta),
     (''Spec'', MongoDBCommunitySpec_type spec labels), (''Status'', MongoDBCommunityStatus_type)]"

definition MongoDBCommunity_DeepCopyInto :: "k8s_copies \<Rightarrow> copy_fn" where
  "MongoDBCommunity_DeepCopyInto ks = copy_fields
    [(''TypeMeta'', shallow), (''ObjectMeta'', ObjectMeta_DeepCopyInto ks),
     (''Spec'', MongoDBCommunitySpec_DeepCopyInto ks), (''Status'', shallow)]"

definition MongoDBCommunity_DeepCopy :: "k8s_copies \<Rightarrow> copy_fn" where
  "MongoDBCommunity_DeepCopy ks = copy_ptr (MongoDBCommunity_DeepCopyInto ks)"

definition MongoDBCommunity_DeepCopyObject :: "k8s_copies \<Rightarrow> copy_fn" where
  "MongoDBCommunity_DeepCopyObject ks v h =
    (case MongoDBCommunity_DeepCopy ks v h of (c, h1) \<Rightarrow> if c \<noteq> Ref None then (c, h1) else (Ref None, h1))"

definition MongoDBCommunityList_type :: "gotype \<Rightarrow> gotype \<Rightarrow> gotype \<Rightarrow> gotype \<Rightarrow> gotype" where
  "MongoDBCommunityList_type listMeta meta spec labels = TStruct
    [(''TypeMeta'', TypeMeta_type), (''ListMeta'', listMeta),
     (''Items'', TSlice (MongoDBCommunity_type meta spec labels))]"

definition MongoDBCommunityList_DeepCopyInto :: "k8s_copies \<Rightarrow> copy_fn" where
  "MongoDBCommunityList_DeepCopyInto ks = copy_fields
    [(''TypeMeta'', shallow), (''ListMeta'', ListMeta_DeepCopyInto ks),
     (''Items'', copy_slice (MongoDBCommunity_DeepCopyInto ks))]"

definition MongoDBCommunityList_DeepCopy :: "k8s_copies \<Rightarrow> copy_fn" where
  "MongoDBCommunityList_DeepCopy ks = copy_ptr (MongoDBCommunityList_DeepCopyInto ks)"

definition MongoDBCommunityList_DeepCopyObject :: "k8s_copies \<Rightarrow> copy_fn" where
  "MongoDBCommunityList_DeepCopyObject ks v h =
    (case MongoDBCommunityList_DeepCopy ks v h of (c, h1) \<Rightarrow> if c \<noteq> Ref None then (c, h1) else (Ref None, h1))"

subsection \<open>All of them are deep\<close>

lemmas deep_rules = deep_struct deep_shallow deep_ptr deep_slice deep_dict field_copy_def

lemma plain_types:
  "deep LogRotate_type shallow" "deep CrdLogRotate_type shallow" "deep SystemLog_type shallow" "deep LocalObjectReference_type shallow"
  "deep TypeMeta_type shallow" "deep SecretKeyReference_type shallow" "deep Role_type shallow"
  "deep MongoDBCommunityStatus_type shallow"
  by (simp_all add: LogRotate_type_def CrdLogRotate_type_def SystemLog_type_def LocalObjectReference_type_def TypeMeta_type_def
      SecretKeyReference_type_def Role_type_def MongoDBCommunityStatus_type_def deep_rules)

lemma plain_copies:
  "deep LogRotate_type LogRotate_DeepCopyInto" "deep SecretKeyReference_type SecretKeyReference_DeepCopyInto"
  "deep Role_type Role_DeepCopyInto" "deep MongoDBCommunityStatus_type MongoDBCommunityStatus_DeepCopyInto"
  by (simp_all add: plain_types LogRotate_DeepCopyInto_def SecretKeyReference_DeepCopyInto_def Role_DeepCopyInto_def
      MongoDBCommunityStatus_DeepCopyInto_def)

lemma prometheus_copy: "deep Prometheus_type shallow" "deep Prometheus_type Prometheus_DeepCopyInto"
  by (simp_all add: Prometheus_type_def Prometheus_DeepCopyInto_def deep_rules plain_types)

lemma flat_copies:
  "deep MemberOptions_type MemberOptions_DeepCopyInto" "deep AgentConfiguration_type AgentConfiguration_DeepCopyInto"
  "deep Authentication_type Authentication_DeepCopyInto" "deep AuthenticationRestriction_type AuthenticationRestriction_DeepCopyInto"
  "deep Resource_type Resource_DeepCopyInto" "deep TLS_type TLS_DeepCopyInto" "deep OverrideProcess_type OverrideProcess_DeepCopyInto"
  "deep ReplicaSetHorizonConfiguration_type (copy_slice (copy_map shallow))"
  by (simp_all add: MemberOptions_type_def MemberOptions_DeepCopyInto_def AgentConfiguration_type_def AgentConfiguration_DeepCopyInto_def
      Authentication_type_def Authentication_DeepCopyInto_def AuthenticationRestriction_type_def
      AuthenticationRestriction_DeepCopyInto_def Resource_type_def Resource_DeepCopyInto_def TLS_type_def TLS_DeepCopyInto_def
      OverrideProcess_type_def OverrideProcess_DeepCopyInto_def ReplicaSetHorizonConfiguration_type_def deep_rules plain_types)

lemma security_copies:
  "deep Privilege_type Privilege_DeepCopyInto" "deep CustomRole_type CustomRole_DeepCopyInto" "deep Security_type Security_DeepCopyInto"
proof -
  show priv: "deep Privilege_type Privilege_DeepCopyInto"
    by (simp add: Privilege_type_def Privilege_DeepCopyInto_def deep_rules flat_copies)
  show role: "deep CustomRole_type CustomRole_DeepCopyInto"
    by (simp add: CustomRole_type_def CustomRole_DeepCopyInto_def deep_rules flat_copies plain_types priv)
  show "deep Security_type Security_DeepCopyInto"
    by (simp add: Security_type_def Security_DeepCopyInto_def deep_rules flat_copies role)
qed

lemma horizons_copy: "deep ReplicaSetHorizonConfiguration_type ReplicaSetHorizonConfiguration_DeepCopy"
proof (rule deepI)
  fix h v d A assume "view ReplicaSetHorizonConfiguration_type h v = Some (d, A)"
  then show "\<exists>v' h' A'. ReplicaSetHorizonConfiguration_DeepCopy v h = (v', h') \<and> agree {..<brk h} h h' \<and>
      view ReplicaSetHorizonConfiguration_type h' v' = Some (d, A') \<and> A' \<inter> {..<brk h} = {}"
  proof (cases "v = Ref None")
    case False
    then have "ReplicaSetHorizonConfiguration_DeepCopy v h = copy_slice (copy_map shallow) v h"
      by (simp add: ReplicaSetHorizonConfiguration_DeepCopy_def ReplicaSetHorizonConfiguration_DeepCopyInto_def)
    then show ?thesis using deepE[OF flat_copies(8) \<open>view _ h v = _\<close>] by metis
  qed (simp add: ReplicaSetHorizonConfiguration_DeepCopy_def ReplicaSetHorizonConfiguration_type_def)
qed

text \<open>With the overrides of the StatefulSet taken as they are.\<close>

abbreviation "overrides_type \<equiv> StatefulSetConfiguration_type Shared Shared"

lemma overrides_copy: "deep overrides_type StatefulSetConfiguration_DeepCopyInto"
  by (simp add: StatefulSetConfiguration_type_def StatefulSetConfiguration_DeepCopyInto_def StatefulSetSpecWrapper_type_def
      StatefulSetSpecWrapper_DeepCopyInto_def StatefulSetMetadataWrapper_type_def StatefulSetMetadataWrapper_DeepCopyInto_def deep_rules)

locale k8s_copying =
  fixes ks :: k8s_copies and meta listMeta :: gotype
  assumes json: "deep TJson (DeepCopyJSON ks)"
    and meta_copy: "deep meta (ObjectMeta_DeepCopyInto ks)"
    and listMeta_copy: "deep listMeta (ListMeta_DeepCopyInto ks)"
begin

lemma map_copy: "deep MapWrapper_type (MapWrapper_DeepCopyInto ks)"
proof -
  have "deep TJson (MapWrapper_clone ks)"
  proof (rule deepI)
    fix h v d A assume v: "view TJson h v = Some (d, A)"
    show "\<exists>v' h' A'. MapWrapper_clone ks v h = (v', h') \<and> agree {..<brk h} h h' \<and> view TJson h' v' = Some (d, A') \<and> A' \<inter> {..<brk h} = {}"
    proof (cases "v = Ref None")
      case True
      have "view TJson (snd (alloc (Json []) h)) (Ref (Some (brk h))) = Some (d, insert (brk h) {})"
        using v True by (simp add: alloc_def)
      from deep_alloc[OF agree_refl _ this] True show ?thesis by (simp add: MapWrapper_clone_def)
    next
      case False
      then show ?thesis using deepE[OF json v] by (metis MapWrapper_clone_def)
    qed
  qed
  then show ?thesis by (simp add: MapWrapper_type_def MapWrapper_DeepCopyInto_def deep_rules)
qed

lemma wrapper_copies:
  "deep MongodConfiguration_type (MongodConfiguration_DeepCopyInto ks)" "deep OverrideReplicaSet_type (OverrideReplicaSet_DeepCopyInto ks)"
  "deep MongoDBUser_type (MongoDBUser_DeepCopyInto ks)" "deep AutomationConfigOverride_type (AutomationConfigOverride_DeepCopyInto ks)"
proof -
  show "deep MongodConfiguration_type (MongodConfiguration_DeepCopyInto ks)"
    by (simp add: MongodConfiguration_type_def MongodConfiguration_DeepCopyInto_def deep_rules map_copy)
  show rs: "deep OverrideReplicaSet_type (OverrideReplicaSet_DeepCopyInto ks)"
    by (simp add: OverrideReplicaSet_type_def OverrideReplicaSet_DeepCopyInto_def deep_rules map_copy)
  show "deep MongoDBUser_type (MongoDBUser_DeepCopyInto ks)"
    by (simp add: MongoDBUser_type_def MongoDBUser_DeepCopyInto_def deep_rules map_copy plain_types)
  show "deep AutomationConfigOverride_type (AutomationConfigOverride_DeepCopyInto ks)"
    by (simp add: AutomationConfigOverride_type_def AutomationConfigOverride_DeepCopyInto_def deep_rules rs flat_copies)
qed

lemma spec_copy: "deep (MongoDBCommunitySpec_type Shared Shared) (MongoDBCommunitySpec_DeepCopyInto ks)"
  by (simp add: MongoDBCommunitySpec_type_def MongoDBCommunitySpec_DeepCopyInto_def deep_rules map_copy wrapper_copies
      flat_copies security_copies overrides_copy prometheus_copy)

lemma resource_copy: "deep (MongoDBCommunity_type meta Shared Shared) (MongoDBCommunity_DeepCopyInto ks)"
  by (simp add: MongoDBCommunity_type_def MongoDBCommunity_DeepCopyInto_def deep_rules spec_copy meta_copy plain_types)

lemma list_copy: "deep (MongoDBCommunityList_type listMeta meta Shared Shared) (MongoDBCommunityList_DeepCopyInto ks)"
  by (simp add: MongoDBCommunityList_type_def MongoDBCommunityList_DeepCopyInto_def deep_rules resource_copy listMeta_copy plain_types)

end

subsection \<open>Copies of metadata and options\<close>

text \<open>An instance of the third-party copies, on metadata with a name and labels.\<close>

definition demo_meta :: gotype where
  "demo_meta = TStruct [(''Name'', TScalar), (''Labels'', TDict TScalar)]"

definition demo_DeepCopyJSON :: copy_fn where
  "demo_DeepCopyJSON v h = (case v of
      Ref (Some a) \<Rightarrow> (case cells h a of Json m \<Rightarrow> alloc (Json m) h | _ \<Rightarrow> (v, h))
    | _ \<Rightarrow> (v, h))"

definition demo_copies :: k8s_copies where
  "demo_copies = \<lparr>DeepCopyJSON = demo_DeepCopyJSON, ObjectMeta_DeepCopyInto = copy_fields [(''Labels'', copy_map shallow)],
     ListMeta_DeepCopyInto = shallow\<rparr>"

lemma demo_json: "deep TJson demo_DeepCopyJSON"
proof (rule deepI)
  fix h v d A assume v: "view TJson h v = Some (d, A)"
  show "\<exists>v' h' A'. demo_DeepCopyJSON v h = (v', h') \<and> agree {..<brk h} h h' \<and> view TJson h' v' = Some (d, A') \<and> A' \<inter> {..<brk h} = {}"
  proof (cases "v = Ref None")
    case False
    then obtain a m where a: "v = Ref (Some a)" "cells h a = Json m" "d = DJson m"
      using v by (cases v; cases "\<exists>a. v = Ref (Some a)") (auto split: cell.splits if_splits)
    have "view TJson (snd (alloc (Json m) h)) (Ref (Some (brk h))) = Some (d, insert (brk h) {})" by (simp add: alloc_def a)
    from deep_alloc[OF agree_refl _ this] show ?thesis by (simp add: demo_DeepCopyJSON_def a)
  qed (use v in \<open>simp add: demo_DeepCopyJSON_def\<close>)
qed

interpretation demo: k8s_copying demo_copies demo_meta TScalar
  by unfold_locales (simp_all add: demo_copies_def demo_json demo_meta_def deep_rules)

subsection \<open>Properties\<close>

text \<open>Two values without common cells: whatever is written to the one, the other reads as before.\<close>

lemma deep_separate:
  assumes "deep t f" and "view (TPtr t) h v = Some (d, A)"
  shows "\<exists>v' h' A'. copy_ptr f v h = (v', h') \<and> view (TPtr t) h' v' = Some (d, A') \<and> A \<inter> A' = {} \<and>
    (\<forall>h''. agree A' h' h'' \<longrightarrow> view (TPtr t) h'' v' = Some (d, A')) \<and> (\<forall>h''. agree A h' h'' \<longrightarrow> view (TPtr t) h'' v = Some (d, A))"
proof -
  obtain v' h' A' where copy: "copy_ptr f v h = (v', h')" "agree {..<brk h} h h'" "view (TPtr t) h' v' = Some (d, A')"
      "A' \<inter> {..<brk h} = {}"
    using deep_ptr[OF assms(1)] assms(2) by (rule deepE)
  have "A \<inter> A' = {}" using view_bound[OF assms(2)] copy(4) by blast
  moreover note view_frame[OF view_kept[OF assms(2) copy(2)]] view_frame[OF copy(3)]
  ultimately show ?thesis using copy(1,3) by blast
qed

text \<open>C22: \<open>DeepCopy\<close> of a resource returns a resource with the same content, up to addresses, that shares no
  memory with the original: whatever is written to either of them afterwards, the other one reads as
  before.  The overrides of the StatefulSet are left out; their references are copied as they are.\<close>

theorem resource_DeepCopy_is_separate:
  assumes "k8s_copying ks meta listMeta" and "view (TPtr (MongoDBCommunity_type meta Shared Shared)) h v = Some (d, A)"
  shows "\<exists>v' h' A'. MongoDBCommunity_DeepCopy ks v h = (v', h') \<and>
    view (TPtr (MongoDBCommunity_type meta Shared Shared)) h' v' = Some (d, A') \<and> A \<inter> A' = {} \<and>
    (\<forall>h''. agree A' h' h'' \<longrightarrow> view (TPtr (MongoDBCommunity_type meta Shared Shared)) h'' v' = Some (d, A')) \<and>
    (\<forall>h''. agree A h' h'' \<longrightarrow> view (TPtr (MongoDBCommunity_type meta Shared Shared)) h'' v = Some (d, A))"
  unfolding MongoDBCommunity_DeepCopy_def using k8s_copying.resource_copy[OF assms(1)] assms(2) by (rule deep_separate)

text \<open>A resource with one user, one auth mode and options for \<open>mongod\<close>.\<close>

definition demo_user_value :: hval where
  "demo_user_value = Struct [(''Name'', Scalar (VStr ''ann'')), (''DB'', Scalar (VStr ''admin'')),
     (''PasswordSecretRef'', Struct [(''Name'', Scalar (VStr ''ann-password'')), (''Key'', Scalar (VStr ''''))]),
     (''Roles'', Ref None), (''ScramCredentialsSecretName'', Scalar (VStr ''ann'')),
     (''ConnectionStringSecretName'', Scalar (VStr '''')), (''ConnectionStringSecretNamespace'', Scalar (VStr '''')),
     (''AdditionalConnectionStringConfig'', Struct [(''Object'', Ref None)])]"

definition demo_security_value :: hval where
  "demo_security_value = Struct [
     (''Authentication'', Struct [(''Modes'', Ref (Some 2)), (''AgentMode'', Scalar (VStr '''')),
        (''AgentCertificateSecret'', Ref None), (''IgnoreUnknownUsers'', Ref None)]),
     (''TLS'', Struct [(''Enabled'', Scalar (VBool False)), (''Optional'', Scalar (VBool False)),
        (''CertificateKeySecret'', Struct [(''Name'', Scalar (VStr ''''))]), (''CaCertificateSecret'', Ref None), (''CaConfigMap'', Ref None)]),
     (''Roles'', Ref None)]"

definition demo_spec_value :: hval where
  "demo_spec_value = Struct [(''Members'', Scalar (VInt 3)), (''Type'', Scalar (VStr ''ReplicaSet'')), (''Version'', Scalar (VStr ''6.0.5'')),
     (''Arbiters'', Scalar (VInt 0)), (''FeatureCompatibilityVersion'', Scalar (VStr '''')), (''ReplicaSetHorizons'', Ref None),
     (''Security'', demo_security_value), (''Users'', Ref (Some 1)),
     (''StatefulSetConfiguration'', Struct [(''SpecWrapper'', Struct [(''Spec'', Ref None)]),
        (''MetadataWrapper'', Struct [(''Labels'', Ref (Some 4)), (''Annotations'', Ref None)])]),
     (''AgentConfiguration'', Struct [(''LogLevel'', Scalar (VStr '''')), (''LogFile'', Scalar (VStr '''')),
        (''MaxLogFileDurationHours'', Scalar (VInt 0)), (''LogRotate'', Ref None), (''AuditLogRotate'', Ref None), (''SystemLog'', Ref None)]),
     (''AdditionalMongodConfig'', Struct [(''MapWrapper'', Struct [(''Object'', Ref (Some 3))])]),
     (''AutomationConfigOverride'', Ref None), (''Prometheus'', Ref None),
     (''AdditionalConnectionStringConfig'', Struct [(''Object'', Ref None)]), (''MemberConfig'', Ref None)]"

definition demo_resource_value :: hval where
  "demo_resource_value = Struct [(''TypeMeta'', Struct [(''Kind'', Scalar (VStr ''MongoDBCommunity'')), (''APIVersion'', Scalar (VStr ''v1''))]),
     (''ObjectMeta'', Struct [(''Name'', Scalar (VStr ''mdb'')), (''Labels'', Ref None)]), (''Spec'', demo_spec_value),
     (''Status'', Struct [(''MongoURI'', Scalar (VStr '''')), (''Phase'', Scalar (VStr '''')), (''Version'', Scalar (VStr '''')),
        (''CurrentStatefulSetReplicas'', Scalar (VInt 0)), (''CurrentMongoDBMembers'', Scalar (VInt 0)),
        (''CurrentStatefulSetArbitersReplicas'', Scalar (VInt 0)), (''CurrentMongoDBArbiters'', Scalar (VInt 0)),
        (''Message'', Scalar (VStr ''''))])]"

definition demo_heap :: go_heap where
  "demo_heap = \<lparr>cells = (\<lambda>_. Json [])(0 := Var demo_resource_value, 1 := Arr [demo_user_value], 2 := Arr [Scalar (VStr ''SCRAM'')],
     3 := Json [(''net.port'', VInt 27018)], 4 := Dict [(''team'', Scalar (VStr ''a''))]), brk = 5\<rparr>"

lemma demo_view:
  "\<exists>d. view (TPtr (MongoDBCommunity_type demo_meta Shared Shared)) demo_heap (Ref (Some 0)) = Some (d, {0, 1, 2, 3})"
proof -
  have "map_option snd (view (TPtr (MongoDBCommunity_type demo_meta Shared Shared)) demo_heap (Ref (Some 0))) = Some {0, 1, 2, 3}"
    by code_simp
  then show ?thesis by auto
qed

theorem resource_DeepCopy_is_separate_witness:
  "\<exists>v' h' d A'. MongoDBCommunity_DeepCopy demo_copies (Ref (Some 0)) demo_heap = (v', h') \<and>
     view (TPtr (MongoDBCommunity_type demo_meta Shared Shared)) demo_heap (Ref (Some 0)) = Some (d, {0, 1, 2, 3}) \<and>
     view (TPtr (MongoDBCommunity_type demo_meta Shared Shared)) (h'\<lparr>cells := (cells h')(3 := Json [])\<rparr>) v' = Some (d, A')"
proof -
  obtain d where v: "view (TPtr (MongoDBCommunity_type demo_meta Shared Shared)) demo_heap (Ref (Some 0)) = Some (d, {0, 1, 2, 3})"
    using demo_view by blast
  from resource_DeepCopy_is_separate[OF demo.k8s_copying_axioms v] obtain v' h' A'
    where copy: "MongoDBCommunity_DeepCopy demo_copies (Ref (Some 0)) demo_heap = (v', h')" "{0, 1, 2, 3} \<inter> A' = {}"
      "\<forall>h''. agree A' h' h'' \<longrightarrow> view (TPtr (MongoDBCommunity_type demo_meta Shared Shared)) h'' v' = Some (d, A')"
    by blast
  have "agree A' h' (h'\<lparr>cells := (cells h')(3 := Json [])\<rparr>)" using copy(2) by (auto simp: agree_def)
  then show ?thesis using v copy(1,3) by blast
qed

text \<open>The same for lists of resources, and for the copies behind the interface \<open>runtime.Object\<close>, which only
  take care of a \<open>nil\<close> result.\<close>

theorem list_DeepCopy_is_separate:
  assumes "k8s_copying ks meta listMeta" and "view (TPtr (MongoDBCommunityList_type listMeta meta Shared Shared)) h v = Some (d, A)"
  shows "\<exists>v' h' A'. MongoDBCommunityList_DeepCopy ks v h = (v', h') \<and>
    view (TPtr (MongoDBCommunityList_type listMeta meta Shared Shared)) h' v' = Some (d, A') \<and> A \<inter> A' = {}"
  unfolding MongoDBCommunityList_DeepCopy_def
  using deep_separate[OF k8s_copying.list_copy[OF assms(1)] assms(2)] by blast

theorem DeepCopyObject_is_DeepCopy:
  "MongoDBCommunity_DeepCopyObject ks = MongoDBCommunity_DeepCopy ks"
  "MongoDBCommunityList_DeepCopyObject ks = MongoDBCommunityList_DeepCopy ks"
  by (auto simp: fun_eq_iff MongoDBCommunity_DeepCopyObject_def MongoDBCommunityList_DeepCopyObject_def split: prod.splits)

subsection \<open>The overrides of the StatefulSet\<close>

lemma copy_fields_id:
  assumes "list_all (\<lambda>(n, g). \<forall>v h. g v h = (v, h)) gs"
  shows "copy_fields gs v h = (v, h)"
proof -
  have field: "field_copy gs n v h = (v, h)" for n v h
    using assms by (auto simp: field_copy_def shallow_def list_all_iff split: option.splits dest!: map_of_SomeD)
  have "copy_each gs kvs h = (kvs, h)" for kvs by (induction kvs) (auto simp: field)
  then show ?thesis by (auto simp: copy_fields_def split: hval.splits)
qed


end
