(* ===== verification/Json_Text.thy ===== *)
theory Json_Text
  imports Kube_Objects Crypto
begin

text \<open>
  The text of JSON documents, as Go's \<open>encoding/json\<close> writes and reads it, for the one document whose text the
  operator stores and reads back: the automation config in its secret.  Strings are bytes, which \<open>Marshal\<close> escapes
  for HTML and checks for UTF-8.  Numbers are integers in decimal notation; how a \<open>float64\<close> with a fraction is
  printed and read is the argument \<open>float_format\<close> (\<open>strconv.AppendFloat\<close> and \<open>ParseFloat\<close>).

  Simplified: there is no limit on the depth of nesting; of two members of an object with the same name the last is
  kept, where Go decodes both into the same place; and a number is its value, so that \<open>1.0\<close> is as good as \<open>1\<close>
  where an integer is expected, which Go rejects.  The operator writes none of these.
\<close>

record float_format =
  FormatFloat :: "rat \<Rightarrow> string"
  ParseFloat :: "string \<Rightarrow> rat"

abbreviation code :: "char \<Rightarrow> nat" where "code \<equiv> of_char"

subsection \<open>UTF-8\<close>

definition byte_in :: "nat \<Rightarrow> nat \<Rightarrow> char \<Rightarrow> bool" where
  "byte_in lo hi c = (lo \<le> code c \<and> code c \<le> hi)"

definition three_byte_rune :: "char \<Rightarrow> char \<Rightarrow> char \<Rightarrow> bool" where
  "three_byte_rune a b c = (byte_in 128 191 c \<and> (byte_in 224 224 a \<and> byte_in 160 191 b \<or> byte_in 225 236 a \<and> byte_in 128 191 b \<or>
     byte_in 237 237 a \<and> byte_in 128 159 b \<or> byte_in 238 239 a \<and> byte_in 128 191 b))"

definition four_byte_rune :: "char \<Rightarrow> char \<Rightarrow> char \<Rightarrow> char \<Rightarrow> bool" where
  "four_byte_rune a b c d = (byte_in 128 191 c \<and> byte_in 128 191 d \<and> (byte_in 240 240 a \<and> byte_in 144 191 b \<or>
     byte_in 241 243 a \<and> byte_in 128 191 b \<or> byte_in 244 244 a \<and> byte_in 128 143 b))"

text \<open>The number of bytes of the first rune, zero if the text does not begin with a valid encoding.\<close>

definition utf8_width :: "string \<Rightarrow> nat" where
  "utf8_width s = (case s of
      [] \<Rightarrow> 0
    | a # r1 \<Rightarrow> if code a < 128 then 1 else (case r1 of
          [] \<Rightarrow> 0
        | b # r2 \<Rightarrow> if byte_in 194 223 a \<and> byte_in 128 191 b then 2 else (case r2 of
              [] \<Rightarrow> 0
            | c # r3 \<Rightarrow> if three_byte_rune a b c then 3 else (case r3 of
                  [] \<Rightarrow> 0
                | d # _ \<Rightarrow> if four_byte_rune a b c d then 4 else 0))))"

definition utf8_encode :: "nat \<Rightarrow> string" where
  "utf8_encode r =
    (if r < 128 then [char_of r]
     else if r < 2048 then [char_of (192 + r div 64), char_of (128 + r mod 64)]
     else if r < 65536 then [char_of (224 + r div 4096), char_of (128 + r div 64 mod 64), char_of (128 + r mod 64)]
     else [char_of (240 + r div 262144), char_of (128 + r div 4096 mod 64), char_of (128 + r div 64 mod 64), char_of (128 + r mod 64)])"

definition replacement_char :: string where "replacement_char = utf8_encode 65533"

subsection \<open>Strings\<close>

abbreviation esc :: "char \<Rightarrow> string" where "esc c \<equiv> [CHR 0x5C, c]"

definition u_escape :: "nat \<Rightarrow> string" where
  "u_escape r = esc CHR ''u'' @ map (\<lambda>w. lower_hex_digit (r div w mod 16)) [4096, 256, 16, 1]"

definition escape_char :: "char \<Rightarrow> string" where
  "escape_char c =
    (if c = CHR 0x5C then [CHR 0x5C, CHR 0x5C] else if c = CHR 0x22 then [CHR 0x5C, CHR 0x22]
     else if code c = 8 then esc CHR ''b'' else if code c = 12 then esc CHR ''f'' else if code c = 10 then esc CHR ''n''
     else if code c = 13 then esc CHR ''r'' else if code c = 9 then esc CHR ''t''
     else if code c < 32 \<or> c \<in> {CHR ''<'', CHR ''>'', CHR ''&''} then u_escape (code c)
     else [c])"

fun escape :: "string \<Rightarrow> string" where
  "escape [] = []"
| "escape (c # cs) =
    (if code c < 128 then escape_char c @ escape cs
     else let n = utf8_width (c # cs); r = take n (c # cs) in
       if n = 0 then u_escape 65533 @ escape cs
       else if r = utf8_encode 8232 then u_escape 8232 @ escape (drop (n - 1) cs)
       else if r = utf8_encode 8233 then u_escape 8233 @ escape (drop (n - 1) cs)
       else r @ escape (drop (n - 1) cs))"

definition print_string :: "string \<Rightarrow> string" where
  "print_string s = CHR 0x22 # escape s @ [CHR 0x22]"

definition hex_value :: "char \<Rightarrow> nat option" where
  "hex_value c =
    (if byte_in 48 57 c then Some (code c - 48) else if byte_in 97 102 c then Some (code c - 87)
     else if byte_in 65 70 c then Some (code c - 55) else None)"

fun hex4 :: "string \<Rightarrow> nat option" where
  "hex4 (a # b # c # d # _) = (case (hex_value a, hex_value b, hex_value c, hex_value d) of
      (Some a, Some b, Some c, Some d) \<Rightarrow> Some (4096 * a + 256 * b + 16 * c + d)
    | _ \<Rightarrow> None)"
| "hex4 _ = None"

definition simple_escape :: "char \<Rightarrow> char option" where
  "simple_escape c =
    (if c \<in> {CHR 0x22, CHR 0x5C, CHR ''/''} then Some c else if c = CHR ''b'' then Some CHR 0x08
     else if c = CHR ''f'' then Some CHR 0x0C else if c = CHR ''n'' then Some CHR 0x0A
     else if c = CHR ''r'' then Some CHR 0x0D else if c = CHR ''t'' then Some CHR 0x09 else None)"

definition low_surrogate :: "string \<Rightarrow> nat option" where
  "low_surrogate s = (if has_prefix s [CHR 0x5C, CHR ''u'']
     then (case hex4 (drop 2 s) of Some r \<Rightarrow> if 56320 \<le> r \<and> r < 57344 then Some r else None | None \<Rightarrow> None) else None)"

type_synonym 'a parser = "string \<Rightarrow> ('a \<times> string) option"

definition before :: "string \<Rightarrow> (string \<times> string) option \<Rightarrow> (string \<times> string) option" where
  "before p r = map_option (\<lambda>(s, rest). (p @ s, rest)) r"

text \<open>The rest of a string, after its opening quote.\<close>

fun parse_string :: "string parser" where
  "parse_string [] = None"
| "parse_string (c # cs) =
    (if c = CHR 0x22 then Some ([], cs)
     else if c = CHR 0x5C then (case cs of
         [] \<Rightarrow> None
       | e # es \<Rightarrow> if e \<noteq> CHR ''u''
           then (case simple_escape e of None \<Rightarrow> None | Some x \<Rightarrow> before [x] (parse_string es))
           else (case hex4 es of
               None \<Rightarrow> None
             | Some r \<Rightarrow>
                 if \<not> (55296 \<le> r \<and> r < 57344) then before (utf8_encode r) (parse_string (drop 4 es))
                 else (case low_surrogate (drop 4 es) of
                     Some l \<Rightarrow> if r < 56320
                       then before (utf8_encode (65536 + (r - 55296) * 1024 + (l - 56320))) (parse_string (drop 10 es))
                       else before replacement_char (parse_string (drop 4 es))
                   | None \<Rightarrow> before replacement_char (parse_string (drop 4 es)))))
     else if code c < 32 then None
     else if code c < 128 then before [c] (parse_string cs)
     else let n = utf8_width (c # cs) in
       if n = 0 then before replacement_char (parse_string cs)
       else before (take n (c # cs)) (parse_string (drop (n - 1) cs)))"

subsection \<open>Numbers\<close>

definition is_digit :: "char \<Rightarrow> bool" where "is_digit c = byte_in 48 57 c"

definition number_char :: "char \<Rightarrow> bool" where
  "number_char c = (is_digit c \<or> c \<in> set ''+-.eE'')"

definition integer_part :: "string \<Rightarrow> string option" where
  "integer_part s = (case s of
      c # r \<Rightarrow> if c = CHR ''0'' then Some r else if is_digit c then Some (dropWhile is_digit r) else None
    | [] \<Rightarrow> None)"

definition fraction_part :: "string \<Rightarrow> string option" where
  "fraction_part s = (case s of
      c # r \<Rightarrow> if c = CHR ''.''
        then (case r of d # r' \<Rightarrow> if is_digit d then Some (dropWhile is_digit r') else None | [] \<Rightarrow> None)
        else Some s
    | [] \<Rightarrow> Some s)"

definition exponent_part :: "string \<Rightarrow> string option" where
  "exponent_part s = (case s of
      c # r \<Rightarrow> if c \<in> {CHR ''e'', CHR ''E''}
        then (case (case r of d # r' \<Rightarrow> if d \<in> {CHR ''+'', CHR ''-''} then r' else r | [] \<Rightarrow> r) of
            d # r' \<Rightarrow> if is_digit d then Some (dropWhile is_digit r') else None
          | [] \<Rightarrow> None)
        else Some s
    | [] \<Rightarrow> Some s)"

definition negative :: "string \<Rightarrow> bool" where "negative s = has_prefix s ''-''"

definition magnitude :: "string \<Rightarrow> string" where "magnitude s = (if negative s then tl s else s)"

definition is_number :: "string \<Rightarrow> bool" where
  "is_number s = (Option.bind (Option.bind (integer_part (magnitude s)) fraction_part) exponent_part = Some [])"

definition integer_value :: "string \<Rightarrow> int" where
  "integer_value s = (if negative s then - int (digits_val (magnitude s)) else int (digits_val (magnitude s)))"

definition number_value :: "float_format \<Rightarrow> string \<Rightarrow> rat" where
  "number_value ff s = (if list_ex (\<lambda>c. c \<in> set ''.eE'') s then ParseFloat ff s else of_int (integer_value s))"

definition print_number :: "float_format \<Rightarrow> rat \<Rightarrow> string" where
  "print_number ff r = (if of_int \<lfloor>r\<rfloor> = r \<and> \<bar>r\<bar> < 10 ^ 21 then itoa \<lfloor>r\<rfloor> else FormatFloat ff r)"

definition parse_number :: "float_format \<Rightarrow> rat parser" where
  "parse_number ff s = (let lit = takeWhile number_char s in
     if is_number lit then Some (number_value ff lit, dropWhile number_char s) else None)"

subsection \<open>Values\<close>

fun print_json :: "float_format \<Rightarrow> json \<Rightarrow> string" where
  "print_json ff JNull = ''null''"
| "print_json ff (JBool b) = (if b then ''true'' else ''false'')"
| "print_json ff (JNum r) = print_number ff r"
| "print_json ff (JStr s) = print_string s"
| "print_json ff (JArr js) = ''['' @ str_join '','' (map (print_json ff) js) @ '']''"
| "print_json ff (JObj kvs) = ''{'' @ str_join '','' (map (\<lambda>(k, j). print_string k @ '':'' @ print_json ff j) kvs) @ ''}''"

definition json_space :: "char \<Rightarrow> bool" where
  "json_space c = (c \<in> {CHR '' '', CHR 0x09, CHR 0x0A, CHR 0x0D})"

definition skip_space :: "string \<Rightarrow> string" where "skip_space = dropWhile json_space"

fun keep_last :: "(string \<times> 'a) list \<Rightarrow> (string \<times> 'a) list" where
  "keep_last [] = []"
| "keep_last ((k, v) # kvs) = (if k \<in> fst ` set kvs then keep_last kvs else (k, v) # keep_last kvs)"

text \<open>The first argument bounds the depth of the recursion: the length of the text is enough.\<close>

fun parse_value :: "nat \<Rightarrow> float_format \<Rightarrow> json parser"
  and parse_elements :: "nat \<Rightarrow> float_format \<Rightarrow> json list parser"
  and parse_members :: "nat \<Rightarrow> float_format \<Rightarrow> (string \<times> json) list parser" where
  "parse_value 0 ff s = None"
| "parse_value (Suc n) ff s = (case skip_space s of
      [] \<Rightarrow> None
    | c # cs \<Rightarrow>
        if c = CHR ''{'' then
          (if has_prefix (skip_space cs) ''}'' then Some (JObj [], tl (skip_space cs))
           else map_option (\<lambda>(kvs, rest). (JObj (keep_last kvs), rest)) (parse_members n ff cs))
        else if c = CHR ''['' then
          (if has_prefix (skip_space cs) '']'' then Some (JArr [], tl (skip_space cs))
           else map_option (\<lambda>(js, rest). (JArr js, rest)) (parse_elements n ff cs))
        else if c = CHR 0x22 then map_option (\<lambda>(t, rest). (JStr t, rest)) (parse_string cs)
        else if has_prefix (c # cs) ''null'' then Some (JNull, drop 3 cs)
        else if has_prefix (c # cs) ''true'' then Some (JBool True, drop 3 cs)
        else if has_prefix (c # cs) ''false'' then Some (JBool False, drop 4 cs)
        else map_option (\<lambda>(r, rest). (JNum r, rest)) (parse_number ff (c # cs)))"
| "parse_elements 0 ff s = None"
| "parse_elements (Suc n) ff s = (case parse_value n ff s of
      None \<Rightarrow> None
    | Some (j, s1) \<Rightarrow> (case skip_space s1 of
          c # rest \<Rightarrow> if c = CHR '']'' then Some ([j], rest)
            else if c = CHR '','' then map_option (\<lambda>(js, rest). (j # js, rest)) (parse_elements n ff rest) else None
        | [] \<Rightarrow> None))"
| "parse_members 0 ff s = None"
| "parse_members (Suc n) ff s = (case skip_space s of
      c # cs \<Rightarrow> if c \<noteq> CHR 0x22 then None else (case parse_string cs of
          None \<Rightarrow> None
        | Some (k, s1) \<Rightarrow> (case skip_space s1 of
              c1 # s2 \<Rightarrow> if c1 \<noteq> CHR '':'' then None else (case parse_value n ff s2 of
                  None \<Rightarrow> None
                | Some (j, s3) \<Rightarrow> (case skip_space s3 of
                      c2 # rest \<Rightarrow> if c2 = CHR ''}'' then Some ([(k, j)], rest)
                        else if c2 = CHR '','' then map_option (\<lambda>(kvs, rest). ((k, j) # kvs, rest)) (parse_members n ff rest)
                        else None
                    | [] \<Rightarrow> None))
            | [] \<Rightarrow> None))
    | [] \<Rightarrow> None)"

definition parse_json :: "float_format \<Rightarrow> string \<Rightarrow> json fallible" where
  "parse_json ff s = (case parse_value (Suc (length s)) ff s of
      Some (j, rest) \<Rightarrow> if skip_space rest = [] then Inr j else Inl (errorf ''json: invalid character after top-level value'')
    | None \<Rightarrow> Inl (errorf ''json: invalid character''))"

text \<open>The codec of the operator.\<close>

definition go_codec :: "float_format \<Rightarrow> ac_codec" where
  "go_codec ff = \<lparr>json_text = print_json ff, json_tree = parse_json ff\<rparr>"

subsection \<open>Strings are read back\<close>

declare parse_string.simps(2) [simp del]

lemma hex_value_digit: "n < 16 \<Longrightarrow> hex_value (lower_hex_digit n) = Some n"
  by (auto simp: hex_value_def lower_hex_digit_def byte_in_def of_char_of)

lemma hex_digits_value: "r < 65536 \<Longrightarrow> 4096 * (r div 4096) + 256 * (r div 256 mod 16) + 16 * (r div 16 mod 16) + r mod 16 = r" for r :: nat
proof -
  have eqs: "r div 256 = r div 16 div 16" "r div 4096 = r div 16 div 16 div 16" by (simp_all add: div_mult2_eq[symmetric])
  show ?thesis unfolding eqs
    using mult_div_mod_eq[of 16 r] mult_div_mod_eq[of 16 "r div 16"] mult_div_mod_eq[of 16 "r div 16 div 16"] by linarith
qed

lemma hex4_u_escape: "r < 65536 \<Longrightarrow> hex4 (drop 2 (u_escape r) @ s) = Some r"
  using hex_digits_value[of r] by (simp add: u_escape_def hex_value_digit)

lemma parse_u_escape:
  assumes "r < 65536" and "\<not> (55296 \<le> r \<and> r < 57344)"
  shows "parse_string (u_escape r @ s) = before (utf8_encode r) (parse_string s)"
proof -
  obtain e where e: "u_escape r = CHR 0x5C # CHR ''u'' # e" "e = drop 2 (u_escape r)" "length e = 4" by (simp add: u_escape_def)
  then have "hex4 (e @ s) = Some r" using hex4_u_escape[OF assms(1), of s] by simp
  then show ?thesis using assms(2) e(1,3) by (simp add: parse_string.simps(2))
qed

lemma utf8_encode_ascii: "code c < 128 \<Longrightarrow> utf8_encode (code c) = [c]"
  by (simp add: utf8_encode_def)

lemma parse_escape_char:
  assumes "code c < 128"
  shows "parse_string (escape_char c @ s) = before [c] (parse_string s)"
proof -
  have n: "code CHR 0x08 = 8" "code CHR 0x0C = 12" "code CHR 0x0A = 10" "code CHR 0x0D = 13" "code CHR 0x09 = 9" by simp_all
  have codes: "code c = 8 \<Longrightarrow> c = CHR 0x08" "code c = 12 \<Longrightarrow> c = CHR 0x0C" "code c = 10 \<Longrightarrow> c = CHR 0x0A"
    "code c = 13 \<Longrightarrow> c = CHR 0x0D" "code c = 9 \<Longrightarrow> c = CHR 0x09"
    using n by (metis of_char_eq_iff)+
  have u: "parse_string (u_escape (code c) @ s) = before [c] (parse_string s)"
    using parse_u_escape[of "code c" s] assms utf8_encode_ascii[OF assms] by simp
  show ?thesis
  proof (cases "c \<in> {CHR 0x5C, CHR 0x22} \<or> code c \<in> {8, 12, 10, 13, 9}")
    case True
    then consider "c = CHR 0x5C" | "c = CHR 0x22" | "c = CHR 0x08" | "c = CHR 0x0C" | "c = CHR 0x0A" | "c = CHR 0x0D" | "c = CHR 0x09"
      using codes by blast
    then show ?thesis by cases (simp_all add: escape_char_def simple_escape_def parse_string.simps(2))
  next
    case False
    then have "escape_char c = (if code c < 32 \<or> c \<in> {CHR ''<'', CHR ''>'', CHR ''&''} then u_escape (code c) else [c])"
      by (simp add: escape_char_def)
    moreover have "parse_string (c # s) = before [c] (parse_string s)" if "\<not> code c < 32"
      using that False assms by (simp add: parse_string.simps(2))
    ultimately show ?thesis using u by auto
  qed
qed

fun utf8_valid :: "string \<Rightarrow> bool" where
  "utf8_valid [] = True"
| "utf8_valid (c # cs) = (if code c < 128 then utf8_valid cs
     else let n = utf8_width (c # cs) in n \<noteq> 0 \<and> utf8_valid (drop (n - 1) cs))"

lemma utf8_width_length: "utf8_width s \<le> length s"
  by (auto simp: utf8_width_def split: list.splits)

lemma utf8_width_take:
  assumes "utf8_width s \<noteq> 0"
  shows "utf8_width (take (utf8_width s) s @ t) = utf8_width s"
  using assms by (cases s; cases "tl s"; cases "tl (tl s)"; cases "tl (tl (tl s))") (simp_all add: utf8_width_def split: if_splits)

lemma before_before [simp]: "before p (Some (s, rest)) = Some (p @ s, rest)"
  by (simp add: before_def)

lemma parse_rune:
  assumes "\<not> code c < 128" and "utf8_width (c # cs) = Suc n"
  shows "parse_string (c # take n cs @ t) = before (c # take n cs) (parse_string t)"
proof -
  have len: "length (take n cs) = n" using utf8_width_length[of "c # cs"] assms(2) by simp
  have "utf8_width (c # take n cs @ t) = Suc n"
    using utf8_width_take[of "c # cs" t] assms(2) by simp
  moreover have "c \<noteq> CHR 0x22" "c \<noteq> CHR 0x5C" "\<not> code c < 32" using assms(1) by auto
  ultimately show ?thesis using assms(1) len by (simp add: parse_string.simps(2))
qed

lemma parse_escape: "utf8_valid s \<Longrightarrow> parse_string (escape s @ CHR 0x22 # rest) = Some (s, rest)"
proof (induction s rule: utf8_valid.induct)
  case (2 c cs)
  show ?case
  proof (cases "code c < 128")
    case True
    then show ?thesis using 2 by (simp add: parse_escape_char)
  next
    case False
    obtain n where n: "utf8_width (c # cs) = Suc n" using 2(3) False by (auto simp: Let_def gr0_conv_Suc)
    then have tail: "parse_string (escape (drop n cs) @ CHR 0x22 # rest) = Some (drop n cs, rest)"
      using 2(2)[OF False refl] 2(3) False by simp
    have u: "parse_string (u_escape r @ escape (drop n cs) @ CHR 0x22 # rest) = Some (c # cs, rest)"
      if "r \<in> {8232, 8233}" "c # take n cs = utf8_encode r" for r
    proof -
      have "r < 65536" "\<not> (55296 \<le> r \<and> r < 57344)" using that(1) by auto
      then show ?thesis using parse_u_escape[of r] tail that(2)[symmetric] by simp
    qed
    have "escape (c # cs) = (if c # take n cs = utf8_encode 8232 then u_escape 8232 @ escape (drop n cs)
        else if c # take n cs = utf8_encode 8233 then u_escape 8233 @ escape (drop n cs) else c # take n cs @ escape (drop n cs))"
      using False n by (simp add: Let_def)
    then show ?thesis using u[of 8232] u[of 8233] parse_rune[OF False n, of "escape (drop n cs) @ CHR 0x22 # rest"] tail
      by simp
  qed
qed (simp add: parse_string.simps(2))

subsection \<open>Numbers are read back\<close>

lemma is_digit_digit [simp]: "is_digit (digit d)"
  by (simp add: is_digit_def byte_in_def)

lemma digits_all_digits: "list_all is_digit (digits n)"
  using set_digits[of n] by (auto simp: list_all_iff)

lemma hd_digits: "0 < n \<Longrightarrow> hd (digits n) \<noteq> CHR ''0''"
proof (induction n rule: less_induct)
  case (less n)
  show ?case
  proof (cases "9 < n")
    case True
    then show ?thesis using less.IH[of "n div 10"] digits_step[of n] by (simp add: div_greater_zero_iff)
  next
    case False
    have "(of_char (digit n) :: nat) \<noteq> of_char CHR ''0''" using less.prems False by simp
    then show ?thesis using False digits_small[of n] by (metis linorder_not_less list.sel(1))
  qed
qed

lemma digits_zero: "digits 0 = ''0''"
  by code_simp

lemma dropWhile_digits: "list_all is_digit s \<Longrightarrow> dropWhile is_digit s = []"
  by (simp add: list_all_iff)

lemma integer_part_digits: "integer_part (digits n) = Some []"
proof (cases "n = 0")
  case False
  obtain c r where s: "digits n = c # r" by (meson digits_ne_Nil neq_Nil_conv)
  then show ?thesis using hd_digits[of n] False digits_all_digits[of n] by (simp add: integer_part_def dropWhile_digits)
qed (simp add: integer_part_def digits_zero)

lemma digits_start: obtains c r where "digits n = c # r" and "is_digit c" and "c \<noteq> CHR ''-''"
proof -
  obtain c r where s: "digits n = c # r" by (meson digits_ne_Nil neq_Nil_conv)
  then show thesis using that digits_all_digits[of n] digits_no_minus[of n] by auto
qed

lemma itoa_parts [simp]:
  "negative (itoa i) = (i < 0)" "magnitude (itoa i) = digits (nat \<bar>i\<bar>)"
proof -
  obtain c r where "digits (nat i) = c # r" "c \<noteq> CHR ''-''" by (rule digits_start[of "nat i"])
  then show "negative (itoa i) = (i < 0)" "magnitude (itoa i) = digits (nat \<bar>i\<bar>)"
    by (simp_all add: itoa_def negative_def magnitude_def)
qed

lemma is_number_itoa: "is_number (itoa i)"
  by (simp add: is_number_def integer_part_digits fraction_part_def exponent_part_def)

lemma integer_value_itoa: "integer_value (itoa i) = i"
  by (simp add: integer_value_def)

lemma itoa_chars: "c \<in> set (itoa i) \<Longrightarrow> is_digit c \<or> c = CHR ''-''"
  using digits_all_digits by (auto simp: itoa_def list_all_iff split: if_splits)

lemma itoa_literal: "list_all number_char (itoa i)" "\<not> list_ex (\<lambda>c. c \<in> set ''.eE'') (itoa i)"
  by (auto simp: list_all_iff list_ex_iff number_char_def is_digit_def byte_in_def dest: itoa_chars)

definition writable_number :: "float_format \<Rightarrow> rat \<Rightarrow> bool" where
  "writable_number ff r = (of_int \<lfloor>r\<rfloor> = r \<and> \<bar>r\<bar> < 10 ^ 21 \<or>
     (is_number (FormatFloat ff r) \<and> list_all number_char (FormatFloat ff r) \<and> number_value ff (FormatFloat ff r) = r))"

lemma printed_number:
  assumes "writable_number ff r"
  shows "is_number (print_number ff r)" and "list_all number_char (print_number ff r)" and "number_value ff (print_number ff r) = r"
  using assms is_number_itoa[of "\<lfloor>r\<rfloor>"] itoa_literal[of "\<lfloor>r\<rfloor>"] integer_value_itoa[of "\<lfloor>r\<rfloor>"]
  by (auto simp: print_number_def writable_number_def number_value_def)

definition number_end :: "string \<Rightarrow> bool" where
  "number_end s = (case s of [] \<Rightarrow> True | c # _ \<Rightarrow> \<not> number_char c)"

lemma parse_print_number:
  assumes "writable_number ff r" and "number_end rest"
  shows "parse_number ff (print_number ff r @ rest) = Some (r, rest)"
proof -
  have "takeWhile number_char rest = []" "dropWhile number_char rest = rest"
    using assms(2) by (auto simp: number_end_def split: list.splits)
  then have "takeWhile number_char (print_number ff r @ rest) = print_number ff r" "dropWhile number_char (print_number ff r @ rest) = rest"
    using printed_number(2)[OF assms(1)] by (auto simp: list_all_iff)
  then show ?thesis using printed_number(1,3)[OF assms(1)] by (simp add: parse_number_def)
qed

lemma number_start:
  assumes "is_number s"
  obtains c r where "s = c # r" and "is_digit c \<or> c = CHR ''-''"
  using assms by (cases s) (auto simp: is_number_def magnitude_def negative_def integer_part_def is_digit_def byte_in_def split: if_splits)

subsection \<open>Documents are read back\<close>

text \<open>What can be written and read back unchanged: strings are UTF-8, floats survive, an object is a map.\<close>

fun writable :: "float_format \<Rightarrow> json \<Rightarrow> bool" where
  "writable ff JNull = True"
| "writable ff (JBool b) = True"
| "writable ff (JNum r) = writable_number ff r"
| "writable ff (JStr s) = utf8_valid s"
| "writable ff (JArr js) = list_all (writable ff) js"
| "writable ff (JObj kvs) = (distinct (map fst kvs) \<and> list_all (\<lambda>(k, j). utf8_valid k \<and> writable ff j) kvs)"

lemma keep_last_distinct: "distinct (map fst kvs) \<Longrightarrow> keep_last kvs = kvs"
  by (induction kvs rule: keep_last.induct) auto

lemma print_json_start:
  assumes "writable ff j"
  obtains c r where "print_json ff j = c # r" and "\<not> json_space c" and "c \<noteq> CHR '']''"
proof (cases j)
  case (JNum x)
  then have "is_number (print_json ff j)" using printed_number(1)[of ff x] assms by simp
  then obtain c r where "print_json ff j = c # r" "is_digit c \<or> c = CHR ''-''" by (rule number_start)
  moreover have "\<not> json_space c" "c \<noteq> CHR '']''" using calculation(2) by (auto simp: json_space_def is_digit_def byte_in_def)
  ultimately show thesis by (intro that)
next
  case (JBool b)
  then show thesis using that by (cases b) (auto simp: json_space_def)
qed (use that assms in \<open>auto simp: json_space_def print_string_def split: if_splits\<close>)

lemma skip_space_start: "\<not> json_space c \<Longrightarrow> skip_space (c # r) = c # r"
  by (simp add: skip_space_def)

lemma str_join_Cons: "str_join sep (x # xs) = x @ (if xs = [] then [] else sep @ str_join sep xs)"
  by (cases xs) simp_all

lemma separators [simp]:
  "skip_space (CHR '','' # r) = CHR '','' # r" "skip_space (CHR '']'' # r) = CHR '']'' # r" "skip_space (CHR ''}'' # r) = CHR ''}'' # r"
  "skip_space (CHR '':'' # r) = CHR '':'' # r" "skip_space (CHR 0x22 # r) = CHR 0x22 # r" "skip_space [] = []"
  "number_end (CHR '','' # r)" "number_end (CHR '']'' # r)" "number_end (CHR ''}'' # r)" "number_end []"
  by (simp_all add: skip_space_def json_space_def number_end_def number_char_def is_digit_def byte_in_def)

abbreviation print_member :: "float_format \<Rightarrow> string \<times> json \<Rightarrow> string" where
  "print_member ff \<equiv> \<lambda>(k, j). print_string k @ '':'' @ print_json ff j"

definition reads_back :: "float_format \<Rightarrow> json \<Rightarrow> bool" where
  "reads_back ff j = (\<forall>n rest. number_end rest \<longrightarrow> length (print_json ff j) \<le> n \<longrightarrow>
     parse_value n ff (print_json ff j @ rest) = Some (j, rest))"

lemma parse_elements_printed:
  assumes "js \<noteq> []" and "\<And>j. j \<in> set js \<Longrightarrow> reads_back ff j" and "length (str_join '','' (map (print_json ff) js)) < n"
  shows "parse_elements n ff (str_join '','' (map (print_json ff) js) @ CHR '']'' # rest) = Some (js, rest)"
  using assms
proof (induction js arbitrary: n)
  case (Cons j js)
  obtain m where n: "n = Suc m" using Cons.prems(3) by (cases n) auto
  have first: "parse_value m ff (print_json ff j @ t) = Some (j, t)" if "number_end t" for t
    using Cons.prems(2)[of j] Cons.prems(3) that n by (simp add: reads_back_def str_join_Cons split: if_splits)
  show ?case
  proof (cases "js = []")
    case False
    then have "parse_elements m ff (str_join '','' (map (print_json ff) js) @ CHR '']'' # rest) = Some (js, rest)"
      using Cons.prems n by (intro Cons.IH) (auto simp: str_join_Cons)
    then show ?thesis using first False n by (simp add: str_join_Cons)
  qed (use first n in simp)
qed simp

lemma parse_members_printed:
  assumes "kvs \<noteq> []" and "\<And>k j. (k, j) \<in> set kvs \<Longrightarrow> utf8_valid k \<and> reads_back ff j"
    and "length (str_join '','' (map (print_member ff) kvs)) < n"
  shows "parse_members n ff (str_join '','' (map (print_member ff) kvs) @ CHR ''}'' # rest) = Some (kvs, rest)"
  using assms
proof (induction kvs arbitrary: n)
  case (Cons kv kvs)
  obtain k j where kv: "kv = (k, j)" by fastforce
  obtain m where n: "n = Suc m" using Cons.prems(3) by (cases n) auto
  have first: "parse_value m ff (print_json ff j @ t) = Some (j, t)" if "number_end t" for t
    using Cons.prems(2)[of k j] Cons.prems(3) that n kv by (simp add: reads_back_def str_join_Cons split: if_splits)
  have key: "parse_string (escape k @ CHR 0x22 # t) = Some (k, t)" for t
    using Cons.prems(2)[of k j] kv by (simp add: parse_escape)
  show ?case
  proof (cases "kvs = []")
    case False
    then have "parse_members m ff (str_join '','' (map (print_member ff) kvs) @ CHR ''}'' # rest) = Some (kvs, rest)"
      using Cons.prems n by (intro Cons.IH) (auto simp: str_join_Cons)
    then show ?thesis using first key False n kv by (simp add: str_join_Cons print_string_def)
  qed (use first key n kv in \<open>simp add: print_string_def\<close>)
qed simp

lemma parse_value_at:
  "\<not> json_space c \<Longrightarrow> c \<notin> {CHR ''{'', CHR ''['', CHR 0x22, CHR ''n'', CHR ''t'', CHR ''f''} \<Longrightarrow>
     parse_value (Suc n) ff (c # cs) = map_option (\<lambda>(r, rest). (JNum r, rest)) (parse_number ff (c # cs))"
  by (simp add: skip_space_start)

lemma printed_reads_back: "writable ff j \<Longrightarrow> reads_back ff j"
proof (induction j)
  case (JNum r)
  then have "is_number (print_number ff r)" using printed_number(1) by simp
  then obtain c t where s: "print_number ff r = c # t" "is_digit c \<or> c = CHR ''-''" by (rule number_start)
  then have start: "\<not> json_space c" "c \<notin> {CHR ''{'', CHR ''['', CHR 0x22, CHR ''n'', CHR ''t'', CHR ''f''}"
    by (auto simp: json_space_def is_digit_def byte_in_def)
  show ?case unfolding reads_back_def
  proof (intro allI impI)
    fix n rest assume "number_end rest" "length (print_json ff (JNum r)) \<le> n"
    then obtain m where "n = Suc m" using s(1) by (cases n) auto
    then show "parse_value n ff (print_json ff (JNum r) @ rest) = Some (JNum r, rest)"
      using parse_print_number[of ff r rest] JNum \<open>number_end rest\<close> parse_value_at[OF start] s(1) by simp
  qed
next
  case (JStr s)
  then show ?case unfolding reads_back_def by (auto simp: print_string_def parse_escape gr0_conv_Suc Suc_le_eq dest!: less_imp_Suc_add)
next
  case (JArr js)
  let ?elems = "str_join '','' (map (print_json ff) js)"
  have elems: "parse_elements n ff (?elems @ CHR '']'' # rest) = Some (js, rest)" if "js \<noteq> []" "length ?elems < n" for n rest
    using that JArr by (intro parse_elements_printed) (auto simp: list_all_iff)
  have start: "skip_space (?elems @ s) = ?elems @ s" "\<not> has_prefix (?elems @ s) '']''" if ne: "js \<noteq> []" for s
  proof -
    obtain j js' where js: "js = j # js'" using ne by (cases js) auto
    then have "writable ff j" using JArr.prems by simp
    then obtain c r where "print_json ff j = c # r" "\<not> json_space c" "c \<noteq> CHR '']''" by (rule print_json_start)
    then show "skip_space (?elems @ s) = ?elems @ s" "\<not> has_prefix (?elems @ s) '']''"
      by (simp_all add: js str_join_Cons skip_space_start)
  qed
  show ?case unfolding reads_back_def
  proof (intro allI impI)
    fix n rest assume "length (print_json ff (JArr js)) \<le> n"
    then obtain m where n: "n = Suc m" "length ?elems < m" by (cases n) auto
    show "parse_value n ff (print_json ff (JArr js) @ rest) = Some (JArr js, rest)"
    proof (cases "js = []")
      case False
      then show ?thesis using elems[of m rest] start[of "CHR '']'' # rest"] n by (simp add: skip_space_start json_space_def)
    qed (use n in \<open>simp add: skip_space_start json_space_def\<close>)
  qed
next
  case (JObj kvs)
  let ?mems = "str_join '','' (map (print_member ff) kvs)"
  have IH: "(k, j) \<in> set kvs \<Longrightarrow> utf8_valid k \<and> reads_back ff j" for k j
    using JObj by (fastforce simp: list_all_iff snds.simps)
  have mems: "parse_members n ff (?mems @ CHR ''}'' # rest) = Some (kvs, rest)" if "kvs \<noteq> []" "length ?mems < n" for n rest
    using that IH by (intro parse_members_printed) auto
  have start: "skip_space (?mems @ s) = ?mems @ s" "\<not> has_prefix (?mems @ s) ''}''" if "kvs \<noteq> []" for s
    using that by (cases kvs; auto simp: str_join_Cons print_string_def)+
  have last: "keep_last kvs = kvs" using JObj.prems by (intro keep_last_distinct) simp
  show ?case unfolding reads_back_def
  proof (intro allI impI)
    fix n rest assume "length (print_json ff (JObj kvs)) \<le> n"
    then obtain m where n: "n = Suc m" "length ?mems < m" by (cases n) auto
    show "parse_value n ff (print_json ff (JObj kvs) @ rest) = Some (JObj kvs, rest)"
    proof (cases "kvs = []")
      case False
      then show ?thesis using mems[of m rest] start[of "CHR ''}'' # rest"] n last by (simp add: skip_space_start json_space_def)
    qed (use n in \<open>simp add: skip_space_start json_space_def\<close>)
  qed
qed (auto simp: reads_back_def skip_space_def json_space_def less_eq_Suc_le dest!: Suc_le_D)

lemma parse_print_json: "writable ff j \<Longrightarrow> parse_json ff (print_json ff j) = Inr j"
proof -
  assume "writable ff j"
  then have "parse_value (Suc (length (print_json ff j))) ff (print_json ff j @ []) = Some (j, [])"
    using printed_reads_back[of ff j] unfolding reads_back_def by (metis le_SucI order_refl separators(10))
  then show "parse_json ff (print_json ff j) = Inr j" by (simp add: parse_json_def del: parse_value.simps)
qed

lemma print_json_inj: "writable ff i \<Longrightarrow> writable ff j \<Longrightarrow> print_json ff i = print_json ff j \<longleftrightarrow> i = j"
  by (metis parse_print_json sum.inject(2))

text \<open>\<open>AreEqual\<close> compares the texts of two configs, which for such configs is to compare their trees.\<close>

lemma AreEqual_texts:
  assumes "writable ff (marshal_AutomationConfig (ac0\<lparr>ac_Version := ac_Version ac1\<rparr>))" and "writable ff (marshal_AutomationConfig ac1)"
  shows "AreEqual ac0 ac1 \<longleftrightarrow> ac_bytes (go_codec ff) (ac0\<lparr>ac_Version := ac_Version ac1\<rparr>) = ac_bytes (go_codec ff) ac1"
  using print_json_inj[OF assms] by (simp add: AreEqual_def ac_bytes_def go_codec_def)

text \<open>C21: whatever config the operator writes into its secret as JSON text, reading the secret gives that config
  back, with the same names, feature compatibility versions and ports, and \<open>AreEqual\<close> to it: only the numbers of the
  free-form \<open>args2_6\<close> and \<open>settings\<close> have become floats.  The strings have to be UTF-8, the maps to be maps, and a
  number with a fraction has to survive \<open>strconv\<close>.\<close>

theorem FromBytes_reads_written_config:
  assumes "writable ff (marshal_AutomationConfig ac)" and "objx_reading ox"
  shows "FromBytes (go_codec ff) (ac_bytes (go_codec ff) ac) = Inr (read_back ac) \<and> AreEqual ac (read_back ac) \<and>
    map (\<lambda>p. (p_Name p, p_FeatureCompatibilityVersion p, GetPort ox p)) (ac_Processes (read_back ac)) =
    map (\<lambda>p. (p_Name p, p_FeatureCompatibilityVersion p, GetPort ox p)) (ac_Processes ac)"
proof (intro conjI)
  show "FromBytes (go_codec ff) (ac_bytes (go_codec ff) ac) = Inr (read_back ac)"
    by (rule FromBytes_written) (simp add: go_codec_def ac_bytes_def parse_print_json[OF assms(1)])
  show "AreEqual ac (read_back ac)"
    using marshal_with_version[where a = ac and b = "read_back ac" and v = "ac_Version ac" and w = "ac_Version (read_back ac)"]
    by (simp add: AreEqual_def read_back_def marshal_read_back[unfolded read_back_def])
qed (simp add: objx_reading.GetPort_read_back[OF assms(2)])

definition demo_float_format :: float_format where
  "demo_float_format = \<lparr>FormatFloat = (\<lambda>_. ''0.5''), ParseFloat = (\<lambda>_. 1 / 2)\<rparr>"

definition demo_config :: automation_config where
  "demo_config = zero_AutomationConfig\<lparr>ac_Version := 3, ac_Processes := [zero_Process\<lparr>p_Name := ''mdb-0'',
     p_Args26 := Some [(''net'', VMap [(''port'', VInt 27018)])], p_LogRotate := Some (zero_AcLogRotate\<lparr>aclr_SizeThresholdMB := 1 / 2\<rparr>)\<rparr>]\<rparr>"

theorem FromBytes_reads_written_config_witness:
  "\<exists>p. FromBytes (go_codec demo_float_format) (ac_bytes (go_codec demo_float_format) demo_config) =
     Inr (demo_config\<lparr>ac_Processes := [p]\<rparr>) \<and> p_Args26 p = Some [(''net'', VMap [(''port'', VFloat 27018)])] \<and> GetPort nested_objx p = 27018"
proof -
  have "writable demo_float_format (marshal_AutomationConfig demo_config)" by code_simp
  note written = FromBytes_reads_written_config[OF this nested_reading.objx_reading_axioms]
  show ?thesis
    using written by (auto simp: demo_config_def read_back_def Process_read_back_def map_read_back_def zero_AutomationConfig_def
        GetPort_def nested_objx_def split_dots.simps)
qed

end
