(* ===== verification/Spec2Isabelle.thy ===== *)
theory Spec2Isabelle
  imports Flow State_Machine Scaling Validation Agent Merge Status Deployment Pod_Wiring Agent_Wiring Steady Sts_Builder Deep_Copies Json_Text
begin

text \<open>
  Verification of the MongoDB Community Kubernetes Operator.

  \<^bold>\<open>The program.\<close>  The operator turns a \<open>MongoDBCommunity\<close> resource (\<open>api/v1\<close>) into a running
  replica set.  Its reconciler (\<open>controllers/replica_set_controller.go\<close>) validates the resource, keeps
  a service and the secrets for TLS, Prometheus and the users, and deploys two things in an order
  that depends on the situation: a StatefulSet (\<open>controllers/construct\<close>, \<open>pkg/kube\<close>) and an
  automation config (\<open>pkg/automationconfig\<close>, \<open>pkg/authentication\<close>), the goal state that the agents in
  the pods work towards.  Inside a pod run the agent (third-party), the readiness probe
  (\<open>cmd/readiness\<close>, \<open>pkg/readiness\<close>), which publishes the version its agent has reached, and the version
  hook (\<open>cmd/versionhook\<close>), which replaces the pod during a change of version.  The operator reads the
  published versions (\<open>pkg/agent\<close>) before it takes the next step, and writes the outcome into the
  status (\<open>pkg/util/status\<close>).

  \<^bold>\<open>Conventions.\<close>  A Go struct is a record, an enumeration a datatype, \<open>int\<close> and \<open>int64\<close> are \<open>int\<close>, an
  \<open>int32\<close> that is converted to is a 32-bit word, a string is the list of its bytes.  A pointer, or a slice
  the code compares with \<open>nil\<close>, is an option.  A map is an association list; where Go's iteration order
  shows, it is the parameter \<open>order\<close>, a permutation of the keys.  A call that may fail returns a value
  of \<open>fallible\<close>; a panic is such an error too.  A stateful call is a function \<open>'w \<Rightarrow> 'a \<times> 'w\<close> over an
  arbitrary world \<open>'w\<close>, composed by \<open>eff_bind\<close>.  Values are immutable
  except in \<open>Crd_Wrappers\<close> and \<open>Deep_Copies\<close>.

  Code outside the repository is a parameter: the Kubernetes API (\<open>kube_client\<close>, \<open>clientset\<close>), \<open>objx\<close>,
  \<open>semver\<close>, \<open>cast\<close>, \<open>mergo\<close>, SASLprep, X.509 parsing, \<open>ParseQuantity\<close>, the validation of DNS names, the
  text of JSON documents (except the config's, \<open>go_codec\<close>).  What the operator relies on is stated as the assumptions of locales
  (\<open>object_store\<close>, \<open>secret_store\<close>, \<open>objx_laws\<close>, \<open>deployment\<close>, \<open>pod_patching\<close>, \<open>hook_cluster\<close>,
  \<open>resource_store\<close>, \<open>operated_cluster\<close>, \<open>mocked_operator\<close>, \<open>k8s_copying\<close> and others), and
  every locale is interpreted: on the mocked client of the repository's own tests
  (\<open>pkg/kube/client/mocked_client.go\<close>, \<open>mockedClient\<close>), or on concrete functions.

  \<^bold>\<open>Theories.\<close>
  \<^item> \<open>Prelude\<close>: errors, effects and what they preserve, decimal printing, strings, maps.  \<open>Go_Values\<close>:
    untyped values, \<open>objx\<close> and its laws.
  \<^item> \<open>Flow\<close> (\<open>pkg/util/functions\<close>, \<open>result\<close>, part of \<open>status\<close>), \<open>Scale\<close> (\<open>pkg/util/scale\<close>),
    \<open>State_Machine\<close> (\<open>pkg/util/state\<close>): the control structures, each with a locale for its client.
  \<^item> \<open>Automation_Config\<close>, \<open>AC_Builder\<close> (\<open>pkg/automationconfig\<close>, \<open>pkg/util/versions\<close>): the config, its JSON
    encoding, the builder.  Shown: votes, well-formedness, stability, feature compatibility version.
    \<open>AC_Json\<close>, \<open>Json_Text\<close>: decoding into the structs and the text, as \<open>encoding/json\<close> has them; a config that
    is written is read back.
  \<^item> \<open>Agent\<close> (\<open>pkg/agent\<close>): goal states of pods, and the manager that changes ports one pod at a time.
  \<^item> \<open>K8s_Types\<close>, \<open>Mdb_Types\<close> (\<open>api/v1\<close>, \<open>authtypes\<close>, \<open>constants\<close>): Kubernetes objects as far as they are
    used, and the custom resource with its methods.  \<open>Scaling\<close>: how the four replica counts of the
    status move.  \<open>Validation\<close> (\<open>controllers/validation\<close>): which specs are accepted.
  \<^item> \<open>Kube_Client\<close>, \<open>Kube_Objects\<close> (\<open>pkg/kube/client\<close>, \<open>secret\<close>, \<open>configmap\<close>, \<open>service\<close>,
    \<open>automation_config_secret.go\<close>): the typed client, the mock, helpers and builders.
  \<^item> \<open>Merge\<close> (\<open>pkg/util/merge\<close>, \<open>envvar\<close>): merging what the operator builds with what the user overrides;
    the locale \<open>keyed_merge\<close> shows that the iteration order does not matter.
  \<^item> \<open>Status\<close> (\<open>pkg/util/status\<close>, \<open>mongodb_status_options.go\<close>, \<open>watch\<close>, \<open>predicates\<close>).
  \<^item> \<open>Crypto\<close> (the hashes, HMAC and base64 of Go's library), \<open>Scram_Credentials\<close> (\<open>scramcredentials\<close>,
    \<open>generate\<close>), \<open>Authentication\<close> (\<open>pkg/authentication\<close>): SCRAM credentials as in RFC 5802, stable across
    reconciliations; every user configured once.
  \<^item> \<open>Resources\<close> (\<open>mongodb_tls.go\<close>, \<open>mongodb_users.go\<close>, \<open>mongodb_cleanup.go\<close>, \<open>prometheus.go\<close>).
  \<^item> \<open>Sts_Modifications\<close> (\<open>pkg/kube/statefulset\<close>, \<open>podtemplatespec\<close>, \<open>container\<close>, \<open>probes\<close>, \<open>lifecycle\<close>,
    \<open>persistentvolumeclaim\<close>, \<open>resourcerequirements\<close>), \<open>Construct\<close> (\<open>controllers/construct\<close>): the StatefulSet.
    \<open>Sts_Builder\<close>: the builder of \<open>pkg/kube/statefulset\<close> and the setters for affinity and probe handlers,
    which the operator itself does not call.
  \<^item> \<open>Crd_Wrappers\<close> (\<open>api/v1\<close>): the wrappers of the custom resource around untyped maps, with their JSON
    decoding and hand-written copies, on an explicit store since sharing shows there.
  \<^item> \<open>Deep_Copies\<close> (the two \<open>zz_generated.deepcopy.go\<close>): the generated copies on a heap of cells, \<open>go_heap\<close>.  A copy of
    a resource reads as the original and shares no cell with it, up to the overrides of the StatefulSet.
  \<^item> \<open>Controller\<close> (\<open>replica_set_controller.go\<close>, \<open>pkg/kube/annotations\<close>): \<open>Reconcile\<close> with everything it calls.
    \<open>Deployment\<close>: in which order the two deployments happen and what each waits for.
  \<^item> \<open>Operator\<close> (\<open>cmd/manager\<close>, \<open>SetupWithManager\<close>, \<open>controllers/watch\<close>): start-up from the environment, and the
    requests that an event in the cluster leads to.  \<open>Settling\<close>: when a request is dropped, and what a
    reconciliation leaves alone.  \<open>System\<close>: operator, users, cluster and notifications as steps of one
    transition system \<open>sys_step\<close>; in every reachable state a resource whose present spec was not rolled out is queued or
    has a notification under way.  \<open>First_Run\<close>: on the mocked cluster one reconciliation of a plain new
    resource succeeds at every step and ends \<open>Running\<close>.  \<open>Steady\<close>: from then on, whatever happens in the
    cluster besides, every reconciliation builds the config that is stored, changes no secret, and ends
    \<open>Running\<close> when the agents are done; of the JSON text it only assumes that it parses to the tree it was written from.
  \<^item> \<open>Readiness\<close>, \<open>Version_Hook\<close>: the two programs inside the pod, up to their exit codes.
  \<^item> \<open>Pod_Wiring\<close>, \<open>Agent_Wiring\<close>: the parts together.  The files that TLS settings name are in the containers;
    probe and hook find their configuration and the agent's health file; rebuilding changes nothing.

  \<^bold>\<open>Termination and bounds.\<close>  Every definition is total.  All loops but one recur on their data; the poll
  of the version hook (\<open>poll_health\<close>) counts time up to sixty seconds and has a measure.  Iterated
  reconciliations (scaling, ports, state machine) are sequences of steps, and the liveness theorems
  give the number of steps that is enough.  Waiting for ever (the end of the version hook) is a value
  of \<open>hook_end\<close>.

  \<^bold>\<open>Not modelled.\<close>  Logging, the JSON text of documents other than the config, the methods of the mocked
  manager that return nothing, and the drivers of the end-to-end tests.  Strings are treated as ASCII by
  \<open>ToLower\<close> and \<open>TrimSpace\<close>; \<open>float64\<close> values are rational numbers, without rounding.

  \<^bold>\<open>Open.\<close>  \<open>System\<close> shows safety for every interleaving.  Progress is shown for a new resource without TLS
  and users, in its first reconciliation (\<open>First_Run\<close>) and every later one whatever the agents do meanwhile
  (\<open>Steady\<close>), and for the parts (scaling, ports, state machine).  That an edit of the spec of a running
  resource converges when agents and the StatefulSet controller are fair is not shown for the whole system.
  \<open>rolled_out\<close> does not speak of the arbiters' StatefulSet, which the operator does not wait for.
\<close>

end
